(* ===== verification/Prelude.thy ===== *)
theory Prelude
  imports Main "HOL-Library.Word" "HOL-Library.Multiset"
begin

text \<open>
  The vocabulary every component shares: the machine integers of the Rust code, the
  stateful computations that may fail (\<open>Result<T, Error>\<close> over a mutable wallet), the
  loops over vectors, and the generic facts on word sums, sorting and slices that the
  component proofs use.

  A Rust function that takes \<open>&mut wallet\<close> and returns \<open>Result<T, Error>\<close> is a
  \<open>proc\<close>: from a state to a result and the state left behind. The state is returned on
  the error branch too, because an early return does not undo what was already written.
\<close>

unbundle bit_operations_syntax

named_theorems keeps_intros \<open>introduction rules that push an invariant through a proc\<close>
named_theorems proc_simps \<open>unfolding the combinators of procs\<close>

section \<open>Machine integers\<close>

type_synonym u8 = "8 word"
type_synonym u16 = "16 word"
type_synonym u32 = "32 word"
type_synonym u64 = "64 word"
type_synonym bytes = "u8 list"

section \<open>Computations with state and errors\<close>

type_synonym ('s, 'e, 'a) proc = "'s \<Rightarrow> ('e + 'a) \<times> 's"

definition ret :: "'a \<Rightarrow> ('s, 'e, 'a) proc" where
  "ret x = (\<lambda>s. (Inr x, s))"

definition throw :: "'e \<Rightarrow> ('s, 'e, 'a) proc" where
  "throw e = (\<lambda>s. (Inl e, s))"

definition bindE :: "('s, 'e, 'a) proc \<Rightarrow> ('a \<Rightarrow> ('s, 'e, 'b) proc) \<Rightarrow> ('s, 'e, 'b) proc" where
  "bindE m f = (\<lambda>s. case m s of (Inl e, s') \<Rightarrow> (Inl e, s') | (Inr x, s') \<Rightarrow> f x s')"

text \<open>A pure \<open>Result\<close> followed by \<open>?\<close>.\<close>

definition liftE :: "'e + 'a \<Rightarrow> ('s, 'e, 'a) proc" where
  "liftE r = (\<lambda>s. (r, s))"

definition gets :: "('s \<Rightarrow> 'a) \<Rightarrow> ('s, 'e, 'a) proc" where
  "gets f = (\<lambda>s. (Inr (f s), s))"

definition modify :: "('s \<Rightarrow> 's) \<Rightarrow> ('s, 'e, unit) proc" where
  "modify f = (\<lambda>s. (Inr (), f s))"

text \<open>A chain of pure \<open>Result\<close>s, and a loop over a vector that only checks.\<close>

definition and_then :: "'e + 'a \<Rightarrow> ('a \<Rightarrow> 'e + 'b) \<Rightarrow> 'e + 'b" where
  "and_then r f = (case r of Inl e \<Rightarrow> Inl e | Inr x \<Rightarrow> f x)"

fun check_each :: "('x \<Rightarrow> 'e + unit) \<Rightarrow> 'x list \<Rightarrow> 'e + unit" where
  "check_each f [] = Inr ()"
| "check_each f (x # xs) = and_then (f x) (\<lambda>_. check_each f xs)"

text \<open>\<open>iter().map(f).collect()\<close> for an \<open>f\<close> that may panic.\<close>

fun map_each :: "('x \<Rightarrow> 'e + 'y) \<Rightarrow> 'x list \<Rightarrow> 'e + 'y list" where
  "map_each f [] = Inr []"
| "map_each f (x # xs) = and_then (f x) (\<lambda>y. and_then (map_each f xs) (\<lambda>ys. Inr (y # ys)))"

text \<open>An expression whose error is looked at instead of being propagated.\<close>

definition attempt :: "('s, 'e, 'a) proc \<Rightarrow> ('s, 'e, 'e + 'a) proc" where
  "attempt m = (\<lambda>s. case m s of (r, s') \<Rightarrow> (Inr r, s'))"

text \<open>\<open>for x in xs { body }\<close>, leaving at the first error.\<close>

fun for_each :: "('x \<Rightarrow> ('s, 'e, unit) proc) \<Rightarrow> 'x list \<Rightarrow> ('s, 'e, unit) proc" where
  "for_each f [] = ret ()"
| "for_each f (x # xs) = bindE (f x) (\<lambda>_. for_each f xs)"

text \<open>A loop that threads local variables as well.\<close>

fun fold_each :: "('x \<Rightarrow> 'a \<Rightarrow> ('s, 'e, 'a) proc) \<Rightarrow> 'x list \<Rightarrow> 'a \<Rightarrow> ('s, 'e, 'a) proc" where
  "fold_each f [] a = ret a"
| "fold_each f (x # xs) a = bindE (f x a) (fold_each f xs)"

lemma ret_app [simp, proc_simps]: "ret x s = (Inr x, s)"
  by (simp add: ret_def)

lemma throw_app [simp, proc_simps]: "throw e s = (Inl e, s)"
  by (simp add: throw_def)

lemma liftE_app [simp, proc_simps]: "liftE r s = (r, s)"
  by (simp add: liftE_def)

lemma gets_app [simp, proc_simps]: "gets f s = (Inr (f s), s)"
  by (simp add: gets_def)

lemma modify_app [simp, proc_simps]: "modify f s = (Inr (), f s)"
  by (simp add: modify_def)

lemma and_then_simps [simp]: "and_then (Inl e) f = Inl e" "and_then (Inr x) f = f x"
  by (simp_all add: and_then_def)

lemma and_then_eq_Inr: "and_then r f = Inr y \<longleftrightarrow> (\<exists>x. r = Inr x \<and> f x = Inr y)"
  by (cases r) simp_all

lemma check_each_ok: "check_each f xs = Inr () \<longleftrightarrow> (\<forall>x \<in> set xs. f x = Inr ())"
  by (induction xs) (auto simp: and_then_eq_Inr)

lemma bindE_Inr [simp]: "m s = (Inr x, s') \<Longrightarrow> bindE m f s = f x s'"
  by (simp add: bindE_def)

lemma bindE_Inl [simp]: "m s = (Inl e, s') \<Longrightarrow> bindE m f s = (Inl e, s')"
  by (simp add: bindE_def)

lemma bindE_app: "bindE m f s = (case m s of (Inl e, s') \<Rightarrow> (Inl e, s') | (Inr x, s') \<Rightarrow> f x s')"
  by (simp add: bindE_def)

lemma attempt_app: "attempt m s = (Inr (fst (m s)), snd (m s))"
  by (simp add: attempt_def split: prod.splits)

text \<open>A success of a sequence is a success of both parts: how a run is taken apart.\<close>

lemma bindE_eq_Inr:
  "bindE m f s = (Inr y, t) \<longleftrightarrow> (\<exists>x s'. m s = (Inr x, s') \<and> f x s' = (Inr y, t))"
  by (auto simp: bindE_def split: prod.splits sum.splits)

lemma bindE_eq_Inl:
  "bindE m f s = (Inl e, t) \<longleftrightarrow>
     m s = (Inl e, t) \<or> (\<exists>x s'. m s = (Inr x, s') \<and> f x s' = (Inl e, t))"
  by (auto simp: bindE_def split: prod.splits sum.splits)

section \<open>Invariants of procs\<close>

text \<open>\<open>keeps I m\<close>: whatever \<open>m\<close> returns, error or value, the invariant holds afterwards.\<close>

definition keeps :: "('s \<Rightarrow> bool) \<Rightarrow> ('s, 'e, 'a) proc \<Rightarrow> bool" where
  "keeps I m \<longleftrightarrow> (\<forall>s. I s \<longrightarrow> I (snd (m s)))"

lemma keepsI: "(\<And>s. I s \<Longrightarrow> I (snd (m s))) \<Longrightarrow> keeps I m"
  by (simp add: keeps_def)

lemma keepsD: "keeps I m \<Longrightarrow> I s \<Longrightarrow> I (snd (m s))"
  by (simp add: keeps_def)

lemma keepsE: "keeps I m \<Longrightarrow> I s \<Longrightarrow> m s = (r, s') \<Longrightarrow> I s'"
  by (metis keepsD snd_conv)

lemma keeps_ret [keeps_intros]: "keeps I (ret x)"
  by (simp add: keeps_def)

lemma keeps_throw [keeps_intros]: "keeps I (throw e)"
  by (simp add: keeps_def)

lemma keeps_liftE [keeps_intros]: "keeps I (liftE r)"
  by (simp add: keeps_def)

lemma keeps_gets [keeps_intros]: "keeps I (gets f)"
  by (simp add: keeps_def)

lemma keeps_modify [keeps_intros]: "(\<And>s. I s \<Longrightarrow> I (f s)) \<Longrightarrow> keeps I (modify f)"
  by (simp add: keeps_def)

lemma keeps_bindE [keeps_intros]:
  assumes "keeps I m" and "\<And>x. keeps I (f x)"
  shows "keeps I (bindE m f)"
proof (rule keepsI)
  fix s assume "I s"
  obtain r s' where m: "m s = (r, s')" by fastforce
  with assms(1) \<open>I s\<close> have "I s'" by (rule_tac keepsE)
  then show "I (snd (bindE m f s))"
    using m assms(2) by (cases r) (simp_all add: keepsD)
qed

lemma keeps_attempt [keeps_intros]: "keeps I m \<Longrightarrow> keeps I (attempt m)"
  by (simp add: keeps_def attempt_app)

lemma keeps_for_each [keeps_intros]:
  "(\<And>x. x \<in> set xs \<Longrightarrow> keeps I (f x)) \<Longrightarrow> keeps I (for_each f xs)"
  by (induction xs) (auto intro!: keeps_intros)

lemma keeps_fold_each [keeps_intros]:
  "(\<And>x a. x \<in> set xs \<Longrightarrow> keeps I (f x a)) \<Longrightarrow> keeps I (fold_each f xs a)"
  by (induction xs arbitrary: a) (auto intro!: keeps_intros)

lemma keeps_if [keeps_intros]: "keeps I m \<Longrightarrow> keeps I n \<Longrightarrow> keeps I (if b then m else n)"
  by simp

lemma keeps_case_option [keeps_intros]:
  "keeps I m \<Longrightarrow> (\<And>x. keeps I (f x)) \<Longrightarrow> keeps I (case x of None \<Rightarrow> m | Some x \<Rightarrow> f x)"
  by (cases x) simp_all

lemma keeps_case_sum [keeps_intros]:
  "(\<And>e. keeps I (f e)) \<Longrightarrow> (\<And>x. keeps I (g x)) \<Longrightarrow>
   keeps I (case r of Inl e \<Rightarrow> f e | Inr x \<Rightarrow> g x)"
  by (cases r) simp_all

lemma keeps_case_prod [keeps_intros]:
  "(\<And>a b. keeps I (f a b)) \<Longrightarrow> keeps I (case p of (a, b) \<Rightarrow> f a b)"
  by (cases p) simp

section \<open>Sums of words\<close>

text \<open>Amounts are \<open>u64\<close>; a sum that does not reach \<open>2 ^ 64\<close> is the sum of the amounts.\<close>

lemma unat_sum_list:
  fixes ws :: "'a::len word list"
  assumes "sum_list (map unat ws) < 2 ^ LENGTH('a)"
  shows "unat (sum_list ws) = sum_list (map unat ws)"
  using assms
proof (induction ws)
  case Nil
  then show ?case by simp
next
  case (Cons w ws)
  then have "unat (sum_list ws) = sum_list (map unat ws)" by simp
  then show ?case
    using Cons.prems by (simp add: unat_word_ariths)
qed

lemma unat_add_exact:
  fixes a b :: "'a::len word"
  shows "unat a + unat b < 2 ^ LENGTH('a) \<Longrightarrow> unat (a + b) = unat a + unat b"
  by (simp add: unat_word_ariths)

lemma sum_list_mset_le:
  fixes f :: "'a \<Rightarrow> nat"
  assumes "mset xs \<subseteq># mset ys"
  shows "sum_list (map f xs) \<le> sum_list (map f ys)"
proof -
  obtain zs where "mset ys = mset xs + zs" using assms by (metis mset_subset_eq_exists_conv)
  then have "sum_mset (image_mset f (mset ys)) = sum_mset (image_mset f (mset xs)) + sum_mset (image_mset f zs)"
    by simp
  then show ?thesis by (simp add: sum_mset_sum_list mset_map[symmetric] del: mset_map)
qed

lemma sum_list_filter_le: "sum_list (map f (filter P xs)) \<le> (sum_list (map f xs) :: nat)"
  by (induction xs) auto

lemma sum_list_takeWhile_le: "sum_list (map f (take n xs)) \<le> (sum_list (map f xs) :: nat)"
  by (metis append_take_drop_id le_add1 map_append sum_list_append)

section \<open>Sorting and slices\<close>

text \<open>
  \<open>sort_by_key\<close> is stable, as \<open>sort_key\<close> is. \<open>windows n\<close> lists the contiguous slices of
  length \<open>n\<close>; the standard library panics for \<open>n = 0\<close>, which the caller models.
\<close>

fun windows :: "nat \<Rightarrow> 'a list \<Rightarrow> 'a list list" where
  "windows n [] = []"
| "windows n (x # xs) = (if length (x # xs) < n then [] else take n (x # xs) # windows n xs)"

lemma windows_slice: "w \<in> set (windows n xs) \<Longrightarrow> \<exists>i. w = take n (drop i xs)"
proof (induction xs)
  case Nil
  then show ?case by simp
next
  case (Cons x xs)
  show ?case
  proof (cases "w = take n (x # xs)")
    case True
    then have "w = take n (drop 0 (x # xs))" by simp
    then show ?thesis by blast
  next
    case False
    with Cons.prems have "w \<in> set (windows n xs)" by (auto split: if_splits)
    then obtain i where "w = take n (drop i xs)" using Cons.IH by blast
    then have "w = take n (drop (Suc i) (x # xs))" by simp
    then show ?thesis by blast
  qed
qed

lemma mset_take_subseteq: "mset (take n xs) \<subseteq># mset xs"
  by (metis append_take_drop_id mset_append mset_subset_eq_add_left)

lemma mset_drop_subseteq: "mset (drop n xs) \<subseteq># mset xs"
  by (metis append_take_drop_id mset_append mset_subset_eq_add_right)

lemma windows_mset: "w \<in> set (windows n xs) \<Longrightarrow> mset w \<subseteq># mset xs"
  by (metis mset_drop_subseteq mset_take_subseteq subset_mset.order_trans windows_slice)

lemma mset_takeWhile_subseteq: "mset (takeWhile P xs) \<subseteq># mset xs"
  by (metis mset_append mset_subset_eq_add_left takeWhile_dropWhile_id)

lemma mset_subseteq_set: "mset xs \<subseteq># mset ys \<Longrightarrow> set xs \<subseteq> set ys"
  by (metis mset_subset_eqD set_mset_mset subsetI)

lemma mset_subseteq_distinct: "mset xs \<subseteq># mset ys \<Longrightarrow> distinct ys \<Longrightarrow> distinct xs"
  by (metis distinct_append ex_mset mset_append mset_eq_imp_distinct_iff mset_subset_eq_exists_conv)

text \<open>\<open>a - b\<close> on \<open>usize\<close> in a release build: it wraps at \<open>2 ^ 64\<close>.\<close>

definition usize_sub :: "nat \<Rightarrow> nat \<Rightarrow> nat" where
  "usize_sub a b = (if b \<le> a then a - b else 2 ^ 64 + a - b)"

text \<open>The Rust idiom \<open>xs.into_iter().skip(start).take(n)\<close>.\<close>

definition skip_take :: "nat \<Rightarrow> nat \<Rightarrow> 'a list \<Rightarrow> 'a list" where
  "skip_take start n xs = take n (drop start xs)"

lemma set_skip_take: "set (skip_take a n xs) \<subseteq> set xs"
  by (metis skip_take_def set_drop_subset set_take_subset subset_trans)

lemma skip_take_all: "length xs \<le> n \<Longrightarrow> skip_take 0 n xs = xs"
  by (simp add: skip_take_def)

lemma map_each_ok: "map_each f xs = Inr ys \<longleftrightarrow> map f xs = map Inr ys"
  by (induction xs arbitrary: ys) (auto simp: and_then_eq_Inr Cons_eq_map_conv)

text \<open>\<open>a + b\<close> on \<open>usize\<close>, wrapping as well.\<close>

definition usize_add :: "nat \<Rightarrow> nat \<Rightarrow> nat" where
  "usize_add a b = (a + b) mod 2 ^ 64"

section \<open>Descending order\<close>

text \<open>\<open>std::cmp::Reverse\<close>: the same values in the opposite order.\<close>

datatype 'a Reverse = Reverse (unreverse: 'a)

instantiation Reverse :: (linorder) linorder
begin

definition less_eq_Reverse :: "'a Reverse \<Rightarrow> 'a Reverse \<Rightarrow> bool" where
  "less_eq_Reverse a b \<longleftrightarrow> unreverse b \<le> unreverse a"

definition less_Reverse :: "'a Reverse \<Rightarrow> 'a Reverse \<Rightarrow> bool" where
  "less_Reverse a b \<longleftrightarrow> unreverse b < unreverse a"

instance
  by standard (auto simp: less_eq_Reverse_def less_Reverse_def intro: Reverse.expand)

end

lemma Reverse_le [simp]: "Reverse a \<le> Reverse b \<longleftrightarrow> b \<le> a"
  by (simp add: less_eq_Reverse_def)

section \<open>Decimal numbers\<close>

text \<open>\<open>to_string\<close> of an unsigned integer.\<close>

fun decimal :: "nat \<Rightarrow> string" where
  "decimal n = (if n < 10 then [char_of (48 + n)] else decimal (n div 10) @ [char_of (48 + n mod 10)])"

declare decimal.simps [simp del]

end
