(* ===== verification/Types.thy ===== *)
theory Types
  imports Prelude
begin

text \<open>
  The data model of \<open>libwallet/src/types.rs\<close>, the participant messages of
  \<open>libwallet/src/slate.rs\<close> that a log entry stores, and the error type of
  \<open>libwallet/src/error.rs\<close>, with the methods the code gives these types.

  Values of foreign crates are kept as the bytes they are: keys, commitments, signatures
  and range proofs are byte strings, an \<open>Identifier\<close> is its 17 bytes and a \<open>Uuid\<close> its
  16. A Rust \<open>String\<close> is the list of its UTF-8 bytes, a timestamp an integer.
\<close>

section \<open>Values of foreign crates\<close>

type_synonym SecretKey = bytes
type_synonym PublicKey = bytes
type_synonym Commitment = bytes
type_synonym RangeProof = bytes
type_synonym Signature = bytes
type_synonym BlindingFactor = bytes
type_synonym DalekPublicKey = bytes
type_synonym DalekSignature = bytes
type_synonym Keychain = bytes
type_synonym OutputFeatures = u8
type_synonym timestamp = int

datatype Identifier = Identifier (identifier_bits: "136 word")
datatype Uuid = Uuid (uuid_bits: "128 word")

text \<open>\<open>ExtKeychainPath\<close>: the depth and the four child numbers of an identifier.\<close>

record ext_path =
  depth :: u8
  path :: "u32 list"

section \<open>Errors\<close>

text \<open>
  The constructors the modelled code raises. The payload of a wrapped foreign error is its
  rendered message. \<open>Panic\<close> is an \<open>unwrap\<close>, an out-of-range index or a division by zero;
  \<open>Diverges\<close> stands for a loop that did not stop within its fuel.
\<close>

datatype error =
    NotEnoughFunds u64 string u64 string
  | Fee string
  | LibTX string
  | LibTXReward string
  | KeychainError string
  | TransactionError string
  | Secp string
  | Backend string
  | StdIO string
  | Node
  | NodeStatusError string
  | SignatureError string
  | TransactionDoesntExist string
  | TransactionNotCancellable string
  | TransactionCancellationError string
  | TransactionAlreadyReceived string
  | AccountLabelAlreadyExists string
  | UnknownAccountLabel string
  | SlateVersionParse
  | SlateSer
  | SlateDeser
  | SlateVersionError u16
  | KeychainDoesntExist
  | InvalidKeychainMask
  | ED25519Key string
  | PaymentProofError string
  | PaymentProofRetrieval string
  | PaymentProofParsing string
  | AddressDecoding string
  | TransactionExpired
  | FromSqlite int
  | InvalidBase58Character char nat
  | InvalidBase58Length
  | InvalidBase58Checksum
  | InvalidBase58Version
  | InvalidBase58Key
  | NumberParsingError
  | Encryption
  | Decryption
  | EpicboxAddressParsingError string
  | NotFoundErr string
  | Lifecycle string
  | WalletSeedExists string
  | CallbackImpl string
  | LibWallet string
  | EpicboxReconnectLimit
  | ClientCallback string
  | APIEncryption string
  | ArgumentError string
  | WalletComms string
  | Compatibility string
  | TorConfigError string
  | IOError string
  | CancelledError
  | Unauthorized
  | NotFound
  | BadRequest string
  | InternalServerError string
  | GenericError string
  | Panic string
  | Diverges

section \<open>Outputs\<close>

datatype OutputStatus = Unconfirmed | Unspent | Locked | Spent | Deleted

definition output_status_fmt :: "OutputStatus \<Rightarrow> string" where
  "output_status_fmt s = (case s of
      Unconfirmed \<Rightarrow> ''Unconfirmed'' | Unspent \<Rightarrow> ''Unspent'' | Locked \<Rightarrow> ''Locked''
    | Spent \<Rightarrow> ''Spent'' | Deleted \<Rightarrow> ''Deleted'')"

record OutputData =
  od_root_key_id :: Identifier
  od_key_id :: Identifier
  od_n_child :: u32
  od_commit :: "string option"
  od_mmr_index :: "u64 option"
  od_value :: u64
  od_status :: OutputStatus
  od_height :: u64
  od_lock_height :: u64
  od_is_coinbase :: bool
  od_tx_log_entry :: "u32 option"

definition lock :: "OutputData \<Rightarrow> OutputData" where
  "lock out = out\<lparr>od_status := Locked\<rparr>"

definition num_confirmations :: "OutputData \<Rightarrow> u64 \<Rightarrow> u64" where
  "num_confirmations out current_height =
     (if od_height out > current_height then 0
      else if od_status out = Unconfirmed then 0
      else 1 + (current_height - od_height out))"

definition eligible_to_spend :: "OutputData \<Rightarrow> u64 \<Rightarrow> u64 \<Rightarrow> bool" where
  "eligible_to_spend out current_height minimum_confirmations =
     (if od_status out \<in> set [Spent, Locked] then False
      else if od_status out = Unconfirmed \<and> od_is_coinbase out then False
      else if od_lock_height out > current_height then False
      else if od_status out = Unspent
              \<and> num_confirmations out current_height \<ge> minimum_confirmations then True
      else if od_status out = Unconfirmed \<and> minimum_confirmations = 0 then True
      else False)"

definition mark_unspent :: "OutputData \<Rightarrow> OutputData" where
  "mark_unspent out = (case od_status out of
      Unconfirmed \<Rightarrow> out\<lparr>od_status := Unspent\<rparr>
    | _ \<Rightarrow> out)"

definition mark_spent :: "OutputData \<Rightarrow> OutputData" where
  "mark_spent out = (case od_status out of
      Unspent \<Rightarrow> out\<lparr>od_status := Spent\<rparr>
    | Locked \<Rightarrow> out\<lparr>od_status := Spent\<rparr>
    | _ \<Rightarrow> out)"

section \<open>The transaction log\<close>

record ParticipantMessageData =
  pm_id :: u64
  pm_public_key :: PublicKey
  pm_message :: "string option"
  pm_message_sig :: "Signature option"

record ParticipantMessages =
  messages :: "ParticipantMessageData list"

datatype TxLogEntryType =
    ConfirmedCoinbase | TxReceived | TxSent | TxReceivedCancelled | TxSentCancelled
  | TxSentMempool | TxReceivedMempool | TxSentCreated

definition tx_log_entry_type_fmt :: "TxLogEntryType \<Rightarrow> string" where
  "tx_log_entry_type_fmt t = (case t of
      ConfirmedCoinbase \<Rightarrow> ''Coinbase Confirmed''
    | TxReceived \<Rightarrow> ''Received''
    | TxSent \<Rightarrow> ''Sent''
    | TxReceivedCancelled \<Rightarrow> ''Received (Cancelled)''
    | TxSentCancelled \<Rightarrow> ''Sent (Cancelled)''
    | TxSentMempool \<Rightarrow> ''Sent (Mempool)''
    | TxReceivedMempool \<Rightarrow> ''Received (Mempool)''
    | TxSentCreated \<Rightarrow> ''Sent (Created)'')"

record StoredProofInfo =
  sp_receiver_address :: DalekPublicKey
  sp_receiver_signature :: "DalekSignature option"
  sp_sender_address_path :: u32
  sp_sender_address :: DalekPublicKey
  sp_sender_signature :: "DalekSignature option"

record TxLogEntry =
  tl_confirmation_height :: "u64 option"
  tl_parent_key_id :: Identifier
  tl_id :: u32
  tl_tx_slate_id :: "Uuid option"
  tl_tx_type :: TxLogEntryType
  tl_creation_ts :: timestamp
  tl_confirmation_ts :: "timestamp option"
  tl_confirmed :: bool
  tl_num_inputs :: nat
  tl_num_outputs :: nat
  tl_amount_credited :: u64
  tl_amount_debited :: u64
  tl_fee :: "u64 option"
  tl_ttl_cutoff_height :: "u64 option"
  tl_messages :: "ParticipantMessages option"
  tl_stored_tx :: "string option"
  tl_kernel_excess :: "Commitment option"
  tl_kernel_lookup_min_height :: "u64 option"
  tl_payment_proof :: "StoredProofInfo option"
  tl_public_addr :: "string option"

text \<open>\<open>TxLogEntry::new\<close>; the first argument is what \<open>Utc::now()\<close> returned.\<close>

definition tx_log_entry_new :: "timestamp \<Rightarrow> Identifier \<Rightarrow> TxLogEntryType \<Rightarrow> u32 \<Rightarrow> TxLogEntry" where
  "tx_log_entry_new now parent_key_id t i =
     \<lparr>tl_confirmation_height = None, tl_parent_key_id = parent_key_id, tl_id = i,
      tl_tx_slate_id = None, tl_tx_type = t, tl_creation_ts = now, tl_confirmation_ts = None,
      tl_confirmed = False, tl_num_inputs = 0, tl_num_outputs = 0, tl_amount_credited = 0,
      tl_amount_debited = 0, tl_fee = None, tl_ttl_cutoff_height = None, tl_messages = None,
      tl_stored_tx = None, tl_kernel_excess = None, tl_kernel_lookup_min_height = None,
      tl_payment_proof = None, tl_public_addr = None\<rparr>"

definition sum_confirmed :: "TxLogEntry list \<Rightarrow> u64 \<times> u64" where
  "sum_confirmed txs =
     foldl (\<lambda>acc tx. if tl_confirmed tx
                      then (fst acc + tl_amount_credited tx, snd acc + tl_amount_debited tx)
                      else acc) (0, 0) txs"

definition update_confirmation_ts :: "timestamp \<Rightarrow> TxLogEntry \<Rightarrow> TxLogEntry" where
  "update_confirmation_ts now t = t\<lparr>tl_confirmation_ts := Some now\<rparr>"

section \<open>Accounts, scans and the signing context\<close>

record AcctPathMapping =
  ap_label :: string
  ap_path :: Identifier

record ScannedBlockInfo =
  sb_height :: u64
  sb_hash :: string
  sb_start_pmmr_index :: u64
  sb_last_pmmr_index :: u64

datatype WalletInitStatus = InitNeedsScanning | InitNoScanning | InitComplete

record WalletInfo =
  wi_last_confirmed_height :: u64
  wi_minimum_confirmations :: u64
  wi_total :: u64
  wi_amount_awaiting_finalization :: u64
  wi_amount_awaiting_confirmation :: u64
  wi_amount_immature :: u64
  wi_amount_currently_spendable :: u64
  wi_amount_locked :: u64

record Context =
  cx_parent_key_id :: Identifier
  cx_sec_key :: SecretKey
  cx_sec_nonce :: SecretKey
  cx_output_ids :: "(Identifier \<times> u64 option \<times> u64) list"
  cx_input_ids :: "(Identifier \<times> u64 option \<times> u64) list"
  cx_fee :: u64
  cx_participant_id :: nat
  cx_payment_proof_derivation_index :: "u32 option"

text \<open>\<open>Context::new\<close>; the first argument is the nonce \<open>create_secnonce\<close> drew.\<close>

definition context_new :: "SecretKey \<Rightarrow> SecretKey \<Rightarrow> Identifier \<Rightarrow> bool \<Rightarrow> nat \<Rightarrow> Context" where
  "context_new secnonce sec_key parent_key_id use_test_rng participant_id =
     \<lparr>cx_parent_key_id = parent_key_id, cx_sec_key = sec_key,
      cx_sec_nonce = (if use_test_rng then replicate 32 1 else secnonce),
      cx_output_ids = [], cx_input_ids = [], cx_fee = 0, cx_participant_id = participant_id,
      cx_payment_proof_derivation_index = None\<rparr>"

definition context_add_output :: "Identifier \<Rightarrow> u64 option \<Rightarrow> u64 \<Rightarrow> Context \<Rightarrow> Context" where
  "context_add_output output_id mmr_index amount cx =
     cx\<lparr>cx_output_ids := cx_output_ids cx @ [(output_id, mmr_index, amount)]\<rparr>"

definition context_add_input :: "Identifier \<Rightarrow> u64 option \<Rightarrow> u64 \<Rightarrow> Context \<Rightarrow> Context" where
  "context_add_input input_id mmr_index amount cx =
     cx\<lparr>cx_input_ids := cx_input_ids cx @ [(input_id, mmr_index, amount)]\<rparr>"

section \<open>Strings\<close>

text \<open>
  \<open>String::truncate\<close>: it counts bytes, does nothing to a shorter string and panics when the
  cut is not a character boundary, that is when the first byte dropped continues a
  multi-byte character.
\<close>

definition is_char_boundary :: "string \<Rightarrow> nat \<Rightarrow> bool" where
  "is_char_boundary s n =
     (n = 0 \<or> n = length s \<or> (n < length s \<and> \<not> (128 \<le> (of_char (s ! n) :: nat) \<and> (of_char (s ! n) :: nat) < 192)))"

definition string_truncate :: "nat \<Rightarrow> string \<Rightarrow> error + string" where
  "string_truncate n s =
     (if length s \<le> n then Inr s
      else if is_char_boundary s n then Inr (take n s)
      else Inl (Panic ''truncate''))"

section \<open>Facts on the methods\<close>

lemma lock_simps [simp]:
  "od_status (lock out) = Locked" "od_key_id (lock out) = od_key_id out"
  "od_mmr_index (lock out) = od_mmr_index out" "od_value (lock out) = od_value out"
  "od_root_key_id (lock out) = od_root_key_id out"
  "od_tx_log_entry (lock out) = od_tx_log_entry out"
  by (simp_all add: lock_def)

lemma mark_simps [simp]:
  "od_key_id (mark_unspent out) = od_key_id out" "od_mmr_index (mark_unspent out) = od_mmr_index out"
  "od_value (mark_unspent out) = od_value out" "od_root_key_id (mark_unspent out) = od_root_key_id out"
  "od_key_id (mark_spent out) = od_key_id out" "od_mmr_index (mark_spent out) = od_mmr_index out"
  "od_value (mark_spent out) = od_value out" "od_root_key_id (mark_spent out) = od_root_key_id out"
  by (simp_all add: mark_unspent_def mark_spent_def split: OutputStatus.splits)

lemma eligible_to_spend_iff:
  "eligible_to_spend out h m \<longleftrightarrow>
     od_lock_height out \<le> h \<and>
     (od_status out = Unspent \<and> m \<le> num_confirmations out h
      \<or> od_status out = Unconfirmed \<and> \<not> od_is_coinbase out \<and> m = 0)"
  by (cases "od_status out") (auto simp: eligible_to_spend_def not_less)

lemma tx_log_entry_new_simps [simp]:
  "tl_parent_key_id (tx_log_entry_new now p t i) = p" "tl_id (tx_log_entry_new now p t i) = i"
  "tl_tx_type (tx_log_entry_new now p t i) = t" "\<not> tl_confirmed (tx_log_entry_new now p t i)"
  "tl_amount_credited (tx_log_entry_new now p t i) = 0"
  "tl_amount_debited (tx_log_entry_new now p t i) = 0"
  "tl_num_outputs (tx_log_entry_new now p t i) = 0"
  by (simp_all add: tx_log_entry_new_def)

lemma update_confirmation_ts_simps [simp]:
  "tl_parent_key_id (update_confirmation_ts now t) = tl_parent_key_id t"
  "tl_id (update_confirmation_ts now t) = tl_id t"
  "tl_tx_type (update_confirmation_ts now t) = tl_tx_type t"
  by (simp_all add: update_confirmation_ts_def)

lemma context_add_simps [simp]:
  "cx_output_ids (context_add_output i m a cx) = cx_output_ids cx @ [(i, m, a)]"
  "cx_input_ids (context_add_output i m a cx) = cx_input_ids cx"
  "cx_input_ids (context_add_input i m a cx) = cx_input_ids cx @ [(i, m, a)]"
  "cx_output_ids (context_add_input i m a cx) = cx_output_ids cx"
  by (simp_all add: context_add_output_def context_add_input_def)

lemma string_truncate_length: "string_truncate n s = Inr t \<Longrightarrow> length t \<le> n"
  by (auto simp: string_truncate_def split: if_splits)

end
