(* ===== verification/SlateTypes.thy ===== *)
theory SlateTypes
  imports Types
begin

text \<open>
  The data of \<open>libwallet/src/slate.rs\<close>: the transaction under construction, the public
  data of each participant and the slate itself, with the methods that only look at this
  data. The fields of the transaction types (declared in \<open>epic_core\<close>) are those the
  conversions of \<open>slate.rs\<close> take apart exhaustively.
\<close>

section \<open>Transactions\<close>

record Input =
  in_features :: OutputFeatures
  in_commit :: Commitment

record Output =
  out_features :: OutputFeatures
  out_commit :: Commitment
  out_proof :: RangeProof

datatype KernelFeatures = Plain u64 | Coinbase | HeightLocked u64 u64

record TxKernel =
  k_features :: KernelFeatures
  k_excess :: Commitment
  k_excess_sig :: Signature

record TransactionBody =
  b_inputs :: "Input list"
  b_outputs :: "Output list"
  b_kernels :: "TxKernel list"

record Transaction =
  tx_offset :: BlindingFactor
  tx_body :: TransactionBody

text \<open>What the wallet hands to the transaction builder (\<open>build::input\<close> and its kin).\<close>

datatype build_elem = CoinbaseInput u64 Identifier | InputElem u64 Identifier | OutputElem u64 Identifier

record CbData =
  cb_output :: Output
  cb_kernel :: TxKernel
  cb_key_id :: "Identifier option"

section \<open>Participants\<close>

record PaymentInfo =
  pi_sender_address :: DalekPublicKey
  pi_receiver_address :: DalekPublicKey
  pi_receiver_signature :: "DalekSignature option"

record ParticipantData =
  pd_id :: u64
  pd_public_blind_excess :: PublicKey
  pd_public_nonce :: PublicKey
  pd_part_sig :: "Signature option"
  pd_message :: "string option"
  pd_message_sig :: "Signature option"

definition is_complete :: "ParticipantData \<Rightarrow> bool" where
  "is_complete p = (pd_part_sig p \<noteq> None)"

definition from_participant_data :: "ParticipantData \<Rightarrow> ParticipantMessageData" where
  "from_participant_data p =
     \<lparr>pm_id = pd_id p, pm_public_key = pd_public_blind_excess p, pm_message = pd_message p,
      pm_message_sig = pd_message_sig p\<rparr>"

section \<open>The slate\<close>

record VersionCompatInfo =
  vc_version :: u16
  vc_orig_version :: u16
  vc_block_header_version :: u16

record Slate =
  sl_version_info :: VersionCompatInfo
  sl_num_participants :: nat
  sl_id :: Uuid
  sl_tx :: Transaction
  sl_amount :: u64
  sl_fee :: u64
  sl_height :: u64
  sl_lock_height :: u64
  sl_ttl_cutoff_height :: "u64 option"
  sl_participant_data :: "ParticipantData list"
  sl_payment_proof :: "PaymentInfo option"

definition CURRENT_SLATE_VERSION :: u16 where "CURRENT_SLATE_VERSION = 3"

definition EPIC_BLOCK_HEADER_VERSION :: u16 where "EPIC_BLOCK_HEADER_VERSION = 6"

text \<open>\<open>Slate::blank\<close>; the new uuid and the empty transaction are passed in.\<close>

definition slate_blank :: "Uuid \<Rightarrow> Transaction \<Rightarrow> nat \<Rightarrow> Slate" where
  "slate_blank uuid empty_tx num_participants =
     \<lparr>sl_version_info = \<lparr>vc_version = CURRENT_SLATE_VERSION,
        vc_orig_version = CURRENT_SLATE_VERSION,
        vc_block_header_version = EPIC_BLOCK_HEADER_VERSION\<rparr>,
      sl_num_participants = num_participants, sl_id = uuid, sl_tx = empty_tx, sl_amount = 0,
      sl_fee = 0, sl_height = 0, sl_lock_height = 0, sl_ttl_cutoff_height = None,
      sl_participant_data = [], sl_payment_proof = None\<rparr>"

definition kernel_features :: "Slate \<Rightarrow> KernelFeatures" where
  "kernel_features sl =
     (if sl_lock_height sl = 0 then Plain (sl_fee sl)
      else HeightLocked (sl_fee sl) (sl_lock_height sl))"

text \<open>\<open>participant_with_id\<close>: the first participant whose id, read as \<open>usize\<close>, is the given one.\<close>

definition participant_with_id :: "nat \<Rightarrow> Slate \<Rightarrow> ParticipantData option" where
  "participant_with_id i sl = find (\<lambda>p. unat (pd_id p) = i) (sl_participant_data sl)"

definition participant_messages :: "Slate \<Rightarrow> ParticipantMessages" where
  "participant_messages sl = \<lparr>messages = map from_participant_data (sl_participant_data sl)\<rparr>"

end
