(* ===== verification/Env.thy ===== *)
theory Env
  imports SlateTypes
begin

text \<open>
  Everything the wallet calls that is not under src/: the crates \<open>epic_core\<close>,
  \<open>epic_keychain\<close>, \<open>epic_util\<close> (secp256k1, aggsig), \<open>ed25519_dalek\<close>, \<open>blake2\<close>,
  \<open>epic_store\<close>, the SQLite engine, the file system, the clock, and the node behind
  \<open>NodeClient\<close>. Each is a field of one record, \<open>ext\<close>, that the definitions take as an
  argument. Random choices are fields as well: a field is the value drawn in the operation
  under consideration.

  What the code relies on is stated by the predicates of the last section and appears as a
  hypothesis of the theorems that need it.
\<close>

section \<open>Stored values and SQL statements\<close>

text \<open>The untagged enum \<open>Serializable\<close> of \<open>impls/src/serialization.rs\<close>.\<close>

datatype Serializable =
    STxLogEntry TxLogEntry
  | SAcctPathMapping AcctPathMapping
  | SOutputData OutputData
  | SScannedBlockInfo ScannedBlockInfo
  | SWalletInitStatus WalletInitStatus
  | SContext Context
  | SNumeric u64

fun as_txlogentry :: "Serializable \<Rightarrow> TxLogEntry option" where
  "as_txlogentry (STxLogEntry txle) = Some txle"
| "as_txlogentry _ = None"

fun as_acct_path_mapping :: "Serializable \<Rightarrow> AcctPathMapping option" where
  "as_acct_path_mapping (SAcctPathMapping acct) = Some acct"
| "as_acct_path_mapping _ = None"

fun as_output_data :: "Serializable \<Rightarrow> OutputData option" where
  "as_output_data (SOutputData out) = Some out"
| "as_output_data _ = None"

fun as_context :: "Serializable \<Rightarrow> Context option" where
  "as_context (SContext context) = Some context"
| "as_context _ = None"

text \<open>
  The three statements \<open>Batch\<close> writes (\<open>INSERT\<close>, \<open>UPDATE\<close>, \<open>DELETE\<close>) with the key, and
  the outcome of one attempt to run a statement: success or an error with its code.
\<close>

datatype sql_stmt = SqlInsert bytes Serializable | SqlUpdate bytes Serializable | SqlDelete bytes

datatype sql_result = SqlOk | SqlErr "int option"

section \<open>The node\<close>

record Tip =
  tip_height :: u64
  tip_last_block_pushed :: string
  tip_prev_block_to_last :: string

record NodeStatus =
  ns_protocol_version :: u32
  ns_user_agent :: string
  ns_connections :: u32
  ns_tip :: Tip
  ns_sync_status :: string

record PoolEntry =
  pe_tx :: Transaction

text \<open>
  The queries of the trait \<open>NodeClient\<close>. Within one wallet operation the node answers a
  query as a function of its arguments.
\<close>

record node_client =
  get_chain_tip :: "error + u64 \<times> string"
  get_node_status :: "error + NodeStatus"
  get_mempool :: "error + PoolEntry list"
  get_kernel :: "Commitment \<Rightarrow> u64 option \<Rightarrow> u64 option \<Rightarrow> error + (TxKernel \<times> u64 \<times> u64) option"
  get_outputs_from_node :: "Commitment list \<Rightarrow> error + (Commitment \<Rightarrow> (string \<times> u64 \<times> u64) option)"
  get_outputs_by_pmmr_index ::
    "u64 \<Rightarrow> u64 option \<Rightarrow> u64 \<Rightarrow> error + u64 \<times> u64 \<times> (Commitment \<times> RangeProof \<times> bool \<times> u64 \<times> u64) list"
  height_range_to_pmmr_indices :: "u64 \<Rightarrow> u64 option \<Rightarrow> error + u64 \<times> u64"
  node_post_tx :: "Transaction \<Rightarrow> bool \<Rightarrow> error + unit"

section \<open>Foreign functions\<close>

record ext_core = node_client +
  utc_now :: timestamp
  new_v4 :: Uuid
  hash_order :: "Commitment list \<Rightarrow> Commitment list"
  hash_order_ids :: "Identifier list \<Rightarrow> Identifier list"
  test_slate_id :: Uuid
  empty_transaction :: Transaction
  tx_fee :: "nat \<Rightarrow> nat \<Rightarrow> nat \<Rightarrow> u64"
  tx_total_fee :: "Transaction \<Rightarrow> u64"
  amount_to_hr_string :: "u64 \<Rightarrow> string"
  reward :: "u64 \<Rightarrow> u64 \<Rightarrow> u64"
  cumulative_reward_foundation :: "u64 \<Rightarrow> u64"
  coinbase_maturity :: u64
  valid_header_version :: "u64 \<Rightarrow> u16 \<Rightarrow> bool"
  partial_transaction :: "Transaction \<Rightarrow> build_elem list \<Rightarrow> Keychain \<Rightarrow> error + Transaction \<times> BlindingFactor"
  replace_kernel :: "TxKernel \<Rightarrow> Transaction \<Rightarrow> Transaction"
  kernel_with_features :: "KernelFeatures \<Rightarrow> TxKernel"
  sum_commitments :: "Transaction \<Rightarrow> u64 \<Rightarrow> error + Commitment"
  kernel_sig_msg :: "KernelFeatures \<Rightarrow> error + bytes"
  kernel_verify :: "TxKernel \<Rightarrow> error + unit"
  tx_validate :: "Transaction \<Rightarrow> error + unit"
  reward_output :: "Keychain \<Rightarrow> Identifier \<Rightarrow> u64 \<Rightarrow> bool \<Rightarrow> u64 \<Rightarrow> error + Output \<times> TxKernel"
  foundation_output :: "Keychain \<Rightarrow> Identifier \<Rightarrow> bool \<Rightarrow> u64 \<Rightarrow> error + Output \<times> TxKernel"
  rewind_new :: "Keychain \<Rightarrow> Commitment \<Rightarrow> RangeProof \<Rightarrow> error + (u64 \<times> Identifier) option"
  rewind_legacy :: "Keychain \<Rightarrow> Commitment \<Rightarrow> RangeProof \<Rightarrow> error + (u64 \<times> Identifier) option"

record ext_keychain = ext_core +
  derive_root_key :: "Keychain \<Rightarrow> error + SecretKey"
  derive_key_none :: "Keychain \<Rightarrow> Identifier \<Rightarrow> error + SecretKey"
  mask_master_key :: "Keychain \<Rightarrow> SecretKey \<Rightarrow> error + Keychain"
  kc_commit :: "Keychain \<Rightarrow> u64 \<Rightarrow> Identifier \<Rightarrow> error + Commitment"
  new_mask :: "bool \<Rightarrow> SecretKey"
  blake2b_32 :: "bytes \<Rightarrow> bytes"
  id_to_bytes :: "Identifier \<Rightarrow> bytes"
  id_to_path :: "Identifier \<Rightarrow> ext_path"
  id_from_path :: "ext_path \<Rightarrow> Identifier"
  id_parent_path :: "Identifier \<Rightarrow> Identifier"
  id_last_path_index :: "Identifier \<Rightarrow> u32"
  id_string :: "Identifier \<Rightarrow> string"
  derive_key_id :: "u8 \<Rightarrow> u32 \<Rightarrow> u32 \<Rightarrow> u32 \<Rightarrow> u32 \<Rightarrow> Identifier"
  uuid_as_bytes :: "Uuid \<Rightarrow> bytes"
  uuid_string :: "Uuid \<Rightarrow> string"
  to_hex :: "bytes \<Rightarrow> string"
  from_hex :: "string \<Rightarrow> bytes option"
  base32_encode :: "bytes \<Rightarrow> string"
  base32_decode :: "string \<Rightarrow> bytes option"
  sha3_256 :: "bytes \<Rightarrow> bytes"
  to_uppercase :: "string \<Rightarrow> string"
  to_lowercase :: "string \<Rightarrow> string"
  from_hex_error :: "string \<Rightarrow> string"
  commitment_debug :: "Commitment \<Rightarrow> string"
  sqlite_error_string :: "int \<Rightarrow> string"

record ext_secp = ext_keychain +
  create_secnonce :: SecretKey
  random_offset :: "bool \<Rightarrow> SecretKey"
  pubkey_from_secret :: "SecretKey \<Rightarrow> error + PublicKey"
  pubkey_combination :: "PublicKey list \<Rightarrow> error + PublicKey"
  message_from_slice :: "bytes \<Rightarrow> error + bytes"
  sign_single :: "bytes \<Rightarrow> SecretKey \<Rightarrow> SecretKey option \<Rightarrow> PublicKey \<Rightarrow> error + Signature"
  verify_single :: "Signature \<Rightarrow> bytes \<Rightarrow> PublicKey \<Rightarrow> bool"
  calculate_partial_sig :: "SecretKey \<Rightarrow> SecretKey \<Rightarrow> PublicKey \<Rightarrow> PublicKey \<Rightarrow> bytes \<Rightarrow> error + Signature"
  verify_partial_sig :: "Signature \<Rightarrow> PublicKey \<Rightarrow> PublicKey \<Rightarrow> PublicKey \<Rightarrow> bytes \<Rightarrow> error + unit"
  add_signatures :: "Signature list \<Rightarrow> PublicKey \<Rightarrow> error + Signature"
  verify_completed_sig :: "Signature \<Rightarrow> PublicKey \<Rightarrow> bytes \<Rightarrow> error + unit"
  blinding_zero :: BlindingFactor
  blinding_of_key :: "SecretKey \<Rightarrow> BlindingFactor"
  blinding_secret_key :: "BlindingFactor \<Rightarrow> error + SecretKey"
  blind_sum_sub :: "Keychain \<Rightarrow> BlindingFactor \<Rightarrow> BlindingFactor \<Rightarrow> error + BlindingFactor"
  commitment_from_vec :: "bytes \<Rightarrow> Commitment"
  commit_value :: "u64 \<Rightarrow> error + Commitment"
  commit_zero :: "SecretKey \<Rightarrow> error + Commitment"
  commit_sum :: "Commitment list \<Rightarrow> Commitment list \<Rightarrow> error + Commitment"
  secret_key_from_slice :: "bytes \<Rightarrow> error + SecretKey"
  dalek_from_bytes :: "bytes \<Rightarrow> DalekPublicKey option"
  dalek_public :: "SecretKey \<Rightarrow> DalekPublicKey"
  dalek_sign :: "SecretKey \<Rightarrow> bytes \<Rightarrow> DalekSignature"
  dalek_verify :: "DalekPublicKey \<Rightarrow> bytes \<Rightarrow> DalekSignature \<Rightarrow> bool"

record ext = ext_secp +
  to_key :: "u8 \<Rightarrow> bytes \<Rightarrow> bytes"
  to_key_u64 :: "u8 \<Rightarrow> bytes \<Rightarrow> u64 \<Rightarrow> bytes"
  sql_attempt :: "sql_stmt \<Rightarrow> nat \<Rightarrow> sql_result"
  fs_create :: "string \<Rightarrow> error + unit"
  fs_write :: "string \<Rightarrow> string \<Rightarrow> nat \<times> (error + unit)"
  fs_read :: "string \<Rightarrow> string option \<Rightarrow> error + string"
  tx_to_hex :: "Transaction \<Rightarrow> string"
  tx_of_hex :: "string \<Rightarrow> Transaction option"

section \<open>What the code relies on\<close>

text \<open>On ASCII the conversions of case are the usual ones; the rest is Unicode's.\<close>

definition ascii_upper :: "string \<Rightarrow> string" where
  "ascii_upper = map (\<lambda>c. if of_char c \<in> {97..122 :: nat} then char_of (of_char c - 32 :: nat) else c)"

definition ascii_lower :: "string \<Rightarrow> string" where
  "ascii_lower = map (\<lambda>c. if of_char c \<in> {65..90 :: nat} then char_of (of_char c + 32 :: nat) else c)"

definition case_ok :: "ext \<Rightarrow> bool" where
  "case_ok E \<longleftrightarrow> (\<forall>s. (\<forall>c \<in> set s. (of_char c :: nat) < 128) \<longrightarrow>
     to_uppercase E s = ascii_upper s \<and> to_lowercase E s = ascii_lower s)"

text \<open>
  The key functions of \<open>epic_store\<close>: the prefix and a separator, the payload, and for
  \<open>to_key_u64\<close> the eight bytes of the number. Keys of one kind are equal only if payload
  and number are. Identifiers are 17 bytes, uuids 16, and their bytes tell them apart.
\<close>

definition keys_ok :: "ext \<Rightarrow> bool" where
  "keys_ok E \<longleftrightarrow>
     (\<forall>p k. length (to_key E p k) = length k + 2 \<and> hd (to_key E p k) = p) \<and>
     (\<forall>p k n. length (to_key_u64 E p k n) = length k + 10 \<and> hd (to_key_u64 E p k n) = p) \<and>
     (\<forall>p k k'. to_key E p k = to_key E p k' \<longrightarrow> k = k') \<and>
     (\<forall>p k n k' n'. to_key_u64 E p k n = to_key_u64 E p k' n' \<longrightarrow> k = k' \<and> n = n') \<and>
     (\<forall>i. length (id_to_bytes E i) = 17) \<and> inj (id_to_bytes E) \<and>
     (\<forall>u. length (uuid_as_bytes E u) = 16) \<and> inj (uuid_as_bytes E)"

text \<open>SQLite runs every statement at the first attempt.\<close>

definition sqlite_ok :: "ext \<Rightarrow> bool" where
  "sqlite_ok E \<longleftrightarrow> (\<forall>st. sql_attempt E st 0 = SqlOk)"

text \<open>
  The file system: creating and writing a file succeeds and writes every byte, and reading
  an existing file gives its contents.
\<close>

definition files_ok :: "ext \<Rightarrow> bool" where
  "files_ok E \<longleftrightarrow>
     (\<forall>f. fs_create E f = Inr ()) \<and>
     (\<forall>f c. fs_write E f c = (length c, Inr ())) \<and>
     (\<forall>f c. fs_read E f (Some c) = Inr c)"

text \<open>The order in which a \<open>HashMap\<close> lists its keys is some permutation of them.\<close>

definition hash_ok :: "ext \<Rightarrow> bool" where
  "hash_ok E \<longleftrightarrow> (\<forall>xs. mset (hash_order E xs) = mset xs) \<and> (\<forall>xs. mset (hash_order_ids E xs) = mset xs)"

text \<open>
  Stored commitments: hexadecimal reads back what it wrote, and a commitment is made of its
  own bytes.
\<close>

definition commits_ok :: "ext \<Rightarrow> bool" where
  "commits_ok E \<longleftrightarrow>
     (\<forall>b. from_hex E (to_hex E b) = Some b) \<and>
     (\<forall>k v i c. kc_commit E k v i = Inr c \<longrightarrow> commitment_from_vec E c = c)"

text \<open>The digest has 32 bytes.\<close>

definition digest_ok :: "ext \<Rightarrow> bool" where
  "digest_ok E \<longleftrightarrow> (\<forall>b. length (blake2b_32 E b) = 32)"

text \<open>Derivation paths and identifiers are two views of the same data.\<close>

definition paths_ok :: "ext \<Rightarrow> bool" where
  "paths_ok E \<longleftrightarrow>
     (\<forall>i. length (path (id_to_path E i)) = 4) \<and>
     (\<forall>p. length (path p) = 4 \<longrightarrow> id_to_path E (id_from_path E p) = p)"

end
