(* ===== verification/Store.thy ===== *)
theory Store
  imports Env
begin

text \<open>
  The SQLite layer, \<open>impls/src/backends/db.rs\<close>: one table \<open>data\<close> of rows in insertion order,
  looked up by key and listed by prefix, and the retry loop around every statement. The key
  column is \<open>UNIQUE\<close>; \<open>Batch::put\<close> chooses between \<open>INSERT\<close> and \<open>UPDATE\<close> by looking first.
  The stored JSON text is represented by the value it encodes.

  A \<open>Batch\<close> has no state of its own: its writes go straight to the table.
\<close>

section \<open>The table\<close>

record row =
  r_key :: bytes
  r_prefix :: u8
  r_data :: Serializable
  r_tx_id :: "u32 option"
  r_confirmed :: "bool option"
  r_tx_status :: "string option"

type_synonym rows = "row list"

text \<open>The queriable columns that \<open>put\<close> fills from the value.\<close>

definition queriable :: "Serializable \<Rightarrow> u32 option \<times> bool option \<times> string option" where
  "queriable v = (case v of
      STxLogEntry t \<Rightarrow> (Some (tl_id t), Some (tl_confirmed t), Some (tx_log_entry_type_fmt (tl_tx_type t)))
    | SOutputData out \<Rightarrow> (od_tx_log_entry out, None, Some (output_status_fmt (od_status out)))
    | _ \<Rightarrow> (None, None, None))"

definition sql_insert :: "bytes \<Rightarrow> Serializable \<Rightarrow> rows \<Rightarrow> rows" where
  "sql_insert key v rs = rs @ [(case queriable v of (i, c, s) \<Rightarrow>
     \<lparr>r_key = key, r_prefix = hd key, r_data = v, r_tx_id = i, r_confirmed = c, r_tx_status = s\<rparr>)]"

text \<open>\<open>UPDATE\<close> sets the data, and the columns its kind of value has; the others are left alone.\<close>

definition row_update :: "Serializable \<Rightarrow> row \<Rightarrow> row" where
  "row_update v r = (case v of
      STxLogEntry t \<Rightarrow> r\<lparr>r_data := v, r_tx_id := Some (tl_id t), r_confirmed := Some (tl_confirmed t),
                          r_tx_status := Some (tx_log_entry_type_fmt (tl_tx_type t))\<rparr>
    | SOutputData out \<Rightarrow> r\<lparr>r_data := v, r_tx_id := od_tx_log_entry out,
                             r_tx_status := Some (output_status_fmt (od_status out))\<rparr>
    | _ \<Rightarrow> r\<lparr>r_data := v\<rparr>)"

definition sql_update :: "bytes \<Rightarrow> Serializable \<Rightarrow> rows \<Rightarrow> rows" where
  "sql_update key v rs = map (\<lambda>r. if r_key r = key then row_update v r else r) rs"

definition sql_delete :: "bytes \<Rightarrow> rows \<Rightarrow> rows" where
  "sql_delete key rs = filter (\<lambda>r. r_key r \<noteq> key) rs"

fun sql_apply :: "sql_stmt \<Rightarrow> rows \<Rightarrow> rows" where
  "sql_apply (SqlInsert key v) rs = sql_insert key v rs"
| "sql_apply (SqlUpdate key v) rs = sql_update key v rs"
| "sql_apply (SqlDelete key) rs = sql_delete key rs"

section \<open>Reading\<close>

definition store_get :: "bytes \<Rightarrow> rows \<Rightarrow> Serializable option" where
  "store_get key rs = map_option r_data (find (\<lambda>r. r_key r = key) rs)"

definition get_ser :: "bytes \<Rightarrow> rows \<Rightarrow> Serializable option" where
  "get_ser key rs = store_get key rs"

definition exists_key :: "bytes \<Rightarrow> rows \<Rightarrow> bool" where
  "exists_key key rs = (find (\<lambda>r. r_key r = key) rs \<noteq> None)"

definition store_iter :: "u8 \<Rightarrow> rows \<Rightarrow> Serializable list" where
  "store_iter from rs = map r_data (filter (\<lambda>r. r_prefix r = from) rs)"

section \<open>Writing\<close>

definition SQLITE_MAX_RETRIES :: nat where "SQLITE_MAX_RETRIES = 3"

text \<open>
  The loop of \<open>Store::execute\<close>: error 5 (\<open>SQLITE_BUSY\<close>) is retried, any other error leaves at
  once, an error without a code fails the \<open>unwrap\<close>.
\<close>

function execute_loop :: "ext \<Rightarrow> sql_stmt \<Rightarrow> nat \<Rightarrow> error + unit" where
  "execute_loop E st retries = (case sql_attempt E st retries of
      SqlOk \<Rightarrow> Inr ()
    | SqlErr None \<Rightarrow> Inl (Panic ''e.code.unwrap()'')
    | SqlErr (Some c) \<Rightarrow>
        (if c \<noteq> 5 then Inl (FromSqlite c)
         else if retries + 1 > SQLITE_MAX_RETRIES then Inl (FromSqlite c)
         else execute_loop E st (retries + 1)))"
  by pat_completeness auto
termination
  by (relation "measure (\<lambda>(E, st, retries). Suc SQLITE_MAX_RETRIES - retries)") auto

declare execute_loop.simps [simp del]

definition execute :: "ext \<Rightarrow> sql_stmt \<Rightarrow> (rows, error, unit) proc" where
  "execute E st rs = (case execute_loop E st 0 of
      Inl e \<Rightarrow> (Inl e, rs)
    | Inr _ \<Rightarrow> (Inr (), sql_apply st rs))"

text \<open>\<open>Batch::put\<close>: \<open>key[0]\<close> is the prefix, and a failing statement fails the \<open>unwrap\<close>.\<close>

definition put :: "ext \<Rightarrow> bytes \<Rightarrow> Serializable \<Rightarrow> (rows, error, unit) proc" where
  "put E key v rs =
     (if key = [] then (Inl (Panic ''key[0]''), rs)
      else let st = (if exists_key key rs then SqlUpdate key v else SqlInsert key v)
           in case execute E st rs of
                (Inl e, rs') \<Rightarrow> (Inl (Panic ''execute.unwrap()''), rs')
              | (Inr _, rs') \<Rightarrow> (Inr (), rs'))"

definition put_ser :: "ext \<Rightarrow> bytes \<Rightarrow> Serializable \<Rightarrow> (rows, error, unit) proc" where
  "put_ser E key v = put E key v"

definition delete_key :: "ext \<Rightarrow> bytes \<Rightarrow> (rows, error, unit) proc" where
  "delete_key E key = execute E (SqlDelete key)"

section \<open>The contract of a key-value store\<close>

text \<open>
  What the backend expects of the table: a lookup sees the last write to its key and no
  write to another. Its consequences for sequences of writes are proved here once.
\<close>

locale kv_store =
  fixes look :: "'s \<Rightarrow> 'k \<Rightarrow> 'v option"
    and store :: "'k \<Rightarrow> 'v \<Rightarrow> 's \<Rightarrow> 's"
    and erase :: "'k \<Rightarrow> 's \<Rightarrow> 's"
    and inv :: "'s \<Rightarrow> bool"
  assumes look_store: "inv s \<Longrightarrow> look (store k v s) = (look s)(k \<mapsto> v)"
    and look_erase: "inv s \<Longrightarrow> look (erase k s) = (look s)(k := None)"
    and inv_store: "inv s \<Longrightarrow> inv (store k v s)"
    and inv_erase: "inv s \<Longrightarrow> inv (erase k s)"
begin

lemma look_store_same: "inv s \<Longrightarrow> look (store k v s) k = Some v"
  by (simp add: look_store)

lemma look_store_other: "inv s \<Longrightarrow> j \<noteq> k \<Longrightarrow> look (store k v s) j = look s j"
  by (simp add: look_store)

lemma look_erase_same: "inv s \<Longrightarrow> look (erase k s) k = None"
  by (simp add: look_erase)

lemma look_erase_other: "inv s \<Longrightarrow> j \<noteq> k \<Longrightarrow> look (erase k s) j = look s j"
  by (simp add: look_erase)

lemma store_overwrites:
  "inv s \<Longrightarrow> look (store k w (store k v s)) = look (store k w s)"
  by (simp add: look_store inv_store)

lemma erase_store: "inv s \<Longrightarrow> look (erase k (store k v s)) = look (erase k s)"
  by (simp add: look_store look_erase inv_store)

lemma inv_fold_store: "inv s \<Longrightarrow> inv (fold (\<lambda>(k, v). store k v) kvs s)"
  by (induction kvs arbitrary: s) (auto simp: inv_store)

lemma look_fold_store:
  "inv s \<Longrightarrow> look (fold (\<lambda>(k, v). store k v) kvs s) = look s ++ map_of (rev kvs)"
proof (induction kvs arbitrary: s)
  case Nil
  then show ?case by simp
next
  case (Cons kv kvs)
  obtain k v where kv: "kv = (k, v)" by fastforce
  have "look (fold (\<lambda>(k, v). store k v) kvs (store k v s)) = look (store k v s) ++ map_of (rev kvs)"
    using Cons.prems by (intro Cons.IH inv_store)
  then show ?case using Cons.prems by (simp add: kv look_store map_add_def fun_eq_iff split: option.splits)
qed

end

text \<open>The pure effect of a successful \<open>put\<close>.\<close>

definition row_put :: "bytes \<Rightarrow> Serializable \<Rightarrow> rows \<Rightarrow> rows" where
  "row_put key v rs = sql_apply (if exists_key key rs then SqlUpdate key v else SqlInsert key v) rs"

definition unique_keys :: "rows \<Rightarrow> bool" where
  "unique_keys rs = distinct (map r_key rs)"

lemma row_update_simps [simp]:
  "r_key (row_update v r) = r_key r" "r_prefix (row_update v r) = r_prefix r"
  "r_data (row_update v r) = v"
  by (cases v; simp add: row_update_def)+

lemma queriable_row_simps [simp]:
  "r_key (case q of (i, c, s) \<Rightarrow> \<lparr>r_key = k, r_prefix = p, r_data = v, r_tx_id = i, r_confirmed = c, r_tx_status = s\<rparr>) = k"
  "r_prefix (case q of (i, c, s) \<Rightarrow> \<lparr>r_key = k, r_prefix = p, r_data = v, r_tx_id = i, r_confirmed = c, r_tx_status = s\<rparr>) = p"
  "r_data (case q of (i, c, s) \<Rightarrow> \<lparr>r_key = k, r_prefix = p, r_data = v, r_tx_id = i, r_confirmed = c, r_tx_status = s\<rparr>) = v"
  by (simp_all split: prod.splits)

lemma store_get_None: "store_get k rs = None \<longleftrightarrow> k \<notin> r_key ` set rs"
  by (auto simp: store_get_def find_None_iff)

lemma exists_key_iff: "exists_key k rs \<longleftrightarrow> k \<in> r_key ` set rs"
  by (auto simp: exists_key_def find_None_iff)

lemma store_get_Some:
  assumes "unique_keys rs"
  shows "store_get k rs = Some v \<longleftrightarrow> (\<exists>r \<in> set rs. r_key r = k \<and> r_data r = v)"
proof -
  have "store_get k rs = map_of (map (\<lambda>r. (r_key r, r_data r)) rs) k"
    by (induction rs) (simp_all add: store_get_def)
  moreover have "distinct (map fst (map (\<lambda>r. (r_key r, r_data r)) rs))"
    using assms by (simp add: unique_keys_def comp_def)
  ultimately show ?thesis by (auto simp: map_of_eq_Some_iff)
qed

lemma store_get_Cons: "store_get k (r # rs) = (if r_key r = k then Some (r_data r) else store_get k rs)"
  by (simp add: store_get_def)

lemma store_get_append:
  "store_get k (rs @ ss) = (case store_get k rs of None \<Rightarrow> store_get k ss | Some v \<Rightarrow> Some v)"
  by (induction rs) (auto simp: store_get_Cons store_get_def[of k "[]"] split: option.splits)

lemma store_get_update:
  "store_get j (sql_update k v rs) =
     (if j = k \<and> exists_key k rs then Some v else store_get j rs)"
  by (induction rs) (auto simp: store_get_Cons sql_update_def exists_key_iff store_get_def[of j "[]"])

lemma store_get_insert:
  "\<not> exists_key k rs \<Longrightarrow> store_get j (sql_insert k v rs) = (if j = k then Some v else store_get j rs)"
  using store_get_None[of j rs]
  by (cases "store_get j rs")
     (auto simp: sql_insert_def store_get_append store_get_Cons exists_key_iff store_get_def[of _ "[]"])

lemma store_get_delete:
  "store_get j (sql_delete k rs) = (if j = k then None else store_get j rs)"
  by (induction rs) (auto simp: store_get_Cons sql_delete_def store_get_def[of _ "[]"])

lemma map_r_key_update: "map r_key (sql_update k v rs) = map r_key rs"
  by (auto simp: sql_update_def)

lemma unique_keys_row_put: "unique_keys rs \<Longrightarrow> unique_keys (row_put k v rs)"
  by (auto simp: row_put_def unique_keys_def map_r_key_update sql_insert_def exists_key_iff)

lemma unique_keys_delete: "unique_keys rs \<Longrightarrow> unique_keys (sql_delete k rs)"
  by (simp add: unique_keys_def sql_delete_def distinct_map_filter)

interpretation kv: kv_store "\<lambda>rs k. store_get k rs" row_put sql_delete unique_keys
proof unfold_locales
  show "unique_keys s \<Longrightarrow> (\<lambda>j. store_get j (row_put k v s)) = (\<lambda>j. store_get j s)(k \<mapsto> v)" for s k v
    by (auto simp: row_put_def store_get_update store_get_insert)
  show "unique_keys s \<Longrightarrow> (\<lambda>j. store_get j (sql_delete k s)) = (\<lambda>j. store_get j s)(k := None)" for s k
    by (auto simp: store_get_delete)
qed (simp_all add: unique_keys_row_put unique_keys_delete)

section \<open>What the operations do\<close>

lemma execute_cases:
  obtains "execute E st rs = (Inr (), sql_apply st rs)"
  | e where "execute E st rs = (Inl e, rs)"
  by (cases "execute_loop E st 0") (auto simp: execute_def)

lemma put_cases:
  obtains "put E k v rs = (Inr (), row_put k v rs)" "k \<noteq> []"
  | w where "put E k v rs = (Inl (Panic w), rs)"
proof (cases "k = []")
  case True
  then show ?thesis using that(2) by (simp add: put_def)
next
  case False
  show ?thesis
    by (rule execute_cases[of E "if exists_key k rs then SqlUpdate k v else SqlInsert k v" rs])
       (use False that in \<open>auto simp: put_def row_put_def Let_def\<close>)
qed

lemma delete_key_cases:
  obtains "delete_key E k rs = (Inr (), sql_delete k rs)"
  | e where "delete_key E k rs = (Inl e, rs)"
  by (rule execute_cases[of E "SqlDelete k" rs]) (use that in \<open>auto simp: delete_key_def\<close>)

lemma execute_ok: "sqlite_ok E \<Longrightarrow> execute E st rs = (Inr (), sql_apply st rs)"
  by (simp add: execute_def execute_loop.simps[of E st 0] sqlite_ok_def)

lemma put_ok: "sqlite_ok E \<Longrightarrow> k \<noteq> [] \<Longrightarrow> put E k v rs = (Inr (), row_put k v rs)"
  by (simp add: put_def row_put_def execute_ok Let_def)

lemma delete_key_ok: "sqlite_ok E \<Longrightarrow> delete_key E k rs = (Inr (), sql_delete k rs)"
  by (simp add: delete_key_def execute_ok)

text \<open>Rows keep their prefix and their place; a new row goes to the end.\<close>

lemma set_row_put:
  "r \<in> set (row_put k v rs) \<Longrightarrow>
     r \<in> set rs \<and> r_key r \<noteq> k \<or> r_key r = k \<and> r_data r = v"
  by (auto simp: row_put_def sql_insert_def sql_update_def exists_key_iff split: if_splits)

end
