(* ===== verification/Backend.thy ===== *)
theory Backend
  imports Store
begin

text \<open>
  The wallet backend, \<open>impls/src/backends/lmdb.rs\<close>: the wallet's state, the keys under which
  its tables live, and every operation of \<open>WalletBackend\<close> and \<open>WalletOutputBatch\<close>.

  A write batch holds a keychain and writes straight to the store: there is no transaction
  behind it, \<open>commit\<close> only gives the handle up. A batch operation is therefore an operation
  on the wallet state, and what was written before an error stays written.
\<close>

section \<open>The state\<close>

record wallet =
  w_db :: rows
  w_files :: "string \<Rightarrow> string option"
  w_keychain :: "Keychain option"
  w_master_checksum :: "bytes option"
  w_parent_key_id :: Identifier

type_synonym 'a op = "(wallet, error, 'a) proc"

definition on_db :: "(rows, error, 'a) proc \<Rightarrow> 'a op" where
  "on_db f w = (case f (w_db w) of (r, rs) \<Rightarrow> (r, w\<lparr>w_db := rs\<rparr>))"

text \<open>\<open>if let Ok(x) = m\<close> and \<open>let _ = m\<close>: an error is dropped, a panic is not.\<close>

definition if_let_ok :: "'a op \<Rightarrow> ('a \<Rightarrow> unit op) \<Rightarrow> unit op" where
  "if_let_ok m f w = (case m w of
      (Inr x, w') \<Rightarrow> f x w'
    | (Inl (Panic p), w') \<Rightarrow> (Inl (Panic p), w')
    | (Inl _, w') \<Rightarrow> (Inr (), w'))"

definition ignoring :: "'a op \<Rightarrow> unit op" where
  "ignoring m = if_let_ok m (\<lambda>_. ret ())"

section \<open>Keys\<close>

definition OUTPUT_HISTORY_PREFIX :: u8 where "OUTPUT_HISTORY_PREFIX = 104"
definition OUTPUT_HISTORY_ID_PREFIX :: u8 where "OUTPUT_HISTORY_ID_PREFIX = 106"
definition OUTPUT_PREFIX :: u8 where "OUTPUT_PREFIX = 111"
definition DERIV_PREFIX :: u8 where "DERIV_PREFIX = 100"
definition CONFIRMED_HEIGHT_PREFIX :: u8 where "CONFIRMED_HEIGHT_PREFIX = 99"
definition PRIVATE_TX_CONTEXT_PREFIX :: u8 where "PRIVATE_TX_CONTEXT_PREFIX = 112"
definition TX_LOG_ENTRY_PREFIX :: u8 where "TX_LOG_ENTRY_PREFIX = 116"
definition TX_LOG_ID_PREFIX :: u8 where "TX_LOG_ID_PREFIX = 105"
definition ACCOUNT_PATH_MAPPING_PREFIX :: u8 where "ACCOUNT_PATH_MAPPING_PREFIX = 97"
definition LAST_SCANNED_BLOCK :: u8 where "LAST_SCANNED_BLOCK = 108"
definition LAST_SCANNED_KEY :: string where "LAST_SCANNED_KEY = ''LAST_SCANNED_KEY''"
definition WALLET_INIT_STATUS :: u8 where "WALLET_INIT_STATUS = 119"
definition WALLET_INIT_STATUS_KEY :: string where "WALLET_INIT_STATUS_KEY = ''WALLET_INIT_STATUS''"

lemmas prefix_defs =
  OUTPUT_HISTORY_PREFIX_def OUTPUT_HISTORY_ID_PREFIX_def OUTPUT_PREFIX_def DERIV_PREFIX_def
  CONFIRMED_HEIGHT_PREFIX_def PRIVATE_TX_CONTEXT_PREFIX_def TX_LOG_ENTRY_PREFIX_def
  TX_LOG_ID_PREFIX_def ACCOUNT_PATH_MAPPING_PREFIX_def LAST_SCANNED_BLOCK_def WALLET_INIT_STATUS_def

text \<open>\<open>str::as_bytes\<close> and \<open>u32::to_le_bytes\<close>.\<close>

definition as_bytes :: "string \<Rightarrow> bytes" where
  "as_bytes s = map of_char s"

definition to_le_bytes :: "u32 \<Rightarrow> bytes" where
  "to_le_bytes n = [ucast n, ucast (drop_bit 8 n), ucast (drop_bit 16 n), ucast (drop_bit 24 n)]"

definition output_key :: "ext \<Rightarrow> Identifier \<Rightarrow> u64 option \<Rightarrow> bytes" where
  "output_key E i mmr_index = (case mmr_index of
      Some n \<Rightarrow> to_key_u64 E OUTPUT_PREFIX (id_to_bytes E i) n
    | None \<Rightarrow> to_key E OUTPUT_PREFIX (id_to_bytes E i))"

definition history_key :: "ext \<Rightarrow> u32 \<Rightarrow> bytes" where
  "history_key E n = to_key E OUTPUT_HISTORY_PREFIX (to_le_bytes n)"

definition history_id_key :: "ext \<Rightarrow> bytes" where
  "history_id_key E = to_key E OUTPUT_HISTORY_ID_PREFIX [0]"

definition tx_log_key :: "ext \<Rightarrow> Identifier \<Rightarrow> u32 \<Rightarrow> bytes" where
  "tx_log_key E parent_id n = to_key_u64 E TX_LOG_ENTRY_PREFIX (id_to_bytes E parent_id) (ucast n)"

definition tx_id_key :: "ext \<Rightarrow> Identifier \<Rightarrow> bytes" where
  "tx_id_key E parent = to_key E TX_LOG_ID_PREFIX (id_to_bytes E parent)"

definition deriv_key :: "ext \<Rightarrow> Identifier \<Rightarrow> bytes" where
  "deriv_key E parent = to_key E DERIV_PREFIX (id_to_bytes E parent)"

definition height_key :: "ext \<Rightarrow> Identifier \<Rightarrow> bytes" where
  "height_key E parent = to_key E CONFIRMED_HEIGHT_PREFIX (id_to_bytes E parent)"

definition acct_key :: "ext \<Rightarrow> string \<Rightarrow> bytes" where
  "acct_key E label = to_key E ACCOUNT_PATH_MAPPING_PREFIX (as_bytes label)"

definition ctx_key :: "ext \<Rightarrow> bytes \<Rightarrow> nat \<Rightarrow> bytes" where
  "ctx_key E slate_id participant_id =
     to_key_u64 E PRIVATE_TX_CONTEXT_PREFIX slate_id (of_nat participant_id)"

definition scanned_block_key :: "ext \<Rightarrow> bytes" where
  "scanned_block_key E = to_key E LAST_SCANNED_BLOCK (as_bytes LAST_SCANNED_KEY)"

definition init_status_key :: "ext \<Rightarrow> bytes" where
  "init_status_key E = to_key E WALLET_INIT_STATUS (as_bytes WALLET_INIT_STATUS_KEY)"

text \<open>\<open>match s \<lbrace> Serializable::Numeric(n) => n, _ => 0 \<rbrace>\<close>, and 0 for a missing row.\<close>

definition numeric_or_0 :: "Serializable option \<Rightarrow> u64" where
  "numeric_or_0 s = (case s of Some (SNumeric n) \<Rightarrow> n | _ \<Rightarrow> 0)"

section \<open>The keychain\<close>

text \<open>\<open>set_keychain\<close>: remember a digest of the root key, then optionally mask the key kept.\<close>

definition set_keychain :: "ext \<Rightarrow> Keychain \<Rightarrow> bool \<Rightarrow> bool \<Rightarrow> SecretKey option op" where
  "set_keychain E k use_mask use_test_rng w = (case derive_root_key E k of
      Inl e \<Rightarrow> (Inl e, w)
    | Inr root_key \<Rightarrow>
       (let w1 = w\<lparr>w_master_checksum := Some (blake2b_32 E root_key)\<rparr> in
        if use_mask then
          (let mask_value = new_mask E use_test_rng in
           case mask_master_key E k mask_value of
             Inl e \<Rightarrow> (Inl e, w1)
           | Inr k' \<Rightarrow> (Inr (Some mask_value), w1\<lparr>w_keychain := Some k'\<rparr>))
        else (Inr None, w1\<lparr>w_keychain := Some k\<rparr>)))"

definition close :: "unit op" where
  "close w = (Inr (), w\<lparr>w_keychain := None\<rparr>)"

text \<open>\<open>keychain(mask)\<close>: unmask a copy and compare its root key with the digest.\<close>

definition keychain_result :: "ext \<Rightarrow> SecretKey option \<Rightarrow> wallet \<Rightarrow> error + Keychain" where
  "keychain_result E km w = (case w_keychain w of
      None \<Rightarrow> Inl KeychainDoesntExist
    | Some k \<Rightarrow>
       (case (case km of None \<Rightarrow> Inr k | Some m \<Rightarrow> mask_master_key E k m) of
          Inl e \<Rightarrow> Inl e
        | Inr k_masked \<Rightarrow>
           (case derive_root_key E k_masked of
              Inl e \<Rightarrow> Inl e
            | Inr root_key \<Rightarrow>
               if w_master_checksum w \<noteq> Some (blake2b_32 E root_key) then Inl InvalidKeychainMask
               else Inr k_masked)))"

definition keychain :: "ext \<Rightarrow> SecretKey option \<Rightarrow> Keychain op" where
  "keychain E km w = (keychain_result E km w, w)"

definition calc_commit_for_cache :: "ext \<Rightarrow> SecretKey option \<Rightarrow> u64 \<Rightarrow> Identifier \<Rightarrow> string option op" where
  "calc_commit_for_cache E keychain_mask amount i =
     bindE (keychain E keychain_mask) (\<lambda>k.
     bindE (liftE (kc_commit E k amount i)) (\<lambda>c. ret (Some (to_hex E c))))"

text \<open>
  \<open>batch(mask)\<close> needs the keychain and keeps it in the handle; \<open>batch_no_mask\<close> has none.
  \<open>commit\<close> drops the handle and writes nothing.
\<close>

type_synonym batch_handle = "Keychain option"

definition batch :: "ext \<Rightarrow> SecretKey option \<Rightarrow> batch_handle op" where
  "batch E keychain_mask = bindE (keychain E keychain_mask) (\<lambda>k. ret (Some k))"

definition batch_no_mask :: "batch_handle op" where
  "batch_no_mask = ret None"

definition batch_keychain :: "batch_handle \<Rightarrow> Keychain op" where
  "batch_keychain b = (case b of None \<Rightarrow> throw (Panic ''keychain.unwrap()'') | Some k \<Rightarrow> ret k)"

definition commit :: "unit op" where
  "commit = ret ()"


section \<open>Reading the wallet\<close>

definition default_path :: "ext \<Rightarrow> Identifier" where
  "default_path E = derive_key_id E 2 0 0 0 0"

definition not_found_key :: "ext \<Rightarrow> Identifier \<Rightarrow> error" where
  "not_found_key E i = NotFoundErr (''Key Id: '' @ id_string E i)"

text \<open>\<open>ok_or(e)?.as_output_data().unwrap()\<close>.\<close>

definition unwrap_output :: "error \<Rightarrow> Serializable option \<Rightarrow> error + OutputData" where
  "unwrap_output e s = (case s of
      None \<Rightarrow> Inl e
    | Some v \<Rightarrow> (case as_output_data v of Some out \<Rightarrow> Inr out | None \<Rightarrow> Inl (Panic ''as_output_data'')))"

definition get_output :: "ext \<Rightarrow> Identifier \<Rightarrow> u64 option \<Rightarrow> OutputData op" where
  "get_output E i mmr_index w =
     (unwrap_output (not_found_key E i) (get_ser (output_key E i mmr_index) (w_db w)), w)"

definition iter :: "wallet \<Rightarrow> OutputData list" where
  "iter w = List.map_filter as_output_data (store_iter OUTPUT_PREFIX (w_db w))"

definition history_iter :: "wallet \<Rightarrow> OutputData list" where
  "history_iter w = List.map_filter as_output_data (store_iter OUTPUT_HISTORY_PREFIX (w_db w))"

definition get_tx_log_entry :: "ext \<Rightarrow> Uuid \<Rightarrow> wallet \<Rightarrow> TxLogEntry option" where
  "get_tx_log_entry E u w =
     (case store_get (to_key E TX_LOG_ENTRY_PREFIX (uuid_as_bytes E u)) (w_db w) of
        Some s \<Rightarrow> as_txlogentry s
      | None \<Rightarrow> None)"

definition tx_log_iter :: "wallet \<Rightarrow> TxLogEntry list" where
  "tx_log_iter w = List.map_filter as_txlogentry (store_iter TX_LOG_ENTRY_PREFIX (w_db w))"

definition acct_path_iter :: "wallet \<Rightarrow> AcctPathMapping list" where
  "acct_path_iter w =
     List.map_filter as_acct_path_mapping (store_iter ACCOUNT_PATH_MAPPING_PREFIX (w_db w))"

definition get_acct_path :: "ext \<Rightarrow> string \<Rightarrow> wallet \<Rightarrow> AcctPathMapping option" where
  "get_acct_path E label w = (case get_ser (acct_key E label) (w_db w) of
      Some s \<Rightarrow> as_acct_path_mapping s
    | None \<Rightarrow> None)"

definition set_parent_key_id :: "Identifier \<Rightarrow> unit op" where
  "set_parent_key_id i w = (Inr (), w\<lparr>w_parent_key_id := i\<rparr>)"

definition set_parent_key_id_by_name :: "string \<Rightarrow> unit op" where
  "set_parent_key_id_by_name label w =
     (case find (\<lambda>l. ap_label l = label) (acct_path_iter w) of
        Some a \<Rightarrow> set_parent_key_id (ap_path a) w
      | None \<Rightarrow> (Inl (UnknownAccountLabel label), w))"

definition current_child_index :: "ext \<Rightarrow> Identifier \<Rightarrow> wallet \<Rightarrow> u32" where
  "current_child_index E parent w = ucast (numeric_or_0 (get_ser (deriv_key E parent) (w_db w)))"

definition last_confirmed_height :: "ext \<Rightarrow> wallet \<Rightarrow> u64" where
  "last_confirmed_height E w =
     numeric_or_0 (get_ser (height_key E (w_parent_key_id w)) (w_db w))"

definition no_scanned_block :: ScannedBlockInfo where
  "no_scanned_block =
     \<lparr>sb_height = 0, sb_hash = [], sb_start_pmmr_index = 0, sb_last_pmmr_index = 0\<rparr>"

definition last_scanned_block :: "ext \<Rightarrow> wallet \<Rightarrow> ScannedBlockInfo" where
  "last_scanned_block E w = (case get_ser (scanned_block_key E) (w_db w) of
      Some (SScannedBlockInfo s) \<Rightarrow> s
    | _ \<Rightarrow> no_scanned_block)"

definition init_status :: "ext \<Rightarrow> wallet \<Rightarrow> WalletInitStatus" where
  "init_status E w = (case get_ser (init_status_key E) (w_db w) of
      Some (SWalletInitStatus s) \<Rightarrow> s
    | _ \<Rightarrow> InitComplete)"

section \<open>Writing the wallet: the batch operations\<close>

definition put_db :: "ext \<Rightarrow> bytes \<Rightarrow> Serializable \<Rightarrow> unit op" where
  "put_db E key v = on_db (put_ser E key v)"

definition batch_get :: "ext \<Rightarrow> Identifier \<Rightarrow> u64 option \<Rightarrow> OutputData op" where
  "batch_get E i mmr_index w =
     (unwrap_output (not_found_key E i) (get_ser (output_key E i mmr_index) (w_db w)), w)"

definition batch_iter :: "wallet \<Rightarrow> OutputData list" where
  "batch_iter w = List.map_filter as_output_data (store_iter OUTPUT_PREFIX (w_db w))"

definition batch_history_iter :: "wallet \<Rightarrow> OutputData list" where
  "batch_history_iter w = List.map_filter as_output_data (store_iter OUTPUT_HISTORY_PREFIX (w_db w))"

definition batch_tx_log_iter :: "wallet \<Rightarrow> TxLogEntry list" where
  "batch_tx_log_iter w = List.map_filter as_txlogentry (store_iter TX_LOG_ENTRY_PREFIX (w_db w))"

definition batch_acct_path_iter :: "wallet \<Rightarrow> AcctPathMapping list" where
  "batch_acct_path_iter w =
     List.map_filter as_acct_path_mapping (store_iter ACCOUNT_PATH_MAPPING_PREFIX (w_db w))"

definition next_output_history_id :: "ext \<Rightarrow> u32 op" where
  "next_output_history_id E =
     bindE (gets (\<lambda>w. ucast (numeric_or_0 (get_ser (history_id_key E) (w_db w))))) (\<lambda>last_id.
     bindE (put_db E (history_id_key E) (SNumeric (ucast (last_id + 1 :: u32)))) (\<lambda>_.
     ret last_id))"

definition next_tx_log_id :: "ext \<Rightarrow> Identifier \<Rightarrow> u32 op" where
  "next_tx_log_id E parent =
     bindE (gets (\<lambda>w. ucast (numeric_or_0 (get_ser (tx_id_key E parent) (w_db w))))) (\<lambda>last_id.
     bindE (put_db E (tx_id_key E parent) (SNumeric (ucast (last_id + 1 :: u32)))) (\<lambda>_.
     ret last_id))"

text \<open>
  A record already in the history under another key id counts as registered: the code
  overwrites the key id of each history record before it compares.
\<close>

definition already_registered :: "OutputData \<Rightarrow> OutputData list \<Rightarrow> bool" where
  "already_registered out hist = list_ex (\<lambda>h. h\<lparr>od_key_id := od_key_id out\<rparr> = out) hist"

definition save_output_history :: "ext \<Rightarrow> OutputData \<Rightarrow> unit op" where
  "save_output_history E out =
     bindE (gets batch_history_iter) (\<lambda>hist.
     if already_registered out hist then ret ()
     else if_let_ok (next_output_history_id E) (\<lambda>n. put_db E (history_key E n) (SOutputData out)))"

definition save :: "ext \<Rightarrow> OutputData \<Rightarrow> unit op" where
  "save E out =
     bindE (if_let_ok (batch_get E (od_key_id out) (od_mmr_index out)) (\<lambda>previous_output.
              if previous_output \<noteq> out then save_output_history E previous_output else ret ())) (\<lambda>_.
     put_db E (output_key E (od_key_id out) (od_mmr_index out)) (SOutputData out))"

definition delete :: "ext \<Rightarrow> Identifier \<Rightarrow> u64 option \<Rightarrow> u32 option \<Rightarrow> unit op" where
  "delete E i mmr_index tx_id =
     bindE (if_let_ok (batch_get E i mmr_index) (\<lambda>previous_output.
              bindE (save_output_history E previous_output) (\<lambda>_.
              save_output_history E
                (previous_output\<lparr>od_status := Deleted, od_tx_log_entry := tx_id\<rparr>)))) (\<lambda>_.
     ignoring (on_db (delete_key E (output_key E i mmr_index))))"

definition lock_output :: "ext \<Rightarrow> OutputData \<Rightarrow> OutputData op" where
  "lock_output E out = bindE (save E (lock out)) (\<lambda>_. ret (lock out))"

definition save_last_confirmed_height :: "ext \<Rightarrow> Identifier \<Rightarrow> u64 \<Rightarrow> unit op" where
  "save_last_confirmed_height E parent h = put_db E (height_key E parent) (SNumeric h)"

definition save_last_scanned_block :: "ext \<Rightarrow> ScannedBlockInfo \<Rightarrow> unit op" where
  "save_last_scanned_block E block_info = put_db E (scanned_block_key E) (SScannedBlockInfo block_info)"

definition save_init_status :: "ext \<Rightarrow> WalletInitStatus \<Rightarrow> unit op" where
  "save_init_status E status = put_db E (init_status_key E) (SWalletInitStatus status)"

definition save_child_index :: "ext \<Rightarrow> Identifier \<Rightarrow> u32 \<Rightarrow> unit op" where
  "save_child_index E parent_id child_n = put_db E (deriv_key E parent_id) (SNumeric (ucast child_n))"

definition save_tx_log_entry :: "ext \<Rightarrow> TxLogEntry \<Rightarrow> Identifier \<Rightarrow> unit op" where
  "save_tx_log_entry E tx_in parent_id =
     put_db E (tx_log_key E parent_id (tl_id tx_in)) (STxLogEntry tx_in)"

definition save_acct_path :: "ext \<Rightarrow> AcctPathMapping \<Rightarrow> unit op" where
  "save_acct_path E mapping = put_db E (acct_key E (ap_label mapping)) (SAcctPathMapping mapping)"

section \<open>Signing contexts\<close>

definition SECRET_KEY_SIZE :: nat where "SECRET_KEY_SIZE = 32"

text \<open>The digests of (root key, slate id, \<open>"blind"\<close>) and (root key, slate id, \<open>"nonce"\<close>).\<close>

definition private_ctx_xor_keys :: "ext \<Rightarrow> Keychain \<Rightarrow> bytes \<Rightarrow> error + bytes \<times> bytes" where
  "private_ctx_xor_keys E k slate_id = (case derive_root_key E k of
      Inl e \<Rightarrow> Inl e
    | Inr root_key \<Rightarrow> Inr (blake2b_32 E (root_key @ slate_id @ as_bytes ''blind''),
                           blake2b_32 E (root_key @ slate_id @ as_bytes ''nonce'')))"

definition xor_secret :: "SecretKey \<Rightarrow> bytes \<Rightarrow> SecretKey" where
  "xor_secret s x = map (\<lambda>i. s ! i XOR x ! i) [0..<SECRET_KEY_SIZE]"

definition xor_context :: "bytes \<times> bytes \<Rightarrow> Context \<Rightarrow> Context" where
  "xor_context ks cx = cx\<lparr>cx_sec_key := xor_secret (cx_sec_key cx) (fst ks),
                          cx_sec_nonce := xor_secret (cx_sec_nonce cx) (snd ks)\<rparr>"

definition unwrap_context :: "error \<Rightarrow> Serializable option \<Rightarrow> error + Context" where
  "unwrap_context e s = (case s of
      None \<Rightarrow> Inl e
    | Some v \<Rightarrow> (case as_context v of Some cx \<Rightarrow> Inr cx | None \<Rightarrow> Inl (Panic ''as_context'')))"

definition get_private_context :: "ext \<Rightarrow> SecretKey option \<Rightarrow> bytes \<Rightarrow> nat \<Rightarrow> Context op" where
  "get_private_context E keychain_mask slate_id participant_id =
     bindE (keychain E keychain_mask) (\<lambda>k.
     bindE (liftE (private_ctx_xor_keys E k slate_id)) (\<lambda>ks.
     bindE (gets (\<lambda>w. get_ser (ctx_key E slate_id participant_id) (w_db w))) (\<lambda>s.
     bindE (liftE (unwrap_context (NotFoundErr ''Slate id'') s)) (\<lambda>cx.
     ret (xor_context ks cx)))))"

definition save_private_context :: "ext \<Rightarrow> batch_handle \<Rightarrow> bytes \<Rightarrow> nat \<Rightarrow> Context \<Rightarrow> unit op" where
  "save_private_context E b slate_id participant_id cx =
     bindE (batch_keychain b) (\<lambda>k.
     bindE (liftE (private_ctx_xor_keys E k slate_id)) (\<lambda>ks.
     put_db E (ctx_key E slate_id participant_id) (SContext (xor_context ks cx))))"

definition delete_private_context :: "ext \<Rightarrow> bytes \<Rightarrow> nat \<Rightarrow> unit op" where
  "delete_private_context E slate_id participant_id w =
     (case on_db (delete_key E (ctx_key E slate_id participant_id)) w of
        (Inl (Panic p), w') \<Rightarrow> (Inl (Panic p), w')
      | (Inl e, w') \<Rightarrow> (Inl (Backend ''sqlite error''), w')
      | (Inr u, w') \<Rightarrow> (Inr u, w'))"

section \<open>Deriving keys, stored transactions, opening\<close>

text \<open>
  The next child of the active account: the counter goes into the path at the child's depth
  (an index out of the four path entries panics) and is written back incremented.
\<close>

definition child_path :: "ext \<Rightarrow> Identifier \<Rightarrow> u32 \<Rightarrow> error + ext_path" where
  "child_path E parent n =
     (let p = id_to_path E parent; d = depth p + 1; i = usize_sub (unat d) 1 in
      if i < length (path p) then Inr (p\<lparr>depth := d, path := (path p)[i := n]\<rparr>)
      else Inl (Panic ''return_path.path''))"

definition next_child :: "ext \<Rightarrow> SecretKey option \<Rightarrow> Identifier op" where
  "next_child E keychain_mask =
     bindE (gets w_parent_key_id) (\<lambda>parent.
     bindE (gets (current_child_index E parent)) (\<lambda>deriv_idx.
     bindE (liftE (child_path E parent deriv_idx)) (\<lambda>return_path.
     bindE (batch E keychain_mask) (\<lambda>b.
     bindE (save_child_index E parent (deriv_idx + 1)) (\<lambda>_.
     bindE commit (\<lambda>_.
     ret (id_from_path E return_path)))))))"

definition tx_filename :: "string \<Rightarrow> string" where
  "tx_filename uuid = uuid @ ''.epictx''"

definition store_tx :: "ext \<Rightarrow> string \<Rightarrow> Transaction \<Rightarrow> unit op" where
  "store_tx E uuid tx w = (case fs_create E (tx_filename uuid) of
      Inl e \<Rightarrow> (Inl e, w)
    | Inr _ \<Rightarrow>
       (case fs_write E (tx_filename uuid) (tx_to_hex E tx) of (n, r) \<Rightarrow>
          (r, w\<lparr>w_files := (w_files w)(tx_filename uuid \<mapsto> take n (tx_to_hex E tx))\<rparr>)))"

definition get_stored_tx :: "ext \<Rightarrow> TxLogEntry \<Rightarrow> Transaction option op" where
  "get_stored_tx E entry w = (case tl_stored_tx entry of
      None \<Rightarrow> (Inr None, w)
    | Some filename \<Rightarrow>
       (case fs_read E filename (w_files w filename) of
          Inl e \<Rightarrow> (Inl e, w)
        | Inr content \<Rightarrow>
           (case tx_of_hex E content of
              None \<Rightarrow> (Inl (Panic ''from_hex''), w)
            | Some tx \<Rightarrow> (Inr (Some tx), w))))"

text \<open>\<open>LMDBBackend::new\<close>: the default account is (re)written at every start.\<close>

definition default_account :: "ext \<Rightarrow> AcctPathMapping" where
  "default_account E = \<lparr>ap_label = ''default'', ap_path = default_path E\<rparr>"

definition backend_new :: "ext \<Rightarrow> (string \<Rightarrow> string option) \<Rightarrow> (rows, error, wallet) proc" where
  "backend_new E files rs =
     (case put_ser E (acct_key E (ap_label (default_account E))) (SAcctPathMapping (default_account E)) rs of
        (Inl e, rs') \<Rightarrow> (Inl e, rs')
      | (Inr _, rs') \<Rightarrow>
          (Inr \<lparr>w_db = rs', w_files = files, w_keychain = None, w_master_checksum = None,
                w_parent_key_id = default_path E\<rparr>, rs'))"

end
