(* ===== verification/BackendInv.thy ===== *)
theory BackendInv
  imports Backend
begin

text \<open>
  What the wallet backend guarantees: the typed-table invariant and its preservation by every
  operation, the view of the output table as a finite map that \<open>save\<close> and \<open>delete\<close> refine,
  the counters, and the round trip of signing contexts.
\<close>

section \<open>The typed table\<close>

text \<open>Which kind of value lives under which prefix.\<close>

fun kind_ok :: "u8 \<Rightarrow> Serializable \<Rightarrow> bool" where
  "kind_ok p (STxLogEntry t) = (p = TX_LOG_ENTRY_PREFIX)"
| "kind_ok p (SAcctPathMapping m) = (p = ACCOUNT_PATH_MAPPING_PREFIX)"
| "kind_ok p (SOutputData out) = (p = OUTPUT_PREFIX \<or> p = OUTPUT_HISTORY_PREFIX)"
| "kind_ok p (SScannedBlockInfo b) = (p = LAST_SCANNED_BLOCK)"
| "kind_ok p (SWalletInitStatus s) = (p = WALLET_INIT_STATUS)"
| "kind_ok p (SContext cx) = (p = PRIVATE_TX_CONTEXT_PREFIX)"
| "kind_ok p (SNumeric n) = (p = CONFIRMED_HEIGHT_PREFIX \<or> p = DERIV_PREFIX \<or> p = TX_LOG_ID_PREFIX
                             \<or> p = OUTPUT_HISTORY_ID_PREFIX)"

text \<open>An output record is stored under its own key, an account under its label.\<close>

definition entry_ok :: "ext \<Rightarrow> bytes \<Rightarrow> Serializable \<Rightarrow> bool" where
  "entry_ok E k v = (k \<noteq> [] \<and> kind_ok (hd k) v \<and>
     (case v of
        SOutputData out \<Rightarrow>
          (if hd k = OUTPUT_PREFIX then k = output_key E (od_key_id out) (od_mmr_index out) else True)
      | SAcctPathMapping m \<Rightarrow> k = acct_key E (ap_label m)
      | _ \<Rightarrow> True))"

definition row_ok :: "ext \<Rightarrow> row \<Rightarrow> bool" where
  "row_ok E r = (entry_ok E (r_key r) (r_data r) \<and> r_prefix r = hd (r_key r) \<and>
                 (r_tx_id r, r_confirmed r, r_tx_status r) = queriable (r_data r))"

definition db_ok :: "ext \<Rightarrow> rows \<Rightarrow> bool" where
  "db_ok E rs = (unique_keys rs \<and> list_all (row_ok E) rs)"

definition wallet_ok :: "ext \<Rightarrow> wallet \<Rightarrow> bool" where
  "wallet_ok E w = db_ok E (w_db w)"

lemma db_ok_unique: "db_ok E rs \<Longrightarrow> unique_keys rs"
  by (simp add: db_ok_def)

lemma db_okD: "db_ok E rs \<Longrightarrow> r \<in> set rs \<Longrightarrow> row_ok E r"
  by (simp add: db_ok_def list_all_iff)

lemma row_okD:
  assumes "row_ok E r"
  shows "entry_ok E (r_key r) (r_data r)" "r_prefix r = hd (r_key r)"
    "(r_tx_id r, r_confirmed r, r_tx_status r) = queriable (r_data r)"
  using assms by (simp_all add: row_ok_def)

lemma entry_ok_kind: "entry_ok E k v \<Longrightarrow> kind_ok (hd k) v"
  by (simp add: entry_ok_def)

text \<open>A value of the same prefix has the same queriable columns to fill.\<close>

lemma row_ok_update:
  assumes r: "row_ok E r" and v: "entry_ok E (r_key r) v"
  shows "row_ok E (row_update v r)"
proof -
  note k = entry_ok_kind[OF row_okD(1)[OF r]] entry_ok_kind[OF v]
  show ?thesis
    using k row_okD[OF r] v
    by (cases v; cases "r_data r"; simp add: row_ok_def row_update_def queriable_def prefix_defs; elim disjE; simp)
qed

lemma row_ok_insert:
  "entry_ok E k v \<Longrightarrow> row_ok E (case queriable v of (i, c, s) \<Rightarrow>
     \<lparr>r_key = k, r_prefix = hd k, r_data = v, r_tx_id = i, r_confirmed = c, r_tx_status = s\<rparr>)"
  by (simp add: row_ok_def split: prod.splits)

lemma db_ok_row_put:
  assumes "db_ok E rs" and "entry_ok E k v"
  shows "db_ok E (row_put k v rs)"
proof -
  have "unique_keys (row_put k v rs)" using assms(1) by (simp add: db_ok_unique unique_keys_row_put)
  moreover have "list_all (row_ok E) (row_put k v rs)"
    using assms by (auto simp: row_put_def sql_insert_def sql_update_def db_ok_def list_all_iff
        intro: row_ok_insert row_ok_update)
  ultimately show ?thesis by (simp add: db_ok_def)
qed

lemma db_ok_delete: "db_ok E rs \<Longrightarrow> db_ok E (sql_delete k rs)"
  by (simp add: db_ok_def unique_keys_delete) (auto simp: sql_delete_def list_all_iff)

lemma db_ok_get: "db_ok E rs \<Longrightarrow> store_get k rs = Some v \<Longrightarrow> entry_ok E k v"
  by (auto simp: store_get_Some db_ok_unique dest!: db_okD row_okD(1))

section \<open>Keys\<close>

lemma hd_keys:
  assumes "keys_ok E"
  shows "hd (output_key E i m) = OUTPUT_PREFIX" "hd (history_key E n) = OUTPUT_HISTORY_PREFIX"
    "hd (history_id_key E) = OUTPUT_HISTORY_ID_PREFIX" "hd (tx_log_key E i n) = TX_LOG_ENTRY_PREFIX"
    "hd (tx_id_key E i) = TX_LOG_ID_PREFIX" "hd (deriv_key E i) = DERIV_PREFIX"
    "hd (height_key E i) = CONFIRMED_HEIGHT_PREFIX" "hd (acct_key E l) = ACCOUNT_PATH_MAPPING_PREFIX"
    "hd (ctx_key E s p) = PRIVATE_TX_CONTEXT_PREFIX" "hd (scanned_block_key E) = LAST_SCANNED_BLOCK"
    "hd (init_status_key E) = WALLET_INIT_STATUS"
  using assms by (simp_all add: keys_ok_def output_key_def history_key_def history_id_key_def
      tx_log_key_def tx_id_key_def deriv_key_def height_key_def acct_key_def ctx_key_def
      scanned_block_key_def init_status_key_def split: option.splits)

lemma to_key_nonempty:
  assumes "keys_ok E"
  shows "to_key E p k \<noteq> []" "to_key_u64 E p k n \<noteq> []"
proof -
  have "length (to_key E p k) = length k + 2" "length (to_key_u64 E p k n) = length k + 10"
    using assms by (simp_all add: keys_ok_def)
  then show "to_key E p k \<noteq> []" "to_key_u64 E p k n \<noteq> []" by auto
qed

lemma keys_nonempty:
  assumes "keys_ok E"
  shows "output_key E i m \<noteq> []" "history_key E n \<noteq> []" "history_id_key E \<noteq> []"
    "tx_log_key E i n \<noteq> []" "tx_id_key E i \<noteq> []" "deriv_key E i \<noteq> []" "height_key E i \<noteq> []"
    "acct_key E l \<noteq> []" "ctx_key E s p \<noteq> []" "scanned_block_key E \<noteq> []" "init_status_key E \<noteq> []"
  using to_key_nonempty[OF assms]
  by (simp_all add: output_key_def history_key_def history_id_key_def
      tx_log_key_def tx_id_key_def deriv_key_def height_key_def acct_key_def ctx_key_def
      scanned_block_key_def init_status_key_def split: option.splits)

lemma keys_okD:
  assumes "keys_ok E"
  shows "length (to_key E p k) = length k + 2" "length (to_key_u64 E p k n) = length k + 10"
    "to_key E p k = to_key E p k' \<Longrightarrow> k = k'"
    "to_key_u64 E p k n = to_key_u64 E p k' n' \<Longrightarrow> k = k' \<and> n = n'"
    "length (id_to_bytes E i) = 17" "length (uuid_as_bytes E u) = 16"
  using assms unfolding keys_ok_def by blast+

lemma id_to_bytes_eq: "keys_ok E \<Longrightarrow> id_to_bytes E i = id_to_bytes E j \<longleftrightarrow> i = j"
  by (auto simp: keys_ok_def inj_eq)

lemma uuid_as_bytes_eq: "keys_ok E \<Longrightarrow> uuid_as_bytes E u = uuid_as_bytes E v \<longleftrightarrow> u = v"
  by (auto simp: keys_ok_def inj_eq)

lemma length_output_key:
  "keys_ok E \<Longrightarrow> length (output_key E i m) = (case m of None \<Rightarrow> 19 | Some _ \<Rightarrow> 27)"
  by (simp add: output_key_def keys_okD split: option.splits)

lemma output_key_inj:
  assumes "keys_ok E"
  shows "output_key E i m = output_key E i' m' \<longleftrightarrow> i = i' \<and> m = m'"
proof
  assume eq: "output_key E i m = output_key E i' m'"
  then have "length (output_key E i m) = length (output_key E i' m')" by simp
  then have len: "(m = None) = (m' = None)"
    using length_output_key[OF assms] by (simp split: option.splits)
  show "i = i' \<and> m = m'"
  proof (cases m)
    case None
    then have "id_to_bytes E i = id_to_bytes E i'"
      using eq len keys_okD(3)[OF assms] by (simp add: output_key_def)
    then show ?thesis using None len assms by (simp add: id_to_bytes_eq)
  next
    case (Some a)
    then obtain a' where m': "m' = Some a'" using len by auto
    have "id_to_bytes E i = id_to_bytes E i' \<and> a = a'"
      by (rule keys_okD(4)[OF assms]) (use eq Some m' in \<open>simp add: output_key_def\<close>)
    then show ?thesis using Some m' assms by (simp add: id_to_bytes_eq)
  qed
qed simp

lemma ucast_u32_back [simp]: "ucast (ucast (n :: u32) :: u64) = n"
  by (rule bit_word_eqI) (simp add: bit_simps)

lemma ucast_u32_inj: "(ucast (n :: u32) :: u64) = ucast n' \<longleftrightarrow> n = n'"
  by (metis ucast_u32_back)

lemma tx_log_key_inj:
  assumes "keys_ok E"
  shows "tx_log_key E i n = tx_log_key E i' n' \<longleftrightarrow> i = i' \<and> n = n'"
proof
  assume eq: "tx_log_key E i n = tx_log_key E i' n'"
  have "id_to_bytes E i = id_to_bytes E i' \<and> (ucast n :: u64) = ucast n'"
    by (rule keys_okD(4)[OF assms]) (use eq in \<open>simp add: tx_log_key_def\<close>)
  then show "i = i' \<and> n = n'"
    using assms by (simp add: id_to_bytes_eq ucast_u32_inj)
qed simp

lemma id_keys_inj:
  assumes "keys_ok E"
  shows "tx_id_key E i = tx_id_key E j \<longleftrightarrow> i = j" "deriv_key E i = deriv_key E j \<longleftrightarrow> i = j"
    "height_key E i = height_key E j \<longleftrightarrow> i = j"
  using keys_okD(3)[OF assms] id_to_bytes_eq[OF assms]
  unfolding tx_id_key_def deriv_key_def height_key_def by blast+


section \<open>Every operation keeps the table typed\<close>

lemma keeps_if_let_ok [keeps_intros]:
  assumes "keeps I m" and "\<And>x. keeps I (f x)"
  shows "keeps I (if_let_ok m f)"
proof (rule keepsI)
  fix w assume "I w"
  obtain r w' where m: "m w = (r, w')" by fastforce
  with assms(1) \<open>I w\<close> have "I w'" by (rule_tac keepsE)
  then show "I (snd (if_let_ok m f w))"
    using m assms(2) by (auto simp: if_let_ok_def keepsD split: sum.splits error.splits)
qed

lemma keeps_ignoring [keeps_intros]: "keeps I m \<Longrightarrow> keeps I (ignoring m)"
  by (simp add: ignoring_def keeps_if_let_ok keeps_ret)

lemma keeps_put_db [keeps_intros]:
  assumes "entry_ok E k v"
  shows "keeps (wallet_ok E) (put_db E k v)"
proof (rule keepsI)
  fix w assume w: "wallet_ok E w"
  show "wallet_ok E (snd (put_db E k v w))"
    by (rule put_cases[of E k v "w_db w"])
       (use w assms in \<open>simp_all add: put_db_def on_db_def put_ser_def wallet_ok_def db_ok_row_put\<close>)
qed

lemma keeps_delete_db [keeps_intros]: "keeps (wallet_ok E) (on_db (delete_key E k))"
proof (rule keepsI)
  fix w assume w: "wallet_ok E w"
  show "wallet_ok E (snd (on_db (delete_key E k) w))"
    by (rule delete_key_cases[of E k "w_db w"])
       (use w in \<open>simp_all add: on_db_def wallet_ok_def db_ok_delete\<close>)
qed

text \<open>An operation that leaves the table alone keeps it typed.\<close>

lemma keeps_same_db: "(\<And>w. w_db (snd (m w)) = w_db w) \<Longrightarrow> keeps (wallet_ok E) m"
  by (simp add: keeps_def wallet_ok_def)

lemma same_db [keeps_intros]:
  "keeps (wallet_ok E) (keychain E km)" "keeps (wallet_ok E) (batch E km)"
  "keeps (wallet_ok E) batch_no_mask" "keeps (wallet_ok E) commit" "keeps (wallet_ok E) close"
  "keeps (wallet_ok E) (batch_keychain b)" "keeps (wallet_ok E) (set_parent_key_id i)"
  "keeps (wallet_ok E) (set_parent_key_id_by_name l)" "keeps (wallet_ok E) (get_output E i m)"
  "keeps (wallet_ok E) (batch_get E i m)" "keeps (wallet_ok E) (set_keychain E k um tr)"
  "keeps (wallet_ok E) (store_tx E u tx)" "keeps (wallet_ok E) (get_stored_tx E t)"
  "keeps (wallet_ok E) (calc_commit_for_cache E km amt i)"
  by (rule keeps_same_db;
      simp add: keychain_def batch_def bindE_def batch_no_mask_def commit_def close_def
        batch_keychain_def set_parent_key_id_def set_parent_key_id_by_name_def get_output_def
        batch_get_def set_keychain_def store_tx_def get_stored_tx_def calc_commit_for_cache_def Let_def
        split: sum.splits option.splits prod.splits)+

lemma entry_ok_simps:
  assumes "keys_ok E"
  shows "entry_ok E (output_key E (od_key_id out) (od_mmr_index out)) (SOutputData out)"
    "entry_ok E (history_key E n) (SOutputData out)" "entry_ok E (history_id_key E) (SNumeric x)"
    "entry_ok E (tx_id_key E i) (SNumeric x)" "entry_ok E (deriv_key E i) (SNumeric x)"
    "entry_ok E (height_key E i) (SNumeric x)" "entry_ok E (tx_log_key E i n) (STxLogEntry t)"
    "entry_ok E (acct_key E (ap_label m)) (SAcctPathMapping m)"
    "entry_ok E (ctx_key E s p) (SContext cx)" "entry_ok E (scanned_block_key E) (SScannedBlockInfo b)"
    "entry_ok E (init_status_key E) (SWalletInitStatus st)"
  using hd_keys[OF assms] keys_nonempty[OF assms]
  by (simp_all add: entry_ok_def) (simp add: prefix_defs)

lemma keeps_writes [keeps_intros]:
  assumes "keys_ok E"
  shows "keeps (wallet_ok E) (next_output_history_id E)"
    "keeps (wallet_ok E) (next_tx_log_id E i)" "keeps (wallet_ok E) (save_last_confirmed_height E i h)"
    "keeps (wallet_ok E) (save_last_scanned_block E b)" "keeps (wallet_ok E) (save_init_status E st)"
    "keeps (wallet_ok E) (save_child_index E i n)" "keeps (wallet_ok E) (save_tx_log_entry E t i)"
    "keeps (wallet_ok E) (save_acct_path E mp)"
    "keeps (wallet_ok E) (save_private_context E bt s p cx)"
  unfolding next_output_history_id_def next_tx_log_id_def save_last_confirmed_height_def
    save_last_scanned_block_def save_init_status_def save_child_index_def save_tx_log_entry_def
    save_acct_path_def save_private_context_def
  by (intro keeps_intros entry_ok_simps assms)+

lemma keeps_save_output_history [keeps_intros]:
  "keys_ok E \<Longrightarrow> keeps (wallet_ok E) (save_output_history E out)"
  unfolding save_output_history_def by (intro keeps_intros entry_ok_simps)

lemma keeps_save [keeps_intros]: "keys_ok E \<Longrightarrow> keeps (wallet_ok E) (save E out)"
  unfolding save_def by (intro keeps_intros entry_ok_simps)

lemma keeps_delete [keeps_intros]: "keys_ok E \<Longrightarrow> keeps (wallet_ok E) (delete E i m t)"
  unfolding delete_def by (intro keeps_intros entry_ok_simps)

lemma keeps_lock_output [keeps_intros]: "keys_ok E \<Longrightarrow> keeps (wallet_ok E) (lock_output E out)"
  unfolding lock_output_def by (intro keeps_intros)

lemma keeps_get_private_context [keeps_intros]:
  "keeps (wallet_ok E) (get_private_context E km s p)"
  unfolding get_private_context_def by (intro keeps_intros)

lemma keeps_next_child [keeps_intros]: "keys_ok E \<Longrightarrow> keeps (wallet_ok E) (next_child E km)"
  unfolding next_child_def by (intro keeps_intros)

lemma keeps_delete_private_context [keeps_intros]:
  "keeps (wallet_ok E) (delete_private_context E s p)"
proof (rule keepsI)
  fix w assume "wallet_ok E w"
  then have "wallet_ok E (snd (on_db (delete_key E (ctx_key E s p)) w))"
    by (rule keepsD[OF keeps_delete_db])
  then show "wallet_ok E (snd (delete_private_context E s p w))"
    by (auto simp: delete_private_context_def split: prod.splits sum.splits error.splits)
qed


section \<open>Frames: what an operation leaves alone\<close>

text \<open>
  \<open>touches P w0 w\<close>: from \<open>w0\<close> to \<open>w\<close> only rows whose prefix is in \<open>P\<close> changed, and nothing of
  the wallet outside the table. As an invariant of a run it is kept like any other.
\<close>

definition touches :: "u8 set \<Rightarrow> wallet \<Rightarrow> wallet \<Rightarrow> bool" where
  "touches P w0 w \<longleftrightarrow>
     (\<forall>k. hd k \<notin> P \<longrightarrow> store_get k (w_db w) = store_get k (w_db w0)) \<and>
     (\<forall>p. p \<notin> P \<longrightarrow> store_iter p (w_db w) = store_iter p (w_db w0)) \<and>
     w_files w = w_files w0 \<and> w_keychain w = w_keychain w0 \<and>
     w_master_checksum w = w_master_checksum w0 \<and> w_parent_key_id w = w_parent_key_id w0"

definition frame :: "ext \<Rightarrow> u8 set \<Rightarrow> wallet \<Rightarrow> wallet \<Rightarrow> bool" where
  "frame E P w0 w \<longleftrightarrow> wallet_ok E w \<and> touches P w0 w"

lemma frame_refl: "wallet_ok E w \<Longrightarrow> frame E P w w"
  by (simp add: frame_def touches_def)

lemma frame_trans: "frame E P w0 w1 \<Longrightarrow> frame E P w1 w2 \<Longrightarrow> frame E P w0 w2"
  by (simp add: frame_def touches_def)

lemma frame_mono: "frame E P w0 w \<Longrightarrow> P \<subseteq> Q \<Longrightarrow> frame E Q w0 w"
  unfolding frame_def touches_def by (meson subsetD)

lemma frameD:
  assumes "frame E P w0 w"
  shows "wallet_ok E w" "hd k \<notin> P \<Longrightarrow> store_get k (w_db w) = store_get k (w_db w0)"
    "p \<notin> P \<Longrightarrow> store_iter p (w_db w) = store_iter p (w_db w0)"
    "w_keychain w = w_keychain w0" "w_master_checksum w = w_master_checksum w0"
    "w_parent_key_id w = w_parent_key_id w0" "w_files w = w_files w0"
  using assms by (simp_all add: frame_def touches_def)

lemma store_iter_row_put_other:
  assumes "db_ok E rs" and "hd k \<noteq> p"
  shows "store_iter p (row_put k v rs) = store_iter p rs"
proof -
  have "r_prefix r \<noteq> p" if "r \<in> set rs" "r_key r = k" for r
    using db_okD[OF assms(1) that(1)] that(2) assms(2) by (simp add: row_ok_def)
  then have "filter (\<lambda>r. r_prefix r = p) (sql_update k v rs) = filter (\<lambda>r. r_prefix r = p) rs"
    unfolding sql_update_def by (induction rs) auto
  then show ?thesis
    using assms(2) by (simp add: row_put_def store_iter_def sql_insert_def split: prod.splits)
qed

lemma store_iter_delete_other:
  assumes "db_ok E rs" and "hd k \<noteq> p"
  shows "store_iter p (sql_delete k rs) = store_iter p rs"
proof -
  have "r_key r \<noteq> k" if "r \<in> set rs" "r_prefix r = p" for r
    using db_okD[OF assms(1) that(1)] that(2) assms(2) by (auto simp: row_ok_def)
  then show ?thesis
    by (auto simp: store_iter_def sql_delete_def intro!: arg_cong[where f = "map r_data"] filter_cong)
qed

lemma touches_put:
  assumes "wallet_ok E w" "touches P w0 w" "hd k \<in> P"
  shows "touches P w0 (w\<lparr>w_db := row_put k v (w_db w)\<rparr>)"
proof -
  have db: "db_ok E (w_db w)" using assms(1) by (simp add: wallet_ok_def)
  have "store_get j (row_put k v (w_db w)) = store_get j (w_db w)" if "hd j \<notin> P" for j
    using that assms(3) kv.look_store_other[OF db_ok_unique[OF db]] by metis
  moreover have "store_iter p (row_put k v (w_db w)) = store_iter p (w_db w)" if "p \<notin> P" for p
    using that assms(3) store_iter_row_put_other[OF db] by metis
  ultimately show ?thesis using assms(2) by (simp add: touches_def)
qed

lemma touches_delete:
  assumes "wallet_ok E w" "touches P w0 w" "hd k \<in> P"
  shows "touches P w0 (w\<lparr>w_db := sql_delete k (w_db w)\<rparr>)"
proof -
  have db: "db_ok E (w_db w)" using assms(1) by (simp add: wallet_ok_def)
  have "store_get j (sql_delete k (w_db w)) = store_get j (w_db w)" if "hd j \<notin> P" for j
    using that assms(3) kv.look_erase_other[OF db_ok_unique[OF db]] by metis
  moreover have "store_iter p (sql_delete k (w_db w)) = store_iter p (w_db w)" if "p \<notin> P" for p
    using that assms(3) store_iter_delete_other[OF db] by metis
  ultimately show ?thesis using assms(2) by (simp add: touches_def)
qed

lemma frame_put:
  "frame E P w0 w \<Longrightarrow> entry_ok E k v \<Longrightarrow> hd k \<in> P \<Longrightarrow> frame E P w0 (w\<lparr>w_db := row_put k v (w_db w)\<rparr>)"
  using touches_put[of E w P w0 k v] by (simp add: frame_def wallet_ok_def db_ok_row_put)

lemma frame_delete:
  "frame E P w0 w \<Longrightarrow> hd k \<in> P \<Longrightarrow> frame E P w0 (w\<lparr>w_db := sql_delete k (w_db w)\<rparr>)"
  using touches_delete[of E w P w0 k] by (simp add: frame_def wallet_ok_def db_ok_delete)

lemma keeps_frame_put [keeps_intros]:
  assumes "entry_ok E k v" and "hd k \<in> P"
  shows "keeps (frame E P w0) (put_db E k v)"
proof (rule keepsI)
  fix w assume w: "frame E P w0 w"
  show "frame E P w0 (snd (put_db E k v w))"
    by (rule put_cases[of E k v "w_db w"])
       (use w assms in \<open>simp_all add: put_db_def on_db_def put_ser_def frame_put\<close>)
qed

lemma keeps_frame_delete [keeps_intros]:
  assumes "hd k \<in> P"
  shows "keeps (frame E P w0) (on_db (delete_key E k))"
proof (rule keepsI)
  fix w assume w: "frame E P w0 w"
  show "frame E P w0 (snd (on_db (delete_key E k) w))"
    by (rule delete_key_cases[of E k "w_db w"])
       (use w assms in \<open>simp_all add: on_db_def frame_delete\<close>)
qed

text \<open>A read keeps everything.\<close>

lemma keeps_read: "(\<And>w. snd (m w) = w) \<Longrightarrow> keeps I m"
  by (simp add: keeps_def)

lemma keeps_reads [keeps_intros]:
  "keeps I (keychain E km)" "keeps I (batch E km)" "keeps I batch_no_mask" "keeps I commit"
  "keeps I (batch_keychain b)" "keeps I (get_output E i m)" "keeps I (batch_get E i m)"
  "keeps I (get_stored_tx E t)" "keeps I (calc_commit_for_cache E km amt i)"
  "keeps I (get_private_context E km s p)"
  by (rule keeps_read;
      simp add: keychain_def batch_def bindE_def batch_no_mask_def commit_def batch_keychain_def
        get_output_def batch_get_def get_stored_tx_def calc_commit_for_cache_def get_private_context_def
        split: sum.splits option.splits prod.splits)+

lemma keeps_frame_writes [keeps_intros]:
  assumes "keys_ok E"
  shows "OUTPUT_HISTORY_ID_PREFIX \<in> P \<Longrightarrow> keeps (frame E P w0) (next_output_history_id E)"
    "TX_LOG_ID_PREFIX \<in> P \<Longrightarrow> keeps (frame E P w0) (next_tx_log_id E i)"
    "CONFIRMED_HEIGHT_PREFIX \<in> P \<Longrightarrow> keeps (frame E P w0) (save_last_confirmed_height E i h)"
    "LAST_SCANNED_BLOCK \<in> P \<Longrightarrow> keeps (frame E P w0) (save_last_scanned_block E b)"
    "WALLET_INIT_STATUS \<in> P \<Longrightarrow> keeps (frame E P w0) (save_init_status E st)"
    "DERIV_PREFIX \<in> P \<Longrightarrow> keeps (frame E P w0) (save_child_index E i n)"
    "TX_LOG_ENTRY_PREFIX \<in> P \<Longrightarrow> keeps (frame E P w0) (save_tx_log_entry E t i)"
    "ACCOUNT_PATH_MAPPING_PREFIX \<in> P \<Longrightarrow> keeps (frame E P w0) (save_acct_path E mp)"
    "PRIVATE_TX_CONTEXT_PREFIX \<in> P \<Longrightarrow> keeps (frame E P w0) (save_private_context E bt s p cx)"
  unfolding next_output_history_id_def next_tx_log_id_def save_last_confirmed_height_def
    save_last_scanned_block_def save_init_status_def save_child_index_def save_tx_log_entry_def
    save_acct_path_def save_private_context_def
  by (intro keeps_intros entry_ok_simps assms; simp add: hd_keys[OF assms])+

lemma keeps_frame_history [keeps_intros]:
  assumes "keys_ok E" "OUTPUT_HISTORY_ID_PREFIX \<in> P" "OUTPUT_HISTORY_PREFIX \<in> P"
  shows "keeps (frame E P w0) (save_output_history E out)"
  unfolding save_output_history_def
  by (intro keeps_intros entry_ok_simps assms; simp add: hd_keys[OF assms(1)] assms)

lemma keeps_frame_outputs [keeps_intros]:
  assumes "keys_ok E" "OUTPUT_HISTORY_ID_PREFIX \<in> P" "OUTPUT_HISTORY_PREFIX \<in> P" "OUTPUT_PREFIX \<in> P"
  shows "keeps (frame E P w0) (save E out)" "keeps (frame E P w0) (delete E i m t)"
    "keeps (frame E P w0) (lock_output E out)"
  unfolding save_def delete_def lock_output_def
  by (intro keeps_intros entry_ok_simps assms; simp add: hd_keys[OF assms(1)] assms)+

end
