(* ===== verification/BackendSpec.thy ===== *)
theory BackendSpec
  imports BackendInv
begin

text \<open>
  The backend against its contract: the output table as a finite map (\<open>out_at\<close>) and the log as
  one (\<open>tx_at\<close>), what the operations do to them when SQLite runs the statements, the counters as
  instances of one interface, signing contexts, the keychain mask, and the reachable tables.
\<close>

section \<open>The tables as maps\<close>

definition out_at :: "ext \<Rightarrow> wallet \<Rightarrow> Identifier \<times> u64 option \<Rightarrow> OutputData option" where
  "out_at E w = (\<lambda>(i, m). Option.bind (get_ser (output_key E i m) (w_db w)) as_output_data)"

definition tx_at :: "ext \<Rightarrow> wallet \<Rightarrow> Identifier \<times> u32 \<Rightarrow> TxLogEntry option" where
  "tx_at E w = (\<lambda>(i, n). Option.bind (get_ser (tx_log_key E i n) (w_db w)) as_txlogentry)"

text \<open>What an operation needs to go through: good keys, a typed table, SQLite answering.\<close>

definition ready :: "ext \<Rightarrow> wallet \<Rightarrow> bool" where
  "ready E w \<longleftrightarrow> keys_ok E \<and> sqlite_ok E \<and> wallet_ok E w"

lemma readyD: "ready E w \<Longrightarrow> keys_ok E" "ready E w \<Longrightarrow> sqlite_ok E" "ready E w \<Longrightarrow> wallet_ok E w"
  "ready E w \<Longrightarrow> db_ok E (w_db w)" "ready E w \<Longrightarrow> unique_keys (w_db w)"
  by (simp_all add: ready_def wallet_ok_def db_ok_def)

lemma ready_frame: "ready E w0 \<Longrightarrow> frame E P w0 w \<Longrightarrow> ready E w"
  by (simp add: ready_def frame_def)

lemma put_db_ok:
  "sqlite_ok E \<Longrightarrow> k \<noteq> [] \<Longrightarrow> put_db E k v w = (Inr (), w\<lparr>w_db := row_put k v (w_db w)\<rparr>)"
  by (simp add: put_db_def on_db_def put_ser_def put_ok)

lemma get_put: "unique_keys rs \<Longrightarrow> store_get j (row_put k v rs) = (if j = k then Some v else store_get j rs)"
  using fun_cong[OF kv.look_store, of rs j k v] by simp

lemma get_delete: "unique_keys rs \<Longrightarrow> store_get j (sql_delete k rs) = (if j = k then None else store_get j rs)"
  using fun_cong[OF kv.look_erase, of rs j k] by simp

text \<open>A typed table never fails the \<open>unwrap\<close> on an output record.\<close>

lemma as_output_data_eq: "as_output_data v = Some out \<longleftrightarrow> v = SOutputData out"
  by (cases v) simp_all

lemma as_txlogentry_eq: "as_txlogentry v = Some t \<longleftrightarrow> v = STxLogEntry t"
  by (cases v) simp_all

lemma entry_ok_output:
  assumes "keys_ok E" "entry_ok E (output_key E i m) v"
  obtains out where "v = SOutputData out" "od_key_id out = i" "od_mmr_index out = m"
  using assms hd_keys(1)[OF assms(1), of i m] output_key_inj[OF assms(1)]
  by (cases v) (auto simp: entry_ok_def prefix_defs)

lemma unwrap_output_out_at:
  assumes "keys_ok E" "wallet_ok E w"
  shows "unwrap_output e (get_ser (output_key E i m) (w_db w)) =
    (case out_at E w (i, m) of None \<Rightarrow> Inl e | Some out \<Rightarrow> Inr out)"
proof (cases "store_get (output_key E i m) (w_db w)")
  case None
  then show ?thesis by (simp add: unwrap_output_def out_at_def get_ser_def)
next
  case (Some v)
  then have "entry_ok E (output_key E i m) v" using assms(2) by (simp add: wallet_ok_def db_ok_get)
  then show ?thesis using Some assms(1)
    by (auto simp: unwrap_output_def out_at_def get_ser_def elim: entry_ok_output)
qed

lemma get_output_eq:
  "keys_ok E \<Longrightarrow> wallet_ok E w \<Longrightarrow> get_output E i m w =
     ((case out_at E w (i, m) of None \<Rightarrow> Inl (not_found_key E i) | Some out \<Rightarrow> Inr out), w)"
  by (simp add: get_output_def unwrap_output_out_at)

lemma batch_get_eq:
  "keys_ok E \<Longrightarrow> wallet_ok E w \<Longrightarrow> batch_get E i m w =
     ((case out_at E w (i, m) of None \<Rightarrow> Inl (not_found_key E i) | Some out \<Rightarrow> Inr out), w)"
  by (simp add: batch_get_def unwrap_output_out_at)

lemma out_at_Some:
  "out_at E w (i, m) = Some out \<longleftrightarrow> store_get (output_key E i m) (w_db w) = Some (SOutputData out)"
  by (auto simp: out_at_def get_ser_def bind_eq_Some_conv as_output_data_eq)

lemma out_at_key:
  assumes "keys_ok E" "wallet_ok E w" "out_at E w (i, m) = Some out"
  shows "od_key_id out = i" "od_mmr_index out = m"
proof -
  have "entry_ok E (output_key E i m) (SOutputData out)"
    using assms by (auto simp: out_at_Some wallet_ok_def db_ok_get)
  then show "od_key_id out = i" "od_mmr_index out = m"
    using assms(1) by (auto elim: entry_ok_output)
qed

section \<open>Listings agree with lookups\<close>

lemma set_map_filter: "set (List.map_filter f xs) = {y. \<exists>x \<in> set xs. f x = Some y}"
  by (induction xs) (auto split: option.splits)

lemma mem_iter:
  "out \<in> set (iter w) \<longleftrightarrow> (\<exists>r \<in> set (w_db w). r_prefix r = OUTPUT_PREFIX \<and> r_data r = SOutputData out)"
  by (auto simp: iter_def store_iter_def set_map_filter as_output_data_eq intro!: rev_image_eqI)

lemma mem_history_iter:
  "out \<in> set (history_iter w) \<longleftrightarrow>
     (\<exists>r \<in> set (w_db w). r_prefix r = OUTPUT_HISTORY_PREFIX \<and> r_data r = SOutputData out)"
  by (auto simp: history_iter_def store_iter_def set_map_filter as_output_data_eq intro!: rev_image_eqI)

lemma iter_lookup:
  assumes "keys_ok E" "wallet_ok E w"
  shows "out \<in> set (iter w) \<longleftrightarrow> out_at E w (od_key_id out, od_mmr_index out) = Some out"
proof
  assume "out \<in> set (iter w)"
  then obtain r where r: "r \<in> set (w_db w)" "r_prefix r = OUTPUT_PREFIX" "r_data r = SOutputData out"
    by (auto simp: mem_iter)
  have "row_ok E r" using assms(2) r(1) by (simp add: wallet_ok_def db_okD)
  then have "r_key r = output_key E (od_key_id out) (od_mmr_index out)"
    using r by (auto simp: row_ok_def entry_ok_def)
  then show "out_at E w (od_key_id out, od_mmr_index out) = Some out"
    using r assms(2) by (auto simp: out_at_Some wallet_ok_def store_get_Some db_ok_unique)
next
  assume "out_at E w (od_key_id out, od_mmr_index out) = Some out"
  then obtain r where r: "r \<in> set (w_db w)" "r_data r = SOutputData out"
    "r_key r = output_key E (od_key_id out) (od_mmr_index out)"
    using assms(2) by (auto simp: out_at_Some wallet_ok_def store_get_Some db_ok_unique)
  moreover have "row_ok E r" using assms(2) r(1) by (simp add: wallet_ok_def db_okD)
  ultimately show "out \<in> set (iter w)"
    using hd_keys(1)[OF assms(1)] by (auto simp: mem_iter row_ok_def)
qed

text \<open>No two listed records share a key, so the listing has no duplicates.\<close>

lemma distinct_map_filter_key:
  assumes "distinct (map f rs)" and "\<And>r y. r \<in> set rs \<Longrightarrow> h r = Some y \<Longrightarrow> f r = g (key y)"
  shows "distinct (map key (List.map_filter h rs))"
  using assms
proof (induction rs)
  case Nil
  then show ?case by simp
next
  case (Cons r rs)
  then have IH: "distinct (map key (List.map_filter h rs))" by simp
  show ?case
  proof (cases "h r")
    case None
    then show ?thesis using IH by simp
  next
    case (Some y)
    have "key y \<notin> key ` set (List.map_filter h rs)"
    proof
      assume "key y \<in> key ` set (List.map_filter h rs)"
      then obtain r' y' where "r' \<in> set rs" "h r' = Some y'" "key y' = key y"
        by (auto simp: set_map_filter)
      then have "f r' = f r" using Cons.prems(2)[of r' y'] Cons.prems(2)[of r y] Some by simp
      then show False using Cons.prems(1) \<open>r' \<in> set rs\<close> by (auto simp: image_iff)
    qed
    then show ?thesis using Some IH by simp
  qed
qed

lemma iter_distinct_keys:
  assumes "wallet_ok E w"
  shows "distinct (map (\<lambda>out. (od_key_id out, od_mmr_index out)) (iter w))"
proof -
  have iter: "iter w = List.map_filter (as_output_data \<circ> r_data)
    (filter (\<lambda>r. r_prefix r = OUTPUT_PREFIX) (w_db w))"
    by (simp add: iter_def store_iter_def List.map_filter_def filter_map comp_def)
  have u: "distinct (map r_key (filter (\<lambda>r. r_prefix r = OUTPUT_PREFIX) (w_db w)))"
    using assms by (simp add: wallet_ok_def db_ok_def unique_keys_def distinct_map_filter)
  show ?thesis
    unfolding iter
    by (rule distinct_map_filter_key[OF u, where g = "\<lambda>(i, m). output_key E i m"])
       (use assms in \<open>auto simp: wallet_ok_def as_output_data_eq row_ok_def entry_ok_def dest!: db_okD\<close>)
qed


section \<open>Saving and deleting outputs\<close>

lemma frame_out_at:
  assumes "keys_ok E" "frame E P w0 w" "OUTPUT_PREFIX \<notin> P"
  shows "out_at E w = out_at E w0"
  using frameD(2)[OF assms(2)] assms(3) hd_keys(1)[OF assms(1)]
  by (auto simp: out_at_def get_ser_def fun_eq_iff)

lemma frame_tx_at:
  assumes "keys_ok E" "frame E P w0 w" "TX_LOG_ENTRY_PREFIX \<notin> P"
  shows "tx_at E w = tx_at E w0"
  using frameD(2)[OF assms(2)] assms(3) hd_keys(4)[OF assms(1)]
  by (auto simp: tx_at_def get_ser_def fun_eq_iff)

lemma frame_iters:
  assumes "frame E P w0 w"
  shows "OUTPUT_PREFIX \<notin> P \<Longrightarrow> iter w = iter w0"
    "OUTPUT_HISTORY_PREFIX \<notin> P \<Longrightarrow> history_iter w = history_iter w0"
    "TX_LOG_ENTRY_PREFIX \<notin> P \<Longrightarrow> tx_log_iter w = tx_log_iter w0"
    "ACCOUNT_PATH_MAPPING_PREFIX \<notin> P \<Longrightarrow> acct_path_iter w = acct_path_iter w0"
  using frameD(3)[OF assms]
  by (simp_all add: iter_def history_iter_def tx_log_iter_def acct_path_iter_def)

lemma out_at_put:
  assumes "keys_ok E" "wallet_ok E w"
  shows "out_at E (w\<lparr>w_db := row_put (output_key E i m) (SOutputData out) (w_db w)\<rparr>)
       = (out_at E w)((i, m) \<mapsto> out)"
  using assms
  by (auto simp: out_at_def get_ser_def fun_eq_iff wallet_ok_def db_ok_unique output_key_inj
      get_put)

lemma tx_at_put:
  assumes "keys_ok E" "wallet_ok E w"
  shows "tx_at E (w\<lparr>w_db := row_put (tx_log_key E i n) (STxLogEntry t) (w_db w)\<rparr>)
       = (tx_at E w)((i, n) \<mapsto> t)"
  using assms
  by (auto simp: tx_at_def get_ser_def fun_eq_iff wallet_ok_def db_ok_unique tx_log_key_inj
      get_put)

lemma out_at_delete:
  assumes "keys_ok E" "wallet_ok E w"
  shows "out_at E (w\<lparr>w_db := sql_delete (output_key E i m) (w_db w)\<rparr>)
       = (out_at E w)((i, m) := None)"
  using assms
  by (auto simp: out_at_def get_ser_def fun_eq_iff wallet_ok_def db_ok_unique output_key_inj
      get_delete)

lemma if_let_ok_simps:
  "m w = (Inr x, w') \<Longrightarrow> if_let_ok m f w = f x w'"
  "m w = (Inl e, w') \<Longrightarrow> (\<And>p. e \<noteq> Panic p) \<Longrightarrow> if_let_ok m f w = (Inr (), w')"
  by (auto simp: if_let_ok_def split: error.splits)

lemma next_output_history_id_ok:
  assumes "ready E w"
  obtains w' where "next_output_history_id E w =
      (Inr (ucast (numeric_or_0 (get_ser (history_id_key E) (w_db w)))), w')"
    and "frame E {OUTPUT_HISTORY_ID_PREFIX} w w'"
proof -
  have k: "history_id_key E \<noteq> []" using readyD(1)[OF assms] by (rule keys_nonempty(3))
  let ?n = "ucast (numeric_or_0 (get_ser (history_id_key E) (w_db w))) :: u32"
  let ?w = "snd (next_output_history_id E w)"
  have "next_output_history_id E w = (Inr ?n, ?w)"
    using put_db_ok[OF readyD(2)[OF assms] k] by (simp add: next_output_history_id_def bindE_app)
  moreover have "frame E {OUTPUT_HISTORY_ID_PREFIX} w ?w"
    by (rule keepsD[OF keeps_frame_writes(1)])
       (use assms in \<open>auto simp: ready_def intro: frame_refl\<close>)
  ultimately show ?thesis using that by blast
qed

text \<open>Registering a record adds it to the history unless an equal one is there.\<close>

definition recorded :: "OutputData \<Rightarrow> wallet \<Rightarrow> bool" where
  "recorded out w = already_registered out (history_iter w)"

lemma mem_history_recorded: "out \<in> set (history_iter w) \<Longrightarrow> recorded out w"
  unfolding recorded_def already_registered_def list_ex_iff by (rule bexI[of _ out]) simp_all

lemma save_output_history_ok:
  assumes "ready E w"
  obtains w' where "save_output_history E out w = (Inr (), w')"
    and "frame E {OUTPUT_HISTORY_ID_PREFIX, OUTPUT_HISTORY_PREFIX} w w'" and "recorded out w'"
proof (cases "already_registered out (history_iter w)")
  case True
  then have "save_output_history E out w = (Inr (), w)"
    by (simp add: save_output_history_def bindE_app batch_history_iter_def history_iter_def)
  then show ?thesis using that True frame_refl[OF readyD(3)[OF assms]] by (auto simp: recorded_def)
next
  case False
  obtain n w1 where n: "next_output_history_id E w = (Inr n, w1)"
    and f1: "frame E {OUTPUT_HISTORY_ID_PREFIX} w w1"
    using next_output_history_id_ok[OF assms] by blast
  note K = readyD(1)[OF assms] and S = readyD(2)[OF assms]
  let ?w2 = "w1\<lparr>w_db := row_put (history_key E n) (SOutputData out) (w_db w1)\<rparr>"
  have run: "save_output_history E out w = (Inr (), ?w2)"
    using False n put_db_ok[OF S keys_nonempty(2)[OF K]]
    by (simp add: save_output_history_def bindE_app batch_history_iter_def history_iter_def
        if_let_ok_simps(1)[where m = "next_output_history_id E", OF n])
  have w1: "wallet_ok E w1" using f1 by (rule frameD(1))
  have f2: "frame E {OUTPUT_HISTORY_PREFIX} w1 ?w2"
    by (rule frame_put) (use K w1 in \<open>auto simp: frame_refl entry_ok_simps hd_keys\<close>)
  have "store_get (history_key E n) (w_db ?w2) = Some (SOutputData out)"
    using w1 by (simp add: wallet_ok_def db_ok_unique get_put)
  then obtain r where r: "r \<in> set (w_db ?w2)" "r_key r = history_key E n" "r_data r = SOutputData out"
    using frameD(1)[OF f2] by (auto simp: wallet_ok_def store_get_Some db_ok_unique)
  then have "r_prefix r = OUTPUT_HISTORY_PREFIX"
    using frameD(1)[OF f2] hd_keys(2)[OF K] by (auto simp: wallet_ok_def row_ok_def dest: db_okD)
  then have "recorded out ?w2" using r by (intro mem_history_recorded) (auto simp: mem_history_iter)
  moreover have "frame E {OUTPUT_HISTORY_ID_PREFIX, OUTPUT_HISTORY_PREFIX} w ?w2"
    by (rule frame_trans[OF frame_mono[OF f1] frame_mono[OF f2]]) simp_all
  ultimately show ?thesis using that run by blast
qed

lemma save_ok:
  assumes "ready E w"
  obtains w' where "save E out w = (Inr (), w')"
    and "frame E {OUTPUT_HISTORY_ID_PREFIX, OUTPUT_HISTORY_PREFIX, OUTPUT_PREFIX} w w'"
    and "out_at E w' = (out_at E w)((od_key_id out, od_mmr_index out) \<mapsto> out)"
    and "\<And>prev. out_at E w (od_key_id out, od_mmr_index out) = Some prev \<Longrightarrow> prev \<noteq> out \<Longrightarrow> recorded prev w'"
proof -
  note K = readyD(1)[OF assms] and S = readyD(2)[OF assms] and W = readyD(3)[OF assms]
  let ?P = "{OUTPUT_HISTORY_ID_PREFIX, OUTPUT_HISTORY_PREFIX}"
  let ?im = "(od_key_id out, od_mmr_index out)"
  let ?first = "if_let_ok (batch_get E (od_key_id out) (od_mmr_index out))
    (\<lambda>prev. if prev \<noteq> out then save_output_history E prev else ret ())"
  have "\<exists>w1. ?first w = (Inr (), w1) \<and> frame E ?P w w1 \<and>
    (\<forall>prev. out_at E w ?im = Some prev \<longrightarrow> prev \<noteq> out \<longrightarrow> recorded prev w1)"
  proof (cases "out_at E w ?im")
    case None
    have "?first w = (Inr (), w)"
      by (rule if_let_ok_simps(2)[where e = "not_found_key E (od_key_id out)"])
         (use None K W in \<open>simp_all add: batch_get_eq not_found_key_def\<close>)
    then show ?thesis using None frame_refl[OF W] by auto
  next
    case (Some prev)
    have first: "?first w = (if prev \<noteq> out then save_output_history E prev else ret ()) w"
      by (rule if_let_ok_simps(1)) (use Some K W in \<open>simp add: batch_get_eq\<close>)
    show ?thesis
    proof (cases "prev = out")
      case True
      then show ?thesis using Some first frame_refl[OF W] by auto
    next
      case False
      obtain w1 where "save_output_history E prev w = (Inr (), w1)" "frame E ?P w w1" "recorded prev w1"
        using save_output_history_ok[OF assms] by blast
      then show ?thesis using Some first False by auto
    qed
  qed
  then obtain w1 where w1: "?first w = (Inr (), w1)" "frame E ?P w w1"
    "\<And>prev. out_at E w ?im = Some prev \<Longrightarrow> prev \<noteq> out \<Longrightarrow> recorded prev w1" by blast
  let ?w2 = "w1\<lparr>w_db := row_put (output_key E (od_key_id out) (od_mmr_index out)) (SOutputData out) (w_db w1)\<rparr>"
  have run: "save E out w = (Inr (), ?w2)"
    using w1(1) put_db_ok[OF S keys_nonempty(1)[OF K]] by (simp add: save_def bindE_app)
  have f2: "frame E {OUTPUT_PREFIX} w1 ?w2"
    by (rule frame_put)
       (use K frameD(1)[OF w1(2)] in \<open>auto simp: frame_refl entry_ok_simps hd_keys\<close>)
  have "frame E (insert OUTPUT_HISTORY_ID_PREFIX {OUTPUT_HISTORY_PREFIX, OUTPUT_PREFIX}) w ?w2"
    by (rule frame_trans[OF frame_mono[OF w1(2)] frame_mono[OF f2]]) auto
  moreover have "out_at E w1 = out_at E w"
    by (rule frame_out_at[OF K w1(2)]) (simp add: prefix_defs)
  then have "out_at E ?w2 = (out_at E w)(?im \<mapsto> out)"
    using out_at_put[OF K frameD(1)[OF w1(2)]] by simp
  moreover have "history_iter ?w2 = history_iter w1"
    by (rule frame_iters(2)[OF f2]) (simp add: prefix_defs)
  then have "\<And>prev. out_at E w ?im = Some prev \<Longrightarrow> prev \<noteq> out \<Longrightarrow> recorded prev ?w2"
    using w1(3) by (simp add: recorded_def)
  ultimately show ?thesis using that run by blast
qed


section \<open>Counters\<close>

text \<open>\<open>m\<close> run \<open>n\<close> times, collecting the results.\<close>

primrec times_each :: "nat \<Rightarrow> ('s, 'e, 'a) proc \<Rightarrow> ('s, 'e, 'a list) proc" where
  "times_each 0 m = ret []"
| "times_each (Suc n) m = bindE m (\<lambda>x. bindE (times_each n m) (\<lambda>xs. ret (x # xs)))"

text \<open>
  The contract of an id generator: it returns the counter of its key and leaves it one
  higher, other counters as they were. The ids are 32 bits wide, and so is the wrap-around.
\<close>

locale id_counter =
  fixes current :: "'s \<Rightarrow> 'k \<Rightarrow> u32"
    and draw :: "'k \<Rightarrow> ('s, 'e, u32) proc"
    and usable :: "'s \<Rightarrow> bool"
  assumes draw_ok: "usable s \<Longrightarrow> \<exists>s'. draw k s = (Inr (current s k), s') \<and> usable s' \<and>
                      current s' = (current s)(k := current s k + 1)"
begin

lemma draw_usable: "usable s \<Longrightarrow> usable (snd (draw k s))"
  using draw_ok[of s k] by auto

lemma draw_many:
  assumes "usable s"
  shows "\<exists>s'. times_each n (draw k) s = (Inr (map (\<lambda>i. current s k + of_nat i) [0..<n]), s') \<and>
     usable s' \<and> current s' = (current s)(k := current s k + of_nat n)"
  using assms
proof (induction n arbitrary: s)
  case 0
  then show ?case by simp
next
  case (Suc n)
  obtain s1 where s1: "draw k s = (Inr (current s k), s1)" "usable s1"
    "current s1 = (current s)(k := current s k + 1)"
    using draw_ok[OF Suc.prems] by blast
  obtain s2 where s2: "times_each n (draw k) s1 = (Inr (map (\<lambda>i. current s1 k + of_nat i) [0..<n]), s2)"
    "usable s2" "current s2 = (current s1)(k := current s1 k + of_nat n)"
    using Suc.IH[OF s1(2)] by blast
  have "map (\<lambda>i. current s k + of_nat i) [0..<Suc n]
      = current s k # map (\<lambda>i. current s1 k + of_nat i) [0..<n]"
    by (subst upt_rec) (simp add: s1(3) map_Suc_upt[symmetric] add.assoc del: upt_Suc map_Suc_upt)
  then show ?case using s1 s2 by (simp add: fun_eq_iff add.assoc del: upt_Suc)
qed

lemma draws_distinct:
  assumes "usable s" and "n \<le> 2 ^ 32" and "times_each n (draw k) s = (Inr xs, s')"
  shows "distinct xs" and "length xs = n"
proof -
  have xs: "xs = map (\<lambda>i. current s k + of_nat i) [0..<n]"
    using draw_many[OF assms(1), of n k] assms(3) by auto
  have "inj_on (\<lambda>i. current s k + (of_nat i :: u32)) {0..<n}"
  proof (rule inj_onI)
    fix i j assume ij: "i \<in> {0..<n}" "j \<in> {0..<n}" "current s k + (of_nat i :: u32) = current s k + of_nat j"
    then have "unat (of_nat i :: u32) = unat (of_nat j :: u32)" by simp
    then show "i = j" using ij assms(2) by (simp add: unat_of_nat)
  qed
  then show "distinct xs" "length xs = n" by (simp_all add: xs distinct_map)
qed

end

definition tx_log_counter :: "ext \<Rightarrow> wallet \<Rightarrow> Identifier \<Rightarrow> u32" where
  "tx_log_counter E w parent = ucast (numeric_or_0 (get_ser (tx_id_key E parent) (w_db w)))"

definition history_counter :: "ext \<Rightarrow> wallet \<Rightarrow> unit \<Rightarrow> u32" where
  "history_counter E w u = ucast (numeric_or_0 (get_ser (history_id_key E) (w_db w)))"

lemma ready_put:
  "ready E w \<Longrightarrow> entry_ok E k v \<Longrightarrow> ready E (w\<lparr>w_db := row_put k v (w_db w)\<rparr>)"
  by (simp add: ready_def wallet_ok_def db_ok_row_put)

lemma next_tx_log_id_run:
  assumes "ready E w"
  shows "next_tx_log_id E parent w = (Inr (tx_log_counter E w parent),
    w\<lparr>w_db := row_put (tx_id_key E parent) (SNumeric (ucast (tx_log_counter E w parent + 1))) (w_db w)\<rparr>)"
  using put_db_ok[OF readyD(2)[OF assms] keys_nonempty(5)[OF readyD(1)[OF assms]]]
  by (simp add: next_tx_log_id_def bindE_app tx_log_counter_def)

interpretation tx_ids: id_counter "tx_log_counter E" "next_tx_log_id E" "ready E" for E
proof
  fix w parent assume r: "ready E w"
  note K = readyD(1)[OF r]
  let ?w = "snd (next_tx_log_id E parent w)"
  have "ready E ?w" using r by (simp add: next_tx_log_id_run ready_put entry_ok_simps[OF K])
  moreover have "tx_log_counter E ?w = (tx_log_counter E w)(parent := tx_log_counter E w parent + 1)"
    using r by (auto simp: fun_eq_iff next_tx_log_id_run tx_log_counter_def[of E "w_db_update f x" for f x]
        get_ser_def get_put readyD id_keys_inj[OF K] numeric_or_0_def) (simp_all add: tx_log_counter_def get_ser_def numeric_or_0_def)
  ultimately show "\<exists>w'. next_tx_log_id E parent w = (Inr (tx_log_counter E w parent), w') \<and> ready E w' \<and>
      tx_log_counter E w' = (tx_log_counter E w)(parent := tx_log_counter E w parent + 1)"
    using next_tx_log_id_run[OF r] by (metis snd_conv)
qed

interpretation history_ids: id_counter "history_counter E" "\<lambda>u. next_output_history_id E" "ready E" for E
proof
  fix w and u :: unit assume r: "ready E w"
  note K = readyD(1)[OF r]
  let ?w = "w\<lparr>w_db := row_put (history_id_key E) (SNumeric (ucast (history_counter E w u + 1))) (w_db w)\<rparr>"
  have run: "next_output_history_id E w = (Inr (history_counter E w u), ?w)"
    using put_db_ok[OF readyD(2)[OF r] keys_nonempty(3)[OF K]]
    by (simp add: next_output_history_id_def bindE_app history_counter_def)
  moreover have "ready E ?w" using r by (simp add: ready_put entry_ok_simps[OF K])
  moreover have "history_counter E ?w = (history_counter E w)(u := history_counter E w u + 1)"
    using r by (auto simp: fun_eq_iff history_counter_def get_ser_def get_put readyD numeric_or_0_def)
  ultimately show "\<exists>w'. next_output_history_id E w = (Inr (history_counter E w u), w') \<and> ready E w' \<and>
      history_counter E w' = (history_counter E w)(u := history_counter E w u + 1)"
    by blast
qed

end
