(* ===== verification/WitnessEnv.thy ===== *)
theory WitnessEnv
  imports BackendSpec
begin

text \<open>
  One concrete environment on which the hypotheses about foreign code hold: key functions
  that concatenate, a file system and an SQLite engine that succeed, a node with a tip at
  height 100 and toy cryptography. The witnesses run the model on it or on updates of it.
\<close>

text \<open>The \<open>n\<close> lowest bytes of a number, least significant first.\<close>

definition le_bytes :: "nat \<Rightarrow> nat \<Rightarrow> bytes" where
  "le_bytes n x = map (\<lambda>i. of_nat (x div 256 ^ i mod 256)) [0..<n]"

lemma length_le_bytes [simp]: "length (le_bytes n x) = n"
  by (simp add: le_bytes_def)

lemma le_bytes_Suc: "le_bytes (Suc n) x = of_nat (x mod 256) # le_bytes n (x div 256)"
  by (simp add: le_bytes_def upt_conv_Cons map_Suc_upt[symmetric] div_mult2_eq del: upt_Suc map_Suc_upt)

lemma of_nat_byte_eq:
  assumes "x < 256" "y < 256"
  shows "(of_nat x :: u8) = of_nat y \<longleftrightarrow> x = y"
proof
  assume "(of_nat x :: u8) = of_nat y"
  then have "unat (of_nat x :: u8) = unat (of_nat y :: u8)" by simp
  then show "x = y" using assms by (simp add: unat_of_nat)
qed simp

lemma le_bytes_inj:
  "x < 256 ^ n \<Longrightarrow> y < 256 ^ n \<Longrightarrow> le_bytes n x = le_bytes n y \<longleftrightarrow> x = y"
proof (induction n arbitrary: x y)
  case 0
  then show ?case by simp
next
  case (Suc n)
  have "x div 256 < 256 ^ n" "y div 256 < 256 ^ n"
    using Suc.prems by (simp_all add: less_mult_imp_div_less mult.commute)
  then have "le_bytes (Suc n) x = le_bytes (Suc n) y \<longleftrightarrow> x mod 256 = y mod 256 \<and> x div 256 = y div 256"
    by (simp add: le_bytes_Suc Suc.IH of_nat_byte_eq)
  also have "\<dots> \<longleftrightarrow> x = y" by (metis div_mult_mod_eq)
  finally show ?case .
qed

text \<open>Identifiers and paths as numbers: the depth byte, then the four child numbers.\<close>

definition nat_to_path :: "nat \<Rightarrow> ext_path" where
  "nat_to_path n = \<lparr>depth = of_nat (n mod 256),
     path = [of_nat (n div 256 mod 2 ^ 32), of_nat (n div 256 div 2 ^ 32 mod 2 ^ 32),
             of_nat (n div 256 div 2 ^ 32 div 2 ^ 32 mod 2 ^ 32),
             of_nat (n div 256 div 2 ^ 32 div 2 ^ 32 div 2 ^ 32)]\<rparr>"

definition path_to_nat :: "ext_path \<Rightarrow> nat" where
  "path_to_nat p = unat (depth p) + 256 * (unat (path p ! 0) + 2 ^ 32 * (unat (path p ! 1)
     + 2 ^ 32 * (unat (path p ! 2) + 2 ^ 32 * unat (path p ! 3))))"

definition the_ext :: ext where
  "the_ext =
     \<lparr>get_chain_tip = Inr (100, ''tip''),
      get_node_status = Inr \<lparr>ns_protocol_version = 1, ns_user_agent = [], ns_connections = 8,
        ns_tip = \<lparr>tip_height = 100, tip_last_block_pushed = ''tip'', tip_prev_block_to_last = []\<rparr>,
        ns_sync_status = ''no_sync''\<rparr>,
      get_mempool = Inr [],
      get_kernel = (\<lambda>_ _ _. Inr None),
      get_outputs_from_node = (\<lambda>_. Inr (\<lambda>_. None)),
      get_outputs_by_pmmr_index = (\<lambda>_ _ _. Inr (0, 0, [])),
      height_range_to_pmmr_indices = (\<lambda>_ _. Inr (0, 0)),
      node_post_tx = (\<lambda>_ _. Inr ()),
      utc_now = 0,
      new_v4 = Uuid 1,
      hash_order = (\<lambda>cs. cs),
      hash_order_ids = (\<lambda>is. is),
      test_slate_id = Uuid 2,
      empty_transaction = \<lparr>tx_offset = [], tx_body = \<lparr>b_inputs = [], b_outputs = [], b_kernels = []\<rparr>\<rparr>,
      tx_fee = (\<lambda>_ _ _. 1),
      tx_total_fee = (\<lambda>_. 1),
      amount_to_hr_string = (\<lambda>_. []),
      reward = (\<lambda>f h. f),
      cumulative_reward_foundation = (\<lambda>_. 0),
      coinbase_maturity = 3,
      valid_header_version = (\<lambda>_ _. True),
      partial_transaction = (\<lambda>tx es k. Inr (tx, [])),
      replace_kernel = (\<lambda>k tx. tx\<lparr>tx_body := (tx_body tx)\<lparr>b_kernels := [k]\<rparr>\<rparr>),
      kernel_with_features = (\<lambda>f. \<lparr>k_features = f, k_excess = [], k_excess_sig = []\<rparr>),
      sum_commitments = (\<lambda>tx n. Inr []),
      kernel_sig_msg = (\<lambda>_. Inr []),
      kernel_verify = (\<lambda>_. Inr ()),
      tx_validate = (\<lambda>_. Inr ()),
      reward_output = (\<lambda>k i f t h. Inr (\<lparr>out_features = 1, out_commit = [], out_proof = []\<rparr>,
        \<lparr>k_features = Coinbase, k_excess = [], k_excess_sig = []\<rparr>)),
      foundation_output = (\<lambda>k i t h. Inr (\<lparr>out_features = 1, out_commit = [], out_proof = []\<rparr>,
        \<lparr>k_features = Coinbase, k_excess = [], k_excess_sig = []\<rparr>)),
      rewind_new = (\<lambda>_ _ _. Inr None),
      rewind_legacy = (\<lambda>_ _ _. Inr None),
      derive_root_key = (\<lambda>k. Inr k),
      derive_key_none = (\<lambda>k i. Inr k),
      mask_master_key = (\<lambda>k m. Inr (map (\<lambda>(a, b). a XOR b) (zip k m))),
      kc_commit = (\<lambda>k v i. Inr (le_bytes 8 (unat v))),
      new_mask = (\<lambda>_. replicate 32 1),
      blake2b_32 = (\<lambda>b. take 32 (b @ replicate 32 0)),
      id_to_bytes = (\<lambda>i. le_bytes 17 (unat (identifier_bits i))),
      id_to_path = (\<lambda>i. nat_to_path (unat (identifier_bits i))),
      id_from_path = (\<lambda>p. Identifier (of_nat (path_to_nat p))),
      id_parent_path = (\<lambda>i. Identifier 0),
      id_last_path_index = (\<lambda>i. 0),
      id_string = (\<lambda>_. []),
      derive_key_id = (\<lambda>d a b c e. Identifier (of_nat (path_to_nat \<lparr>depth = d, path = [a, b, c, e]\<rparr>))),
      uuid_as_bytes = (\<lambda>u. le_bytes 16 (unat (uuid_bits u))),
      uuid_string = (\<lambda>u. ''uuid''),
      to_hex = (\<lambda>b. map (\<lambda>x. char_of (unat x)) b),
      from_hex = (\<lambda>s. Some (map of_char s)),
      base32_encode = (\<lambda>b. map (\<lambda>x. char_of (unat x)) b),
      base32_decode = (\<lambda>s. Some (map of_char s)),
      sha3_256 = (\<lambda>b. take 32 (b @ replicate 32 0)),
      to_uppercase = ascii_upper, to_lowercase = ascii_lower, from_hex_error = (\<lambda>_. ''not hex''),
      commitment_debug = (\<lambda>_. ''Commitment''), sqlite_error_string = (\<lambda>_. ''sqlite''),
      create_secnonce = replicate 32 7,
      random_offset = (\<lambda>_. replicate 32 9),
      pubkey_from_secret = (\<lambda>s. Inr s),
      pubkey_combination = (\<lambda>ks. Inr (concat ks)),
      message_from_slice = (\<lambda>b. Inr b),
      sign_single = (\<lambda>m s n p. Inr (m @ s)),
      verify_single = (\<lambda>s m p. s = m @ p),
      calculate_partial_sig = (\<lambda>sk n sn sp m. Inr sk),
      verify_partial_sig = (\<lambda>s n k b m. Inr ()),
      add_signatures = (\<lambda>ss n. Inr (concat ss)),
      verify_completed_sig = (\<lambda>s p m. Inr ()),
      blinding_zero = [],
      blinding_of_key = (\<lambda>s. s),
      blinding_secret_key = (\<lambda>b. Inr b),
      blind_sum_sub = (\<lambda>k a b. Inr a),
      commitment_from_vec = (\<lambda>b. b),
      commit_value = (\<lambda>v. Inr (le_bytes 8 (unat v))),
      commit_zero = (\<lambda>s. Inr s),
      commit_sum = (\<lambda>p n. Inr (concat p)),
      secret_key_from_slice = (\<lambda>b. Inr b),
      dalek_from_bytes = (\<lambda>b. Some b),
      dalek_public = (\<lambda>s. s),
      dalek_sign = (\<lambda>s m. s @ m),
      dalek_verify = (\<lambda>p m s. s = p @ m),
      to_key = (\<lambda>p k. p # 58 # k),
      to_key_u64 = (\<lambda>p k n. p # 58 # k @ le_bytes 8 (unat n)),
      sql_attempt = (\<lambda>_ _. SqlOk),
      fs_create = (\<lambda>_. Inr ()),
      fs_write = (\<lambda>f c. (length c, Inr ())),
      fs_read = (\<lambda>f c. case c of None \<Rightarrow> Inl (StdIO ''not found'') | Some s \<Rightarrow> Inr s),
      tx_to_hex = (\<lambda>tx. []),
      tx_of_hex = (\<lambda>s. Some \<lparr>tx_offset = [], tx_body = \<lparr>b_inputs = [], b_outputs = [], b_kernels = []\<rparr>\<rparr>)\<rparr>"


section \<open>The hypotheses hold\<close>

lemma unat_less_power: "unat (x :: 'a::len word) < 2 ^ LENGTH('a)"
  by transfer simp

lemma le_bytes_word_inj:
  fixes x y :: "'a::len word"
  assumes "(2::nat) ^ LENGTH('a) \<le> 256 ^ n"
  shows "le_bytes n (unat x) = le_bytes n (unat y) \<longleftrightarrow> x = y"
proof -
  have "unat x < 256 ^ n" "unat y < 256 ^ n"
    using assms unat_less_power[of x] unat_less_power[of y] by linarith+
  then show ?thesis by (simp add: le_bytes_inj word_unat_eq_iff)
qed

lemma id_bytes_inj: "inj (\<lambda>i. le_bytes 17 (unat (identifier_bits i)))"
  by (rule injI) (simp add: le_bytes_word_inj Identifier.expand)

lemma uuid_bytes_inj: "inj (\<lambda>u. le_bytes 16 (unat (uuid_bits u)))"
  by (rule injI) (simp add: le_bytes_word_inj Uuid.expand)

lemma keys_ok_the_ext [simp]: "keys_ok the_ext"
  unfolding keys_ok_def
  by (intro conjI)
     (simp_all add: the_ext_def id_bytes_inj uuid_bytes_inj le_bytes_word_inj append_eq_append_conv)

lemma sqlite_ok_the_ext [simp]: "sqlite_ok the_ext"
  by (simp add: sqlite_ok_def the_ext_def)

lemma digest_ok_the_ext [simp]: "digest_ok the_ext"
  by (auto simp: digest_ok_def the_ext_def)

lemma hash_ok_the_ext [simp]: "hash_ok the_ext"
  by (simp add: hash_ok_def the_ext_def)

lemma char_byte: "of_char (char_of (unat (x :: u8)) :: char) = x"
proof -
  have "(of_char (char_of (unat x) :: char) :: u8) = of_nat (of_char (char_of (unat x) :: char) :: nat)" by (rule of_nat_of_char[symmetric])
  also have "\<dots> = x" using unat_less_power[of x] by (simp add: of_char_of)
  finally show ?thesis .
qed

lemma commits_ok_the_ext [simp]: "commits_ok the_ext"
  by (simp add: commits_ok_def the_ext_def comp_def char_byte)

lemma files_ok_the_ext [simp]: "files_ok the_ext"
  by (simp add: files_ok_def the_ext_def)

lemma path_to_nat_bound: "length (path p) = 4 \<Longrightarrow> path_to_nat p < 2 ^ 136"
  using unat_less_power[of "depth p"] unat_less_power[of "path p ! 0"] unat_less_power[of "path p ! 1"]
    unat_less_power[of "path p ! 2"] unat_less_power[of "path p ! 3"]
  by (simp add: path_to_nat_def)

lemma digit_div_mod: "(x :: nat) < m \<Longrightarrow> (x + m * q) div m = q" "(x :: nat) < m \<Longrightarrow> (x + m * q) mod m = x"
  by simp_all

lemma nat_to_path_to_nat: "length (path p) = 4 \<Longrightarrow> nat_to_path (path_to_nat p) = p"
proof -
  assume l: "length (path p) = 4"
  obtain d a b c e where p: "p = \<lparr>depth = d, path = [a, b, c, e]\<rparr>"
    using l by (cases p) (auto simp: numeral_eq_Suc length_Suc_conv)
  have d: "unat d < 256" using unat_less_power[of d] by simp
  have w: "unat x < 2 ^ 32" for x :: u32 using unat_less_power[of x] by simp
  have N: "path_to_nat p = unat d + 256 * (unat a + 2 ^ 32 * (unat b + 2 ^ 32 * (unat c + 2 ^ 32 * unat e)))"
    by (simp add: p path_to_nat_def)
  show ?thesis
    unfolding nat_to_path_def N digit_div_mod[OF d] digit_div_mod[OF w] by (simp add: p)
qed

lemma the_ext_paths [simp]:
  "id_to_path the_ext i = nat_to_path (unat (identifier_bits i))"
  "id_from_path the_ext p = Identifier (of_nat (path_to_nat p))"
  by (simp_all add: the_ext_def)

lemma paths_ok_the_ext [simp]: "paths_ok the_ext"
proof -
  have "nat_to_path (unat (of_nat (path_to_nat p) :: 136 word)) = p" if "length (path p) = 4" for p
    using path_to_nat_bound[OF that] nat_to_path_to_nat[OF that] by (simp add: unat_of_nat)
  then show ?thesis by (simp add: paths_ok_def) (simp add: nat_to_path_def)
qed

text \<open>A fresh wallet with its keychain in place.\<close>

definition the_wallet :: wallet where
  "the_wallet = \<lparr>w_db = [], w_files = (\<lambda>_. None), w_keychain = Some (replicate 32 5),
     w_master_checksum = Some (replicate 32 5), w_parent_key_id = Identifier 0\<rparr>"

lemma ready_the_wallet [simp]: "ready the_ext the_wallet"
  by (simp add: ready_def wallet_ok_def db_ok_def unique_keys_def the_wallet_def)

lemma keychain_the_wallet [simp]: "keychain the_ext None the_wallet = (Inr (replicate 32 5), the_wallet)"
  by (simp add: keychain_def keychain_result_def the_wallet_def the_ext_def)

definition the_output :: OutputData where
  "the_output = \<lparr>od_root_key_id = Identifier 0, od_key_id = Identifier 7, od_n_child = 0,
     od_commit = None, od_mmr_index = None, od_value = 60, od_status = Unspent, od_height = 10,
     od_lock_height = 0, od_is_coinbase = False, od_tx_log_entry = None\<rparr>"

end
