(* ===== verification/BackendProps.thy ===== *)
theory BackendProps
  imports WitnessEnv
begin

text \<open>
  The properties of the store and the backend: the retry loop, the typed table on every
  reachable state, \<open>save\<close> and \<open>delete\<close> as updates of the output map with their history, the
  log ids, signing contexts and the keychain mask.
\<close>

section \<open>Retries\<close>

text \<open>How many times the engine is asked to run a statement.\<close>

definition attempts_bound :: "ext \<Rightarrow> sql_stmt \<Rightarrow> nat \<Rightarrow> bool" where
  "attempts_bound E st n = (\<forall>i < n. sql_attempt E st i = SqlErr (Some 5))"

lemma execute_loop_step:
  "sql_attempt E st n = SqlErr (Some 5) \<Longrightarrow> n < 3 \<Longrightarrow> execute_loop E st n = execute_loop E st (Suc n)"
  by (subst execute_loop.simps) (simp add: SQLITE_MAX_RETRIES_def)

lemma execute_loop_busy:
  "attempts_bound E st n \<Longrightarrow> n \<le> 3 \<Longrightarrow> execute_loop E st 0 = execute_loop E st n"
  by (induction n) (simp_all add: attempts_bound_def execute_loop_step)

text \<open>A statement that the engine reports busy \<open>n\<close> times, at most three, takes effect on
  the next attempt; after four busy answers \<open>execute\<close> gives up with the error and the table
  is as it was.\<close>

theorem execute_retries:
  assumes busy: "\<forall>i < n. sql_attempt E st i = SqlErr (Some 5)"
  shows "(n \<le> 3 \<and> sql_attempt E st n = SqlOk \<longrightarrow> execute E st rs = (Inr (), sql_apply st rs))
    \<and> (n = 4 \<longrightarrow> execute E st rs = (Inl (FromSqlite 5), rs))"
proof (intro conjI impI; (elim conjE)?)
  assume n: "n \<le> 3" "sql_attempt E st n = SqlOk"
  then have "execute_loop E st 0 = Inr ()"
    using execute_loop_busy[of E st n] busy by (simp add: attempts_bound_def execute_loop.simps[of E st n])
  then show "execute E st rs = (Inr (), sql_apply st rs)" by (simp add: execute_def)
next
  assume "n = 4"
  then have "execute_loop E st 0 = execute_loop E st 3" "sql_attempt E st 3 = SqlErr (Some 5)"
    using execute_loop_busy[of E st 3] busy by (simp_all add: attempts_bound_def)
  then show "execute E st rs = (Inl (FromSqlite 5), rs)"
    by (simp add: execute_def execute_loop.simps[of E st 3] SQLITE_MAX_RETRIES_def)
qed

theorem execute_retries_witness:
  "execute (the_ext\<lparr>sql_attempt := \<lambda>st n. if n < 2 then SqlErr (Some 5) else SqlOk\<rparr>) (SqlDelete [1]) [] = (Inr (), [])
   \<and> execute (the_ext\<lparr>sql_attempt := \<lambda>st n. SqlErr (Some 5)\<rparr>) (SqlDelete [1]) [] = (Inl (FromSqlite 5), [])"
  using execute_retries[of 2 "the_ext\<lparr>sql_attempt := \<lambda>st n. if n < 2 then SqlErr (Some 5) else SqlOk\<rparr>" "SqlDelete [1]" "[]"]
    execute_retries[of 4 "the_ext\<lparr>sql_attempt := \<lambda>st n. SqlErr (Some 5)\<rparr>" "SqlDelete [1]" "[]"]
  by (simp add: sql_delete_def)

section \<open>Reachable tables\<close>

text \<open>
  The tables the wallet can build: it opens on an empty or an existing table and runs batch
  operations, whether they succeed or fail.
\<close>

inductive backend_reach :: "ext \<Rightarrow> wallet \<Rightarrow> bool" for E where
  created: "backend_new E files [] = (Inr w, rs) \<Longrightarrow> backend_reach E w"
| reopened: "backend_reach E w0 \<Longrightarrow> backend_new E files (w_db w0) = (Inr w, rs) \<Longrightarrow> backend_reach E w"
| saved: "backend_reach E w \<Longrightarrow> backend_reach E (snd (save E out w))"
| deleted: "backend_reach E w \<Longrightarrow> backend_reach E (snd (delete E i m t w))"
| locked: "backend_reach E w \<Longrightarrow> backend_reach E (snd (lock_output E out w))"
| logged: "backend_reach E w \<Longrightarrow> backend_reach E (snd (save_tx_log_entry E entry parent w))"
| log_id: "backend_reach E w \<Longrightarrow> backend_reach E (snd (next_tx_log_id E parent w))"
| child: "backend_reach E w \<Longrightarrow> backend_reach E (snd (next_child E km w))"
| height: "backend_reach E w \<Longrightarrow> backend_reach E (snd (save_last_confirmed_height E parent h w))"
| scanned: "backend_reach E w \<Longrightarrow> backend_reach E (snd (save_last_scanned_block E b w))"
| status: "backend_reach E w \<Longrightarrow> backend_reach E (snd (save_init_status E st w))"
| account: "backend_reach E w \<Longrightarrow> backend_reach E (snd (save_acct_path E mp w))"
| context_saved: "backend_reach E w \<Longrightarrow> backend_reach E (snd (save_private_context E bt s p cx w))"
| context_deleted: "backend_reach E w \<Longrightarrow> backend_reach E (snd (delete_private_context E s p w))"

lemma backend_new_ok:
  assumes "keys_ok E" "db_ok E rs" "backend_new E files rs = (Inr w, rs')"
  shows "wallet_ok E w"
proof -
  have "entry_ok E (acct_key E (ap_label (default_account E))) (SAcctPathMapping (default_account E))"
    by (rule entry_ok_simps(8)[OF assms(1)])
  then show ?thesis
    using assms(2,3)
    by (cases rule: put_cases[of E "acct_key E (ap_label (default_account E))"
          "SAcctPathMapping (default_account E)" rs])
       (auto simp: backend_new_def put_ser_def wallet_ok_def db_ok_row_put)
qed

lemma reach_wallet_ok: "backend_reach E w \<Longrightarrow> keys_ok E \<Longrightarrow> wallet_ok E w"
proof (induction rule: backend_reach.induct)
  case (created files w rs)
  show ?case
    by (rule backend_new_ok[OF created.prems _ created.hyps]) (simp add: db_ok_def unique_keys_def)
next
  case (reopened w0 files w rs)
  show ?case
    by (rule backend_new_ok[OF reopened.prems _ reopened.hyps(2)])
       (use reopened in \<open>simp add: wallet_ok_def\<close>)
qed (auto intro: keepsD keeps_intros)

text \<open>In every table the wallet can reach, whatever failed on the way, keys are unique and
  each row holds the kind of value its prefix stands for: looking an output up returns the
  record saved under that key or \<open>NotFoundErr\<close>, and never fails an \<open>unwrap\<close>.\<close>

theorem reachable_typed:
  assumes "backend_reach E w" and "keys_ok E"
  shows "wallet_ok E w \<and> (fst (get_output E i m w) = Inl (not_found_key E i) \<or>
      (\<exists>out. fst (get_output E i m w) = Inr out \<and> od_key_id out = i \<and> od_mmr_index out = m
          \<and> out \<in> set (iter w)))"
proof (rule conjI)
  show W: "wallet_ok E w" by (rule reach_wallet_ok[OF assms])
  show "fst (get_output E i m w) = Inl (not_found_key E i) \<or>
      (\<exists>out. fst (get_output E i m w) = Inr out \<and> od_key_id out = i \<and> od_mmr_index out = m
          \<and> out \<in> set (iter w))"
  proof (cases "out_at E w (i, m)")
    case None
    then show ?thesis by (simp add: get_output_eq[OF assms(2) W])
  next
    case (Some out)
    then show ?thesis
      using out_at_key[OF assms(2) W Some] by (simp add: get_output_eq[OF assms(2) W] iter_lookup[OF assms(2) W])
  qed
qed

lemma reach_the_ext: "\<exists>w rs. backend_new the_ext (\<lambda>_. None) [] = (Inr w, rs)"
  by (cases rule: put_cases[of the_ext "acct_key the_ext (ap_label (default_account the_ext))"
        "SAcctPathMapping (default_account the_ext)" "[]"])
     (simp_all add: backend_new_def put_ser_def put_ok keys_nonempty)

theorem reachable_typed_witness:
  "\<exists>w. backend_reach the_ext w \<and> wallet_ok the_ext w"
proof -
  obtain w rs where "backend_new the_ext (\<lambda>_. None) [] = (Inr w, rs)" using reach_the_ext by blast
  then have "backend_reach the_ext w" by (rule backend_reach.created)
  then show ?thesis using reachable_typed[of the_ext w] by auto
qed

section \<open>Outputs\<close>



lemma ignoring_delete_ok:
  "sqlite_ok E \<Longrightarrow> ignoring (on_db (delete_key E k)) w = (Inr (), w\<lparr>w_db := sql_delete k (w_db w)\<rparr>)"
  by (simp add: ignoring_def if_let_ok_def on_db_def delete_key_ok)

lemma delete_first:
  assumes "ready E w" "out_at E w (i, m) = Some prev"
  obtains w1 where "if_let_ok (batch_get E i m) (\<lambda>previous_output.
              bindE (save_output_history E previous_output) (\<lambda>_.
              save_output_history E (previous_output\<lparr>od_status := Deleted, od_tx_log_entry := t\<rparr>))) w = (Inr (), w1)"
    and "frame E {OUTPUT_HISTORY_ID_PREFIX, OUTPUT_HISTORY_PREFIX} w w1"
    and "recorded (prev\<lparr>od_status := Deleted, od_tx_log_entry := t\<rparr>) w1"
proof -
  obtain wa where wa: "save_output_history E prev w = (Inr (), wa)"
    "frame E {OUTPUT_HISTORY_ID_PREFIX, OUTPUT_HISTORY_PREFIX} w wa"
    using save_output_history_ok[OF assms(1)] by blast
  obtain wb where wb: "save_output_history E (prev\<lparr>od_status := Deleted, od_tx_log_entry := t\<rparr>) wa = (Inr (), wb)"
    "frame E {OUTPUT_HISTORY_ID_PREFIX, OUTPUT_HISTORY_PREFIX} wa wb"
    "recorded (prev\<lparr>od_status := Deleted, od_tx_log_entry := t\<rparr>) wb"
    using save_output_history_ok[OF ready_frame[OF assms(1) wa(2)]] by blast
  have "batch_get E i m w = (Inr prev, w)"
    using assms readyD(1,3)[OF assms(1)] by (simp add: batch_get_eq)
  then show ?thesis using that wa wb frame_trans[OF wa(2) wb(2)] by (simp add: if_let_ok_def bindE_app)
qed

text \<open>Deleting a stored output succeeds, removes exactly its key from the output map and
  leaves a \<open>Deleted\<close> record with the given log id in the history.\<close>

theorem delete_refines:
  assumes "ready E w" and "out_at E w (i, m) = Some prev"
  shows "\<exists>w'. delete E i m t w = (Inr (), w') \<and> out_at E w' = (out_at E w)((i, m) := None) \<and>
    recorded (prev\<lparr>od_status := Deleted, od_tx_log_entry := t\<rparr>) w' \<and>
    tx_at E w' = tx_at E w"
proof -
  note K = readyD(1)[OF assms(1)]
  obtain w1 where w1: "if_let_ok (batch_get E i m) (\<lambda>previous_output.
              bindE (save_output_history E previous_output) (\<lambda>_.
              save_output_history E (previous_output\<lparr>od_status := Deleted, od_tx_log_entry := t\<rparr>))) w = (Inr (), w1)"
    and f1: "frame E {OUTPUT_HISTORY_ID_PREFIX, OUTPUT_HISTORY_PREFIX} w w1"
    and rec: "recorded (prev\<lparr>od_status := Deleted, od_tx_log_entry := t\<rparr>) w1"
    using delete_first[OF assms] by blast
  let ?w2 = "w1\<lparr>w_db := sql_delete (output_key E i m) (w_db w1)\<rparr>"
  have f2: "frame E {OUTPUT_PREFIX} w1 ?w2"
    by (rule frame_delete) (use K frameD(1)[OF f1] in \<open>auto simp: frame_refl hd_keys\<close>)
  have "delete E i m t w = (Inr (), ?w2)"
    using w1 ignoring_delete_ok[OF readyD(2)[OF assms(1)]] by (simp add: delete_def bindE_app)
  moreover have "out_at E ?w2 = (out_at E w)((i, m) := None)"
    using out_at_delete[OF K frameD(1)[OF f1]] frame_out_at[OF K f1] by (simp add: prefix_defs)
  moreover have "recorded (prev\<lparr>od_status := Deleted, od_tx_log_entry := t\<rparr>) ?w2"
    using rec frame_iters(2)[OF f2] by (simp add: recorded_def prefix_defs)
  moreover have "tx_at E ?w2 = tx_at E w"
    using frame_tx_at[OF K f1] frame_tx_at[OF K f2] by (simp add: prefix_defs)
  ultimately show ?thesis by blast
qed

definition saved_wallet :: wallet where
  "saved_wallet = snd (save the_ext the_output the_wallet)"

lemma saved_wallet_facts [simp]:
  "ready the_ext saved_wallet" "out_at the_ext saved_wallet (Identifier 7, None) = Some the_output"
proof -
  obtain w' where w': "save the_ext the_output the_wallet = (Inr (), w')"
    "frame the_ext {OUTPUT_HISTORY_ID_PREFIX, OUTPUT_HISTORY_PREFIX, OUTPUT_PREFIX} the_wallet w'"
    "out_at the_ext w' = (out_at the_ext the_wallet)((od_key_id the_output, od_mmr_index the_output) \<mapsto> the_output)"
    using save_ok[OF ready_the_wallet] by blast
  then show "ready the_ext saved_wallet" "out_at the_ext saved_wallet (Identifier 7, None) = Some the_output"
    using ready_frame[OF ready_the_wallet w'(2)] by (simp_all add: saved_wallet_def the_output_def)
qed

theorem delete_refines_witness:
  "\<exists>w'. delete the_ext (Identifier 7) None (Some 3) saved_wallet = (Inr (), w') \<and>
     out_at the_ext w' (Identifier 7, None) = None"
  using delete_refines[OF saved_wallet_facts, of "Some 3"] by auto


section \<open>Log ids\<close>

text \<open>Up to \<open>2 ^ 32\<close> consecutive draws of transaction log ids of an account all succeed and
  return pairwise distinct numbers, counting up from the stored counter.\<close>

theorem tx_log_ids_fresh:
  assumes "ready E w" and "n \<le> 2 ^ 32"
  shows "\<exists>ids w'. times_each n (next_tx_log_id E parent) w = (Inr ids, w') \<and>
     ids = map (\<lambda>i. tx_log_counter E w parent + of_nat i) [0..<n] \<and> distinct ids \<and> ready E w'"
  using tx_ids.draw_many[OF assms(1), of n parent] tx_ids.draws_distinct(1)[OF assms(1,2)] by blast

theorem tx_log_ids_fresh_witness:
  "\<exists>w'. times_each 3 (next_tx_log_id the_ext (Identifier 0)) the_wallet = (Inr [0, 1, 2], w')"
proof -
  have "tx_log_counter the_ext the_wallet (Identifier 0) = 0"
    by (simp add: tx_log_counter_def the_wallet_def get_ser_def store_get_def numeric_or_0_def)
  then show ?thesis
    using tx_log_ids_fresh[OF ready_the_wallet, of 3 "Identifier 0"] by (auto simp: upt_rec)
qed

section \<open>Signing contexts\<close>

lemma xor_secret_twice:
  "length s = 32 \<Longrightarrow> xor_secret (xor_secret s x) x = s"
  by (rule nth_equalityI) (simp_all add: xor_secret_def SECRET_KEY_SIZE_def xor.assoc)

lemma xor_context_twice:
  "length (cx_sec_key cx) = 32 \<Longrightarrow> length (cx_sec_nonce cx) = 32 \<Longrightarrow>
     xor_context ks (xor_context ks cx) = cx"
  by (cases cx) (simp add: xor_context_def xor_secret_twice)

lemma keychain_result_frame:
  assumes "frame E P w w'"
  shows "keychain_result E km w' = keychain_result E km w"
  unfolding keychain_result_def frameD(4)[OF assms] frameD(5)[OF assms] ..

lemma keychain_root:
  assumes "keychain_result E km w = Inr k"
  obtains root where "derive_root_key E k = Inr root"
  using assms by (auto simp: keychain_result_def split: option.splits sum.splits if_splits)

lemma save_private_context_ok:
  assumes "ready E w" "derive_root_key E k = Inr root"
  obtains w' ks where "save_private_context E (Some k) sid pid cx w = (Inr (), w')"
    and "private_ctx_xor_keys E k sid = Inr ks"
    and "frame E {PRIVATE_TX_CONTEXT_PREFIX} w w'"
    and "store_get (ctx_key E sid pid) (w_db w') = Some (SContext (xor_context ks cx))"
proof -
  note K = readyD(1)[OF assms(1)]
  obtain ks where ks: "private_ctx_xor_keys E k sid = Inr ks"
    using assms(2) by (simp add: private_ctx_xor_keys_def)
  let ?w = "w\<lparr>w_db := row_put (ctx_key E sid pid) (SContext (xor_context ks cx)) (w_db w)\<rparr>"
  have "save_private_context E (Some k) sid pid cx w = (Inr (), ?w)"
    using put_db_ok[OF readyD(2)[OF assms(1)] keys_nonempty(9)[OF K]] ks
    by (simp add: save_private_context_def batch_keychain_def bindE_app)
  moreover have "frame E {PRIVATE_TX_CONTEXT_PREFIX} w ?w"
    by (rule frame_put)
       (use K assms(1) in \<open>auto simp: frame_refl readyD entry_ok_simps hd_keys\<close>)
  ultimately show ?thesis using that ks by (simp add: get_put readyD(5)[OF assms(1)])
qed

text \<open>A signing context saved through a batch is read back exactly, secret key and nonce
  included, by whoever has the keychain mask; what the table holds in between is the context
  with both secrets XORed with digests of the root key and the slate id.\<close>

theorem private_context_round_trip:
  assumes "ready E w" and "fst (keychain E km w) = Inr k"
    and "length (cx_sec_key cx) = 32" and "length (cx_sec_nonce cx) = 32"
  shows "\<exists>w' ks. bindE (batch E km) (\<lambda>b. save_private_context E b sid pid cx) w = (Inr (), w') \<and>
    private_ctx_xor_keys E k sid = Inr ks \<and>
    get_ser (ctx_key E sid pid) (w_db w') = Some (SContext (xor_context ks cx)) \<and>
    get_private_context E km sid pid w' = (Inr cx, w')"
proof -
  have k: "keychain_result E km w = Inr k" using assms(2) by (simp add: keychain_def)
  obtain root where "derive_root_key E k = Inr root" using keychain_root[OF k] by blast
  then obtain w' ks where w': "save_private_context E (Some k) sid pid cx w = (Inr (), w')"
    "private_ctx_xor_keys E k sid = Inr ks" "frame E {PRIVATE_TX_CONTEXT_PREFIX} w w'"
    "store_get (ctx_key E sid pid) (w_db w') = Some (SContext (xor_context ks cx))"
    using save_private_context_ok[OF assms(1)] by blast
  have "keychain_result E km w' = Inr k" using k keychain_result_frame[OF w'(3)] by simp
  then have "get_private_context E km sid pid w' = (Inr cx, w')"
    using w'(2,4) assms(3,4)
    by (simp add: get_private_context_def bindE_app keychain_def get_ser_def unwrap_context_def
        xor_context_twice)
  then show ?thesis
    using w' k by (auto simp: batch_def bindE_app keychain_def get_ser_def)
qed

definition the_context :: Context where
  "the_context = context_new (replicate 32 7) (replicate 32 3) (Identifier 0) False 0"

theorem private_context_round_trip_witness:
  "\<exists>w'. get_private_context the_ext None [1] 0 w' = (Inr the_context, w')"
  using private_context_round_trip[OF ready_the_wallet, of None "replicate 32 5" the_context "[1]" 0]
  by (auto simp: the_context_def context_new_def)

section \<open>The keychain mask\<close>

text \<open>C22. After \<open>set_keychain\<close> with masking the wallet keeps only the masked key. The mask that was
  handed out gives the original keychain back; any mask (or none) under which the root key
  has another digest is refused with \<open>InvalidKeychainMask\<close>.\<close>

theorem keychain_needs_its_mask:
  assumes "set_keychain E k True test_rng w = (Inr (Some m), w')"
    and "\<And>km. mask_master_key E k m = Inr km \<Longrightarrow> mask_master_key E km m = Inr k"
  shows "keychain E (Some m) w' = (Inr k, w') \<and>
    (\<forall>m' k' root root'. w_keychain w' = Some k' \<longrightarrow> derive_root_key E k = Inr root \<longrightarrow>
       (\<forall>k''. (case m' of None \<Rightarrow> Inr k' | Some x \<Rightarrow> mask_master_key E k' x) = Inr k'' \<longrightarrow>
          derive_root_key E k'' = Inr root' \<longrightarrow> blake2b_32 E root' \<noteq> blake2b_32 E root \<longrightarrow>
          keychain E m' w' = (Inl InvalidKeychainMask, w')))"
proof -
  obtain root km where *: "derive_root_key E k = Inr root" "mask_master_key E k m = Inr km"
    "w' = w\<lparr>w_master_checksum := Some (blake2b_32 E root), w_keychain := Some km\<rparr>"
    using assms(1) by (auto simp: set_keychain_def Let_def split: sum.splits)
  then show ?thesis
    using assms(2)[OF *(2)] by (auto simp: keychain_def keychain_result_def split: option.splits)
qed

theorem keychain_needs_its_mask_witness:
  "\<exists>w'. set_keychain the_ext [5, 5] True False the_wallet = (Inr (Some (replicate 32 1)), w') \<and>
     keychain the_ext (Some (replicate 32 1)) w' = (Inr [5, 5], w')"
proof -
  obtain w' where w': "set_keychain the_ext [5, 5] True False the_wallet = (Inr (Some (replicate 32 1)), w')"
    by (simp add: set_keychain_def the_ext_def Let_def)
  have "mask_master_key the_ext [5, 5] (replicate 32 1) = Inr km \<Longrightarrow>
      mask_master_key the_ext km (replicate 32 1) = Inr [5, 5]" for km
    by (auto simp: the_ext_def numeral_eq_Suc)
  then show ?thesis using w' keychain_needs_its_mask[OF w'] by blast
qed

section \<open>Child keys\<close>

lemma next_child_ok:
  assumes "ready E w" "paths_ok E" "fst (keychain E km w) = Inr k"
    and "depth (id_to_path E (w_parent_key_id w)) < 4"
  obtains w' where "next_child E km w =
      (Inr (id_from_path E ((id_to_path E (w_parent_key_id w))\<lparr>depth := depth (id_to_path E (w_parent_key_id w)) + 1,
         path := (path (id_to_path E (w_parent_key_id w)))
           [unat (depth (id_to_path E (w_parent_key_id w))) := current_child_index E (w_parent_key_id w) w]\<rparr>)), w')"
    and "frame E {DERIV_PREFIX} w w'"
    and "current_child_index E (w_parent_key_id w) w' = current_child_index E (w_parent_key_id w) w + 1"
proof -
  let ?p = "id_to_path E (w_parent_key_id w)" and ?n = "current_child_index E (w_parent_key_id w) w"
  note K = readyD(1)[OF assms(1)]
  have d: "unat (depth ?p + 1) = unat (depth ?p) + 1"
    using assms(4) by (subst unat_add_exact) (simp_all add: word_less_nat_alt)
  have "unat (depth ?p) < 4" using assms(4) by (simp add: word_less_nat_alt)
  then have cp: "child_path E (w_parent_key_id w) ?n = Inr (?p\<lparr>depth := depth ?p + 1, path := (path ?p)[unat (depth ?p) := ?n]\<rparr>)"
    using assms(2) by (simp add: child_path_def Let_def usize_sub_def d paths_ok_def)
  let ?w = "w\<lparr>w_db := row_put (deriv_key E (w_parent_key_id w)) (SNumeric (ucast (?n + 1))) (w_db w)\<rparr>"
  have "next_child E km w = (Inr (id_from_path E (?p\<lparr>depth := depth ?p + 1, path := (path ?p)[unat (depth ?p) := ?n]\<rparr>)), ?w)"
    using cp put_db_ok[OF readyD(2)[OF assms(1)] keys_nonempty(6)[OF K]] assms(3)
    by (simp add: next_child_def bindE_app batch_def keychain_def save_child_index_def commit_def)
  moreover have "frame E {DERIV_PREFIX} w ?w"
    by (rule frame_put) (use K assms(1) in \<open>auto simp: frame_refl readyD entry_ok_simps hd_keys\<close>)
  moreover have "current_child_index E (w_parent_key_id w) ?w = ?n + 1"
    by (simp add: current_child_index_def get_ser_def get_put readyD(5)[OF assms(1)] numeric_or_0_def)
  ultimately show ?thesis using that by blast
qed

text \<open>Two consecutive children of an account are different keys: both calls succeed, and the
  paths differ in the last child number, which is the stored counter and its successor.\<close>

theorem next_child_fresh:
  assumes "ready E w" and "paths_ok E" and "fst (keychain E km w) = Inr k"
    and "depth (id_to_path E (w_parent_key_id w)) < 4"
  shows "\<exists>i w1 j w2. next_child E km w = (Inr i, w1) \<and> next_child E km w1 = (Inr j, w2) \<and> i \<noteq> j"
proof -
  let ?p = "id_to_path E (w_parent_key_id w)" and ?n = "current_child_index E (w_parent_key_id w) w"
  let ?q = "\<lambda>n. ?p\<lparr>depth := depth ?p + 1, path := (path ?p)[unat (depth ?p) := n]\<rparr>"
  obtain w1 where w1: "next_child E km w = (Inr (id_from_path E (?q ?n)), w1)" "frame E {DERIV_PREFIX} w w1"
    "current_child_index E (w_parent_key_id w) w1 = ?n + 1"
    using next_child_ok[OF assms] by blast
  have "fst (keychain E km w1) = Inr k"
    using assms(3) keychain_result_frame[OF w1(2)] by (simp add: keychain_def)
  then obtain w2 where w2: "next_child E km w1 = (Inr (id_from_path E (?q (?n + 1))), w2)"
    using next_child_ok[OF ready_frame[OF assms(1) w1(2)] assms(2), of km k] w1(3) frameD(6)[OF w1(2)] assms(4)
    by auto
  have l: "length (path ?p) = 4" "unat (depth ?p) < 4"
    using assms(2,4) by (simp_all add: paths_ok_def word_less_nat_alt)
  have "id_to_path E (id_from_path E (?q n)) = ?q n" for n
    using assms(2) by (simp add: paths_ok_def)
  moreover have "?q ?n \<noteq> ?q (?n + 1)"
  proof
    assume "?q ?n = ?q (?n + 1)"
    then have "path (?q ?n) ! unat (depth ?p) = path (?q (?n + 1)) ! unat (depth ?p)" by simp
    then show False using l by simp
  qed
  ultimately have "id_from_path E (?q ?n) \<noteq> id_from_path E (?q (?n + 1))" by metis
  then show ?thesis using w1(1) w2 by blast
qed


theorem next_child_fresh_witness:
  "\<exists>i w1 j w2. next_child the_ext None the_wallet = (Inr i, w1) \<and> next_child the_ext None w1 = (Inr j, w2) \<and> i \<noteq> j"
  by (rule next_child_fresh[OF ready_the_wallet paths_ok_the_ext, of None "replicate 32 5"])
     (simp_all add: nat_to_path_def, simp add: the_wallet_def)

section \<open>Stored transactions\<close>

text \<open>A transaction stored under a slate's id is read back from the file the log entry names,
  when the file system works and the codec decodes what it encoded; an entry that names no
  file gives \<open>None\<close>.\<close>

theorem stored_tx_round_trip:
  assumes "files_ok E" and "tx_of_hex E (tx_to_hex E tx) = Some tx"
  shows "\<exists>w'. store_tx E uuid tx w = (Inr (), w') \<and>
    get_stored_tx E (entry\<lparr>tl_stored_tx := Some (tx_filename uuid)\<rparr>) w' = (Inr (Some tx), w') \<and>
    get_stored_tx E (entry\<lparr>tl_stored_tx := None\<rparr>) w' = (Inr None, w') \<and> w_db w' = w_db w"
  using assms by (simp add: files_ok_def store_tx_def get_stored_tx_def)

theorem stored_tx_round_trip_witness:
  "\<exists>w'. store_tx the_ext ''u'' (empty_transaction the_ext) the_wallet = (Inr (), w') \<and>
    get_stored_tx the_ext (tx_log_entry_new 0 (Identifier 0) TxSent 0\<lparr>tl_stored_tx := Some (tx_filename ''u'')\<rparr>) w'
      = (Inr (Some (empty_transaction the_ext)), w')"
  using stored_tx_round_trip[OF files_ok_the_ext, of "empty_transaction the_ext" "''u''" the_wallet
      "tx_log_entry_new 0 (Identifier 0) TxSent 0"]
  by (auto simp: the_ext_def)

end
