(* ===== verification/SlateVersions.thy ===== *)
theory SlateVersions
  imports SlateTypes
begin

text \<open>
  The wire formats of the slate: \<open>libwallet/src/slate_versions/v2.rs\<close>, \<open>v3.rs\<close> and
  \<open>mod.rs\<close>, and the conversions and (de)serialisation in \<open>libwallet/src/slate.rs\<close>. The
  JSON codec of serde is a parameter: a decoder per version and the version probe.
\<close>

section \<open>The wire types\<close>

datatype CompatKernelFeatures = CompatPlain | CompatCoinbase | CompatHeightLocked

record VersionCompatInfoV2 =
  vc2_version :: u16
  vc2_orig_version :: u16
  vc2_block_header_version :: u16

record ParticipantDataV2 =
  pd2_id :: u64
  pd2_public_blind_excess :: PublicKey
  pd2_public_nonce :: PublicKey
  pd2_part_sig :: "Signature option"
  pd2_message :: "string option"
  pd2_message_sig :: "Signature option"

record InputV2 =
  in2_features :: OutputFeatures
  in2_commit :: Commitment

record OutputV2 =
  out2_features :: OutputFeatures
  out2_commit :: Commitment
  out2_proof :: RangeProof

record TxKernelV2 =
  k2_features :: CompatKernelFeatures
  k2_fee :: u64
  k2_lock_height :: u64
  k2_excess :: Commitment
  k2_excess_sig :: Signature

record TransactionBodyV2 =
  b2_inputs :: "InputV2 list"
  b2_outputs :: "OutputV2 list"
  b2_kernels :: "TxKernelV2 list"

record TransactionV2 =
  tx2_offset :: BlindingFactor
  tx2_body :: TransactionBodyV2

record SlateV2 =
  sl2_version_info :: VersionCompatInfoV2
  sl2_num_participants :: nat
  sl2_id :: Uuid
  sl2_tx :: TransactionV2
  sl2_amount :: u64
  sl2_fee :: u64
  sl2_height :: u64
  sl2_lock_height :: u64
  sl2_participant_data :: "ParticipantDataV2 list"

record CoinbaseV2 =
  cb2_output :: OutputV2
  cb2_kernel :: TxKernelV2
  cb2_key_id :: "Identifier option"

record VersionCompatInfoV3 =
  vc3_version :: u16
  vc3_orig_version :: u16
  vc3_block_header_version :: u16

record ParticipantDataV3 =
  pd3_id :: u64
  pd3_public_blind_excess :: PublicKey
  pd3_public_nonce :: PublicKey
  pd3_part_sig :: "Signature option"
  pd3_message :: "string option"
  pd3_message_sig :: "Signature option"

record PaymentInfoV3 =
  pi3_sender_address :: DalekPublicKey
  pi3_receiver_address :: DalekPublicKey
  pi3_receiver_signature :: "DalekSignature option"

record InputV3 =
  in3_features :: OutputFeatures
  in3_commit :: Commitment

record OutputV3 =
  out3_features :: OutputFeatures
  out3_commit :: Commitment
  out3_proof :: RangeProof

record TxKernelV3 =
  k3_features :: CompatKernelFeatures
  k3_fee :: u64
  k3_lock_height :: u64
  k3_excess :: Commitment
  k3_excess_sig :: Signature

record TransactionBodyV3 =
  b3_inputs :: "InputV3 list"
  b3_outputs :: "OutputV3 list"
  b3_kernels :: "TxKernelV3 list"

record TransactionV3 =
  tx3_offset :: BlindingFactor
  tx3_body :: TransactionBodyV3

record SlateV3 =
  sl3_version_info :: VersionCompatInfoV3
  sl3_num_participants :: nat
  sl3_id :: Uuid
  sl3_tx :: TransactionV3
  sl3_amount :: u64
  sl3_fee :: u64
  sl3_height :: u64
  sl3_lock_height :: u64
  sl3_ttl_cutoff_height :: "u64 option"
  sl3_participant_data :: "ParticipantDataV3 list"
  sl3_payment_proof :: "PaymentInfoV3 option"

record CoinbaseV3 =
  cb3_output :: OutputV3
  cb3_kernel :: TxKernelV3
  cb3_key_id :: "Identifier option"

section \<open>Version 2 and version 3\<close>

definition version_info_v3_of_v2 :: "VersionCompatInfoV2 \<Rightarrow> VersionCompatInfoV3" where
  "version_info_v3_of_v2 x =
    \<lparr>vc3_version = vc2_version x, vc3_orig_version = vc2_orig_version x,
      vc3_block_header_version = vc2_block_header_version x\<rparr>"

definition participant_v3_of_v2 :: "ParticipantDataV2 \<Rightarrow> ParticipantDataV3" where
  "participant_v3_of_v2 x =
    \<lparr>pd3_id = pd2_id x, pd3_public_blind_excess = pd2_public_blind_excess x,
      pd3_public_nonce = pd2_public_nonce x, pd3_part_sig = pd2_part_sig x, pd3_message = pd2_message x,
      pd3_message_sig = pd2_message_sig x\<rparr>"

definition input_v3_of_v2 :: "InputV2 \<Rightarrow> InputV3" where
  "input_v3_of_v2 x =
    \<lparr>in3_features = in2_features x, in3_commit = in2_commit x\<rparr>"

definition output_v3_of_v2 :: "OutputV2 \<Rightarrow> OutputV3" where
  "output_v3_of_v2 x =
    \<lparr>out3_features = out2_features x, out3_commit = out2_commit x,
      out3_proof = out2_proof x\<rparr>"

definition kernel_v3_of_v2 :: "TxKernelV2 \<Rightarrow> TxKernelV3" where
  "kernel_v3_of_v2 x =
    \<lparr>k3_features = k2_features x, k3_fee = k2_fee x, k3_lock_height = k2_lock_height x,
      k3_excess = k2_excess x, k3_excess_sig = k2_excess_sig x\<rparr>"

definition body_v3_of_v2 :: "TransactionBodyV2 \<Rightarrow> TransactionBodyV3" where
  "body_v3_of_v2 x =
    \<lparr>b3_inputs = map input_v3_of_v2 (b2_inputs x),
      b3_outputs = map output_v3_of_v2 (b2_outputs x),
      b3_kernels = map kernel_v3_of_v2 (b2_kernels x)\<rparr>"

definition tx_v3_of_v2 :: "TransactionV2 \<Rightarrow> TransactionV3" where
  "tx_v3_of_v2 x =
    \<lparr>tx3_offset = tx2_offset x, tx3_body = body_v3_of_v2 (tx2_body x)\<rparr>"

definition slate_v3_of_v2 :: "SlateV2 \<Rightarrow> SlateV3" where
  "slate_v3_of_v2 x =
    \<lparr>sl3_version_info = version_info_v3_of_v2 (sl2_version_info x),
      sl3_num_participants = sl2_num_participants x, sl3_id = sl2_id x, sl3_tx = tx_v3_of_v2 (sl2_tx x),
      sl3_amount = sl2_amount x, sl3_fee = sl2_fee x, sl3_height = sl2_height x,
      sl3_lock_height = sl2_lock_height x, sl3_ttl_cutoff_height = None,
      sl3_participant_data = map participant_v3_of_v2 (sl2_participant_data x),
      sl3_payment_proof = None\<rparr>"

definition version_info_v2_of_v3 :: "VersionCompatInfoV3 \<Rightarrow> VersionCompatInfoV2" where
  "version_info_v2_of_v3 x =
    \<lparr>vc2_version = vc3_version x, vc2_orig_version = vc3_orig_version x,
      vc2_block_header_version = vc3_block_header_version x\<rparr>"

definition participant_v2_of_v3 :: "ParticipantDataV3 \<Rightarrow> ParticipantDataV2" where
  "participant_v2_of_v3 x =
    \<lparr>pd2_id = pd3_id x, pd2_public_blind_excess = pd3_public_blind_excess x,
      pd2_public_nonce = pd3_public_nonce x, pd2_part_sig = pd3_part_sig x, pd2_message = pd3_message x,
      pd2_message_sig = pd3_message_sig x\<rparr>"

definition input_v2_of_v3 :: "InputV3 \<Rightarrow> InputV2" where
  "input_v2_of_v3 x =
    \<lparr>in2_features = in3_features x, in2_commit = in3_commit x\<rparr>"

definition output_v2_of_v3 :: "OutputV3 \<Rightarrow> OutputV2" where
  "output_v2_of_v3 x =
    \<lparr>out2_features = out3_features x, out2_commit = out3_commit x,
      out2_proof = out3_proof x\<rparr>"

definition kernel_v2_of_v3 :: "TxKernelV3 \<Rightarrow> TxKernelV2" where
  "kernel_v2_of_v3 x =
    \<lparr>k2_features = k3_features x, k2_fee = k3_fee x, k2_lock_height = k3_lock_height x,
      k2_excess = k3_excess x, k2_excess_sig = k3_excess_sig x\<rparr>"

definition body_v2_of_v3 :: "TransactionBodyV3 \<Rightarrow> TransactionBodyV2" where
  "body_v2_of_v3 x =
    \<lparr>b2_inputs = map input_v2_of_v3 (b3_inputs x),
      b2_outputs = map output_v2_of_v3 (b3_outputs x),
      b2_kernels = map kernel_v2_of_v3 (b3_kernels x)\<rparr>"

definition tx_v2_of_v3 :: "TransactionV3 \<Rightarrow> TransactionV2" where
  "tx_v2_of_v3 x =
    \<lparr>tx2_offset = tx3_offset x, tx2_body = body_v2_of_v3 (tx3_body x)\<rparr>"

definition slate_v2_of_v3 :: "SlateV3 \<Rightarrow> SlateV2" where
  "slate_v2_of_v3 x =
    \<lparr>sl2_version_info = version_info_v2_of_v3 (sl3_version_info x),
      sl2_num_participants = sl3_num_participants x, sl2_id = sl3_id x, sl2_tx = tx_v2_of_v3 (sl3_tx x),
      sl2_amount = sl3_amount x, sl2_fee = sl3_fee x, sl2_height = sl3_height x,
      sl2_lock_height = sl3_lock_height x,
      sl2_participant_data = map participant_v2_of_v3 (sl3_participant_data x)\<rparr>"

section \<open>The slate and version 3\<close>

definition version_info_v3_of :: "VersionCompatInfo \<Rightarrow> VersionCompatInfoV3" where
  "version_info_v3_of x =
    \<lparr>vc3_version = vc_version x, vc3_orig_version = vc_orig_version x,
      vc3_block_header_version = vc_block_header_version x\<rparr>"

definition participant_v3_of :: "ParticipantData \<Rightarrow> ParticipantDataV3" where
  "participant_v3_of x =
    \<lparr>pd3_id = pd_id x, pd3_public_blind_excess = pd_public_blind_excess x,
      pd3_public_nonce = pd_public_nonce x, pd3_part_sig = pd_part_sig x, pd3_message = pd_message x,
      pd3_message_sig = pd_message_sig x\<rparr>"

definition payment_v3_of :: "PaymentInfo \<Rightarrow> PaymentInfoV3" where
  "payment_v3_of x =
    \<lparr>pi3_sender_address = pi_sender_address x, pi3_receiver_address = pi_receiver_address x,
      pi3_receiver_signature = pi_receiver_signature x\<rparr>"

definition input_v3_of :: "Input \<Rightarrow> InputV3" where
  "input_v3_of x =
    \<lparr>in3_features = in_features x, in3_commit = in_commit x\<rparr>"

definition output_v3_of :: "Output \<Rightarrow> OutputV3" where
  "output_v3_of x =
    \<lparr>out3_features = out_features x, out3_commit = out_commit x, out3_proof = out_proof x\<rparr>"

definition kernel_v3_of :: "TxKernel \<Rightarrow> TxKernelV3" where
  "kernel_v3_of x = (case (case k_features x of
        Plain f \<Rightarrow> (CompatPlain, f, 0)
      | Coinbase \<Rightarrow> (CompatCoinbase, 0, 0)
      | HeightLocked f h \<Rightarrow> (CompatHeightLocked, f, h)) of
     (features, fee, lock_height) \<Rightarrow>
       \<lparr>k3_features = features, k3_fee = fee, k3_lock_height = lock_height,
        k3_excess = k_excess x, k3_excess_sig = k_excess_sig x\<rparr>)"

definition body_v3_of :: "TransactionBody \<Rightarrow> TransactionBodyV3" where
  "body_v3_of x =
    \<lparr>b3_inputs = map input_v3_of (b_inputs x), b3_outputs = map output_v3_of (b_outputs x),
      b3_kernels = map kernel_v3_of (b_kernels x)\<rparr>"

definition tx_v3_of :: "Transaction \<Rightarrow> TransactionV3" where
  "tx_v3_of x =
    \<lparr>tx3_offset = tx_offset x, tx3_body = body_v3_of (tx_body x)\<rparr>"

definition slate_v3_of :: "Slate \<Rightarrow> SlateV3" where
  "slate_v3_of x =
    \<lparr>sl3_version_info = version_info_v3_of (sl_version_info x),
      sl3_num_participants = sl_num_participants x, sl3_id = sl_id x, sl3_tx = tx_v3_of (sl_tx x),
      sl3_amount = sl_amount x, sl3_fee = sl_fee x, sl3_height = sl_height x,
      sl3_lock_height = sl_lock_height x, sl3_ttl_cutoff_height = sl_ttl_cutoff_height x,
      sl3_participant_data = map participant_v3_of (sl_participant_data x),
      sl3_payment_proof = map_option payment_v3_of (sl_payment_proof x)\<rparr>"

definition version_info_of_v3 :: "VersionCompatInfoV3 \<Rightarrow> VersionCompatInfo" where
  "version_info_of_v3 x =
    \<lparr>vc_version = vc3_version x, vc_orig_version = vc3_orig_version x,
      vc_block_header_version = vc3_block_header_version x\<rparr>"

definition participant_of_v3 :: "ParticipantDataV3 \<Rightarrow> ParticipantData" where
  "participant_of_v3 x =
    \<lparr>pd_id = pd3_id x, pd_public_blind_excess = pd3_public_blind_excess x,
      pd_public_nonce = pd3_public_nonce x, pd_part_sig = pd3_part_sig x, pd_message = pd3_message x,
      pd_message_sig = pd3_message_sig x\<rparr>"

definition payment_of_v3 :: "PaymentInfoV3 \<Rightarrow> PaymentInfo" where
  "payment_of_v3 x =
    \<lparr>pi_sender_address = pi3_sender_address x, pi_receiver_address = pi3_receiver_address x,
      pi_receiver_signature = pi3_receiver_signature x\<rparr>"

definition input_of_v3 :: "InputV3 \<Rightarrow> Input" where
  "input_of_v3 x =
    \<lparr>in_features = in3_features x, in_commit = in3_commit x\<rparr>"

definition output_of_v3 :: "OutputV3 \<Rightarrow> Output" where
  "output_of_v3 x =
    \<lparr>out_features = out3_features x, out_commit = out3_commit x, out_proof = out3_proof x\<rparr>"

definition kernel_of_v3 :: "TxKernelV3 \<Rightarrow> TxKernel" where
  "kernel_of_v3 x =
     \<lparr>k_features = (case k3_features x of
          CompatPlain \<Rightarrow> Plain (k3_fee x)
        | CompatCoinbase \<Rightarrow> Coinbase
        | CompatHeightLocked \<Rightarrow> HeightLocked (k3_fee x) (k3_lock_height x)),
      k_excess = k3_excess x, k_excess_sig = k3_excess_sig x\<rparr>"

definition body_of_v3 :: "TransactionBodyV3 \<Rightarrow> TransactionBody" where
  "body_of_v3 x =
    \<lparr>b_inputs = map input_of_v3 (b3_inputs x), b_outputs = map output_of_v3 (b3_outputs x),
      b_kernels = map kernel_of_v3 (b3_kernels x)\<rparr>"

definition tx_of_v3 :: "TransactionV3 \<Rightarrow> Transaction" where
  "tx_of_v3 x =
    \<lparr>tx_offset = tx3_offset x, tx_body = body_of_v3 (tx3_body x)\<rparr>"

definition slate_of_v3 :: "SlateV3 \<Rightarrow> Slate" where
  "slate_of_v3 x =
    \<lparr>sl_version_info = version_info_of_v3 (sl3_version_info x),
      sl_num_participants = sl3_num_participants x, sl_id = sl3_id x, sl_tx = tx_of_v3 (sl3_tx x),
      sl_amount = sl3_amount x, sl_fee = sl3_fee x, sl_height = sl3_height x,
      sl_lock_height = sl3_lock_height x, sl_ttl_cutoff_height = sl3_ttl_cutoff_height x,
      sl_participant_data = map participant_of_v3 (sl3_participant_data x),
      sl_payment_proof = map_option payment_of_v3 (sl3_payment_proof x)\<rparr>"

section \<open>Versioned slates and coinbases\<close>

datatype SlateVersion = V3 | V2

datatype VersionedSlate = SlateAsV3 SlateV3 | SlateAsV2 SlateV2

datatype VersionedCoinbase = CoinbaseAsV3 CoinbaseV3 | CoinbaseAsV2 CoinbaseV2

definition versioned_slate_version :: "VersionedSlate \<Rightarrow> SlateVersion" where
  "versioned_slate_version s = (case s of SlateAsV3 _ \<Rightarrow> V3 | SlateAsV2 _ \<Rightarrow> V2)"

definition into_version :: "Slate \<Rightarrow> SlateVersion \<Rightarrow> VersionedSlate" where
  "into_version slate version = (case version of
      V3 \<Rightarrow> SlateAsV3 (slate_v3_of slate)
    | V2 \<Rightarrow> SlateAsV2 (slate_v2_of_v3 (slate_v3_of slate)))"

definition slate_of_versioned :: "VersionedSlate \<Rightarrow> Slate" where
  "slate_of_versioned s = (case s of
      SlateAsV3 s \<Rightarrow> slate_of_v3 s
    | SlateAsV2 s \<Rightarrow> slate_of_v3 (slate_v3_of_v2 s))"

definition coinbase_v3_of :: "CbData \<Rightarrow> CoinbaseV3" where
  "coinbase_v3_of cb = \<lparr>cb3_output = output_v3_of (cb_output cb), cb3_kernel = kernel_v3_of (cb_kernel cb),
                        cb3_key_id = cb_key_id cb\<rparr>"

definition coinbase_v2_of :: "CbData \<Rightarrow> CoinbaseV2" where
  "coinbase_v2_of cb =
     \<lparr>cb2_output = output_v2_of_v3 (output_v3_of (cb_output cb)),
      cb2_kernel = kernel_v2_of_v3 (kernel_v3_of (cb_kernel cb)), cb2_key_id = cb_key_id cb\<rparr>"

definition coinbase_into_version :: "CbData \<Rightarrow> SlateVersion \<Rightarrow> VersionedCoinbase" where
  "coinbase_into_version cb version = (case version of
      V3 \<Rightarrow> CoinbaseAsV3 (coinbase_v3_of cb)
    | V2 \<Rightarrow> CoinbaseAsV2 (coinbase_v2_of cb))"

section \<open>Reading and writing slates\<close>

record SlateVersionProbe =
  sv_version :: "u64 option"
  sv_version_info :: "VersionCompatInfo option"

definition probe_version :: "SlateVersionProbe \<Rightarrow> u16" where
  "probe_version p = (case sv_version_info p of
      Some v \<Rightarrow> vc_version v
    | None \<Rightarrow> (case sv_version p of Some _ \<Rightarrow> 1 | None \<Rightarrow> 0))"

text \<open>The JSON codec: what serde makes of a text, and the text of a value.\<close>

record json_codec =
  de_probe :: "string \<Rightarrow> SlateVersionProbe option"
  de_v3 :: "string \<Rightarrow> SlateV3 option"
  de_v2 :: "string \<Rightarrow> SlateV2 option"
  ser_v3 :: "SlateV3 \<Rightarrow> string"
  ser_v2 :: "SlateV2 \<Rightarrow> string"

definition parse_slate_version :: "json_codec \<Rightarrow> string \<Rightarrow> error + u16" where
  "parse_slate_version J slate_json = (case de_probe J slate_json of
      None \<Rightarrow> Inl SlateVersionParse
    | Some p \<Rightarrow> Inr (probe_version p))"

definition deserialize_upgrade :: "json_codec \<Rightarrow> string \<Rightarrow> error + Slate" where
  "deserialize_upgrade J slate_json = (case parse_slate_version J slate_json of
      Inl e \<Rightarrow> Inl e
    | Inr version \<Rightarrow>
        if version = 3 then
          (case de_v3 J slate_json of None \<Rightarrow> Inl SlateDeser | Some v3 \<Rightarrow> Inr (slate_of_v3 v3))
        else if version = 2 then
          (case de_v2 J slate_json of
             None \<Rightarrow> Inl SlateDeser
           | Some v2 \<Rightarrow> Inr (slate_of_v3 (slate_v3_of_v2 v2)))
        else Inl (SlateVersionError version))"

definition slate_serialize :: "json_codec \<Rightarrow> Slate \<Rightarrow> error + string" where
  "slate_serialize J slate =
     (if vc_orig_version (sl_version_info slate) = 3 then Inr (ser_v3 J (slate_v3_of slate))
      else if vc_orig_version (sl_version_info slate) = 2
           then Inr (ser_v2 J (slate_v2_of_v3 (slate_v3_of slate)))
      else Inl (GenericError ''Unknown slate version''))"

end
