(* ===== verification/SlateVersionProps.thy ===== *)
theory SlateVersionProps
  imports SlateVersions
begin

text \<open>
  The wire formats lose nothing they can carry: one contract of a lossless encoding,
  instantiated for every pair of conversions, the round trips of whole slates, and what the
  version numbers inside a slate decide.
\<close>

section \<open>Lossless encodings\<close>

text \<open>An encoding with a decoder that undoes it, and an isomorphism of two formats.\<close>

locale lossless =
  fixes enc :: "'a \<Rightarrow> 'b" and dec :: "'b \<Rightarrow> 'a"
  assumes dec_enc: "dec (enc x) = x"
begin

lemma enc_inj: "enc x = enc y \<longleftrightarrow> x = y"
  by (metis dec_enc)

lemma map_dec_enc: "map dec (map enc xs) = xs"
  by (simp add: comp_def dec_enc)

lemma map_option_dec_enc: "map_option dec (map_option enc v) = v"
  by (simp add: option.map_comp comp_def dec_enc option.map_ident)

lemma dec_surj: "surj dec"
  by (metis dec_enc surjI)

end

locale two_way = lossless +
  assumes enc_dec: "enc (dec y) = y"
begin

lemma dec_inj: "dec x = dec y \<longleftrightarrow> x = y"
  by (metis enc_dec)

lemma map_enc_dec: "map enc (map dec ys) = ys"
  by (simp add: comp_def enc_dec)

lemma map_option_enc_dec: "map_option enc (map_option dec v) = v"
  by (simp add: option.map_comp comp_def enc_dec option.map_ident)

lemma bij: "bij enc"
  by (metis bijI' enc_inj enc_dec)

end

text \<open>Version 2 and version 3.\<close>

interpretation vi23: two_way version_info_v3_of_v2 version_info_v2_of_v3
  by unfold_locales (simp_all add: version_info_v3_of_v2_def version_info_v2_of_v3_def)

interpretation pd23: two_way participant_v3_of_v2 participant_v2_of_v3
  by unfold_locales (simp_all add: participant_v3_of_v2_def participant_v2_of_v3_def)

interpretation in23: two_way input_v3_of_v2 input_v2_of_v3
  by unfold_locales (simp_all add: input_v3_of_v2_def input_v2_of_v3_def)

interpretation out23: two_way output_v3_of_v2 output_v2_of_v3
  by unfold_locales (simp_all add: output_v3_of_v2_def output_v2_of_v3_def)

interpretation k23: two_way kernel_v3_of_v2 kernel_v2_of_v3
  by unfold_locales (simp_all add: kernel_v3_of_v2_def kernel_v2_of_v3_def)

interpretation body23: two_way body_v3_of_v2 body_v2_of_v3
  by unfold_locales
     (simp_all only: body_v3_of_v2_def body_v2_of_v3_def in23.map_dec_enc in23.map_enc_dec
        out23.map_dec_enc out23.map_enc_dec k23.map_dec_enc k23.map_enc_dec
        TransactionBodyV2.simps TransactionBodyV3.simps TransactionBodyV2.surjective[symmetric]
        TransactionBodyV3.surjective[symmetric] TransactionBodyV2.equality TransactionBodyV3.equality, simp_all)

interpretation tx23: two_way tx_v3_of_v2 tx_v2_of_v3
  by unfold_locales (simp_all add: tx_v3_of_v2_def tx_v2_of_v3_def body23.dec_enc body23.enc_dec)

interpretation slate23: lossless slate_v3_of_v2 slate_v2_of_v3
  by unfold_locales
     (simp add: slate_v3_of_v2_def slate_v2_of_v3_def vi23.dec_enc tx23.dec_enc pd23.map_dec_enc del: map_map)

text \<open>The slate and version 3.\<close>

interpretation vi3: two_way version_info_v3_of version_info_of_v3
  by unfold_locales (simp_all add: version_info_v3_of_def version_info_of_v3_def)

interpretation pd3: two_way participant_v3_of participant_of_v3
  by unfold_locales (simp_all add: participant_v3_of_def participant_of_v3_def)

interpretation pay3: two_way payment_v3_of payment_of_v3
  by unfold_locales (simp_all add: payment_v3_of_def payment_of_v3_def)

interpretation in3: two_way input_v3_of input_of_v3
  by unfold_locales (simp_all add: input_v3_of_def input_of_v3_def)

interpretation out3: two_way output_v3_of output_of_v3
  by unfold_locales (simp_all add: output_v3_of_def output_of_v3_def)

text \<open>A kernel in version 3 has a fee and a lock height whatever its features: not two-way.\<close>

interpretation k3: lossless kernel_v3_of kernel_of_v3
  by unfold_locales (simp add: kernel_v3_of_def kernel_of_v3_def split: KernelFeatures.splits)

interpretation body3: lossless body_v3_of body_of_v3
  by unfold_locales
     (simp add: body_v3_of_def body_of_v3_def in3.map_dec_enc out3.map_dec_enc k3.map_dec_enc del: map_map)

interpretation tx3: lossless tx_v3_of tx_of_v3
  by unfold_locales (simp add: tx_v3_of_def tx_of_v3_def body3.dec_enc)

interpretation slate3: lossless slate_v3_of slate_of_v3
  by unfold_locales
     (simp add: slate_v3_of_def slate_of_v3_def vi3.dec_enc tx3.dec_enc pd3.map_dec_enc
        pay3.map_option_dec_enc del: map_map option.map_comp)

lemma slate_v3_v2_v3:
  "slate_v3_of_v2 (slate_v2_of_v3 s) = s\<lparr>sl3_ttl_cutoff_height := None, sl3_payment_proof := None\<rparr>"
  by (simp add: slate_v3_of_v2_def slate_v2_of_v3_def vi23.enc_dec tx23.enc_dec pd23.map_enc_dec del: map_map)

section \<open>Whole slates\<close>

lemma slate_through_v3: "slate_of_versioned (into_version s V3) = s"
  by (simp add: into_version_def slate_of_versioned_def slate3.dec_enc)

lemma slate_through_v2:
  "slate_of_versioned (into_version s V2) = s\<lparr>sl_ttl_cutoff_height := None, sl_payment_proof := None\<rparr>"
proof -
  have "slate_of_v3 (x\<lparr>sl3_ttl_cutoff_height := None, sl3_payment_proof := None\<rparr>)
      = (slate_of_v3 x)\<lparr>sl_ttl_cutoff_height := None, sl_payment_proof := None\<rparr>" for x
    by (simp add: slate_of_v3_def)
  then show ?thesis
    by (simp add: into_version_def slate_of_versioned_def slate_v3_v2_v3 slate3.dec_enc)
qed

text \<open>Handing a slate out as version 3 and reading it back gives the same slate; through
  version 2 it comes back without its TTL and payment proof and otherwise unchanged.\<close>

theorem versioned_round_trip:
  "slate_of_versioned (into_version s v) =
     (case v of V3 \<Rightarrow> s | V2 \<Rightarrow> s\<lparr>sl_ttl_cutoff_height := None, sl_payment_proof := None\<rparr>)"
  by (cases v) (simp_all add: slate_through_v3 slate_through_v2)

text \<open>
  The codec on the two texts of a slate: each decoder reads its own text, the probe sees the
  version info, and a version 2 text has no \<open>ttl_cutoff_height\<close> for the version 3 decoder.
\<close>

definition json_ok :: "json_codec \<Rightarrow> Slate \<Rightarrow> bool" where
  "json_ok J s \<longleftrightarrow>
     (let s3 = slate_v3_of s; s2 = slate_v2_of_v3 s3; reads = (\<lambda>t i. map_option sv_version_info (de_probe J t) = Some (Some i)) in
      de_v3 J (ser_v3 J s3) = Some s3 \<and> de_v2 J (ser_v2 J s2) = Some s2 \<and> de_v3 J (ser_v2 J s2) = None \<and>
      reads (ser_v3 J s3) (version_info_of_v3 (sl3_version_info s3)) \<and>
      reads (ser_v2 J s2) (version_info_of_v3 (version_info_v3_of_v2 (sl2_version_info s2))))"

lemma wire_version_info [simp]:
  "sl3_version_info (slate_v3_of s) = version_info_v3_of (sl_version_info s)"
  "sl2_version_info (slate_v2_of_v3 x) = version_info_v2_of_v3 (sl3_version_info x)"
  by (simp_all add: slate_v3_of_def slate_v2_of_v3_def)

lemma parse_ser:
  assumes "json_ok J s"
  shows "parse_slate_version J (ser_v3 J (slate_v3_of s)) = Inr (vc_version (sl_version_info s))"
    "parse_slate_version J (ser_v2 J (slate_v2_of_v3 (slate_v3_of s))) = Inr (vc_version (sl_version_info s))"
  using assms
  by (auto simp: json_ok_def Let_def vi3.dec_enc vi23.enc_dec parse_slate_version_def probe_version_def)

text \<open>C30. A slate whose two version numbers agree (3 or 2) is serialised to a text that
  \<open>deserialize_upgrade\<close> reads back, exactly in version 3 and without TTL and payment proof in
  version 2. Every other \<open>orig_version\<close> is refused when writing.\<close>

theorem serialize_round_trip:
  assumes "json_ok J s" and "vc_version (sl_version_info s) = vc_orig_version (sl_version_info s)"
  shows "(vc_orig_version (sl_version_info s) = 3 \<longrightarrow>
           (\<exists>t. slate_serialize J s = Inr t \<and> deserialize_upgrade J t = Inr s)) \<and>
         (vc_orig_version (sl_version_info s) = 2 \<longrightarrow>
           (\<exists>t. slate_serialize J s = Inr t \<and>
              deserialize_upgrade J t = Inr (s\<lparr>sl_ttl_cutoff_height := None, sl_payment_proof := None\<rparr>))) \<and>
         (vc_orig_version (sl_version_info s) \<notin> {2, 3} \<longrightarrow> (\<exists>e. slate_serialize J s = Inl e))"
  using assms(1) parse_ser[OF assms(1)] assms(2) versioned_round_trip[of s V2]
  by (auto simp: slate_serialize_def deserialize_upgrade_def json_ok_def Let_def slate3.dec_enc
      slate_of_versioned_def into_version_def)


definition the_slate :: Slate where
  "the_slate = slate_blank (Uuid 9) \<lparr>tx_offset = [], tx_body = \<lparr>b_inputs = [], b_outputs = [], b_kernels = []\<rparr>\<rparr> 2"

definition the_codec :: "Slate \<Rightarrow> json_codec" where
  "the_codec s =
     \<lparr>de_probe = (\<lambda>_. Some \<lparr>sv_version = None, sv_version_info = Some (sl_version_info s)\<rparr>),
      de_v3 = (\<lambda>t. if t = ''3'' then Some (slate_v3_of s) else None),
      de_v2 = (\<lambda>t. Some (slate_v2_of_v3 (slate_v3_of s))), ser_v3 = (\<lambda>_. ''3''), ser_v2 = (\<lambda>_. ''2'')\<rparr>"

lemma json_ok_the_codec: "json_ok (the_codec s) s"
  by (simp add: json_ok_def the_codec_def Let_def vi3.dec_enc vi23.enc_dec)

theorem serialize_round_trip_witness:
  "\<exists>t. slate_serialize (the_codec the_slate) the_slate = Inr t \<and>
       deserialize_upgrade (the_codec the_slate) t = Inr the_slate"
proof -
  have v: "vc_version (sl_version_info the_slate) = vc_orig_version (sl_version_info the_slate)"
    "vc_orig_version (sl_version_info the_slate) = 3"
    by (simp_all add: the_slate_def slate_blank_def CURRENT_SLATE_VERSION_def)
  show ?thesis using serialize_round_trip[OF json_ok_the_codec v(1)] v(2) by blast
qed

text \<open>A slate told to go out as version 2 by setting \<open>orig_version\<close> alone, as the owner API
  does, still carries version 3 in its version info: its text is refused with
  \<open>SlateDeser\<close> when it is read.\<close>

theorem version_2_reply_unreadable:
  assumes "json_ok J (s\<lparr>sl_version_info := (sl_version_info s)\<lparr>vc_orig_version := 2\<rparr>\<rparr>)"
    and "vc_version (sl_version_info s) = 3"
  shows "\<exists>t. slate_serialize J (s\<lparr>sl_version_info := (sl_version_info s)\<lparr>vc_orig_version := 2\<rparr>\<rparr>) = Inr t \<and>
    deserialize_upgrade J t = Inl SlateDeser"
  using assms(2) parse_ser[OF assms(1)] assms(1)
  by (simp add: slate_serialize_def deserialize_upgrade_def json_ok_def Let_def)

theorem version_2_reply_unreadable_witness:
  "\<exists>t. slate_serialize (the_codec (the_slate\<lparr>sl_version_info := (sl_version_info the_slate)\<lparr>vc_orig_version := 2\<rparr>\<rparr>))
        (the_slate\<lparr>sl_version_info := (sl_version_info the_slate)\<lparr>vc_orig_version := 2\<rparr>\<rparr>) = Inr t \<and>
     deserialize_upgrade (the_codec (the_slate\<lparr>sl_version_info := (sl_version_info the_slate)\<lparr>vc_orig_version := 2\<rparr>\<rparr>)) t
        = Inl SlateDeser"
  by (rule version_2_reply_unreadable[OF json_ok_the_codec])
     (simp add: the_slate_def slate_blank_def CURRENT_SLATE_VERSION_def)

end
