(* ===== verification/SlateModel.thy ===== *)
theory SlateModel
  imports Env
begin

text \<open>
  Building a transaction on the slate, \<open>libwallet/src/slate.rs\<close>: the two signing rounds, the
  checks of fees, signatures and messages, and finalisation. The slate is the state of a
  method that takes \<open>&mut self\<close>; a method that only reads it is a function of the slate.
  The two fee errors keep the constant part of their text.
\<close>

section \<open>The kernel and the offset\<close>

definition update_kernel :: "ext \<Rightarrow> (Slate, error, unit) proc" where
  "update_kernel E = modify (\<lambda>s. s\<lparr>sl_tx :=
     replace_kernel E (kernel_with_features E (kernel_features s)) (sl_tx s)\<rparr>)"

definition add_transaction_elements ::
    "ext \<Rightarrow> Keychain \<Rightarrow> build_elem list \<Rightarrow> (Slate, error, BlindingFactor) proc" where
  "add_transaction_elements E k elems =
     bindE (update_kernel E) (\<lambda>_.
     bindE (gets sl_tx) (\<lambda>tx.
     bindE (liftE (partial_transaction E tx elems k)) (\<lambda>(tx', blind).
     bindE (modify (\<lambda>s. s\<lparr>sl_tx := tx'\<rparr>)) (\<lambda>_. ret blind))))"

text \<open>The initiator draws the offset and splits it off its secret key, which is returned.\<close>

definition generate_offset :: "ext \<Rightarrow> Keychain \<Rightarrow> SecretKey \<Rightarrow> bool \<Rightarrow> (Slate, error, SecretKey) proc" where
  "generate_offset E k sec_key use_test_rng =
     bindE (modify (\<lambda>s. s\<lparr>sl_tx := (sl_tx s)\<lparr>tx_offset := blinding_of_key E (random_offset E use_test_rng)\<rparr>\<rparr>)) (\<lambda>_.
     bindE (gets (\<lambda>s. tx_offset (sl_tx s))) (\<lambda>offset.
     bindE (liftE (blind_sum_sub E k (blinding_of_key E sec_key) offset)) (\<lambda>blind_offset.
     liftE (blinding_secret_key E blind_offset))))"

section \<open>Round 1\<close>

definition sign_message ::
    "ext \<Rightarrow> SecretKey \<Rightarrow> SecretKey option \<Rightarrow> PublicKey \<Rightarrow> string option \<Rightarrow> error + Signature option" where
  "sign_message E sec_key nonce pub_key message = (case message of
      None \<Rightarrow> Inr None
    | Some m \<Rightarrow>
        and_then (message_from_slice E (blake2b_32 E (map of_char m))) (\<lambda>msg.
        and_then (sign_single E msg sec_key nonce pub_key) (\<lambda>res. Inr (Some res))))"

definition add_participant_info ::
    "ext \<Rightarrow> SecretKey \<Rightarrow> SecretKey \<Rightarrow> nat \<Rightarrow> Signature option \<Rightarrow> string option \<Rightarrow> bool \<Rightarrow> (Slate, error, unit) proc" where
  "add_participant_info E sec_key sec_nonce i part_sig message use_test_rng =
     bindE (liftE (pubkey_from_secret E sec_key)) (\<lambda>pub_key.
     bindE (liftE (pubkey_from_secret E sec_nonce)) (\<lambda>pub_nonce.
     bindE (case secret_key_from_slice E (replicate 32 1) of
              Inl _ \<Rightarrow> throw (Panic ''test_message_nonce'') | Inr n \<Rightarrow> ret n) (\<lambda>test_message_nonce.
     bindE (liftE (sign_message E sec_key (if use_test_rng then Some test_message_nonce else None)
                     pub_key message)) (\<lambda>message_sig.
     modify (\<lambda>s. s\<lparr>sl_participant_data := sl_participant_data s @
       [\<lparr>pd_id = of_nat i, pd_public_blind_excess = pub_key, pd_public_nonce = pub_nonce,
         pd_part_sig = part_sig, pd_message = message, pd_message_sig = message_sig\<rparr>]\<rparr>)))))"

text \<open>The secret key is an in-out parameter: the result is the key to go on with.\<close>

definition fill_round_1 ::
    "ext \<Rightarrow> Keychain \<Rightarrow> SecretKey \<Rightarrow> SecretKey \<Rightarrow> nat \<Rightarrow> string option \<Rightarrow> bool \<Rightarrow> (Slate, error, SecretKey) proc" where
  "fill_round_1 E k sec_key sec_nonce participant_id message use_test_rng =
     bindE (gets (\<lambda>s. tx_offset (sl_tx s))) (\<lambda>offset.
     bindE (if offset = blinding_zero E then generate_offset E k sec_key use_test_rng
            else ret sec_key) (\<lambda>sk.
     bindE (add_participant_info E sk sec_nonce participant_id None message use_test_rng) (\<lambda>_.
     ret sk)))"

section \<open>Checks\<close>

definition check_fees :: "ext \<Rightarrow> Slate \<Rightarrow> error + unit" where
  "check_fees E s =
     (let b = tx_body (sl_tx s);
          fee = tx_fee E (length (b_inputs b)) (length (b_outputs b)) (length (b_kernels b)) in
      if fee > tx_total_fee E (sl_tx s) then Inl (Fee ''Fee Dispute Error'')
      else if fee > sl_amount s + sl_fee s then Inl (Fee ''Rejected the transfer'')
      else Inr ())"

definition msg_to_sign :: "ext \<Rightarrow> Slate \<Rightarrow> error + bytes" where
  "msg_to_sign E s = kernel_sig_msg E (kernel_features s)"

definition pub_nonce_sum :: "ext \<Rightarrow> Slate \<Rightarrow> error + PublicKey" where
  "pub_nonce_sum E s = pubkey_combination E (map pd_public_nonce (sl_participant_data s))"

definition pub_blind_sum :: "ext \<Rightarrow> Slate \<Rightarrow> error + PublicKey" where
  "pub_blind_sum E s = pubkey_combination E (map pd_public_blind_excess (sl_participant_data s))"

definition verify_part_sig :: "ext \<Rightarrow> Slate \<Rightarrow> ParticipantData \<Rightarrow> error + unit" where
  "verify_part_sig E s p =
     (if is_complete p then
        (case pd_part_sig p of
           None \<Rightarrow> Inl (Panic ''part_sig'')
         | Some part_sig \<Rightarrow>
             and_then (pub_nonce_sum E s) (\<lambda>nonce_sum.
             and_then (pub_blind_sum E s) (\<lambda>blind_sum.
             (case msg_to_sign E s of
                Inl _ \<Rightarrow> Inl (Panic ''msg_to_sign'')
              | Inr msg \<Rightarrow> verify_partial_sig E part_sig nonce_sum (pd_public_blind_excess p) blind_sum msg))))
      else Inr ())"

definition verify_part_sigs :: "ext \<Rightarrow> Slate \<Rightarrow> error + unit" where
  "verify_part_sigs E s = check_each (verify_part_sig E s) (sl_participant_data s)"

definition verify_message :: "ext \<Rightarrow> ParticipantData \<Rightarrow> error + unit" where
  "verify_message E p = (case pd_message p of
      None \<Rightarrow> Inr ()
    | Some msg \<Rightarrow>
        and_then (message_from_slice E (blake2b_32 E (map of_char msg))) (\<lambda>m.
        (case pd_message_sig p of
           None \<Rightarrow> Inl (SignatureError ''Optional participant messages doesn't have signature'')
         | Some signature \<Rightarrow>
             if \<not> verify_single E signature m (pd_public_blind_excess p)
             then Inl (SignatureError ''Optional participant messages do not match signatures'') else Inr ())))"

definition verify_messages :: "ext \<Rightarrow> Slate \<Rightarrow> error + unit" where
  "verify_messages E s = check_each (verify_message E) (sl_participant_data s)"

section \<open>Round 2\<close>

text \<open>The loop over \<open>0..num_participants\<close>: it indexes the vector and stops at the first match.\<close>

function fill_part_sig ::
    "nat \<Rightarrow> nat \<Rightarrow> nat \<Rightarrow> Signature \<Rightarrow> ParticipantData list \<Rightarrow> error + ParticipantData list" where
  "fill_part_sig i n participant_id sig pds =
     (if n \<le> i then Inr pds
      else if length pds \<le> i then Inl (Panic ''participant_data[i]'')
      else if pd_id (pds ! i) = of_nat participant_id
           then Inr (pds[i := (pds ! i)\<lparr>pd_part_sig := Some sig\<rparr>])
      else fill_part_sig (i + 1) n participant_id sig pds)"
  by pat_completeness auto
termination
  by (relation "measure (\<lambda>(i, n, _). n - i)") auto

declare fill_part_sig.simps [simp del]

definition fill_round_2 ::
    "ext \<Rightarrow> SecretKey \<Rightarrow> SecretKey \<Rightarrow> nat \<Rightarrow> (Slate, error, unit) proc" where
  "fill_round_2 E sec_key sec_nonce participant_id s =
     (case and_then (check_fees E s) (\<lambda>_.
           and_then (verify_part_sigs E s) (\<lambda>_.
           and_then (pub_nonce_sum E s) (\<lambda>nonce_sum.
           and_then (pub_blind_sum E s) (\<lambda>blind_sum.
           and_then (msg_to_sign E s) (\<lambda>msg.
           and_then (calculate_partial_sig E sec_key sec_nonce nonce_sum blind_sum msg) (\<lambda>sig_part.
           fill_part_sig 0 (sl_num_participants s) participant_id sig_part (sl_participant_data s)))))))
      of Inl e \<Rightarrow> (Inl e, s)
       | Inr pds \<Rightarrow> (Inr (), s\<lparr>sl_participant_data := pds\<rparr>))"

section \<open>Finalisation\<close>

definition part_sigs :: "Slate \<Rightarrow> error + Signature list" where
  "part_sigs s =
     (if list_all is_complete (sl_participant_data s)
      then Inr (map (the \<circ> pd_part_sig) (sl_participant_data s))
      else Inl (Panic ''part_sig''))"

definition finalize_signature :: "ext \<Rightarrow> Slate \<Rightarrow> error + Signature" where
  "finalize_signature E s =
     and_then (verify_part_sigs E s) (\<lambda>_.
     and_then (part_sigs s) (\<lambda>sigs.
     and_then (pub_nonce_sum E s) (\<lambda>nonce_sum.
     and_then (pub_blind_sum E s) (\<lambda>final_pubkey.
     and_then (add_signatures E sigs nonce_sum) (\<lambda>final_sig.
     and_then (msg_to_sign E s) (\<lambda>msg.
     and_then (verify_completed_sig E final_sig final_pubkey msg) (\<lambda>_.
     Inr final_sig)))))))"

definition calc_excess :: "ext \<Rightarrow> Slate \<Rightarrow> error + Commitment" where
  "calc_excess E s =
     and_then (sum_commitments E (sl_tx s) (tx_total_fee E (sl_tx s))) (\<lambda>tx_excess.
     and_then (blinding_secret_key E (tx_offset (sl_tx s))) (\<lambda>offset_key.
     and_then (commit_zero E offset_key) (\<lambda>offset_excess.
     commit_sum E [tx_excess] [offset_excess])))"

definition with_kernel :: "Commitment \<Rightarrow> Signature \<Rightarrow> Transaction \<Rightarrow> error + Transaction" where
  "with_kernel excess sig tx = (case b_kernels (tx_body tx) of
      [kern] \<Rightarrow> Inr (tx\<lparr>tx_body := (tx_body tx)\<lparr>b_kernels :=
                    [kern\<lparr>k_excess := excess, k_excess_sig := sig\<rparr>]\<rparr>\<rparr>)
    | _ \<Rightarrow> Inl (Panic ''assert_eq!(kernels.len(), 1)''))"

definition finalize_transaction :: "ext \<Rightarrow> Signature \<Rightarrow> (Slate, error, unit) proc" where
  "finalize_transaction E final_sig s =
     (case and_then (check_fees E s) (\<lambda>_.
           and_then (calc_excess E s) (\<lambda>final_excess.
           and_then (with_kernel final_excess final_sig (sl_tx s)) (\<lambda>final_tx.
           and_then (kernel_verify E (hd (b_kernels (tx_body final_tx)))) (\<lambda>_.
           and_then (tx_validate E final_tx) (\<lambda>_. Inr final_tx)))))
      of Inl e \<Rightarrow> (Inl e, s)
       | Inr final_tx \<Rightarrow> (Inr (), s\<lparr>sl_tx := final_tx\<rparr>))"

definition finalize :: "ext \<Rightarrow> (Slate, error, unit) proc" where
  "finalize E s = (case finalize_signature E s of
      Inl e \<Rightarrow> (Inl e, s)
    | Inr final_sig \<Rightarrow> finalize_transaction E final_sig s)"

end
