(* ===== verification/SlateProps.thy ===== *)
theory SlateProps
  imports SlateModel SlateVersionProps WitnessEnv
begin

text \<open>
  What the signing rounds guarantee: round 1 adds a participant whose message verifies, round
  2 fills exactly one signature after all checks, finalisation yields a transaction that
  passed every check, and no step that fails changes the slate's transaction.
\<close>

section \<open>Round 1\<close>

lemma add_participant_info_ok:
  assumes "add_participant_info E sk sn i ps message tr s = (Inr (), s')"
  obtains pk pn msig nonce where "pubkey_from_secret E sk = Inr pk" "pubkey_from_secret E sn = Inr pn"
    "sign_message E sk nonce pk message = Inr msig"
    "s' = s\<lparr>sl_participant_data := sl_participant_data s @
       [\<lparr>pd_id = of_nat i, pd_public_blind_excess = pk, pd_public_nonce = pn, pd_part_sig = ps,
         pd_message = message, pd_message_sig = msig\<rparr>]\<rparr>"
  using assms
  by (auto simp: add_participant_info_def bindE_eq_Inr split: sum.splits)

lemma generate_offset_frame:
  "generate_offset E k sk tr s = (r, s') \<Longrightarrow> s' = s\<lparr>sl_tx := (sl_tx s)\<lparr>tx_offset := tx_offset (sl_tx s')\<rparr>\<rparr>"
  by (auto simp: generate_offset_def bindE_def split: sum.splits)

lemma fill_round_1_ok:
  assumes "fill_round_1 E k sk sn i message tr s = (Inr sk', s')"
  obtains pk pn msig nonce where "pubkey_from_secret E sk' = Inr pk" "pubkey_from_secret E sn = Inr pn"
    "sign_message E sk' nonce pk message = Inr msig"
    "s' = s\<lparr>sl_tx := (sl_tx s)\<lparr>tx_offset := tx_offset (sl_tx s')\<rparr>,
       sl_participant_data := sl_participant_data s @
       [\<lparr>pd_id = of_nat i, pd_public_blind_excess = pk, pd_public_nonce = pn, pd_part_sig = None,
         pd_message = message, pd_message_sig = msig\<rparr>]\<rparr>"
    "tx_offset (sl_tx s) \<noteq> blinding_zero E \<Longrightarrow> tx_offset (sl_tx s') = tx_offset (sl_tx s) \<and> sk' = sk"
proof -
  obtain s1 where s1: "(if tx_offset (sl_tx s) = blinding_zero E then generate_offset E k sk tr else ret sk) s = (Inr sk', s1)"
    and p: "add_participant_info E sk' sn i None message tr s1 = (Inr (), s')"
    using assms by (auto simp: fill_round_1_def bindE_eq_Inr)
  obtain f where s1': "s1 = s\<lparr>sl_tx := (sl_tx s)\<lparr>tx_offset := f\<rparr>\<rparr>"
  proof (cases "tx_offset (sl_tx s) = blinding_zero E")
    case True
    then show ?thesis using s1 generate_offset_frame[of E k sk tr s "Inr sk'" s1] that by auto
  next
    case False
    then show ?thesis using s1 that[of "tx_offset (sl_tx s)"] by simp
  qed
  have off: "tx_offset (sl_tx s) \<noteq> blinding_zero E \<Longrightarrow> s1 = s \<and> sk' = sk"
    using s1 by (auto split: if_splits)
  obtain pk pn msig nonce where q: "pubkey_from_secret E sk' = Inr pk" "pubkey_from_secret E sn = Inr pn"
    "sign_message E sk' nonce pk message = Inr msig"
    "s' = s1\<lparr>sl_participant_data := sl_participant_data s1 @
       [\<lparr>pd_id = of_nat i, pd_public_blind_excess = pk, pd_public_nonce = pn, pd_part_sig = None,
         pd_message = message, pd_message_sig = msig\<rparr>]\<rparr>"
    by (rule add_participant_info_ok[OF p]) (rule that)
  show ?thesis
  proof (rule that[OF q(1-3)])
    show "s' = s\<lparr>sl_tx := (sl_tx s)\<lparr>tx_offset := tx_offset (sl_tx s')\<rparr>,
       sl_participant_data := sl_participant_data s @
       [\<lparr>pd_id = of_nat i, pd_public_blind_excess = pk, pd_public_nonce = pn, pd_part_sig = None,
         pd_message = message, pd_message_sig = msig\<rparr>]\<rparr>"
      using q(4) by (simp add: s1')
    show "tx_offset (sl_tx s') = tx_offset (sl_tx s) \<and> sk' = sk" if "tx_offset (sl_tx s) \<noteq> blinding_zero E"
      using off[OF that] q(4) by simp
  qed
qed

lemma verify_message_iff:
  "verify_message E p = Inr () \<longleftrightarrow> (\<forall>m. pd_message p = Some m \<longrightarrow>
     (\<exists>h sg. message_from_slice E (blake2b_32 E (map of_char m)) = Inr h \<and>
        pd_message_sig p = Some sg \<and> verify_single E sg h (pd_public_blind_excess p)))"
proof (cases "pd_message p")
  case (Some m)
  then show ?thesis
    by (cases "message_from_slice E (blake2b_32 E (map of_char m))"; cases "pd_message_sig p")
       (simp_all add: verify_message_def)
qed (simp add: verify_message_def)

text \<open>What the signature scheme owes: a signature made with a key verifies under its public key.\<close>

definition signatures_ok :: "ext \<Rightarrow> bool" where
  "signatures_ok E \<longleftrightarrow> (\<forall>m sk n pk sg. pubkey_from_secret E sk = Inr pk \<longrightarrow>
     sign_single E m sk n pk = Inr sg \<longrightarrow> verify_single E sg m pk)"

text \<open>If round 1 succeeds, the slate has one participant more, with the given id and message
  and no partial signature; the offset is drawn only when it was zero, the rest of the
  transaction is unchanged, and if the messages verified before they still verify.\<close>

theorem fill_round_1_adds:
  assumes "fill_round_1 E k sk sn i message tr s = (Inr sk', s')" and "signatures_ok E"
  shows "(\<exists>p. sl_participant_data s' = sl_participant_data s @ [p] \<and> pd_id p = of_nat i \<and>
            pd_message p = message \<and> \<not> is_complete p \<and> pubkey_from_secret E sk' = Inr (pd_public_blind_excess p)) \<and>
    tx_body (sl_tx s') = tx_body (sl_tx s) \<and>
    (tx_offset (sl_tx s) \<noteq> blinding_zero E \<longrightarrow> tx_offset (sl_tx s') = tx_offset (sl_tx s) \<and> sk' = sk) \<and>
    (verify_messages E s = Inr () \<longrightarrow> verify_messages E s' = Inr ())"
proof -
  obtain pk pn msig nonce where q: "pubkey_from_secret E sk' = Inr pk" "pubkey_from_secret E sn = Inr pn"
    "sign_message E sk' nonce pk message = Inr msig"
    "s' = s\<lparr>sl_tx := (sl_tx s)\<lparr>tx_offset := tx_offset (sl_tx s')\<rparr>,
       sl_participant_data := sl_participant_data s @
       [\<lparr>pd_id = of_nat i, pd_public_blind_excess = pk, pd_public_nonce = pn, pd_part_sig = None,
         pd_message = message, pd_message_sig = msig\<rparr>]\<rparr>"
    "tx_offset (sl_tx s) \<noteq> blinding_zero E \<Longrightarrow> tx_offset (sl_tx s') = tx_offset (sl_tx s) \<and> sk' = sk"
    by (rule fill_round_1_ok[OF assms(1)]) (rule that)
  let ?p = "\<lparr>pd_id = of_nat i, pd_public_blind_excess = pk, pd_public_nonce = pn, pd_part_sig = None,
         pd_message = message, pd_message_sig = msig\<rparr>"
  have pd: "sl_participant_data s' = sl_participant_data s @ [?p]" by (subst q(4)) simp
  have "tx_body (sl_tx s') = tx_body (sl_tx s)" by (subst q(4)) simp
  moreover have "verify_message E ?p = Inr ()"
    using q(1,3) assms(2)
    by (auto simp: verify_message_iff sign_message_def signatures_ok_def and_then_eq_Inr)
  then have "verify_messages E s = Inr () \<longrightarrow> verify_messages E s' = Inr ()"
    by (simp add: verify_messages_def check_each_ok pd)
  ultimately show ?thesis using q(1,5) pd by (auto simp: is_complete_def)
qed

theorem fill_round_1_adds_witness:
  "\<exists>s'. fill_round_1 the_ext [] [1] [2] 0 (Some ''hi'') False the_slate = (Inr [1], s') \<and>
     length (sl_participant_data s') = 1"
proof -
  have "\<exists>s'. fill_round_1 the_ext [] [1] [2] 0 (Some ''hi'') False the_slate = (Inr [1], s')"
    by (simp add: fill_round_1_def bindE_app generate_offset_def add_participant_info_def sign_message_def
        the_ext_def the_slate_def slate_blank_def)
  then obtain s' where s': "fill_round_1 the_ext [] [1] [2] 0 (Some ''hi'') False the_slate = (Inr [1], s')"
    by blast
  have "signatures_ok the_ext" by (simp add: signatures_ok_def the_ext_def)
  then show ?thesis using fill_round_1_adds[OF s'] s' by (auto simp: the_slate_def slate_blank_def)
qed

section \<open>Messages\<close>

text \<open>\<open>verify_messages\<close> accepts a slate exactly when every message in it is signed by the
  participant that carries it.\<close>

theorem verify_messages_iff:
  "verify_messages E s = Inr () \<longleftrightarrow>
     (\<forall>p \<in> set (sl_participant_data s). \<forall>m. pd_message p = Some m \<longrightarrow>
        (\<exists>h sg. message_from_slice E (blake2b_32 E (map of_char m)) = Inr h \<and>
           pd_message_sig p = Some sg \<and> verify_single E sg h (pd_public_blind_excess p)))"
  by (simp add: verify_messages_def check_each_ok verify_message_iff)

theorem verify_messages_iff_witness:
  "verify_messages the_ext the_slate = Inr ()"
  using verify_messages_iff[of the_ext the_slate] by (simp add: the_slate_def slate_blank_def)


section \<open>Round 2\<close>

text \<open>The loop sets the signature of the first participant with the id, if there is one.\<close>

lemma fill_part_sig_cases:
  assumes "fill_part_sig i n pid sig pds = Inr pds'"
  shows "(pds' = pds \<and> (\<forall>j. i \<le> j \<and> j < n \<longrightarrow> j < length pds \<and> pd_id (pds ! j) \<noteq> of_nat pid)) \<or>
    (\<exists>j. i \<le> j \<and> j < n \<and> j < length pds \<and> pd_id (pds ! j) = of_nat pid \<and>
       (\<forall>l. i \<le> l \<and> l < j \<longrightarrow> pd_id (pds ! l) \<noteq> of_nat pid) \<and>
       pds' = pds[j := (pds ! j)\<lparr>pd_part_sig := Some sig\<rparr>])"
  using assms
proof (induction i n pid sig pds rule: fill_part_sig.induct)
  case (1 i n pid sig pds)
  show ?case
  proof (cases "n \<le> i \<or> length pds \<le> i \<or> pd_id (pds ! i) = of_nat pid")
    case True
    then show ?thesis using 1(2) by (subst (asm) fill_part_sig.simps) (auto split: if_splits)
  next
    case False
    then have "fill_part_sig (i + 1) n pid sig pds = Inr pds'"
      using 1(2) by (subst (asm) fill_part_sig.simps) simp
    then have IH: "(pds' = pds \<and> (\<forall>j. i + 1 \<le> j \<and> j < n \<longrightarrow> j < length pds \<and> pd_id (pds ! j) \<noteq> of_nat pid)) \<or>
      (\<exists>j. i + 1 \<le> j \<and> j < n \<and> j < length pds \<and> pd_id (pds ! j) = of_nat pid \<and>
       (\<forall>l. i + 1 \<le> l \<and> l < j \<longrightarrow> pd_id (pds ! l) \<noteq> of_nat pid) \<and>
       pds' = pds[j := (pds ! j)\<lparr>pd_part_sig := Some sig\<rparr>])"
      using 1(1) False by simp
    have step: "P i \<Longrightarrow> (\<forall>j. i + 1 \<le> j \<and> j < m \<longrightarrow> P j) \<Longrightarrow> (\<forall>j. i \<le> j \<and> j < m \<longrightarrow> P j)" for P :: "nat \<Rightarrow> bool" and m
      by (metis Suc_eq_plus1 le_antisym not_less_eq_eq)
    have i: "i < length pds \<and> pd_id (pds ! i) \<noteq> of_nat pid" using False by simp
    from IH show ?thesis
    proof (elim disjE exE conjE)
      assume "pds' = pds" "\<forall>j. i + 1 \<le> j \<and> j < n \<longrightarrow> j < length pds \<and> pd_id (pds ! j) \<noteq> of_nat pid"
      then show ?thesis using step[of "\<lambda>j. j < length pds \<and> pd_id (pds ! j) \<noteq> of_nat pid" n, OF i] by blast
    next
      fix j assume j: "i + 1 \<le> j" "j < n" "j < length pds" "pd_id (pds ! j) = of_nat pid"
        "\<forall>l. i + 1 \<le> l \<and> l < j \<longrightarrow> pd_id (pds ! l) \<noteq> of_nat pid"
        "pds' = pds[j := (pds ! j)\<lparr>pd_part_sig := Some sig\<rparr>]"
      have "\<forall>l. i \<le> l \<and> l < j \<longrightarrow> pd_id (pds ! l) \<noteq> of_nat pid"
        by (rule step[of "\<lambda>l. pd_id (pds ! l) \<noteq> of_nat pid", OF conjunct2[OF i] j(5)])
      then show ?thesis using j by (intro disjI2 exI[of _ j]) simp
    qed
  qed
qed

lemma fill_part_sig_panics:
  "n > length pds \<Longrightarrow> (\<forall>j. i \<le> j \<and> j < length pds \<longrightarrow> pd_id (pds ! j) \<noteq> of_nat pid) \<Longrightarrow> i \<le> length pds \<Longrightarrow>
     fill_part_sig i n pid sig pds = Inl (Panic ''participant_data[i]'')"
proof (induction "length pds - i" arbitrary: i)
  case 0
  then show ?case by (subst fill_part_sig.simps) simp
next
  case (Suc m)
  then show ?case by (subst fill_part_sig.simps) simp
qed

text \<open>If round 2 succeeds then the fees were sufficient and every partial signature already
  in the slate verified; all that changes is that the first participant with the caller's
  id, among the slate's participants, now has a partial signature. If it fails the slate
  is unchanged.\<close>

theorem fill_round_2_signs_one:
  "case fill_round_2 E sk sn pid s of
     (Inl e, s') \<Rightarrow> s' = s
   | (Inr _, s') \<Rightarrow>
       check_fees E s = Inr () \<and> verify_part_sigs E s = Inr () \<and>
       s' = s\<lparr>sl_participant_data := sl_participant_data s'\<rparr> \<and>
       (sl_participant_data s' = sl_participant_data s \<or>
        (\<exists>j sig. j < length (sl_participant_data s) \<and> pd_id (sl_participant_data s ! j) = of_nat pid \<and>
           (\<forall>l < j. pd_id (sl_participant_data s ! l) \<noteq> of_nat pid) \<and>
           sl_participant_data s' = (sl_participant_data s)[j := (sl_participant_data s ! j)\<lparr>pd_part_sig := Some sig\<rparr>]))"
proof -
  obtain r s' where run: "fill_round_2 E sk sn pid s = (r, s')" by fastforce
  show ?thesis
  proof (cases r)
    case (Inl e)
    then show ?thesis using run by (auto simp: fill_round_2_def split: sum.splits)
  next
    case (Inr u)
    then obtain pds sig where ok: "check_fees E s = Inr ()" "verify_part_sigs E s = Inr ()"
      "fill_part_sig 0 (sl_num_participants s) pid sig (sl_participant_data s) = Inr pds"
      "s' = s\<lparr>sl_participant_data := pds\<rparr>"
      using run by (auto simp: fill_round_2_def and_then_eq_Inr split: sum.splits)
    then show ?thesis
      using fill_part_sig_cases[OF ok(3)] run Inr by auto
  qed
qed

definition one_signer :: Slate where
  "one_signer = the_slate\<lparr>sl_amount := 5, sl_num_participants := 1,
     sl_participant_data := [\<lparr>pd_id = 4, pd_public_blind_excess = [1], pd_public_nonce = [2],
       pd_part_sig = None, pd_message = None, pd_message_sig = None\<rparr>]\<rparr>"

lemma one_signer_signs: "fst (fill_round_2 the_ext [1] [2] 4 one_signer) = Inr ()"
  by (simp add: fill_round_2_def one_signer_def the_slate_def slate_blank_def check_fees_def the_ext_def verify_part_sigs_def
      verify_part_sig_def is_complete_def pub_nonce_sum_def pub_blind_sum_def msg_to_sign_def Let_def fill_part_sig.simps)

theorem fill_round_2_signs_one_witness:
  "\<exists>s'. fill_round_2 the_ext [1] [2] 4 one_signer = (Inr (), s') \<and>
     length (sl_participant_data s') = 1 \<and> sl_num_participants s' = 1"
  using fill_round_2_signs_one[where E = the_ext and sk = "[1]" and sn = "[2]" and pid = 4 and s = one_signer]
    one_signer_signs
  by (cases "fill_round_2 the_ext [1] [2] 4 one_signer") (auto simp: one_signer_def)

text \<open>A slate that claims more participants than it has entries, none of them the caller,
  makes round 2 panic on an out-of-range index once its checks have passed.\<close>

theorem fill_round_2_short_slate_panics:
  assumes "sl_num_participants s > length (sl_participant_data s)"
    and "\<forall>p \<in> set (sl_participant_data s). pd_id p \<noteq> of_nat pid"
    and "check_fees E s = Inr ()" and "verify_part_sigs E s = Inr ()"
    and "pub_nonce_sum E s = Inr ns" and "pub_blind_sum E s = Inr bs" and "msg_to_sign E s = Inr m"
    and "calculate_partial_sig E sk sn ns bs m = Inr sig"
  shows "fill_round_2 E sk sn pid s = (Inl (Panic ''participant_data[i]''), s)"
  using assms fill_part_sig_panics[of "sl_participant_data s" "sl_num_participants s" 0 pid sig]
  by (simp add: fill_round_2_def)

theorem fill_round_2_short_slate_panics_witness:
  "fst (fill_round_2 the_ext [1] [2] 0 (the_slate\<lparr>sl_amount := 5\<rparr>)) = Inl (Panic ''participant_data[i]'')"
  using fill_round_2_short_slate_panics[of "the_slate\<lparr>sl_amount := 5\<rparr>" 0 the_ext "[]" "[]" "[]" "[1]" "[2]" "[1]"]
  by (simp add: the_slate_def slate_blank_def check_fees_def the_ext_def verify_part_sigs_def
      pub_nonce_sum_def pub_blind_sum_def msg_to_sign_def Let_def)

section \<open>Finalisation\<close>

text \<open>C19. If finalisation succeeds, every participant had signed, the partial signatures and the
  aggregated signature verified, and the new transaction is the old one with the kernel's
  excess and signature set, for which the kernel and the whole transaction validated. If it
  fails the slate is unchanged.\<close>

theorem finalize_sound:
  "case finalize E s of
     (Inl e, s') \<Rightarrow> s' = s
   | (Inr _, s') \<Rightarrow>
       (\<exists>ns pk sig msg ex kern.
          list_all is_complete (sl_participant_data s) \<and> verify_part_sigs E s = Inr () \<and>
          check_fees E s = Inr () \<and>
          pub_nonce_sum E s = Inr ns \<and> pub_blind_sum E s = Inr pk \<and> msg_to_sign E s = Inr msg \<and>
          add_signatures E (map (the \<circ> pd_part_sig) (sl_participant_data s)) ns = Inr sig \<and>
          verify_completed_sig E sig pk msg = Inr () \<and>
          calc_excess E s = Inr ex \<and> b_kernels (tx_body (sl_tx s)) = [kern] \<and>
          s' = s\<lparr>sl_tx := (sl_tx s)\<lparr>tx_body := (tx_body (sl_tx s))
                   \<lparr>b_kernels := [kern\<lparr>k_excess := ex, k_excess_sig := sig\<rparr>]\<rparr>\<rparr>\<rparr> \<and>
          kernel_verify E (kern\<lparr>k_excess := ex, k_excess_sig := sig\<rparr>) = Inr () \<and>
          tx_validate E (sl_tx s') = Inr ())"
proof -
  obtain r s' where run: "finalize E s = (r, s')" by fastforce
  show ?thesis
  proof (cases r)
    case (Inl e)
    then show ?thesis using run by (auto simp: finalize_def finalize_transaction_def split: sum.splits)
  next
    case (Inr u)
    then obtain sig final_tx ex where f: "finalize_signature E s = Inr sig" "check_fees E s = Inr ()"
      "calc_excess E s = Inr ex" "with_kernel ex sig (sl_tx s) = Inr final_tx"
      "kernel_verify E (hd (b_kernels (tx_body final_tx))) = Inr ()" "tx_validate E final_tx = Inr ()"
      "s' = s\<lparr>sl_tx := final_tx\<rparr>"
      using run by (auto simp: finalize_def finalize_transaction_def and_then_eq_Inr split: sum.splits)
    obtain kern where k: "b_kernels (tx_body (sl_tx s)) = [kern]"
      "final_tx = (sl_tx s)\<lparr>tx_body := (tx_body (sl_tx s))
                   \<lparr>b_kernels := [kern\<lparr>k_excess := ex, k_excess_sig := sig\<rparr>]\<rparr>\<rparr>"
      using f(4) by (auto simp: with_kernel_def split: list.splits)
    from f(1) show ?thesis
      using run Inr f(2-) k by (auto simp: finalize_signature_def part_sigs_def and_then_eq_Inr split: if_splits)
  qed
qed

end
