(* ===== verification/Keys.thy ===== *)
theory Keys
  imports Backend
begin

text \<open>
  Accounts and keys, \<open>libwallet/src/internal/keys.rs\<close>, and the derivation of payment-proof
  addresses, \<open>libwallet/src/address.rs\<close>. A derivation path has four entries; writing past
  them panics.
\<close>

section \<open>Addresses\<close>

definition path_set :: "nat \<Rightarrow> u32 \<Rightarrow> ext_path \<Rightarrow> error + ext_path" where
  "path_set i n p = (if i < length (path p) then Inr (p\<lparr>path := (path p)[i := n]\<rparr>)
                     else Inl (Panic ''path[i]''))"

text \<open>The path of address \<open>index\<close> of an account: the second entry is 1, the child comes last.\<close>

definition address_path :: "ext_path \<Rightarrow> u32 \<Rightarrow> error + ext_path" where
  "address_path p index =
     and_then (path_set 1 1 p) (\<lambda>p1.
     (let p2 = p1\<lparr>depth := depth p1 + 1\<rparr> in
      path_set (usize_sub (unat (depth p2)) 1) index p2))"

definition address_from_derivation_path :: "ext \<Rightarrow> Keychain \<Rightarrow> Identifier \<Rightarrow> u32 \<Rightarrow> error + SecretKey" where
  "address_from_derivation_path E k parent_key_id index =
     and_then (address_path (id_to_path E parent_key_id) index) (\<lambda>key_path.
     and_then (derive_key_none E k (id_from_path E key_path)) (\<lambda>sec_key.
     secret_key_from_slice E (blake2b_32 E sec_key)))"

definition ed25519_keypair :: "ext \<Rightarrow> SecretKey \<Rightarrow> SecretKey \<times> DalekPublicKey" where
  "ed25519_keypair E sec_key = (sec_key, dalek_public E sec_key)"

section \<open>Accounts\<close>

definition next_available_key :: "ext \<Rightarrow> SecretKey option \<Rightarrow> Identifier op" where
  "next_available_key E keychain_mask = next_child E keychain_mask"

definition retrieve_existing_key :: "ext \<Rightarrow> Identifier \<Rightarrow> u64 option \<Rightarrow> (Identifier \<times> u32) op" where
  "retrieve_existing_key E key_id mmr_index =
     bindE (get_output E key_id mmr_index) (\<lambda>existing. ret (od_key_id existing, od_n_child existing))"

definition accounts :: "wallet \<Rightarrow> AcctPathMapping list" where
  "accounts w = acct_path_iter w"

definition first_child :: "ext \<Rightarrow> Identifier \<Rightarrow> u32" where
  "first_child E i = path (id_to_path E i) ! 0"

text \<open>\<open>max_by\<close> keeps the last of several greatest elements.\<close>

fun max_by :: "('a \<Rightarrow> 'b::linorder) \<Rightarrow> 'a list \<Rightarrow> 'a option" where
  "max_by f [] = None"
| "max_by f (x # xs) = (case max_by f xs of
     None \<Rightarrow> Some x
   | Some y \<Rightarrow> if f y \<ge> f x then Some y else Some x)"

definition next_acct_id :: "ext \<Rightarrow> AcctPathMapping list \<Rightarrow> Identifier" where
  "next_acct_id E accts = (case max_by (\<lambda>a. first_child E (ap_path a)) accts of
      Some e \<Rightarrow>
        (let p = id_to_path E (ap_path e) in
         id_from_path E (p\<lparr>path := (path p)[0 := path p ! 0 + 1]\<rparr>))
    | None \<Rightarrow> derive_key_id E 2 0 0 0 0)"

definition new_acct_path :: "ext \<Rightarrow> SecretKey option \<Rightarrow> string \<Rightarrow> Identifier op" where
  "new_acct_path E keychain_mask label =
     bindE (gets acct_path_iter) (\<lambda>accts.
     case find (\<lambda>l. ap_label l = label) accts of
       Some _ \<Rightarrow> throw (AccountLabelAlreadyExists label)
     | None \<Rightarrow>
         (let return_id = next_acct_id E accts in
          bindE (batch E keychain_mask) (\<lambda>b.
          bindE (save_acct_path E \<lparr>ap_label = label, ap_path = return_id\<rparr>) (\<lambda>_.
          bindE commit (\<lambda>_. ret return_id)))))"

definition set_acct_path :: "ext \<Rightarrow> SecretKey option \<Rightarrow> string \<Rightarrow> Identifier \<Rightarrow> unit op" where
  "set_acct_path E keychain_mask label acct =
     bindE (batch E keychain_mask) (\<lambda>b.
     bindE (save_acct_path E \<lparr>ap_label = label, ap_path = acct\<rparr>) (\<lambda>_. commit))"

end
