(* ===== verification/Selection.thy ===== *)
theory Selection
  imports Keys SlateModel
begin

text \<open>
  Coin selection, change and the wallet's side of building a transaction,
  \<open>libwallet/src/internal/selection.rs\<close>.

  Amounts are \<open>u64\<close> and wrap; counts are \<open>usize\<close>. The selection only reads the wallet. Its loop
  is given fuel, two more than there are outputs to choose from; \<open>Diverges\<close> is the answer
  when that runs out.
\<close>

section \<open>Selecting coins\<close>

text \<open>The closure of \<open>take_while\<close>: \<open>selected_amount\<close> runs along.\<close>

fun take_until :: "u64 \<Rightarrow> u64 \<Rightarrow> OutputData list \<Rightarrow> OutputData list" where
  "take_until amount selected_amount [] = []"
| "take_until amount selected_amount (out # outs) =
     (if selected_amount < amount then out # take_until amount (selected_amount + od_value out) outs
      else [])"

definition select_from :: "u64 \<Rightarrow> bool \<Rightarrow> OutputData list \<Rightarrow> OutputData list option" where
  "select_from amount select_all outputs =
     (let total = foldl (\<lambda>acc x. acc + od_value x) 0 outputs in
      if total \<ge> amount then
        (if select_all then Some outputs else Some (take_until amount 0 outputs))
      else None)"

fun first_some :: "('a \<Rightarrow> 'b option) \<Rightarrow> 'a list \<Rightarrow> 'b option" where
  "first_some f [] = None"
| "first_some f (x # xs) = (case f x of Some y \<Rightarrow> Some y | None \<Rightarrow> first_some f xs)"

definition eligible_coins :: "wallet \<Rightarrow> u64 \<Rightarrow> u64 \<Rightarrow> Identifier \<Rightarrow> OutputData list" where
  "eligible_coins w current_height minimum_confirmations parent_key_id =
     sort_key od_value (filter (\<lambda>out. od_root_key_id out = parent_key_id
       \<and> eligible_to_spend out current_height minimum_confirmations) (iter w))"

text \<open>\<open>windows(0)\<close> panics; it is reached when there is a coin and \<open>max_outputs\<close> is 0.\<close>

definition select_coins ::
    "wallet \<Rightarrow> u64 \<Rightarrow> u64 \<Rightarrow> u64 \<Rightarrow> nat \<Rightarrow> bool \<Rightarrow> Identifier \<Rightarrow> error + nat \<times> OutputData list" where
  "select_coins w amount current_height minimum_confirmations max_outputs select_all parent_key_id =
     (let eligible = eligible_coins w current_height minimum_confirmations parent_key_id;
          max_available = length eligible;
          fallback = take max_outputs (rev eligible) in
      if max_available > max_outputs then
        (if max_outputs = 0 then Inl (Panic ''windows(0)'')
         else case first_some (select_from amount select_all) (windows max_outputs eligible) of
                Some outputs \<Rightarrow> Inr (max_available, outputs)
              | None \<Rightarrow>
                  (case select_from amount False eligible of
                     Some outputs \<Rightarrow> Inr (max_available, outputs)
                   | None \<Rightarrow> Inr (max_available, fallback)))
      else
        (case select_from amount select_all eligible of
           Some outputs \<Rightarrow> Inr (max_available, outputs)
         | None \<Rightarrow> Inr (max_available, fallback)))"

definition sum_values :: "OutputData list \<Rightarrow> u64" where
  "sum_values coins = sum_list (map od_value coins)"

definition not_enough :: "ext \<Rightarrow> u64 \<Rightarrow> u64 \<Rightarrow> error" where
  "not_enough E available needed =
     NotEnoughFunds available (amount_to_hr_string E available) needed (amount_to_hr_string E needed)"

text \<open>The \<open>while total < amount_with_fee\<close> loop; its variables are the coins, total and fee.\<close>

fun coins_loop ::
    "ext \<Rightarrow> wallet \<Rightarrow> u64 \<Rightarrow> u64 \<Rightarrow> u64 \<Rightarrow> nat \<Rightarrow> nat \<Rightarrow> bool \<Rightarrow> Identifier \<Rightarrow>
     nat \<Rightarrow> OutputData list \<Rightarrow> u64 \<Rightarrow> u64 \<Rightarrow> error + OutputData list \<times> u64 \<times> u64" where
  "coins_loop E w amount h m max_outputs num_outputs use_all parent 0 coins tot fee =
     (if tot < amount + fee then Inl Diverges else Inr (coins, tot, fee))"
| "coins_loop E w amount h m max_outputs num_outputs use_all parent (Suc fuel) coins tot fee =
     (if tot < amount + fee then
        (if length coins = max_outputs then Inl (not_enough E tot (amount + fee))
         else
           and_then (select_coins w (amount + fee) h m max_outputs use_all parent) (\<lambda>(_, coins').
             coins_loop E w amount h m max_outputs num_outputs use_all parent fuel coins'
               (sum_values coins') (tx_fee E (length coins') num_outputs 1)))
      else Inr (coins, tot, fee))"

definition select_coins_and_fee ::
    "ext \<Rightarrow> wallet \<Rightarrow> u64 \<Rightarrow> u64 \<Rightarrow> u64 \<Rightarrow> nat \<Rightarrow> nat \<Rightarrow> bool \<Rightarrow> Identifier \<Rightarrow>
     error + OutputData list \<times> u64 \<times> u64 \<times> u64" where
  "select_coins_and_fee E w amount current_height minimum_confirmations max_outputs change_outputs
       use_all parent_key_id =
     and_then (select_coins w amount current_height minimum_confirmations max_outputs use_all parent_key_id)
       (\<lambda>(max_outputs, coins).
     (let fee = tx_fee E (length coins) 1 1;
          total = sum_values coins;
          amount_with_fee = amount + fee in
      if total = 0 then Inl (not_enough E 0 amount_with_fee)
      else if total < amount_with_fee \<and> length coins = max_outputs
           then Inl (not_enough E total amount_with_fee)
      else
        (let num_outputs = change_outputs + 1 in
         if total \<noteq> amount_with_fee then
           and_then (coins_loop E w amount current_height minimum_confirmations max_outputs num_outputs
                       use_all parent_key_id (length (iter w) + 2) coins total
                       (tx_fee E (length coins) num_outputs 1)) (\<lambda>(coins, total, fee).
           Inr (coins, total, amount, fee))
         else Inr (coins, total, amount, fee))))"

section \<open>Inputs and change\<close>

text \<open>\<open>next_child(..).unwrap()\<close>: an error becomes a panic.\<close>

definition unwrap_op :: "'a op \<Rightarrow> 'a op" where
  "unwrap_op m w = (case m w of
      (Inl _, w') \<Rightarrow> (Inl (Panic ''unwrap''), w')
    | (Inr x, w') \<Rightarrow> (Inr x, w'))"

definition coin_part :: "OutputData \<Rightarrow> build_elem" where
  "coin_part coin = (if od_is_coinbase coin then CoinbaseInput (od_value coin) (od_key_id coin)
                     else InputElem (od_value coin) (od_key_id coin))"

definition change_output ::
    "ext \<Rightarrow> SecretKey option \<Rightarrow> nat \<Rightarrow> u64 \<Rightarrow> u64 \<Rightarrow> nat \<Rightarrow>
     build_elem list \<times> (u64 \<times> Identifier \<times> u64 option) list \<Rightarrow>
     (build_elem list \<times> (u64 \<times> Identifier \<times> u64 option) list) op" where
  "change_output E keychain_mask num_change_outputs part_change remainder_change x acc =
     (let change_amount = (if x = usize_sub num_change_outputs 1 then part_change + remainder_change
                           else part_change) in
      bindE (unwrap_op (next_child E keychain_mask)) (\<lambda>change_key.
      ret (fst acc @ [OutputElem change_amount change_key],
           snd acc @ [(change_amount, change_key, None)])))"

definition inputs_and_change ::
    "ext \<Rightarrow> OutputData list \<Rightarrow> SecretKey option \<Rightarrow> u64 \<Rightarrow> u64 \<Rightarrow> nat \<Rightarrow>
     (build_elem list \<times> (u64 \<times> Identifier \<times> u64 option) list) op" where
  "inputs_and_change E coins keychain_mask amount fee num_change_outputs =
     (let total = sum_values coins;
          change = total - amount - fee;
          parts = map coin_part coins in
      if change = 0 then ret (parts, [])
      else if (of_nat num_change_outputs :: u64) = 0 then throw (Panic ''division by zero'')
      else
        (let part_change = change div of_nat num_change_outputs in
         if part_change = 0 then throw (Panic ''remainder by zero'')
         else
           (let remainder_change = change mod part_change in
            fold_each (change_output E keychain_mask num_change_outputs part_change remainder_change)
              [0..<num_change_outputs] (parts, []))))"

definition select_send_tx ::
    "ext \<Rightarrow> SecretKey option \<Rightarrow> u64 \<Rightarrow> u64 \<Rightarrow> u64 \<Rightarrow> nat \<Rightarrow> nat \<Rightarrow> bool \<Rightarrow> Identifier \<Rightarrow>
     (build_elem list \<times> OutputData list \<times> (u64 \<times> Identifier \<times> u64 option) list \<times> u64) op" where
  "select_send_tx E keychain_mask amount current_height minimum_confirmations max_outputs change_outputs
       use_all parent_key_id =
     bindE (gets (\<lambda>w. select_coins_and_fee E w amount current_height minimum_confirmations max_outputs
                        change_outputs use_all parent_key_id)) (\<lambda>r.
     bindE (liftE r) (\<lambda>(coins, total, amount, fee).
     bindE (inputs_and_change E coins keychain_mask amount fee change_outputs) (\<lambda>(parts, derivations).
     ret (parts, coins, derivations, fee))))"


section \<open>Building the transaction\<close>

text \<open>A method of the slate inside a wallet operation; an error abandons the caller's slate.\<close>

definition on_slate :: "(Slate, error, 'a) proc \<Rightarrow> Slate \<Rightarrow> ('a \<times> Slate) op" where
  "on_slate m s w = (case m s of
      (Inl e, _) \<Rightarrow> (Inl e, w)
    | (Inr x, s') \<Rightarrow> (Inr (x, s'), w))"

definition unwrap_key :: "error + SecretKey \<Rightarrow> error + SecretKey" where
  "unwrap_key r = (case r of Inl _ \<Rightarrow> Inl (Panic ''secret_key'') | Inr k \<Rightarrow> Inr k)"

definition build_send_tx ::
    "ext \<Rightarrow> Keychain \<Rightarrow> SecretKey option \<Rightarrow> Slate \<Rightarrow> u64 \<Rightarrow> nat \<Rightarrow> nat \<Rightarrow> bool \<Rightarrow> Identifier \<Rightarrow> bool \<Rightarrow>
     (Context \<times> Slate) op" where
  "build_send_tx E k keychain_mask slate minimum_confirmations max_outputs change_outputs use_all
       parent_key_id use_test_nonce =
     bindE (select_send_tx E keychain_mask (sl_amount slate) (sl_height slate) minimum_confirmations
              max_outputs change_outputs use_all parent_key_id) (\<lambda>(elems, inputs, derivations, fee).
     bindE (on_slate (add_transaction_elements E k elems) (slate\<lparr>sl_fee := fee\<rparr>)) (\<lambda>(blinding, slate).
     bindE (liftE (unwrap_key (blinding_secret_key E blinding))) (\<lambda>sec_key.
     (let context0 = (context_new (create_secnonce E) sec_key parent_key_id use_test_nonce 0)\<lparr>cx_fee := fee\<rparr>;
          context1 = foldl (\<lambda>cx input. context_add_input (od_key_id input) (od_mmr_index input) (od_value input) cx)
                       context0 inputs in
      bindE (fold_each (\<lambda>(change_amount, i, mmr_index) cx.
               bindE (calc_commit_for_cache E keychain_mask change_amount i) (\<lambda>_.
               ret (context_add_output i mmr_index change_amount cx))) derivations context1) (\<lambda>cx.
      ret (cx, slate))))))"

section \<open>Locking a context\<close>

text \<open>The cached commitments of the change outputs, by key id, with the amounts.\<close>

definition cache_commit ::
    "ext \<Rightarrow> SecretKey option \<Rightarrow> Identifier \<times> u64 option \<times> u64 \<Rightarrow>
     (Identifier \<rightharpoonup> string option \<times> u64) \<Rightarrow> (Identifier \<rightharpoonup> string option \<times> u64) op" where
  "cache_commit E keychain_mask out commits = (case out of (i, _, change_amount) \<Rightarrow>
     bindE (calc_commit_for_cache E keychain_mask change_amount i) (\<lambda>c.
     ret (commits(i \<mapsto> (c, change_amount)))))"

definition output_commits ::
    "ext \<Rightarrow> SecretKey option \<Rightarrow> (Identifier \<times> u64 option \<times> u64) list \<Rightarrow>
     (Identifier \<rightharpoonup> string option \<times> u64) op" where
  "output_commits E keychain_mask outs = fold_each (cache_commit E keychain_mask) outs Map.empty"

text \<open>One input: look the coin up, tie it to the log entry and lock it.\<close>

definition lock_input :: "ext \<Rightarrow> u32 \<Rightarrow> Identifier \<times> u64 option \<times> u64 \<Rightarrow> u64 \<Rightarrow> u64 op" where
  "lock_input E log_id inp amount_debited = (case inp of (i, mmr_index, _) \<Rightarrow>
     bindE (unwrap_op (batch_get E i mmr_index)) (\<lambda>coin.
     bindE (lock_output E (coin\<lparr>od_tx_log_entry := Some log_id\<rparr>)) (\<lambda>_.
     ret (amount_debited + od_value coin))))"

definition new_output ::
    "ext \<Rightarrow> Identifier \<Rightarrow> Identifier \<Rightarrow> string option \<Rightarrow> u64 \<Rightarrow> u64 \<Rightarrow> u32 \<Rightarrow> OutputData" where
  "new_output E parent_key_id i c amount h log_id =
     \<lparr>od_root_key_id = parent_key_id, od_key_id = i, od_n_child = id_last_path_index E i,
      od_commit = c, od_mmr_index = None, od_value = amount, od_status = Unconfirmed, od_height = h,
      od_lock_height = 0, od_is_coinbase = False, od_tx_log_entry = Some log_id\<rparr>"

definition save_change ::
    "ext \<Rightarrow> (Identifier \<rightharpoonup> string option \<times> u64) \<Rightarrow> Identifier \<Rightarrow> u64 \<Rightarrow> u32 \<Rightarrow>
     Identifier \<times> u64 option \<times> u64 \<Rightarrow> TxLogEntry \<Rightarrow> TxLogEntry op" where
  "save_change E commits parent_key_id h log_id out t = (case out of (i, _, _) \<Rightarrow>
     (case commits i of
        None \<Rightarrow> throw (Panic ''output_commits'')
      | Some (c, change_amount) \<Rightarrow>
          bindE (save E (new_output E parent_key_id i c change_amount h log_id)) (\<lambda>_.
          ret (t\<lparr>tl_num_outputs := tl_num_outputs t + 1,
                 tl_amount_credited := tl_amount_credited t + change_amount\<rparr>))))"

definition sender_proof_info ::
    "ext \<Rightarrow> Keychain \<Rightarrow> Identifier \<Rightarrow> Context \<Rightarrow> PaymentInfo option \<Rightarrow> error + StoredProofInfo option" where
  "sender_proof_info E k parent_key_id context payment_proof = (case payment_proof of
      None \<Rightarrow> Inr None
    | Some p \<Rightarrow>
        (case cx_payment_proof_derivation_index context of
           None \<Rightarrow> Inl (PaymentProofError ''Payment proof derivation index required'')
         | Some sender_address_path \<Rightarrow>
             and_then (address_from_derivation_path E k parent_key_id sender_address_path) (\<lambda>sender_key.
             Inr (Some \<lparr>sp_receiver_address = pi_receiver_address p,
                        sp_receiver_signature = pi_receiver_signature p,
                        sp_sender_address_path = sender_address_path,
                        sp_sender_address = snd (ed25519_keypair E sender_key),
                        sp_sender_signature = None\<rparr>))))"

definition excess_of :: "ext \<Rightarrow> Slate \<Rightarrow> Commitment option" where
  "excess_of E slate = (case calc_excess E slate of Inr e \<Rightarrow> Some e | Inl _ \<Rightarrow> None)"

definition sent_entry :: "ext \<Rightarrow> Slate \<Rightarrow> Identifier \<Rightarrow> u32 \<Rightarrow> TxLogEntry" where
  "sent_entry E slate parent_key_id log_id =
     (tx_log_entry_new (utc_now E) parent_key_id TxSentCreated log_id)
       \<lparr>tl_tx_slate_id := Some (sl_id slate),
        tl_stored_tx := Some (tx_filename (uuid_string E (sl_id slate))),
        tl_fee := Some (sl_fee slate), tl_ttl_cutoff_height := sl_ttl_cutoff_height slate,
        tl_kernel_excess := excess_of E slate, tl_kernel_lookup_min_height := Some (sl_height slate)\<rparr>"

definition lock_tx_context ::
    "ext \<Rightarrow> SecretKey option \<Rightarrow> Slate \<Rightarrow> Context \<Rightarrow> string option \<Rightarrow> unit op" where
  "lock_tx_context E keychain_mask slate context addr_to =
     (let parent_key_id = cx_parent_key_id context in
      bindE (output_commits E keychain_mask (cx_output_ids context)) (\<lambda>commits.
      bindE (keychain E keychain_mask) (\<lambda>k.
      bindE (batch E keychain_mask) (\<lambda>b.
      bindE (next_tx_log_id E parent_key_id) (\<lambda>log_id.
      bindE (fold_each (lock_input E log_id) (cx_input_ids context) 0) (\<lambda>amount_debited.
      bindE (liftE (sender_proof_info E k parent_key_id context (sl_payment_proof slate))) (\<lambda>proof.
      bindE (fold_each (save_change E commits parent_key_id (sl_height slate) log_id) (cx_output_ids context)
               ((sent_entry E slate parent_key_id log_id)
                  \<lparr>tl_num_inputs := length (cx_input_ids context), tl_amount_debited := amount_debited,
                   tl_messages := Some (participant_messages slate), tl_public_addr := addr_to,
                   tl_payment_proof := proof\<rparr>)) (\<lambda>t.
      bindE (save_tx_log_entry E t parent_key_id) (\<lambda>_.
      bindE commit (\<lambda>_.
      store_tx E (uuid_string E (sl_id slate)) (sl_tx slate)))))))))))"

section \<open>The recipient's output\<close>

definition received_entry :: "ext \<Rightarrow> Slate \<Rightarrow> Identifier \<Rightarrow> u32 \<Rightarrow> TxLogEntry" where
  "received_entry E slate parent_key_id log_id =
     (tx_log_entry_new (utc_now E) parent_key_id TxReceived log_id)
       \<lparr>tl_tx_slate_id := Some (sl_id slate), tl_amount_credited := sl_amount slate,
        tl_num_outputs := 1, tl_messages := Some (participant_messages slate),
        tl_ttl_cutoff_height := sl_ttl_cutoff_height slate,
        tl_kernel_excess := excess_of E slate, tl_kernel_lookup_min_height := Some (sl_height slate)\<rparr>"

definition build_recipient_output ::
    "ext \<Rightarrow> SecretKey option \<Rightarrow> Slate \<Rightarrow> Identifier \<Rightarrow> bool \<Rightarrow> (Identifier \<times> Context \<times> Slate) op" where
  "build_recipient_output E keychain_mask slate parent_key_id use_test_rng =
     bindE (unwrap_op (next_available_key E keychain_mask)) (\<lambda>key_id.
     bindE (keychain E keychain_mask) (\<lambda>k.
     bindE (on_slate (add_transaction_elements E k [OutputElem (sl_amount slate) key_id]) slate) (\<lambda>(blinding, slate).
     bindE (keychain E keychain_mask) (\<lambda>_.
     bindE (liftE (unwrap_key (blinding_secret_key E blinding))) (\<lambda>sec_key.
     (let context = context_add_output key_id None (sl_amount slate)
            (context_new (create_secnonce E) sec_key parent_key_id use_test_rng 1) in
      bindE (calc_commit_for_cache E keychain_mask (sl_amount slate) key_id) (\<lambda>c.
      bindE (batch E keychain_mask) (\<lambda>b.
      bindE (next_tx_log_id E parent_key_id) (\<lambda>log_id.
      bindE (save E (new_output E parent_key_id key_id c (sl_amount slate) (sl_height slate) log_id)) (\<lambda>_.
      bindE (save_tx_log_entry E (received_entry E slate parent_key_id log_id) parent_key_id) (\<lambda>_.
      bindE commit (\<lambda>_.
      ret (key_id, context, slate)))))))))))))"

end
