(* ===== verification/SelectionProps.thy ===== *)
theory SelectionProps
  imports Selection BackendProps SlateProps
begin

text \<open>
  What coin selection guarantees: the coins are spendable outputs of the account that cover
  amount and fee, the loop stops, \<open>NotEnoughFunds\<close> means what it says; what the change
  outputs add up to; and what locking a context does to the wallet.
\<close>

section \<open>Choosing from a list\<close>

lemma foldl_values: "foldl (\<lambda>acc x. acc + od_value x) a xs = a + sum_values xs"
  by (induction xs arbitrary: a) (simp_all add: sum_values_def add.assoc)

lemma sum_values_simps [simp]: "sum_values [] = 0" "sum_values (x # xs) = od_value x + sum_values xs"
  by (simp_all add: sum_values_def)

lemma sum_values_mset: "mset xs = mset ys \<Longrightarrow> sum_values xs = sum_values ys"
  unfolding sum_values_def by (metis mset_map sum_mset_sum_list)

lemma take_until_prefix: "\<exists>n \<le> length xs. take_until a s xs = take n xs"
proof (induction a s xs rule: take_until.induct)
  case (2 a s x xs)
  show ?case
  proof (cases "s < a")
    case True
    then obtain n where "n \<le> length xs" "take_until a (s + od_value x) xs = take n xs" using 2 by blast
    then show ?thesis using True by (intro exI[of _ "Suc n"]) simp
  qed (intro exI[of _ 0], simp)
qed simp

lemma take_until_covers: "a \<le> s + sum_values xs \<Longrightarrow> a \<le> s + sum_values (take_until a s xs)"
  by (induction a s xs rule: take_until.induct) (auto simp: add.assoc)

lemma select_from_Some:
  assumes "select_from a all xs = Some ys"
  shows "mset ys \<subseteq># mset xs" "a \<le> sum_values ys"
proof -
  have a: "a \<le> sum_values xs" using assms by (auto simp: select_from_def foldl_values Let_def split: if_splits)
  obtain n where n: "take_until a 0 xs = take n xs" using take_until_prefix by blast
  have ys: "ys = xs \<or> ys = take_until a 0 xs"
    using assms by (auto simp: select_from_def Let_def split: if_splits)
  then show "mset ys \<subseteq># mset xs" by (auto simp: n mset_take_subseteq)
  show "a \<le> sum_values ys" using ys a take_until_covers[of a 0 xs] by auto
qed

lemma select_from_None: "select_from a all xs = None \<longleftrightarrow> sum_values xs < a"
  by (auto simp: select_from_def foldl_values Let_def not_le)

lemma first_some_Some: "first_some f xs = Some y \<Longrightarrow> \<exists>x \<in> set xs. f x = Some y"
  by (induction xs) (auto split: option.splits)

section \<open>One selection\<close>

lemma set_eligible:
  "set (eligible_coins w h m parent) =
     {out \<in> set (iter w). od_root_key_id out = parent \<and> eligible_to_spend out h m}"
  by (auto simp: eligible_coins_def)

lemma mset_eligible: "mset (eligible_coins w h m parent) \<subseteq># mset (iter w)"
  by (simp add: eligible_coins_def multiset_filter_subset)

lemma length_eligible: "length (eligible_coins w h m parent) \<le> length (iter w)"
  by (simp add: eligible_coins_def)

lemma select_coins_ok:
  assumes "select_coins w a h m mx all parent = Inr (n, coins)"
  shows "n = length (eligible_coins w h m parent)" "mset coins \<subseteq># mset (eligible_coins w h m parent)"
    "a \<le> sum_values coins \<or>
     sum_values (eligible_coins w h m parent) < a \<and> coins = take mx (rev (eligible_coins w h m parent))"
proof -
  let ?el = "eligible_coins w h m parent"
  show "n = length ?el"
    using assms by (auto simp: select_coins_def Let_def split: if_splits option.splits)
  have cases: "(\<exists>win \<in> set (windows mx ?el). select_from a all win = Some coins) \<or>
      (\<exists>b. select_from a b ?el = Some coins) \<or>
      sum_values ?el < a \<and> coins = take mx (rev ?el)"
    using assms
    by (auto simp: select_coins_def Let_def select_from_None split: if_splits option.splits
        dest!: first_some_Some)
  have "mset (take mx (rev ?el)) \<subseteq># mset ?el" by (metis mset_rev mset_take_subseteq)
  then show "mset coins \<subseteq># mset ?el"
    using cases by (meson select_from_Some(1) subset_mset.order_trans windows_mset)
  show "a \<le> sum_values coins \<or> sum_values ?el < a \<and> coins = take mx (rev ?el)"
    using cases by (meson select_from_Some(2))
qed

lemma select_coins_total:
  "0 < mx \<Longrightarrow> \<exists>n coins. select_coins w a h m mx all parent = Inr (n, coins)"
  "length (eligible_coins w h m parent) \<le> mx \<Longrightarrow> \<exists>n coins. select_coins w a h m mx all parent = Inr (n, coins)"
  by (auto simp: select_coins_def Let_def split: option.splits)

section \<open>The loop\<close>

lemma coins_loop_sound:
  assumes "coins_loop E w amount h m (length (eligible_coins w h m parent)) k all parent fuel coins tot fee
             = Inr (coins', tot', fee')"
    and "tot = sum_values coins" "mset coins \<subseteq># mset (eligible_coins w h m parent)" "fee = tx_fee E (length coins) k 1"
  shows "tot' = sum_values coins' \<and> amount + fee' \<le> tot' \<and> mset coins' \<subseteq># mset (eligible_coins w h m parent) \<and>
     fee' = tx_fee E (length coins') k 1"
  using assms
proof (induction fuel arbitrary: coins tot fee)
  case 0
  then show ?case by (auto simp: not_less split: if_splits)
next
  case (Suc fuel)
  show ?case
  proof (cases "tot < amount + fee")
    case False
    then have "Inr (coins, tot, fee) = (Inr (coins', tot', fee') :: error + _)" using Suc.prems(1) by simp
    then show ?thesis using Suc.prems(2-) False by (auto simp: not_less)
  next
    case True
    then obtain n c where c: "select_coins w (amount + fee) h m (length (eligible_coins w h m parent)) all parent = Inr (n, c)"
      "coins_loop E w amount h m (length (eligible_coins w h m parent)) k all parent fuel c (sum_values c)
         (tx_fee E (length c) k 1) = Inr (coins', tot', fee')"
      using Suc.prems(1) by (auto simp: and_then_eq_Inr split: if_splits)
    show ?thesis by (rule Suc.IH[OF c(2) refl select_coins_ok(2)[OF c(1)] refl])
  qed
qed

text \<open>Sums of values as natural numbers, when the wallet holds less than \<open>2 ^ 64\<close>.\<close>

definition nat_values :: "OutputData list \<Rightarrow> nat" where
  "nat_values xs = sum_list (map (unat \<circ> od_value) xs)"

lemma unat_sum_values: "nat_values xs < 2 ^ 64 \<Longrightarrow> unat (sum_values xs) = nat_values xs"
  using unat_sum_list[of "map od_value xs"] by (simp add: sum_values_def nat_values_def)

lemma nat_values_le: "mset xs \<subseteq># mset ys \<Longrightarrow> nat_values xs \<le> nat_values ys"
  unfolding nat_values_def by (rule sum_list_mset_le)

lemma nat_values_mset: "mset xs = mset ys \<Longrightarrow> nat_values xs = nat_values ys"
  by (simp add: antisym nat_values_le)

lemma nat_values_take_mono: "n \<le> n' \<Longrightarrow> nat_values (take n xs) \<le> nat_values (take n' xs)"
  by (metis mset_take_subseteq min.absorb1 nat_values_le take_take)

lemma nat_values_eligible: "nat_values (iter w) < 2 ^ 64 \<Longrightarrow> mset xs \<subseteq># mset (eligible_coins w h m parent) \<Longrightarrow> nat_values xs < 2 ^ 64"
  by (meson le_less_trans mset_eligible nat_values_le subset_mset.order_trans)

lemma coins_loop_full:
  "length coins = mx \<Longrightarrow> coins_loop E w amount h m mx k all parent (Suc fuel) coins tot fee \<noteq> Inl Diverges"
  by (simp add: not_enough_def)

text \<open>From a prefix of the sorted coins, every turn takes a longer prefix.\<close>

lemma coins_loop_returns:
  assumes "nat_values (iter w) < 2 ^ 64" and "n \<le> length (eligible_coins w h m parent)"
    and "length (eligible_coins w h m parent) - n < fuel"
  shows "coins_loop E w amount h m (length (eligible_coins w h m parent)) k all parent fuel
     (take n (eligible_coins w h m parent)) (sum_values (take n (eligible_coins w h m parent))) fee \<noteq> Inl Diverges"
  using assms(2,3)
proof (induction fuel arbitrary: n fee)
  case 0
  then show ?case by simp
next
  case (Suc fuel)
  let ?el = "eligible_coins w h m parent" and ?a = "amount + fee"
  show ?case
  proof (cases "sum_values (take n ?el) < ?a \<and> n \<noteq> length ?el")
    case False
    show ?thesis
    proof (cases "n = length ?el")
      case True
      then show ?thesis by (intro coins_loop_full) simp
    next
      case n: False
      then have "\<not> sum_values (take n ?el) < ?a" using False by blast
      then show ?thesis unfolding coins_loop.simps by (subst if_not_P) simp_all
    qed
  next
    case True
    obtain l c where c: "select_coins w ?a h m (length ?el) all parent = Inr (l, c)"
      using select_coins_total(2)[of w h m parent "length ?el" ?a all, OF order.refl] by blast
    have step: "coins_loop E w amount h m (length ?el) k all parent (Suc fuel) (take n ?el) (sum_values (take n ?el)) fee
        = coins_loop E w amount h m (length ?el) k all parent fuel c (sum_values c) (tx_fee E (length c) k 1)"
      using True Suc.prems(1) c by simp
    have fuel: "fuel > 0" using Suc.prems True by linarith
    have "c = ?el \<or> length c = length ?el \<or> c = take_until ?a 0 ?el"
      using c by (auto simp: select_coins_def Let_def select_from_def split: if_splits option.splits)
    then consider "length c = length ?el" | n' where "c = take n' ?el" "n' \<le> length ?el"
      using take_until_prefix[of ?el ?a 0] by auto
    then show ?thesis
    proof cases
      case 1
      then show ?thesis unfolding step using coins_loop_full fuel by (metis Suc_pred')
    next
      case 2
      have "n < n' \<or> length c = length ?el"
      proof (rule ccontr)
        assume no: "\<not> (n < n' \<or> length c = length ?el)"
        then have "nat_values c \<le> nat_values (take n ?el)" using 2 nat_values_take_mono by simp
        moreover have "nat_values c < 2 ^ 64" "nat_values (take n ?el) < 2 ^ 64"
          by (rule nat_values_eligible[OF assms(1), of _ h m parent], simp add: 2 mset_take_subseteq)+
        ultimately have "sum_values c \<le> sum_values (take n ?el)"
          by (simp add: word_le_nat_alt unat_sum_values)
        moreover have "?a \<le> sum_values c"
          using select_coins_ok(3)[OF c] no by auto
        ultimately show False using True by (meson leD order.trans)
      qed
      then show ?thesis
      proof
        assume "n < n'"
        then show ?thesis unfolding step using 2 Suc.prems(2) Suc.IH[of n'] by simp
      next
        assume "length c = length ?el"
        then show ?thesis unfolding step using coins_loop_full fuel by (metis Suc_pred')
      qed
    qed
  qed
qed


section \<open>Coins and fee\<close>

lemma nat_values_take_rev:
  assumes "sum_values (take mx (rev (sort_key od_value xs))) = 0" "0 < mx" "nat_values xs < 2 ^ 64"
  shows "sum_values (sort_key od_value xs) = 0"
proof (cases "xs = []")
  case False
  let ?s = "sort_key od_value xs"
  have s: "mset ?s = mset xs" by simp
  obtain ys y where ys: "?s = ys @ [y]" using False s by (metis mset_zero_iff_right rev_exhaust)
  have "y \<in> set (take mx (rev ?s))" using assms(2) ys by (cases mx) simp_all
  moreover have "mset (take mx (rev ?s)) \<subseteq># mset xs" using s by (metis mset_rev mset_take_subseteq)
  then have "nat_values (take mx (rev ?s)) = 0"
    using assms(1,3) unat_sum_values[of "take mx (rev ?s)"] nat_values_le le_less_trans by force
  ultimately have "od_value y = 0" by (auto simp: nat_values_def unat_eq_0)
  moreover have "\<forall>x \<in> set ?s. od_value x \<le> od_value y"
    using sorted_sort_key[of od_value xs] unfolding ys by (auto simp: sorted_append)
  ultimately have "\<forall>x \<in> set ?s. od_value x = 0" by simp
  moreover have "\<forall>x \<in> set zs. od_value x = 0 \<Longrightarrow> sum_values zs = 0" for zs by (induction zs) simp_all
  ultimately show ?thesis by blast
qed simp

lemma sum_all_coins:
  assumes "mset coins \<subseteq># mset xs" "length coins = length xs"
  shows "sum_values coins = sum_values xs"
proof -
  have "mset coins = mset xs"
    using assms by (metis mset_subset_size size_mset subset_mset.less_le less_irrefl)
  then show ?thesis by (rule sum_values_mset)
qed

lemma coins_loop_not_enough:
  assumes "coins_loop E w amount h m (length (eligible_coins w h m parent)) k all parent fuel coins tot fee = Inl e"
    and "tot = sum_values coins" "mset coins \<subseteq># mset (eligible_coins w h m parent)" "\<exists>i. fee = tx_fee E i k 1"
    and "e \<noteq> Diverges"
  shows "\<exists>i. e = not_enough E (sum_values (eligible_coins w h m parent)) (amount + tx_fee E i k 1) \<and>
     sum_values (eligible_coins w h m parent) < amount + tx_fee E i k 1"
  using assms
proof (induction fuel arbitrary: coins tot fee)
  case 0
  then show ?case by (auto split: if_splits)
next
  case (Suc fuel)
  let ?el = "eligible_coins w h m parent"
  have less: "tot < amount + fee" using Suc.prems(1) by (auto split: if_splits)
  show ?case
  proof (cases "length coins = length ?el")
    case True
    then show ?thesis using Suc.prems less sum_all_coins[OF Suc.prems(3) True] by auto
  next
    case False
    obtain l c where c: "select_coins w (amount + fee) h m (length ?el) all parent = Inr (l, c)"
      using select_coins_total(2)[of w h m parent "length ?el" "amount + fee" all, OF order.refl] by blast
    have "coins_loop E w amount h m (length ?el) k all parent fuel c (sum_values c) (tx_fee E (length c) k 1) = Inl e"
      using Suc.prems(1) less False c by simp
    then show ?thesis
      by (rule Suc.IH[OF _ refl select_coins_ok(2)[OF c] _ Suc.prems(5)]) blast
  qed
qed

text \<open>The loop as it is entered: whatever the first coins were, it returns.\<close>

lemma coins_loop_enters:
  assumes "nat_values (iter w) < 2 ^ 64" "length (eligible_coins w h m parent) \<le> len"
  shows "coins_loop E w amount h m (length (eligible_coins w h m parent)) k all parent (len + 2) coins tot fee \<noteq> Inl Diverges"
proof (cases "tot < amount + fee \<and> length coins \<noteq> length (eligible_coins w h m parent)")
  case False
  then show ?thesis by (auto simp: not_enough_def)
next
  case True
  let ?el = "eligible_coins w h m parent"
  obtain l c where c: "select_coins w (amount + fee) h m (length ?el) all parent = Inr (l, c)"
    using select_coins_total(2)[of w h m parent "length ?el" "amount + fee" all, OF order.refl] by blast
  have step: "coins_loop E w amount h m (length ?el) k all parent (len + 2) coins tot fee
      = coins_loop E w amount h m (length ?el) k all parent (Suc len) c (sum_values c) (tx_fee E (length c) k 1)"
    using True c by (simp add: numeral_2_eq_2)
  have "c = ?el \<or> length c = length ?el \<or> c = take_until (amount + fee) 0 ?el"
    using c by (auto simp: select_coins_def Let_def select_from_def split: if_splits option.splits)
  then consider "length c = length ?el" | n' where "c = take n' ?el" "n' \<le> length ?el"
    using take_until_prefix[of ?el "amount + fee" 0] by auto
  then show ?thesis
  proof cases
    case 1
    then show ?thesis unfolding step by (rule coins_loop_full)
  next
    case 2
    have "length ?el - n' < Suc len" using assms(2) by simp
    then show ?thesis unfolding step 2(1) by (intro coins_loop_returns[OF assms(1) 2(2)])
  qed
qed

lemma select_fee_run:
  assumes "select_coins w amount h m mx all parent = Inr (n, coins)"
  shows "select_coins_and_fee E w amount h m mx change all parent =
     (if sum_values coins = 0 then Inl (not_enough E 0 (amount + tx_fee E (length coins) 1 1))
      else if sum_values coins < amount + tx_fee E (length coins) 1 1 \<and> length coins = n
        then Inl (not_enough E (sum_values coins) (amount + tx_fee E (length coins) 1 1))
      else if sum_values coins \<noteq> amount + tx_fee E (length coins) 1 1
        then and_then (coins_loop E w amount h m n (change + 1) all parent (length (iter w) + 2) coins (sum_values coins)
               (tx_fee E (length coins) (change + 1) 1)) (\<lambda>(coins, total, fee). Inr (coins, total, amount, fee))
      else Inr (coins, sum_values coins, amount, tx_fee E (length coins) 1 1))"
  unfolding select_coins_and_fee_def assms and_then_simps Let_def prod.case ..

lemma eligible_part:
  assumes "wallet_ok E w" and "nat_values (iter w) < 2 ^ 64" and "mset cs \<subseteq># mset (eligible_coins w h m parent)"
  shows "set cs \<subseteq> set (iter w)" "distinct cs" "\<forall>c \<in> set cs. od_root_key_id c = parent \<and> eligible_to_spend c h m"
    "unat (sum_values cs) = nat_values cs"
proof -
  have "distinct (iter w)" using iter_distinct_keys[OF assms(1)] by (simp add: distinct_map)
  then show "distinct cs" using assms(3) mset_eligible mset_subseteq_distinct subset_mset.order_trans by metis
  have "set cs \<subseteq> set (eligible_coins w h m parent)" using assms(3) by (rule mset_subseteq_set)
  then show "set cs \<subseteq> set (iter w)" "\<forall>c \<in> set cs. od_root_key_id c = parent \<and> eligible_to_spend c h m"
    by (auto simp: set_eligible)
  show "unat (sum_values cs) = nat_values cs" by (rule unat_sum_values, rule nat_values_eligible[OF assms(2,3)])
qed

text \<open>Nothing is selected only when nothing is eligible.\<close>

lemma nothing_selected:
  assumes "select_coins w amount h m mx all parent = Inr (n, coins)" and "sum_values coins = 0"
    and "0 < amount" and "0 < mx" and "nat_values (eligible_coins w h m parent) < 2 ^ 64"
  shows "sum_values (eligible_coins w h m parent) = 0"
proof -
  let ?el = "eligible_coins w h m parent"
  have "\<not> amount \<le> sum_values coins" using assms(2,3) by simp
  then have coins: "coins = take mx (rev ?el)" using select_coins_ok(3)[OF assms(1)] by blast
  let ?fl = "filter (\<lambda>out. od_root_key_id out = parent \<and> eligible_to_spend out h m) (iter w)"
  have el: "?el = sort_key od_value ?fl" by (simp add: eligible_coins_def)
  have "nat_values ?fl = nat_values ?el" by (rule nat_values_mset) (simp add: el)
  then show ?thesis
    unfolding el using nat_values_take_rev[of mx ?fl] assms(2,4,5) coins el by simp
qed

text \<open>What the loop returns when it is entered with a part of the eligible outputs.\<close>

lemma loop_result:
  fixes num :: nat
  assumes "wallet_ok E w" and "nat_values (iter w) < 2 ^ 64" and "select_coins w amount h m mx all parent = Inr (n, coins)"
  defines "loop \<equiv> coins_loop E w amount h m n num all parent (length (iter w) + 2) coins (sum_values coins) (tx_fee E (length coins) num 1)"
  shows "loop = Inr (cs, t, f) \<Longrightarrow> t = sum_values cs \<and> amount + f \<le> t \<and> f = tx_fee E (length cs) num 1 \<and>
      mset cs \<subseteq># mset (eligible_coins w h m parent)"
    and "loop = Inl e \<Longrightarrow> \<exists>i k. e = not_enough E (sum_values (eligible_coins w h m parent)) (amount + tx_fee E i k 1) \<and>
      sum_values (eligible_coins w h m parent) < amount + tx_fee E i k 1"
proof -
  have n: "n = length (eligible_coins w h m parent)" using select_coins_ok(1)[OF assms(3)] by simp
  note sub = select_coins_ok(2)[OF assms(3)]
  show "t = sum_values cs \<and> amount + f \<le> t \<and> f = tx_fee E (length cs) num 1 \<and>
      mset cs \<subseteq># mset (eligible_coins w h m parent)" if "loop = Inr (cs, t, f)"
    using coins_loop_sound[OF that[unfolded loop_def n] refl sub refl] by auto
  show "\<exists>i k. e = not_enough E (sum_values (eligible_coins w h m parent)) (amount + tx_fee E i k 1) \<and>
      sum_values (eligible_coins w h m parent) < amount + tx_fee E i k 1" if "loop = Inl e"
  proof -
    have "e \<noteq> Diverges" using that[unfolded loop_def n] coins_loop_enters[OF assms(2) length_eligible] by metis
    then show ?thesis using coins_loop_not_enough[OF that[unfolded loop_def n] refl sub] by auto
  qed
qed

text \<open>C9. \<open>select_coins_and_fee\<close> always returns, for a positive amount and \<open>max_outputs\<close> and a wallet
  that holds less than \<open>2 ^ 64\<close>. Either it selects coins: distinct outputs of the account, all
  eligible, whose values add up to the reported total and cover the amount and the fee of
  that many inputs. Or the answer is \<open>NotEnoughFunds\<close>, it reports what all eligible
  outputs together are worth, and that is less than what is needed.\<close>

theorem select_coins_and_fee_sound:
  assumes "wallet_ok E w" and "nat_values (iter w) < 2 ^ 64" and "0 < amount" and "0 < mx"
    and "\<And>i k. unat amount + unat (tx_fee E i k 1) < 2 ^ 64"
  shows "case select_coins_and_fee E w amount h m mx change all parent of
      Inr (coins, tot, amount', fee) \<Rightarrow>
        set coins \<subseteq> set (iter w) \<and> distinct coins \<and>
        (\<forall>c \<in> set coins. od_root_key_id c = parent \<and> eligible_to_spend c h m) \<and>
        unat tot = nat_values coins \<and> amount' = amount \<and> unat amount + unat fee \<le> unat tot \<and>
        (fee = tx_fee E (length coins) 1 1 \<and> unat tot = unat amount + unat fee \<or>
         fee = tx_fee E (length coins) (change + 1) 1)
    | Inl e \<Rightarrow>
        (\<exists>i k. e = not_enough E (sum_values (eligible_coins w h m parent)) (amount + tx_fee E i k 1) \<and>
           nat_values (eligible_coins w h m parent) < unat amount + unat (tx_fee E i k 1))"
proof -
  let ?el = "eligible_coins w h m parent"
  have nat_el: "nat_values ?el < 2 ^ 64" by (rule nat_values_eligible[OF assms(2), of _ h m parent]) simp
  have add: "unat (amount + tx_fee E i k 1) = unat amount + unat (tx_fee E i k 1)" for i k
    using assms(5)[of i k] by (intro unat_add_exact) simp
  have short: "sum_values ?el < amount + tx_fee E i k 1 \<longleftrightarrow> nat_values ?el < unat amount + unat (tx_fee E i k 1)" for i k
    by (simp only: word_less_nat_alt unat_sum_values[OF nat_el] add)
  obtain coins where c: "select_coins w amount h m mx all parent = Inr (length ?el, coins)"
    using select_coins_total(1)[OF assms(4), of w amount h m all parent] select_coins_ok(1) by metis
  note sub = select_coins_ok(2)[OF c] and good = eligible_part[OF assms(1,2)] and run = select_fee_run[OF c, of E change]
  let ?f = "tx_fee E (length coins) 1 1"
  let ?loop = "coins_loop E w amount h m (length ?el) (change + 1) all parent (length (iter w) + 2) coins (sum_values coins)
    (tx_fee E (length coins) (change + 1) 1)"
  consider "sum_values coins = 0"
    | "sum_values coins \<noteq> 0" "sum_values coins < amount + ?f \<and> length coins = length ?el"
    | "sum_values coins \<noteq> 0" "\<not> (sum_values coins < amount + ?f \<and> length coins = length ?el)" "sum_values coins \<noteq> amount + ?f"
    | "sum_values coins \<noteq> 0" "sum_values coins = amount + ?f"
    by blast
  then show ?thesis
  proof cases
    case 1
    then have zero: "sum_values ?el = 0" by (rule nothing_selected[OF c _ assms(3,4) nat_el])
    then have "nat_values ?el = 0" using unat_sum_values[OF nat_el] by simp
    moreover have "0 < unat amount" using assms(3) by (simp add: word_less_nat_alt)
    ultimately show ?thesis unfolding run using 1 zero by auto
  next
    case 2
    then have "sum_values coins = sum_values ?el" using sum_all_coins[OF sub] by simp
    then show ?thesis unfolding run if_not_P[OF 2(1)] if_P[OF 2(2)] using 2 short[of "length coins" 1] by auto
  next
    case 3
    then have r: "select_coins_and_fee E w amount h m mx change all parent =
       and_then ?loop (\<lambda>(coins, total, fee). Inr (coins, total, amount, fee))"
      unfolding run by (simp only: if_False if_True simp_thms)
    show ?thesis
    proof (cases ?loop)
      case (Inl e)
      then show ?thesis using loop_result(2)[OF assms(1,2) c Inl] short r by (auto simp del: coins_loop.simps)
    next
      case (Inr x)
      obtain cs t f where x: "x = (cs, t, f)" by (cases x)
      have s: "t = sum_values cs" "amount + f \<le> t" "f = tx_fee E (length cs) (change + 1) 1" "mset cs \<subseteq># mset ?el"
        using loop_result(1)[OF assms(1,2) c Inr[unfolded x]] by auto
      then show ?thesis
        using r Inr x good[OF s(4)] add[of "length cs" "change + 1"] by (simp add: word_le_nat_alt del: coins_loop.simps)
    qed
  next
    case 4
    then show ?thesis unfolding run using good[OF sub] add by simp
  qed
qed


lemma ready_saved_db: "wallet_ok the_ext saved_wallet"
  using saved_wallet_facts(1) by (rule readyD(3))

lemma iter_saved_wallet: "iter saved_wallet = [the_output]"
  by (simp add: saved_wallet_def save_def bindE_app if_let_ok_def batch_get_def unwrap_output_def get_ser_def
      store_get_def the_wallet_def not_found_key_def put_db_def on_db_def put_ser_def put_ok keys_nonempty
      row_put_def exists_key_def sql_insert_def queriable_def the_output_def iter_def store_iter_def
      hd_keys map_filter_simps)

theorem select_coins_and_fee_sound_witness:
  "select_coins_and_fee the_ext saved_wallet 10 100 1 500 1 True (Identifier 0) = Inr ([the_output], 60, 10, 1) \<and>
   unat (60::u64) = nat_values [the_output]"
proof -
  have fee: "tx_fee the_ext i k 1 = 1" for i k by (simp add: the_ext_def)
  have el: "eligible_coins saved_wallet 100 1 (Identifier 0) = [the_output]"
    by (simp add: eligible_coins_def iter_saved_wallet the_output_def eligible_to_spend_def num_confirmations_def)
  have "select_coins_and_fee the_ext saved_wallet 10 100 1 500 1 True (Identifier 0) = Inr ([the_output], 60, 10, 1)"
    by (simp add: select_coins_and_fee_def select_coins_def el select_from_def the_ext_def Let_def numeral_2_eq_2)
       (simp add: the_output_def)
  moreover have "nat_values (iter saved_wallet) < 2 ^ 64"
    by (simp add: iter_saved_wallet nat_values_def the_output_def)
  ultimately show ?thesis
    using select_coins_and_fee_sound[OF ready_saved_db, where amount = 10 and mx = 500 and h = 100 and m = 1
      and change = 1 and all = True and parent = "Identifier 0"] fee
    by (simp add: One_nat_def[symmetric] del: One_nat_def)
qed

section \<open>Change\<close>

lemma unwrap_op_Inr: "unwrap_op m w = (Inr x, w') \<longleftrightarrow> m w = (Inr x, w')"
  by (auto simp: unwrap_op_def split: prod.splits sum.splits)

lemma fold_change:
  assumes "fold_each (change_output E km n q r) xs acc w = (Inr (ps, ds), w')"
  shows "\<exists>ds'. ds = snd acc @ ds' \<and> ps = fst acc @ map (\<lambda>(a, i, _). OutputElem a i) ds' \<and>
     map fst ds' = map (\<lambda>x. if x = usize_sub n 1 then q + r else q) xs \<and> (\<forall>d \<in> set ds'. snd (snd d) = None)"
  using assms
proof (induction xs arbitrary: acc w)
  case Nil
  then show ?case by auto
next
  case (Cons x xs)
  obtain acc1 w1 where 1: "change_output E km n q r x acc w = (Inr acc1, w1)"
    "fold_each (change_output E km n q r) xs acc1 w1 = (Inr (ps, ds), w')"
    using Cons.prems by (auto simp: bindE_eq_Inr)
  let ?a = "if x = usize_sub n 1 then q + r else q"
  obtain i where acc1: "acc1 = (fst acc @ [OutputElem ?a i], snd acc @ [(?a, i, None)])"
    using 1(1) by (auto simp: change_output_def Let_def bindE_eq_Inr)
  obtain ds' where ds': "ds = snd acc1 @ ds'" "ps = fst acc1 @ map (\<lambda>(a, i, _). OutputElem a i) ds'"
    "map fst ds' = map (\<lambda>x. if x = usize_sub n 1 then q + r else q) xs" "\<forall>d \<in> set ds'. snd (snd d) = None"
    using Cons.IH[OF 1(2)] by blast
  show ?case by (rule exI[of _ "(?a, i, None) # ds'"]) (use ds' acc1 in simp)
qed

lemma inputs_and_change_amounts:
  assumes "inputs_and_change E coins km amount fee n w = (Inr (parts, ders), w')"
    and "sum_values coins - amount - fee \<noteq> 0"
  defines "q \<equiv> (sum_values coins - amount - fee) div of_nat n"
  shows "q \<noteq> 0" "(of_nat n :: u64) \<noteq> 0"
    "parts = map coin_part coins @ map (\<lambda>(a, i, _). OutputElem a i) ders"
    "map fst ders = replicate (n - 1) q @ [q + (sum_values coins - amount - fee) mod q]"
proof -
  let ?c = "sum_values coins - amount - fee"
  have n: "(of_nat n :: u64) \<noteq> 0" "q \<noteq> 0"
    using assms(1,2) by (auto simp: inputs_and_change_def Let_def q_def split: if_splits)
  have run: "fold_each (change_output E km n q (?c mod q)) [0..<n] (map coin_part coins, []) w = (Inr (parts, ders), w')"
    using assms(1,2) n by (simp add: inputs_and_change_def Let_def q_def)
  obtain ds' where ds': "ders = ds'" "parts = map coin_part coins @ map (\<lambda>(a, i, _). OutputElem a i) ds'"
    "map fst ds' = map (\<lambda>x. if x = usize_sub n 1 then q + ?c mod q else q) [0..<n]"
    using fold_change[OF run] by auto
  obtain k where k: "n = Suc k" using n(1) by (cases n) auto
  have "map (\<lambda>x. if x = k then q + ?c mod q else q) [0..<k] = replicate k q"
    by (rule nth_equalityI) simp_all
  then have "map fst ders = replicate k q @ [q + ?c mod q]"
    using ds' k by (simp add: usize_sub_def)
  then show "q \<noteq> 0" "(of_nat n :: u64) \<noteq> 0" "parts = map coin_part coins @ map (\<lambda>(a, i, _). OutputElem a i) ders"
    "map fst ders = replicate (n - 1) q @ [q + ?c mod q]"
    using n ds' k by simp_all
qed

text \<open>The amounts of a successful split, as numbers: \<open>n\<close> shares of \<open>C div n\<close> and \<open>C mod (C div n)\<close>.\<close>

lemma change_sum:
  assumes "inputs_and_change E coins km amount fee n w = (Inr (parts, ders), w')"
    and "nat_values coins < 2 ^ 64" and "unat amount + unat fee + C = nat_values coins" and "0 < C" and "n < 2 ^ 64"
  shows "sum_list (map (unat \<circ> fst) ders) = n * (C div n) + C mod (C div n)" "0 < C div n" "0 < n"
proof -
  let ?c = "sum_values coins - amount - fee" and ?q = "(sum_values coins - amount - fee) div of_nat n"
  have T: "unat (sum_values coins) = unat amount + unat fee + C" using unat_sum_values[OF assms(2)] assms(3) by simp
  then have "unat (sum_values coins - amount) = unat fee + C" by (simp add: unat_sub word_le_nat_alt)
  then have c: "unat ?c = C" by (simp add: unat_sub word_le_nat_alt)
  have nn: "unat (of_nat n :: u64) = n" using assms(5) by (simp add: unat_of_nat)
  have q: "unat ?q = C div n" by (simp add: unat_div c nn)
  have "?c \<noteq> 0" using c assms(4) by auto
  note a = inputs_and_change_amounts[OF assms(1) this]
  show n0: "0 < n" using a(2) by (cases n) auto
  have "unat ?q \<noteq> 0" using a(1) unat_eq_0 by blast
  then show q0: "0 < C div n" using q by simp
  have r: "unat (?c mod ?q) = C mod (C div n)" by (simp add: unat_mod c q)
  have "C div n + C mod (C div n) < 2 ^ 64"
  proof (cases "n = 1")
    case True
    then show ?thesis using c unat_less_power[of ?c] assms(4) by simp
  next
    case False
    then have "C div n \<le> C div 2" using n0 by (intro div_le_mono2) simp_all
    then have "2 * (C div n) \<le> C" by linarith
    moreover have "C mod (C div n) < C div n" using q0 by simp
    ultimately show ?thesis using c unat_less_power[of ?c] by simp
  qed
  then have l: "unat (?q + ?c mod ?q) = C div n + C mod (C div n)" by (subst unat_add_exact) (simp_all add: q r)
  have "map (unat \<circ> fst) ders = replicate (n - 1) (C div n) @ [C div n + C mod (C div n)]"
    using arg_cong[OF a(4), of "map unat"] by (simp add: l q)
  then show "sum_list (map (unat \<circ> fst) ders) = n * (C div n) + C mod (C div n)"
    using n0 by (simp add: sum_list_replicate) (metis Suc_pred mult_Suc add.assoc add.commute)
qed


text \<open>C23. When \<open>inputs_and_change\<close> succeeds with a positive change of \<open>C\<close>, inputs minus amount minus
  fee, split over \<open>n\<close> outputs, the change outputs add up to \<open>C\<close> exactly if
  \<open>C mod n < C div n\<close>. Otherwise they fall short by \<open>C mod n - C mod n mod (C div n)\<close>: the
  remainder was taken modulo the share and not modulo the number of outputs.\<close>

theorem change_conserved_iff:
  assumes "inputs_and_change E coins km amount fee n w = (Inr (parts, ders), w')"
    and "nat_values coins < 2 ^ 64" and "unat amount + unat fee + C = nat_values coins" and "0 < C" and "n < 2 ^ 64"
  shows "(sum_list (map (unat \<circ> fst) ders) = C \<longleftrightarrow> C mod n < C div n) \<and>
    sum_list (map (unat \<circ> fst) ders) + (C mod n - C mod n mod (C div n)) = C"
proof -
  note s = change_sum[OF assms]
  have C: "n * (C div n) + C mod n = C" by simp
  have "C mod (C div n) = (n * (C div n) + C mod n) mod (C div n)" by (simp only: C)
  then have r: "C mod (C div n) = C mod n mod (C div n)" by (simp only: mod_mult_self4 mult.commute[of n])
  have le: "C mod n mod (C div n) \<le> C mod n" by simp
  have "sum_list (map (unat \<circ> fst) ders) + (C mod n - C mod n mod (C div n)) = C"
    using s(1) r le C by linarith
  moreover have "C mod n mod (C div n) = C mod n \<longleftrightarrow> C mod n < C div n"
    using s(2) by (metis mod_less mod_less_divisor)
  moreover have "S + (a - b) = c \<Longrightarrow> b \<le> a \<Longrightarrow> S = c \<longleftrightarrow> b = a" for S a b c :: nat by auto
  ultimately show ?thesis using le by blast
qed

text \<open>A change of 8 in three parts comes out as 2 + 2 + 2.\<close>

definition coin8 :: OutputData where
  "coin8 = the_output\<lparr>od_value := 19\<rparr>"

lemma next_child_the_ext:
  assumes "ready the_ext w" "keychain the_ext None w = (Inr k, w)" "w_parent_key_id w = Identifier 0"
  obtains i w' where "next_child the_ext None w = (Inr i, w')" "ready the_ext w'"
    "keychain the_ext None w' = (Inr k, w')" "w_parent_key_id w' = Identifier 0"
proof -
  have d: "depth (id_to_path the_ext (w_parent_key_id w)) < 4" using assms(3) by (simp add: nat_to_path_def)
  have k: "fst (keychain the_ext None w) = Inr k" using assms(2) by simp
  obtain i w' where w': "next_child the_ext None w = (Inr i, w')" "frame the_ext {DERIV_PREFIX} w w'"
    by (rule next_child_ok[OF assms(1) paths_ok_the_ext k d]) (rule that)
  show ?thesis
    using that[OF w'(1) ready_frame[OF assms(1) w'(2)]] k keychain_result_frame[OF w'(2)] frameD(6)[OF w'(2)] assms(3)
    by (simp add: keychain_def)
qed

lemma change_runs:
  "ready the_ext w \<Longrightarrow> keychain the_ext None w = (Inr k, w) \<Longrightarrow> w_parent_key_id w = Identifier 0 \<Longrightarrow>
     \<exists>r w'. fold_each (change_output the_ext None n q m) xs acc w = (Inr r, w')"
proof (induction xs arbitrary: acc w)
  case (Cons x xs)
  obtain i w1 where w1: "next_child the_ext None w = (Inr i, w1)" "ready the_ext w1"
    "keychain the_ext None w1 = (Inr k, w1)" "w_parent_key_id w1 = Identifier 0"
    using next_child_the_ext[OF Cons.prems] by blast
  then have "unwrap_op (next_child the_ext None) w = (Inr i, w1)" by (simp add: unwrap_op_Inr)
  then show ?case using Cons.IH[OF w1(2-4)] by (simp add: change_output_def Let_def)
qed simp

theorem change_conserved_iff_witness:
  "\<exists>parts ders w'. inputs_and_change the_ext [coin8] None 10 1 3 the_wallet = (Inr (parts, ders), w') \<and>
     sum_list (map (unat \<circ> fst) ders) = 6"
proof -
  have "w_parent_key_id the_wallet = Identifier 0" by (simp add: the_wallet_def)
  then obtain parts ders w' where
    "fold_each (change_output the_ext None 3 2 (8 mod 2)) [0..<3] (map coin_part [coin8], []) the_wallet = (Inr (parts, ders), w')"
    using change_runs[OF ready_the_wallet keychain_the_wallet] by (metis surj_pair)
  then have run: "inputs_and_change the_ext [coin8] None 10 1 3 the_wallet = (Inr (parts, ders), w')"
    by (simp add: inputs_and_change_def coin8_def Let_def)
  have "sum_list (map (unat \<circ> fst) ders) + (8 mod 3 - 8 mod 3 mod (8 div 3)) = (8 :: nat)"
    using change_conserved_iff[OF run, of 8] by (simp add: nat_values_def coin8_def)
  then show ?thesis using run by simp
qed

text \<open>A positive change smaller than the number of change outputs makes the split panic: the
  share is zero and the remainder is taken modulo it. So does a request for no change output.\<close>

theorem small_change_panics:
  assumes "nat_values coins < 2 ^ 64" and "unat amount + unat fee + C = nat_values coins" and "0 < C"
    and "C < n \<or> n = 0" and "n < 2 ^ 64"
  shows "\<exists>msg. inputs_and_change E coins km amount fee n w = (Inl (Panic msg), w)"
proof -
  let ?c = "sum_values coins - amount - fee"
  have T: "unat (sum_values coins) = unat amount + unat fee + C"
    using unat_sum_values[OF assms(1)] assms(2) by simp
  then have "unat (sum_values coins - amount) = unat fee + C" by (simp add: unat_sub word_le_nat_alt)
  then have c: "unat ?c = C" by (simp add: unat_sub word_le_nat_alt)
  have "unat (of_nat n :: u64) = n" using assms(5) by (simp add: unat_of_nat)
  then have "unat (?c div of_nat n) = C div n" by (simp add: unat_div c)
  moreover have "C div n = 0" using assms(4) by auto
  ultimately have "?c div of_nat n = 0" by (simp add: unat_eq_0)
  moreover have "?c \<noteq> 0" using c assms(3) by auto
  ultimately show ?thesis by (simp add: inputs_and_change_def Let_def)
qed

theorem small_change_panics_witness:
  "\<exists>msg. inputs_and_change the_ext [coin8] None 16 1 3 the_wallet = (Inl (Panic msg), the_wallet)"
  by (rule small_change_panics[of _ _ _ 2]) (simp_all add: nat_values_def coin8_def)

end
