(* ===== verification/LockProps.thy ===== *)
theory LockProps
  imports SelectionProps
begin

text \<open>
  What \<open>lock_tx_context\<close> does to the wallet: a refinement to updates of the output map and the
  log, and the order of its writes when it fails half way.
\<close>

section \<open>The abstract updates\<close>

type_synonym output_map = "Identifier \<times> u64 option \<Rightarrow> OutputData option"

definition lock_one :: "u32 \<Rightarrow> Identifier \<times> u64 option \<times> u64 \<Rightarrow> output_map \<Rightarrow> output_map" where
  "lock_one log_id inp m = (case inp of (i, mm, _) \<Rightarrow>
     m((i, mm) := map_option (\<lambda>c. lock (c\<lparr>od_tx_log_entry := Some log_id\<rparr>)) (m (i, mm))))"

definition commit_str :: "ext \<Rightarrow> Keychain \<Rightarrow> u64 \<Rightarrow> Identifier \<Rightarrow> string option" where
  "commit_str E k v i = (case kc_commit E k v i of Inr c \<Rightarrow> Some (to_hex E c) | Inl _ \<Rightarrow> None)"

definition new_one ::
    "ext \<Rightarrow> Keychain \<Rightarrow> Identifier \<Rightarrow> u64 \<Rightarrow> u32 \<Rightarrow> Identifier \<times> u64 option \<times> u64 \<Rightarrow> output_map \<Rightarrow> output_map" where
  "new_one E k parent h log_id out m = (case out of (i, _, v) \<Rightarrow>
     m((i, None) \<mapsto> new_output E parent i (commit_str E k v i) v h log_id))"

abbreviation output_tables :: "u8 set" where
  "output_tables \<equiv> {OUTPUT_HISTORY_ID_PREFIX, OUTPUT_HISTORY_PREFIX, OUTPUT_PREFIX}"

section \<open>One step each\<close>

lemma lock_input_ok:
  assumes "ready E w" "out_at E w (i, mm) = Some coin"
  obtains w' where "lock_input E log_id (i, mm, v) a w = (Inr (a + od_value coin), w')"
    "frame E output_tables w w'" "out_at E w' = lock_one log_id (i, mm, v) (out_at E w)"
proof -
  note K = readyD(1)[OF assms(1)] and W = readyD(3)[OF assms(1)]
  let ?c = "lock (coin\<lparr>od_tx_log_entry := Some log_id\<rparr>)"
  have key: "od_key_id ?c = i" "od_mmr_index ?c = mm"
    using out_at_key[OF K W assms(2)] by (simp_all add: lock_def)
  obtain w' where w': "save E ?c w = (Inr (), w')" "frame E output_tables w w'"
    "out_at E w' = (out_at E w)((od_key_id ?c, od_mmr_index ?c) \<mapsto> ?c)"
    using save_ok[OF assms(1)] by blast
  have "unwrap_op (batch_get E i mm) w = (Inr coin, w)"
    using assms(2) by (simp add: unwrap_op_Inr batch_get_eq[OF K W])
  then have "lock_input E log_id (i, mm, v) a w = (Inr (a + od_value coin), w')"
    using w'(1) by (simp add: lock_input_def lock_output_def bindE_app)
  moreover have "out_at E w' = lock_one log_id (i, mm, v) (out_at E w)"
    using w'(3) assms(2) by (simp add: lock_one_def key del: lock_simps)
  ultimately show ?thesis using that w'(2) by blast
qed

lemma lock_one_dom: "lock_one log_id inp m x = None \<longleftrightarrow> m x = None"
  by (auto simp: lock_one_def split: prod.splits)

lemma lock_one_value: "map_option od_value (lock_one log_id inp m x) = map_option od_value (m x)"
  by (cases "m x") (auto simp: lock_one_def split: prod.splits)

lemma lock_inputs_ok:
  assumes "ready E w" "\<forall>(i, mm, v) \<in> set ins. out_at E w (i, mm) \<noteq> None"
  shows "\<exists>w'. fold_each (lock_input E log_id) ins a w =
      (Inr (a + sum_list (map (\<lambda>(i, mm, v). od_value (the (out_at E w (i, mm)))) ins)), w') \<and>
     frame E output_tables w w' \<and> out_at E w' = fold (lock_one log_id) ins (out_at E w)"
  using assms
proof (induction ins arbitrary: a w)
  case Nil
  then show ?case by (auto intro: frame_refl readyD)
next
  case (Cons x ins)
  obtain i mm v where x: "x = (i, mm, v)" by (cases x)
  obtain coin where coin: "out_at E w (i, mm) = Some coin" using Cons.prems(2) x by auto
  obtain w1 where w1: "lock_input E log_id (i, mm, v) a w = (Inr (a + od_value coin), w1)"
    "frame E output_tables w w1" "out_at E w1 = lock_one log_id (i, mm, v) (out_at E w)"
    by (rule lock_input_ok[OF Cons.prems(1) coin]) (rule that)
  have dom: "\<forall>(i, mm, v) \<in> set ins. out_at E w1 (i, mm) \<noteq> None"
    using Cons.prems(2) by (auto simp: w1(3) lock_one_dom)
  obtain w2 where w2: "fold_each (lock_input E log_id) ins (a + od_value coin) w1 =
      (Inr (a + od_value coin + sum_list (map (\<lambda>(i, mm, v). od_value (the (out_at E w1 (i, mm)))) ins)), w2)"
     "frame E output_tables w1 w2" "out_at E w2 = fold (lock_one log_id) ins (out_at E w1)"
    using Cons.IH[OF ready_frame[OF Cons.prems(1) w1(2)] dom] by blast
  have "od_value (the (out_at E w1 p)) = od_value (the (out_at E w p))" if "out_at E w p \<noteq> None" for p
    using lock_one_value[of log_id "(i, mm, v)" "out_at E w" p] that by (auto simp: w1(3))
  then have "map (\<lambda>(i, mm, v). od_value (the (out_at E w1 (i, mm)))) ins = map (\<lambda>(i, mm, v). od_value (the (out_at E w (i, mm)))) ins"
    using Cons.prems(2) by (intro map_cong) auto
  note w2(1)[unfolded this]
  then show ?case
    using w1(1,3) w2(3) frame_trans[OF w1(2) w2(2)] coin x by (auto simp: bindE_app add.assoc)
qed

lemma calc_commit_ok:
  assumes "keychain_result E km w = Inr k" "kc_commit E k v i = Inr c"
  shows "calc_commit_for_cache E km v i w = (Inr (commit_str E k v i), w)"
  using assms by (simp add: calc_commit_for_cache_def bindE_app keychain_def commit_str_def)

definition note_commit ::
    "ext \<Rightarrow> Keychain \<Rightarrow> (Identifier \<rightharpoonup> string option \<times> u64) \<Rightarrow> Identifier \<times> u64 option \<times> u64 \<Rightarrow>
     (Identifier \<rightharpoonup> string option \<times> u64)" where
  "note_commit E k commits out = (case out of (i, _, v) \<Rightarrow> commits(i \<mapsto> (commit_str E k v i, v)))"

lemma note_commit_app [simp]:
  "note_commit E k commits (i, mm, v) = commits(i \<mapsto> (commit_str E k v i, v))"
  by (simp add: note_commit_def)

lemma output_commits_ok:
  assumes "keychain_result E km w = Inr k" "\<forall>(i, mm, v) \<in> set outs. \<exists>c. kc_commit E k v i = Inr c"
  shows "output_commits E km outs w = (Inr (foldl (note_commit E k) Map.empty outs), w)"
proof -
  have "fold_each (cache_commit E km) outs acc w = (Inr (foldl (note_commit E k) acc outs), w)" for acc
    using assms(2)
  proof (induction outs arbitrary: acc)
    case (Cons x outs)
    obtain i mm v where x: "x = (i, mm, v)" by (cases x)
    then obtain c where "kc_commit E k v i = Inr c" using Cons.prems by auto
    then have "cache_commit E km x acc w = (Inr (note_commit E k acc x), w)"
      using calc_commit_ok[OF assms(1)] by (simp add: x bindE_app cache_commit_def)
    then show ?case using Cons.IH Cons.prems by (simp del: note_commit_app)
  qed simp
  then show ?thesis by (simp add: output_commits_def)
qed

lemma note_commit_other: "i \<notin> fst ` set outs \<Longrightarrow> foldl (note_commit E k) acc outs i = acc i"
  by (induction outs arbitrary: acc) auto

lemma note_commit_lookup:
  "distinct (map fst outs) \<Longrightarrow> (i, mm, v) \<in> set outs \<Longrightarrow>
     foldl (note_commit E k) acc outs i = Some (commit_str E k v i, v)"
proof (induction outs arbitrary: acc)
  case (Cons x outs)
  then show ?case
  proof (cases "x = (i, mm, v)")
    case True
    then have "i \<notin> fst ` set outs" using Cons.prems(1) by simp
    then show ?thesis using note_commit_other[of i outs E k "note_commit E k acc x"] True by simp
  qed auto
qed simp

lemma save_changes_ok:
  assumes "ready E w" "\<forall>(i, mm, v) \<in> set outs. commits i = Some (commit_str E k v i, v)"
  shows "\<exists>w'. fold_each (save_change E commits parent h log_id) outs t w =
      (Inr (t\<lparr>tl_num_outputs := tl_num_outputs t + length outs,
             tl_amount_credited := tl_amount_credited t + sum_list (map (\<lambda>out. snd (snd out)) outs)\<rparr>), w') \<and>
     frame E output_tables w w' \<and> out_at E w' = fold (new_one E k parent h log_id) outs (out_at E w)"
  using assms
proof (induction outs arbitrary: t w)
  case Nil
  then show ?case by (auto intro: frame_refl readyD)
next
  case (Cons x outs)
  obtain i mm v where x: "x = (i, mm, v)" by (cases x)
  let ?out = "new_output E parent i (commit_str E k v i) v h log_id"
  obtain w1 where w1: "save E ?out w = (Inr (), w1)" "frame E output_tables w w1"
    "out_at E w1 = (out_at E w)((od_key_id ?out, od_mmr_index ?out) \<mapsto> ?out)"
    using save_ok[OF Cons.prems(1)] by blast
  have o1: "out_at E w1 = new_one E k parent h log_id x (out_at E w)"
    using w1(3) by (simp add: new_one_def x new_output_def)
  let ?t = "t\<lparr>tl_num_outputs := tl_num_outputs t + 1, tl_amount_credited := tl_amount_credited t + v\<rparr>"
  have step: "save_change E commits parent h log_id x t w = (Inr ?t, w1)"
    using w1(1) Cons.prems(2) x by (simp add: save_change_def bindE_app)
  have rest: "\<forall>(i, mm, v) \<in> set outs. commits i = Some (commit_str E k v i, v)"
    using Cons.prems(2) by simp
  obtain w2 where w2: "fold_each (save_change E commits parent h log_id) outs ?t w1 =
      (Inr (?t\<lparr>tl_num_outputs := tl_num_outputs ?t + length outs,
             tl_amount_credited := tl_amount_credited ?t + sum_list (map (\<lambda>out. snd (snd out)) outs)\<rparr>), w2)"
    "frame E output_tables w1 w2" "out_at E w2 = fold (new_one E k parent h log_id) outs (out_at E w1)"
    using Cons.IH[OF ready_frame[OF Cons.prems(1) w1(2)] rest, of ?t] by blast
  then show ?case using step o1 frame_trans[OF w1(2) w2(2)] by (simp add: bindE_app x add.assoc)
qed

lemma next_tx_log_id_frame:
  assumes "ready E w"
  obtains w' where "next_tx_log_id E parent w = (Inr (tx_log_counter E w parent), w')"
    "frame E {TX_LOG_ID_PREFIX} w w'"
proof -
  have "frame E {TX_LOG_ID_PREFIX} w (snd (next_tx_log_id E parent w))"
    by (rule keepsD[OF keeps_frame_writes(2)])
       (use assms in \<open>auto simp: ready_def intro: frame_refl\<close>)
  then show ?thesis using that next_tx_log_id_run[OF assms] by (metis prod.collapse fst_conv)
qed

lemma map_filter_append:
  "List.map_filter f (xs @ ys) = List.map_filter f xs @ List.map_filter f ys"
  by (simp add: List.map_filter_def)

lemma tx_log_iter_put_new:
  assumes "keys_ok E" "wallet_ok E w" "tx_at E w (i, n) = None"
  shows "tx_log_iter (w\<lparr>w_db := row_put (tx_log_key E i n) (STxLogEntry t) (w_db w)\<rparr>) = tx_log_iter w @ [t]"
proof -
  have "store_get (tx_log_key E i n) (w_db w) = None"
  proof (cases "store_get (tx_log_key E i n) (w_db w)")
    case (Some v)
    then have "entry_ok E (tx_log_key E i n) v" using assms(2) by (simp add: wallet_ok_def db_ok_get)
    then have "kind_ok TX_LOG_ENTRY_PREFIX v" using hd_keys(4)[OF assms(1)] entry_ok_kind by metis
    then show ?thesis using Some assms(3)
      by (cases v) (auto simp: tx_at_def get_ser_def prefix_defs)
  qed
  then show ?thesis
    using hd_keys(4)[OF assms(1)]
    by (simp add: tx_log_iter_def store_iter_def row_put_def exists_key_def sql_insert_def queriable_def map_filter_append
        map_filter_simps store_get_def)
qed

lemma save_tx_log_entry_ok:
  assumes "ready E w"
  obtains w' where "save_tx_log_entry E t parent w = (Inr (), w')" "frame E {TX_LOG_ENTRY_PREFIX} w w'"
    "tx_at E w' = (tx_at E w)((parent, tl_id t) \<mapsto> t)"
    "tx_at E w (parent, tl_id t) = None \<Longrightarrow> tx_log_iter w' = tx_log_iter w @ [t]"
proof -
  note K = readyD(1)[OF assms]
  let ?w = "w\<lparr>w_db := row_put (tx_log_key E parent (tl_id t)) (STxLogEntry t) (w_db w)\<rparr>"
  have "save_tx_log_entry E t parent w = (Inr (), ?w)"
    by (simp add: save_tx_log_entry_def put_db_ok[OF readyD(2)[OF assms] keys_nonempty(4)[OF K]])
  moreover have "frame E {TX_LOG_ENTRY_PREFIX} w ?w"
    by (rule frame_put) (use K assms in \<open>auto simp: frame_refl readyD entry_ok_simps hd_keys\<close>)
  ultimately show ?thesis
    using that tx_at_put[OF K readyD(3)[OF assms]] tx_log_iter_put_new[OF K readyD(3)[OF assms]] by blast
qed

section \<open>The whole operation\<close>

lemma store_tx_ok:
  assumes "files_ok E"
  obtains w' where "store_tx E u tx w = (Inr (), w')" "w_db w' = w_db w" "w_keychain w' = w_keychain w"
    "w_master_checksum w' = w_master_checksum w" "w_parent_key_id w' = w_parent_key_id w"
  using assms by (simp add: store_tx_def files_ok_def)

lemma same_db_maps:
  "w_db w' = w_db w \<Longrightarrow> out_at E w' = out_at E w" "w_db w' = w_db w \<Longrightarrow> tx_at E w' = tx_at E w"
  by (simp_all add: out_at_def tx_at_def fun_eq_iff)

lemma same_keychain:
  assumes "w_keychain w' = w_keychain w" and "w_master_checksum w' = w_master_checksum w"
  shows "keychain_result E km w' = keychain_result E km w"
  unfolding keychain_result_def assms by (rule refl)

text \<open>The log entry that \<open>lock_tx_context\<close> writes.\<close>

definition locked_entry ::
    "ext \<Rightarrow> Slate \<Rightarrow> Context \<Rightarrow> string option \<Rightarrow> u32 \<Rightarrow> u64 \<Rightarrow> StoredProofInfo option \<Rightarrow> TxLogEntry" where
  "locked_entry E slate context addr_to log_id debited proof =
     (sent_entry E slate (cx_parent_key_id context) log_id)
       \<lparr>tl_num_inputs := length (cx_input_ids context), tl_num_outputs := length (cx_output_ids context),
        tl_amount_debited := debited,
        tl_amount_credited := sum_list (map (\<lambda>out. snd (snd out)) (cx_output_ids context)),
        tl_messages := Some (participant_messages slate), tl_public_addr := addr_to,
        tl_payment_proof := proof\<rparr>"

text \<open>Everything a successful lock does; the log grows by one entry when the id is new.\<close>

lemma lock_tx_context_run:
  assumes "ready E w" and "files_ok E" and "fst (keychain E km w) = Inr k"
    and "\<forall>(i, mm, v) \<in> set (cx_input_ids context). out_at E w (i, mm) \<noteq> None"
    and "\<forall>(i, mm, v) \<in> set (cx_output_ids context). \<exists>c. kc_commit E k v i = Inr c"
    and "distinct (map fst (cx_output_ids context))"
    and "sender_proof_info E k (cx_parent_key_id context) context (sl_payment_proof slate) = Inr proof"
    and "n = tx_log_counter E w (cx_parent_key_id context)"
    and "t = locked_entry E slate context addr_to n
          (sum_list (map (\<lambda>(i, mm, v). od_value (the (out_at E w (i, mm)))) (cx_input_ids context))) proof"
  obtains w' where "lock_tx_context E km slate context addr_to w = (Inr (), w')"
    "out_at E w' = fold (new_one E k (cx_parent_key_id context) (sl_height slate) n) (cx_output_ids context)
                     (fold (lock_one n) (cx_input_ids context) (out_at E w))"
    "tx_at E w' = (tx_at E w)((cx_parent_key_id context, n) \<mapsto> t)"
    "ready E w'" "keychain_result E km w' = Inr k"
    "tx_at E w (cx_parent_key_id context, n) = None \<Longrightarrow> tx_log_iter w' = tx_log_iter w @ [t]"
proof -
  let ?p = "cx_parent_key_id context" and ?ins = "cx_input_ids context" and ?outs = "cx_output_ids context"
  let ?n = "tx_log_counter E w ?p" and ?commits = "foldl (note_commit E k) Map.empty (cx_output_ids context)"
  let ?deb = "sum_list (map (\<lambda>(i, mm, v). od_value (the (out_at E w (i, mm)))) ?ins)"
  note K = readyD(1)[OF assms(1)]
  have kr: "keychain_result E km w = Inr k" using assms(3) by (simp add: keychain_def)
  obtain w1 where w1: "next_tx_log_id E ?p w = (Inr ?n, w1)" "frame E {TX_LOG_ID_PREFIX} w w1"
    by (rule next_tx_log_id_frame[OF assms(1)]) (rule that)
  have o1: "out_at E w1 = out_at E w" "tx_at E w1 = tx_at E w"
    using frame_out_at[OF K w1(2)] frame_tx_at[OF K w1(2)] by (simp_all add: prefix_defs)
  obtain w2 where w2: "fold_each (lock_input E ?n) ?ins 0 w1 = (Inr ?deb, w2)" "frame E output_tables w1 w2"
    "out_at E w2 = fold (lock_one ?n) ?ins (out_at E w)"
    using lock_inputs_ok[OF ready_frame[OF assms(1) w1(2)], of ?ins ?n 0] assms(4) by (auto simp: o1)
  have r2: "ready E w2" by (rule ready_frame[OF ready_frame[OF assms(1) w1(2)] w2(2)])
  let ?t = "(sent_entry E slate ?p ?n)\<lparr>tl_num_inputs := length ?ins, tl_amount_debited := ?deb,
     tl_messages := Some (participant_messages slate), tl_public_addr := addr_to, tl_payment_proof := proof\<rparr>"
  have commits: "\<forall>(i, mm, v) \<in> set ?outs. ?commits i = Some (commit_str E k v i, v)"
    using note_commit_lookup[OF assms(6)] by auto
  have t0: "tl_num_outputs ?t = 0" "tl_amount_credited ?t = 0" by (simp_all add: sent_entry_def)
  obtain w3 where w3: "fold_each (save_change E ?commits ?p (sl_height slate) ?n) ?outs ?t w2 =
      (Inr (locked_entry E slate context addr_to ?n ?deb proof), w3)" "frame E output_tables w2 w3"
    "out_at E w3 = fold (new_one E k ?p (sl_height slate) ?n) ?outs (out_at E w2)"
    using save_changes_ok[OF r2 commits, of ?p "sl_height slate" ?n ?t] t0
    by (auto simp: locked_entry_def)
  obtain w4 where w4: "save_tx_log_entry E (locked_entry E slate context addr_to ?n ?deb proof) ?p w3 = (Inr (), w4)"
    "frame E {TX_LOG_ENTRY_PREFIX} w3 w4"
    "tx_at E w4 = (tx_at E w3)((?p, tl_id (locked_entry E slate context addr_to ?n ?deb proof)) \<mapsto>
       locked_entry E slate context addr_to ?n ?deb proof)"
    "tx_at E w3 (?p, tl_id (locked_entry E slate context addr_to ?n ?deb proof)) = None \<Longrightarrow>
       tx_log_iter w4 = tx_log_iter w3 @ [locked_entry E slate context addr_to ?n ?deb proof]"
    by (rule save_tx_log_entry_ok[OF ready_frame[OF r2 w3(2)]]) (rule that)
  obtain w5 where w5: "store_tx E (uuid_string E (sl_id slate)) (sl_tx slate) w4 = (Inr (), w5)" "w_db w5 = w_db w4"
    "w_keychain w5 = w_keychain w4" "w_master_checksum w5 = w_master_checksum w4"
    by (rule store_tx_ok[OF assms(2)]) (rule that)
  have "output_commits E km ?outs w = (Inr ?commits, w)" by (rule output_commits_ok[OF kr assms(5)])
  then have "lock_tx_context E km slate context addr_to w = (Inr (), w5)"
    using w1(1) w2(1) w3(1) w4(1) w5(1) kr assms(7)
    by (simp add: lock_tx_context_def bindE_app keychain_def batch_def commit_def Let_def)
  moreover have "out_at E w5 = out_at E w3" "tx_at E w3 = tx_at E w"
    using same_db_maps(1)[OF w5(2)] frame_out_at[OF K w4(2)] frame_tx_at[OF K w3(2)]
      frame_tx_at[OF K w2(2)] o1 by (simp_all add: prefix_defs)
  moreover have "tl_id (locked_entry E slate context addr_to ?n ?deb proof) = ?n"
    by (simp add: locked_entry_def sent_entry_def)
  moreover have "ready E w5"
    using ready_frame[OF ready_frame[OF r2 w3(2)] w4(2)] w5(2) by (simp add: ready_def wallet_ok_def)
  moreover have "keychain_result E km w5 = Inr k"
    using same_keychain[OF w5(3,4)] kr keychain_result_frame[OF w1(2)] keychain_result_frame[OF w2(2)]
      keychain_result_frame[OF w3(2)] keychain_result_frame[OF w4(2)] by simp
  moreover have "tx_log_iter w5 = tx_log_iter w4" "tx_log_iter w3 = tx_log_iter w"
    using w5(2) frame_iters(3)[OF w1(2)] frame_iters(3)[OF w2(2)] frame_iters(3)[OF w3(2)]
    by (simp_all add: tx_log_iter_def prefix_defs)
  ultimately show ?thesis
    using that[of w5] w2(3) w3(3) w4(3,4) same_db_maps(2)[OF w5(2)] assms(8,9) by simp
qed

text \<open>C6. Locking a context whose inputs are all in the wallet succeeds. On the output map it is
  exactly: every input is tied to a fresh log id and \<open>Locked\<close>, then every change output is
  added as \<open>Unconfirmed\<close>; no other output changes. The log gains one \<open>TxSentCreated\<close> entry
  under that id, which debits the values of the locked coins and credits the change.\<close>

theorem lock_tx_context_refines:
  assumes "ready E w" and "files_ok E" and "fst (keychain E km w) = Inr k"
    and "\<forall>(i, mm, v) \<in> set (cx_input_ids context). out_at E w (i, mm) \<noteq> None"
    and "\<forall>(i, mm, v) \<in> set (cx_output_ids context). \<exists>c. kc_commit E k v i = Inr c"
    and "distinct (map fst (cx_output_ids context))"
    and "sender_proof_info E k (cx_parent_key_id context) context (sl_payment_proof slate) = Inr proof"
  shows "\<exists>w'. lock_tx_context E km slate context addr_to w = (Inr (), w') \<and>
    (let log_id = tx_log_counter E w (cx_parent_key_id context);
         debited = sum_list (map (\<lambda>(i, mm, v). od_value (the (out_at E w (i, mm)))) (cx_input_ids context)) in
     out_at E w' = fold (new_one E k (cx_parent_key_id context) (sl_height slate) log_id) (cx_output_ids context)
                     (fold (lock_one log_id) (cx_input_ids context) (out_at E w)) \<and>
     tx_at E w' = (tx_at E w)((cx_parent_key_id context, log_id) \<mapsto>
                     locked_entry E slate context addr_to log_id debited proof))"
  using lock_tx_context_run[OF assms refl refl, of addr_to] by (metis (no_types, lifting))

lemma keychain_saved_wallet: "fst (keychain the_ext None saved_wallet) = Inr (replicate 32 5)"
proof -
  obtain w' where w': "save the_ext the_output the_wallet = (Inr (), w')"
    "frame the_ext output_tables the_wallet w'"
    using save_ok[OF ready_the_wallet] by blast
  then have "saved_wallet = w'" by (simp add: saved_wallet_def)
  then show ?thesis
    using keychain_result_frame[OF w'(2)] keychain_the_wallet by (simp add: keychain_def)
qed

definition lock_context :: Context where
  "lock_context = context_add_output (Identifier 3) None 49
     (context_add_input (Identifier 7) None 60 (context_new [] [] (Identifier 0) False 0))"

theorem lock_tx_context_refines_witness:
  "\<exists>w' c d. lock_tx_context the_ext None the_slate lock_context None saved_wallet = (Inr (), w') \<and>
     out_at the_ext w' (Identifier 7, None) = Some c \<and> od_status c = Locked \<and>
     out_at the_ext w' (Identifier 3, None) = Some d \<and> od_status d = Unconfirmed"
proof -
  have commits: "\<forall>(i, mm, v) \<in> set (cx_output_ids lock_context). \<exists>c. kc_commit the_ext (replicate 32 5) v i = Inr c"
    by (simp add: the_ext_def)
  have ctx: "cx_input_ids lock_context = [(Identifier 7, None, 60)]" "cx_output_ids lock_context = [(Identifier 3, None, 49)]"
    "cx_parent_key_id lock_context = Identifier 0"
    by (simp_all add: lock_context_def context_new_def context_add_input_def context_add_output_def)
  show ?thesis
    using lock_tx_context_refines[OF saved_wallet_facts(1) files_ok_the_ext keychain_saved_wallet _ commits, of the_slate None None]
    by (auto simp: ctx sender_proof_info_def the_slate_def slate_blank_def lock_one_def new_one_def new_output_def Let_def)
qed

section \<open>A batch is not atomic\<close>

text \<open>C24. If the payment-proof information cannot be built, \<open>lock_tx_context\<close> fails after it has
  locked every input: the batch is not rolled back, the inputs stay \<open>Locked\<close> under a log id
  for which no log entry exists.\<close>

theorem lock_tx_context_partial:
  assumes "ready E w" and "fst (keychain E km w) = Inr k"
    and "\<forall>(i, mm, v) \<in> set (cx_input_ids context). out_at E w (i, mm) \<noteq> None"
    and "\<forall>(i, mm, v) \<in> set (cx_output_ids context). \<exists>c. kc_commit E k v i = Inr c"
    and "sender_proof_info E k (cx_parent_key_id context) context (sl_payment_proof slate) = Inl e"
  shows "\<exists>w'. lock_tx_context E km slate context addr_to w = (Inl e, w') \<and>
     out_at E w' = fold (lock_one (tx_log_counter E w (cx_parent_key_id context))) (cx_input_ids context) (out_at E w) \<and>
     tx_at E w' = tx_at E w"
proof -
  let ?p = "cx_parent_key_id context" and ?ins = "cx_input_ids context"
  let ?n = "tx_log_counter E w ?p"
  note K = readyD(1)[OF assms(1)]
  have kr: "keychain_result E km w = Inr k" using assms(2) by (simp add: keychain_def)
  obtain w1 where w1: "next_tx_log_id E ?p w = (Inr ?n, w1)" "frame E {TX_LOG_ID_PREFIX} w w1"
    by (rule next_tx_log_id_frame[OF assms(1)]) (rule that)
  have o1: "out_at E w1 = out_at E w" "tx_at E w1 = tx_at E w"
    using frame_out_at[OF K w1(2)] frame_tx_at[OF K w1(2)] by (simp_all add: prefix_defs)
  obtain d w2 where w2: "fold_each (lock_input E ?n) ?ins 0 w1 = (Inr d, w2)" "frame E output_tables w1 w2"
    "out_at E w2 = fold (lock_one ?n) ?ins (out_at E w)"
    using lock_inputs_ok[OF ready_frame[OF assms(1) w1(2)], of ?ins ?n 0] assms(3) by (auto simp: o1)
  have "lock_tx_context E km slate context addr_to w = (Inl e, w2)"
    using output_commits_ok[OF kr assms(4)] w1(1) w2(1) kr assms(5)
    by (simp add: lock_tx_context_def bindE_app keychain_def batch_def commit_def Let_def)
  then show ?thesis
    using w2(3) frame_tx_at[OF K w2(2)] o1 by (auto simp: prefix_defs)
qed

theorem lock_tx_context_partial_witness:
  "\<exists>w' c. lock_tx_context the_ext None (the_slate\<lparr>sl_payment_proof := Some \<lparr>pi_sender_address = [], pi_receiver_address = [],
        pi_receiver_signature = None\<rparr>\<rparr>) lock_context None saved_wallet
      = (Inl (PaymentProofError ''Payment proof derivation index required''), w') \<and>
     out_at the_ext w' (Identifier 7, None) = Some c \<and> od_status c = Locked"
proof -
  have ctx: "cx_input_ids lock_context = [(Identifier 7, None, 60)]" "cx_output_ids lock_context = [(Identifier 3, None, 49)]"
    "cx_payment_proof_derivation_index lock_context = None"
    by (simp_all add: lock_context_def context_new_def context_add_input_def context_add_output_def)
  have commits: "\<forall>(i, mm, v) \<in> set (cx_output_ids lock_context). \<exists>c. kc_commit the_ext (replicate 32 5) v i = Inr c"
    by (simp add: the_ext_def)
  let ?s = "the_slate\<lparr>sl_payment_proof := Some \<lparr>pi_sender_address = [], pi_receiver_address = [], pi_receiver_signature = None\<rparr>\<rparr>"
  have "sender_proof_info the_ext (replicate 32 5) (cx_parent_key_id lock_context) lock_context (sl_payment_proof ?s)
      = Inl (PaymentProofError ''Payment proof derivation index required'')"
    by (simp add: sender_proof_info_def ctx)
  note sp = this
  have ins: "\<forall>(i, mm, v) \<in> set (cx_input_ids lock_context). out_at the_ext saved_wallet (i, mm) \<noteq> None"
    by (simp add: ctx)
  obtain w' where "lock_tx_context the_ext None ?s lock_context None saved_wallet
      = (Inl (PaymentProofError ''Payment proof derivation index required''), w')"
    "out_at the_ext w' = fold (lock_one (tx_log_counter the_ext saved_wallet (cx_parent_key_id lock_context)))
       (cx_input_ids lock_context) (out_at the_ext saved_wallet)"
    using lock_tx_context_partial[OF saved_wallet_facts(1) keychain_saved_wallet ins commits sp, of None] by blast
  then show ?thesis by (auto simp: ctx lock_one_def)
qed

end
