(* ===== verification/Updater.thy ===== *)
theory Updater
  imports Keys "HOL-Library.AList"
begin

text \<open>
  Bringing the wallet up to date with the node, \<open>libwallet/src/internal/updater.rs\<close>: listing
  outputs and transactions, refreshing the outputs, cancelling a transaction, the balance,
  and the mining rewards.

  A \<open>HashMap\<close> from commitments is an association list with one entry per key; the order in
  which it is walked is \<open>hash_order\<close>. The node's answer to \<open>get_outputs_from_node\<close> is a
  function.
\<close>

section \<open>Listing\<close>

record BlockFees =
  bf_fees :: u64
  bf_height :: u64
  bf_key_id :: "Identifier option"

record OutputCommitMapping =
  oc_output :: OutputData
  oc_commit :: Commitment

text \<open>\<open>match m { Ok(x) => f(x), Err(_) => g }\<close>; a panic is not caught.\<close>

definition match_ok :: "'a op \<Rightarrow> ('a \<Rightarrow> 'b op) \<Rightarrow> 'b op \<Rightarrow> 'b op" where
  "match_ok m f g w = (case m w of
      (Inr x, w') \<Rightarrow> f x w'
    | (Inl (Panic p), w') \<Rightarrow> (Inl (Panic p), w')
    | (Inl _, w') \<Rightarrow> g w')"

text \<open>
  \<open>skip(start).take(end - start)\<close>, with \<open>end\<close> the offset plus the limit, or the number of
  records. Both operations on \<open>usize\<close> wrap.
\<close>

definition paginate :: "nat option \<Rightarrow> nat option \<Rightarrow> 'a list \<Rightarrow> 'a list" where
  "paginate limit offset xs =
     (let start = (case offset of None \<Rightarrow> 0 | Some n \<Rightarrow> n);
          end = (case limit of None \<Rightarrow> length xs | Some l \<Rightarrow> usize_add start l) in
      skip_take start (usize_sub end start) xs)"

text \<open>Anything but \<open>"asc"\<close>, and not only \<open>"desc"\<close>, sorts downwards; no order is \<open>"asc"\<close>.\<close>

definition sort_records :: "string option \<Rightarrow> ('a \<Rightarrow> 'k::linorder) \<Rightarrow> 'a list \<Rightarrow> 'a list" where
  "sort_records sort_order key xs =
     (let order = (case sort_order of None \<Rightarrow> ''asc'' | Some s \<Rightarrow> s) in
      if order = ''asc'' then sort_key key xs
      else if order = ''desc'' then sort_key (\<lambda>x. Reverse (key x)) xs
      else sort_key (\<lambda>x. Reverse (key x)) xs)"

definition output_commit :: "ext \<Rightarrow> Keychain \<Rightarrow> OutputData \<Rightarrow> error + Commitment" where
  "output_commit E k out = (case od_commit out of
      Some c \<Rightarrow> (case from_hex E c of
          None \<Rightarrow> Inl (Panic ''from_hex'')
        | Some v \<Rightarrow> Inr (commitment_from_vec E v))
    | None \<Rightarrow> (case kc_commit E k (od_value out) (od_key_id out) of
          Inl _ \<Rightarrow> Inl (Panic ''keychain.commit'')
        | Inr c \<Rightarrow> Inr c))"

definition output_mapping :: "ext \<Rightarrow> Keychain \<Rightarrow> OutputData \<Rightarrow> error + OutputCommitMapping" where
  "output_mapping E k out =
     and_then (output_commit E k out) (\<lambda>c. Inr \<lparr>oc_output = out, oc_commit = c\<rparr>)"

definition select_outputs ::
    "wallet \<Rightarrow> bool \<Rightarrow> bool \<Rightarrow> u32 option \<Rightarrow> Identifier option \<Rightarrow> OutputData list" where
  "select_outputs w show_spent show_full_history tx_id parent_key_id =
     (let shown = filter (\<lambda>out. show_spent \<or> od_status out \<noteq> Spent);
          outputs = shown (iter w) @ (if show_full_history then shown (history_iter w) else []);
          outputs = (case tx_id of
              Some i \<Rightarrow> filter (\<lambda>out. od_tx_log_entry out = Some i) outputs
            | None \<Rightarrow> outputs) in
      (case parent_key_id of
         Some k \<Rightarrow> filter (\<lambda>out. od_root_key_id out = k) outputs
       | None \<Rightarrow> outputs))"

definition retrieve_outputs ::
    "ext \<Rightarrow> SecretKey option \<Rightarrow> bool \<Rightarrow> bool \<Rightarrow> u32 option \<Rightarrow> Identifier option \<Rightarrow> nat option \<Rightarrow> nat option \<Rightarrow>
     string option \<Rightarrow> (nat \<times> nat \<times> OutputCommitMapping list) op" where
  "retrieve_outputs E keychain_mask show_spent show_full_history tx_id parent_key_id limit offset sort_order =
     bindE (gets (\<lambda>w. sort_records sort_order od_height
              (select_outputs w show_spent show_full_history tx_id parent_key_id))) (\<lambda>outputs.
     (let total_records = length outputs;
          paginated = paginate limit offset outputs;
          records_read = length paginated in
      bindE (keychain E keychain_mask) (\<lambda>k.
      bindE (liftE (map_each (output_mapping E k) paginated)) (\<lambda>res.
      ret (records_read, total_records, res)))))"

text \<open>The four conditions of the filter closure.\<close>

definition outstanding :: "TxLogEntry \<Rightarrow> bool" where
  "outstanding t \<longleftrightarrow> \<not> tl_confirmed t \<and>
     (tl_tx_type t = TxReceived \<or> tl_tx_type t = TxSent \<or> tl_tx_type t = TxSentCreated)"

definition tx_matches ::
    "u32 option \<Rightarrow> Uuid option \<Rightarrow> Identifier option \<Rightarrow> bool \<Rightarrow> TxLogEntry \<Rightarrow> bool" where
  "tx_matches tx_id tx_slate_id parent_key_id outstanding_only t \<longleftrightarrow>
     (case parent_key_id of Some k \<Rightarrow> tl_parent_key_id t = k | None \<Rightarrow> True) \<and>
     (case tx_id of Some i \<Rightarrow> tl_id t = i | None \<Rightarrow> True) \<and>
     (case tx_slate_id of Some u \<Rightarrow> tl_tx_slate_id t = Some u | None \<Rightarrow> True) \<and>
     (if outstanding_only then outstanding t else True)"

definition retrieve_txs ::
    "u32 option \<Rightarrow> Uuid option \<Rightarrow> Identifier option \<Rightarrow> bool \<Rightarrow> nat option \<Rightarrow> nat option \<Rightarrow> string option \<Rightarrow>
     wallet \<Rightarrow> nat \<times> nat \<times> TxLogEntry list" where
  "retrieve_txs tx_id tx_slate_id parent_key_id outstanding_only limit offset sort_order w =
     (let txs = sort_records sort_order tl_creation_ts
                  (filter (tx_matches tx_id tx_slate_id parent_key_id outstanding_only) (tx_log_iter w));
          paginated = paginate limit offset txs in
      (length paginated, length txs, paginated))"

definition txs_of :: "nat \<times> nat \<times> 'a list \<Rightarrow> 'a list" where
  "txs_of r = snd (snd r)"

section \<open>Refreshing the outputs\<close>

type_synonym wallet_outputs = "(Commitment \<times> Identifier \<times> u64 option) list"

definition hash_keys :: "ext \<Rightarrow> wallet_outputs \<Rightarrow> Commitment list" where
  "hash_keys E m = hash_order E (map fst m)"

definition hash_iter :: "ext \<Rightarrow> wallet_outputs \<Rightarrow> wallet_outputs" where
  "hash_iter E m = List.map_filter (\<lambda>c. map_option (Pair c) (map_of m c)) (hash_keys E m)"

definition map_wallet_outputs :: "ext \<Rightarrow> SecretKey option \<Rightarrow> Identifier \<Rightarrow> wallet_outputs op" where
  "map_wallet_outputs E keychain_mask parent_key_id =
     bindE (keychain E keychain_mask) (\<lambda>k.
     bindE (gets (\<lambda>w. filter (\<lambda>x. od_root_key_id x = parent_key_id \<and> od_status x \<noteq> Spent) (iter w))) (\<lambda>unspents.
     fold_each (\<lambda>out m.
        bindE (liftE (output_commit E k out)) (\<lambda>c.
        ret (AList.update c (od_key_id out, od_mmr_index out) m))) unspents []))"

text \<open>The log entry of a mining reward that is seen on the chain for the first time.\<close>

definition coinbase_entry ::
    "ext \<Rightarrow> Identifier \<Rightarrow> u32 \<Rightarrow> OutputData \<Rightarrow> Commitment \<Rightarrow> u64 \<Rightarrow> TxLogEntry" where
  "coinbase_entry E parent_key_id log_id output excess height =
     (update_confirmation_ts (utc_now E)
       ((tx_log_entry_new (utc_now E) parent_key_id ConfirmedCoinbase log_id)
          \<lparr>tl_confirmed := True, tl_amount_credited := od_value output, tl_amount_debited := 0,
           tl_num_outputs := 1, tl_kernel_excess := Some excess,
           tl_kernel_lookup_min_height := Some height\<rparr>))
       \<lparr>tl_confirmation_height := Some height\<rparr>"

definition confirm_coinbase ::
    "ext \<Rightarrow> Identifier \<Rightarrow> u64 \<Rightarrow> Commitment \<Rightarrow> OutputData \<Rightarrow> OutputData op" where
  "confirm_coinbase E parent_key_id height c output =
     (if od_is_coinbase output \<and> od_status output = Unconfirmed then
        bindE (next_tx_log_id E parent_key_id) (\<lambda>log_id.
        bindE (liftE (commit_value E (od_value output))) (\<lambda>over_commit.
        bindE (liftE (commit_sum E [c] [over_commit])) (\<lambda>excess.
        bindE (save_tx_log_entry E (coinbase_entry E parent_key_id log_id output excess height) parent_key_id) (\<lambda>_.
        ret (output\<lparr>od_tx_log_entry := Some log_id\<rparr>)))))
      else ret output)"

definition confirmed_entry :: "ext \<Rightarrow> u64 \<Rightarrow> TxLogEntry \<Rightarrow> TxLogEntry" where
  "confirmed_entry E height t =
     (let t = (update_confirmation_ts (utc_now E) t)\<lparr>tl_confirmation_height := Some height, tl_confirmed := True\<rparr> in
      if tl_tx_type t = TxSentMempool \<or> tl_tx_type t = TxSentCreated then t\<lparr>tl_tx_type := TxSent\<rparr> else t)"

definition confirm_tx :: "ext \<Rightarrow> Identifier \<Rightarrow> u64 \<Rightarrow> OutputData \<Rightarrow> unit op" where
  "confirm_tx E parent_key_id height output =
     (if \<not> od_is_coinbase output \<and> od_status output = Unconfirmed then
        bindE (gets (\<lambda>w. find (\<lambda>t. Some (tl_id t) = od_tx_log_entry output \<and> tl_parent_key_id t = parent_key_id)
                           (batch_tx_log_iter w))) (\<lambda>tx.
        (case tx of
           Some t \<Rightarrow> save_tx_log_entry E (confirmed_entry E height t) parent_key_id
         | None \<Rightarrow> ret ()))
      else ret ())"

definition apply_output ::
    "ext \<Rightarrow> Identifier \<Rightarrow> u64 \<Rightarrow> (Commitment \<Rightarrow> (string \<times> u64 \<times> u64) option) \<Rightarrow>
     Commitment \<times> Identifier \<times> u64 option \<Rightarrow> unit op" where
  "apply_output E parent_key_id height api_outputs entry = (case entry of (c, i, mmr_index) \<Rightarrow>
     if_let_ok (batch_get E i mmr_index) (\<lambda>output.
       (case api_outputs c of
          Some (_, h, _) \<Rightarrow>
            bindE (confirm_coinbase E parent_key_id height c output) (\<lambda>output.
            bindE (confirm_tx E parent_key_id height output) (\<lambda>_.
            save E (mark_unspent (output\<lparr>od_height := h\<rparr>))))
        | None \<Rightarrow> save E (mark_spent output))))"

definition apply_api_outputs ::
    "ext \<Rightarrow> SecretKey option \<Rightarrow> wallet_outputs \<Rightarrow> (Commitment \<Rightarrow> (string \<times> u64 \<times> u64) option) \<Rightarrow> u64 \<Rightarrow>
     Identifier \<Rightarrow> unit op" where
  "apply_api_outputs E keychain_mask wallet_outputs api_outputs height parent_key_id =
     bindE (gets (last_confirmed_height E)) (\<lambda>last_height.
     if height < last_height then ret ()
     else
       bindE (batch E keychain_mask) (\<lambda>b.
       bindE (for_each (apply_output E parent_key_id height api_outputs) (hash_iter E wallet_outputs)) (\<lambda>_.
       bindE (save_last_confirmed_height E parent_key_id height) (\<lambda>_.
       commit))))"

definition clean_old_unconfirmed :: "ext \<Rightarrow> SecretKey option \<Rightarrow> u64 \<Rightarrow> unit op" where
  "clean_old_unconfirmed E keychain_mask height =
     (if height < 50 then ret ()
      else
        bindE (gets (\<lambda>w. map od_key_id (filter (\<lambda>out. od_status out = Unconfirmed \<and> od_height out > 0
                 \<and> od_height out < height - 50 \<and> od_is_coinbase out) (iter w)))) (\<lambda>ids_to_del.
        bindE (batch E keychain_mask) (\<lambda>b.
        bindE (for_each (\<lambda>i. delete E i None None) ids_to_del) (\<lambda>_.
        commit))))"

definition refresh_output_state ::
    "ext \<Rightarrow> SecretKey option \<Rightarrow> u64 \<Rightarrow> Identifier \<Rightarrow> unit op" where
  "refresh_output_state E keychain_mask height parent_key_id =
     bindE (map_wallet_outputs E keychain_mask parent_key_id) (\<lambda>wallet_outputs.
     bindE (liftE (get_outputs_from_node E (hash_keys E wallet_outputs))) (\<lambda>api_outputs.
     bindE (apply_api_outputs E keychain_mask wallet_outputs api_outputs height parent_key_id) (\<lambda>_.
     clean_old_unconfirmed E keychain_mask height)))"

definition refresh_outputs :: "ext \<Rightarrow> SecretKey option \<Rightarrow> Identifier \<Rightarrow> unit op" where
  "refresh_outputs E keychain_mask parent_key_id =
     bindE (liftE (get_node_status E)) (\<lambda>node_status.
     if ns_sync_status node_status \<noteq> ''no_sync'' then throw (NodeStatusError ''Node is not synced'')
     else
       bindE (liftE (get_chain_tip E)) (\<lambda>(height, _).
       refresh_output_state E keychain_mask height parent_key_id))"

section \<open>Cancelling\<close>

definition cancelled_type :: "TxLogEntryType \<Rightarrow> TxLogEntryType" where
  "cancelled_type t =
     (let t = (if t = TxSentCreated then TxSentCancelled else t) in
      if t = TxReceived then TxReceivedCancelled else t)"

definition cancel_output :: "ext \<Rightarrow> u32 \<Rightarrow> OutputData \<Rightarrow> unit op" where
  "cancel_output E tx_id out =
     bindE (if od_status out = Unconfirmed
            then delete E (od_key_id out) (od_mmr_index out) (Some tx_id) else ret ()) (\<lambda>_.
     if od_status out = Locked then save E (out\<lparr>od_status := Unspent\<rparr>) else ret ())"

definition cancel_tx_and_outputs ::
    "ext \<Rightarrow> SecretKey option \<Rightarrow> TxLogEntry \<Rightarrow> OutputData list \<Rightarrow> Identifier \<Rightarrow> unit op" where
  "cancel_tx_and_outputs E keychain_mask tx outputs parent_key_id =
     bindE (batch E keychain_mask) (\<lambda>b.
     bindE (for_each (cancel_output E (tl_id tx)) outputs) (\<lambda>_.
     bindE (save_tx_log_entry E (tx\<lparr>tl_tx_type := cancelled_type (tl_tx_type tx)\<rparr>) parent_key_id) (\<lambda>_.
     commit)))"

section \<open>The balance\<close>

text \<open>The local totals of the loop.\<close>

record info_totals =
  it_unspent :: u64
  it_immature :: u64
  it_awaiting_finalization :: u64
  it_unconfirmed :: u64
  it_locked :: u64
  it_unspent_unconfirmed :: u64

definition add_info :: "u64 \<Rightarrow> u64 \<Rightarrow> info_totals \<Rightarrow> OutputData \<Rightarrow> info_totals" where
  "add_info current_height minimum_confirmations t out = (case od_status out of
      Unspent \<Rightarrow>
        if od_is_coinbase out \<and> od_lock_height out > current_height
        then t\<lparr>it_immature := it_immature t + od_value out\<rparr>
        else if num_confirmations out current_height < minimum_confirmations
        then t\<lparr>it_unconfirmed := it_unconfirmed t + od_value out,
               it_unspent_unconfirmed := it_unspent_unconfirmed t + od_value out\<rparr>
        else t\<lparr>it_unspent := it_unspent t + od_value out\<rparr>
    | Unconfirmed \<Rightarrow>
        if \<not> od_is_coinbase out then
          (if minimum_confirmations = 0 then t\<lparr>it_unconfirmed := it_unconfirmed t + od_value out\<rparr>
           else t\<lparr>it_awaiting_finalization := it_awaiting_finalization t + od_value out\<rparr>)
        else t
    | Locked \<Rightarrow> t\<lparr>it_locked := it_locked t + od_value out\<rparr>
    | Spent \<Rightarrow> t
    | Deleted \<Rightarrow> t)"

definition no_totals :: info_totals where
  "no_totals = \<lparr>it_unspent = 0, it_immature = 0, it_awaiting_finalization = 0, it_unconfirmed = 0,
                it_locked = 0, it_unspent_unconfirmed = 0\<rparr>"

definition retrieve_info :: "ext \<Rightarrow> Identifier \<Rightarrow> u64 \<Rightarrow> wallet \<Rightarrow> WalletInfo" where
  "retrieve_info E parent_key_id minimum_confirmations w =
     (let current_height = last_confirmed_height E w;
          outputs = filter (\<lambda>out. od_root_key_id out = parent_key_id) (iter w);
          t = foldl (add_info current_height minimum_confirmations) no_totals outputs in
      \<lparr>wi_last_confirmed_height = current_height, wi_minimum_confirmations = minimum_confirmations,
       wi_total = it_unspent t + it_immature t + it_locked t + it_unspent_unconfirmed t,
       wi_amount_awaiting_finalization = it_awaiting_finalization t,
       wi_amount_awaiting_confirmation = it_unconfirmed t,
       wi_amount_immature = it_immature t, wi_amount_currently_spendable = it_unspent t,
       wi_amount_locked = it_locked t\<rparr>)"

section \<open>Mining rewards\<close>

definition reward_key :: "ext \<Rightarrow> SecretKey option \<Rightarrow> Identifier option \<Rightarrow> Identifier op" where
  "reward_key E keychain_mask key_id = (case key_id of
      Some key_id \<Rightarrow> match_ok (retrieve_existing_key E key_id None) (\<lambda>k. ret (fst k))
                       (next_available_key E keychain_mask)
    | None \<Rightarrow> next_available_key E keychain_mask)"

definition reward_candidate ::
    "ext \<Rightarrow> Identifier \<Rightarrow> Identifier \<Rightarrow> string option \<Rightarrow> u64 \<Rightarrow> u64 \<Rightarrow> OutputData" where
  "reward_candidate E parent_key_id key_id c amount height =
     \<lparr>od_root_key_id = parent_key_id, od_key_id = key_id, od_n_child = id_last_path_index E key_id,
      od_commit = c, od_mmr_index = None, od_value = amount, od_status = Unconfirmed,
      od_height = height, od_lock_height = height + coinbase_maturity E, od_is_coinbase = True,
      od_tx_log_entry = None\<rparr>"

definition receive_coinbase ::
    "ext \<Rightarrow> SecretKey option \<Rightarrow> BlockFees \<Rightarrow> bool \<Rightarrow> (Output \<times> TxKernel \<times> BlockFees) op" where
  "receive_coinbase E keychain_mask block_fees test_mode =
     (let height = bf_height block_fees; amount = reward E (bf_fees block_fees) (bf_height block_fees) in
      bindE (gets w_parent_key_id) (\<lambda>parent_key_id.
      bindE (reward_key E keychain_mask (bf_key_id block_fees)) (\<lambda>key_id.
      bindE (calc_commit_for_cache E keychain_mask amount key_id) (\<lambda>c.
      bindE (batch E keychain_mask) (\<lambda>b.
      bindE (save E (reward_candidate E parent_key_id key_id c amount height)) (\<lambda>_.
      bindE commit (\<lambda>_.
      bindE (keychain E keychain_mask) (\<lambda>k.
      bindE (liftE (reward_output E k key_id (bf_fees block_fees) test_mode height)) (\<lambda>(out, kern).
      ret (out, kern, block_fees\<lparr>bf_key_id := Some key_id\<rparr>))))))))))"

definition receive_foundation ::
    "ext \<Rightarrow> SecretKey option \<Rightarrow> BlockFees \<Rightarrow> bool \<Rightarrow> (Output \<times> TxKernel \<times> BlockFees) op" where
  "receive_foundation E keychain_mask block_fees test_mode =
     (let height = bf_height block_fees; amount = cumulative_reward_foundation E (bf_height block_fees) in
      bindE (gets w_parent_key_id) (\<lambda>parent_key_id.
      bindE (reward_key E keychain_mask (bf_key_id block_fees)) (\<lambda>key_id.
      bindE (calc_commit_for_cache E keychain_mask amount key_id) (\<lambda>c.
      bindE (batch E keychain_mask) (\<lambda>b.
      bindE (save E (reward_candidate E parent_key_id key_id c amount height)) (\<lambda>_.
      bindE commit (\<lambda>_.
      bindE (keychain E keychain_mask) (\<lambda>k.
      bindE (liftE (foundation_output E k key_id test_mode height)) (\<lambda>(out, kern).
      ret (out, kern, block_fees\<lparr>bf_key_id := Some key_id\<rparr>))))))))))"

definition cb_data :: "Output \<times> TxKernel \<times> BlockFees \<Rightarrow> CbData" where
  "cb_data r = (case r of (out, kern, block_fees) \<Rightarrow>
     \<lparr>cb_output = out, cb_kernel = kern, cb_key_id = bf_key_id block_fees\<rparr>)"

definition build_coinbase :: "ext \<Rightarrow> SecretKey option \<Rightarrow> BlockFees \<Rightarrow> bool \<Rightarrow> CbData op" where
  "build_coinbase E keychain_mask block_fees test_mode =
     bindE (receive_coinbase E keychain_mask block_fees test_mode) (\<lambda>r. ret (cb_data r))"

definition build_foundation :: "ext \<Rightarrow> SecretKey option \<Rightarrow> BlockFees \<Rightarrow> bool \<Rightarrow> CbData op" where
  "build_foundation E keychain_mask block_fees test_mode =
     bindE (receive_foundation E keychain_mask block_fees test_mode) (\<lambda>r. ret (cb_data r))"

end
