(* ===== verification/ListingProps.thy ===== *)
theory ListingProps
  imports Updater SelectionProps
begin

text \<open>
  What the listings of \<open>updater.rs\<close> return: the order, the pages, the filter, the commitments,
  and the balance in terms of the coins that can be selected.
\<close>

section \<open>Order and pages\<close>

definition asc :: "string option \<Rightarrow> bool" where
  "asc sort_order \<longleftrightarrow> sort_order = None \<or> sort_order = Some ''asc''"

lemma sort_records_asc: "asc so \<Longrightarrow> sort_records so key xs = sort_key key xs"
  by (auto simp: sort_records_def asc_def)

lemma sort_records_desc: "\<not> asc so \<Longrightarrow> sort_records so key xs = sort_key (\<lambda>x. Reverse (key x)) xs"
  by (auto simp: sort_records_def asc_def split: option.splits)

lemma mset_sort_records [simp]: "mset (sort_records so key xs) = mset xs"
  by (cases "asc so") (simp_all add: sort_records_asc sort_records_desc)

lemma set_sort_records [simp]: "set (sort_records so key xs) = set xs"
  by (metis mset_sort_records set_mset_mset)

lemma length_sort_records [simp]: "length (sort_records so key xs) = length xs"
  by (metis mset_sort_records size_mset)

lemma sorted_sort_records:
  "sorted_wrt (\<lambda>a b. if asc so then key a \<le> key b else key b \<le> key a) (sort_records so key xs)"
proof (cases "asc so")
  case True
  then show ?thesis using sorted_sort_key[of key xs] by (simp add: sort_records_asc sorted_map)
next
  case False
  then show ?thesis
    using sorted_sort_key[of "\<lambda>x. Reverse (key x)" xs] by (simp add: sort_records_desc sorted_map)
qed

lemma paginate_limit:
  assumes "start + l < 2 ^ 64"
  shows "paginate (Some l) (Some start) xs = take l (drop start xs)"
proof -
  have "usize_add start l = start + l" using assms unfolding usize_add_def by (rule mod_less)
  then show ?thesis by (simp add: paginate_def usize_sub_def skip_take_def Let_def)
qed

lemma paginate_all: "length xs < 2 ^ 64 \<Longrightarrow> paginate None None xs = xs"
  by (simp add: paginate_def usize_sub_def skip_take_def)

lemma paginate_first: "l < 2 ^ 64 \<Longrightarrow> paginate (Some l) None xs = take l xs"
  by (simp add: paginate_def usize_add_def usize_sub_def skip_take_def)

lemma paginate_rest:
  assumes "length xs < 2 ^ 64"
  shows "paginate None (Some start) xs = drop start xs"
proof -
  have "usize_sub (length xs) start \<ge> length (drop start xs)" by (simp add: usize_sub_def)
  then show ?thesis by (simp add: paginate_def skip_take_def)
qed

lemma set_paginate: "set (paginate l off xs) \<subseteq> set xs"
  by (simp add: paginate_def set_skip_take Let_def)

lemma concat_pages:
  "concat (map (\<lambda>i. take l (drop (i * l) xs)) [0..<n]) = take (n * l) xs"
proof (induction n)
  case (Suc n)
  have "take (Suc n * l) xs = take (n * l + l) xs" by (simp add: add.commute)
  then show ?case using Suc by (simp add: take_add)
qed simp

text \<open>Walking through a listing page by page, with limit \<open>l\<close> and offsets \<open>0, l, 2 l, \<dots>\<close>, gives
  every record once and in order, whatever the listing; a page after the last is empty.\<close>

theorem pages_cover:
  assumes "length xs \<le> n * l" and "(n + 1) * l < 2 ^ 64"
  shows "concat (map (\<lambda>i. paginate (Some l) (Some (i * l)) xs) [0..<n]) = xs \<and>
    paginate (Some l) (Some (n * l)) xs = []"
proof -
  have "i * l + l < 2 ^ 64" if "i \<le> n" for i
  proof -
    have "(i + 1) * l \<le> (n + 1) * l" using that by (intro mult_right_mono) simp_all
    then have "(i + 1) * l < 2 ^ 64" using assms(2) by (rule le_less_trans)
    then show ?thesis by (simp add: add.commute)
  qed
  then have p: "paginate (Some l) (Some (i * l)) xs = take l (drop (i * l) xs)" if "i \<le> n" for i
    using that by (intro paginate_limit) simp
  then have "map (\<lambda>i. paginate (Some l) (Some (i * l)) xs) [0..<n] = map (\<lambda>i. take l (drop (i * l) xs)) [0..<n]"
    by (intro map_cong) simp_all
  note this[THEN arg_cong[where f = concat], unfolded concat_pages]
  moreover have "paginate (Some l) (Some (n * l)) xs = []" using assms(1) p[of n] by simp
  ultimately show ?thesis using assms(1) by (simp only: take_all)
qed

theorem pages_cover_witness:
  "concat (map (\<lambda>i. paginate (Some 2) (Some (i * 2)) [1, 2, 3, 4, 5 :: int]) [0..<3]) = [1, 2, 3, 4, 5]"
  by (rule conjunct1[OF pages_cover]) simp_all

text \<open>\<open>retrieve_txs\<close> lists exactly the log entries that match every filter given, each as often
  as it is in the log, by creation time: upwards for \<open>"asc"\<close> or no order, downwards for
  any other order. It returns the page asked for and the two counts.\<close>

theorem retrieve_txs_lists:
  "\<exists>txs. mset txs = filter_mset (tx_matches tx_id slate_id parent outst) (mset (tx_log_iter w)) \<and>
     sorted_wrt (\<lambda>a b. if asc so then tl_creation_ts a \<le> tl_creation_ts b
                        else tl_creation_ts b \<le> tl_creation_ts a) txs \<and>
     retrieve_txs tx_id slate_id parent outst limit offset so w =
       (length (paginate limit offset txs), length txs, paginate limit offset txs)"
  by (rule exI[of _ "sort_records so tl_creation_ts (filter (tx_matches tx_id slate_id parent outst) (tx_log_iter w))"])
     (simp add: retrieve_txs_def sorted_sort_records Let_def)

text \<open>Without paging every matching entry is returned.\<close>

lemma set_txs_of:
  assumes "length (tx_log_iter w) < 2 ^ 64"
  shows "set (txs_of (retrieve_txs tx_id slate_id parent outst None None so w)) =
     {t \<in> set (tx_log_iter w). tx_matches tx_id slate_id parent outst t}"
proof -
  have "length (filter P (tx_log_iter w)) < 2 ^ 64" for P
    using assms le_less_trans length_filter_le by blast
  then show ?thesis by (auto simp: retrieve_txs_def txs_of_def paginate_all)
qed

section \<open>The balance\<close>

text \<open>The kinds of output \<open>retrieve_info\<close> tells apart at a height.\<close>

definition immature :: "u64 \<Rightarrow> OutputData \<Rightarrow> bool" where
  "immature h out \<longleftrightarrow> od_status out = Unspent \<and> od_is_coinbase out \<and> od_lock_height out > h"

definition young :: "u64 \<Rightarrow> u64 \<Rightarrow> OutputData \<Rightarrow> bool" where
  "young h m out \<longleftrightarrow> od_status out = Unspent \<and> \<not> immature h out \<and> num_confirmations out h < m"

definition spendable :: "u64 \<Rightarrow> u64 \<Rightarrow> OutputData \<Rightarrow> bool" where
  "spendable h m out \<longleftrightarrow> od_status out = Unspent \<and> \<not> immature h out \<and> m \<le> num_confirmations out h"

definition pending :: "OutputData \<Rightarrow> bool" where
  "pending out \<longleftrightarrow> od_status out = Unconfirmed \<and> \<not> od_is_coinbase out"

lemmas output_kinds = immature_def young_def spendable_def pending_def

lemma add_info_step:
  "it_unspent (add_info h m t out) = it_unspent t + (if spendable h m out then od_value out else 0)"
  "it_immature (add_info h m t out) = it_immature t + (if immature h out then od_value out else 0)"
  "it_locked (add_info h m t out) = it_locked t + (if od_status out = Locked then od_value out else 0)"
  "it_unspent_unconfirmed (add_info h m t out) = it_unspent_unconfirmed t + (if young h m out then od_value out else 0)"
  "it_awaiting_finalization (add_info h m t out) =
     it_awaiting_finalization t + (if pending out \<and> m \<noteq> 0 then od_value out else 0)"
  "it_unconfirmed (add_info h m t out) =
     it_unconfirmed t + (if young h m out \<or> pending out \<and> m = 0 then od_value out else 0)"
  by (cases "od_status out"; auto simp: add_info_def output_kinds not_less)+

text \<open>A field that every step raises by the value of the outputs of one kind ends as their sum.\<close>

lemma foldl_field:
  assumes "\<And>t out. field (f t out) = field t + (if P out then od_value out else 0)"
  shows "field (foldl f t outs) = field t + sum_values (filter P outs)"
  by (induction outs arbitrary: t) (simp_all add: assms add.assoc)

lemma foldl_add_info:
  "it_unspent (foldl (add_info h m) t outs) = it_unspent t + sum_values (filter (spendable h m) outs)"
  "it_immature (foldl (add_info h m) t outs) = it_immature t + sum_values (filter (immature h) outs)"
  "it_locked (foldl (add_info h m) t outs) = it_locked t + sum_values (filter (\<lambda>x. od_status x = Locked) outs)"
  "it_unspent_unconfirmed (foldl (add_info h m) t outs) =
     it_unspent_unconfirmed t + sum_values (filter (young h m) outs)"
  "it_awaiting_finalization (foldl (add_info h m) t outs) =
     it_awaiting_finalization t + sum_values (filter (\<lambda>x. pending x \<and> m \<noteq> 0) outs)"
  by (rule foldl_field, rule add_info_step)+

lemma nat_values_simps [simp]:
  "nat_values [] = 0" "nat_values (x # xs) = unat (od_value x) + nat_values xs"
  by (simp_all add: nat_values_def)

lemma nat_values_filter_le: "nat_values (filter P xs) \<le> nat_values xs"
  by (rule nat_values_le) (simp add: multiset_filter_subset)

lemma unat_sum_filter: "nat_values xs < 2 ^ 64 \<Longrightarrow> unat (sum_values (filter P xs)) = nat_values (filter P xs)"
  by (rule unat_sum_values) (rule le_less_trans[OF nat_values_filter_le])

lemma nat_values_partition:
  "(\<And>x. \<not> (P x \<and> Q x)) \<Longrightarrow>
     nat_values (filter P xs) + nat_values (filter Q xs) = nat_values (filter (\<lambda>x. P x \<or> Q x) xs)"
  by (induction xs) auto

lemma info_total_parts:
  "nat_values (filter (spendable h m) xs) + nat_values (filter (immature h) xs) +
   nat_values (filter (\<lambda>x. od_status x = Locked) xs) + nat_values (filter (young h m) xs) =
   nat_values (filter (\<lambda>x. od_status x = Unspent \<or> od_status x = Locked) xs)"
  by (induction xs) (auto simp: output_kinds not_less)

lemma unat_add4:
  "unat a = A \<Longrightarrow> unat b = B \<Longrightarrow> unat c = C \<Longrightarrow> unat d = D \<Longrightarrow> A + B + C + D < 2 ^ 64 \<Longrightarrow>
     unat (a + b + c + d :: u64) = A + B + C + D"
  by (simp add: unat_add_exact)

text \<open>The coins selection may use are the spendable ones when confirmations are asked for.\<close>

lemma nat_values_eligible_coins:
  assumes "0 < m" and "\<And>out. out \<in> set (iter w) \<Longrightarrow> od_root_key_id out = parent \<Longrightarrow> od_status out = Unspent \<Longrightarrow>
      \<not> od_is_coinbase out \<Longrightarrow> od_lock_height out \<le> h"
  shows "nat_values (eligible_coins w h m parent) =
    nat_values (filter (spendable h m) (filter (\<lambda>out. od_root_key_id out = parent) (iter w)))"
proof -
  have "filter (\<lambda>out. od_root_key_id out = parent \<and> eligible_to_spend out h m) (iter w) =
      filter (spendable h m) (filter (\<lambda>out. od_root_key_id out = parent) (iter w))"
    unfolding filter_filter
    by (rule filter_cong) (use assms in \<open>auto simp: eligible_to_spend_iff output_kinds not_less\<close>)
  then show ?thesis unfolding eligible_coins_def by (metis mset_sort nat_values_mset)
qed

text \<open>C25. When the account holds less than \<open>2 ^ 64\<close> in all: the total of \<open>retrieve_info\<close> is the value of
  the account's unspent and locked outputs, and the part said to be spendable is exactly
  what coin selection at that height can draw on, if at least one confirmation is asked for
  and outputs other than coinbases are not height-locked.\<close>

theorem balance_agrees_with_selection:
  assumes "nat_values (filter (\<lambda>out. od_root_key_id out = parent) (iter w)) < 2 ^ 64"
    and "0 < m" and "\<And>out. out \<in> set (iter w) \<Longrightarrow> od_root_key_id out = parent \<Longrightarrow> od_status out = Unspent \<Longrightarrow>
      \<not> od_is_coinbase out \<Longrightarrow> od_lock_height out \<le> last_confirmed_height E w"
  shows "unat (wi_total (retrieve_info E parent m w)) =
      nat_values (filter (\<lambda>out. od_root_key_id out = parent \<and> od_status out \<in> {Unspent, Locked}) (iter w)) \<and>
    unat (wi_amount_currently_spendable (retrieve_info E parent m w)) =
      nat_values (eligible_coins w (last_confirmed_height E w) m parent) \<and>
    unat (wi_amount_awaiting_finalization (retrieve_info E parent m w)) =
      nat_values (filter (\<lambda>out. od_root_key_id out = parent \<and> pending out) (iter w))"
proof -
  let ?h = "last_confirmed_height E w" and ?outs = "filter (\<lambda>out. od_root_key_id out = parent) (iter w)"
  let ?t = "foldl (add_info ?h m) no_totals ?outs"
  have z: "it_unspent no_totals = 0" "it_immature no_totals = 0" "it_locked no_totals = 0"
    "it_unspent_unconfirmed no_totals = 0" "it_awaiting_finalization no_totals = 0"
    by (simp_all add: no_totals_def)
  note t = foldl_add_info[of ?h m no_totals ?outs, unfolded z add_0]
  note U = unat_sum_filter[OF assms(1)]
  have sum: "nat_values (filter (spendable ?h m) ?outs) + nat_values (filter (immature ?h) ?outs) +
      nat_values (filter (\<lambda>x. od_status x = Locked) ?outs) + nat_values (filter (young ?h m) ?outs) < 2 ^ 64"
    unfolding info_total_parts using nat_values_filter_le assms(1) by (rule le_less_trans)
  have "unat (it_unspent ?t + it_immature ?t + it_locked ?t + it_unspent_unconfirmed ?t) =
      nat_values (filter (\<lambda>x. od_status x = Unspent \<or> od_status x = Locked) ?outs)"
    unfolding t info_total_parts[of ?h m ?outs, symmetric] 
    by (rule unat_add4[OF U U U U sum])
  moreover have "unat (it_unspent ?t) = nat_values (eligible_coins w ?h m parent)"
    unfolding t U using nat_values_eligible_coins[OF assms(2,3)] by simp
  moreover have "unat (it_awaiting_finalization ?t) = nat_values (filter pending ?outs)"
    unfolding t U using assms(2) by (simp add: word_gt_0)
  ultimately show ?thesis
    by (simp add: retrieve_info_def Let_def filter_filter)
qed

theorem balance_agrees_with_selection_witness:
  "unat (wi_total (retrieve_info the_ext (Identifier 0) 1 saved_wallet)) = 60"
  using balance_agrees_with_selection[where parent = "Identifier 0" and w = saved_wallet and m = 1 and E = the_ext]
  by (simp add: iter_saved_wallet the_output_def)

section \<open>Outputs with their commitments\<close>

text \<open>A record whose cached commitment is readable, or can be computed, is listed.\<close>

definition listable :: "ext \<Rightarrow> Keychain \<Rightarrow> OutputData \<Rightarrow> bool" where
  "listable E k out \<longleftrightarrow> (case od_commit out of
      Some c \<Rightarrow> from_hex E c \<noteq> None
    | None \<Rightarrow> (\<exists>c. kc_commit E k (od_value out) (od_key_id out) = Inr c))"

lemma output_mapping_ok:
  assumes "listable E k out"
  obtains c where "output_mapping E k out = Inr \<lparr>oc_output = out, oc_commit = c\<rparr>"
  using assms by (auto simp: listable_def output_mapping_def output_commit_def split: option.splits)

lemma output_mappings_ok:
  assumes "\<forall>out \<in> set outs. listable E k out"
  obtains ms where "map_each (output_mapping E k) outs = Inr ms" "map oc_output ms = outs"
proof -
  have "\<exists>ms. map_each (output_mapping E k) outs = Inr ms \<and> map oc_output ms = outs"
    using assms
  proof (induction outs)
    case (Cons out outs)
    obtain c where "output_mapping E k out = Inr \<lparr>oc_output = out, oc_commit = c\<rparr>"
      using output_mapping_ok[of E k out] Cons.prems by auto
    then show ?case using Cons by auto
  qed simp
  then show ?thesis using that by blast
qed

lemma retrieve_outputs_ok:
  assumes "keychain E km w = (Inr k, w)" and "\<forall>out \<in> set (select_outputs w spent hist i p). listable E k out"
  obtains ms where "retrieve_outputs E km spent hist i p limit offset so w =
      (Inr (length (paginate limit offset (sort_records so od_height (select_outputs w spent hist i p))),
        length (select_outputs w spent hist i p), ms), w)"
    and "map oc_output ms = paginate limit offset (sort_records so od_height (select_outputs w spent hist i p))"
proof -
  let ?page = "paginate limit offset (sort_records so od_height (select_outputs w spent hist i p))"
  have "\<forall>out \<in> set ?page. listable E k out"
    using set_paginate[of limit offset "sort_records so od_height (select_outputs w spent hist i p)"] assms(2)
    by auto
  then obtain ms where ms: "map_each (output_mapping E k) ?page = Inr ms" "map oc_output ms = ?page"
    by (rule output_mappings_ok)
  show ?thesis
    by (rule that[of ms]) (simp_all add: retrieve_outputs_def bindE_app assms(1) ms Let_def)
qed

end
