(* ===== verification/Tx.thy ===== *)
theory Tx
  imports Updater Selection
begin

text \<open>
  The steps of a transaction on the wallet, \<open>libwallet/src/internal/tx.rs\<close>: new slates, the
  sender's and the recipient's contribution, completion, cancelling, the updates of the
  stored log entry, and payment proofs.

  A function that takes \<open>&mut slate\<close> returns the slate with its result.
\<close>

section \<open>New slates and contributions\<close>

definition bump_version :: "ext \<Rightarrow> u64 \<Rightarrow> u16 \<Rightarrow> VersionCompatInfo \<Rightarrow> VersionCompatInfo" where
  "bump_version E height v info =
     (if valid_header_version E height v then info\<lparr>vc_block_header_version := v\<rparr> else info)"

definition new_tx_slate :: "ext \<Rightarrow> u64 \<Rightarrow> nat \<Rightarrow> bool \<Rightarrow> u64 option \<Rightarrow> error + Slate" where
  "new_tx_slate E amount num_participants use_test_rng ttl_blocks =
     and_then (get_chain_tip E) (\<lambda>(current_height, _).
     (let slate = slate_blank (new_v4 E) (empty_transaction E) num_participants;
          slate = (case ttl_blocks of
              Some b \<Rightarrow> slate\<lparr>sl_ttl_cutoff_height := Some (current_height + b)\<rparr>
            | None \<Rightarrow> slate);
          slate = (if use_test_rng then slate\<lparr>sl_id := test_slate_id E\<rparr> else slate) in
      Inr (slate\<lparr>sl_amount := amount, sl_height := current_height,
                 sl_version_info := bump_version E current_height 7
                   (bump_version E current_height 6 (sl_version_info slate)),
                 sl_lock_height := 0\<rparr>)))"

definition estimate_send_tx ::
    "ext \<Rightarrow> SecretKey option \<Rightarrow> u64 \<Rightarrow> u64 \<Rightarrow> nat \<Rightarrow> nat \<Rightarrow> bool \<Rightarrow> Identifier \<Rightarrow> (u64 \<times> u64) op" where
  "estimate_send_tx E keychain_mask amount minimum_confirmations max_outputs num_change_outputs use_all
       parent_key_id =
     bindE (liftE (get_chain_tip E)) (\<lambda>(current_height, _).
     bindE (refresh_outputs E keychain_mask parent_key_id) (\<lambda>_.
     bindE (gets (\<lambda>w. select_coins_and_fee E w amount current_height minimum_confirmations max_outputs
                        num_change_outputs use_all parent_key_id)) (\<lambda>r.
     bindE (liftE r) (\<lambda>(coins, total, amount, fee).
     ret (total, fee)))))"

text \<open>Round 1 and, for the second party, round 2 with the keys of a context.\<close>

definition sign_rounds ::
    "ext \<Rightarrow> SecretKey option \<Rightarrow> Context \<Rightarrow> nat \<Rightarrow> nat \<Rightarrow> string option \<Rightarrow> bool \<Rightarrow> bool \<Rightarrow> Slate \<Rightarrow> (Context \<times> Slate) op" where
  "sign_rounds E keychain_mask context id1 id2 message is_initiator use_test_rng slate =
     bindE (keychain E keychain_mask) (\<lambda>k.
     bindE (on_slate (fill_round_1 E k (cx_sec_key context) (cx_sec_nonce context) id1 message use_test_rng) slate)
       (\<lambda>(sec_key, slate).
     (let context = context\<lparr>cx_sec_key := sec_key\<rparr> in
      if \<not> is_initiator then
        bindE (keychain E keychain_mask) (\<lambda>_.
        bindE (on_slate (fill_round_2 E (cx_sec_key context) (cx_sec_nonce context) id2) slate) (\<lambda>(_, slate).
        ret (context, slate)))
      else ret (context, slate))))"

definition add_inputs_to_slate ::
    "ext \<Rightarrow> SecretKey option \<Rightarrow> Slate \<Rightarrow> u64 \<Rightarrow> nat \<Rightarrow> nat \<Rightarrow> bool \<Rightarrow> Identifier \<Rightarrow> nat \<Rightarrow> string option \<Rightarrow>
     bool \<Rightarrow> bool \<Rightarrow> (Context \<times> Slate) op" where
  "add_inputs_to_slate E keychain_mask slate minimum_confirmations max_outputs num_change_outputs use_all
       parent_key_id participant_id message is_initiator use_test_rng =
     bindE (refresh_outputs E keychain_mask parent_key_id) (\<lambda>_.
     bindE (keychain E keychain_mask) (\<lambda>k.
     bindE (build_send_tx E k keychain_mask slate minimum_confirmations max_outputs num_change_outputs use_all
              parent_key_id use_test_rng) (\<lambda>(context, slate).
     sign_rounds E keychain_mask context participant_id participant_id message is_initiator use_test_rng slate)))"

definition add_output_to_slate ::
    "ext \<Rightarrow> SecretKey option \<Rightarrow> Slate \<Rightarrow> Identifier \<Rightarrow> nat \<Rightarrow> string option \<Rightarrow> bool \<Rightarrow> bool \<Rightarrow> (Context \<times> Slate) op" where
  "add_output_to_slate E keychain_mask slate parent_key_id participant_id message is_initiator use_test_rng =
     bindE (build_recipient_output E keychain_mask slate parent_key_id use_test_rng) (\<lambda>(_, context, slate).
     sign_rounds E keychain_mask context 1 participant_id message is_initiator use_test_rng slate)"

definition complete_tx :: "ext \<Rightarrow> SecretKey option \<Rightarrow> Slate \<Rightarrow> nat \<Rightarrow> Context \<Rightarrow> Slate op" where
  "complete_tx E keychain_mask slate participant_id context =
     bindE (keychain E keychain_mask) (\<lambda>_.
     bindE (on_slate (fill_round_2 E (cx_sec_key context) (cx_sec_nonce context) participant_id) slate) (\<lambda>(_, slate).
     bindE (keychain E keychain_mask) (\<lambda>_.
     bindE (on_slate (finalize E) slate) (\<lambda>(_, slate).
     ret slate))))"

section \<open>Cancelling\<close>

definition tx_id_string :: "ext \<Rightarrow> u32 option \<Rightarrow> Uuid option \<Rightarrow> string" where
  "tx_id_string E tx_id tx_slate_id = (case tx_id of
      Some i \<Rightarrow> decimal (unat i)
    | None \<Rightarrow> (case tx_slate_id of Some u \<Rightarrow> uuid_string E u | None \<Rightarrow> []))"

definition cancel_tx ::
    "ext \<Rightarrow> SecretKey option \<Rightarrow> Identifier \<Rightarrow> u32 option \<Rightarrow> Uuid option \<Rightarrow> unit op" where
  "cancel_tx E keychain_mask parent_key_id tx_id tx_slate_id =
     bindE (gets (retrieve_txs tx_id tx_slate_id (Some parent_key_id) False None None None)) (\<lambda>tx_vec.
     (case txs_of tx_vec of
        [tx] \<Rightarrow>
          if tl_tx_type tx \<noteq> TxSentCreated \<and> tl_tx_type tx \<noteq> TxReceived
          then throw (TransactionNotCancellable (tx_id_string E tx_id tx_slate_id))
          else if tl_confirmed tx then throw (TransactionNotCancellable (tx_id_string E tx_id tx_slate_id))
          else
            bindE (retrieve_outputs E keychain_mask False False (Some (tl_id tx)) (Some parent_key_id)
                     None None None) (\<lambda>(_, _, res).
            cancel_tx_and_outputs E keychain_mask tx (map oc_output res) parent_key_id)
      | _ \<Rightarrow> throw (TransactionDoesntExist (tx_id_string E tx_id tx_slate_id))))"

section \<open>Payment proofs\<close>

text \<open>\<open>write_u64::<BigEndian>\<close> and \<open>read_u64::<BigEndian>\<close>.\<close>

definition be_bytes :: "u64 \<Rightarrow> bytes" where
  "be_bytes n = map (\<lambda>i. ucast (drop_bit (8 * i) n)) [7, 6, 5, 4, 3, 2, 1, 0]"

definition of_be_bytes :: "bytes \<Rightarrow> u64" where
  "of_be_bytes bs = foldl (\<lambda>acc b. push_bit 8 acc OR ucast b) 0 bs"

definition payment_proof_message :: "u64 \<Rightarrow> Commitment \<Rightarrow> DalekPublicKey \<Rightarrow> bytes" where
  "payment_proof_message amount kernel_commitment sender_address =
     be_bytes amount @ kernel_commitment @ sender_address"

text \<open>The reader fails when the bytes run out; what follows the 73 bytes is not read.\<close>

definition decode_payment_proof_message :: "ext \<Rightarrow> bytes \<Rightarrow> error + u64 \<times> Commitment \<times> DalekPublicKey" where
  "decode_payment_proof_message E msg =
     (if length msg < 73 then Inl (StdIO ''failed to fill whole buffer'')
      else
        (case dalek_from_bytes E (skip_take 41 32 msg) of
           None \<Rightarrow> Inl (Panic ''DalekPublicKey::from_bytes'')
         | Some a \<Rightarrow> Inr (of_be_bytes (take 8 msg), commitment_from_vec E (skip_take 8 33 msg), a)))"

definition create_payment_proof_signature :: "ext \<Rightarrow> u64 \<Rightarrow> Commitment \<Rightarrow> DalekPublicKey \<Rightarrow> SecretKey \<Rightarrow> DalekSignature" where
  "create_payment_proof_signature E amount kernel_commitment sender_address sec_key =
     dalek_sign E sec_key (payment_proof_message amount kernel_commitment sender_address)"

section \<open>The stored entry\<close>

text \<open>The entry \<open>update_stored_tx\<close> settles on: the first of the right side of the transaction.\<close>

definition own_entry :: "bool \<Rightarrow> TxLogEntry \<Rightarrow> bool" where
  "own_entry is_invoiced t \<longleftrightarrow>
     (tl_tx_type t = TxSentCreated \<or> tl_tx_type t = TxSent) \<and> \<not> is_invoiced \<or>
     tl_tx_type t = TxReceived \<and> is_invoiced"

definition final_proof_info ::
    "ext \<Rightarrow> SecretKey option \<Rightarrow> Context \<Rightarrow> Slate \<Rightarrow> TxLogEntry \<Rightarrow> TxLogEntry op" where
  "final_proof_info E keychain_mask context slate tx = (case sl_payment_proof slate of
      None \<Rightarrow> ret tx
    | Some p \<Rightarrow>
        (let derivation_index = (case cx_payment_proof_derivation_index context of Some i \<Rightarrow> i | None \<Rightarrow> 0) in
         bindE (keychain E keychain_mask) (\<lambda>k.
         bindE (gets w_parent_key_id) (\<lambda>parent_key_id.
         bindE (liftE (calc_excess E slate)) (\<lambda>excess.
         bindE (liftE (address_from_derivation_path E k parent_key_id derivation_index)) (\<lambda>sender_key.
         ret (tx\<lparr>tl_payment_proof := Some
               \<lparr>sp_receiver_address = pi_receiver_address p, sp_receiver_signature = pi_receiver_signature p,
                sp_sender_address_path = derivation_index,
                sp_sender_address = snd (ed25519_keypair E sender_key),
                sp_sender_signature = Some (create_payment_proof_signature E (sl_amount slate) excess
                                              (pi_sender_address p) sender_key)\<rparr>\<rparr>)))))))"

definition first_kernel_excess :: "Slate \<Rightarrow> error + Commitment" where
  "first_kernel_excess slate = (case b_kernels (tx_body (sl_tx slate)) of
      [] \<Rightarrow> Inl (Panic ''kernels[0]'')
    | kern # _ \<Rightarrow> Inr (k_excess kern))"

definition update_stored_tx ::
    "ext \<Rightarrow> SecretKey option \<Rightarrow> Context \<Rightarrow> Slate \<Rightarrow> bool \<Rightarrow> unit op" where
  "update_stored_tx E keychain_mask context slate is_invoiced =
     bindE (gets (retrieve_txs None (Some (sl_id slate)) None False None None None)) (\<lambda>tx_vec.
     (case find (own_entry is_invoiced) (txs_of tx_vec) of
        None \<Rightarrow> throw (TransactionDoesntExist (uuid_string E (sl_id slate)))
      | Some tx \<Rightarrow>
          bindE (liftE (case tl_tx_slate_id tx of None \<Rightarrow> Inl (Panic ''tx_slate_id'') | Some u \<Rightarrow> Inr u)) (\<lambda>u.
          bindE (store_tx E (uuid_string E u) (sl_tx slate)) (\<lambda>_.
          bindE (liftE (first_kernel_excess slate)) (\<lambda>excess.
          bindE (final_proof_info E keychain_mask context slate (tx\<lparr>tl_kernel_excess := Some excess\<rparr>)) (\<lambda>tx'.
          bindE (batch E keychain_mask) (\<lambda>b.
          bindE (save_tx_log_entry E tx' (tl_parent_key_id tx)) (\<lambda>_.
          commit))))))))"

text \<open>Rewriting every log entry of a slate, each under its own account.\<close>

definition update_entries ::
    "ext \<Rightarrow> SecretKey option \<Rightarrow> Slate \<Rightarrow> Identifier option \<Rightarrow> (TxLogEntry \<Rightarrow> TxLogEntry) \<Rightarrow> unit op" where
  "update_entries E keychain_mask slate parent_key_id f =
     bindE (gets (retrieve_txs None (Some (sl_id slate)) parent_key_id False None None None)) (\<lambda>tx_vec.
     if txs_of tx_vec = [] then throw (TransactionDoesntExist (uuid_string E (sl_id slate)))
     else
       bindE (batch E keychain_mask) (\<lambda>b.
       bindE (for_each (\<lambda>tx. save_tx_log_entry E (f tx) (tl_parent_key_id tx)) (txs_of tx_vec)) (\<lambda>_.
       commit)))"

definition update_public_addr ::
    "ext \<Rightarrow> SecretKey option \<Rightarrow> Slate \<Rightarrow> string option \<Rightarrow> Identifier option \<Rightarrow> unit op" where
  "update_public_addr E keychain_mask slate public_addr parent_key_id =
     update_entries E keychain_mask slate parent_key_id (\<lambda>tx. tx\<lparr>tl_public_addr := public_addr\<rparr>)"

definition update_message :: "ext \<Rightarrow> SecretKey option \<Rightarrow> Slate \<Rightarrow> unit op" where
  "update_message E keychain_mask slate =
     update_entries E keychain_mask slate None (\<lambda>tx. tx\<lparr>tl_messages := Some (participant_messages slate)\<rparr>)"

definition mempool_type :: "TxLogEntryType \<Rightarrow> TxLogEntryType" where
  "mempool_type t = (case t of
      TxSent \<Rightarrow> TxSentMempool
    | TxSentCreated \<Rightarrow> TxSentMempool
    | TxReceived \<Rightarrow> TxReceivedMempool
    | t \<Rightarrow> t)"

text \<open>The entry is saved under the active account, whatever account it belongs to.\<close>

definition update_mempool_status :: "ext \<Rightarrow> SecretKey option \<Rightarrow> Slate \<Rightarrow> unit op" where
  "update_mempool_status E keychain_mask slate =
     bindE (gets w_parent_key_id) (\<lambda>parent_key_id.
     bindE (gets tx_log_iter) (\<lambda>txs.
     (case find (\<lambda>e. tl_tx_slate_id e = Some (sl_id slate)) txs of
        None \<Rightarrow> ret ()
      | Some entry \<Rightarrow>
          bindE (batch E keychain_mask) (\<lambda>b.
          bindE (save_tx_log_entry E (entry\<lparr>tl_tx_type := mempool_type (tl_tx_type entry)\<rparr>) parent_key_id) (\<lambda>_.
          commit)))))"

section \<open>Verifying the proof on a slate\<close>

definition verify_slate_payment_proof ::
    "ext \<Rightarrow> SecretKey option \<Rightarrow> Identifier \<Rightarrow> Context \<Rightarrow> Slate \<Rightarrow> unit op" where
  "verify_slate_payment_proof E keychain_mask parent_key_id context slate =
     bindE (gets (retrieve_txs None (Some (sl_id slate)) (Some parent_key_id) False None None None)) (\<lambda>tx_vec.
     (case txs_of tx_vec of
        [] \<Rightarrow> throw (PaymentProofError ''TxLogEntry with original proof info not found (is account correct?)'')
      | tx # _ \<Rightarrow>
        (case sl_payment_proof slate of
           None \<Rightarrow>
             if tl_payment_proof tx \<noteq> None
             then throw (PaymentProofError ''Expected Payment Proof for this Transaction is not present'')
             else ret ()
         | Some p \<Rightarrow>
             bindE (liftE (case tl_payment_proof tx of
                 None \<Rightarrow> Inl (PaymentProofError ''Original proof info not stored in tx'')
               | Some orig \<Rightarrow> Inr orig)) (\<lambda>orig.
             bindE (keychain E keychain_mask) (\<lambda>k.
             bindE (liftE (case cx_payment_proof_derivation_index context of
                 None \<Rightarrow> Inl (PaymentProofError ''Payment proof derivation index required'')
               | Some index \<Rightarrow> Inr index)) (\<lambda>index.
             bindE (liftE (address_from_derivation_path E k parent_key_id index)) (\<lambda>orig_sender_sk.
             (let orig_sender_address = snd (ed25519_keypair E orig_sender_sk) in
              if pi_sender_address p \<noteq> orig_sender_address
              then throw (PaymentProofError ''Sender address on slate does not match original sender address'')
              else if sp_receiver_address orig \<noteq> pi_receiver_address p
              then throw (PaymentProofError ''Recipient address on slate does not match original recipient address'')
              else
                bindE (liftE (calc_excess E slate)) (\<lambda>excess.
                bindE (liftE (case pi_receiver_signature p of
                    None \<Rightarrow> Inl (PaymentProofError ''Recipient did not provide requested proof signature'')
                  | Some s \<Rightarrow> Inr s)) (\<lambda>sig.
                if \<not> dalek_verify E (pi_receiver_address p)
                       (payment_proof_message (sl_amount slate) excess orig_sender_address) sig
                then throw (PaymentProofError ''Invalid proof signature'')
                else ret ()))))))))))"

end
