(* ===== verification/Steps.thy ===== *)
theory Steps
  imports LockProps ListingProps Tx
begin

text \<open>
  Loops over the wallet as folds over its maps: the contract of a step that always succeeds
  and is one update of a view of the state, the loops built on it, and the single steps of
  refreshing and cancelling.
\<close>

section \<open>Loops of steps that refine updates\<close>

locale refined_loop =
  fixes inv :: "'s \<Rightarrow> bool" and view :: "'s \<Rightarrow> 'a" and pre :: "'x \<Rightarrow> bool"
    and step :: "'x \<Rightarrow> ('s, 'e, unit) proc" and update :: "'x \<Rightarrow> 'a \<Rightarrow> 'a"
  assumes step_ok: "inv s \<Longrightarrow> pre x \<Longrightarrow> \<exists>s'. step x s = (Inr (), s') \<and> inv s' \<and> view s' = update x (view s)"
begin

lemma loop_ok:
  assumes "inv s" and "\<forall>x \<in> set xs. pre x"
  shows "\<exists>s'. for_each step xs s = (Inr (), s') \<and> inv s' \<and> view s' = fold update xs (view s)"
  using assms
proof (induction xs arbitrary: s)
  case (Cons x xs)
  obtain s1 where s1: "step x s = (Inr (), s1)" "inv s1" "view s1 = update x (view s)"
    using step_ok[OF Cons.prems(1)] Cons.prems(2) by auto
  then show ?case using Cons.IH[OF s1(2)] Cons.prems(2) by simp
qed simp

lemma loop_view:
  assumes "inv s" and "\<forall>x \<in> set xs. pre x" and "J (view s)" and "\<And>x a. x \<in> set xs \<Longrightarrow> J a \<Longrightarrow> J (update x a)"
  shows "J (view (snd (for_each step xs s)))"
proof -
  have "J (fold update xs a)" if "J a" for a
    using that assms(4)
  proof (induction xs arbitrary: a)
    case (Cons x xs)
    have "J (update x a)" by (rule Cons.prems(2)) (simp_all add: Cons.prems(1))
    then show ?case using Cons by simp
  qed simp
  then show ?thesis using loop_ok[OF assms(1,2)] assms(3) by auto
qed

end

text \<open>
  The state is good and differs from a first one only in the rows of given prefixes.
\<close>

definition within :: "ext \<Rightarrow> u8 set \<Rightarrow> wallet \<Rightarrow> wallet \<Rightarrow> bool" where
  "within E P w0 w \<longleftrightarrow> ready E w \<and> frame E P w0 w"

lemma within_refl: "ready E w \<Longrightarrow> within E P w w"
  by (simp add: within_def frame_refl readyD)

lemma within_step: "within E P w0 w \<Longrightarrow> frame E Q w w' \<Longrightarrow> Q \<subseteq> P \<Longrightarrow> within E P w0 w'"
  unfolding within_def using frame_trans frame_mono ready_frame by meson

lemma withinD: "within E P w0 w \<Longrightarrow> ready E w" "within E P w0 w \<Longrightarrow> frame E P w0 w"
  by (simp_all add: within_def)

section \<open>Deleting\<close>

lemma delete_ok:
  assumes "ready E w"
  obtains w' where "delete E i m t w = (Inr (), w')" "frame E output_tables w w'"
    "out_at E w' = (out_at E w)((i, m) := None)"
proof -
  note K = readyD(1)[OF assms] and W = readyD(3)[OF assms]
  let ?first = "if_let_ok (batch_get E i m) (\<lambda>previous_output.
              bindE (save_output_history E previous_output) (\<lambda>_.
              save_output_history E (previous_output\<lparr>od_status := Deleted, od_tx_log_entry := t\<rparr>)))"
  have "\<exists>w1. ?first w = (Inr (), w1) \<and> frame E {OUTPUT_HISTORY_ID_PREFIX, OUTPUT_HISTORY_PREFIX} w w1"
  proof (cases "out_at E w (i, m)")
    case None
    have "?first w = (Inr (), w)"
      by (rule if_let_ok_simps(2)[where e = "not_found_key E i"])
         (use None K W in \<open>simp_all add: batch_get_eq not_found_key_def\<close>)
    then show ?thesis using frame_refl[OF W] by blast
  next
    case (Some prev)
    obtain w1 where "?first w = (Inr (), w1)" "frame E {OUTPUT_HISTORY_ID_PREFIX, OUTPUT_HISTORY_PREFIX} w w1"
      by (rule delete_first[OF assms Some]) (rule that)
    then show ?thesis by blast
  qed
  then obtain w1 where w1: "?first w = (Inr (), w1)"
    and f1: "frame E {OUTPUT_HISTORY_ID_PREFIX, OUTPUT_HISTORY_PREFIX} w w1" by blast
  let ?w2 = "w1\<lparr>w_db := sql_delete (output_key E i m) (w_db w1)\<rparr>"
  have f2: "frame E {OUTPUT_PREFIX} w1 ?w2"
    by (rule frame_delete) (use K frameD(1)[OF f1] in \<open>auto simp: frame_refl hd_keys\<close>)
  have "delete E i m t w = (Inr (), ?w2)"
    using w1 ignoring_delete_ok[OF readyD(2)[OF assms]] by (simp add: delete_def bindE_app)
  moreover have "out_at E ?w2 = (out_at E w)((i, m) := None)"
    using out_at_delete[OF K frameD(1)[OF f1]] frame_out_at[OF K f1] by (simp add: prefix_defs)
  moreover have "frame E output_tables w ?w2"
    by (rule frame_trans[OF frame_mono[OF f1] frame_mono[OF f2]]) auto
  ultimately show ?thesis using that by blast
qed

section \<open>Cancelling outputs\<close>

definition cancel_one :: "OutputData \<Rightarrow> output_map \<Rightarrow> output_map" where
  "cancel_one out m = (case od_status out of
      Unconfirmed \<Rightarrow> m((od_key_id out, od_mmr_index out) := None)
    | Locked \<Rightarrow> m((od_key_id out, od_mmr_index out) \<mapsto> out\<lparr>od_status := Unspent\<rparr>)
    | _ \<Rightarrow> m)"

lemma cancel_output_ok:
  assumes "ready E w"
  obtains w' where "cancel_output E n out w = (Inr (), w')" "frame E output_tables w w'"
    "out_at E w' = cancel_one out (out_at E w)"
proof (cases "od_status out")
  case Unconfirmed
  obtain w' where "delete E (od_key_id out) (od_mmr_index out) (Some n) w = (Inr (), w')"
    "frame E output_tables w w'" "out_at E w' = (out_at E w)((od_key_id out, od_mmr_index out) := None)"
    by (rule delete_ok[OF assms]) (rule that)
  then show ?thesis using that Unconfirmed by (simp add: cancel_output_def cancel_one_def bindE_app)
next
  case Locked
  obtain w' where "save E (out\<lparr>od_status := Unspent\<rparr>) w = (Inr (), w')"
    "frame E output_tables w w'"
    "out_at E w' = (out_at E w)((od_key_id (out\<lparr>od_status := Unspent\<rparr>), od_mmr_index (out\<lparr>od_status := Unspent\<rparr>))
       \<mapsto> out\<lparr>od_status := Unspent\<rparr>)"
    by (rule save_ok[OF assms]) (rule that)
  then show ?thesis using that Locked by (simp add: cancel_output_def cancel_one_def bindE_app)
qed (use that assms in \<open>simp_all add: cancel_output_def cancel_one_def bindE_app frame_refl readyD\<close>)

interpretation cancelling: refined_loop "within E output_tables w0" "out_at E" "\<lambda>_. True"
  "cancel_output E n" cancel_one for E w0 n
proof
  fix w out assume "within E output_tables w0 w"
  then show "\<exists>w'. cancel_output E n out w = (Inr (), w') \<and> within E output_tables w0 w' \<and>
      out_at E w' = cancel_one out (out_at E w)"
    using cancel_output_ok[OF withinD(1), of E output_tables w0 w n out]
    by (metis subset_refl within_step)
qed

lemma cancel_one_at:
  "m (od_key_id x, od_mmr_index x) = Some x \<Longrightarrow> cancel_one x m (od_key_id x, od_mmr_index x) =
     (if od_status x = Unconfirmed then None
      else if od_status x = Locked then Some (x\<lparr>od_status := Unspent\<rparr>) else Some x)"
  by (cases "od_status x") (simp_all add: cancel_one_def)

text \<open>Cancelling the records of a map, each under its own key, in closed form.\<close>

lemma fold_cancel_one:
  assumes "distinct (map (\<lambda>out. (od_key_id out, od_mmr_index out)) outs)"
    and "\<And>out. out \<in> set outs \<Longrightarrow> m (od_key_id out, od_mmr_index out) = Some out"
  shows "fold cancel_one outs m = (\<lambda>key. case m key of
      None \<Rightarrow> None
    | Some out \<Rightarrow>
        if out \<in> set outs \<and> key = (od_key_id out, od_mmr_index out) \<and> od_status out = Unconfirmed then None
        else if out \<in> set outs \<and> key = (od_key_id out, od_mmr_index out) \<and> od_status out = Locked
        then Some (out\<lparr>od_status := Unspent\<rparr>) else Some out)"
  using assms
proof (induction outs arbitrary: m)
  case Nil
  then show ?case by (auto split: option.splits)
next
  case (Cons x outs)
  let ?k = "\<lambda>out. (od_key_id out, od_mmr_index out)"
  have other: "cancel_one x m key = m key" if "key \<noteq> ?k x" for key
    using that by (simp add: cancel_one_def split: OutputStatus.splits)
  have ne: "?k out \<noteq> ?k x" if "out \<in> set outs" for out
    using that Cons.prems(1) by (auto simp: image_iff)
  have IH: "fold cancel_one outs (cancel_one x m) = (\<lambda>key. case cancel_one x m key of
      None \<Rightarrow> None
    | Some out \<Rightarrow>
        if out \<in> set outs \<and> key = ?k out \<and> od_status out = Unconfirmed then None
        else if out \<in> set outs \<and> key = ?k out \<and> od_status out = Locked
        then Some (out\<lparr>od_status := Unspent\<rparr>) else Some out)"
    by (rule Cons.IH) (use Cons.prems ne other in auto)
  show ?case
  proof
    fix key
    show "fold cancel_one (x # outs) m key = (case m key of
      None \<Rightarrow> None
    | Some out \<Rightarrow>
        if out \<in> set (x # outs) \<and> key = ?k out \<and> od_status out = Unconfirmed then None
        else if out \<in> set (x # outs) \<and> key = ?k out \<and> od_status out = Locked
        then Some (out\<lparr>od_status := Unspent\<rparr>) else Some out)"
    proof (cases "key = ?k x")
      case True
      then have "m key = Some x" using Cons.prems(2) by simp
      moreover have "key \<noteq> ?k out" if "out \<in> set outs" for out using ne[OF that] True by metis
      ultimately show ?thesis using True
        by (auto simp: IH cancel_one_at split: option.splits)
    next
      case False
      then show ?thesis by (auto simp: IH other split: option.splits)
    qed
  qed
qed

end
