(* ===== verification/CancelProps.thy ===== *)
theory CancelProps
  imports Steps
begin

text \<open>
  Cancelling a transaction: when it is refused, what it does to the outputs and the log, and
  that it undoes the lock of the sender.
\<close>

section \<open>The outputs and the entry a cancellation works on\<close>

lemma tx_outputs_distinct:
  assumes "wallet_ok E w" and "mset outs \<subseteq># mset (iter w)"
  shows "distinct (map (\<lambda>out. (od_key_id out, od_mmr_index out)) outs)"
proof -
  let ?k = "\<lambda>out. (od_key_id out, od_mmr_index out)"
  have "mset (map ?k outs) \<subseteq># mset (map ?k (iter w))"
    using assms(2) by (simp add: image_mset_subseteq_mono)
  then show ?thesis using iter_distinct_keys[OF assms(1)] by (rule mset_subseteq_distinct)
qed

lemma select_outputs_of_tx:
  "mset (select_outputs w False False (Some n) (Some parent)) \<subseteq># mset (iter w)"
  "out \<in> set (select_outputs w False False (Some n) (Some parent)) \<longleftrightarrow>
     out \<in> set (iter w) \<and> od_status out \<noteq> Spent \<and> od_tx_log_entry out = Some n \<and> od_root_key_id out = parent"
  by (auto simp: select_outputs_def Let_def multiset_filter_subset)

text \<open>What becomes of one output when the transaction it belongs to is cancelled.\<close>

definition uncancelled :: "OutputData \<Rightarrow> OutputData option" where
  "uncancelled out = (case od_status out of
      Unconfirmed \<Rightarrow> None
    | Locked \<Rightarrow> Some (out\<lparr>od_status := Unspent\<rparr>)
    | _ \<Rightarrow> Some out)"

definition belongs :: "Identifier \<Rightarrow> u32 \<Rightarrow> OutputData \<Rightarrow> bool" where
  "belongs parent n out \<longleftrightarrow> od_root_key_id out = parent \<and> od_tx_log_entry out = Some n"

definition cancelled_outputs :: "Identifier \<Rightarrow> u32 \<Rightarrow> output_map \<Rightarrow> output_map" where
  "cancelled_outputs parent n m =
     (\<lambda>key. Option.bind (m key) (\<lambda>out. if belongs parent n out then uncancelled out else Some out))"

lemma fold_cancel_outputs:
  assumes "keys_ok E" "wallet_ok E w"
    and "set outs = set (select_outputs w False False (Some n) (Some parent))"
    and "mset outs \<subseteq># mset (iter w)"
  shows "fold cancel_one outs (out_at E w) = cancelled_outputs parent n (out_at E w)"
proof -
  have set: "out \<in> set outs \<longleftrightarrow> out \<in> set (iter w) \<and> od_status out \<noteq> Spent \<and> belongs parent n out" for out
    unfolding assms(3) select_outputs_of_tx(2) belongs_def by auto
  have look: "out_at E w (od_key_id out, od_mmr_index out) = Some out" if "out \<in> set outs" for out
    using that set iter_lookup[OF assms(1,2)] by blast
  have key: "key = (od_key_id out, od_mmr_index out) \<and> out \<in> set (iter w)" if "out_at E w key = Some out" for key out
    using out_at_key[OF assms(1,2), of "fst key" "snd key" out] that iter_lookup[OF assms(1,2), of out] by auto
  show ?thesis
  proof (rule ext)
    fix key
    note f = fun_cong[OF fold_cancel_one[OF tx_outputs_distinct[OF assms(2,4)], of "out_at E w"], OF look]
    show "fold cancel_one outs (out_at E w) key = cancelled_outputs parent n (out_at E w) key"
    proof (cases "out_at E w key")
      case None
      then show ?thesis by (subst f) (simp_all add: cancelled_outputs_def)
    next
      case (Some out)
      then show ?thesis
        using key[OF Some]
        by (subst f) (auto simp: cancelled_outputs_def uncancelled_def set split: OutputStatus.splits)
    qed
  qed
qed

section \<open>Refusals\<close>

abbreviation matching :: "u32 option \<Rightarrow> Uuid option \<Rightarrow> Identifier \<Rightarrow> wallet \<Rightarrow> TxLogEntry list" where
  "matching tx_id slate_id parent w \<equiv> filter (tx_matches tx_id slate_id (Some parent) False) (tx_log_iter w)"

lemma txs_of_unpaged:
  "length (tx_log_iter w) < 2 ^ 64 \<Longrightarrow>
     txs_of (retrieve_txs tx_id slate_id (Some parent) False None None None w)
       = sort_key tl_creation_ts (matching tx_id slate_id parent w)"
proof -
  assume l: "length (tx_log_iter w) < 2 ^ 64"
  have "length (matching tx_id slate_id parent w) < 2 ^ 64" by (rule le_less_trans[OF length_filter_le l])
  then show ?thesis by (simp add: retrieve_txs_def txs_of_def paginate_all sort_records_def Let_def)
qed

lemma sort_key_one: "length xs = 1 \<longleftrightarrow> (\<exists>x. sort_key f xs = [x] \<and> xs = [x])"
  by (cases xs) auto

text \<open>\<open>cancel_tx\<close> leaves the wallet untouched and reports \<open>TransactionDoesntExist\<close> unless exactly one
  log entry of the account matches, and \<open>TransactionNotCancellable\<close> when that entry is
  confirmed or is anything but a created send or a receipt (a send that has been seen in the
  mempool, say).\<close>

theorem cancel_tx_refuses:
  assumes "length (tx_log_iter w) < 2 ^ 64"
  shows "(length (matching tx_id slate_id parent w) \<noteq> 1 \<longrightarrow>
       cancel_tx E km parent tx_id slate_id w = (Inl (TransactionDoesntExist (tx_id_string E tx_id slate_id)), w)) \<and>
    (\<forall>tx. matching tx_id slate_id parent w = [tx] \<longrightarrow>
       tl_confirmed tx \<or> tl_tx_type tx \<notin> {TxSentCreated, TxReceived} \<longrightarrow>
       cancel_tx E km parent tx_id slate_id w = (Inl (TransactionNotCancellable (tx_id_string E tx_id slate_id)), w))"
proof (intro conjI impI allI)
  let ?ms = "matching tx_id slate_id parent w"
  assume "length ?ms \<noteq> 1"
  then have "\<nexists>tx. sort_key tl_creation_ts ?ms = [tx]" by (metis length_sort list.size(3,4) One_nat_def add.commute plus_1_eq_Suc)
  then show "cancel_tx E km parent tx_id slate_id w = (Inl (TransactionDoesntExist (tx_id_string E tx_id slate_id)), w)"
    by (auto simp: cancel_tx_def bindE_app txs_of_unpaged[OF assms] split: list.split)
next
  fix tx assume "matching tx_id slate_id parent w = [tx]"
    "tl_confirmed tx \<or> tl_tx_type tx \<notin> {TxSentCreated, TxReceived}"
  then show "cancel_tx E km parent tx_id slate_id w = (Inl (TransactionNotCancellable (tx_id_string E tx_id slate_id)), w)"
    by (auto simp: cancel_tx_def bindE_app txs_of_unpaged[OF assms])
qed

theorem cancel_tx_refuses_witness:
  "cancel_tx the_ext None (Identifier 0) (Some 3) None the_wallet = (Inl (TransactionDoesntExist ''3''), the_wallet)"
proof -
  have log: "tx_log_iter the_wallet = []" by (simp add: tx_log_iter_def store_iter_def the_wallet_def)
  have "char_of (51 :: nat) = CHR ''3''" by code_simp
  then have "tx_id_string the_ext (Some 3) None = ''3''" by (simp add: tx_id_string_def decimal.simps)
  then show ?thesis using cancel_tx_refuses[of the_wallet "Some 3" None "Identifier 0" the_ext None] by (simp add: log)
qed

section \<open>What a cancellation does\<close>

lemma cancel_tx_run:
  assumes "ready E w" and "fst (keychain E km w) = Inr k" and "\<forall>out \<in> set (iter w). listable E k out"
    and "length (tx_log_iter w) < 2 ^ 64" and "length (iter w) < 2 ^ 64"
    and "matching tx_id slate_id parent w = [tx]"
    and "\<not> tl_confirmed tx" and "tl_tx_type tx \<in> {TxSentCreated, TxReceived}"
  obtains w' where "cancel_tx E km parent tx_id slate_id w = (Inr (), w')" "ready E w'"
    "out_at E w' = cancelled_outputs parent (tl_id tx) (out_at E w)"
    "tx_at E w' = (tx_at E w)((parent, tl_id tx) \<mapsto> tx\<lparr>tl_tx_type := cancelled_type (tl_tx_type tx)\<rparr>)"
proof -
  note K = readyD(1)[OF assms(1)] and W = readyD(3)[OF assms(1)]
  let ?sel = "select_outputs w False False (Some (tl_id tx)) (Some parent)"
  let ?outs = "sort_records None od_height ?sel"
  let ?tx = "tx\<lparr>tl_tx_type := cancelled_type (tl_tx_type tx)\<rparr>"
  have kc: "keychain E km w = (Inr k, w)" using assms(2) by (simp add: keychain_def)
  have "length ?sel \<le> length (iter w)"
    using select_outputs_of_tx(1) size_mset_mono by (metis size_mset)
  then have page: "paginate None None ?outs = ?outs" using assms(5) by (intro paginate_all) simp
  have "\<forall>out \<in> set ?sel. listable E k out" using assms(3) by (simp add: select_outputs_of_tx(2))
  then obtain ms where ms: "retrieve_outputs E km False False (Some (tl_id tx)) (Some parent) None None None w
      = (Inr (length ?outs, length ?sel, ms), w)" "map oc_output ms = ?outs"
    using retrieve_outputs_ok[OF kc, of False False "Some (tl_id tx)" "Some parent" None None None] page by metis
  obtain w1 where w1: "for_each (cancel_output E (tl_id tx)) ?outs w = (Inr (), w1)" "within E output_tables w w1"
    "out_at E w1 = fold cancel_one ?outs (out_at E w)"
    using cancelling.loop_ok[OF within_refl[OF assms(1)], of ?outs] by blast
  obtain w2 where w2: "save_tx_log_entry E ?tx parent w1 = (Inr (), w2)" "frame E {TX_LOG_ENTRY_PREFIX} w1 w2"
    "tx_at E w2 = (tx_at E w1)((parent, tl_id ?tx) \<mapsto> ?tx)"
    by (rule save_tx_log_entry_ok[OF withinD(1)[OF w1(2)]]) (rule that)
  have "cancel_tx E km parent tx_id slate_id w = (Inr (), w2)"
    using assms(6-8) w1(1) w2(1) kc ms
    by (auto simp: cancel_tx_def bindE_app txs_of_unpaged[OF assms(4)] cancel_tx_and_outputs_def batch_def commit_def)
  moreover have "out_at E w2 = cancelled_outputs parent (tl_id tx) (out_at E w)"
    using frame_out_at[OF K w2(2)] w1(3) fold_cancel_outputs[OF K W, of ?outs "tl_id tx" parent]
      select_outputs_of_tx(1) by (simp add: prefix_defs)
  moreover have "tx_at E w1 = tx_at E w"
    using frame_tx_at[OF K withinD(2)[OF w1(2)]] by (simp add: prefix_defs)
  ultimately show ?thesis using that[of w2] w2(3) ready_frame[OF withinD(1)[OF w1(2)] w2(2)] by simp
qed

text \<open>C7. Cancelling the one matching entry, unconfirmed and a created send or a receipt, succeeds. Of
  the account's outputs that carry its log id the unconfirmed ones are deleted and the locked
  ones are unspent again; no other output changes, and in the log only that entry's type
  does, to its cancelled form.\<close>

theorem cancel_tx_undoes:
  assumes "ready E w" and "fst (keychain E km w) = Inr k" and "\<forall>out \<in> set (iter w). listable E k out"
    and "length (tx_log_iter w) < 2 ^ 64" and "length (iter w) < 2 ^ 64"
    and "matching tx_id slate_id parent w = [tx]"
    and "\<not> tl_confirmed tx" and "tl_tx_type tx \<in> {TxSentCreated, TxReceived}"
  shows "\<exists>w'. cancel_tx E km parent tx_id slate_id w = (Inr (), w') \<and>
    out_at E w' = cancelled_outputs parent (tl_id tx) (out_at E w) \<and>
    tx_at E w' = (tx_at E w)((parent, tl_id tx) \<mapsto> tx\<lparr>tl_tx_type := cancelled_type (tl_tx_type tx)\<rparr>)"
  by (rule cancel_tx_run[OF assms]) blast

section \<open>A lock undone\<close>

lemma fold_lock_one:
  "distinct (map (\<lambda>(i, mm, _). (i, mm)) ins) \<Longrightarrow> fold (lock_one n) ins m key =
     (if key \<in> (\<lambda>(i, mm, _). (i, mm)) ` set ins then map_option (\<lambda>c. lock (c\<lparr>od_tx_log_entry := Some n\<rparr>)) (m key)
      else m key)"
  by (induction ins arbitrary: m) (auto simp: lock_one_def split: prod.splits)

lemma fold_new_one:
  "distinct (map fst outs) \<Longrightarrow> fold (new_one E k parent h n) outs m (i, mm) =
     (if mm = None \<and> i \<in> fst ` set outs
      then map_option (\<lambda>(_, v). new_output E parent i (commit_str E k v i) v h n) (map_of outs i)
      else m (i, mm))"
proof (induction outs arbitrary: m)
  case (Cons x outs)
  obtain j v where x: "x = (j, v)" by (cases x)
  show ?case using Cons by (cases v) (auto simp: x new_one_def)
qed simp

lemma iter_length:
  assumes "ready E w" and "finite D" and "dom (out_at E w) \<subseteq> D"
  shows "length (iter w) \<le> card D"
proof -
  let ?k = "\<lambda>out. (od_key_id out, od_mmr_index out)"
  have "?k ` set (iter w) \<subseteq> dom (out_at E w)"
    using iter_lookup[OF readyD(1,3)[OF assms(1)]] by auto
  then have "card (?k ` set (iter w)) \<le> card D" using assms(2,3) by (meson card_mono order_trans)
  moreover have "card (?k ` set (iter w)) = length (iter w)"
    using distinct_card[OF iter_distinct_keys[OF readyD(3)[OF assms(1)]]] by simp
  ultimately show ?thesis by simp
qed

end
