(* ===== verification/LockCancel.thy ===== *)
theory LockCancel
  imports CancelProps
begin

text \<open>
  Two operations composed: a sender who locks the coins of a slate and then cancels the
  transaction has the wallet of before, except for the log id noted on the coins.
\<close>

abbreviation coin_keys :: "(Identifier \<times> u64 option \<times> u64) list \<Rightarrow> (Identifier \<times> u64 option) set" where
  "coin_keys ins \<equiv> (\<lambda>(i, mm, _). (i, mm)) ` set ins"

text \<open>The output map after the cancellation: the coins spent by the lock carry its log id.\<close>

definition noted :: "u32 \<Rightarrow> (Identifier \<times> u64 option) set \<Rightarrow> output_map \<Rightarrow> output_map" where
  "noted n keys m =
     (\<lambda>key. if key \<in> keys then map_option (\<lambda>c. c\<lparr>od_tx_log_entry := Some n\<rparr>) (m key) else m key)"

definition locked_map ::
    "ext \<Rightarrow> Keychain \<Rightarrow> Identifier \<Rightarrow> u64 \<Rightarrow> u32 \<Rightarrow> (Identifier \<times> u64 option \<times> u64) list \<Rightarrow>
     (Identifier \<times> u64 option \<times> u64) list \<Rightarrow> output_map \<Rightarrow> output_map" where
  "locked_map E k parent h n ins outs m = fold (new_one E k parent h n) outs (fold (lock_one n) ins m)"

text \<open>The coins are unspent coins of the account, the change is new and the log id unused.\<close>

definition lockable ::
    "Identifier \<Rightarrow> u32 \<Rightarrow> (Identifier \<times> u64 option \<times> u64) list \<Rightarrow> (Identifier \<times> u64 option \<times> u64) list \<Rightarrow>
     output_map \<Rightarrow> bool" where
  "lockable parent n ins outs m \<longleftrightarrow>
     distinct (map (\<lambda>(i, mm, _). (i, mm)) ins) \<and> distinct (map fst outs) \<and>
     (\<forall>key \<in> coin_keys ins. \<exists>c. m key = Some c \<and> od_status c = Unspent \<and> od_root_key_id c = parent) \<and>
     (\<forall>i \<in> fst ` set outs. m (i, None) = None) \<and>
     (\<forall>key c. m key = Some c \<longrightarrow> \<not> belongs parent n c)"

lemma lockableD:
  assumes "lockable parent n ins outs m"
  shows "distinct (map (\<lambda>(i, mm, _). (i, mm)) ins)" "distinct (map fst outs)"
    "key \<in> coin_keys ins \<Longrightarrow> \<exists>c. m key = Some c \<and> od_status c = Unspent \<and> od_root_key_id c = parent"
    "i \<in> fst ` set outs \<Longrightarrow> m (i, None) = None" "m key = Some c \<Longrightarrow> \<not> belongs parent n c"
proof -
  note L = assms[unfolded lockable_def]
  show "distinct (map (\<lambda>(i, mm, _). (i, mm)) ins)" "distinct (map fst outs)" using L by (simp_all only:)
  show "\<exists>c. m key = Some c \<and> od_status c = Unspent \<and> od_root_key_id c = parent" if "key \<in> coin_keys ins"
    using L that by (elim conjE) (rule bspec)
  show "m (i, None) = None" if "i \<in> fst ` set outs"
    using L that by (elim conjE) (rule bspec)
  show "\<not> belongs parent n c" if "m key = Some c"
    using L that by (elim conjE) (iprover)
qed

lemma locked_map_at:
  assumes "lockable parent n ins outs m"
  shows "locked_map E k parent h n ins outs m (i, mm) =
    (if (i, mm) \<in> coin_keys ins then map_option (\<lambda>c. lock (c\<lparr>od_tx_log_entry := Some n\<rparr>)) (m (i, mm))
     else if mm = None \<and> i \<in> fst ` set outs
     then map_option (\<lambda>(_, v). new_output E parent i (commit_str E k v i) v h n) (map_of outs i)
     else m (i, mm))"
proof -
  note D = lockableD[OF assms]
  have "\<not> (mm = None \<and> i \<in> fst ` set outs)" if "(i, mm) \<in> coin_keys ins"
    using D(3)[OF that] D(4)[of i] by (metis option.distinct(1))
  then show ?thesis
    unfolding locked_map_def fold_new_one[OF D(2)] fold_lock_one[OF D(1)]
    by argo
qed

lemma cancelled_locked_map:
  assumes "lockable parent n ins outs m"
  shows "cancelled_outputs parent n (locked_map E k parent h n ins outs m) = noted n (coin_keys ins) m"
proof
  fix key :: "Identifier \<times> u64 option"
  obtain i mm where key: "key = (i, mm)" by (cases key)
  note D = lockableD[OF assms] and at = locked_map_at[OF assms, of E k h i mm]
  let ?m = "locked_map E k parent h n ins outs m"
  consider (coin) "(i, mm) \<in> coin_keys ins" | (change) "(i, mm) \<notin> coin_keys ins" "mm = None \<and> i \<in> fst ` set outs"
    | (other) "(i, mm) \<notin> coin_keys ins" "\<not> (mm = None \<and> i \<in> fst ` set outs)" by blast
  then show "cancelled_outputs parent n ?m key = noted n (coin_keys ins) m key"
  proof cases
    case coin
    then obtain c where "m (i, mm) = Some c" "od_status c = Unspent" "od_root_key_id c = parent"
      using D(3) by blast
    then show ?thesis using coin at by (simp add: key cancelled_outputs_def noted_def belongs_def uncancelled_def lock_def del: image_iff)
  next
    case change
    then obtain v where "map_of outs i = Some v" by (meson map_of_eq_None_iff not_Some_eq)
    then have "?m (i, mm) = Some (new_output E parent i (commit_str E k (snd v) i) (snd v) h n)"
      using change at by (simp add: case_prod_beta del: image_iff)
    moreover have "m (i, mm) = None" using D(4) change by simp
    ultimately show ?thesis
      using change by (simp add: key cancelled_outputs_def noted_def belongs_def uncancelled_def new_output_def del: image_iff)
  next
    case other
    then have "?m (i, mm) = m (i, mm)" using at by (simp only: if_False)
    then show ?thesis
      using other(1) D(5)[of "(i, mm)"] by (cases "m (i, mm)") (simp_all add: key cancelled_outputs_def noted_def del: image_iff)
  qed
qed

lemma locked_map_listable:
  assumes "lockable parent n ins outs m" and "commits_ok E"
    and "\<forall>(i, mm, v) \<in> set outs. \<exists>c. kc_commit E k v i = Inr c"
    and "\<And>key out. m key = Some out \<Longrightarrow> listable E k out"
    and "locked_map E k parent h n ins outs m key = Some out"
  shows "listable E k out"
proof -
  obtain i mm where key: "key = (i, mm)" by (cases key)
  have new: "listable E k (new_output E parent i (commit_str E k v i) v h n)" if v: "map_of outs i = Some (x, v)" for x v
  proof -
    obtain c where "kc_commit E k v i = Inr c" using assms(3) map_of_SomeD[OF v] by fastforce
    then show ?thesis using assms(2) by (simp add: listable_def new_output_def commit_str_def commits_ok_def)
  qed
  have old: "listable E k (lock (c\<lparr>od_tx_log_entry := Some n\<rparr>))" if "listable E k c" for c
    using that by (simp add: listable_def lock_def split: option.splits)
  show ?thesis
    using assms(4)[of "(i, mm)"] assms(5) new old
    unfolding key locked_map_at[OF assms(1)] by (auto split: if_splits)
qed

lemma dom_locked_map:
  assumes "lockable parent n ins outs m"
  shows "dom (locked_map E k parent h n ins outs m) \<subseteq> dom m \<union> (\<lambda>i. (i, None)) ` fst ` set outs"
  using locked_map_at[OF assms] by (auto split: if_splits)

lemma dom_out_at:
  assumes "ready E w"
  shows "dom (out_at E w) \<subseteq> (\<lambda>out. (od_key_id out, od_mmr_index out)) ` set (iter w)"
proof
  fix key assume "key \<in> dom (out_at E w)"
  then obtain out where out: "out_at E w (fst key, snd key) = Some out" by auto
  note key = out_at_key[OF readyD(1,3)[OF assms] out]
  then have "out \<in> set (iter w)" using iter_lookup[OF readyD(1,3)[OF assms]] out by simp
  then show "key \<in> (\<lambda>out. (od_key_id out, od_mmr_index out)) ` set (iter w)"
    using key by (intro image_eqI[of _ _ out]) auto
qed

lemma out_at_listed:
  assumes "ready E w" and "out_at E w key = Some out"
  shows "out \<in> set (iter w)"
  using assms(2) out_at_key[OF readyD(1,3)[OF assms(1)], of "fst key" "snd key"] iter_lookup[OF readyD(1,3)[OF assms(1)]]
  by simp

lemma locked_iter_length:
  assumes "ready E w" and "ready E w'" and "lockable parent n ins outs (out_at E w)"
    and "out_at E w' = locked_map E k parent h n ins outs (out_at E w)"
  shows "length (iter w') \<le> length (iter w) + length outs"
proof -
  let ?k = "\<lambda>out. (od_key_id out, od_mmr_index out)" and ?new = "(\<lambda>i. (i, None :: u64 option)) ` fst ` set outs"
  have "dom (out_at E w) \<subseteq> ?k ` set (iter w)"
    by (rule dom_out_at[OF assms(1)])
  then have "dom (out_at E w') \<subseteq> ?k ` set (iter w) \<union> ?new"
    unfolding assms(4) by (rule order_trans[OF dom_locked_map[OF assms(3)] Un_mono]) simp
  then have "length (iter w') \<le> card (?k ` set (iter w) \<union> ?new)" by (intro iter_length[OF assms(2)]) simp_all
  also have "\<dots> \<le> card (?k ` set (iter w)) + card ?new" by (rule card_Un_le)
  also have "\<dots> \<le> length (iter w) + length outs"
    by (rule add_mono) (meson card_image_le card_length finite_imageI finite_set order_trans)+
  finally show ?thesis .
qed

text \<open>After the lock, the wallet is one in which the transaction can be cancelled.\<close>

lemma lock_makes_cancellable:
  assumes "ready E w" and "files_ok E" and "commits_ok E" and "fst (keychain E km w) = Inr k"
    and "n = tx_log_counter E w (cx_parent_key_id context)"
    and "lockable (cx_parent_key_id context) n (cx_input_ids context) (cx_output_ids context) (out_at E w)"
    and "\<forall>(i, mm, v) \<in> set (cx_output_ids context). \<exists>c. kc_commit E k v i = Inr c"
    and "sender_proof_info E k (cx_parent_key_id context) context (sl_payment_proof slate) = Inr proof_info"
    and "tx_at E w (cx_parent_key_id context, n) = None" and "matching (Some n) None (cx_parent_key_id context) w = []"
    and "\<forall>out \<in> set (iter w). listable E k out"
    and "length (tx_log_iter w) + 1 < 2 ^ 64" and "length (iter w) + length (cx_output_ids context) < 2 ^ 64"
  obtains w1 t where "lock_tx_context E km slate context addr_to w = (Inr (), w1)"
    "out_at E w1 = locked_map E k (cx_parent_key_id context) (sl_height slate) n (cx_input_ids context)
       (cx_output_ids context) (out_at E w)"
    "tx_at E w1 = (tx_at E w)((cx_parent_key_id context, n) \<mapsto> t)"
    "tl_id t = n" "tl_tx_type t = TxSentCreated" "\<not> tl_confirmed t"
    "ready E w1" "fst (keychain E km w1) = Inr k" "\<forall>out \<in> set (iter w1). listable E k out"
    "length (tx_log_iter w1) < 2 ^ 64" "length (iter w1) < 2 ^ 64"
    "matching (Some n) None (cx_parent_key_id context) w1 = [t]"
proof -
  let ?p = "cx_parent_key_id context" and ?ins = "cx_input_ids context" and ?outs = "cx_output_ids context"
  note D = lockableD[OF assms(6)]
  have coins: "\<forall>(i, mm, v) \<in> set ?ins. out_at E w (i, mm) \<noteq> None"
    using D(3) by (force simp del: image_iff)
  let ?deb = "sum_list (map (\<lambda>(i, mm, v). od_value (the (out_at E w (i, mm)))) ?ins)"
  define t where "t = locked_entry E slate context addr_to n ?deb proof_info"
  have t: "tl_id t = n" "tl_parent_key_id t = ?p" "tl_tx_type t = TxSentCreated" "\<not> tl_confirmed t"
    by (simp_all add: t_def locked_entry_def sent_entry_def tx_log_entry_new_def)
  obtain w1 where w1: "lock_tx_context E km slate context addr_to w = (Inr (), w1)"
    "out_at E w1 = locked_map E k ?p (sl_height slate) n ?ins ?outs (out_at E w)"
    "tx_at E w1 = (tx_at E w)((?p, n) \<mapsto> t)" "ready E w1" "keychain_result E km w1 = Inr k"
    "tx_log_iter w1 = tx_log_iter w @ [t]"
    using lock_tx_context_run[OF assms(1,2,4) coins assms(7) D(2) assms(8,5) t_def] assms(9)
    unfolding locked_map_def by metis
  have "listable E k out" if "out \<in> set (iter w1)" for out
    using locked_map_listable[OF assms(6,3,7)] that assms(11) w1(2) iter_lookup[OF readyD(1,3)[OF assms(1)]]
      iter_lookup[OF readyD(1,3)[OF w1(4)]] out_at_listed[OF assms(1)] by metis
  moreover have "matching (Some n) None ?p w1 = [t]"
    using assms(10) by (simp add: w1(6) tx_matches_def t)
  moreover have "length (iter w1) < 2 ^ 64"
    using locked_iter_length[OF assms(1) w1(4) assms(6) w1(2)] assms(13) by simp
  ultimately show ?thesis using that[OF w1(1-3) t(1,3,4) w1(4)] w1(5,6) assms(12) by (auto simp: keychain_def)
qed

text \<open>C8. Locking the coins of a slate and then cancelling the transaction by its log id both succeed
  and compose to nothing but a note: the change outputs are gone, every coin is \<open>Unspent\<close> as
  before and carries the log id, every other output is untouched, and the log entry of the
  lock is of type \<open>TxSentCancelled\<close>.\<close>

theorem lock_then_cancel_restores:
  assumes "ready E w" and "files_ok E" and "commits_ok E" and "fst (keychain E km w) = Inr k"
    and "n = tx_log_counter E w (cx_parent_key_id context)"
    and "lockable (cx_parent_key_id context) n (cx_input_ids context) (cx_output_ids context) (out_at E w)"
    and "\<forall>(i, mm, v) \<in> set (cx_output_ids context). \<exists>c. kc_commit E k v i = Inr c"
    and "sender_proof_info E k (cx_parent_key_id context) context (sl_payment_proof slate) = Inr proof_info"
    and "tx_at E w (cx_parent_key_id context, n) = None" and "matching (Some n) None (cx_parent_key_id context) w = []"
    and "\<forall>out \<in> set (iter w). listable E k out"
    and "length (tx_log_iter w) + 1 < 2 ^ 64" and "length (iter w) + length (cx_output_ids context) < 2 ^ 64"
  shows "\<exists>w1 w2 t. lock_tx_context E km slate context addr_to w = (Inr (), w1) \<and>
    cancel_tx E km (cx_parent_key_id context) (Some n) None w1 = (Inr (), w2) \<and>
    out_at E w2 = noted n (coin_keys (cx_input_ids context)) (out_at E w) \<and>
    tx_at E w2 = (tx_at E w)((cx_parent_key_id context, n) \<mapsto> t) \<and> tl_tx_type t = TxSentCancelled"
proof -
  let ?p = "cx_parent_key_id context"
  obtain w1 t where w1: "lock_tx_context E km slate context addr_to w = (Inr (), w1)"
    "out_at E w1 = locked_map E k ?p (sl_height slate) n (cx_input_ids context) (cx_output_ids context) (out_at E w)"
    "tx_at E w1 = (tx_at E w)((?p, n) \<mapsto> t)" "tl_id t = n" "tl_tx_type t = TxSentCreated" "\<not> tl_confirmed t"
    and can: "ready E w1" "fst (keychain E km w1) = Inr k" "\<forall>out \<in> set (iter w1). listable E k out"
    "length (tx_log_iter w1) < 2 ^ 64" "length (iter w1) < 2 ^ 64" "matching (Some n) None ?p w1 = [t]"
    by (rule lock_makes_cancellable[OF assms]) (rule that)
  obtain w2 where w2: "cancel_tx E km ?p (Some n) None w1 = (Inr (), w2)"
    "out_at E w2 = cancelled_outputs ?p n (out_at E w1)"
    "tx_at E w2 = (tx_at E w1)((?p, n) \<mapsto> t\<lparr>tl_tx_type := cancelled_type (tl_tx_type t)\<rparr>)"
    using cancel_tx_run[OF can] w1(4-6) by auto
  have "out_at E w2 = noted n (coin_keys (cx_input_ids context)) (out_at E w)"
    unfolding w2(2) w1(2) by (rule cancelled_locked_map[OF assms(6)])
  moreover have "tl_tx_type (t\<lparr>tl_tx_type := cancelled_type (tl_tx_type t)\<rparr>) = TxSentCancelled"
    by (simp add: w1(5) cancelled_type_def)
  ultimately show ?thesis using w1(1,3) w2(1,3) by (metis fun_upd_upd)
qed

section \<open>On a wallet with one coin\<close>

lemma lock_context_simps:
  "cx_input_ids lock_context = [(Identifier 7, None, 60)]" "cx_output_ids lock_context = [(Identifier 3, None, 49)]"
  "cx_parent_key_id lock_context = Identifier 0"
  by (simp_all add: lock_context_def context_new_def context_add_input_def context_add_output_def)

lemma saved_wallet_frame: "frame the_ext output_tables the_wallet saved_wallet"
proof -
  obtain w' where "save the_ext the_output the_wallet = (Inr (), w')" "frame the_ext output_tables the_wallet w'"
    by (rule save_ok[OF ready_the_wallet]) (rule that)
  then show ?thesis by (simp add: saved_wallet_def)
qed

lemma saved_wallet_log: "tx_log_iter saved_wallet = []" "tx_at the_ext saved_wallet = (\<lambda>_. None)"
  using frame_iters(3)[OF saved_wallet_frame] frame_tx_at[OF keys_ok_the_ext saved_wallet_frame]
  by (simp_all add: prefix_defs tx_log_iter_def store_iter_def the_wallet_def tx_at_def get_ser_def store_get_def fun_eq_iff
      List.map_filter_def)

lemma saved_wallet_map: "out_at the_ext saved_wallet key = (if key = (Identifier 7, None) then Some the_output else None)"
proof (cases "out_at the_ext saved_wallet key")
  case (Some out)
  then have "out = the_output" using out_at_listed[OF saved_wallet_facts(1)] by (simp add: iter_saved_wallet)
  moreover have "key = (od_key_id out, od_mmr_index out)"
    using Some out_at_key[OF readyD(1,3)[OF saved_wallet_facts(1)], of "fst key" "snd key" out] by auto
  ultimately show ?thesis using Some by (simp add: the_output_def)
qed auto

lemma lock_context_lockable:
  "lockable (cx_parent_key_id lock_context) n (cx_input_ids lock_context) (cx_output_ids lock_context) (out_at the_ext saved_wallet)"
  by (simp add: lock_context_simps lockable_def belongs_def saved_wallet_map the_output_def)

lemma lock_context_facts:
  "\<forall>(i, mm, v) \<in> set (cx_output_ids lock_context). \<exists>c. kc_commit the_ext (replicate 32 5) v i = Inr c"
  "sender_proof_info the_ext (replicate 32 5) (cx_parent_key_id lock_context) lock_context (sl_payment_proof the_slate) = Inr None"
  "tx_at the_ext saved_wallet (cx_parent_key_id lock_context, n) = None"
  "matching (Some n) None (cx_parent_key_id lock_context) saved_wallet = []"
  "\<forall>out \<in> set (iter saved_wallet). listable the_ext (replicate 32 5) out"
  "length (tx_log_iter saved_wallet) + 1 < 2 ^ 64" "length (iter saved_wallet) + length (cx_output_ids lock_context) < 2 ^ 64"
  by (simp_all add: the_ext_def[THEN arg_cong, of kc_commit] sender_proof_info_def the_slate_def slate_blank_def
      saved_wallet_log iter_saved_wallet lock_context_simps listable_def the_output_def)

lemmas lock_saved_wallet = saved_wallet_facts(1) files_ok_the_ext commits_ok_the_ext keychain_saved_wallet refl
  lock_context_lockable lock_context_facts

theorem lock_then_cancel_restores_witness:
  "\<exists>w1 w2 c. lock_tx_context the_ext None the_slate lock_context None saved_wallet = (Inr (), w1) \<and>
     cancel_tx the_ext None (Identifier 0) (Some (tx_log_counter the_ext saved_wallet (Identifier 0))) None w1 = (Inr (), w2) \<and>
     out_at the_ext w2 (Identifier 7, None) = Some c \<and> od_status c = Unspent \<and> out_at the_ext w2 (Identifier 3, None) = None"
  using lock_then_cancel_restores[OF lock_saved_wallet, of None]
  by (auto simp: lock_context_simps noted_def saved_wallet_map the_output_def)

text \<open>The wallet whose coin is locked, in which the transaction of the lock can be cancelled.\<close>

theorem cancel_tx_undoes_witness:
  "\<exists>w w' n c d. out_at the_ext w (Identifier 7, None) = Some c \<and> od_status c = Locked \<and>
     cancel_tx the_ext None (Identifier 0) (Some n) None w = (Inr (), w') \<and>
     out_at the_ext w' (Identifier 7, None) = Some d \<and> od_status d = Unspent \<and> out_at the_ext w' (Identifier 3, None) = None"
proof -
  let ?n = "tx_log_counter the_ext saved_wallet (Identifier 0)"
  obtain w1 t where w1: "out_at the_ext w1 = locked_map the_ext (replicate 32 5) (Identifier 0) (sl_height the_slate) ?n
       [(Identifier 7, None, 60)] [(Identifier 3, None, 49)] (out_at the_ext saved_wallet)"
    "tl_id t = ?n" "tl_tx_type t = TxSentCreated" "\<not> tl_confirmed t"
    and can: "ready the_ext w1" "fst (keychain the_ext None w1) = Inr (replicate 32 5)"
    "\<forall>out \<in> set (iter w1). listable the_ext (replicate 32 5) out" "length (tx_log_iter w1) < 2 ^ 64"
    "length (iter w1) < 2 ^ 64" "matching (Some ?n) None (Identifier 0) w1 = [t]"
    using lock_makes_cancellable[OF lock_saved_wallet, of None] unfolding lock_context_simps by metis
  have at: "out_at the_ext w1 (Identifier 7, None) = Some (lock (the_output\<lparr>od_tx_log_entry := Some ?n\<rparr>))"
    "\<exists>c. out_at the_ext w1 (Identifier 3, None) = Some c \<and> od_status c = Unconfirmed \<and> belongs (Identifier 0) ?n c"
    unfolding w1(1) by (simp_all add: locked_map_def lock_one_def new_one_def saved_wallet_map new_output_def belongs_def)
  obtain w' where w': "cancel_tx the_ext None (Identifier 0) (Some ?n) None w1 = (Inr (), w')"
    "out_at the_ext w' = cancelled_outputs (Identifier 0) ?n (out_at the_ext w1)"
    using cancel_tx_undoes[OF can] w1(2-4) by auto
  have "out_at the_ext w' (Identifier 7, None) = Some (the_output\<lparr>od_tx_log_entry := Some ?n\<rparr>)"
    "out_at the_ext w' (Identifier 3, None) = None"
    using at by (auto simp: w'(2) cancelled_outputs_def uncancelled_def belongs_def the_output_def lock_def)
  then show ?thesis using w'(1) at(1) by (intro exI conjI) (assumption | simp add: the_output_def)+
qed

end
