(* ===== verification/Scan.thy ===== *)
theory Scan
  imports Updater
begin

text \<open>
  Repairing the wallet from the chain, \<open>libwallet/src/internal/scan.rs\<close>.

  The progress messages sent to the status channel are left out: nothing depends on them.
  The wallet lock is taken and released between steps; the model runs the steps in order.
  The loop that pages through the node's outputs may never end. Within one scan the node
  answers by argument, so an index seen twice repeats for ever: after \<open>2 ^ 64\<close> pages the loop
  is known not to stop, and the answer is \<open>Diverges\<close>.
\<close>

section \<open>Reading the chain\<close>

record OutputResult =
  or_commit :: Commitment
  or_key_id :: Identifier
  or_n_child :: u32
  or_mmr_index :: u64
  or_value :: u64
  or_height :: u64
  or_lock_height :: u64
  or_is_coinbase :: bool

record RestoredTxStats =
  rs_log_id :: u32
  rs_amount_credited :: u64
  rs_num_outputs :: nat

definition rewind :: "ext \<Rightarrow> Keychain \<Rightarrow> Commitment \<Rightarrow> RangeProof \<Rightarrow> error + (u64 \<times> Identifier) option" where
  "rewind E k c proof =
     and_then (rewind_new E k c proof) (\<lambda>info_new.
     (case info_new of None \<Rightarrow> rewind_legacy E k c proof | Some i \<Rightarrow> Inr (Some i)))"

definition identify_output ::
    "ext \<Rightarrow> Keychain \<Rightarrow> Commitment \<times> RangeProof \<times> bool \<times> u64 \<times> u64 \<Rightarrow> error + OutputResult option" where
  "identify_output E k output = (case output of (c, proof, is_coinbase, height, mmr_index) \<Rightarrow>
     and_then (rewind E k c proof) (\<lambda>info.
     Inr (map_option (\<lambda>(amount, key_id).
       \<lparr>or_commit = c, or_key_id = key_id, or_n_child = id_last_path_index E key_id,
        or_mmr_index = mmr_index, or_value = amount, or_height = height,
        or_lock_height = (if is_coinbase then height + coinbase_maturity E else height),
        or_is_coinbase = is_coinbase\<rparr>) info)))"

definition identify_utxo_outputs ::
    "ext \<Rightarrow> Keychain \<Rightarrow> (Commitment \<times> RangeProof \<times> bool \<times> u64 \<times> u64) list \<Rightarrow> error + OutputResult list" where
  "identify_utxo_outputs E k outputs =
     and_then (map_each (identify_output E k) outputs) (\<lambda>rs. Inr (List.map_filter id rs))"

fun collect_loop ::
    "ext \<Rightarrow> Keychain \<Rightarrow> u64 option \<Rightarrow> nat \<Rightarrow> u64 \<Rightarrow> OutputResult list \<Rightarrow> error + OutputResult list \<times> u64" where
  "collect_loop E k end_index fuel start_index result =
     (if fuel = 0 then Inl Diverges
      else
        and_then (get_outputs_by_pmmr_index E start_index end_index 1000)
          (\<lambda>(highest_index, last_retrieved_index, outputs).
        and_then (identify_utxo_outputs E k outputs) (\<lambda>rs.
        if highest_index \<le> last_retrieved_index then Inr (result @ rs, last_retrieved_index)
        else collect_loop E k end_index (fuel - 1) (last_retrieved_index + 1) (result @ rs))))"

declare collect_loop.simps [simp del]

definition collect_chain_outputs ::
    "ext \<Rightarrow> Keychain \<Rightarrow> u64 \<Rightarrow> u64 option \<Rightarrow> error + OutputResult list \<times> u64" where
  "collect_chain_outputs E k start_index end_index = collect_loop E k end_index (2 ^ 64) start_index []"

section \<open>Repairing single outputs\<close>

type_synonym parents = "(Identifier \<times> u32) list"
type_synonym tx_stats = "(Identifier \<times> RestoredTxStats) list"

definition note_parent ::
    "ext \<Rightarrow> Identifier \<Rightarrow> parents \<Rightarrow> tx_stats option \<Rightarrow> (parents \<times> tx_stats option) op" where
  "note_parent E parent_key_id found_parents stats =
     (if map_of found_parents parent_key_id \<noteq> None then ret (found_parents, stats)
      else
        (let found_parents = AList.update parent_key_id 0 found_parents in
         (case stats of
            None \<Rightarrow> ret (found_parents, None)
          | Some s \<Rightarrow>
              bindE (next_tx_log_id E parent_key_id) (\<lambda>log_id.
              ret (found_parents, Some (AList.update parent_key_id
                     \<lparr>rs_log_id = log_id, rs_amount_credited = 0, rs_num_outputs = 0\<rparr> s))))))"

definition restored_entry :: "ext \<Rightarrow> Identifier \<Rightarrow> OutputResult \<Rightarrow> u32 \<Rightarrow> TxLogEntry" where
  "restored_entry E parent_key_id output log_id =
     update_confirmation_ts (utc_now E)
       ((tx_log_entry_new (utc_now E) parent_key_id
           (if or_is_coinbase output then ConfirmedCoinbase else TxReceived) log_id)
          \<lparr>tl_confirmed := True, tl_amount_credited := or_value output, tl_num_outputs := 1,
           tl_public_addr := Some ''Restore''\<rparr>)"

definition restore_log_id ::
    "ext \<Rightarrow> Identifier \<Rightarrow> OutputResult \<Rightarrow> tx_stats option \<Rightarrow> (u32 \<times> tx_stats option) op" where
  "restore_log_id E parent_key_id output stats =
     (if stats = None \<or> or_is_coinbase output then
        bindE (next_tx_log_id E parent_key_id) (\<lambda>log_id.
        bindE (save_tx_log_entry E (restored_entry E parent_key_id output log_id) parent_key_id) (\<lambda>_.
        ret (log_id, stats)))
      else
        (case stats of
           None \<Rightarrow> ret (0, None)
         | Some s \<Rightarrow>
             (case map_of s parent_key_id of
                None \<Rightarrow> throw (Panic ''tx_stats'')
              | Some ts \<Rightarrow>
                  ret (rs_log_id ts, Some (AList.update parent_key_id
                    (ts\<lparr>rs_amount_credited := rs_amount_credited ts + or_value output,
                        rs_num_outputs := rs_num_outputs ts + 1\<rparr>) s)))))"

definition restored_output :: "Identifier \<Rightarrow> OutputResult \<Rightarrow> string option \<Rightarrow> u32 \<Rightarrow> OutputData" where
  "restored_output parent_key_id output c log_id =
     \<lparr>od_root_key_id = parent_key_id, od_key_id = or_key_id output, od_n_child = or_n_child output,
      od_commit = c, od_mmr_index = Some (or_mmr_index output), od_value = or_value output,
      od_status = Unspent, od_height = or_height output, od_lock_height = or_lock_height output,
      od_is_coinbase = or_is_coinbase output, od_tx_log_entry = Some log_id\<rparr>"

definition restore_missing_output ::
    "ext \<Rightarrow> SecretKey option \<Rightarrow> OutputResult \<Rightarrow> parents \<Rightarrow> tx_stats option \<Rightarrow> (parents \<times> tx_stats option) op" where
  "restore_missing_output E keychain_mask output found_parents stats =
     bindE (calc_commit_for_cache E keychain_mask (or_value output) (or_key_id output)) (\<lambda>c.
     bindE (batch E keychain_mask) (\<lambda>b.
     (let parent_key_id = id_parent_path E (or_key_id output) in
      bindE (note_parent E parent_key_id found_parents stats) (\<lambda>(found_parents, stats).
      bindE (restore_log_id E parent_key_id output stats) (\<lambda>(log_id, stats).
      bindE (ignoring (save E (restored_output parent_key_id output c log_id))) (\<lambda>_.
      (case map_of found_parents parent_key_id of
         None \<Rightarrow> throw (Panic ''found_parents'')
       | Some max_child_index \<Rightarrow>
           (let found_parents = (if or_n_child output \<ge> max_child_index
                                 then AList.update parent_key_id (or_n_child output) found_parents
                                 else found_parents) in
            bindE commit (\<lambda>_. ret (found_parents, stats))))))))))"

definition cancel_tx_log_entry :: "ext \<Rightarrow> SecretKey option \<Rightarrow> OutputData \<Rightarrow> unit op" where
  "cancel_tx_log_entry E keychain_mask output =
     (let parent_key_id = id_parent_path E (od_key_id output) in
      bindE (gets (\<lambda>w. case od_tx_log_entry output of
          None \<Rightarrow> None
        | Some i \<Rightarrow>
            (case txs_of (retrieve_txs (Some i) None (Some parent_key_id) False None None None w) of
               [] \<Rightarrow> None
             | entry # _ \<Rightarrow> Some (entry\<lparr>tl_tx_type := cancelled_type (tl_tx_type entry)\<rparr>)))) (\<lambda>updated.
      bindE (batch E keychain_mask) (\<lambda>b.
      bindE (case updated of None \<Rightarrow> ret () | Some t \<Rightarrow> save_tx_log_entry E t parent_key_id) (\<lambda>_.
      commit))))"

section \<open>The scan\<close>

text \<open>
  What the first pass sorts the chain's outputs into: those the wallet lacks, those it has as
  spent, those it has as locked. The records kept for the two repairs are the ones read
  before the pass.
\<close>

record scan_sorted =
  ss_missing :: "OutputResult list"
  ss_accidental_spend :: "OutputData list"
  ss_locked :: "OutputData list"

definition fix_mmr_index :: "ext \<Rightarrow> SecretKey option \<Rightarrow> OutputData \<Rightarrow> OutputResult \<Rightarrow> unit op" where
  "fix_mmr_index E keychain_mask out deffo =
     (if od_mmr_index out \<noteq> Some (or_mmr_index deffo) then
        bindE (batch E keychain_mask) (\<lambda>b.
        bindE (if od_mmr_index out = None
               then delete E (od_key_id out) None (od_tx_log_entry out) else ret ()) (\<lambda>_.
        bindE (save E (out\<lparr>od_mmr_index := Some (or_mmr_index deffo)\<rparr>)) (\<lambda>_.
        commit)))
      else ret ())"

definition sort_chain_output ::
    "ext \<Rightarrow> SecretKey option \<Rightarrow> OutputCommitMapping list \<Rightarrow> OutputResult \<Rightarrow> scan_sorted \<Rightarrow> scan_sorted op" where
  "sort_chain_output E keychain_mask wallet_outputs deffo acc =
     (case find (\<lambda>wo. oc_commit wo = or_commit deffo) wallet_outputs of
        None \<Rightarrow> ret (acc\<lparr>ss_missing := ss_missing acc @ [deffo]\<rparr>)
      | Some s \<Rightarrow>
          (let out = oc_output s in
           bindE (fix_mmr_index E keychain_mask out deffo) (\<lambda>_.
           (let acc = (if od_status out = Spent
                       then acc\<lparr>ss_accidental_spend := ss_accidental_spend acc @ [out]\<rparr> else acc) in
            ret (if od_status out = Locked then acc\<lparr>ss_locked := ss_locked acc @ [out]\<rparr> else acc)))))"

definition make_unspent :: "ext \<Rightarrow> SecretKey option \<Rightarrow> OutputData \<Rightarrow> unit op" where
  "make_unspent E keychain_mask out =
     (let out = out\<lparr>od_status := Unspent\<rparr> in
      bindE (cancel_tx_log_entry E keychain_mask out) (\<lambda>_.
      bindE (batch E keychain_mask) (\<lambda>b.
      bindE (save E out) (\<lambda>_. commit))))"

definition drop_unconfirmed :: "ext \<Rightarrow> SecretKey option \<Rightarrow> OutputData \<Rightarrow> unit op" where
  "drop_unconfirmed E keychain_mask out =
     bindE (cancel_tx_log_entry E keychain_mask out) (\<lambda>_.
     bindE (batch E keychain_mask) (\<lambda>b.
     bindE (delete E (od_key_id out) (od_mmr_index out) (od_tx_log_entry out)) (\<lambda>_. commit)))"

definition parents_iter :: "ext \<Rightarrow> parents \<Rightarrow> parents" where
  "parents_iter E m = List.map_filter (\<lambda>i. map_option (Pair i) (map_of m i)) (hash_order_ids E (map fst m))"

definition restore_account ::
    "ext \<Rightarrow> SecretKey option \<Rightarrow> Identifier list \<Rightarrow> Identifier \<times> u32 \<Rightarrow> nat \<Rightarrow> nat op" where
  "restore_account E keychain_mask accts parent acct_index = (case parent of (acct, max_child_index) \<Rightarrow>
     bindE (if acct \<notin> set accts
            then bindE (set_acct_path E keychain_mask (''account_'' @ decimal acct_index) acct)
                   (\<lambda>_. ret (acct_index + 1))
            else ret acct_index) (\<lambda>acct_index.
     bindE (gets (current_child_index E acct)) (\<lambda>current.
     bindE (if max_child_index \<ge> current then
              bindE (batch E keychain_mask) (\<lambda>b.
              bindE (save_child_index E acct (max_child_index + 1)) (\<lambda>_. commit))
            else ret ()) (\<lambda>_.
     ret acct_index))))"

definition delete_unconfirmed_outputs ::
    "ext \<Rightarrow> SecretKey option \<Rightarrow> OutputData list \<Rightarrow> OutputCommitMapping list \<Rightarrow> unit op" where
  "delete_unconfirmed_outputs E keychain_mask locked_outs wallet_outputs =
     bindE (for_each (make_unspent E keychain_mask) locked_outs) (\<lambda>_.
     for_each (\<lambda>m. drop_unconfirmed E keychain_mask (oc_output m))
       (filter (\<lambda>m. od_status (oc_output m) = Unconfirmed) wallet_outputs))"

definition scan :: "ext \<Rightarrow> SecretKey option \<Rightarrow> bool \<Rightarrow> u64 \<Rightarrow> u64 \<Rightarrow> ScannedBlockInfo op" where
  "scan E keychain_mask delete_unconfirmed start_height end_height =
     bindE (keychain E keychain_mask) (\<lambda>k.
     bindE (liftE (height_range_to_pmmr_indices E start_height (Some end_height))) (\<lambda>pmmr_range.
     bindE (liftE (collect_chain_outputs E k (fst pmmr_range) (Some (snd pmmr_range))))
       (\<lambda>(chain_outs, last_index).
     bindE (retrieve_outputs E keychain_mask True False None None None None None) (\<lambda>(_, _, wallet_outputs).
     bindE (fold_each (sort_chain_output E keychain_mask wallet_outputs) chain_outs
              \<lparr>ss_missing = [], ss_accidental_spend = [], ss_locked = []\<rparr>) (\<lambda>sorted.
     bindE (for_each (make_unspent E keychain_mask) (ss_accidental_spend sorted)) (\<lambda>_.
     bindE (fold_each (\<lambda>m acc. restore_missing_output E keychain_mask m (fst acc) (snd acc))
              (ss_missing sorted) ([], None)) (\<lambda>(found_parents, _).
     bindE (if delete_unconfirmed
            then delete_unconfirmed_outputs E keychain_mask (ss_locked sorted) wallet_outputs
            else ret ()) (\<lambda>_.
     bindE (gets (\<lambda>w. map ap_path (acct_path_iter w))) (\<lambda>accts.
     bindE (fold_each (restore_account E keychain_mask accts) (parents_iter E found_parents)
              (length accts)) (\<lambda>_.
     ret \<lparr>sb_height = end_height, sb_hash = [], sb_start_pmmr_index = fst pmmr_range,
          sb_last_pmmr_index = last_index\<rparr>))))))))))"

end
