(* ===== verification/Owner.thy ===== *)
theory Owner
  imports Tx Scan SlateVersions
begin

text \<open>
  The owner's operations, \<open>libwallet/src/api_impl/owner.rs\<close>, and the recipient's,
  \<open>libwallet/src/api_impl/foreign.rs\<close>: sending, invoicing, receiving, finalising, cancelling,
  and the periodic update of the wallet.

  The operations on the shared wallet take and release its lock between steps; the model
  runs the steps in order. Status messages are left out.
\<close>

definition USER_MESSAGE_MAX_LEN :: nat where "USER_MESSAGE_MAX_LEN = 256"

definition FOREIGN_API_VERSION :: u16 where "FOREIGN_API_VERSION = 2"

record InitTxSendArgs =
  is_method :: string
  is_dest :: string
  is_finalize :: bool
  is_post_tx :: bool
  is_fluff :: bool

record InitTxArgs =
  ia_src_acct_name :: "string option"
  ia_amount :: u64
  ia_minimum_confirmations :: u64
  ia_max_outputs :: u32
  ia_num_change_outputs :: u32
  ia_selection_strategy_is_use_all :: bool
  ia_message :: "string option"
  ia_target_slate_version :: "u16 option"
  ia_ttl_blocks :: "u64 option"
  ia_payment_proof_recipient_address :: "DalekPublicKey option"
  ia_estimate_only :: "bool option"
  ia_send_args :: "InitTxSendArgs option"

record IssueInvoiceTxArgs =
  ii_dest_acct_name :: "string option"
  ii_amount :: u64
  ii_message :: "string option"
  ii_target_slate_version :: "u16 option"

record Pager =
  pg_records_read :: nat
  pg_total_records :: nat
  pg_limit :: nat
  pg_offset :: nat
  pg_sort_order :: string

record RetrieveOutputsResult =
  ro_refresh_from_node :: bool
  ro_pager :: Pager
  ro_outputs :: "OutputCommitMapping list"

record RetrieveTxsResult =
  rt_refresh_from_node :: bool
  rt_pager :: Pager
  rt_txs :: "TxLogEntry list"

record NodeHeightResult =
  nh_height :: u64
  nh_header_hash :: string
  nh_updated_from_node :: bool

record VersionInfo =
  ve_foreign_api_version :: u16
  ve_supported_slate_versions :: "SlateVersion list"

definition init_tx_args_default :: InitTxArgs where
  "init_tx_args_default =
     \<lparr>ia_src_acct_name = None, ia_amount = 0, ia_minimum_confirmations = 10, ia_max_outputs = 500,
      ia_num_change_outputs = 1, ia_selection_strategy_is_use_all = True, ia_message = None,
      ia_target_slate_version = None, ia_ttl_blocks = None,
      ia_payment_proof_recipient_address = None, ia_estimate_only = Some False, ia_send_args = None\<rparr>"

definition invoice_args_default :: IssueInvoiceTxArgs where
  "invoice_args_default =
     \<lparr>ii_dest_acct_name = None, ii_amount = 0, ii_message = None, ii_target_slate_version = None\<rparr>"

section \<open>Shared steps\<close>

text \<open>The named account, or the active one when there is no name or no such account.\<close>

definition named_account :: "ext \<Rightarrow> string option \<Rightarrow> Identifier op" where
  "named_account E name = gets (\<lambda>w. case name of
      Some d \<Rightarrow> (case get_acct_path E d w of Some p \<Rightarrow> ap_path p | None \<Rightarrow> w_parent_key_id w)
    | None \<Rightarrow> w_parent_key_id w)"

definition truncate_message :: "string option \<Rightarrow> error + string option" where
  "truncate_message message = (case message of
      Some m \<Rightarrow> and_then (string_truncate USER_MESSAGE_MAX_LEN m) (\<lambda>m. Inr (Some m))
    | None \<Rightarrow> Inr None)"

definition target_version :: "u16 option \<Rightarrow> Slate \<Rightarrow> Slate" where
  "target_version v slate = (case v of
      Some v \<Rightarrow> slate\<lparr>sl_version_info := (sl_version_info slate)\<lparr>vc_orig_version := v\<rparr>\<rparr>
    | None \<Rightarrow> slate)"

definition keep_context :: "ext \<Rightarrow> SecretKey option \<Rightarrow> Uuid \<Rightarrow> nat \<Rightarrow> Context \<Rightarrow> unit op" where
  "keep_context E keychain_mask slate_id participant_id context =
     bindE (batch E keychain_mask) (\<lambda>b.
     bindE (save_private_context E b (uuid_as_bytes E slate_id) participant_id context) (\<lambda>_. commit))"

definition drop_context :: "ext \<Rightarrow> SecretKey option \<Rightarrow> Uuid \<Rightarrow> nat \<Rightarrow> unit op" where
  "drop_context E keychain_mask slate_id participant_id =
     bindE (batch E keychain_mask) (\<lambda>b.
     bindE (delete_private_context E (uuid_as_bytes E slate_id) participant_id) (\<lambda>_. commit))"

definition check_ttl :: "ext \<Rightarrow> Slate \<Rightarrow> unit op" where
  "check_ttl E slate =
     bindE (gets (last_confirmed_height E)) (\<lambda>height.
     (case sl_ttl_cutoff_height slate of
        Some e \<Rightarrow> if height \<ge> e then throw TransactionExpired else ret ()
      | None \<Rightarrow> ret ()))"

text \<open>\<open>if any entry of the slate has type t, refuse\<close>; the filter is outstanding-only in tests.\<close>

definition refuse_twice :: "ext \<Rightarrow> Slate \<Rightarrow> Identifier \<Rightarrow> bool \<Rightarrow> TxLogEntryType \<Rightarrow> unit op" where
  "refuse_twice E slate parent_key_id use_test_rng t =
     bindE (gets (retrieve_txs None (Some (sl_id slate)) (Some parent_key_id) use_test_rng None None None)) (\<lambda>txs.
     if \<exists>e \<in> set (txs_of txs). tl_tx_type e = t
     then throw (TransactionAlreadyReceived (uuid_string E (sl_id slate))) else ret ())"

section \<open>Sending\<close>

definition proof_address :: "ext \<Rightarrow> SecretKey option \<Rightarrow> Identifier \<Rightarrow> u32 \<Rightarrow> DalekPublicKey op" where
  "proof_address E keychain_mask parent_key_id index =
     bindE (keychain E keychain_mask) (\<lambda>k.
     bindE (liftE (address_from_derivation_path E k parent_key_id index)) (\<lambda>sec_addr_key.
     ret (snd (ed25519_keypair E sec_addr_key))))"

definition get_public_proof_address :: "ext \<Rightarrow> SecretKey option \<Rightarrow> u32 \<Rightarrow> DalekPublicKey op" where
  "get_public_proof_address E keychain_mask index =
     bindE (gets w_parent_key_id) (\<lambda>parent_key_id. proof_address E keychain_mask parent_key_id index)"

definition request_proof ::
    "ext \<Rightarrow> SecretKey option \<Rightarrow> Identifier \<Rightarrow> DalekPublicKey option \<Rightarrow> Context \<Rightarrow> Slate \<Rightarrow> (Context \<times> Slate) op" where
  "request_proof E keychain_mask parent_key_id recipient context slate = (case recipient of
      None \<Rightarrow> ret (context, slate)
    | Some a \<Rightarrow>
        bindE (proof_address E keychain_mask parent_key_id 0) (\<lambda>sender_address.
        ret (context\<lparr>cx_payment_proof_derivation_index := Some 0\<rparr>,
             slate\<lparr>sl_payment_proof := Some \<lparr>pi_sender_address = sender_address,
               pi_receiver_address = a, pi_receiver_signature = None\<rparr>\<rparr>)))"

definition init_send_tx :: "ext \<Rightarrow> SecretKey option \<Rightarrow> InitTxArgs \<Rightarrow> bool \<Rightarrow> Slate op" where
  "init_send_tx E keychain_mask args use_test_rng =
     bindE (named_account E (ia_src_acct_name args)) (\<lambda>parent_key_id.
     bindE (liftE (truncate_message (ia_message args))) (\<lambda>message.
     bindE (liftE (new_tx_slate E (ia_amount args) 2 use_test_rng (ia_ttl_blocks args))) (\<lambda>slate.
     if ia_estimate_only args = Some True then
       bindE (estimate_send_tx E keychain_mask (ia_amount args) (ia_minimum_confirmations args)
                (unat (ia_max_outputs args)) (unat (ia_num_change_outputs args))
                (ia_selection_strategy_is_use_all args) parent_key_id) (\<lambda>(total, fee).
       ret (slate\<lparr>sl_amount := total, sl_fee := fee\<rparr>))
     else
       bindE (add_inputs_to_slate E keychain_mask slate (ia_minimum_confirmations args)
                (unat (ia_max_outputs args)) (unat (ia_num_change_outputs args))
                (ia_selection_strategy_is_use_all args) parent_key_id 0 message True use_test_rng)
         (\<lambda>(context, slate).
       bindE (request_proof E keychain_mask parent_key_id (ia_payment_proof_recipient_address args)
                context slate) (\<lambda>(context, slate).
       bindE (keep_context E keychain_mask (sl_id slate) 0 context) (\<lambda>_.
       ret (target_version (ia_target_slate_version args) slate)))))))"

definition issue_invoice_tx :: "ext \<Rightarrow> SecretKey option \<Rightarrow> IssueInvoiceTxArgs \<Rightarrow> bool \<Rightarrow> Slate op" where
  "issue_invoice_tx E keychain_mask args use_test_rng =
     bindE (named_account E (ii_dest_acct_name args)) (\<lambda>parent_key_id.
     bindE (liftE (truncate_message (ii_message args))) (\<lambda>message.
     bindE (liftE (new_tx_slate E (ii_amount args) 2 use_test_rng None)) (\<lambda>slate.
     bindE (add_output_to_slate E keychain_mask slate parent_key_id 1 message True use_test_rng)
       (\<lambda>(context, slate).
     bindE (keep_context E keychain_mask (sl_id slate) 1 context) (\<lambda>_.
     ret (target_version (ii_target_slate_version args) slate))))))"

definition process_invoice_tx ::
    "ext \<Rightarrow> SecretKey option \<Rightarrow> Slate \<Rightarrow> InitTxArgs \<Rightarrow> bool \<Rightarrow> Slate op" where
  "process_invoice_tx E keychain_mask slate args use_test_rng =
     bindE (check_ttl E slate) (\<lambda>_.
     bindE (named_account E (ia_src_acct_name args)) (\<lambda>parent_key_id.
     bindE (refuse_twice E slate parent_key_id use_test_rng TxSent) (\<lambda>_.
     bindE (liftE (truncate_message (ia_message args))) (\<lambda>message.
     bindE (liftE (get_chain_tip E)) (\<lambda>(height, _).
     (let ret_slate = slate\<lparr>sl_height := height\<rparr>;
          ret_slate = (case ia_ttl_blocks args of
              Some b \<Rightarrow> ret_slate\<lparr>sl_ttl_cutoff_height := Some (height + b)\<rparr>
            | None \<Rightarrow> ret_slate) in
      bindE (add_inputs_to_slate E keychain_mask ret_slate (ia_minimum_confirmations args)
               (unat (ia_max_outputs args)) (unat (ia_num_change_outputs args))
               (ia_selection_strategy_is_use_all args) parent_key_id 0 message False use_test_rng)
        (\<lambda>(context, ret_slate).
      bindE (keep_context E keychain_mask (sl_id slate) 0 context) (\<lambda>_.
      ret (target_version (ia_target_slate_version args) ret_slate)))))))))"

definition tx_lock_outputs :: "ext \<Rightarrow> SecretKey option \<Rightarrow> Slate \<Rightarrow> nat \<Rightarrow> string option \<Rightarrow> unit op" where
  "tx_lock_outputs E keychain_mask slate participant_id addr_to =
     bindE (get_private_context E keychain_mask (uuid_as_bytes E (sl_id slate)) participant_id) (\<lambda>context.
     lock_tx_context E keychain_mask slate context addr_to)"

definition finalize_tx :: "ext \<Rightarrow> SecretKey option \<Rightarrow> Slate \<Rightarrow> Slate op" where
  "finalize_tx E keychain_mask slate =
     bindE (check_ttl E slate) (\<lambda>_.
     bindE (get_private_context E keychain_mask (uuid_as_bytes E (sl_id slate)) 0) (\<lambda>context.
     bindE (gets w_parent_key_id) (\<lambda>parent_key_id.
     bindE (complete_tx E keychain_mask slate 0 context) (\<lambda>sl.
     bindE (verify_slate_payment_proof E keychain_mask parent_key_id context sl) (\<lambda>_.
     bindE (update_stored_tx E keychain_mask context sl False) (\<lambda>_.
     bindE (update_message E keychain_mask sl) (\<lambda>_.
     bindE (drop_context E keychain_mask (sl_id sl) 0) (\<lambda>_.
     ret sl))))))))"

section \<open>Receiving\<close>

definition check_version :: VersionInfo where
  "check_version = \<lparr>ve_foreign_api_version = FOREIGN_API_VERSION, ve_supported_slate_versions = [V3, V2]\<rparr>"

definition sign_proof ::
    "ext \<Rightarrow> Keychain \<Rightarrow> Identifier \<Rightarrow> Commitment \<Rightarrow> Slate \<Rightarrow> error + Slate" where
  "sign_proof E k parent_key_id excess slate = (case sl_payment_proof slate of
      None \<Rightarrow> Inr slate
    | Some p \<Rightarrow>
        and_then (address_from_derivation_path E k parent_key_id 0) (\<lambda>sec_key.
        Inr (slate\<lparr>sl_payment_proof := Some (p\<lparr>pi_receiver_signature :=
          Some (create_payment_proof_signature E (sl_amount slate) excess (pi_sender_address p) sec_key)\<rparr>)\<rparr>)))"

definition receive_tx ::
    "ext \<Rightarrow> SecretKey option \<Rightarrow> Slate \<Rightarrow> string option \<Rightarrow> string option \<Rightarrow> string option \<Rightarrow> bool \<Rightarrow> Slate op" where
  "receive_tx E keychain_mask slate dest_acct_name message addr_from use_test_rng =
     bindE (check_ttl E slate) (\<lambda>_.
     bindE (named_account E dest_acct_name) (\<lambda>parent_key_id.
     bindE (refuse_twice E slate parent_key_id use_test_rng TxReceived) (\<lambda>_.
     bindE (liftE (truncate_message message)) (\<lambda>message.
     bindE (add_output_to_slate E keychain_mask slate parent_key_id 1 message False use_test_rng)
       (\<lambda>(_, ret_slate).
     bindE (update_message E keychain_mask ret_slate) (\<lambda>_.
     bindE (update_public_addr E keychain_mask ret_slate addr_from (Some parent_key_id)) (\<lambda>_.
     bindE (keychain E keychain_mask) (\<lambda>k.
     bindE (liftE (calc_excess E ret_slate)) (\<lambda>excess.
     liftE (sign_proof E k parent_key_id excess ret_slate))))))))))"

definition finalize_invoice_tx :: "ext \<Rightarrow> SecretKey option \<Rightarrow> Slate \<Rightarrow> Slate op" where
  "finalize_invoice_tx E keychain_mask slate =
     bindE (check_ttl E slate) (\<lambda>_.
     bindE (get_private_context E keychain_mask (uuid_as_bytes E (sl_id slate)) 1) (\<lambda>context.
     bindE (complete_tx E keychain_mask slate 1 context) (\<lambda>sl.
     bindE (update_stored_tx E keychain_mask context sl True) (\<lambda>_.
     bindE (update_message E keychain_mask sl) (\<lambda>_.
     bindE (drop_context E keychain_mask (sl_id sl) 1) (\<lambda>_.
     ret sl))))))"

section \<open>Updating from the node\<close>

definition update_outputs :: "ext \<Rightarrow> SecretKey option \<Rightarrow> bool op" where
  "update_outputs E keychain_mask w =
     (case refresh_outputs E keychain_mask (w_parent_key_id w) w of
        (Inr _, w') \<Rightarrow> (Inr True, w')
      | (Inl (Panic p), w') \<Rightarrow> (Inl (Panic p), w')
      | (Inl InvalidKeychainMask, w') \<Rightarrow> (Inl InvalidKeychainMask, w')
      | (Inl _, w') \<Rightarrow> (Inr False, w'))"

text \<open>The loop over the outstanding entries, which are updated in place; \<open>False\<close> is its early exit.\<close>

fun kernel_loop ::
    "ext \<Rightarrow> SecretKey option \<Rightarrow> u64 \<Rightarrow> Identifier \<Rightarrow> TxLogEntry list \<Rightarrow> (bool \<times> TxLogEntry list) op" where
  "kernel_loop E keychain_mask height parent_key_id [] = ret (True, [])"
| "kernel_loop E keychain_mask height parent_key_id (tx # txs) =
     (let next = (\<lambda>tx. bindE (kernel_loop E keychain_mask height parent_key_id txs)
                          (\<lambda>(ok, txs). ret (ok, tx # txs))) in
      if tl_confirmed tx then next tx
      else if tl_amount_debited tx \<noteq> 0 \<and> tl_amount_credited tx \<noteq> 0 then next tx
      else
        (case tl_kernel_excess tx of
           None \<Rightarrow> next tx
         | Some e \<Rightarrow>
             (case get_kernel E e (tl_kernel_lookup_min_height tx) (Some height) of
                Inl _ \<Rightarrow> ret (False, tx # txs)
              | Inr None \<Rightarrow> next tx
              | Inr (Some k) \<Rightarrow>
                  (let tx = (update_confirmation_ts (utc_now E) (tx\<lparr>tl_confirmed := True\<rparr>))
                              \<lparr>tl_confirmation_height := Some height\<rparr> in
                   bindE (batch E keychain_mask) (\<lambda>b.
                   bindE (save_tx_log_entry E tx parent_key_id) (\<lambda>_.
                   bindE commit (\<lambda>_. next tx)))))))"

definition update_txs_via_kernel ::
    "ext \<Rightarrow> SecretKey option \<Rightarrow> TxLogEntry list \<Rightarrow> (bool \<times> TxLogEntry list) op" where
  "update_txs_via_kernel E keychain_mask txs =
     bindE (gets w_parent_key_id) (\<lambda>parent_key_id.
     (case get_chain_tip E of
        Inl _ \<Rightarrow> ret (False, txs)
      | Inr (height, _) \<Rightarrow> kernel_loop E keychain_mask height parent_key_id txs))"

definition scan_from :: "ext \<Rightarrow> u64 \<times> string \<Rightarrow> wallet \<Rightarrow> ScannedBlockInfo" where
  "scan_from E tip w = (case init_status E w of
      InitNeedsScanning \<Rightarrow> no_scanned_block
    | InitNoScanning \<Rightarrow> \<lparr>sb_height = fst tip, sb_hash = snd tip, sb_start_pmmr_index = 0, sb_last_pmmr_index = 0\<rparr>
    | InitComplete \<Rightarrow> last_scanned_block E w)"

definition saturating_sub :: "u64 \<Rightarrow> u64 \<Rightarrow> u64" where
  "saturating_sub a b = (if a < b then 0 else a - b)"

definition cancel_expired :: "ext \<Rightarrow> SecretKey option \<Rightarrow> u64 \<Rightarrow> TxLogEntry \<Rightarrow> unit op" where
  "cancel_expired E keychain_mask height tx = (case tl_ttl_cutoff_height tx of
      None \<Rightarrow> ret ()
    | Some e \<Rightarrow>
        if height \<ge> e then
          bindE (gets w_parent_key_id) (\<lambda>parent_key_id.
          cancel_tx E keychain_mask parent_key_id (Some (tl_id tx)) None)
        else ret ())"

definition update_wallet_state :: "ext \<Rightarrow> SecretKey option \<Rightarrow> bool op" where
  "update_wallet_state E keychain_mask =
     bindE (gets w_parent_key_id) (\<lambda>parent_key_id.
     bindE (update_outputs E keychain_mask) (\<lambda>result.
     if \<not> result then ret False
     else
       bindE (gets (retrieve_txs None None (Some parent_key_id) True None None None)) (\<lambda>txs.
       bindE (update_txs_via_kernel E keychain_mask (txs_of txs)) (\<lambda>(result, txs).
       if \<not> result then ret False
       else
         (case get_chain_tip E of
            Inl _ \<Rightarrow> ret False
          | Inr tip \<Rightarrow>
              bindE (gets (scan_from E tip)) (\<lambda>last_block.
              bindE (scan E keychain_mask False (saturating_sub (sb_height last_block) 100) (fst tip)) (\<lambda>info.
              bindE (batch E keychain_mask) (\<lambda>b.
              bindE (save_last_scanned_block E (info\<lparr>sb_hash := snd tip\<rparr>)) (\<lambda>_.
              bindE (save_init_status E InitComplete) (\<lambda>_.
              bindE commit (\<lambda>_.
              bindE (for_each (cancel_expired E keychain_mask (fst tip)) txs) (\<lambda>_.
              ret True))))))))))))"

definition owner_scan :: "ext \<Rightarrow> SecretKey option \<Rightarrow> u64 option \<Rightarrow> bool \<Rightarrow> unit op" where
  "owner_scan E keychain_mask start_height delete_unconfirmed =
     bindE (update_outputs E keychain_mask) (\<lambda>_.
     bindE (liftE (get_chain_tip E)) (\<lambda>tip.
     bindE (scan E keychain_mask delete_unconfirmed (case start_height of Some h \<Rightarrow> h | None \<Rightarrow> 1) (fst tip)) (\<lambda>info.
     bindE (batch E keychain_mask) (\<lambda>b.
     bindE (save_last_scanned_block E (info\<lparr>sb_hash := snd tip\<rparr>)) (\<lambda>_. commit)))))"

definition owner_cancel_tx :: "ext \<Rightarrow> SecretKey option \<Rightarrow> u32 option \<Rightarrow> Uuid option \<Rightarrow> unit op" where
  "owner_cancel_tx E keychain_mask tx_id tx_slate_id =
     bindE (update_wallet_state E keychain_mask) (\<lambda>ok.
     if \<not> ok then throw (TransactionCancellationError ''Can't contact running Epic node. Not Cancelling.'')
     else
       bindE (gets w_parent_key_id) (\<lambda>parent_key_id.
       cancel_tx E keychain_mask parent_key_id tx_id tx_slate_id))"

section \<open>Queries\<close>

definition maybe_update :: "ext \<Rightarrow> SecretKey option \<Rightarrow> bool \<Rightarrow> bool op" where
  "maybe_update E keychain_mask refresh_from_node =
     (if refresh_from_node then update_wallet_state E keychain_mask else ret False)"

definition pager :: "nat \<Rightarrow> nat \<Rightarrow> nat option \<Rightarrow> nat option \<Rightarrow> string option \<Rightarrow> Pager" where
  "pager records_read total_records limit offset sort_order =
     \<lparr>pg_records_read = records_read, pg_total_records = total_records,
      pg_limit = (case limit of Some n \<Rightarrow> n | None \<Rightarrow> 0),
      pg_offset = (case offset of Some n \<Rightarrow> n | None \<Rightarrow> 0),
      pg_sort_order = (case sort_order of Some s \<Rightarrow> s | None \<Rightarrow> ''asc'')\<rparr>"

definition owner_retrieve_outputs ::
    "ext \<Rightarrow> SecretKey option \<Rightarrow> bool \<Rightarrow> bool \<Rightarrow> bool \<Rightarrow> u32 option \<Rightarrow> nat option \<Rightarrow> nat option \<Rightarrow> string option \<Rightarrow>
     RetrieveOutputsResult op" where
  "owner_retrieve_outputs E keychain_mask include_spent refresh_from_node show_full_history tx_id limit offset
       sort_order =
     bindE (maybe_update E keychain_mask refresh_from_node) (\<lambda>validated.
     bindE (gets w_parent_key_id) (\<lambda>parent_key_id.
     bindE (retrieve_outputs E keychain_mask include_spent show_full_history tx_id (Some parent_key_id)
              limit offset sort_order) (\<lambda>(records_read, total_records, outputs).
     ret \<lparr>ro_refresh_from_node = validated,
          ro_pager = pager records_read total_records limit offset sort_order, ro_outputs = outputs\<rparr>)))"

definition owner_retrieve_txs ::
    "ext \<Rightarrow> SecretKey option \<Rightarrow> bool \<Rightarrow> u32 option \<Rightarrow> Uuid option \<Rightarrow> nat option \<Rightarrow> nat option \<Rightarrow> string option \<Rightarrow>
     RetrieveTxsResult op" where
  "owner_retrieve_txs E keychain_mask refresh_from_node tx_id tx_slate_id limit offset sort_order =
     bindE (maybe_update E keychain_mask refresh_from_node) (\<lambda>validated.
     bindE (gets w_parent_key_id) (\<lambda>parent_key_id.
     bindE (gets (retrieve_txs tx_id tx_slate_id (Some parent_key_id) False limit offset sort_order))
       (\<lambda>(records_read, total_records, txs).
     ret \<lparr>rt_refresh_from_node = validated,
          rt_pager = pager records_read total_records limit offset sort_order, rt_txs = txs\<rparr>)))"

definition retrieve_summary_info :: "ext \<Rightarrow> SecretKey option \<Rightarrow> bool \<Rightarrow> u64 \<Rightarrow> (bool \<times> WalletInfo) op" where
  "retrieve_summary_info E keychain_mask refresh_from_node minimum_confirmations =
     bindE (maybe_update E keychain_mask refresh_from_node) (\<lambda>validated.
     bindE (gets (\<lambda>w. retrieve_info E (w_parent_key_id w) minimum_confirmations w)) (\<lambda>info.
     ret (validated, info)))"

definition node_height :: "ext \<Rightarrow> SecretKey option \<Rightarrow> NodeHeightResult op" where
  "node_height E keychain_mask = (case get_chain_tip E of
      Inr (height, hash) \<Rightarrow> ret \<lparr>nh_height = height, nh_header_hash = hash, nh_updated_from_node = True\<rparr>
    | Inl _ \<Rightarrow>
        bindE (owner_retrieve_outputs E keychain_mask True False False None None None None) (\<lambda>outputs.
        ret \<lparr>nh_height = (case map (od_height \<circ> oc_output) (ro_outputs outputs) of
               [] \<Rightarrow> 0 | h # hs \<Rightarrow> foldl max h hs),
             nh_header_hash = [], nh_updated_from_node = False\<rparr>))"

text \<open>
  Polling the mempool. The argument gives the node's answer at each attempt. The log is read
  once per attempt, and every entry found is saved under the active account.
\<close>

definition in_mempool :: "PoolEntry list \<Rightarrow> TxLogEntry \<Rightarrow> bool" where
  "in_mempool mempool entry \<longleftrightarrow>
     list_ex (\<lambda>p. tl_kernel_excess entry \<noteq> None \<and>
       list_ex (\<lambda>k. Some (k_excess k) = tl_kernel_excess entry) (b_kernels (tx_body (pe_tx p)))) mempool"

definition mark_mempool :: "ext \<Rightarrow> SecretKey option \<Rightarrow> PoolEntry list \<Rightarrow> TxLogEntry \<Rightarrow> bool \<Rightarrow> bool op" where
  "mark_mempool E keychain_mask mempool entry updated =
     (if in_mempool mempool entry then
        bindE (gets w_parent_key_id) (\<lambda>parent_key_id.
        bindE (batch E keychain_mask) (\<lambda>b.
        bindE (save_tx_log_entry E (entry\<lparr>tl_tx_type := mempool_type (tl_tx_type entry)\<rparr>) parent_key_id) (\<lambda>_.
        bindE commit (\<lambda>_. ret True))))
      else ret updated)"

fun wait_for_tx_in_mempool ::
    "ext \<Rightarrow> SecretKey option \<Rightarrow> Uuid \<Rightarrow> (error + PoolEntry list) list \<Rightarrow> bool op" where
  "wait_for_tx_in_mempool E keychain_mask tx_slate_id [] = ret False"
| "wait_for_tx_in_mempool E keychain_mask tx_slate_id (answer # answers) =
     bindE (liftE answer) (\<lambda>mempool.
     bindE (gets (\<lambda>w. filter (\<lambda>e. tl_tx_slate_id e = Some tx_slate_id) (tx_log_iter w))) (\<lambda>txs.
     bindE (fold_each (mark_mempool E keychain_mask mempool) txs False) (\<lambda>updated.
     if updated then ret True
     else wait_for_tx_in_mempool E keychain_mask tx_slate_id answers)))"

definition post_tx :: "ext \<Rightarrow> Transaction \<Rightarrow> bool \<Rightarrow> error + unit" where
  "post_tx E tx fluff = node_post_tx E tx fluff"

end
