(* ===== verification/ScanProps.thy ===== *)
theory ScanProps
  imports Scan WitnessEnv
begin

text \<open>
  The scan of the chain ends, and what it collects is what a single look at every output
  between the two indices would have found.
\<close>

section \<open>Collecting the outputs of the chain\<close>

lemma map_each_append:
  "map_each f (xs @ ys) = and_then (map_each f xs) (\<lambda>as. and_then (map_each f ys) (\<lambda>bs. Inr (as @ bs)))"
  by (induction xs) (auto simp: and_then_def split: sum.splits)

lemma identify_known:
  assumes "\<forall>x \<in> set xs. identify_output E k x = Inr (f x)"
  shows "identify_utxo_outputs E k xs = Inr (List.map_filter f xs)"
proof -
  have "map_each (identify_output E k) xs = Inr (map f xs)" using assms by (induction xs) auto
  then show ?thesis by (simp add: identify_utxo_outputs_def List.map_filter_def comp_def filter_map)
qed

text \<open>
  The outputs of a chain, in the order of their index, from one index on and between two. The
  node answers with those between the index asked for and the last one it names, which is not
  before the one asked for unless the chain ends there.
\<close>

type_synonym chain_output = "Commitment \<times> RangeProof \<times> bool \<times> u64 \<times> u64"
type_synonym chain = "(u64 \<times> chain_output) list"

definition outputs_from :: "chain \<Rightarrow> u64 \<Rightarrow> chain_output list" where
  "outputs_from chain a = map snd (filter (\<lambda>x. a \<le> fst x) chain)"

definition outputs_between :: "chain \<Rightarrow> u64 \<Rightarrow> u64 \<Rightarrow> chain_output list" where
  "outputs_between chain a b = map snd (filter (\<lambda>x. a \<le> fst x \<and> fst x \<le> b) chain)"

definition pages_of :: "chain \<Rightarrow> u64 \<Rightarrow> ext \<Rightarrow> u64 option \<Rightarrow> bool" where
  "pages_of chain last_index E end_index \<longleftrightarrow> (\<forall>a. \<exists>b. (a \<le> b \<or> last_index \<le> b) \<and>
     get_outputs_by_pmmr_index E a end_index 1000 = Inr (last_index, b, outputs_between chain a b))"

lemma outputs_between_from:
  assumes "sorted_wrt (\<lambda>x y. fst x < fst y) chain" and "a \<le> b" and "b < c" and "\<And>i. b < i \<Longrightarrow> c \<le> i"
  shows "outputs_between chain a b @ outputs_from chain c = outputs_from chain a"
  using assms(1)
proof (induction chain)
  case (Cons x chain)
  show ?case
  proof (cases "b < fst x")
    case True
    then have "\<forall>y \<in> set (x # chain). b < fst y" using Cons.prems by fastforce
    then have "outputs_between (x # chain) a b = []" "\<forall>y \<in> set (x # chain). a \<le> fst y \<longleftrightarrow> c \<le> fst y"
      using assms(2-4) by (force simp: outputs_between_def filter_empty_conv)+
    then show ?thesis by (simp add: outputs_from_def cong: filter_cong)
  next
    case False
    then show ?thesis using Cons assms(3) by (auto simp: outputs_between_def outputs_from_def)
  qed
qed (simp add: outputs_between_def outputs_from_def)

lemma outputs_between_last:
  assumes "\<forall>x \<in> set chain. fst x \<le> last_index" and "last_index \<le> b"
  shows "outputs_between chain a b = outputs_from chain a"
  unfolding outputs_between_def outputs_from_def using assms by (intro arg_cong[of _ _ "map snd"] filter_cong) auto

lemma found_append: "List.map_filter f (xs @ ys) = List.map_filter f xs @ List.map_filter f ys"
  by (simp add: List.map_filter_def)

lemma collect_loop_returns:
  assumes "pages_of chain last_index E end_index" and "sorted_wrt (\<lambda>x y. fst x < fst y) chain"
    and "\<forall>x \<in> set chain. fst x \<le> last_index" and "\<forall>x \<in> set chain. identify_output E k (snd x) = Inr (f (snd x))"
    and "2 ^ 64 \<le> fuel + unat a"
  shows "\<exists>l. last_index \<le> l \<and> collect_loop E k end_index fuel a res = Inr (res @ List.map_filter f (outputs_from chain a), l)"
  using assms(5)
proof (induction fuel arbitrary: a res)
  case 0
  then show ?case using unat_less_power[of a] by simp
next
  case (Suc fuel)
  obtain b where b: "a \<le> b \<or> last_index \<le> b"
    "get_outputs_by_pmmr_index E a end_index 1000 = Inr (last_index, b, outputs_between chain a b)"
    using assms(1) by (auto simp: pages_of_def)
  have found: "identify_utxo_outputs E k (outputs_between chain a b) = Inr (List.map_filter f (outputs_between chain a b))"
    by (rule identify_known) (use assms(4) in \<open>auto simp: outputs_between_def\<close>)
  show ?case
  proof (cases "last_index \<le> b")
    case True
    then show ?thesis
      using b(2) found outputs_between_last[OF assms(3) True, of a] by (subst collect_loop.simps) auto
  next
    case False
    have "b < b + 1"
    proof (rule ccontr)
      assume "\<not> b < b + 1"
      then have "b = - 1" using inc_less_eq_self_iff_eq[of b] by (simp add: not_less)
      then show False using False by simp
    qed
    with False b(1) have ab: "a \<le> b" "b < b + 1" by auto
    have "unat a < unat (b + 1)" using ab by (metis le_less_trans word_less_nat_alt)
    then have "2 ^ 64 \<le> fuel + unat (b + 1)" using Suc.prems by simp
    then obtain l where "last_index \<le> l" "collect_loop E k end_index fuel (b + 1) (res @ List.map_filter f (outputs_between chain a b))
        = Inr ((res @ List.map_filter f (outputs_between chain a b)) @ List.map_filter f (outputs_from chain (b + 1)), l)"
      using Suc.IH by blast
    moreover have "outputs_between chain a b @ outputs_from chain (b + 1) = outputs_from chain a"
      by (rule outputs_between_from[OF assms(2) ab]) (simp add: inc_le)
    ultimately show ?thesis
      using b(2) found False by (subst collect_loop.simps) (auto simp: found_append[symmetric])
  qed
qed

text \<open>C29. With a node that pages through a chain, collecting ends and finds, in order, exactly the outputs of
  the wallet among those from the start index on, and the index reached is the chain's end.\<close>

theorem collect_chain_outputs_complete:
  assumes "pages_of chain last_index E end_index" and "sorted_wrt (\<lambda>x y. fst x < fst y) chain"
    and "\<forall>x \<in> set chain. fst x \<le> last_index" and "\<forall>x \<in> set chain. identify_output E k (snd x) = Inr (f (snd x))"
  shows "\<exists>l. last_index \<le> l \<and>
    collect_chain_outputs E k start_index end_index = Inr (List.map_filter f (outputs_from chain start_index), l)"
  using collect_loop_returns[OF assms, of "2 ^ 64" start_index "[]"] by (simp add: collect_chain_outputs_def)

text \<open>A chain with two outputs, both recognised, of which the scan starts after the first.\<close>

definition scanned_ext :: ext where
  "scanned_ext = the_ext\<lparr>rewind_new := (\<lambda>_ _ _. Inr (Some (60, Identifier 7))),
     get_outputs_by_pmmr_index := (\<lambda>a _ _. Inr (9, max a 9, outputs_between [(3, [1], [], False, 10, 3), (8, [2], [], False, 20, 8)] a (max a 9)))\<rparr>"

theorem collect_chain_outputs_complete_witness:
  "\<exists>l. 9 \<le> l \<and> collect_chain_outputs scanned_ext (replicate 32 5) 4 None =
     Inr ([\<lparr>or_commit = [2], or_key_id = Identifier 7, or_n_child = 0, or_mmr_index = 8, or_value = 60, or_height = 20,
            or_lock_height = 20, or_is_coinbase = False\<rparr>], l)"
proof -
  let ?f = "\<lambda>(c, p, cb, h, i). Some \<lparr>or_commit = c, or_key_id = Identifier 7, or_n_child = 0, or_mmr_index = i,
    or_value = 60, or_height = h, or_lock_height = h, or_is_coinbase = False\<rparr>"
  let ?chain = "[(3, [1], [], False, 10, 3), (8, [2], [], False, 20, 8)] :: chain"
  have "\<forall>x \<in> set ?chain. identify_output scanned_ext (replicate 32 5) (snd x) = Inr (?f (snd x))"
    by (simp add: identify_output_def rewind_def scanned_ext_def the_ext_def)
  moreover have "pages_of ?chain 9 scanned_ext None"
    by (auto simp: pages_of_def scanned_ext_def)
  ultimately show ?thesis
    using collect_chain_outputs_complete[of ?chain 9 scanned_ext None "replicate 32 5" ?f 4]
    by (simp add: outputs_from_def List.map_filter_def)
qed

end
