(* ===== verification/Digits.thy ===== *)
theory Digits
  imports Prelude
begin

text \<open>
  Positional notation: the value of a list of digits, most significant first, and the digits
  of a value. The byte and base 58 codecs are measured against it.
\<close>

definition digits_value :: "nat \<Rightarrow> nat list \<Rightarrow> nat" where
  "digits_value b ds = foldl (\<lambda>n d. n * b + d) 0 ds"

lemma foldl_digits: "foldl (\<lambda>n d. n * b + d) n ds = n * b ^ length ds + digits_value b ds"
proof (induction ds arbitrary: n)
  case (Cons d ds)
  show ?case using Cons[of "n * b + d"] Cons[of d] by (simp add: digits_value_def algebra_simps)
qed (simp add: digits_value_def)

lemma digits_value_Nil [simp]: "digits_value b [] = 0"
  by (simp add: digits_value_def)

lemma digits_value_Cons: "digits_value b (d # ds) = d * b ^ length ds + digits_value b ds"
  using foldl_digits[of b d ds] by (simp add: digits_value_def)

lemma digits_value_append: "digits_value b (xs @ ys) = digits_value b xs * b ^ length ys + digits_value b ys"
  using foldl_digits[of b "digits_value b xs" ys] by (simp add: digits_value_def)

lemma digits_value_zeros: "\<forall>d \<in> set ds. d = 0 \<Longrightarrow> digits_value b ds = 0"
  by (induction ds) (simp_all add: digits_value_Cons)

lemma digits_value_strip: "digits_value b (dropWhile (\<lambda>d. d = 0) ds) = digits_value b ds"
  by (induction ds) (simp_all add: digits_value_Cons)

lemma digits_value_less: "\<forall>d \<in> set ds. d < b \<Longrightarrow> digits_value b ds < b ^ length ds"
proof (induction ds)
  case (Cons d ds)
  then have "digits_value b ds < b ^ length ds" by simp
  then have "d * b ^ length ds + digits_value b ds < (d + 1) * b ^ length ds" by simp
  also have "\<dots> \<le> b * b ^ length ds" using Cons.prems by (intro mult_right_mono) auto
  finally show ?case by (simp add: digits_value_Cons)
qed simp

lemma digits_value_prefix: "0 < b \<Longrightarrow> digits_value b xs \<le> digits_value b (xs @ ys)"
  by (simp add: digits_value_append add.commute trans_le_add2)

lemma digits_value_inj:
  assumes "length xs = length ys" and "\<forall>d \<in> set xs. d < b" and "\<forall>d \<in> set ys. d < b"
    and "digits_value b xs = digits_value b ys"
  shows "xs = ys"
  using assms
proof (induction xs ys rule: list_induct2)
  case (Cons x xs y ys)
  have less: "digits_value b xs < b ^ length xs" "digits_value b ys < b ^ length xs"
    using digits_value_less[of xs b] digits_value_less[of ys b] Cons.prems Cons.hyps by auto
  have eq: "x * b ^ length xs + digits_value b xs = y * b ^ length xs + digits_value b ys"
    using Cons.prems(3) Cons.hyps by (simp add: digits_value_Cons)
  then have "(x * b ^ length xs + digits_value b xs) div b ^ length xs = (y * b ^ length xs + digits_value b ys) div b ^ length xs"
    by simp
  then have "x = y" using less by (metis add.commute add_eq_0_iff_both_eq_0 div_mult_self3 div_less nat_neq_iff not_less0 plus_nat.add_0)
  then show ?case using eq Cons by simp
qed simp

section \<open>The digits of a value\<close>

function to_digits :: "nat \<Rightarrow> nat \<Rightarrow> nat list" where
  "to_digits b n = (if n = 0 \<or> b < 2 then [] else to_digits b (n div b) @ [n mod b])"
  by auto
termination by (relation "measure snd") auto

declare to_digits.simps [simp del]

lemma to_digits_value:
  assumes "\<forall>d \<in> set ds. d < b" and "2 \<le> b" and "ds = [] \<or> hd ds \<noteq> 0"
  shows "to_digits b (digits_value b ds) = ds"
  using assms
proof (induction ds rule: rev_induct)
  case Nil
  then show ?case by (simp add: to_digits.simps)
next
  case (snoc d ds)
  have v: "digits_value b (ds @ [d]) = digits_value b ds * b + d"
    by (simp add: digits_value_append digits_value_Cons)
  have "digits_value b (ds @ [d]) \<noteq> 0"
  proof (cases ds)
    case Nil
    then show ?thesis using snoc.prems(3) by (simp add: digits_value_Cons)
  next
    case (Cons x xs)
    then show ?thesis using snoc.prems(2,3) by (simp add: v digits_value_Cons)
  qed
  moreover have "ds = [] \<or> hd ds \<noteq> 0" using snoc.prems(3) by (cases ds) auto
  ultimately show ?case
    using snoc by (subst to_digits.simps) (simp add: v)
qed

lemma value_to_digits: "2 \<le> b \<Longrightarrow> digits_value b (to_digits b n) = n"
proof (induction b n rule: to_digits.induct)
  case (1 b n)
  then show ?case
    by (subst to_digits.simps) (simp add: digits_value_append digits_value_Cons)
qed

lemma to_digits_digits: "2 \<le> b \<Longrightarrow> d \<in> set (to_digits b n) \<Longrightarrow> d < b"
proof (induction b n rule: to_digits.induct)
  case (1 b n)
  then show ?case by (subst (asm) to_digits.simps) (auto split: if_splits)
qed

lemma to_digits_length:
  assumes "2 \<le> b" and "b ^ k \<le> n" and "n < b ^ Suc k"
  shows "length (to_digits b n) = Suc k"
  using assms
proof (induction k arbitrary: n)
  case 0
  then have "n div b = 0" by simp
  then show ?case using 0 by (subst to_digits.simps) (simp add: to_digits.simps[of b 0])
next
  case (Suc k)
  have "b ^ k \<le> n div b" using Suc.prems by (simp add: less_eq_div_iff_mult_less_eq mult.commute)
  moreover have "n div b < b ^ Suc k" using Suc.prems by (simp add: div_less_iff_less_mult mult.commute)
  moreover have "n \<noteq> 0" using Suc.prems by (metis le_zero_eq not_numeral_le_zero power_eq_0_iff)
  ultimately show ?case using Suc.IH[of "n div b"] Suc.prems(1) by (subst to_digits.simps) simp
qed

lemma decimal_digits:
  "decimal n = (if n = 0 then ''0'' else map (\<lambda>d. char_of (48 + d)) (to_digits 10 n))"
proof (induction n rule: decimal.induct)
  case (1 n)
  show ?case
  proof (cases "n < 10")
    case True
    have "char_of (48 :: nat) = CHR ''0''" by code_simp
    then show ?thesis using True
      by (subst decimal.simps) (simp add: to_digits.simps[of 10 n] to_digits.simps[of 10 0])
  next
    case False
    then have "n div 10 \<noteq> 0" by simp
    then show ?thesis
      using 1[OF False] False by (subst decimal.simps) (simp add: to_digits.simps[of 10 n])
  qed
qed

lemma hd_dropWhile_zero: "dropWhile (\<lambda>d. d = 0) ds = [] \<or> hd (dropWhile (\<lambda>d. d = 0) ds) \<noteq> (0 :: nat)"
  by (induction ds) auto

lemma strip_digits:
  assumes "\<forall>d \<in> set ds. d < b" and "2 \<le> b"
  shows "dropWhile (\<lambda>d. d = 0) ds = to_digits b (digits_value b ds)"
proof -
  have "\<forall>d \<in> set (dropWhile (\<lambda>d. d = 0) ds). d < b" using assms(1) set_dropWhileD by metis
  then show ?thesis
    using to_digits_value[OF _ assms(2) hd_dropWhile_zero, of ds] by (simp add: digits_value_strip)
qed

end
