(* ===== verification/Text.thy ===== *)
theory Text
  imports Types Digits
begin

text \<open>
  The operations of Rust's \<open>str\<close> that the codecs use, on the UTF-8 bytes of the text: slices
  that panic off a character boundary, trimming, and the parsing of unsigned numbers.
\<close>

section \<open>Slices\<close>

definition str_slice :: "nat \<Rightarrow> nat \<Rightarrow> string \<Rightarrow> error + string" where
  "str_slice a b s =
     (if a \<le> b \<and> b \<le> length s \<and> is_char_boundary s a \<and> is_char_boundary s b
      then Inr (take (b - a) (drop a s)) else Inl (Panic ''str slice''))"

definition starts_with :: "string \<Rightarrow> string \<Rightarrow> bool" where
  "starts_with p s \<longleftrightarrow> take (length p) s = p"

definition ends_with :: "string \<Rightarrow> string \<Rightarrow> bool" where
  "ends_with p s \<longleftrightarrow> length p \<le> length s \<and> drop (length s - length p) s = p"

text \<open>\<open>replace(p, "")\<close> for a pattern that is not empty.\<close>

fun remove_all :: "string \<Rightarrow> string \<Rightarrow> string" where
  "remove_all p [] = []"
| "remove_all p (c # s) =
     (if p \<noteq> [] \<and> starts_with p (c # s) then remove_all p (drop (length p - 1) s) else c # remove_all p s)"

text \<open>\<open>str::contains\<close>.\<close>

primrec contains :: "string \<Rightarrow> string \<Rightarrow> bool" where
  "contains [] p = starts_with p []"
| "contains (c # s) p = (starts_with p (c # s) \<or> contains s p)"

section \<open>Trimming\<close>

text \<open>The UTF-8 encodings of the characters with the property \<open>White_Space\<close>.\<close>

definition white_space :: "nat list list" where
  "white_space = map (\<lambda>b. [b]) [9, 10, 11, 12, 13, 32] @
     [[0xC2, 0x85], [0xC2, 0xA0], [0xE1, 0x9A, 0x80]] @ map (\<lambda>b. [0xE2, 0x80, b]) [0x80..<0x8B] @
     [[0xE2, 0x80, 0xA8], [0xE2, 0x80, 0xA9], [0xE2, 0x80, 0xAF], [0xE2, 0x81, 0x9F], [0xE3, 0x80, 0x80]]"

definition white_prefix :: "nat list list \<Rightarrow> string \<Rightarrow> nat" where
  "white_prefix ws s =
     (case find (\<lambda>w. w \<noteq> [] \<and> map of_char (take (length w) s) = w) ws of None \<Rightarrow> 0 | Some w \<Rightarrow> length w)"

function drop_white :: "nat list list \<Rightarrow> string \<Rightarrow> string" where
  "drop_white ws s = (if white_prefix ws s = 0 then s else drop_white ws (drop (white_prefix ws s) s))"
  by auto
termination
proof (relation "measure (\<lambda>(ws, s). length s)")
  fix ws s assume p: "white_prefix ws s \<noteq> 0"
  then obtain w where "find (\<lambda>w. w \<noteq> [] \<and> map of_char (take (length w) s) = w) ws = Some w"
    by (auto simp: white_prefix_def split: option.splits)
  then have "s \<noteq> []" by (auto simp: find_Some_iff)
  with p show "((ws, drop (white_prefix ws s) s), (ws, s)) \<in> measure (\<lambda>(ws, s). length s)" by simp
qed simp

declare drop_white.simps [simp del]

definition trim :: "string \<Rightarrow> string" where
  "trim s = rev (drop_white (map rev white_space) (rev (drop_white white_space s)))"

section \<open>Pieces\<close>

text \<open>\<open>split(c)\<close>, and its \<open>n\<close>th piece.\<close>

fun split_on :: "char \<Rightarrow> string \<Rightarrow> string list" where
  "split_on c [] = [[]]"
| "split_on c (x # xs) =
     (if x = c then [] # split_on c xs
      else (case split_on c xs of w # ws \<Rightarrow> (x # w) # ws | [] \<Rightarrow> [[x]]))"

definition nth_piece :: "nat \<Rightarrow> char \<Rightarrow> string \<Rightarrow> string option" where
  "nth_piece n c s = (let ps = split_on c s in if n < length ps then Some (ps ! n) else None)"

section \<open>Numbers\<close>

definition digit_val :: "nat \<Rightarrow> char \<Rightarrow> nat option" where
  "digit_val radix c =
     (let n = (of_char c :: nat);
          v = (if 48 \<le> n \<and> n \<le> 57 then n - 48
               else if 97 \<le> n \<and> n \<le> 122 then n - 87
               else if 65 \<le> n \<and> n \<le> 90 then n - 55 else radix) in
      if v < radix then Some v else None)"

text \<open>\<open>from_str_radix\<close> of an unsigned type with values below \<open>bound\<close>: one leading plus is allowed.\<close>

definition parse_uint :: "nat \<Rightarrow> nat \<Rightarrow> string \<Rightarrow> nat option" where
  "parse_uint radix bound s =
     (let ds = (case s of c # d # cs \<Rightarrow> if c = CHR ''+'' then d # cs else s | _ \<Rightarrow> s) in
      if ds = [] then None
      else (case those (map (digit_val radix) ds) of
              None \<Rightarrow> None
            | Some vs \<Rightarrow> (let v = digits_value radix vs in if v < bound then Some v else None)))"

end
