(* ===== verification/Base58.thy ===== *)
theory Base58
  imports Types
begin

text \<open>
  Base 58 text, \<open>libwallet/src/base58.rs\<close>: the encoder over a buffer of base 58 digits, the
  decoder over 33 limbs of 32 bits, and the variants with a version and a checksum.

  A \<open>String\<close> is the list of its bytes as characters. SHA-256 is an argument. A loop that may
  not end is a partial function, \<open>None\<close> when it does not.
\<close>

section \<open>The alphabet\<close>

definition b58_alphabet :: string where
  "b58_alphabet = ''123456789ABCDEFGHJKLMNPQRSTUVWXYZabcdefghijkmnopqrstuvwxyz''"

definition b58_digits_map :: "int list" where
  "b58_digits_map =
     [-1, -1, -1, -1, -1, -1, -1, -1, -1, -1, -1, -1, -1, -1, -1, -1, -1, -1, -1, -1, -1, -1, -1, -1,
      -1, -1, -1, -1, -1, -1, -1, -1, -1, -1, -1, -1, -1, -1, -1, -1, -1, -1, -1, -1, -1, -1, -1, -1,
      -1, 0, 1, 2, 3, 4, 5, 6, 7, 8, -1, -1, -1, -1, -1, -1, -1, 9, 10, 11, 12, 13, 14, 15, 16, -1,
      17, 18, 19, 20, 21, -1, 22, 23, 24, 25, 26, 27, 28, 29, 30, 31, 32, -1, -1, -1, -1, -1, -1, 33,
      34, 35, 36, 37, 38, 39, 40, 41, 42, 43, -1, 44, 45, 46, 47, 48, 49, 50, 51, 52, 53, 54, 55, 56,
      57, -1, -1, -1, -1, -1]"

section \<open>Encoding\<close>

text \<open>
  One byte: \<open>while j > high || carry != 0\<close>, from the last digit of the buffer to the first. The
  index stays below the length of the buffer, where it starts, and at zero when it gets there.
\<close>

partial_function (option) b58_push :: "nat \<Rightarrow> u32 \<Rightarrow> nat \<Rightarrow> u8 list \<Rightarrow> (nat \<times> u8 list) option" where
  "b58_push high carry j buffer =
     (if j > high \<or> carry \<noteq> 0 then
        (let carry = carry + 256 * ucast (buffer ! j);
             buffer = buffer[j := ucast (carry mod 58)] in
         b58_push high (carry div 58) (if j > 0 then j - 1 else j) buffer)
      else Some (j, buffer))"

text \<open>All bytes after the leading zeros; the end position of one byte bounds the next.\<close>

fun b58_push_all :: "nat \<Rightarrow> bytes \<Rightarrow> nat \<Rightarrow> u8 list \<Rightarrow> u8 list option" where
  "b58_push_all sz [] high buffer = Some buffer"
| "b58_push_all sz (b # bs) high buffer =
     Option.bind (b58_push high (ucast b) (sz - 1) buffer) (\<lambda>(j, buffer). b58_push_all sz bs j buffer)"

definition b58_size :: "nat \<Rightarrow> nat" where
  "b58_size n = n * 138 div 100 + 1"

definition to_base58 :: "bytes \<Rightarrow> string option" where
  "to_base58 self =
     (let zcount = length (takeWhile (\<lambda>x. x = 0) self);
          sz = b58_size (length self - zcount) in
      map_option (\<lambda>buffer.
          replicate zcount (CHR ''1'') @ map (\<lambda>d. b58_alphabet ! unat d) (dropWhile (\<lambda>x. x = 0) buffer))
        (b58_push_all sz (drop zcount self) (sz - 1) (replicate sz 0)))"

definition double_sha256 :: "(bytes \<Rightarrow> bytes) \<Rightarrow> bytes \<Rightarrow> bytes" where
  "double_sha256 sha256 payload = sha256 (sha256 payload)"

definition to_base58_check :: "(bytes \<Rightarrow> bytes) \<Rightarrow> bytes \<Rightarrow> bytes \<Rightarrow> string option" where
  "to_base58_check sha256 self version =
     (let payload = version @ self in to_base58 (payload @ take 4 (double_sha256 sha256 payload)))"

section \<open>Decoding\<close>

text \<open>\<open>out = out * 58 + c\<close> on the limbs, most significant first; the result is the final carry.\<close>

fun b58_mul_add :: "u32 list \<Rightarrow> u64 \<Rightarrow> u64 \<times> u32 list" where
  "b58_mul_add [] c = (c, [])"
| "b58_mul_add (x # out) c =
     (case b58_mul_add out c of (c, out) \<Rightarrow>
        (let t = ucast x * 58 + c in
         (drop_bit 32 (t AND 0x3f00000000), ucast (t AND 0xffffffff) # out)))"

text \<open>The buffer has 132 bytes, a multiple of four, so no byte is left over and the mask is zero.\<close>

definition b58_zeromask :: u32 where
  "b58_zeromask = (if (132 :: nat) mod 4 = 0 then 0 else push_bit (132 mod 4 * 8) 0xffffffff)"

definition b58_digit :: "nat \<Rightarrow> char \<Rightarrow> error + u64" where
  "b58_digit i ch =
     (let b = (of_char ch :: nat) in
      if (of_char ch :: u8) AND 0x80 \<noteq> 0 then Inl (InvalidBase58Character ch i)
      else if b58_digits_map ! b = - 1 then Inl (InvalidBase58Character ch i)
      else Inr (of_int (b58_digits_map ! b)))"

fun b58_read :: "nat \<Rightarrow> string \<Rightarrow> u32 list \<Rightarrow> error + u32 list" where
  "b58_read i [] out = Inr out"
| "b58_read i (ch # chs) out =
     and_then (b58_digit i ch) (\<lambda>d.
     (case b58_mul_add out d of (c, out) \<Rightarrow>
        if c \<noteq> 0 then Inl InvalidBase58Length
        else if hd out AND b58_zeromask \<noteq> 0 then Inl InvalidBase58Length
        else b58_read (i + 1) chs out))"

definition limb_bytes :: "u32 \<Rightarrow> bytes" where
  "limb_bytes x = [ucast (drop_bit 0x18 x AND 0xff), ucast (drop_bit 0x10 x AND 0xff),
                   ucast (drop_bit 8 x AND 0xff), ucast (drop_bit 0 x AND 0xff)]"

definition from_base58 :: "string \<Rightarrow> error + bytes" where
  "from_base58 self =
     (let zcount = length (takeWhile (\<lambda>x. x = CHR ''1'') self) in
      and_then (b58_read zcount (drop zcount self) (replicate 33 0)) (\<lambda>out.
      (let bin = concat (map limb_bytes out);
           leading_zeros = length (takeWhile (\<lambda>x. x = 0) bin) in
       if zcount \<le> leading_zeros then Inr (drop (leading_zeros - zcount) bin)
       else Inl (Panic ''bin[leading_zeros - zcount..]''))))"

definition from_base58_check :: "(bytes \<Rightarrow> bytes) \<Rightarrow> string \<Rightarrow> nat \<Rightarrow> error + bytes \<times> bytes" where
  "from_base58_check sha256 self version_bytes =
     and_then (from_base58 self) (\<lambda>payload.
     if length payload < 5 then Inl InvalidBase58Checksum
     else
       (let checksum_index = length payload - 4;
            provided_checksum = drop checksum_index payload;
            payload = take checksum_index payload in
        if take 4 (double_sha256 sha256 payload) \<noteq> provided_checksum then Inl InvalidBase58Checksum
        else if version_bytes \<le> length payload
        then Inr (take version_bytes payload, drop version_bytes payload)
        else Inl (Panic ''payload[..version_bytes]'')))"

end
