(* ===== verification/Crypto.thy ===== *)
theory Crypto
  imports Text Base58
begin

text \<open>
  Text forms of keys, signatures and commitments, and signatures over a text,
  \<open>libwallet/src/crypto.rs\<close>. Secp256k1, SHA-256, the key derivation and the cipher of the
  messages are the fields of one record; what is drawn at random is a field as well.
\<close>

record crypto_ext =
  sha256 :: "bytes \<Rightarrow> bytes"
  pk_serialize :: "PublicKey \<Rightarrow> bytes"
  pk_from_slice :: "bytes \<Rightarrow> PublicKey option"
  pk_of_secret :: "SecretKey \<Rightarrow> PublicKey"
  pk_mul :: "PublicKey \<Rightarrow> SecretKey \<Rightarrow> PublicKey option"
  sig_to_der :: "Signature \<Rightarrow> bytes"
  sig_from_der :: "bytes \<Rightarrow> Signature option"
  sk_from_slice :: "bytes \<Rightarrow> SecretKey option"
  commit_from_vec :: "bytes \<Rightarrow> Commitment"
  secp_message :: "bytes \<Rightarrow> error + bytes"
  secp_sign :: "bytes \<Rightarrow> SecretKey \<Rightarrow> Signature option"
  secp_verify :: "bytes \<Rightarrow> Signature \<Rightarrow> PublicKey \<Rightarrow> bool"
  pbkdf2 :: "nat \<Rightarrow> bytes \<Rightarrow> bytes \<Rightarrow> bytes"
  aead_seal :: "bytes \<Rightarrow> bytes \<Rightarrow> bytes \<Rightarrow> bytes option"
  aead_open :: "bytes \<Rightarrow> bytes \<Rightarrow> bytes \<Rightarrow> bytes option"
  random_salt :: bytes
  random_nonce :: bytes
  from_utf8 :: "bytes \<Rightarrow> string option"
  is_floonet :: bool

section \<open>Hexadecimal\<close>

definition hex_char :: "nat \<Rightarrow> char" where
  "hex_char n = (if n < 10 then char_of (48 + n) else char_of (87 + n))"

definition bytes_to_hex :: "bytes \<Rightarrow> string" where
  "bytes_to_hex bs = concat (map (\<lambda>b. [hex_char (unat b div 16), hex_char (unat b mod 16)]) bs)"

text \<open>
  \<open>(0..(s.len() - n + 1) / 2 + 1).map(|i| &s[2 * i..2 * i + n])\<close> for \<open>n = 2\<close>: the subtraction
  wraps for a text shorter than 2, whose first slice then is out of range.
\<close>

definition split_2 :: "string \<Rightarrow> error + string list" where
  "split_2 s =
     (if length s < 2 then Inl (Panic ''str slice'')
      else map_each (\<lambda>i. str_slice (2 * i) (2 * i + 2) s) [0..<(length s - 2 + 1) div 2 + 1])"

definition hex_byte :: "string \<Rightarrow> error + u8" where
  "hex_byte b = (case parse_uint 16 256 b of None \<Rightarrow> Inl NumberParsingError | Some v \<Rightarrow> Inr (of_nat v))"

definition hex_to_bytes :: "string \<Rightarrow> error + bytes" where
  "hex_to_bytes hex_str =
     (if length hex_str mod 2 = 1 then Inl NumberParsingError
      else
        and_then (str_slice 0 2 hex_str) (\<lambda>start.
        (let hex_trim = (if start = ''0x'' then drop 2 hex_str else hex_str) in
         and_then (split_2 (trim hex_trim)) (map_each hex_byte))))"

section \<open>Keys, signatures, commitments\<close>

text \<open>\<open>map_err(|_| e)\<close>, and \<open>map_err(|e| Err(Error::Secp(e)).unwrap())\<close>, whose closure panics.\<close>

definition or_err :: "error \<Rightarrow> 'a option \<Rightarrow> error + 'a" where
  "or_err e x = (case x of None \<Rightarrow> Inl e | Some y \<Rightarrow> Inr y)"

definition unwrap_secp :: "'a option \<Rightarrow> error + 'a" where
  "unwrap_secp x = or_err (Panic ''Err(Error::Secp(e)).unwrap()'') x"

definition pk_from_hex :: "crypto_ext \<Rightarrow> string \<Rightarrow> error + PublicKey" where
  "pk_from_hex C s = and_then (hex_to_bytes s) (\<lambda>hex. or_err InvalidBase58Key (pk_from_slice C hex))"

definition pk_to_hex :: "crypto_ext \<Rightarrow> PublicKey \<Rightarrow> string" where
  "pk_to_hex C k = bytes_to_hex (pk_serialize C k)"

definition pk_from_base58 :: "crypto_ext \<Rightarrow> string \<Rightarrow> error + PublicKey" where
  "pk_from_base58 C s = and_then (from_base58 s) (\<lambda>b. or_err InvalidBase58Key (pk_from_slice C b))"

definition pk_to_base58 :: "crypto_ext \<Rightarrow> PublicKey \<Rightarrow> string option" where
  "pk_to_base58 C k = to_base58 (pk_serialize C k)"

definition pk_from_base58_check :: "crypto_ext \<Rightarrow> string \<Rightarrow> bytes \<Rightarrow> error + PublicKey" where
  "pk_from_base58_check C s version_expect =
     and_then (from_base58_check (sha256 C) s (length version_expect)) (\<lambda>(version_actual, key_bytes).
     if version_actual \<noteq> version_expect then Inl InvalidBase58Version
     else or_err InvalidBase58Key (pk_from_slice C key_bytes))"

definition pk_to_base58_check :: "crypto_ext \<Rightarrow> PublicKey \<Rightarrow> bytes \<Rightarrow> string option" where
  "pk_to_base58_check C k version = to_base58_check (sha256 C) (pk_serialize C k) version"

definition sig_from_hex :: "crypto_ext \<Rightarrow> string \<Rightarrow> error + Signature" where
  "sig_from_hex C s = and_then (hex_to_bytes s) (\<lambda>hex. unwrap_secp (sig_from_der C hex))"

definition sig_to_hex :: "crypto_ext \<Rightarrow> Signature \<Rightarrow> string" where
  "sig_to_hex C s = bytes_to_hex (sig_to_der C s)"

definition sk_from_hex :: "crypto_ext \<Rightarrow> string \<Rightarrow> error + SecretKey" where
  "sk_from_hex C s = and_then (hex_to_bytes s) (\<lambda>data. unwrap_secp (sk_from_slice C data))"

definition sk_to_hex :: "SecretKey \<Rightarrow> string" where
  "sk_to_hex k = bytes_to_hex k"

definition commit_from_hex :: "crypto_ext \<Rightarrow> string \<Rightarrow> error + Commitment" where
  "commit_from_hex C s = and_then (hex_to_bytes s) (\<lambda>data. Inr (commit_from_vec C data))"

definition commit_to_hex :: "Commitment \<Rightarrow> string" where
  "commit_to_hex c = bytes_to_hex c"

section \<open>Signed text\<close>

definition str_bytes :: "string \<Rightarrow> bytes" where
  "str_bytes s = map of_char s"

definition sign_challenge :: "crypto_ext \<Rightarrow> string \<Rightarrow> SecretKey \<Rightarrow> error + Signature" where
  "sign_challenge C challenge secret_key =
     and_then (secp_message C (sha256 C (str_bytes challenge))) (\<lambda>message.
     unwrap_secp (secp_sign C message secret_key))"

definition verify_signature :: "crypto_ext \<Rightarrow> string \<Rightarrow> Signature \<Rightarrow> PublicKey \<Rightarrow> error + unit" where
  "verify_signature C challenge signature public_key =
     and_then (secp_message C (sha256 C (str_bytes challenge))) (\<lambda>message.
     unwrap_secp (if secp_verify C message signature public_key then Some () else None))"

end
