(* ===== verification/Epicbox.thy ===== *)
theory Epicbox
  imports Crypto SlateVersions
begin

text \<open>
  Epicbox addresses, the encrypted messages sent to them and the proofs kept of them:
  \<open>libwallet/src/epicbox_address.rs\<close>, \<open>message.rs\<close> and \<open>tx_proof.rs\<close>.
\<close>

section \<open>Addresses\<close>

definition EPICBOX_ADDRESS_VERSION_MAINNET :: bytes where
  "EPICBOX_ADDRESS_VERSION_MAINNET = [1, 0]"

definition EPICBOX_ADDRESS_VERSION_TESTNET :: bytes where
  "EPICBOX_ADDRESS_VERSION_TESTNET = [1, 136]"

definition DEFAULT_EPICBOX_DOMAIN :: string where
  "DEFAULT_EPICBOX_DOMAIN = ''epicbox.epiccash.com''"

definition DEFAULT_EPICBOX_PORT_443 :: u16 where
  "DEFAULT_EPICBOX_PORT_443 = 443"

definition version_bytes :: "crypto_ext \<Rightarrow> bytes" where
  "version_bytes C = (if is_floonet C then EPICBOX_ADDRESS_VERSION_TESTNET else EPICBOX_ADDRESS_VERSION_MAINNET)"

record EpicboxAddress =
  ea_public_key :: string
  ea_domain :: string
  ea_port :: "u16 option"

definition epicbox_address_new ::
    "crypto_ext \<Rightarrow> PublicKey \<Rightarrow> string option \<Rightarrow> u16 option \<Rightarrow> EpicboxAddress option" where
  "epicbox_address_new C public_key domain port =
     map_option (\<lambda>k. \<lparr>ea_public_key = k,
         ea_domain = (case domain of Some d \<Rightarrow> d | None \<Rightarrow> DEFAULT_EPICBOX_DOMAIN), ea_port = port\<rparr>)
       (pk_to_base58_check C public_key (version_bytes C))"

definition epicbox_public_key :: "crypto_ext \<Rightarrow> EpicboxAddress \<Rightarrow> error + PublicKey" where
  "epicbox_public_key C a = pk_from_base58_check C (ea_public_key a) (version_bytes C)"

text \<open>
  The captures of \<open>EPICBOX_ADDRESS_REGEX\<close>: an optional scheme, 52 characters of base 58, then
  the end or \<open>@\<close> and a domain, then the end or a colon and digits, possibly none. The scheme
  has a colon, which is not base 58, and neither is a colon part of a domain, so there is at
  most one way to match.
\<close>

definition domain_char :: "char \<Rightarrow> bool" where
  "domain_char c \<longleftrightarrow> digit_val 36 c \<noteq> None \<or> c = CHR ''.''"

definition capture_port :: "string \<Rightarrow> string option option" where
  "capture_port s = (case s of
      [] \<Rightarrow> Some None
    | c # p \<Rightarrow> if c = CHR '':'' \<and> (\<forall>d \<in> set p. digit_val 10 d \<noteq> None) then Some (Some p) else None)"

definition capture_domain :: "string \<Rightarrow> (string option \<times> string option) option" where
  "capture_domain s = (case s of
      [] \<Rightarrow> Some (None, None)
    | c # r \<Rightarrow>
        if c = CHR ''@'' \<and> takeWhile domain_char r \<noteq> []
        then map_option (Pair (Some (takeWhile domain_char r))) (capture_port (dropWhile domain_char r))
        else None)"

definition capture_address :: "string \<Rightarrow> (string \<times> string option \<times> string option) option" where
  "capture_address s =
     (let s = (if starts_with ''epicbox://'' s then drop 10 s else s) in
      if 52 \<le> length s \<and> set (take 52 s) \<subseteq> set b58_alphabet
      then map_option (Pair (take 52 s)) (capture_domain (drop 52 s)) else None)"

definition parse_port :: "string option \<Rightarrow> error + u16 option" where
  "parse_port p = (case p of
      None \<Rightarrow> Inr None
    | Some m \<Rightarrow> (case parse_uint 10 (2 ^ 16) m of
          None \<Rightarrow> Inl (Panic ''u16::from_str_radix'')
        | Some n \<Rightarrow> Inr (Some (of_nat n))))"

definition epicbox_from_str :: "crypto_ext \<Rightarrow> string \<Rightarrow> error + EpicboxAddress" where
  "epicbox_from_str C s = (case capture_address s of
      None \<Rightarrow> Inl (EpicboxAddressParsingError s)
    | Some (public_key, domain, port) \<Rightarrow>
        and_then (parse_port port) (\<lambda>port.
        and_then (pk_from_base58_check C public_key (version_bytes C)) (\<lambda>public_key.
        or_err Diverges (epicbox_address_new C public_key domain port))))"

definition epicbox_fmt :: "EpicboxAddress \<Rightarrow> string" where
  "epicbox_fmt a =
     ea_public_key a @ ''@'' @ ea_domain a @
     (case ea_port a of
        Some p \<Rightarrow> if p \<noteq> DEFAULT_EPICBOX_PORT_443 then '':'' @ decimal (unat p) else []
      | None \<Rightarrow> [])"

definition epicbox_stripped :: "EpicboxAddress \<Rightarrow> string" where
  "epicbox_stripped a = epicbox_fmt a"

section \<open>Encrypted messages\<close>

record EncryptedMessage =
  em_destination :: EpicboxAddress
  em_encrypted_message :: string
  em_salt :: string
  em_nonce :: string

definition byte_slice :: "nat \<Rightarrow> nat \<Rightarrow> bytes \<Rightarrow> error + bytes" where
  "byte_slice a b bs = (if b \<le> length bs then Inr (take (b - a) (drop a bs)) else Inl (Panic ''byte slice''))"

text \<open>The common secret of the two parties, stretched to a key.\<close>

definition common_key :: "crypto_ext \<Rightarrow> error \<Rightarrow> bytes \<Rightarrow> PublicKey \<Rightarrow> SecretKey \<Rightarrow> error + bytes" where
  "common_key C err salt public_key secret_key =
     and_then (or_err err (pk_mul C public_key secret_key)) (\<lambda>common_secret.
     and_then (byte_slice 1 33 (pk_serialize C common_secret)) (\<lambda>common_secret_slice.
     Inr (pbkdf2 C 100 salt common_secret_slice)))"

definition encrypted_message_new ::
    "crypto_ext \<Rightarrow> string \<Rightarrow> EpicboxAddress \<Rightarrow> PublicKey \<Rightarrow> SecretKey \<Rightarrow> error + EncryptedMessage" where
  "encrypted_message_new C message destination receiver_public_key secret_key =
     and_then (common_key C Encryption (random_salt C) receiver_public_key secret_key) (\<lambda>key.
     and_then (or_err Encryption (aead_seal C key (random_nonce C) (str_bytes message))) (\<lambda>enc_bytes.
     Inr \<lparr>em_destination = destination, em_encrypted_message = bytes_to_hex enc_bytes,
          em_salt = bytes_to_hex (random_salt C), em_nonce = bytes_to_hex (random_nonce C)\<rparr>))"

text \<open>\<open>map_err(|_| e)\<close> on a result; a panic is not caught.\<close>

definition map_err :: "error \<Rightarrow> error + 'a \<Rightarrow> error + 'a" where
  "map_err e r = (case r of Inl (Panic p) \<Rightarrow> Inl (Panic p) | Inl _ \<Rightarrow> Inl e | Inr x \<Rightarrow> Inr x)"

definition message_key :: "crypto_ext \<Rightarrow> EncryptedMessage \<Rightarrow> PublicKey \<Rightarrow> SecretKey \<Rightarrow> error + bytes" where
  "message_key C m sender_public_key secret_key =
     and_then (map_err Decryption (hex_to_bytes (em_salt m))) (\<lambda>salt.
     common_key C Decryption salt sender_public_key secret_key)"

text \<open>\<open>open_in_place\<close> leaves the tag behind the plain text; 16 bytes are popped.\<close>

definition decrypt_with_key :: "crypto_ext \<Rightarrow> EncryptedMessage \<Rightarrow> bytes \<Rightarrow> error + string" where
  "decrypt_with_key C m key =
     and_then (map_err Decryption (hex_to_bytes (em_encrypted_message m))) (\<lambda>encrypted.
     and_then (map_err Decryption (hex_to_bytes (em_nonce m))) (\<lambda>nonce.
     and_then (byte_slice 0 12 nonce) (\<lambda>n.
     and_then (or_err Encryption (aead_open C key n encrypted)) (\<lambda>buffer.
     or_err Decryption (from_utf8 C (take (length buffer - 16) buffer))))))"

section \<open>Proofs of a received message\<close>

datatype proof_error =
    ParseAddress | ParsePublicKey | ParseSignature | VerifySignature | ParseEncryptedMessage
  | VerifyDestination | DecryptionKey | DecryptMessage | ParseSlate | ProofPanic string

record TxProof =
  tp_address :: EpicboxAddress
  tp_message :: string
  tp_signature :: Signature
  tp_key :: bytes
  tp_amount :: u64
  tp_fee :: u64
  tp_inputs :: "Commitment list"
  tp_outputs :: "Commitment list"

definition proof_err :: "proof_error \<Rightarrow> error + 'a \<Rightarrow> proof_error + 'a" where
  "proof_err e r = (case r of Inl (Panic p) \<Rightarrow> Inl (ProofPanic p) | Inl _ \<Rightarrow> Inl e | Inr x \<Rightarrow> Inr x)"

definition proof_opt :: "proof_error \<Rightarrow> 'a option \<Rightarrow> proof_error + 'a" where
  "proof_opt e x = (case x of None \<Rightarrow> Inl e | Some y \<Rightarrow> Inr y)"

text \<open>The two JSON readers are arguments.\<close>

definition verify_extract ::
    "crypto_ext \<Rightarrow> (string \<Rightarrow> EncryptedMessage option) \<Rightarrow> (string \<Rightarrow> VersionedSlate option) \<Rightarrow> TxProof \<Rightarrow>
     EpicboxAddress option \<Rightarrow> proof_error + EpicboxAddress \<times> VersionedSlate" where
  "verify_extract C read_message read_slate p expected_destination =
     and_then (proof_err ParsePublicKey (epicbox_public_key C (tp_address p))) (\<lambda>public_key.
     and_then (proof_err VerifySignature (verify_signature C (tp_message p) (tp_signature p) public_key)) (\<lambda>_.
     and_then (proof_opt ParseEncryptedMessage (read_message (tp_message p))) (\<lambda>encrypted_message.
     if (case expected_destination of
           None \<Rightarrow> False
         | Some d \<Rightarrow> ea_public_key (em_destination encrypted_message) \<noteq> ea_public_key d)
     then Inl VerifyDestination
     else
       and_then (proof_err DecryptMessage (decrypt_with_key C encrypted_message (tp_key p))) (\<lambda>decrypted_message.
       and_then (proof_opt ParseSlate (read_slate decrypted_message)) (\<lambda>slate.
       Inr (em_destination encrypted_message, slate))))))"

definition proof_from_response ::
    "crypto_ext \<Rightarrow> (string \<Rightarrow> EncryptedMessage option) \<Rightarrow> (string \<Rightarrow> VersionedSlate option) \<Rightarrow> string \<Rightarrow> string \<Rightarrow>
     string \<Rightarrow> SecretKey \<Rightarrow> EpicboxAddress option \<Rightarrow> proof_error + VersionedSlate \<times> TxProof" where
  "proof_from_response C read_message read_slate sender message signature secret_key expected_destination =
     and_then (proof_err ParseAddress (epicbox_from_str C sender)) (\<lambda>address.
     and_then (proof_err ParseSignature (sig_from_hex C signature)) (\<lambda>signature.
     and_then (proof_err ParsePublicKey (epicbox_public_key C address)) (\<lambda>public_key.
     and_then (proof_opt ParseEncryptedMessage (read_message message)) (\<lambda>encrypted_message.
     and_then (proof_err DecryptionKey (message_key C encrypted_message public_key secret_key)) (\<lambda>key.
     (let p = \<lparr>tp_address = address, tp_message = message, tp_signature = signature, tp_key = key,
                   tp_amount = 0, tp_fee = 0, tp_inputs = [], tp_outputs = []\<rparr> in
      and_then (verify_extract C read_message read_slate p expected_destination) (\<lambda>(_, slate).
      Inr (slate, p))))))))"

end
