(* ===== verification/Base58Props.thy ===== *)
theory Base58Props
  imports Base58 Digits
begin

text \<open>
  The base 58 codec against positional notation: the encoder always ends and writes the
  digits of the number its bytes denote, and the decoder reads back what was written.
\<close>

section \<open>One digit of the encoder\<close>

abbreviation digits :: "u8 list \<Rightarrow> nat list" where
  "digits bs \<equiv> map unat bs"

lemma unat_bound: "unat (w :: 'a::len word) < 2 ^ LENGTH('a)"
  by transfer simp

lemma unat_ucast_fits:
  "unat (w :: 'a::len word) < 2 ^ LENGTH('b::len) \<Longrightarrow> unat (ucast w :: 'b word) = unat w"
  by (simp add: unsigned_ucast_eq take_bit_nat_eq_self)

lemma unat_ucast_wide:
  "LENGTH('a) \<le> LENGTH('b) \<Longrightarrow> unat (ucast (w :: 'a::len word) :: 'b::len word) = unat w"
proof (rule unat_ucast_fits)
  assume "LENGTH('a) \<le> LENGTH('b)"
  then have "(2 :: nat) ^ LENGTH('a) \<le> 2 ^ LENGTH('b)" by (rule power_increasing) simp
  then show "unat w < 2 ^ LENGTH('b)" using unat_bound[of w] by (rule order_less_le_trans[rotated])
qed

lemma push_digit:
  assumes "unat c < 256" and "unat (d :: u8) < 58"
  defines "x \<equiv> (c :: u32) + 256 * ucast d"
  shows "unat (x div 58) = (unat c + 256 * unat d) div 58"
    and "unat (ucast (x mod 58) :: u8) = (unat c + 256 * unat d) mod 58"
    and "unat (x div 58) < 256"
proof -
  have "unat (ucast d :: u32) = unat d" by (rule unat_ucast_wide) simp
  then have x: "unat x = unat c + 256 * unat d"
    unfolding x_def using assms(1,2) by (simp add: unat_word_ariths)
  show "unat (x div 58) = (unat c + 256 * unat d) div 58" by (simp add: unat_div x)
  then show "unat (x div 58) < 256" using assms by simp
  have "unat (x mod 58) < 58" by (simp add: unat_mod)
  then show "unat (ucast (x mod 58) :: u8) = (unat c + 256 * unat d) mod 58"
    by (simp add: unat_ucast_fits unat_mod x)
qed

lemma digits_update: "digits (buf[j := d]) = (digits buf)[j := unat d]"
  by (simp add: map_update)

lemma take_Suc_digits: "j < length ds \<Longrightarrow> take (Suc j) ds = take j ds @ [ds ! j]"
  by (simp add: take_Suc_conv_app_nth)

section \<open>One byte\<close>

text \<open>
  What the loop of a byte still owes: the value to reach, with the digits up to \<open>j\<close> not yet
  multiplied by 256, the carry to add to them, and the digits after \<open>j\<close> done.
\<close>

definition owed :: "nat \<Rightarrow> nat \<Rightarrow> nat \<Rightarrow> nat list \<Rightarrow> nat" where
  "owed n c j ds = (digits_value 58 (take (Suc j) ds) * 256 + c) * 58 ^ (n - Suc j) + digits_value 58 (drop (Suc j) ds)"

lemma owed_step:
  assumes "j < length ds" and "x = c + 256 * ds ! j" and "ds' = ds[j := x mod 58]"
  shows "0 < j \<Longrightarrow> owed (length ds) (x div 58) (j - 1) ds' = owed (length ds) c j ds"
    and "j = 0 \<Longrightarrow> owed (length ds) c 0 ds = x div 58 * 58 ^ length ds + digits_value 58 ds'"
proof -
  have drop: "drop (Suc j) ds' = drop (Suc j) ds" and len: "length (drop (Suc j) ds) = length ds - Suc j"
    using assms by simp_all
  have take: "take j ds' = take j ds" using assms by simp
  have tk: "digits_value 58 (take (Suc j) ds) = digits_value 58 (take j ds) * 58 + ds ! j"
    using assms(1) by (simp add: take_Suc_digits digits_value_append digits_value_Cons)
  have dr: "digits_value 58 (drop j ds') = x mod 58 * 58 ^ (length ds - Suc j) + digits_value 58 (drop (Suc j) ds)"
    using assms(1) drop by (simp add: Cons_nth_drop_Suc[symmetric] digits_value_Cons assms(3))
  have x: "x = x div 58 * 58 + x mod 58" by simp
  have eq: "(digits_value 58 (take j ds) * 58 + ds ! j) * 256 + c = (digits_value 58 (take j ds) * 256 + x div 58) * 58 + x mod 58"
  proof -
    have "(digits_value 58 (take j ds) * 58 + ds ! j) * 256 + c = digits_value 58 (take j ds) * 256 * 58 + x"
      by (simp add: assms(2) algebra_simps)
    also have "\<dots> = digits_value 58 (take j ds) * 256 * 58 + (x div 58 * 58 + x mod 58)" by simp
    finally show ?thesis by (simp only: algebra_simps)
  qed
  have pow: "(58 :: nat) ^ (length ds - j) = 58 * 58 ^ (length ds - Suc j)"
    using assms(1) by (metis Suc_diff_Suc power_Suc)
  have split: "x mod 58 * m + 58 * (x div 58 * m) = x * m" for m
  proof -
    have "x * m = (58 * (x div 58) + x mod 58) * m" by simp
    then show ?thesis by (simp only: algebra_simps)
  qed
  show "owed (length ds) (x div 58) (j - 1) ds' = owed (length ds) c j ds" if "0 < j"
    using that unfolding owed_def tk eq by (simp add: take dr pow algebra_simps split)
  show "owed (length ds) c 0 ds = x div 58 * 58 ^ length ds + digits_value 58 ds'" if "j = 0"
    using that dr pow unfolding owed_def tk[unfolded that] eq[unfolded that] by (simp add: algebra_simps split)
qed

text \<open>
  The loop of one byte ends, and leaves the digits of the value owed. The digits up to
  \<open>high\<close> are zero, unless the number fills the buffer.
\<close>

lemma b58_push_value:
  assumes "length buf = n" "j < n" "\<forall>d \<in> set (digits buf). d < 58" "unat c < 256"
    and "high = 0 \<or> (\<forall>i \<le> min high j. buf ! i = 0)"
    and "owed n (unat c) j (digits buf) < 58 ^ n"
  shows "\<exists>j' buf'. b58_push high c j buf = Some (j', buf') \<and> length buf' = n \<and> j' < n \<and>
    (\<forall>d \<in> set (digits buf'). d < 58) \<and> (j' = 0 \<or> (\<forall>i \<le> j'. buf' ! i = 0)) \<and>
    digits_value 58 (digits buf') = owed n (unat c) j (digits buf)"
  using assms
proof (induction j arbitrary: c buf rule: less_induct)
  case (less j)
  note lt = \<open>j < n\<close> and len = \<open>length buf = n\<close>
  have all: "digits_value 58 (digits buf) =
      digits_value 58 (take (Suc j) (digits buf)) * 58 ^ (n - Suc j) + digits_value 58 (drop (Suc j) (digits buf))"
    using digits_value_append[of 58 "take (Suc j) (digits buf)" "drop (Suc j) (digits buf)"] len by simp
  show ?case
  proof (cases "j > high \<or> c \<noteq> 0")
    case False
    then have stop: "b58_push high c j buf = Some (j, buf)" by (simp add: b58_push.simps)
    have zero: "\<forall>i \<le> j. buf ! i = 0"
    proof (cases "high = 0")
      case True
      then have j: "j = 0" using False by simp
      then have "digits buf ! 0 * 256 * 58 ^ (n - 1) + digits_value 58 (drop 1 (digits buf)) < 58 * 58 ^ (n - 1)"
        using less.prems(6) False lt len power_Suc[of "58 :: nat" "n - 1"]
        by (simp add: owed_def take_Suc_digits digits_value_Cons)
      then have "digits buf ! 0 * 256 * 58 ^ (n - 1) < 58 * 58 ^ (n - 1)" by (rule add_lessD1)
      then have "digits buf ! 0 * 256 < 58" by simp
      then have "unat (buf ! 0) = 0" using j lt len by simp
      then show ?thesis using j by (simp add: unat_eq_zero)
    next
      case False
      then show ?thesis using less.prems(5) \<open>\<not> (j > high \<or> c \<noteq> 0)\<close> by simp
    qed
    then have "digits_value 58 (take (Suc j) (digits buf)) = 0"
      using lt len by (intro digits_value_zeros) (auto simp: in_set_conv_nth)
    then show ?thesis using stop len lt less.prems(3) zero False all by (simp add: owed_def)
  next
    case True
    let ?x = "unat c + 256 * unat (buf ! j)" and ?y = "c + 256 * ucast (buf ! j)"
    let ?buf = "buf[j := ucast (?y mod 58)]"
    have d: "unat (buf ! j) < 58" using less.prems(3) lt len by simp
    note pd = push_digit[OF less.prems(4) d]
    have ds: "digits ?buf = (digits buf)[j := ?x mod 58]" by (simp add: digits_update pd)
    have digs: "\<forall>d \<in> set (digits ?buf). d < 58"
      unfolding ds using less.prems(3) set_update_subset_insert[of "digits buf" j "?x mod 58"] by auto
    have x: "?x = unat c + 256 * digits buf ! j" using lt len by simp
    have run: "b58_push high c j buf = b58_push high (?y div 58) (if j > 0 then j - 1 else j) ?buf"
      using True by (subst b58_push.simps) (simp add: Let_def)
    show ?thesis
    proof (cases "j > 0")
      case pos: True
      have ow: "owed n (unat (?y div 58)) (j - 1) (digits ?buf) = owed n (unat c) j (digits buf)"
        using owed_step(1)[OF _ x ds pos] lt by (simp only: pd(1) length_map len)
      have low: "high = 0 \<or> (\<forall>i \<le> min high (j - 1). ?buf ! i = 0)"
        using less.prems(5) pos by auto
      have run1: "b58_push high c j buf = b58_push high (?y div 58) (j - 1) ?buf" using run pos by simp
      show ?thesis
        unfolding run1 ow[symmetric]
        by (rule less.IH) (use pos lt len digs pd(3) low less.prems(6) ow in \<open>simp_all\<close>)
    next
      case False
      then have j: "j = 0" by simp
      have ow: "owed n (unat c) 0 (digits buf) = ?x div 58 * 58 ^ n + digits_value 58 (digits ?buf)"
        using owed_step(2)[OF _ x ds j] lt by (simp only: length_map len)
      then have "?x div 58 * 58 ^ n < 58 ^ n" using less.prems(6) j by (metis add_lessD1)
      then have x0: "?x div 58 = 0" by (cases "?x div 58") simp_all
      then have "?y div 58 = 0" using pd(1) by (simp add: unat_eq_zero)
      then have "b58_push high c j buf = Some (0, ?buf)"
        using run j by (simp add: b58_push.simps)
      then show ?thesis using ow x0 lt len digs j by auto
    qed
  qed
qed

section \<open>The buffer is large enough\<close>

text \<open>138 base 58 digits hold 100 bytes, and the size is rounded up.\<close>

lemma b58_size_enough: "(256 :: nat) ^ n \<le> 58 ^ b58_size n"
proof -
  have hundred: "(256 :: nat) ^ 100 \<le> 58 ^ 138" by simp
  have "138 * n \<le> 100 * b58_size n" by (simp add: b58_size_def)
  then have "(58 :: nat) ^ (138 * n) \<le> 58 ^ (100 * b58_size n)" by (rule power_increasing) simp
  moreover have "((256 :: nat) ^ 100) ^ n \<le> (58 ^ 138) ^ n" by (rule power_mono[OF hundred]) simp
  ultimately have "((256 :: nat) ^ n) ^ 100 \<le> (58 ^ b58_size n) ^ 100"
    by (simp only: power_mult[symmetric] mult.commute[of n] mult.commute[of "b58_size n"])
  then show ?thesis using power_le_imp_le_base[of "256 ^ n" 99 "58 ^ b58_size n"] by simp
qed

section \<open>The encoder\<close>

lemma b58_push_all_value:
  assumes "length buf = n" "0 < n" "\<forall>d \<in> set (digits buf). d < 58" "high < n"
    and "high = 0 \<or> (\<forall>i \<le> high. buf ! i = 0)"
    and "digits_value 58 (digits buf) * 256 ^ length bs + digits_value 256 (digits bs) < 58 ^ n"
  shows "\<exists>buf'. b58_push_all n bs high buf = Some buf' \<and> length buf' = n \<and> (\<forall>d \<in> set (digits buf'). d < 58) \<and>
    digits_value 58 (digits buf') = digits_value 58 (digits buf) * 256 ^ length bs + digits_value 256 (digits bs)"
  using assms
proof (induction bs arbitrary: buf high)
  case (Cons b bs)
  have c: "unat (ucast b :: u32) = unat b" by (rule unat_ucast_wide) simp
  have ow: "owed n (unat b) (n - 1) (digits buf) = digits_value 58 (digits buf) * 256 + unat b"
    using Cons.prems(1,2) by (simp add: owed_def)
  have total: "digits_value 58 (digits buf) * 256 ^ length (b # bs) + digits_value 256 (digits (b # bs))
      = (digits_value 58 (digits buf) * 256 + unat b) * 256 ^ length bs + digits_value 256 (digits bs)"
    by (simp add: digits_value_Cons algebra_simps)
  then have "(digits_value 58 (digits buf) * 256 + unat b) * 256 ^ length bs < 58 ^ n"
    using Cons.prems(6) by (metis add_lessD1)
  moreover have "x \<le> x * 256 ^ length bs" for x :: nat by simp
  ultimately have bound: "digits_value 58 (digits buf) * 256 + unat b < 58 ^ n" by (rule order_le_less_trans[rotated])
  have "unat (ucast b :: u32) < 256" unfolding c using unat_bound[of b] by simp
  moreover have "high = 0 \<or> (\<forall>i \<le> min high (n - 1). buf ! i = 0)" using Cons.prems(5) by auto
  ultimately obtain j buf1 where step: "b58_push high (ucast b) (n - 1) buf = Some (j, buf1)" "length buf1 = n" "j < n"
    "\<forall>d \<in> set (digits buf1). d < 58" "j = 0 \<or> (\<forall>i \<le> j. buf1 ! i = 0)"
    "digits_value 58 (digits buf1) = digits_value 58 (digits buf) * 256 + unat b"
    using b58_push_value[of buf n "n - 1" "ucast b" high] Cons.prems(1-4) bound unfolding c ow by auto
  obtain buf' where "b58_push_all n bs j buf1 = Some buf'" "length buf' = n" "\<forall>d \<in> set (digits buf'). d < 58"
    "digits_value 58 (digits buf') = digits_value 58 (digits buf1) * 256 ^ length bs + digits_value 256 (digits bs)"
    using Cons.IH[OF step(2) Cons.prems(2) step(4,3,5)] Cons.prems(6) unfolding total step(6) by blast
  then show ?case unfolding total step(6)[symmetric] using step(1) by simp
qed simp

text \<open>The leading zero bytes, and the number the other bytes denote.\<close>

definition zeros :: "bytes \<Rightarrow> nat" where
  "zeros bs = length (takeWhile (\<lambda>x. x = 0) bs)"

definition b58_text :: "nat list \<Rightarrow> string" where
  "b58_text ds = map (\<lambda>d. b58_alphabet ! d) ds"

lemma bytes_value_less: "digits_value 256 (digits bs) < 256 ^ length bs"
  using digits_value_less[of "digits bs" 256] unat_bound[where ?'a = 8] by auto

lemma digits_strip: "digits (dropWhile (\<lambda>x. x = 0) bs) = dropWhile (\<lambda>d. d = 0) (digits bs)"
  by (induction bs) (simp_all add: unat_eq_zero)

lemma to_base58_digits:
  "to_base58 bs = Some (replicate (zeros bs) (CHR ''1'') @ b58_text (to_digits 58 (digits_value 256 (digits bs))))"
proof -
  let ?rest = "drop (zeros bs) bs" and ?n = "b58_size (length bs - zeros bs)"
  have same: "digits_value 256 (digits ?rest) = digits_value 256 (digits bs)"
  proof -
    have "?rest = dropWhile (\<lambda>x. x = 0) bs" unfolding zeros_def by (simp add: dropWhile_eq_drop)
    then show ?thesis by (simp add: digits_strip digits_value_strip)
  qed
  have "digits_value 256 (digits ?rest) < 58 ^ ?n"
    using bytes_value_less[of ?rest] b58_size_enough[of "length bs - zeros bs"] by simp
  moreover have "digits_value 58 (digits (replicate ?n 0)) = 0" by (rule digits_value_zeros) simp
  moreover have n: "0 < ?n" by (simp add: b58_size_def)
  moreover have "\<forall>i \<le> ?n - 1. replicate ?n 0 ! i = (0 :: u8)" using n by simp
  ultimately obtain buf where buf: "b58_push_all ?n ?rest (?n - 1) (replicate ?n 0) = Some buf"
    "\<forall>d \<in> set (digits buf). d < 58" "digits_value 58 (digits buf) = digits_value 256 (digits bs)"
    using b58_push_all_value[of "replicate ?n 0" ?n "?n - 1" ?rest] same by auto
  have "map (\<lambda>d. b58_alphabet ! unat d) (dropWhile (\<lambda>x. x = 0) buf) = b58_text (dropWhile (\<lambda>d. d = 0) (digits buf))"
    by (simp add: b58_text_def digits_strip[symmetric])
  also have "\<dots> = b58_text (to_digits 58 (digits_value 256 (digits bs)))"
    using strip_digits[OF buf(2)] buf(3) by simp
  finally show ?thesis using buf(1) by (simp add: to_base58_def zeros_def Let_def)
qed

section \<open>One character of the decoder\<close>

abbreviation limbs :: "u32 list \<Rightarrow> nat list" where
  "limbs out \<equiv> map unat out"

lemma carry_bits: "unat (drop_bit 32 ((t :: u64) AND 0x3f00000000)) = unat t div 2 ^ 32 mod 64"
proof -
  have "drop_bit 32 (t AND 0x3f00000000) = take_bit 6 (drop_bit 32 t)"
    by (simp add: drop_bit_and take_bit_eq_mask mask_eq_exp_minus_1)
  then show ?thesis by (simp add: unat_mod unat_div take_bit_eq_mod drop_bit_eq_div)
qed

lemma low_bits: "unat (ucast ((t :: u64) AND 0xffffffff) :: u32) = unat t mod 2 ^ 32"
proof -
  have "t AND 0xffffffff = take_bit 32 t" by (simp add: take_bit_eq_mask mask_eq_exp_minus_1)
  then show ?thesis by (simp add: unsigned_ucast_eq unat_mod take_bit_eq_mod)
qed

lemma b58_mul_add_step:
  assumes "b58_mul_add out c = (c1, out1)" and "unat c1 < 58" and "b58_mul_add (x # out) c = (c', out')"
  obtains y where "out' = y # out1" "unat y = (unat x * 58 + unat c1) mod 2 ^ 32"
    "unat c' = (unat x * 58 + unat c1) div 2 ^ 32" "unat c' < 58"
proof -
  let ?t = "ucast x * 58 + c1 :: u64"
  have "unat (ucast x :: u64) = unat x" by (rule unat_ucast_wide) simp
  moreover have "unat x < 2 ^ 32" using unat_bound[of x] by simp
  ultimately have t: "unat ?t = unat x * 58 + unat c1" "unat ?t < 58 * 2 ^ 32"
    using assms(2) by (simp_all add: unat_word_ariths)
  have c': "c' = drop_bit 32 (?t AND 0x3f00000000)" "out' = ucast (?t AND 0xffffffff) # out1"
    using assms(1,3) unfolding b58_mul_add.simps Let_def by (simp_all only: assms(1) prod.case prod.inject)
  have "unat ?t div 2 ^ 32 < 58" using t(2) by (intro less_mult_imp_div_less) simp
  moreover from this have "unat c' = unat ?t div 2 ^ 32" unfolding c'(1) carry_bits by simp
  moreover have "unat (ucast (?t AND 0xffffffff) :: u32) = unat ?t mod 2 ^ 32" by (rule low_bits)
  ultimately show ?thesis using that c'(2) t(1) by metis
qed

lemma b58_mul_add_value:
  assumes "unat c < 58" and "b58_mul_add out c = (c', out')"
  shows "length out' = length out \<and> unat c' < 58 \<and>
    unat c' * (2 ^ 32) ^ length out + digits_value (2 ^ 32) (limbs out') = digits_value (2 ^ 32) (limbs out) * 58 + unat c"
  using assms(2)
proof (induction out arbitrary: c' out')
  case Nil
  then show ?case using assms(1) by simp
next
  case (Cons x out)
  obtain c1 out1 where r: "b58_mul_add out c = (c1, out1)" by fastforce
  have c1: "unat c1 < 58" and len: "length out1 = length out"
    and v1: "unat c1 * (2 ^ 32) ^ length out + digits_value (2 ^ 32) (limbs out1) = digits_value (2 ^ 32) (limbs out) * 58 + unat c"
    using Cons.IH[OF r] by simp_all
  let ?t = "unat x * 58 + unat c1" and ?m = "(2 ^ 32 :: nat) ^ length out"
  obtain y where y: "out' = y # out1" "unat y = ?t mod 2 ^ 32" "unat c' = ?t div 2 ^ 32" "unat c' < 58"
    by (rule b58_mul_add_step[OF r c1 Cons.prems]) (rule that)
  have "unat c' * (2 ^ 32) ^ length (x # out) + digits_value (2 ^ 32) (limbs out') =
      (?t div 2 ^ 32 * 2 ^ 32 + ?t mod 2 ^ 32) * ?m + digits_value (2 ^ 32) (limbs out1)"
    unfolding y(1) list.map digits_value_Cons length_map len length_Cons power_Suc y(2,3) by (simp only: algebra_simps)
  also have "\<dots> = unat x * ?m * 58 + (unat c1 * ?m + digits_value (2 ^ 32) (limbs out1))"
    unfolding div_mult_mod_eq by (simp add: algebra_simps)
  also have "\<dots> = digits_value (2 ^ 32) (limbs (x # out)) * 58 + unat c"
    unfolding v1 by (simp add: digits_value_Cons algebra_simps)
  finally show ?case using y(1,4) len by simp
qed

lemma b58_alphabet_table:
  "map (\<lambda>ch. b58_digits_map ! of_char ch) b58_alphabet = map int [0..<58]"
  "list_all (\<lambda>ch. (of_char ch :: u8) AND 0x80 = 0) b58_alphabet"
  "map (\<lambda>ch. ch = CHR ''1'') b58_alphabet = True # replicate 57 False"
  by code_simp+

lemma b58_alphabet_digit:
  assumes "d < 58"
  shows "b58_digit i (b58_alphabet ! d) = Inr (of_nat d)" and "b58_alphabet ! d = CHR ''1'' \<longleftrightarrow> d = 0"
proof -
  have len: "length b58_alphabet = 58" using b58_alphabet_table(1)[THEN arg_cong[where f = length]] by simp
  then have d: "d < length b58_alphabet" using assms by simp
  have "b58_digits_map ! of_char (b58_alphabet ! d) = int d"
    using b58_alphabet_table(1)[THEN arg_cong[where f = "\<lambda>xs. xs ! d"]] d len by simp
  moreover have "(of_char (b58_alphabet ! d) :: u8) AND 0x80 = 0"
    using b58_alphabet_table(2) d by (simp add: list_all_length)
  ultimately show "b58_digit i (b58_alphabet ! d) = Inr (of_nat d)" by (simp add: b58_digit_def)
  show "b58_alphabet ! d = CHR ''1'' \<longleftrightarrow> d = 0"
    using b58_alphabet_table(3)[THEN arg_cong[where f = "\<lambda>xs. xs ! d"]] d len by (simp add: nth_Cons')
qed

section \<open>The decoder\<close>

lemma no_mask: "b58_zeromask = 0"
  by (simp add: b58_zeromask_def)

lemma b58_read_value:
  assumes "\<forall>d \<in> set ds. d < 58"
    and "digits_value (2 ^ 32) (limbs out) * 58 ^ length ds + digits_value 58 ds < (2 ^ 32) ^ length out"
  shows "\<exists>out'. b58_read i (b58_text ds) out = Inr out' \<and> length out' = length out \<and>
    digits_value (2 ^ 32) (limbs out') = digits_value (2 ^ 32) (limbs out) * 58 ^ length ds + digits_value 58 ds"
  using assms
proof (induction ds arbitrary: i out)
  case (Cons d ds)
  have d: "d < 58" using Cons.prems(1) by simp
  obtain c out1 where m: "b58_mul_add out (of_nat d) = (c, out1)" by fastforce
  have n: "unat (of_nat d :: u64) = d" using d by (simp add: unat_of_nat)
  then have v: "length out1 = length out" "unat c < 58"
    "unat c * (2 ^ 32) ^ length out + digits_value (2 ^ 32) (limbs out1) = digits_value (2 ^ 32) (limbs out) * 58 + d"
    using b58_mul_add_value[OF _ m] d by auto
  have total: "digits_value (2 ^ 32) (limbs out) * 58 ^ length (d # ds) + digits_value 58 (d # ds)
      = (digits_value (2 ^ 32) (limbs out) * 58 + d) * 58 ^ length ds + digits_value 58 ds"
    by (simp add: digits_value_Cons algebra_simps)
  have "x \<le> x * 58 ^ length ds + y" for x y :: nat by (simp add: trans_le_add1)
  then have "digits_value (2 ^ 32) (limbs out) * 58 + d < (2 ^ 32) ^ length out"
    using Cons.prems(2) unfolding total by (rule le_less_trans)
  then have "unat c * (2 ^ 32) ^ length out < (2 ^ 32) ^ length out" using v(3) by linarith
  then have "unat c = 0" by (cases "unat c") simp_all
  then have c: "c = 0" by (simp add: unat_eq_zero)
  have v1: "digits_value (2 ^ 32) (limbs out1) = digits_value (2 ^ 32) (limbs out) * 58 + d" using v(3) c by simp
  have "b58_read i (b58_text (d # ds)) out = b58_read (i + 1) (b58_text ds) out1"
    using m c by (simp add: b58_text_def b58_alphabet_digit(1)[OF d] no_mask)
  moreover obtain out' where "b58_read (i + 1) (b58_text ds) out1 = Inr out'" "length out' = length out1"
    "digits_value (2 ^ 32) (limbs out') = digits_value (2 ^ 32) (limbs out1) * 58 ^ length ds + digits_value 58 ds"
    using Cons.IH[of out1 "i + 1"] Cons.prems unfolding total v1 v(1) by auto
  ultimately show ?case unfolding total v1 v(1) by simp
qed (simp add: b58_text_def)

lemma limb_bytes_value: "digits_value 256 (digits (limb_bytes x)) = unat x"
proof -
  have u: "take_bit 32 (unat x) = unat x" using unat_bound[of x] by (simp add: take_bit_nat_eq_self)
  have b: "unat (ucast (drop_bit n (x :: u32) AND 0xff) :: u8) = unat x div 2 ^ n mod 256" for n
  proof -
    have "drop_bit n x AND 0xff = take_bit 8 (drop_bit n x)" by (simp add: take_bit_eq_mask mask_eq_exp_minus_1)
    moreover have "unat (ucast (take_bit 8 (drop_bit n x)) :: u8) = take_bit 8 (take_bit 8 (drop_bit n (unat x)))"
      using take_bit_take_bit[of "8 + n" 32 "unat x"] u
      by (simp only: unsigned_ucast_eq unsigned_take_bit_eq unsigned_drop_bit_eq) (simp add: take_bit_drop_bit)
    ultimately show ?thesis by (simp only: take_bit_eq_mod drop_bit_eq_div) simp
  qed
  let ?a = "unat x" and ?b = "unat x div 256" and ?c = "unat x div 256 div 256" and ?d = "unat x div 256 div 256 div 256"
  have div: "?a div 2 ^ 0x18 = ?d" "?a div 2 ^ 0x10 = ?c" "?a div 2 ^ 8 = ?b" "?a div 2 ^ 0 = ?a"
    by (simp_all add: div_mult2_eq[symmetric])
  have "?d < 256" using unat_bound[of x] by (intro less_mult_imp_div_less) simp
  then have d: "?d mod 256 = ?d" by simp
  have pow: "256 ^ 3 = (16777216 :: nat)" "256 ^ 2 = (65536 :: nat)" "256 ^ 1 = (256 :: nat)" by simp_all
  have "?d mod 256 * 256 ^ 3 + (?c mod 256 * 256 ^ 2 + (?b mod 256 * 256 ^ 1 + ?a mod 256)) = ?a"
    unfolding d pow using div_mult_mod_eq[of ?a 256] div_mult_mod_eq[of ?b 256] div_mult_mod_eq[of ?c 256] by linarith
  then show ?thesis
    unfolding limb_bytes_def list.map b div digits_value_Cons by simp
qed

lemma concat_limb_bytes:
  "digits_value 256 (digits (concat (map limb_bytes out))) = digits_value (2 ^ 32) (limbs out)"
  "length (concat (map limb_bytes out)) = 4 * length out"
proof (induction out)
  case (Cons x out)
  {
    case 1
    have "(256 :: nat) ^ (4 * length out) = (2 ^ 32) ^ length out" by (simp add: power_mult)
    then show ?case using Cons by (simp add: digits_value_append digits_value_Cons limb_bytes_value)
  next
    case 2
    then show ?case using Cons by (simp add: limb_bytes_def)
  }
qed simp_all

text \<open>The encoded text starts with as many ones as the bytes with zeros.\<close>

lemma leading_ones:
  assumes "\<forall>d \<in> set ds. d < 58" and "ds = [] \<or> hd ds \<noteq> 0"
  shows "takeWhile (\<lambda>x. x = CHR ''1'') (replicate z (CHR ''1'') @ b58_text ds) = replicate z (CHR ''1'')"
proof -
  have "takeWhile (\<lambda>x. x = CHR ''1'') (b58_text ds) = []"
    using assms b58_alphabet_digit(2)[of "hd ds"] by (cases ds) (auto simp: b58_text_def)
  then show ?thesis by (induction z) simp_all
qed

lemma hd_to_digits: "2 \<le> b \<Longrightarrow> to_digits b n = [] \<or> hd (to_digits b n) \<noteq> 0"
proof (induction b n rule: to_digits.induct)
  case (1 b n)
  show ?case
  proof (cases "n = 0 \<or> b < 2")
    case True
    then show ?thesis by (subst to_digits.simps) simp
  next
    case False
    have step: "to_digits b n = to_digits b (n div b) @ [n mod b]" using False by (subst to_digits.simps) simp
    show ?thesis
    proof (cases "to_digits b (n div b) = []")
      case True
      then have "n div b = 0" using False by (subst (asm) to_digits.simps) (auto split: if_splits)
      then show ?thesis using step True False by (simp add: div_eq_0_iff)
    next
      case False
      then show ?thesis using step "1.IH"[OF \<open>\<not> (n = 0 \<or> b < 2)\<close>] "1.prems" by simp
    qed
  qed
qed

lemma inj_unat: "inj (unat :: 'a::len word \<Rightarrow> nat)"
  by (rule injI) (simp add: word_unat_eq_iff)

lemma padded_bytes:
  assumes "length bin = m" and "length bs \<le> m" and "digits_value 256 (digits bin) = digits_value 256 (digits bs)"
  shows "bin = replicate (m - length bs) 0 @ bs"
proof -
  have "digits_value 256 (digits (replicate (m - length bs) 0 @ bs)) = digits_value 256 (digits bs)"
    using digits_value_zeros[of "digits (replicate (m - length bs) 0)" 256] by (simp add: digits_value_append)
  then have "digits bin = digits (replicate (m - length bs) 0 @ bs)"
    using assms unat_bound[where ?'a = 8] by (intro digits_value_inj[of _ _ 256]) auto
  then show ?thesis by (simp only: inj_map_eq_map[OF inj_unat])
qed

lemma zeros_padded: "length (takeWhile (\<lambda>x. x = 0) (replicate n 0 @ bs)) = n + zeros bs"
  by (induction n) (simp_all add: zeros_def)

lemma from_to_base58:
  assumes "length bs \<le> 132" and "to_base58 bs = Some s"
  shows "from_base58 s = Inr bs"
proof -
  let ?ds = "to_digits 58 (digits_value 256 (digits bs))" and ?N = "digits_value 256 (digits bs)"
  have s: "s = replicate (zeros bs) (CHR ''1'') @ b58_text ?ds" using assms(2) to_base58_digits[of bs] by simp
  have dig: "\<forall>d \<in> set ?ds. d < 58" using to_digits_digits[of 58] by simp
  have ones: "length (takeWhile (\<lambda>x. x = CHR ''1'') s) = zeros bs"
    unfolding s using leading_ones[OF dig] hd_to_digits[of 58] by simp
  have "?N < 256 ^ length bs" by (rule bytes_value_less)
  also have "\<dots> \<le> (256 :: nat) ^ 132" using assms(1) by (rule power_increasing) simp
  also have "(256 :: nat) ^ 132 = (2 ^ 32) ^ length (replicate 33 (0 :: u32))" by simp
  finally have "digits_value (2 ^ 32) (limbs (replicate 33 0)) * 58 ^ length ?ds + digits_value 58 ?ds
      < (2 ^ 32) ^ length (replicate 33 (0 :: u32))"
    using digits_value_zeros[of "limbs (replicate 33 0)"] by (simp add: value_to_digits)
  then obtain out where out: "b58_read (zeros bs) (b58_text ?ds) (replicate 33 0) = Inr out" "length out = 33"
    "digits_value (2 ^ 32) (limbs out) = ?N"
    using b58_read_value[OF dig, of "replicate 33 0" "zeros bs"] digits_value_zeros[of "limbs (replicate 33 0)"]
    by (auto simp: value_to_digits)
  have bin: "concat (map limb_bytes out) = replicate (132 - length bs) 0 @ bs"
    by (rule padded_bytes) (use out assms(1) in \<open>simp_all add: concat_limb_bytes\<close>)
  have "drop (zeros bs) s = b58_text ?ds" by (simp add: s)
  then show ?thesis
    using out(1) by (simp add: from_base58_def ones bin zeros_padded)
qed

section \<open>What the codec promises\<close>

text \<open>C28. \<open>to_base58\<close> always ends. It writes a \<open>1\<close> for each leading zero byte, then the base 58 digits
  of the number the bytes denote, without leading zeros: the loop that stops at the last
  carry, on a buffer of \<open>n * 138 / 100 + 1\<close> digits, computes the same as long division.\<close>

theorem base58_encodes:
  "to_base58 bs = Some (replicate (zeros bs) (CHR ''1'') @
     map (\<lambda>d. b58_alphabet ! d) (to_digits 58 (digits_value 256 (map unat bs))))"
  using to_base58_digits[of bs] by (simp add: b58_text_def)

text \<open>Up to 132 bytes are read back from their base 58 text.\<close>

theorem base58_round_trip:
  assumes "length bs \<le> 132"
  shows "\<exists>s. to_base58 bs = Some s \<and> from_base58 s = Inr bs"
  using from_to_base58[OF assms] to_base58_digits[of bs] by blast

theorem base58_round_trip_witness:
  "\<exists>s. to_base58 [0, 0, 255, 1] = Some s \<and> from_base58 s = Inr [0, 0, 255, 1]"
  by (rule base58_round_trip) simp

lemma check_payload:
  assumes "\<And>x. 4 \<le> length (sha256 x)" and "payload \<noteq> []" and "length payload \<le> 128"
    and "to_base58 (payload @ take 4 (double_sha256 sha256 payload)) = Some s" and "n \<le> length payload"
  shows "from_base58_check sha256 s n = Inr (take n payload, drop n payload)"
proof -
  have sum: "length (take 4 (double_sha256 sha256 payload)) = 4" using assms(1) by (simp add: double_sha256_def)
  then have "from_base58 s = Inr (payload @ take 4 (double_sha256 sha256 payload))"
    using assms(3,4) by (intro from_to_base58) simp_all
  then show ?thesis using sum assms(2,5) by (simp add: from_base58_check_def Let_def Suc_le_eq)
qed

text \<open>The text with version and checksum reads back as the version and the bytes, for any hash that
  yields at least four bytes; text whose bytes do not end in the checksum of the rest is
  refused.\<close>

theorem base58_check_round_trip:
  assumes "\<And>x. 4 \<le> length (sha256 x)" and "version @ bs \<noteq> []" and "length version + length bs \<le> 128"
  shows "\<exists>s. to_base58_check sha256 bs version = Some s \<and>
      from_base58_check sha256 s (length version) = Inr (version, bs) \<and>
    (\<forall>s' payload sum. from_base58 s' = Inr (payload @ sum) \<longrightarrow> length sum = 4 \<longrightarrow>
       sum \<noteq> take 4 (double_sha256 sha256 payload) \<longrightarrow>
       from_base58_check sha256 s' (length version) = Inl InvalidBase58Checksum)"
proof -
  obtain s where s: "to_base58 ((version @ bs) @ take 4 (double_sha256 sha256 (version @ bs))) = Some s"
    using to_base58_digits by blast
  have "from_base58_check sha256 s (length version) = Inr (version, bs)"
    using check_payload[OF assms(1,2) _ s, of "length version"] assms(3) by simp
  moreover have "from_base58_check sha256 s' n = Inl InvalidBase58Checksum"
    if "from_base58 s' = Inr (payload @ sum)" "length sum = 4" "sum \<noteq> take 4 (double_sha256 sha256 payload)" for s' payload sum n
    using that by (auto simp: from_base58_check_def Let_def)
  ultimately show ?thesis using s by (auto simp: to_base58_check_def Let_def)
qed

theorem base58_check_round_trip_witness:
  "\<exists>s. to_base58_check (\<lambda>x. [1, 2, 3, 4]) [7, 8] [1, 0] = Some s \<and>
     from_base58_check (\<lambda>x. [1, 2, 3, 4]) s 2 = Inr ([1, 0], [7, 8])"
  using base58_check_round_trip[of "\<lambda>x. [1, 2, 3, 4]" "[1, 0]" "[7, 8]"] by (auto simp: numeral_2_eq_2)

text \<open>A text of more than 132 ones makes the decoder slice its buffer from a negative index: it
  panics instead of reporting \<open>InvalidBase58Length\<close>.\<close>

theorem base58_ones_panic:
  assumes "132 < n"
  shows "from_base58 (replicate n (CHR ''1'')) = Inl (Panic ''bin[leading_zeros - zcount..]'')"
proof -
  have "takeWhile (\<lambda>x. x = CHR ''1'') (replicate n (CHR ''1'')) = replicate n (CHR ''1'')"
    by (simp add: takeWhile_eq_all_conv)
  moreover have "concat (map limb_bytes (replicate 33 0)) = replicate 132 0"
    by code_simp
  ultimately show ?thesis using assms by (simp add: from_base58_def)
qed

theorem base58_ones_panic_witness:
  "from_base58 (replicate 133 (CHR ''1'')) = Inl (Panic ''bin[leading_zeros - zcount..]'')"
  by (rule base58_ones_panic) simp

end
