(* ===== verification/EpicboxProps.thy ===== *)
theory EpicboxProps
  imports Epicbox Base58Props
begin

text \<open>
  What the text forms promise: hexadecimal and addresses read back what was written, the
  addressee of a message decrypts it, and where the parsers panic instead of reporting.
\<close>

section \<open>Hexadecimal\<close>

lemma hex_code:
  assumes "n < 16"
  shows "(of_char (hex_char n) :: nat) = (if n < 10 then 48 + n else 87 + n)"
  using assms by (simp add: hex_char_def of_char_of)

lemma of_char_neq: "(of_char c :: nat) \<noteq> of_char d \<Longrightarrow> c \<noteq> d"
  by auto

lemma hex_digit:
  assumes "n < 16"
  shows "digit_val 16 (hex_char n) = Some n" "(of_char (hex_char n) :: nat) < 128" "hex_char n \<noteq> CHR ''+''"
    "hex_char n \<noteq> CHR ''x''"
  using assms of_char_neq[of "hex_char n" "CHR ''+''"] of_char_neq[of "hex_char n" "CHR ''x''"]
  by (auto simp: digit_val_def hex_code Let_def)

lemma white_space_bytes:
  assumes "w \<in> set white_space" and "w \<noteq> []"
  shows "hd w < 48 \<or> 128 \<le> hd w" and "last w < 48 \<or> 128 \<le> last w"
  using assms by (auto simp: white_space_def)

lemma hex_not_white:
  assumes "n < 16" and "w \<in> set white_space" and "w \<noteq> []"
  shows "hd w \<noteq> of_char (hex_char n)" and "last w \<noteq> of_char (hex_char n)"
  using white_space_bytes[OF assms(2,3)] hex_digit(2)[OF assms(1)] hex_code[OF assms(1)] by auto

definition hex_text :: "string \<Rightarrow> bool" where
  "hex_text s \<longleftrightarrow> set s \<subseteq> hex_char ` {..<16}"

lemma white_prefix_0:
  assumes "s \<noteq> []" and "\<And>w. w \<in> set ws \<Longrightarrow> w \<noteq> [] \<Longrightarrow> hd w \<noteq> of_char (hd s)"
  shows "white_prefix ws s = 0"
proof -
  have "map of_char (take (length w) s) \<noteq> w" if "w \<in> set ws" "w \<noteq> []" for w
  proof
    assume "map of_char (take (length w) s) = w"
    then have "hd w = of_char (hd s)" using assms(1) that(2) by (cases s; cases w) auto
    then show False using assms(2)[OF that] by simp
  qed
  then have "find (\<lambda>w. w \<noteq> [] \<and> map of_char (take (length w) s) = w) ws = None"
    by (auto simp: find_None_iff)
  then show ?thesis by (simp add: white_prefix_def)
qed

lemma trim_hex:
  assumes "hex_text s" and "s \<noteq> []"
  shows "trim s = s"
proof -
  have "hd s \<in> hex_char ` {..<16}" "last s \<in> hex_char ` {..<16}"
    using assms hd_in_set last_in_set unfolding hex_text_def by blast+
  then obtain m n where mn: "m < 16" "hd s = hex_char m" "n < 16" "last s = hex_char n" by blast
  have "white_prefix white_space s = 0" 
    by (rule white_prefix_0) (use assms(2) mn(2) hex_not_white(1)[OF mn(1)] in auto)
  then have "drop_white white_space s = s" by (subst drop_white.simps) simp
  moreover have "white_prefix (map rev white_space) (rev s) = 0"
    by (rule white_prefix_0) (use assms(2) mn(4) hex_not_white(2)[OF mn(3)] in \<open>auto simp: hd_rev\<close>)
  then have "drop_white (map rev white_space) (rev s) = rev s" by (subst drop_white.simps) simp
  ultimately show ?thesis by (simp add: trim_def)
qed

lemma ascii_boundary:
  assumes "\<forall>c \<in> set s. (of_char c :: nat) < 128"
  shows "is_char_boundary s n \<longleftrightarrow> n \<le> length s"
proof -
  have "n < length s \<Longrightarrow> (of_char (s ! n) :: nat) < 128" using assms by simp
  then show ?thesis unfolding is_char_boundary_def by linarith
qed

lemma hex_ascii: "hex_text s \<Longrightarrow> \<forall>c \<in> set s. (of_char c :: nat) < 128"
  using hex_digit(2) by (auto simp: hex_text_def)

lemmas hex_boundary = ascii_boundary[OF hex_ascii]

lemma split_2_hex:
  assumes "hex_text s" and "length s = 2 * n" and "0 < n"
  shows "split_2 s = Inr (map (\<lambda>i. take 2 (drop (2 * i) s)) [0..<n])"
proof -
  have "(length s - 2 + 1) div 2 + 1 = n" using assms(2,3) by simp
  moreover have "map_each (\<lambda>i. str_slice (2 * i) (2 * i + 2) s) [0..<n] = Inr (map (\<lambda>i. take 2 (drop (2 * i) s)) [0..<n])"
    unfolding map_each_ok using assms(2) by (auto simp: str_slice_def hex_boundary[OF assms(1)])
  ultimately show ?thesis using assms by (simp add: split_2_def)
qed

lemma hex_text_bytes: "hex_text (bytes_to_hex bs)"
proof -
  have "unat b div 16 < 16" for b :: u8 using unat_bound[of b] by (intro less_mult_imp_div_less) simp
  then show ?thesis by (auto simp: hex_text_def bytes_to_hex_def)
qed

lemma length_bytes_to_hex: "length (bytes_to_hex bs) = 2 * length bs"
  by (induction bs) (simp_all add: bytes_to_hex_def)

lemma bytes_to_hex_pairs: "map (\<lambda>i. take 2 (drop (2 * i) (bytes_to_hex bs))) [0..<length bs]
    = map (\<lambda>b. [hex_char (unat b div 16), hex_char (unat b mod 16)]) bs"
proof (induction bs)
  case (Cons b bs)
  have "bytes_to_hex (b # bs) = [hex_char (unat b div 16), hex_char (unat b mod 16)] @ bytes_to_hex bs"
    by (simp add: bytes_to_hex_def)
  then show ?case
    using Cons by (simp add: upt_conv_Cons map_Suc_upt[symmetric] comp_def del: upt_Suc map_Suc_upt)
qed (simp add: bytes_to_hex_def)

lemma hex_byte_digits: "hex_byte [hex_char (unat b div 16), hex_char (unat b mod 16)] = Inr b"
proof -
  have q: "unat b div 16 < 16" using unat_bound[of b] by (intro less_mult_imp_div_less) simp
  have "unat b div 16 * 16 + unat b mod 16 < 256" using unat_bound[of b] by simp
  then show ?thesis
    using hex_digit(1,3)[OF q] hex_digit(1)[of "unat b mod 16"]
    by (simp add: hex_byte_def parse_uint_def digits_value_Cons Let_def)
qed

lemma hex_pieces:
  assumes "bs \<noteq> []"
  shows "and_then (split_2 (trim (bytes_to_hex bs))) (map_each hex_byte) = Inr bs"
proof -
  have "trim (bytes_to_hex bs) = bytes_to_hex bs"
    using assms length_bytes_to_hex[of bs] by (intro trim_hex[OF hex_text_bytes]) auto
  moreover have "split_2 (bytes_to_hex bs) = Inr (map (\<lambda>b. [hex_char (unat b div 16), hex_char (unat b mod 16)]) bs)"
    using split_2_hex[OF hex_text_bytes length_bytes_to_hex] assms by (simp add: bytes_to_hex_pairs)
  moreover have "map_each hex_byte (map (\<lambda>b. [hex_char (unat b div 16), hex_char (unat b mod 16)]) bs) = Inr bs"
    unfolding map_each_ok by (simp add: hex_byte_digits)
  ultimately show ?thesis by simp
qed

lemma hex_round_trip_plain: "bs \<noteq> [] \<Longrightarrow> hex_to_bytes (bytes_to_hex bs) = Inr bs"
proof -
  assume bs: "bs \<noteq> []"
  let ?s = "bytes_to_hex bs"
  obtain b bs' where "bs = b # bs'" using bs by (cases bs) auto
  then have two: "take 2 ?s = [hex_char (unat b div 16), hex_char (unat b mod 16)]" by (simp add: bytes_to_hex_def)
  have "length ?s = 2 * length bs" "2 \<le> length ?s" using bs length_bytes_to_hex[of bs] by (cases bs; simp)+
  then have "str_slice 0 2 ?s = Inr (take 2 ?s)"
    by (simp add: str_slice_def hex_boundary[OF hex_text_bytes])
  moreover have "take 2 ?s \<noteq> ''0x''" using two hex_digit(4)[of "unat b mod 16"] by auto
  ultimately show ?thesis
    using hex_pieces[OF bs] length_bytes_to_hex[of bs] by (simp add: hex_to_bytes_def Let_def)
qed

lemma hex_round_trip_0x: "bs \<noteq> [] \<Longrightarrow> hex_to_bytes (''0x'' @ bytes_to_hex bs) = Inr bs"
proof -
  assume bs: "bs \<noteq> []"
  let ?s = "''0x'' @ bytes_to_hex bs"
  have "\<forall>c \<in> set ?s. (of_char c :: nat) < 128" using hex_ascii[OF hex_text_bytes] by auto
  then have "str_slice 0 2 ?s = Inr ''0x''" by (simp add: str_slice_def ascii_boundary)
  then show ?thesis using hex_pieces[OF bs] length_bytes_to_hex[of bs] by (simp add: hex_to_bytes_def Let_def)
qed

text \<open>C1. Bytes written in hexadecimal by \<open>to_hex\<close> are read back by \<open>from_hex\<close>, with or without \<open>0x\<close>
  before them; a text of odd length is refused; but the empty text, which \<open>to_hex\<close> writes for
  no bytes, makes \<open>from_hex\<close> slice out of range.\<close>

theorem hex_round_trip:
  "(bs \<noteq> [] \<longrightarrow> hex_to_bytes (bytes_to_hex bs) = Inr bs \<and> hex_to_bytes (''0x'' @ bytes_to_hex bs) = Inr bs) \<and>
   (bs = [] \<longrightarrow> hex_to_bytes (bytes_to_hex bs) = Inl (Panic ''str slice'')) \<and>
   (odd (length s) \<longrightarrow> hex_to_bytes s = Inl NumberParsingError)"
  using hex_round_trip_plain[of bs] hex_round_trip_0x[of bs]
  by (auto simp: hex_to_bytes_def bytes_to_hex_def str_slice_def odd_iff_mod_2_eq_one)

theorem hex_round_trip_witness:
  "hex_to_bytes (bytes_to_hex [10, 255]) = Inr [10, 255] \<and> hex_to_bytes (bytes_to_hex []) = Inl (Panic ''str slice'')"
  using hex_round_trip[of "[10, 255]" "[]"] hex_round_trip[of "[]" "[]"] by simp

section \<open>Numbers in decimal\<close>

lemma those_map_Some: "(\<And>x. x \<in> set xs \<Longrightarrow> f x = Some (g x)) \<Longrightarrow> those (map f xs) = Some (map g xs)"
  by (induction xs) simp_all

lemma decimal_char: "(d :: nat) < 10 \<Longrightarrow> digit_val 10 (char_of (48 + d)) = Some d"
  by (simp add: digit_val_def of_char_of Let_def)

lemma plus_not_digit: "(d :: nat) < 10 \<Longrightarrow> char_of (48 + d) \<noteq> CHR ''+''"
  using of_char_neq[of "char_of (48 + d)" "CHR ''+''"] by (simp add: of_char_of)

lemma parse_digits:
  assumes "ds \<noteq> []" and "\<forall>d \<in> set ds. d < 10"
  shows "parse_uint 10 bound (map (\<lambda>d. char_of (48 + d)) ds) =
    (if digits_value 10 ds < bound then Some (digits_value 10 ds) else None)"
proof -
  let ?s = "map (\<lambda>d. char_of (48 + d)) ds"
  have "(case ?s of c # d # cs \<Rightarrow> if c = CHR ''+'' then d # cs else ?s | _ \<Rightarrow> ?s) = ?s"
    using assms plus_not_digit[of "hd ds"] by (cases ds; cases "tl ds") auto
  moreover have "those (map (digit_val 10) ?s) = Some ds"
    using those_map_Some[of ds "digit_val 10 \<circ> (\<lambda>d. char_of (48 + d))" id] assms(2) by (simp add: decimal_char)
  ultimately show ?thesis using assms(1) by (simp add: parse_uint_def Let_def)
qed

lemma parse_decimal: "parse_uint 10 bound (decimal n) = (if n < bound then Some n else None)"
proof (cases "n = 0")
  case True
  have "char_of (48 :: nat) = CHR ''0''" by code_simp
  then have "decimal n = map (\<lambda>d. char_of (48 + d)) [0 :: nat]" by (simp add: decimal_digits True)
  then show ?thesis using parse_digits[of "[0]" bound] True by (simp add: digits_value_Cons del: list.map)
next
  case False
  then have "to_digits 10 n \<noteq> []" by (subst to_digits.simps) simp
  then show ?thesis
    using parse_digits[of "to_digits 10 n" bound] to_digits_digits[of 10] False
    by (simp add: decimal_digits value_to_digits)
qed

lemma decimal_digit_chars: "c \<in> set (decimal n) \<Longrightarrow> digit_val 10 c \<noteq> None"
proof -
  have z: "char_of (48 :: nat) = CHR ''0''" by code_simp
  have "digit_val 10 (char_of (48 + (0 :: nat))) \<noteq> None" by (subst decimal_char) simp_all
  then have "digit_val 10 (CHR ''0'') \<noteq> None" by (simp add: z)
  moreover assume "c \<in> set (decimal n)"
  ultimately show ?thesis using to_digits_digits[of 10 _ n] decimal_char by (auto simp: decimal_digits split: if_splits)
qed

section \<open>Addresses\<close>

text \<open>A compressed public key: 33 bytes, the first 2 or 3, from which the key is read back.\<close>

definition key_ok :: "crypto_ext \<Rightarrow> PublicKey \<Rightarrow> bool" where
  "key_ok C k \<longleftrightarrow> length (pk_serialize C k) = 33 \<and> hd (pk_serialize C k) \<in> {2, 3} \<and>
     pk_from_slice C (pk_serialize C k) = Some k"

definition sha_ok :: "crypto_ext \<Rightarrow> bool" where
  "sha_ok C \<longleftrightarrow> (\<forall>x. 4 \<le> length (sha256 C x))"

lemma version_cases: "version_bytes C = [1, 0] \<or> version_bytes C = [1, 136]"
  by (simp add: version_bytes_def EPICBOX_ADDRESS_VERSION_MAINNET_def EPICBOX_ADDRESS_VERSION_TESTNET_def)

text \<open>The 39 bytes of an address always give 52 characters, which is what the pattern asks for.\<close>

lemma address_value:
  assumes "v = 0 \<or> v = 136" and "length rest = 36" and "c = 2 \<or> c = (3 :: u8)"
  shows "58 ^ 51 \<le> digits_value 256 (digits ([1, v, c] @ rest))" and "digits_value 256 (digits ([1, v, c] @ rest)) < 58 ^ 52"
proof -
  have r: "digits_value 256 (digits rest) < 256 ^ 36" using bytes_value_less[of rest] assms(2) by simp
  have val: "digits_value 256 (digits ([1, v, c] @ rest)) =
      256 ^ 38 + unat v * 256 ^ 37 + unat c * 256 ^ 36 + digits_value 256 (digits rest)"
    using assms(2) by (simp add: digits_value_Cons algebra_simps)
  show "58 ^ 51 \<le> digits_value 256 (digits ([1, v, c] @ rest))" unfolding val by simp
  show "digits_value 256 (digits ([1, v, c] @ rest)) < 58 ^ 52"
    unfolding val using assms(1,3) r by auto
qed

lemma address_text:
  assumes "key_ok C k" and "sha_ok C"
  obtains s where "pk_to_base58_check C k (version_bytes C) = Some s" "length s = 52" "set s \<subseteq> set b58_alphabet"
    "pk_from_base58_check C s (version_bytes C) = Inr k"
proof -
  let ?payload = "version_bytes C @ pk_serialize C k" and ?v = "version_bytes C"
  let ?all = "?payload @ take 4 (double_sha256 (sha256 C) ?payload)"
  obtain s where s: "to_base58 ?all = Some s" using to_base58_digits by blast
  have sum: "length (take 4 (double_sha256 (sha256 C) ?payload)) = 4"
    using assms(2) by (simp add: sha_ok_def double_sha256_def)
  obtain c ser where ser: "pk_serialize C k = c # ser" "c = 2 \<or> c = 3" "length ser = 32"
    using assms(1) by (cases "pk_serialize C k") (auto simp: key_ok_def)
  obtain v where v: "?v = [1, v]" "v = 0 \<or> v = 136" using version_cases[of C] by auto
  have all: "?all = [1, v, c] @ (ser @ take 4 (double_sha256 (sha256 C) ?payload))" by (simp add: v ser)
  have rest: "length (ser @ take 4 (double_sha256 (sha256 C) ?payload)) = 36" using ser(3) sum by simp
  let ?ds = "to_digits 58 (digits_value 256 (digits ?all))"
  have len: "length ?ds = 52"
    using to_digits_length[of 58 51 "digits_value 256 (digits ?all)"] address_value[OF v(2) rest ser(2)]
    unfolding all[symmetric] by simp
  have "zeros ?all = 0" unfolding all by (simp add: zeros_def)
  then have st: "s = b58_text ?ds" using s to_base58_digits[of ?all] by simp
  have "length b58_alphabet = 58" by (simp add: b58_alphabet_def)
  then have "set s \<subseteq> set b58_alphabet"
    using to_digits_digits[of 58] by (auto simp: st b58_text_def)
  moreover have "from_base58_check (sha256 C) s (length ?v) = Inr (?v, pk_serialize C k)"
    using check_payload[of "sha256 C" ?payload s "length ?v"] assms s by (simp add: sha_ok_def key_ok_def v)
  then have "pk_from_base58_check C s ?v = Inr k"
    using assms(1) by (simp add: pk_from_base58_check_def key_ok_def or_err_def)
  ultimately show ?thesis
    using that s len by (simp add: pk_to_base58_check_def to_base58_check_def st b58_text_def Let_def)
qed

lemma no_scheme:
  assumes "length k = 52" and "set k \<subseteq> set b58_alphabet"
  shows "\<not> starts_with ''epicbox://'' (k @ s)"
proof
  assume "starts_with ''epicbox://'' (k @ s)"
  then have "take 10 k = ''epicbox://''" 
  proof -
    assume "starts_with ''epicbox://'' (k @ s)"
    moreover have "length ''epicbox://'' = (10 :: nat)" by simp
    ultimately have "take 10 (k @ s) = ''epicbox://''" by (simp only: starts_with_def)
    then show ?thesis using assms(1) by simp
  qed
  note this[THEN arg_cong[where f = "\<lambda>t. t ! 7"]]
  then have "k ! 7 = CHR '':''" using assms(1) by simp
  moreover have "k ! 7 \<in> set b58_alphabet" using assms(1) nth_mem[of 7 k] by (intro subsetD[OF assms(2)]) simp
  moreover have "CHR '':'' \<notin> set b58_alphabet" by (simp add: b58_alphabet_def)
  ultimately show False by simp
qed

lemma capture_plain:
  assumes "length k = 52" and "set k \<subseteq> set b58_alphabet"
  shows "capture_address (k @ s) = map_option (Pair k) (capture_domain s)"
    and "capture_address (''epicbox://'' @ k @ s) = map_option (Pair k) (capture_domain s)"
proof -
  show "capture_address (k @ s) = map_option (Pair k) (capture_domain s)"
    using no_scheme[OF assms, of s] assms by (simp add: capture_address_def)
  have "starts_with ''epicbox://'' (''epicbox://'' @ k @ s)" by (simp add: starts_with_def)
  then show "capture_address (''epicbox://'' @ k @ s) = map_option (Pair k) (capture_domain s)"
    using assms by (simp add: capture_address_def Let_def)
qed

lemma colon_not_domain: "\<not> domain_char (CHR '':'')"
  by (simp add: domain_char_def digit_val_def)

lemma capture_domain_port:
  assumes "d \<noteq> []" and "\<forall>c \<in> set d. domain_char c"
  shows "capture_domain (''@'' @ d) = Some (Some d, None)"
    and "\<forall>c \<in> set p. digit_val 10 c \<noteq> None \<Longrightarrow> capture_domain (''@'' @ d @ '':'' @ p) = Some (Some d, Some p)"
proof -
  have "takeWhile domain_char d = d" "dropWhile domain_char d = []" using assms(2) by (simp_all add: takeWhile_eq_all_conv dropWhile_eq_Nil_conv)
  then show "capture_domain (''@'' @ d) = Some (Some d, None)"
    using assms(1) unfolding capture_domain_def by (simp only: list.case append.simps) (simp add: capture_port_def)
  have "takeWhile domain_char (d @ '':'' @ p) = d" "dropWhile domain_char (d @ '':'' @ p) = '':'' @ p"
    using assms(2) colon_not_domain by simp_all
  then show "capture_domain (''@'' @ d @ '':'' @ p) = Some (Some d, Some p)" if "\<forall>c \<in> set p. digit_val 10 c \<noteq> None"
    using assms(1) that by (simp add: capture_domain_def capture_port_def)
qed

lemma fmt_capture:
  assumes "length (ea_public_key a) = 52" and "set (ea_public_key a) \<subseteq> set b58_alphabet"
    and "ea_domain a \<noteq> []" and "\<forall>c \<in> set (ea_domain a). domain_char c" and "scheme = [] \<or> scheme = ''epicbox://''"
  defines "p \<equiv> (if ea_port a = Some 443 then None else ea_port a)"
  shows "capture_address (scheme @ epicbox_fmt a) =
    Some (ea_public_key a, Some (ea_domain a), map_option (\<lambda>p. decimal (unat p)) p)"
proof -
  let ?tail = "''@'' @ ea_domain a @ (case p of None \<Rightarrow> [] | Some q \<Rightarrow> '':'' @ decimal (unat q))"
  have fmt: "epicbox_fmt a = ea_public_key a @ ?tail"
    by (simp add: epicbox_fmt_def p_def DEFAULT_EPICBOX_PORT_443_def split: option.splits)
  have "capture_domain ?tail = Some (Some (ea_domain a), map_option (\<lambda>p. decimal (unat p)) p)"
    using capture_domain_port(1)[OF assms(3,4)] capture_domain_port(2)[OF assms(3,4)] decimal_digit_chars
    by (cases p) auto
  then show ?thesis using capture_plain[OF assms(1,2), of ?tail] assms(5) unfolding fmt by auto
qed

lemma address_parses:
  assumes "key_ok C k" and "sha_ok C" and "d \<noteq> []" and "\<forall>c \<in> set d. domain_char c"
    and "scheme = [] \<or> scheme = ''epicbox://''"
  obtains a where "epicbox_address_new C k (Some d) port = Some a" "epicbox_public_key C a = Inr k"
    "epicbox_from_str C (scheme @ epicbox_fmt a) = Inr (a\<lparr>ea_port := (if port = Some 443 then None else port)\<rparr>)"
proof -
  obtain s where s: "pk_to_base58_check C k (version_bytes C) = Some s" "length s = 52" "set s \<subseteq> set b58_alphabet"
    "pk_from_base58_check C s (version_bytes C) = Inr k"
    by (rule address_text[OF assms(1,2)]) (rule that)
  let ?a = "\<lparr>ea_public_key = s, ea_domain = d, ea_port = port\<rparr>" and ?p = "if port = Some 443 then None else port"
  have "capture_address (scheme @ epicbox_fmt ?a) = Some (s, Some d, map_option (\<lambda>p. decimal (unat p)) ?p)"
    using fmt_capture[of ?a scheme] s(2,3) assms(3-5) by simp
  moreover have "parse_port (map_option (\<lambda>p. decimal (unat p)) ?p) = Inr ?p"
    using unat_bound[where ?'a = 16] by (cases port) (auto simp: parse_port_def parse_decimal)
  moreover have "epicbox_address_new C k (Some d) q = Some (?a\<lparr>ea_port := q\<rparr>)" for q
    by (simp add: epicbox_address_new_def s(1))
  ultimately show thesis
    using s(4) by (intro that[of ?a]) (simp_all add: epicbox_from_str_def epicbox_public_key_def or_err_def)
qed

text \<open>The address of a compressed key, printed, is parsed back to the same key, domain and port, with
  or without the scheme; only the port 443, which is not printed, is lost.\<close>

theorem epicbox_address_round_trip:
  assumes "key_ok C k" and "sha_ok C" and "d \<noteq> []" and "\<forall>c \<in> set d. domain_char c"
    and "scheme = [] \<or> scheme = ''epicbox://''"
  shows "\<exists>a. epicbox_address_new C k (Some d) port = Some a \<and> epicbox_public_key C a = Inr k \<and>
    epicbox_from_str C (scheme @ epicbox_fmt a) = Inr (a\<lparr>ea_port := (if port = Some 443 then None else port)\<rparr>)"
  using address_parses[OF assms] by metis

text \<open>A port out of range, or none after the colon, passes the pattern and makes the parser panic.\<close>

theorem epicbox_bad_port_panics:
  assumes "length k = 52" and "set k \<subseteq> set b58_alphabet" and "d \<noteq> []" and "\<forall>c \<in> set d. domain_char c"
    and "p = [] \<or> (\<exists>n \<ge> 2 ^ 16. p = decimal n)"
  shows "epicbox_from_str C (k @ ''@'' @ d @ '':'' @ p) = Inl (Panic ''u16::from_str_radix'')"
proof -
  have "\<forall>c \<in> set p. digit_val 10 c \<noteq> None" using assms(5) decimal_digit_chars by auto
  then have "capture_address (k @ ''@'' @ d @ '':'' @ p) = Some (k, Some d, Some p)"
    using capture_plain(1)[OF assms(1,2)] capture_domain_port(2)[OF assms(3,4)] by simp
  moreover have "parse_uint 10 (2 ^ 16) p = None"
    using assms(5) by (auto simp: parse_decimal) (simp add: parse_uint_def)
  ultimately show ?thesis by (simp add: epicbox_from_str_def parse_port_def)
qed

text \<open>A concrete instance for the witnesses: keys are their own serialisation, the product of a key and
  a secret is a fixed key, the cipher appends 16 zero bytes.\<close>

definition sample_crypto :: crypto_ext where
  "sample_crypto = \<lparr>sha256 = (\<lambda>_. [1, 2, 3, 4]), pk_serialize = id, pk_from_slice = Some, pk_of_secret = (\<lambda>k. 2 # k),
     pk_mul = (\<lambda>_ _. Some (2 # replicate 32 7)), sig_to_der = id, sig_from_der = Some, sk_from_slice = Some,
     commit_from_vec = id, secp_message = Inr, secp_sign = (\<lambda>m _. Some m), secp_verify = (\<lambda>m s _. m = s),
     pbkdf2 = (\<lambda>_ salt s. take 32 (s @ salt)), aead_seal = (\<lambda>_ _ m. Some (m @ replicate 16 0)),
     aead_open = (\<lambda>_ _ m. Some m), random_salt = [1, 2, 3, 4, 5, 6, 7, 8], random_nonce = replicate 12 9,
     from_utf8 = (\<lambda>b. Some (map (\<lambda>x. char_of (unat x)) b)), is_floonet = False\<rparr>"

lemma sample_crypto_ok: "key_ok sample_crypto (2 # replicate 32 7)" "sha_ok sample_crypto"
  by (simp_all add: key_ok_def sha_ok_def sample_crypto_def)

theorem epicbox_address_round_trip_witness:
  "\<exists>a. epicbox_address_new sample_crypto (2 # replicate 32 7) (Some ''epic.tech'') (Some 3420) = Some a \<and>
    epicbox_public_key sample_crypto a = Inr (2 # replicate 32 7) \<and>
    epicbox_from_str sample_crypto (''epicbox://'' @ epicbox_fmt a) = Inr (a\<lparr>ea_port := Some 3420\<rparr>)"
  using epicbox_address_round_trip[of sample_crypto "2 # replicate 32 7" "''epic.tech''" "''epicbox://''" "Some 3420"]
  by (simp add: sample_crypto_ok domain_char_def digit_val_def) 

theorem epicbox_bad_port_panics_witness:
  "epicbox_from_str sample_crypto (replicate 52 CHR ''2'' @ ''@'' @ ''epic.tech'' @ '':'' @ [])
     = Inl (Panic ''u16::from_str_radix'')"
  by (rule epicbox_bad_port_panics) (simp_all add: b58_alphabet_def domain_char_def digit_val_def)

section \<open>Messages\<close>

text \<open>
  What the cryptographic libraries document: the two products of a key and a foreign secret
  agree and give a key of 33 bytes, the cipher opens what it sealed with the same key and
  nonce and leaves its tag of 16 bytes behind it, the random nonce has 12 bytes, and the
  bytes of a text read as that text.
\<close>

definition shared_secret :: "crypto_ext \<Rightarrow> SecretKey \<Rightarrow> SecretKey \<Rightarrow> bool" where
  "shared_secret C a b \<longleftrightarrow> (\<exists>s. pk_mul C (pk_of_secret C b) a = Some s \<and>
     pk_mul C (pk_of_secret C a) b = Some s \<and> length (pk_serialize C s) = 33)"

definition aead_ok :: "crypto_ext \<Rightarrow> bool" where
  "aead_ok C \<longleftrightarrow> (\<forall>key nonce m c. aead_seal C key nonce m = Some c \<longrightarrow>
     c \<noteq> [] \<and> (\<exists>tag. length tag = 16 \<and> aead_open C key nonce c = Some (m @ tag)))"

definition draws_ok :: "crypto_ext \<Rightarrow> bool" where
  "draws_ok C \<longleftrightarrow> random_salt C \<noteq> [] \<and> length (random_nonce C) = 12"

lemma common_key_agrees:
  assumes "shared_secret C a b"
  obtains key where "\<And>err. common_key C err salt (pk_of_secret C b) a = Inr key"
    "\<And>err. common_key C err salt (pk_of_secret C a) b = Inr key"
  using assms by (auto simp: shared_secret_def common_key_def or_err_def byte_slice_def)

lemma decrypt_sealed:
  assumes "aead_ok C" and "draws_ok C" and "aead_seal C key (random_nonce C) (str_bytes message) = Some c"
    and "from_utf8 C (str_bytes message) = Some message"
    and "em_encrypted_message m = bytes_to_hex c" and "em_nonce m = bytes_to_hex (random_nonce C)"
  shows "decrypt_with_key C m key = Inr message"
proof -
  have "hex_to_bytes (bytes_to_hex (random_nonce C)) = Inr (random_nonce C)" "length (random_nonce C) = 12"
    using assms(2) by (auto simp: draws_ok_def intro!: hex_round_trip_plain)
  moreover obtain tag where "c \<noteq> []" "length tag = 16" "aead_open C key (random_nonce C) c = Some (str_bytes message @ tag)"
    using assms(1,3) unfolding aead_ok_def by blast
  ultimately show ?thesis
    using assms(4-6) hex_round_trip_plain[of c]
    by (simp add: decrypt_with_key_def map_err_def byte_slice_def or_err_def)
qed

lemma message_opens:
  assumes "shared_secret C a b" and "aead_ok C" and "draws_ok C" and "from_utf8 C (str_bytes message) = Some message"
  shows "encrypted_message_new C message d (pk_of_secret C b) a = Inl Encryption \<or>
    (\<exists>m key. encrypted_message_new C message d (pk_of_secret C b) a = Inr m \<and> em_destination m = d \<and>
       message_key C m (pk_of_secret C a) b = Inr key \<and> decrypt_with_key C m key = Inr message)"
proof -
  obtain key where key: "\<And>err. common_key C err (random_salt C) (pk_of_secret C b) a = Inr key"
    "\<And>err. common_key C err (random_salt C) (pk_of_secret C a) b = Inr key"
    by (rule common_key_agrees[OF assms(1)]) (rule that)
  have salt: "hex_to_bytes (bytes_to_hex (random_salt C)) = Inr (random_salt C)"
    using assms(3) by (auto simp: draws_ok_def intro!: hex_round_trip_plain)
  show ?thesis
  proof (cases "aead_seal C key (random_nonce C) (str_bytes message)")
    case None
    then show ?thesis by (simp add: encrypted_message_new_def key or_err_def)
  next
    case (Some c)
    then show ?thesis
      using decrypt_sealed[OF assms(2,3) Some assms(4)]
      by (simp add: encrypted_message_new_def message_key_def map_err_def key salt or_err_def)
  qed
qed

text \<open>What the sender encrypts for a receiver is decrypted to the same text with the key the receiver
  computes from the sender's public key and the salt in the message.\<close>

theorem message_round_trip:
  assumes "shared_secret C a b" and "aead_ok C" and "draws_ok C" and "from_utf8 C (str_bytes message) = Some message"
  shows "encrypted_message_new C message d (pk_of_secret C b) a = Inl Encryption \<or>
    (\<exists>m key. encrypted_message_new C message d (pk_of_secret C b) a = Inr m \<and> em_destination m = d \<and>
       message_key C m (pk_of_secret C a) b = Inr key \<and> decrypt_with_key C m key = Inr message)"
  using message_opens[OF assms] .

lemma sample_text: "from_utf8 sample_crypto (str_bytes ''hi'') = Some ''hi''"
proof -
  have "map (\<lambda>x. char_of (unat x)) (str_bytes ''hi'') = ''hi''" by code_simp
  then show ?thesis by (simp add: sample_crypto_def)
qed

lemma sample_cipher: "shared_secret sample_crypto a b" "aead_ok sample_crypto" "draws_ok sample_crypto"
  by (simp_all add: shared_secret_def aead_ok_def draws_ok_def sample_crypto_def)

definition sample_address :: EpicboxAddress where
  "sample_address = \<lparr>ea_public_key = ''k'', ea_domain = ''epic.tech'', ea_port = None\<rparr>"

theorem message_round_trip_witness:
  "\<exists>m key. encrypted_message_new sample_crypto ''hi'' sample_address (pk_of_secret sample_crypto [2]) [1] = Inr m \<and>
     message_key sample_crypto m (pk_of_secret sample_crypto [1]) [2] = Inr key \<and>
     decrypt_with_key sample_crypto m key = Inr ''hi''"
proof -
  have "encrypted_message_new sample_crypto ''hi'' sample_address (pk_of_secret sample_crypto [2]) [1] \<noteq> Inl Encryption"
    by (simp add: encrypted_message_new_def common_key_def or_err_def byte_slice_def sample_crypto_def)
  then show ?thesis using message_round_trip[OF sample_cipher sample_text, of sample_address "[2]" "[1]"] by auto
qed

section \<open>Proofs\<close>

lemma proof_err_Inr: "proof_err e r = Inr x \<longleftrightarrow> r = Inr x"
  by (auto simp: proof_err_def split: sum.splits error.splits)

text \<open>A proof extracted from a response verifies again, with the same expectation, and gives the same
  slate; its signature is one of the sender over the message. An invalid signature is not
  reported as such: it makes the verification panic.\<close>

theorem proof_verifies_again:
  "(proof_from_response C rm rs sender message sig sk expected = Inr (slate, p) \<longrightarrow>
      (\<exists>dest k h. verify_extract C rm rs p expected = Inr (dest, slate) \<and>
        epicbox_from_str C sender = Inr (tp_address p) \<and> epicbox_public_key C (tp_address p) = Inr k \<and>
        secp_message C (sha256 C (str_bytes message)) = Inr h \<and> secp_verify C h (tp_signature p) k)) \<and>
   (epicbox_public_key C (tp_address q) = Inr k \<and> secp_message C (sha256 C (str_bytes (tp_message q))) = Inr h \<and>
      \<not> secp_verify C h (tp_signature q) k \<longrightarrow>
      verify_extract C rm rs q expected = Inl (ProofPanic ''Err(Error::Secp(e)).unwrap()''))"
proof (intro conjI impI)
  assume run: "proof_from_response C rm rs sender message sig sk expected = Inr (slate, p)"
  then obtain dest k where
    p: "epicbox_from_str C sender = Inr (tp_address p)" "epicbox_public_key C (tp_address p) = Inr k"
       "tp_message p = message" "verify_extract C rm rs p expected = Inr (dest, slate)"
    by (auto simp: proof_from_response_def proof_err_Inr and_then_eq_Inr Let_def)
  then have "verify_signature C message (tp_signature p) k = Inr ()"
    by (auto simp: verify_extract_def proof_err_Inr and_then_eq_Inr)
  then obtain h where "secp_message C (sha256 C (str_bytes message)) = Inr h" "secp_verify C h (tp_signature p) k"
    by (auto simp: verify_signature_def and_then_eq_Inr unwrap_secp_def or_err_def split: if_splits)
  then show "\<exists>dest k h. verify_extract C rm rs p expected = Inr (dest, slate) \<and>
        epicbox_from_str C sender = Inr (tp_address p) \<and> epicbox_public_key C (tp_address p) = Inr k \<and>
        secp_message C (sha256 C (str_bytes message)) = Inr h \<and> secp_verify C h (tp_signature p) k"
    using p by blast
qed (auto simp: verify_extract_def verify_signature_def proof_err_def unwrap_secp_def or_err_def)

lemma sample_sender:
  obtains a where "epicbox_from_str sample_crypto (epicbox_fmt a) = Inr a" "epicbox_public_key sample_crypto a = Inr (2 # replicate 32 7)"
proof -
  obtain s where s: "pk_to_base58_check sample_crypto (2 # replicate 32 7) (version_bytes sample_crypto) = Some s"
    "length s = 52" "set s \<subseteq> set b58_alphabet" "pk_from_base58_check sample_crypto s (version_bytes sample_crypto) = Inr (2 # replicate 32 7)"
    by (rule address_text[OF sample_crypto_ok]) (rule that)
  let ?a = "\<lparr>ea_public_key = s, ea_domain = ''epic.tech'', ea_port = None\<rparr>"
  have "capture_address (epicbox_fmt ?a) = Some (s, Some ''epic.tech'', None)"
    using fmt_capture[of ?a "[]"] s(2,3) by (simp add: domain_char_def digit_val_def)
  then have "epicbox_from_str sample_crypto (epicbox_fmt ?a) = Inr ?a"
    using s by (simp add: epicbox_from_str_def parse_port_def epicbox_address_new_def or_err_def)
  then show ?thesis using that s(4) by (simp add: epicbox_public_key_def)
qed

text \<open>Instantiated twice: a response whose signature is right, and a proof whose signature is wrong.\<close>

theorem proof_verifies_again_witness:
  "\<exists>sender rm slate p dest. proof_from_response sample_crypto rm (\<lambda>_. Some slate) sender ''hi'' (bytes_to_hex [1, 2, 3, 4]) [1] None = Inr (slate, p) \<and>
     verify_extract sample_crypto rm (\<lambda>_. Some slate) p None = Inr (dest, slate) \<and>
     verify_extract sample_crypto rm (\<lambda>_. Some slate) (p\<lparr>tp_signature := []\<rparr>) None = Inl (ProofPanic ''Err(Error::Secp(e)).unwrap()'')"
proof -
  let ?C = sample_crypto and ?key = "replicate 32 7 :: bytes"
  obtain a where a: "epicbox_from_str ?C (epicbox_fmt a) = Inr a" "epicbox_public_key ?C a = Inr (2 # replicate 32 7)"
    by (rule sample_sender) (rule that)
  let ?m = "\<lparr>em_destination = a, em_encrypted_message = bytes_to_hex (str_bytes ''hi'' @ replicate 16 0),
    em_salt = bytes_to_hex (random_salt ?C), em_nonce = bytes_to_hex (random_nonce ?C)\<rparr>"
  fix slate :: VersionedSlate
  let ?rm = "\<lambda>_. Some ?m" and ?rs = "\<lambda>_. Some slate"
  let ?p = "\<lparr>tp_address = a, tp_message = ''hi'', tp_signature = [1, 2, 3, 4], tp_key = ?key,
    tp_amount = 0, tp_fee = 0, tp_inputs = [], tp_outputs = []\<rparr>"
  have dec: "decrypt_with_key ?C ?m ?key = Inr ''hi''"
    by (rule decrypt_sealed[OF sample_cipher(2,3) _ sample_text]) (simp_all add: sample_crypto_def)
  have sig: "sig_from_hex ?C (bytes_to_hex [1, 2, 3, 4]) = Inr [1, 2, 3, 4]"
    by (simp add: sig_from_hex_def hex_round_trip_plain unwrap_secp_def or_err_def) (simp add: sample_crypto_def)
  have salt: "hex_to_bytes (bytes_to_hex (random_salt ?C)) = Inr (random_salt ?C)"
    using sample_cipher(3) by (auto simp: draws_ok_def intro!: hex_round_trip_plain)
  have key: "message_key ?C ?m (2 # replicate 32 7) [1] = Inr ?key"
    by (simp add: message_key_def salt map_err_def common_key_def byte_slice_def or_err_def) (simp add: sample_crypto_def)
  have verify: "verify_signature ?C ''hi'' [1, 2, 3, 4] (2 # replicate 32 7) = Inr ()"
    by (simp add: verify_signature_def unwrap_secp_def or_err_def sample_crypto_def)
  have run: "proof_from_response ?C ?rm ?rs (epicbox_fmt a) ''hi'' (bytes_to_hex [1, 2, 3, 4]) [1] None = Inr (slate, ?p)"
    unfolding proof_from_response_def verify_extract_def
    by (simp add: a sig key proof_err_def proof_opt_def verify dec)
  have "\<not> secp_verify ?C [1, 2, 3, 4] [] k" "secp_message ?C (sha256 ?C x) = Inr [1, 2, 3, 4]" for k x
    by (simp_all add: sample_crypto_def)
  then have "\<exists>dest. verify_extract ?C ?rm ?rs ?p None = Inr (dest, slate)"
    and "verify_extract ?C ?rm ?rs (?p\<lparr>tp_signature := []\<rparr>) None = Inl (ProofPanic ''Err(Error::Secp(e)).unwrap()'')"
    using run proof_verifies_again[of ?C ?rm ?rs "epicbox_fmt a" "''hi''" "bytes_to_hex [1, 2, 3, 4]" "[1]" None slate ?p
      "?p\<lparr>tp_signature := []\<rparr>" "2 # replicate 32 7" "[1, 2, 3, 4]"] a(2) by auto
  then show ?thesis using run by blast
qed

end
