(* ===== verification/Address.thy ===== *)
theory Address
  imports Keys Crypto
begin

text \<open>
  The onion form of a payment-proof address: \<open>libwallet/src/address.rs\<close>. Base 32, SHA3-256 and
  the check that 32 bytes are a key are parameters.
\<close>

definition ed25519_parse_pubkey :: "ext \<Rightarrow> string \<Rightarrow> error + DalekPublicKey" where
  "ed25519_parse_pubkey E pub_key =
     (case from_hex E pub_key of
        None \<Rightarrow> Inl (AddressDecoding (from_hex_error E pub_key))
      | Some bs \<Rightarrow>
          if length bs \<noteq> 32 then Inl (AddressDecoding ''Public key must be 32 bytes'')
          else or_err (AddressDecoding ''Not a valid public key'') (dalek_from_bytes E bs))"

definition onion_v3_from_pubkey :: "ext \<Rightarrow> DalekPublicKey \<Rightarrow> error + string" where
  "onion_v3_from_pubkey E pub_key =
     (let checksum = sha3_256 E (str_bytes ''.onion checksum'' @ pub_key @ [3]);
          address_bytes = pub_key @ [checksum ! 0, checksum ! 1, 3]
      in Inr (to_lowercase E (base32_encode E address_bytes)))"

text \<open>The input without the scheme and the suffix.\<close>

definition strip_onion :: "ext \<Rightarrow> string \<Rightarrow> string" where
  "strip_onion E onion_address =
     (let input = to_uppercase E onion_address;
          input = (if starts_with ''HTTP://'' input \<or> starts_with ''HTTPS://'' input
                   then remove_all ''HTTPS://'' (remove_all ''HTTP://'' input) else input)
      in if ends_with ''.ONION'' input then remove_all ''.ONION'' input else input)"

definition pubkey_from_onion_v3 :: "ext \<Rightarrow> string \<Rightarrow> error + DalekPublicKey" where
  "pubkey_from_onion_v3 E onion_address =
     (let input = strip_onion E onion_address in
      if length input \<noteq> 56 then Inl (AddressDecoding ''Input address is wrong length'')
      else
        and_then (or_err (AddressDecoding ''Input address is not base 32'') (base32_decode E input)) (\<lambda>address.
        if length address < 32 then Inl (Panic ''split_off'')
        else
          and_then (or_err (AddressDecoding ''Provided onion V3 address is invalid (parsing key)'')
                      (dalek_from_bytes E (take 32 address))) (\<lambda>key.
          case onion_v3_from_pubkey E key of
            Inl _ \<Rightarrow> Inl (AddressDecoding ''Provided onion V3 address is invalid (converting from pubkey)'')
          | Inr test_v3 \<Rightarrow>
              if to_uppercase E test_v3 \<noteq> to_uppercase E input
              then Inl (AddressDecoding ''Provided onion V3 address is invalid (no match)'')
              else Inr key)))"

end
