(* ===== verification/ErrorText.thy ===== *)
theory ErrorText
  imports Env
begin

text \<open>
  The text of an error, the \<open>Display\<close> of \<open>libwallet/src/error.rs\<close>, where the code puts it into
  another message.
\<close>

primrec error_fmt :: "ext \<Rightarrow> error \<Rightarrow> string" where
  "error_fmt E (NotEnoughFunds _ available_disp _ needed_disp) =
     ''Not enough funds. Required: '' @ needed_disp @ '', Available: '' @ available_disp"
| "error_fmt E (Fee s) = ''Fee Error: '' @ s"
| "error_fmt E (LibTX s) = ''LibTx Error: '' @ s"
| "error_fmt E (LibTXReward s) = ''LibTx Reward Error: '' @ s"
| "error_fmt E (KeychainError _) = ''Keychain error''"
| "error_fmt E (TransactionError _) = ''Transaction error''"
| "error_fmt E (Secp _) = ''Secp error''"
| "error_fmt E (Backend s) = ''Wallet store error: '' @ s"
| "error_fmt E (StdIO s) = ''Std IO error: '' @ s"
| "error_fmt E Node = ''Node API error''"
| "error_fmt E (NodeStatusError s) = ''Node status error: '' @ s"
| "error_fmt E (SignatureError s) = ''Signature error: '' @ s"
| "error_fmt E (TransactionDoesntExist s) = ''Transaction '' @ s @ '' doesn't exist''"
| "error_fmt E (TransactionNotCancellable s) = ''Transaction '' @ s @ '' cannot be cancelled''"
| "error_fmt E (TransactionCancellationError s) = ''Cancellation Error: '' @ s"
| "error_fmt E (TransactionAlreadyReceived s) = ''Transaction '' @ s @ '' has already been received''"
| "error_fmt E (AccountLabelAlreadyExists s) = ''Account Label '' @ [char_of (39 :: nat)] @ s @ [char_of (39 :: nat)] @ '' already exists''"
| "error_fmt E (UnknownAccountLabel s) = ''Unknown Account Label '' @ [char_of (39 :: nat)] @ s @ [char_of (39 :: nat)]"
| "error_fmt E SlateVersionParse = ''Can't parse slate version''"
| "error_fmt E SlateSer = ''Can't Serialize slate''"
| "error_fmt E SlateDeser = ''Can't Deserialize slate''"
| "error_fmt E (SlateVersionError v) = ''Unknown Slate Version: '' @ decimal (unat v)"
| "error_fmt E KeychainDoesntExist = ''Keychain doesn't exist (has wallet been opened?)''"
| "error_fmt E InvalidKeychainMask = ''Supplied Keychain Mask Token is incorrect''"
| "error_fmt E (ED25519Key s) = ''Error generating ed25519 secret key: '' @ s"
| "error_fmt E (PaymentProofError s) = ''Payment Proof generation error: '' @ s"
| "error_fmt E (PaymentProofParsing s) = ''Payment Proof parsing error: '' @ s"
| "error_fmt E (PaymentProofRetrieval s) = ''Payment Proof retrieval error: '' @ s"
| "error_fmt E (AddressDecoding s) = ''Proof Address decoding: '' @ s"
| "error_fmt E TransactionExpired = ''Transaction Expired''"
| "error_fmt E (FromSqlite n) = ''SQLite Error: '' @ sqlite_error_string E n"
| "error_fmt E (InvalidBase58Character _ _) = ''Invalid base58 character!''"
| "error_fmt E InvalidBase58Length = ''Invalid base58 length''"
| "error_fmt E InvalidBase58Checksum = ''Invalid base58 checksum''"
| "error_fmt E InvalidBase58Version = ''Invalid base58 version bytes''"
| "error_fmt E InvalidBase58Key = ''Invalid key''"
| "error_fmt E NumberParsingError = ''Could not parse number from string''"
| "error_fmt E Encryption = ''Unable to encrypt message''"
| "error_fmt E Decryption = ''Unable to decrypt message''"
| "error_fmt E (EpicboxAddressParsingError s) = ''Could not parse '' @ [char_of (39 :: nat)] @ s @ [char_of (39 :: nat)] @ '' to a epicbox address''"
| "error_fmt E (NotFoundErr s) = ''NotFoundErr Error: '' @ s"
| "error_fmt E (Lifecycle s) = ''Lifecycle Error: '' @ s"
| "error_fmt E (WalletSeedExists s) = ''Wallet seed exists error: '' @ s"
| "error_fmt E (CallbackImpl _) = ''Trait Implementation error''"
| "error_fmt E EpicboxReconnectLimit = ''Too many unsuccessful attempts at reconnection''"
| "error_fmt E (LibWallet s) = ''LibWallet Error: '' @ s"
| "error_fmt E (ClientCallback s) = ''Client Callback Error: '' @ s"
| "error_fmt E (APIEncryption s) = s"
| "error_fmt E (ArgumentError s) = ''Invalid Arguments: '' @ s"
| "error_fmt E (WalletComms s) = ''Wallet Communication Error: '' @ s"
| "error_fmt E (Compatibility s) = ''Compatibility Error: '' @ s"
| "error_fmt E (TorConfigError s) = ''Tor Config Error: '' @ s"
| "error_fmt E (IOError s) = ''Parsing IO error: '' @ s"
| "error_fmt E CancelledError = ''User Cancelled''"
| "error_fmt E Unauthorized = ''Unauthorized (HTTP 401): Authentication failed''"
| "error_fmt E NotFound = ''Not found (HTTP 404): Resource not found''"
| "error_fmt E (BadRequest s) = ''Bad request (HTTP 400): '' @ s"
| "error_fmt E (InternalServerError s) = ''Internal server error (HTTP 500): '' @ s"
| "error_fmt E (GenericError s) = ''Generic error: '' @ s"
| "error_fmt E (Panic s) = s"
| "error_fmt E Diverges = []"

end
