(* ===== verification/PaymentProofs.thy ===== *)
theory PaymentProofs
  imports Address Owner ErrorText
begin

text \<open>
  Payment proofs as the owner hands them out and checks them: \<open>retrieve_payment_proof\<close> and
  \<open>verify_payment_proof\<close> of \<open>libwallet/src/api_impl/owner.rs\<close>.
\<close>

section \<open>Handing out a proof\<close>

record PaymentProof =
  pp_amount :: u64
  pp_excess :: Commitment
  pp_recipient_address :: string
  pp_recipient_sig :: DalekSignature
  pp_sender_address :: string
  pp_sender_sig :: DalekSignature

text \<open>What the entry says was transferred; the subtractions wrap.\<close>

definition proof_amount :: "TxLogEntry \<Rightarrow> u64" where
  "proof_amount tx =
     (if tl_amount_credited tx \<ge> tl_amount_debited tx then tl_amount_credited tx - tl_amount_debited tx
      else tl_amount_debited tx - tl_amount_credited tx - (case tl_fee tx of Some f \<Rightarrow> f | None \<Rightarrow> 0))"

definition proof_of_entry :: "ext \<Rightarrow> TxLogEntry \<Rightarrow> error + PaymentProof" where
  "proof_of_entry E tx =
     and_then (or_err (PaymentProofRetrieval ''Transaction does not contain a payment proof'')
                 (tl_payment_proof tx)) (\<lambda>p.
     and_then (or_err (PaymentProofRetrieval ''Transaction does not contain kernel excess'')
                 (tl_kernel_excess tx)) (\<lambda>excess.
     and_then (or_err (PaymentProofRetrieval ''Proof does not contain receiver signature '')
                 (sp_receiver_signature p)) (\<lambda>r_sig.
     and_then (or_err (PaymentProofRetrieval ''Proof does not contain sender signature '')
                 (sp_sender_signature p)) (\<lambda>s_sig.
     and_then (onion_v3_from_pubkey E (sp_receiver_address p)) (\<lambda>recipient_address.
     and_then (onion_v3_from_pubkey E (sp_sender_address p)) (\<lambda>sender_address.
     Inr \<lparr>pp_amount = proof_amount tx, pp_excess = excess, pp_recipient_address = recipient_address,
          pp_recipient_sig = r_sig, pp_sender_address = sender_address, pp_sender_sig = s_sig\<rparr>))))))"

definition retrieve_payment_proof ::
    "ext \<Rightarrow> SecretKey option \<Rightarrow> bool \<Rightarrow> u32 option \<Rightarrow> Uuid option \<Rightarrow> PaymentProof op" where
  "retrieve_payment_proof E keychain_mask refresh_from_node tx_id tx_slate_id =
     (if tx_id = None \<and> tx_slate_id = None
      then throw (PaymentProofRetrieval ''Transaction ID or Slate UUID must be specified'')
      else
        bindE (maybe_update E keychain_mask refresh_from_node) (\<lambda>_.
        bindE (owner_retrieve_txs E keychain_mask refresh_from_node tx_id tx_slate_id None None None) (\<lambda>txs.
        case rt_txs txs of
          [tx] \<Rightarrow> liftE (proof_of_entry E tx)
        | _ \<Rightarrow> throw (PaymentProofRetrieval ''Transaction doesn't exist''))))"

section \<open>Checking a proof\<close>

definition verify_payment_proof :: "ext \<Rightarrow> SecretKey option \<Rightarrow> PaymentProof \<Rightarrow> (bool \<times> bool) op" where
  "verify_payment_proof E keychain_mask p =
     bindE (liftE (pubkey_from_onion_v3 E (pp_sender_address p))) (\<lambda>sender_pubkey.
     (let msg = payment_proof_message (pp_amount p) (pp_excess p) sender_pubkey in
      bindE (gets w_parent_key_id) (\<lambda>parent_key_id.
      bindE (keychain E keychain_mask) (\<lambda>k.
      case get_kernel E (pp_excess p) None None of
        Inl (Panic s) \<Rightarrow> throw (Panic s)
      | Inl e \<Rightarrow> throw (PaymentProofError (''Error retrieving kernel from chain: '' @ error_fmt E e))
      | Inr None \<Rightarrow> throw (PaymentProofError
          (''Transaction kernel with excess '' @ commitment_debug E (pp_excess p) @ '' not found on chain''))
      | Inr (Some _) \<Rightarrow>
          bindE (liftE (pubkey_from_onion_v3 E (pp_recipient_address p))) (\<lambda>recipient_pubkey.
          if \<not> dalek_verify E recipient_pubkey msg (pp_recipient_sig p)
          then throw (PaymentProofError ''Invalid recipient signature'')
          else
            bindE (liftE (pubkey_from_onion_v3 E (pp_sender_address p))) (\<lambda>sender_pubkey.
            if \<not> dalek_verify E sender_pubkey msg (pp_sender_sig p)
            then throw (PaymentProofError ''Invalid sender signature'')
            else
              bindE (liftE (address_from_derivation_path E k parent_key_id 0)) (\<lambda>sec_key.
              (let my_address_pubkey = dalek_public E sec_key in
               ret (my_address_pubkey = sender_pubkey, my_address_pubkey = recipient_pubkey)))))))))"

end
