(* ===== verification/PaymentProofProps.thy ===== *)
theory PaymentProofProps
  imports PaymentProofs WitnessEnv BackendProps Base58Props ListingProps
begin

text \<open>
  What payment proofs promise: an address is read back from its onion form, with the usual
  schemes and suffix; a proof that verifies is signed by both parties and its kernel is on the
  chain; and what \<open>retrieve_payment_proof\<close> hands out verifies if the stored signatures do.
\<close>

section \<open>Onion addresses\<close>

text \<open>
  What the libraries document: 35 bytes are written as 56 characters of the base 32 alphabet
  and read back.
\<close>

definition base32_alphabet :: string where
  "base32_alphabet = ''ABCDEFGHIJKLMNOPQRSTUVWXYZ234567''"

definition base32_ok :: "ext \<Rightarrow> bool" where
  "base32_ok E \<longleftrightarrow> (\<forall>bs. length bs = 35 \<longrightarrow> length (base32_encode E bs) = 56 \<and>
     set (base32_encode E bs) \<subseteq> set base32_alphabet \<and> base32_decode E (base32_encode E bs) = Some bs)"

definition dalek_key :: "ext \<Rightarrow> DalekPublicKey \<Rightarrow> bool" where
  "dalek_key E k \<longleftrightarrow> length k = 32 \<and> dalek_from_bytes E k = Some k"

lemma starts_with_absent: "c \<in> set p \<Longrightarrow> c \<notin> set s \<Longrightarrow> \<not> starts_with p s"
  unfolding starts_with_def by (metis in_set_takeD)

lemma ends_with_absent: "c \<in> set p \<Longrightarrow> c \<notin> set s \<Longrightarrow> \<not> ends_with p s"
  unfolding ends_with_def by (metis in_set_dropD)

lemma remove_all_absent: "c \<in> set p \<Longrightarrow> c \<notin> set s \<Longrightarrow> remove_all p s = s"
  by (induction s) (use starts_with_absent[of c p] in auto)

lemma remove_all_prefix: "c \<in> set p \<Longrightarrow> c \<notin> set s \<Longrightarrow> remove_all p (p @ s) = s"
  by (cases p) (auto simp: starts_with_def remove_all_absent)

lemma remove_all_suffix: "p \<noteq> [] \<Longrightarrow> hd p \<notin> set s \<Longrightarrow> remove_all p (s @ p) = s"
proof (induction s)
  case Nil
  then show ?case using remove_all_prefix[of "hd p" p "[]"] by simp
next
  case (Cons x s)
  then have "\<not> starts_with p (x # s @ p)" by (cases p) (auto simp: starts_with_def)
  then show ?case using Cons by simp
qed

lemma remove_http:
  assumes "CHR '':'' \<notin> set s"
  shows "remove_all ''HTTPS://'' (remove_all ''HTTP://'' (''HTTP://'' @ s)) = s"
    and "remove_all ''HTTPS://'' (remove_all ''HTTP://'' (''HTTPS://'' @ s)) = s"
proof -
  have "remove_all ''HTTP://'' (''HTTP://'' @ s) = s"
    by (rule remove_all_prefix[of "CHR '':''"]) (use assms in auto)
  then show "remove_all ''HTTPS://'' (remove_all ''HTTP://'' (''HTTP://'' @ s)) = s"
    using assms by (simp only: remove_all_absent[of "CHR '':''"]) (simp add: remove_all_absent[of "CHR '':''"])
  have "remove_all ''HTTP://'' s = s" by (rule remove_all_absent[of "CHR '':''"]) (use assms in auto)
  then have "remove_all ''HTTP://'' (''HTTPS://'' @ s) = ''HTTPS://'' @ s"
    by (simp add: starts_with_def)
  moreover have "remove_all ''HTTPS://'' (''HTTPS://'' @ s) = s"
    by (rule remove_all_prefix[of "CHR '':''"]) (use assms in auto)
  ultimately show "remove_all ''HTTPS://'' (remove_all ''HTTP://'' (''HTTPS://'' @ s)) = s" by simp
qed

lemma base32_codes: "c \<in> set base32_alphabet \<Longrightarrow> (of_char c :: nat) \<in> {65..90} \<or> (of_char c :: nat) \<in> {50..55}"
  by (auto simp: base32_alphabet_def)

lemma base32_upper_lower:
  assumes "set t \<subseteq> set base32_alphabet"
  shows "ascii_upper (ascii_lower t) = t" "ascii_upper t = t" "\<forall>c \<in> set t. (of_char c :: nat) < 128"
    "\<forall>c \<in> set (ascii_lower t). (of_char c :: nat) < 128"
proof -
  have code: "(of_char c :: nat) \<in> {65..90} \<or> (of_char c :: nat) \<in> {50..55}" if "c \<in> set t" for c
    using base32_codes assms that by blast
  show "ascii_upper (ascii_lower t) = t"
    unfolding ascii_upper_def ascii_lower_def map_map
  proof (rule map_idI)
    fix c assume "c \<in> set t"
    from code[OF this] show "((\<lambda>c. if of_char c \<in> {97..122 :: nat} then char_of (of_char c - 32 :: nat) else c) \<circ>
        (\<lambda>c. if of_char c \<in> {65..90 :: nat} then char_of (of_char c + 32 :: nat) else c)) c = c"
      by (elim disjE) (simp_all add: of_char_of)
  qed
  show "ascii_upper t = t"
    unfolding ascii_upper_def by (rule map_idI) (use code in fastforce)
  show "\<forall>c \<in> set t. (of_char c :: nat) < 128" using code by fastforce
  show "\<forall>c \<in> set (ascii_lower t). (of_char c :: nat) < 128"
    unfolding ascii_lower_def using code by (fastforce simp: of_char_of)
qed

lemma base32_plain:
  assumes "set t \<subseteq> set base32_alphabet"
  shows "CHR '':'' \<notin> set t" "CHR ''.'' \<notin> set t"
  using assms by (auto simp: base32_alphabet_def)

lemma strip_onion_text:
  assumes "case_ok E" and "set t \<subseteq> set base32_alphabet"
    and "pre \<in> {[], ''http://'', ''https://''}" and "suf \<in> {[], ''.onion''}"
  shows "strip_onion E (pre @ ascii_lower t @ suf) = t"
proof -
  define P S where "P = ascii_upper pre" and "S = ascii_upper suf"
  have PS: "P \<in> {[], ''HTTP://'', ''HTTPS://''}" "S \<in> {[], ''.ONION''}"
  proof -
    have "ascii_upper ''http://'' = ''HTTP://''" "ascii_upper ''https://'' = ''HTTPS://''"
      "ascii_upper ''.onion'' = ''.ONION''" by code_simp+
    then show "P \<in> {[], ''HTTP://'', ''HTTPS://''}" "S \<in> {[], ''.ONION''}"
      using assms(3,4) by (auto simp: P_def S_def ascii_upper_def)
  qed
  have "\<forall>c \<in> set (pre @ ascii_lower t @ suf). (of_char c :: nat) < 128"
    using assms(3,4) base32_upper_lower(4)[OF assms(2)] by auto
  then have up: "to_uppercase E (pre @ ascii_lower t @ suf) = P @ t @ S"
    using assms(1) base32_upper_lower(1)[OF assms(2)] by (simp add: case_ok_def P_def S_def ascii_upper_def)
  have no: "CHR '':'' \<notin> set (t @ S)" using base32_plain[OF assms(2)] PS(2) by auto
  have "(if starts_with ''HTTP://'' (P @ t @ S) \<or> starts_with ''HTTPS://'' (P @ t @ S)
      then remove_all ''HTTPS://'' (remove_all ''HTTP://'' (P @ t @ S)) else P @ t @ S) = t @ S"
    using PS(1) remove_http[OF no] starts_with_absent[OF _ no, of "''HTTP://''"] starts_with_absent[OF _ no, of "''HTTPS://''"]
    by (elim insertE emptyE) (simp_all add: starts_with_def)
  moreover have "(if ends_with ''.ONION'' (t @ S) then remove_all ''.ONION'' (t @ S) else t @ S) = t"
    using PS(2) remove_all_suffix[of "''.ONION''" t] base32_plain(2)[OF assms(2)] ends_with_absent[of "CHR ''.''" "''.ONION''" t]
    by (auto simp: ends_with_def)
  ultimately show ?thesis unfolding strip_onion_def up Let_def by (simp only:)
qed

lemma onion_text:
  assumes "case_ok E" and "base32_ok E" and "dalek_key E k"
  obtains t where "onion_v3_from_pubkey E k = Inr (ascii_lower t)" "length t = 56" "set t \<subseteq> set base32_alphabet"
    "\<And>s. strip_onion E s = t \<Longrightarrow> pubkey_from_onion_v3 E s = Inr k"
proof -
  let ?sum = "sha3_256 E (str_bytes ''.onion checksum'' @ k @ [3])"
  let ?t = "base32_encode E (k @ [?sum ! 0, ?sum ! 1, 3])"
  have t: "length ?t = 56" "set ?t \<subseteq> set base32_alphabet" "base32_decode E ?t = Some (k @ [?sum ! 0, ?sum ! 1, 3])"
    using assms(2,3) by (auto simp: base32_ok_def dalek_key_def)
  have on: "onion_v3_from_pubkey E k = Inr (ascii_lower ?t)"
    using assms(1) base32_upper_lower(3)[OF t(2)] by (simp add: onion_v3_from_pubkey_def case_ok_def Let_def)
  have "to_uppercase E (ascii_lower ?t) = ?t" "to_uppercase E ?t = ?t"
    using assms(1) base32_upper_lower[OF t(2)] by (simp_all add: case_ok_def)
  then have "pubkey_from_onion_v3 E s = Inr k" if "strip_onion E s = ?t" for s
    using that t assms(3) on by (simp add: pubkey_from_onion_v3_def or_err_def dalek_key_def Let_def)
  then show ?thesis using that on t(1,2) by blast
qed

lemma pubkey_from_onion_Inr:
  assumes "pubkey_from_onion_v3 E s = Inr k"
  shows "\<exists>a. onion_v3_from_pubkey E k = Inr a \<and> to_uppercase E a = to_uppercase E (strip_onion E s)"
proof -
  obtain key where "(case onion_v3_from_pubkey E key of
      Inl _ \<Rightarrow> Inl (AddressDecoding ''Provided onion V3 address is invalid (converting from pubkey)'')
    | Inr test_v3 \<Rightarrow> if to_uppercase E test_v3 \<noteq> to_uppercase E (strip_onion E s)
        then Inl (AddressDecoding ''Provided onion V3 address is invalid (no match)'') else Inr key) = Inr k"
    using assms by (auto simp only: pubkey_from_onion_v3_def Let_def and_then_eq_Inr split: if_splits)
  then show ?thesis by (auto split: sum.splits if_splits)
qed

text \<open>The onion form of a key, bare or with \<open>http://\<close>, \<open>https://\<close> and \<open>.onion\<close> around it, is read back as
  that key; and whatever text is read as a key is, up to the case of its letters, that key's
  onion form.\<close>

theorem onion_address_round_trip:
  assumes "case_ok E" and "base32_ok E" and "dalek_key E k" and "onion_v3_from_pubkey E k = Inr a"
    and "pre \<in> {[], ''http://'', ''https://''}" and "suf \<in> {[], ''.onion''}"
  shows "length a = 56 \<and> pubkey_from_onion_v3 E (pre @ a @ suf) = Inr k \<and>
    (\<forall>s k'. pubkey_from_onion_v3 E s = Inr k' \<longrightarrow>
      (\<exists>a'. onion_v3_from_pubkey E k' = Inr a' \<and> to_uppercase E a' = to_uppercase E (strip_onion E s)))"
proof -
  obtain t where t: "onion_v3_from_pubkey E k = Inr (ascii_lower t)" "length t = 56" "set t \<subseteq> set base32_alphabet"
    "\<And>s. strip_onion E s = t \<Longrightarrow> pubkey_from_onion_v3 E s = Inr k"
    by (rule onion_text[OF assms(1-3)]) (rule that)
  have "pubkey_from_onion_v3 E (pre @ a @ suf) = Inr k" "length a = 56"
    using strip_onion_text[OF assms(1) t(3) assms(5,6)] t(1,2,4) assms(4) by (auto simp: ascii_lower_def)
  then show ?thesis using pubkey_from_onion_Inr[of E] by blast
qed

section \<open>Base 32\<close>

text \<open>The standard's encoding of 35 bytes, 56 digits of five bits, for the witnesses.\<close>

lemma to_digits_le:
  assumes "2 \<le> b" and "n < b ^ k"
  shows "length (to_digits b n) \<le> k"
proof (rule ccontr)
  assume "\<not> length (to_digits b n) \<le> k"
  then obtain d ds where ds: "to_digits b n = d # ds" "k \<le> length ds" by (cases "to_digits b n") auto
  then have "d \<noteq> 0" using hd_to_digits[OF assms(1), of n] by simp
  have "b ^ k \<le> b ^ length ds" using assms(1) ds(2) by (simp add: power_increasing)
  also have "\<dots> \<le> digits_value b (to_digits b n)" using \<open>d \<noteq> 0\<close> by (cases d) (simp_all add: ds(1) digits_value_Cons)
  finally show False using assms value_to_digits[OF assms(1), of n] by simp
qed

definition pad :: "nat \<Rightarrow> nat list \<Rightarrow> nat list" where
  "pad k ds = replicate (k - length ds) 0 @ ds"

lemma pad_digits:
  assumes "2 \<le> b" and "n < b ^ k"
  shows "length (pad k (to_digits b n)) = k" "digits_value b (pad k (to_digits b n)) = n"
    "\<forall>d \<in> set (pad k (to_digits b n)). d < b"
  using to_digits_le[OF assms] assms(1) to_digits_digits[OF assms(1), of _ n]
  by (auto simp: pad_def digits_value_append digits_value_zeros value_to_digits)

definition base32_code :: "char \<Rightarrow> nat" where
  "base32_code c = (if 65 \<le> (of_char c :: nat) then of_char c - 65 else of_char c - 24)"

definition std_base32_encode :: "bytes \<Rightarrow> string" where
  "std_base32_encode bs = map (\<lambda>d. base32_alphabet ! d) (pad 56 (to_digits 32 (digits_value 256 (digits bs))))"

definition std_base32_decode :: "string \<Rightarrow> bytes option" where
  "std_base32_decode s = Some (map of_nat (pad 35 (to_digits 256 (digits_value 32 (map base32_code s)))))"

lemma base32_code_nth: "d < 32 \<Longrightarrow> base32_code (base32_alphabet ! d) = d"
proof -
  have "\<forall>d \<in> set [0..<32]. base32_code (base32_alphabet ! d) = d"
    by (simp add: base32_code_def base32_alphabet_def upt_rec)
  then show "d < 32 \<Longrightarrow> base32_code (base32_alphabet ! d) = d" by simp
qed

lemma std_base32:
  assumes "length bs = 35"
  shows "length (std_base32_encode bs) = 56" "set (std_base32_encode bs) \<subseteq> set base32_alphabet"
    "std_base32_decode (std_base32_encode bs) = Some bs"
proof -
  let ?n = "digits_value 256 (digits bs)"
  have n: "?n < 256 ^ 35" using bytes_value_less[of bs] assms by simp
  moreover have "(256 :: nat) ^ 35 = 32 ^ 56" by simp
  ultimately have n': "?n < 32 ^ 56" by (simp only:)
  note p = pad_digits[of 32 ?n 56, OF _ n', simplified]
  show "length (std_base32_encode bs) = 56" by (simp add: std_base32_encode_def p(1))
  have "length base32_alphabet = 32" by (simp add: base32_alphabet_def)
  then show "set (std_base32_encode bs) \<subseteq> set base32_alphabet"
    using p(3) by (auto simp: std_base32_encode_def)
  have "map base32_code (std_base32_encode bs) = pad 56 (to_digits 32 ?n)"
    unfolding std_base32_encode_def map_map by (rule map_idI) (use p(3) base32_code_nth in auto)
  moreover have "pad 35 (to_digits 256 ?n) = digits bs"
    by (rule digits_value_inj[of _ _ 256])
      (use pad_digits[of 256 ?n 35, OF _ n] assms unat_bound[where ?'a = 8] in auto)
  moreover have "map of_nat (digits bs) = bs" by (simp add: comp_def)
  ultimately show "std_base32_decode (std_base32_encode bs) = Some bs"
    by (simp add: std_base32_decode_def p(2))
qed

definition proof_ext :: ext where
  "proof_ext = the_ext\<lparr>base32_encode := std_base32_encode, base32_decode := std_base32_decode,
     get_kernel := (\<lambda>_ _ _. Inr (Some (\<lparr>k_features = Coinbase, k_excess = [8], k_excess_sig = []\<rparr>, 1, 1)))\<rparr>"

lemma proof_ext_simps:
  "base32_ok proof_ext" "case_ok proof_ext" "dalek_key proof_ext k \<longleftrightarrow> length k = 32"
  using std_base32 by (auto simp: base32_ok_def case_ok_def dalek_key_def proof_ext_def the_ext_def)

theorem onion_address_round_trip_witness:
  "\<exists>a. onion_v3_from_pubkey proof_ext (replicate 32 5) = Inr a \<and>
     pubkey_from_onion_v3 proof_ext (''http://'' @ a @ ''.onion'') = Inr (replicate 32 5)"
proof -
  obtain a where "onion_v3_from_pubkey proof_ext (replicate 32 5) = Inr a"
    by (simp add: onion_v3_from_pubkey_def Let_def)
  then show ?thesis
    using onion_address_round_trip[of proof_ext "replicate 32 5" a "''http://''" "''.onion''"] by (simp add: proof_ext_simps)
qed

section \<open>Checking a proof\<close>

text \<open>C15. A payment proof is accepted only if its kernel is on the chain and both parties have signed
  amount, kernel and sender; the wallet is not changed, and the two flags say whether the
  sender's and the recipient's address is the one this account derives.\<close>

theorem verify_payment_proof_sound:
  assumes "verify_payment_proof E keychain_mask p w = (Inr (sender_mine, recipient_mine), w')"
  shows "w' = w \<and> (\<exists>s r k sk x. pubkey_from_onion_v3 E (pp_sender_address p) = Inr s \<and>
    pubkey_from_onion_v3 E (pp_recipient_address p) = Inr r \<and>
    get_kernel E (pp_excess p) None None = Inr (Some x) \<and>
    dalek_verify E r (payment_proof_message (pp_amount p) (pp_excess p) s) (pp_recipient_sig p) \<and>
    dalek_verify E s (payment_proof_message (pp_amount p) (pp_excess p) s) (pp_sender_sig p) \<and>
    keychain E keychain_mask w = (Inr k, w) \<and>
    address_from_derivation_path E k (w_parent_key_id w) 0 = Inr sk \<and>
    (sender_mine \<longleftrightarrow> s = dalek_public E sk) \<and> (recipient_mine \<longleftrightarrow> r = dalek_public E sk))"
  using assms
  by (auto simp: verify_payment_proof_def bindE_def liftE_def Let_def gets_def keychain_def ret_def throw_def
      split: sum.splits prod.splits if_splits error.splits option.splits)

section \<open>Handing out a proof\<close>

lemma paginate_one: "paginate None None [x] = [x]"
  by (rule paginate_all) simp

lemma owner_lists_one:
  assumes "filter (tx_matches tx_id slate_id (Some (w_parent_key_id w)) False) (tx_log_iter w) = [tx]"
  obtains res where "owner_retrieve_txs E km False tx_id slate_id None None None w = (Inr res, w)" "rt_txs res = [tx]"
  using assms by (simp add: owner_retrieve_txs_def maybe_update_def bindE_def gets_def ret_def retrieve_txs_def
      sort_records_def paginate_one Let_def)

lemma verify_payment_proof_complete:
  assumes "pubkey_from_onion_v3 E (pp_sender_address p) = Inr s" and "pubkey_from_onion_v3 E (pp_recipient_address p) = Inr r"
    and "get_kernel E (pp_excess p) None None = Inr (Some x)"
    and "dalek_verify E r (payment_proof_message (pp_amount p) (pp_excess p) s) (pp_recipient_sig p)"
    and "dalek_verify E s (payment_proof_message (pp_amount p) (pp_excess p) s) (pp_sender_sig p)"
    and "keychain E km w = (Inr k, w)" and "address_from_derivation_path E k (w_parent_key_id w) 0 = Inr sk"
  shows "verify_payment_proof E km p w = (Inr (dalek_public E sk = s, dalek_public E sk = r), w)"
  by (simp add: verify_payment_proof_def assms bindE_def liftE_def gets_def ret_def Let_def)

text \<open>When the one entry that matches carries a proof signed by both parties over the amount the entry
  shows, and its kernel is on the chain, the proof handed out is accepted by the check.\<close>

theorem retrieved_proof_verifies:
  assumes "case_ok E" and "base32_ok E" and "tx_id \<noteq> None \<or> slate_id \<noteq> None"
    and "filter (tx_matches tx_id slate_id (Some (w_parent_key_id w)) False) (tx_log_iter w) = [tx]"
    and "tl_payment_proof tx = Some sp" and "tl_kernel_excess tx = Some c"
    and "sp_receiver_signature sp = Some rs" and "sp_sender_signature sp = Some ss"
    and "dalek_key E (sp_receiver_address sp)" and "dalek_key E (sp_sender_address sp)"
    and "dalek_verify E (sp_receiver_address sp) (payment_proof_message (proof_amount tx) c (sp_sender_address sp)) rs"
    and "dalek_verify E (sp_sender_address sp) (payment_proof_message (proof_amount tx) c (sp_sender_address sp)) ss"
    and "get_kernel E c None None = Inr (Some x)" and "keychain E km w = (Inr k, w)"
    and "address_from_derivation_path E k (w_parent_key_id w) 0 = Inr sk"
  shows "\<exists>p. retrieve_payment_proof E km False tx_id slate_id w = (Inr p, w) \<and> pp_amount p = proof_amount tx \<and>
    verify_payment_proof E km p w =
      (Inr (dalek_public E sk = sp_sender_address sp, dalek_public E sk = sp_receiver_address sp), w)"
proof -
  obtain t where t: "onion_v3_from_pubkey E (sp_receiver_address sp) = Inr (ascii_lower t)" "set t \<subseteq> set base32_alphabet"
    "\<And>s. strip_onion E s = t \<Longrightarrow> pubkey_from_onion_v3 E s = Inr (sp_receiver_address sp)"
    by (rule onion_text[OF assms(1,2,9)]) (rule that)
  obtain u where u: "onion_v3_from_pubkey E (sp_sender_address sp) = Inr (ascii_lower u)" "set u \<subseteq> set base32_alphabet"
    "\<And>s. strip_onion E s = u \<Longrightarrow> pubkey_from_onion_v3 E s = Inr (sp_sender_address sp)"
    by (rule onion_text[OF assms(1,2,10)]) (rule that)
  let ?p = "\<lparr>pp_amount = proof_amount tx, pp_excess = c, pp_recipient_address = ascii_lower t,
    pp_recipient_sig = rs, pp_sender_address = ascii_lower u, pp_sender_sig = ss\<rparr>"
  have reads: "pubkey_from_onion_v3 E (ascii_lower t) = Inr (sp_receiver_address sp)"
    "pubkey_from_onion_v3 E (ascii_lower u) = Inr (sp_sender_address sp)"
    using t(3) u(3) strip_onion_text[OF assms(1) t(2), of "[]" "[]"] strip_onion_text[OF assms(1) u(2), of "[]" "[]"] by simp_all
  obtain res where "owner_retrieve_txs E km False tx_id slate_id None None None w = (Inr res, w)" "rt_txs res = [tx]"
    by (rule owner_lists_one[OF assms(4)]) (rule that)
  moreover have "proof_of_entry E tx = Inr ?p"
    by (simp add: proof_of_entry_def assms(5-8) or_err_def t(1) u(1))
  ultimately have "retrieve_payment_proof E km False tx_id slate_id w = (Inr ?p, w)"
    using assms(3) by (auto simp: retrieve_payment_proof_def maybe_update_def bindE_def ret_def liftE_def)
  then show ?thesis
    using verify_payment_proof_complete[of E ?p "sp_sender_address sp" "sp_receiver_address sp" x km w k sk] reads assms(11-15)
    by auto
qed

text \<open>A log with one entry, of a payment from the account's own address.\<close>

definition paid_message :: bytes where
  "paid_message = payment_proof_message 50 [8] (replicate 32 5)"

definition paid_proof :: StoredProofInfo where
  "paid_proof = \<lparr>sp_receiver_address = replicate 32 6, sp_receiver_signature = Some (replicate 32 6 @ paid_message),
     sp_sender_address_path = 0, sp_sender_address = replicate 32 5,
     sp_sender_signature = Some (replicate 32 5 @ paid_message)\<rparr>"

definition paid_entry :: TxLogEntry where
  "paid_entry = (tx_log_entry_new 0 (Identifier 0) TxSent 4)\<lparr>tl_amount_credited := 9, tl_amount_debited := 60,
     tl_fee := Some 1, tl_kernel_excess := Some [8], tl_payment_proof := Some paid_proof\<rparr>"

definition paid_wallet :: wallet where
  "paid_wallet = the_wallet\<lparr>w_db := sql_insert [TX_LOG_ENTRY_PREFIX] (STxLogEntry paid_entry) []\<rparr>"

lemma paid_wallet_facts:
  "tx_log_iter paid_wallet = [paid_entry]" "w_parent_key_id paid_wallet = Identifier 0"
  "keychain proof_ext None paid_wallet = (Inr (replicate 32 5), paid_wallet)"
  "\<exists>sk. address_from_derivation_path proof_ext (replicate 32 5) (Identifier 0) 0 = Inr sk \<and> dalek_public proof_ext sk = replicate 32 5"
  by (simp_all add: tx_log_iter_def store_iter_def paid_wallet_def sql_insert_def queriable_def List.map_filter_def
      the_wallet_def keychain_def keychain_result_def proof_ext_def address_from_derivation_path_def
      address_path_def path_set_def nat_to_path_def the_ext_def usize_sub_def Let_def)

theorem retrieved_proof_verifies_witness:
  "\<exists>p. retrieve_payment_proof proof_ext None False (Some 4) None paid_wallet = (Inr p, paid_wallet) \<and> pp_amount p = 50 \<and>
     verify_payment_proof proof_ext None p paid_wallet = (Inr (True, False), paid_wallet)"
proof -
  obtain sk where sk: "address_from_derivation_path proof_ext (replicate 32 5) (Identifier 0) 0 = Inr sk"
    "dalek_public proof_ext sk = replicate 32 5" using paid_wallet_facts(4) by blast
  have e: "proof_amount paid_entry = 50" "tl_payment_proof paid_entry = Some paid_proof" "tl_kernel_excess paid_entry = Some [8]"
    "tx_matches (Some 4) None (Some (Identifier 0)) False paid_entry"
    by (simp_all add: proof_amount_def paid_entry_def tx_log_entry_new_def tx_matches_def)
  have v: "dalek_verify proof_ext = (\<lambda>p m s. s = p @ m)" "get_kernel proof_ext c None None =
      Inr (Some (\<lparr>k_features = Coinbase, k_excess = [8], k_excess_sig = []\<rparr>, 1, 1))" for c
    by (simp_all add: proof_ext_def the_ext_def)
  have "replicate 32 (5 :: u8) \<noteq> replicate 32 6" by simp
  then show ?thesis
    using retrieved_proof_verifies[of proof_ext "Some 4" None paid_wallet paid_entry paid_proof "[8]"
      "replicate 32 6 @ paid_message" "replicate 32 5 @ paid_message" _ None "replicate 32 5" sk]
    by (simp add: proof_ext_simps paid_wallet_facts sk e v paid_proof_def paid_message_def)
qed

text \<open>A proof this wallet accepts.\<close>

lemma accepted_proof:
  obtains p where "verify_payment_proof proof_ext None p paid_wallet = (Inr (True, False), paid_wallet)"
proof -
  have d: "dalek_key proof_ext (replicate 32 6)" "dalek_key proof_ext (replicate 32 5)" by (simp_all add: proof_ext_simps)
  obtain t where t: "set t \<subseteq> set base32_alphabet" "\<And>s. strip_onion proof_ext s = t \<Longrightarrow> pubkey_from_onion_v3 proof_ext s = Inr (replicate 32 6)"
    by (rule onion_text[OF proof_ext_simps(2,1) d(1)]) (rule that)
  obtain u where u: "set u \<subseteq> set base32_alphabet" "\<And>s. strip_onion proof_ext s = u \<Longrightarrow> pubkey_from_onion_v3 proof_ext s = Inr (replicate 32 5)"
    by (rule onion_text[OF proof_ext_simps(2,1) d(2)]) (rule that)
  let ?p = "\<lparr>pp_amount = 50, pp_excess = [8], pp_recipient_address = ascii_lower t,
    pp_recipient_sig = replicate 32 6 @ paid_message, pp_sender_address = ascii_lower u,
    pp_sender_sig = replicate 32 5 @ paid_message\<rparr>"
  obtain sk where sk: "address_from_derivation_path proof_ext (replicate 32 5) (Identifier 0) 0 = Inr sk"
    "dalek_public proof_ext sk = replicate 32 5" using paid_wallet_facts(4) by blast
  have v: "dalek_verify proof_ext = (\<lambda>p m s. s = p @ m)" "get_kernel proof_ext c None None =
      Inr (Some (\<lparr>k_features = Coinbase, k_excess = [8], k_excess_sig = []\<rparr>, 1, 1))" for c
    by (simp_all add: proof_ext_def the_ext_def)
  have "pubkey_from_onion_v3 proof_ext (ascii_lower t) = Inr (replicate 32 6)"
    "pubkey_from_onion_v3 proof_ext (ascii_lower u) = Inr (replicate 32 5)"
    using t(2) u(2) strip_onion_text[OF proof_ext_simps(2) t(1), of "[]" "[]"] strip_onion_text[OF proof_ext_simps(2) u(1), of "[]" "[]"]
    by simp_all
  then have "verify_payment_proof proof_ext None ?p paid_wallet = (Inr (True, False), paid_wallet)"
    using verify_payment_proof_complete[of proof_ext ?p "replicate 32 5" "replicate 32 6" _ None paid_wallet "replicate 32 5" sk]
      paid_wallet_facts(2,3) sk v by (simp add: paid_message_def)
  then show ?thesis by (rule that)
qed

theorem verify_payment_proof_sound_witness:
  "\<exists>p r. verify_payment_proof proof_ext None p paid_wallet = (Inr (True, False), paid_wallet) \<and>
     pubkey_from_onion_v3 proof_ext (pp_recipient_address p) = Inr r \<and> r \<noteq> replicate 32 5"
proof -
  obtain p where p: "verify_payment_proof proof_ext None p paid_wallet = (Inr (True, False), paid_wallet)"
    by (rule accepted_proof) (rule that)
  show ?thesis
    using p verify_payment_proof_sound[OF p] paid_wallet_facts(2-4) by auto
qed

end
