(* ===== verification/Seed.thy ===== *)
theory Seed
  imports Crypto
begin

text \<open>
  The wallet seed on disk: \<open>impls/src/lifecycle/seed.rs\<close>. The seed is kept in a file, encrypted
  under the password; the file is written, backed up, recovered from a phrase and deleted by
  the operations below, each a step on the files.

  What the operating system answers, the BIP 39 word lists and the JSON text are fields of
  \<open>seed_ext\<close>; key derivation and cipher are those of \<open>crypto_ext\<close>.
\<close>

section \<open>Files\<close>

record disk =
  dk_files :: "(string \<times> string) list"
  dk_dirs :: "string list"

text \<open>The errors of \<open>impls/src/error.rs\<close> that the modelled parts raise; foreign ones as their message.\<close>

datatype impls_error =
    ImplsIO string
  | ImplsFormat string
  | ImplsKeychain string
  | ImplsWalletSeedExists string
  | ImplsWalletSeedDoesntExist
  | ImplsWalletDoesntExist string string
  | ImplsEncryption
  | ImplsMnemonic
  | ImplsGenericError string
  | ImplsLibWallet error
  | ImplsNotOnion string
  | ImplsTorConfig string
  | ImplsED25519Key string
  | ImplsEpicboxTungstenite string
  | ImplsNoListener string
  | ImplsEpicboxWebsocketAbnormalTermination
  | ImplsEpicboxReceiveTx string
  | ImplsPanic string
  | ImplsDiverges

text \<open>An error of the library inside one of this crate; a panic stays a panic.\<close>

definition to_impls :: "error \<Rightarrow> impls_error" where
  "to_impls e = (case e of Panic p \<Rightarrow> ImplsPanic p | Diverges \<Rightarrow> ImplsDiverges | _ \<Rightarrow> ImplsLibWallet e)"

definition lib_result :: "error + 'a \<Rightarrow> impls_error + 'a" where
  "lib_result r = (case r of Inl e \<Rightarrow> Inl (to_impls e) | Inr x \<Rightarrow> Inr x)"

type_synonym WalletSeed = bytes

record EncryptedWalletSeed =
  es_encrypted_seed :: string
  es_salt :: string
  es_nonce :: string

text \<open>
  An operation of the system either fails with a message or does what its name says; a write
  that fails has written some prefix.
\<close>

record seed_ext =
  os_create_dir_all :: "string \<Rightarrow> string option"
  os_create :: "string \<Rightarrow> string option"
  os_write :: "string \<Rightarrow> string \<Rightarrow> nat \<times> string option"
  os_open :: "string \<Rightarrow> string option"
  os_read_text :: "string \<Rightarrow> string option"
  os_rename :: "string \<Rightarrow> string \<Rightarrow> string option"
  os_remove :: "string \<Rightarrow> string option"
  os_remove_dir_all :: "string \<Rightarrow> string option"
  to_entropy :: "string \<Rightarrow> bytes option"
  from_entropy :: "bytes \<Rightarrow> string option"
  random_seed :: "nat \<Rightarrow> bytes"
  util_to_hex :: "bytes \<Rightarrow> string"
  util_from_hex :: "string \<Rightarrow> bytes option"
  enc_seed_to_json :: "EncryptedWalletSeed \<Rightarrow> string + string"
  enc_seed_of_json :: "string \<Rightarrow> string + EncryptedWalletSeed"
  keychain_from_seed :: "bytes \<Rightarrow> bool \<Rightarrow> string + Keychain"

type_synonym 'a disk_op = "(disk, impls_error, 'a) proc"

definition file_at :: "disk \<Rightarrow> string \<Rightarrow> string option" where
  "file_at d p = map_of (dk_files d) p"

definition path_exists :: "string \<Rightarrow> disk \<Rightarrow> bool" where
  "path_exists p d \<longleftrightarrow> file_at d p \<noteq> None \<or> p \<in> set (dk_dirs d)"

definition io :: "string option \<Rightarrow> (disk \<Rightarrow> disk) \<Rightarrow> unit disk_op" where
  "io failure effect = (case failure of Some e \<Rightarrow> throw (ImplsIO e) | None \<Rightarrow> modify effect)"

definition ancestors :: "string \<Rightarrow> string list" where
  "ancestors p = map (\<lambda>i. take i p) (filter (\<lambda>i. 0 < i \<and> p ! i = CHR ''/'') [0..<length p]) @ [p]"

definition create_dir_all :: "seed_ext \<Rightarrow> string \<Rightarrow> unit disk_op" where
  "create_dir_all S dir = io (os_create_dir_all S dir) (\<lambda>d. d\<lparr>dk_dirs := List.union (ancestors dir) (dk_dirs d)\<rparr>)"

definition put_file :: "string \<Rightarrow> string \<Rightarrow> disk \<Rightarrow> disk" where
  "put_file p s d = d\<lparr>dk_files := (p, s) # filter (\<lambda>x. fst x \<noteq> p) (dk_files d)\<rparr>"

definition del_file :: "string \<Rightarrow> disk \<Rightarrow> disk" where
  "del_file p d = d\<lparr>dk_files := filter (\<lambda>x. fst x \<noteq> p) (dk_files d)\<rparr>"

text \<open>\<open>File::create\<close> and \<open>write_all\<close>.\<close>

definition create_and_write :: "seed_ext \<Rightarrow> string \<Rightarrow> string \<Rightarrow> unit disk_op" where
  "create_and_write S p s =
     bindE (io (os_create S p) (put_file p [])) (\<lambda>_.
     (case os_write S p s of (n, failure) \<Rightarrow>
        bindE (modify (put_file p (take n s))) (\<lambda>_. io failure id)))"

definition rename_file :: "seed_ext \<Rightarrow> string \<Rightarrow> string \<Rightarrow> unit disk_op" where
  "rename_file S p q =
     bindE (gets (\<lambda>d. file_at d p)) (\<lambda>c. case c of
       None \<Rightarrow> throw (ImplsIO ''No such file or directory'')
     | Some s \<Rightarrow> io (os_rename S p q) (\<lambda>d. put_file q s (del_file p d)))"

definition remove_file :: "seed_ext \<Rightarrow> string \<Rightarrow> unit disk_op" where
  "remove_file S p =
     bindE (gets (\<lambda>d. file_at d p)) (\<lambda>c.
     if c \<noteq> None then io (os_remove S p) (del_file p) else throw (ImplsIO ''No such file or directory''))"

section \<open>The encrypted seed\<close>

definition seed_key :: "crypto_ext \<Rightarrow> bytes \<Rightarrow> string \<Rightarrow> bytes" where
  "seed_key C salt password = pbkdf2 C 100 salt (str_bytes password)"

definition enc_seed_from_seed :: "crypto_ext \<Rightarrow> seed_ext \<Rightarrow> WalletSeed \<Rightarrow> string \<Rightarrow> impls_error + EncryptedWalletSeed" where
  "enc_seed_from_seed C S seed password =
     (case aead_seal C (seed_key C (random_salt C) password) (random_nonce C) seed of
        None \<Rightarrow> Inl ImplsEncryption
      | Some enc_bytes \<Rightarrow>
          Inr \<lparr>es_encrypted_seed = util_to_hex S enc_bytes, es_salt = util_to_hex S (random_salt C),
               es_nonce = util_to_hex S (random_nonce C)\<rparr>)"

definition hex_or_encryption :: "seed_ext \<Rightarrow> string \<Rightarrow> impls_error + bytes" where
  "hex_or_encryption S s = (case util_from_hex S s of None \<Rightarrow> Inl ImplsEncryption | Some b \<Rightarrow> Inr b)"

definition enc_seed_decrypt :: "crypto_ext \<Rightarrow> seed_ext \<Rightarrow> EncryptedWalletSeed \<Rightarrow> string \<Rightarrow> impls_error + WalletSeed" where
  "enc_seed_decrypt C S es password =
     and_then (hex_or_encryption S (es_encrypted_seed es)) (\<lambda>encrypted_seed.
     and_then (hex_or_encryption S (es_salt es)) (\<lambda>salt.
     and_then (hex_or_encryption S (es_nonce es)) (\<lambda>nonce.
     if length nonce < 12 then Inl (ImplsPanic ''nonce[0..12]'')
     else
       (case aead_open C (seed_key C salt password) (take 12 nonce) encrypted_seed of
          None \<Rightarrow> Inl ImplsEncryption
        | Some buffer \<Rightarrow> Inr (take (length buffer - 16) buffer)))))"

section \<open>The seed\<close>

definition seed_from_mnemonic :: "seed_ext \<Rightarrow> string \<Rightarrow> impls_error + WalletSeed" where
  "seed_from_mnemonic S word_list = (case to_entropy S word_list of Some s \<Rightarrow> Inr s | None \<Rightarrow> Inl ImplsMnemonic)"

definition seed_to_mnemonic :: "seed_ext \<Rightarrow> WalletSeed \<Rightarrow> impls_error + string" where
  "seed_to_mnemonic S seed = (case from_entropy S seed of Some r \<Rightarrow> Inr r | None \<Rightarrow> Inl ImplsMnemonic)"

definition seed_derive_keychain :: "seed_ext \<Rightarrow> WalletSeed \<Rightarrow> bool \<Rightarrow> impls_error + Keychain" where
  "seed_derive_keychain S seed floonet = (case keychain_from_seed S seed floonet of Inl e \<Rightarrow> Inl (ImplsKeychain e) | Inr k \<Rightarrow> Inr k)"

definition seed_init_new :: "seed_ext \<Rightarrow> nat \<Rightarrow> WalletSeed" where
  "seed_init_new S seed_length = random_seed S seed_length"

definition SEED_FILE :: string where
  "SEED_FILE = ''wallet.seed''"

definition seed_path :: "string \<Rightarrow> string" where
  "seed_path data_file_dir = data_file_dir @ ''/'' @ SEED_FILE"

definition seed_file_exists :: "string \<Rightarrow> disk \<Rightarrow> bool" where
  "seed_file_exists data_file_dir d = path_exists (seed_path data_file_dir) d"

text \<open>
  The first of \<open>.bak\<close>, \<open>.bak.1\<close>, \<open>.bak.2\<close>, \<dots> that does not exist. The loop has as much fuel as there
  are paths on the disk, and one more.
\<close>

fun backup_name :: "string \<Rightarrow> nat \<Rightarrow> nat \<Rightarrow> string \<Rightarrow> disk \<Rightarrow> string option" where
  "backup_name p 0 i name d = None"
| "backup_name p (Suc fuel) i name d =
     (if path_exists name d then backup_name p fuel (i + 1) (p @ ''.bak.'' @ decimal i) d else Some name)"

definition backup_fuel :: "disk \<Rightarrow> nat" where
  "backup_fuel d = length (dk_files d) + length (dk_dirs d) + 2"

definition backup_seed :: "seed_ext \<Rightarrow> string \<Rightarrow> string disk_op" where
  "backup_seed S data_file_dir =
     (let p = seed_path data_file_dir in
      bindE (gets (\<lambda>d. backup_name p (backup_fuel d) 1 (p @ ''.bak'') d)) (\<lambda>name. case name of
        None \<Rightarrow> throw ImplsDiverges
      | Some backup \<Rightarrow>
          bindE (attempt (rename_file S p backup)) (\<lambda>r. case r of
            Inl _ \<Rightarrow> throw (ImplsGenericError ''Can't rename wallet seed file'')
          | Inr _ \<Rightarrow> ret backup)))"

definition write_seed :: "crypto_ext \<Rightarrow> seed_ext \<Rightarrow> string \<Rightarrow> WalletSeed \<Rightarrow> string \<Rightarrow> unit disk_op" where
  "write_seed C S data_file_dir seed password =
     bindE (liftE (enc_seed_from_seed C S seed password)) (\<lambda>enc_seed.
     bindE (liftE (case enc_seed_to_json S enc_seed of Inl e \<Rightarrow> Inl (ImplsFormat e) | Inr s \<Rightarrow> Inr s)) (\<lambda>json.
     create_and_write S (seed_path data_file_dir) json))"

definition recover_from_phrase :: "crypto_ext \<Rightarrow> seed_ext \<Rightarrow> string \<Rightarrow> string \<Rightarrow> string \<Rightarrow> unit disk_op" where
  "recover_from_phrase C S data_file_dir word_list password =
     bindE (gets (seed_file_exists data_file_dir)) (\<lambda>exists.
     bindE (if exists then bindE (backup_seed S data_file_dir) (\<lambda>_. ret ()) else ret ()) (\<lambda>_.
     bindE (gets (path_exists data_file_dir)) (\<lambda>there.
     if \<not> there then throw (ImplsWalletDoesntExist data_file_dir
         (''To create a new wallet from a recovery phrase, use 'epic-wallet init -r'' @ [char_of (39 :: nat)]))
     else
       bindE (liftE (seed_from_mnemonic S word_list)) (\<lambda>seed.
       write_seed C S data_file_dir seed password))))"

definition init_file ::
    "crypto_ext \<Rightarrow> seed_ext \<Rightarrow> string \<Rightarrow> nat \<Rightarrow> string option \<Rightarrow> string \<Rightarrow> WalletSeed disk_op" where
  "init_file C S data_file_dir seed_length recovery_phrase password =
     bindE (create_dir_all S data_file_dir) (\<lambda>_.
     bindE (gets (seed_file_exists data_file_dir)) (\<lambda>exists.
     if exists then throw (ImplsWalletSeedExists (''Wallet seed already exists at: '' @ data_file_dir))
     else
       bindE (case recovery_phrase of
           Some p \<Rightarrow> liftE (seed_from_mnemonic S p)
         | None \<Rightarrow> ret (seed_init_new S seed_length)) (\<lambda>seed.
       bindE (write_seed C S data_file_dir seed password) (\<lambda>_. ret seed))))"

definition seed_from_file :: "crypto_ext \<Rightarrow> seed_ext \<Rightarrow> string \<Rightarrow> string \<Rightarrow> WalletSeed disk_op" where
  "seed_from_file C S data_file_dir password =
     (let p = seed_path data_file_dir in
      bindE (create_dir_all S data_file_dir) (\<lambda>_.
      bindE (gets (path_exists p)) (\<lambda>there.
      if \<not> there then throw ImplsWalletSeedDoesntExist
      else
        bindE (io (os_open S p) id) (\<lambda>_.
        bindE (io (os_read_text S p) id) (\<lambda>_.
        bindE (gets (\<lambda>d. file_at d p)) (\<lambda>c.
        bindE (liftE (case c of
            None \<Rightarrow> Inl (ImplsIO ''Is a directory'')
          | Some buffer \<Rightarrow> (case enc_seed_of_json S buffer of Inl e \<Rightarrow> Inl (ImplsFormat e) | Inr es \<Rightarrow> Inr es))) (\<lambda>enc_seed.
        liftE (enc_seed_decrypt C S enc_seed password))))))))"

definition delete_seed_file :: "seed_ext \<Rightarrow> string \<Rightarrow> unit disk_op" where
  "delete_seed_file S data_file_dir =
     bindE (gets (path_exists (seed_path data_file_dir))) (\<lambda>there.
     if there then remove_file S (seed_path data_file_dir) else ret ())"

end
