(* ===== verification/Lifecycle.thy ===== *)
theory Lifecycle
  imports Backend ErrorText Seed
begin

text \<open>
  Creating, opening and closing a wallet: \<open>impls/src/lifecycle/default.rs\<close>. The provider holds
  the directory and the open backend; the seed file is on the disk, the database of a directory
  is kept here by the directory's name. While a wallet is open its rows are those of the
  backend. The configuration file (\<open>create_config\<close>) is in \<open>ConfigFiles\<close>.
\<close>

record provider =
  lc_disk :: disk
  lc_dbs :: "string \<Rightarrow> rows"
  lc_stored_txs :: "string \<Rightarrow> string \<Rightarrow> string option"
  lc_data_dir :: string
  lc_backend :: "(string \<times> wallet) option"

type_synonym 'a lc_op = "(provider, error, 'a) proc"

definition provider_new :: "disk \<Rightarrow> (string \<Rightarrow> rows) \<Rightarrow> (string \<Rightarrow> string \<Rightarrow> string option) \<Rightarrow> provider" where
  "provider_new d dbs txs = \<lparr>lc_disk = d, lc_dbs = dbs, lc_stored_txs = txs, lc_data_dir = ''default'', lc_backend = None\<rparr>"

section \<open>Steps on the parts of the state\<close>

text \<open>A step on the disk whose error becomes one of the library; a panic stays a panic.\<close>

definition impls_err :: "(impls_error \<Rightarrow> error) \<Rightarrow> impls_error \<Rightarrow> error" where
  "impls_err f e = (case e of ImplsPanic p \<Rightarrow> Panic p | ImplsDiverges \<Rightarrow> Diverges | _ \<Rightarrow> f e)"

definition on_disk :: "(impls_error \<Rightarrow> error) \<Rightarrow> 'a disk_op \<Rightarrow> 'a lc_op" where
  "on_disk f m s = (case m (lc_disk s) of (r, d) \<Rightarrow>
     (case r of Inl e \<Rightarrow> Inl (impls_err f e) | Inr x \<Rightarrow> Inr x, s\<lparr>lc_disk := d\<rparr>))"

definition rows_of :: "string \<Rightarrow> provider \<Rightarrow> rows" where
  "rows_of dir s = (case lc_backend s of
      Some (d, w) \<Rightarrow> if d = dir then w_db w else lc_dbs s dir
    | None \<Rightarrow> lc_dbs s dir)"

definition set_rows :: "string \<Rightarrow> rows \<Rightarrow> provider \<Rightarrow> provider" where
  "set_rows dir rs s = s\<lparr>lc_dbs := (lc_dbs s)(dir := rs),
     lc_backend := map_option (\<lambda>(d, w). (d, if d = dir then w\<lparr>w_db := rs\<rparr> else w)) (lc_backend s)\<rparr>"

text \<open>\<open>PathBuf::push\<close> of a relative name.\<close>

definition path_push :: "string \<Rightarrow> string \<Rightarrow> string" where
  "path_push a b = (if a = [] \<or> last a = CHR ''/'' then a @ b else a @ ''/'' @ b)"

definition EPIC_WALLET_DIR :: string where
  "EPIC_WALLET_DIR = ''wallet_data''"

definition wallet_dir :: "provider \<Rightarrow> string" where
  "wallet_dir s = path_push (lc_data_dir s) EPIC_WALLET_DIR"

text \<open>\<open>LMDBBackend::new\<close> on the directory's database.\<close>

definition open_backend :: "ext \<Rightarrow> (error \<Rightarrow> error) \<Rightarrow> string \<Rightarrow> wallet lc_op" where
  "open_backend E f dir s = (case backend_new E (lc_stored_txs s dir) (rows_of dir s) of (r, rs) \<Rightarrow>
     (case r of Inl (Panic p) \<Rightarrow> Inl (Panic p) | Inl e \<Rightarrow> Inl (f e) | Inr w \<Rightarrow> Inr w, set_rows dir rs s))"

text \<open>A step of a backend that is not the open one: its rows go back to the database.\<close>

definition on_backend :: "string \<Rightarrow> 'a op \<Rightarrow> wallet \<Rightarrow> ('a \<times> wallet) lc_op" where
  "on_backend dir m w s = (case m w of (r, w') \<Rightarrow>
     (case r of Inl e \<Rightarrow> Inl e | Inr x \<Rightarrow> Inr (x, w'), set_rows dir (w_db w') s))"

section \<open>The provider\<close>

definition set_top_level_directory :: "string \<Rightarrow> unit lc_op" where
  "set_top_level_directory dir = modify (\<lambda>s. s\<lparr>lc_data_dir := dir\<rparr>)"

definition get_top_level_directory :: "string lc_op" where
  "get_top_level_directory = gets lc_data_dir"

definition create_wallet ::
    "ext \<Rightarrow> crypto_ext \<Rightarrow> seed_ext \<Rightarrow> string option \<Rightarrow> nat \<Rightarrow> string \<Rightarrow> bool \<Rightarrow> unit lc_op" where
  "create_wallet E C S mnemonic mnemonic_length password test_mode =
     bindE (gets wallet_dir) (\<lambda>dir.
     bindE (gets (\<lambda>s. seed_file_exists dir (lc_disk s))) (\<lambda>exists.
     if \<not> test_mode \<and> exists then throw (WalletSeedExists (''Wallet seed already exists at: '' @ dir))
     else
       bindE (attempt (on_disk (\<lambda>_. LibWallet []) (init_file C S dir mnemonic_length mnemonic password))) (\<lambda>r.
       bindE (case r of Inl (Panic p) \<Rightarrow> throw (Panic p) | _ \<Rightarrow> ret ()) (\<lambda>_.
       bindE (open_backend E (\<lambda>e. Lifecycle (''Error creating wallet: '' @ error_fmt E e @ '', Data Dir: '' @ dir)) dir) (\<lambda>w.
       bindE (on_backend dir
          (bindE batch_no_mask (\<lambda>b.
           bindE (save_init_status E (case mnemonic of Some _ \<Rightarrow> InitNeedsScanning | None \<Rightarrow> InitNoScanning)) (\<lambda>_.
           commit))) w) (\<lambda>_. ret ()))))))"

definition open_wallet ::
    "ext \<Rightarrow> crypto_ext \<Rightarrow> seed_ext \<Rightarrow> string \<Rightarrow> bool \<Rightarrow> bool \<Rightarrow> SecretKey option lc_op" where
  "open_wallet E C S password create_mask use_test_rng =
     bindE (gets wallet_dir) (\<lambda>dir.
     bindE (open_backend E (\<lambda>e. Lifecycle (''Error opening wallet: '' @ error_fmt E e @ '', Data Dir: '' @ dir)) dir) (\<lambda>w.
     bindE (on_disk (\<lambda>_. Lifecycle ''Error opening wallet (is password correct?)'') (seed_from_file C S dir password)) (\<lambda>wallet_seed.
     bindE (on_disk (\<lambda>_. Lifecycle ''Error deriving keychain'')
              (liftE (seed_derive_keychain S wallet_seed (is_floonet C)))) (\<lambda>k.
     bindE (on_backend dir (set_keychain E k create_mask use_test_rng) w) (\<lambda>(m, w).
     bindE (modify (\<lambda>s. s\<lparr>lc_backend := Some (dir, w)\<rparr>)) (\<lambda>_. ret m))))))"

definition close_wallet :: "unit lc_op" where
  "close_wallet s = (case lc_backend s of
      Some (dir, w) \<Rightarrow> (Inr (), (set_rows dir (w_db w) s)\<lparr>lc_backend := None\<rparr>)
    | None \<Rightarrow> (Inr (), s))"

definition wallet_exists :: "bool lc_op" where
  "wallet_exists = gets (\<lambda>s. seed_file_exists (wallet_dir s) (lc_disk s))"

definition get_mnemonic :: "crypto_ext \<Rightarrow> seed_ext \<Rightarrow> string \<Rightarrow> string lc_op" where
  "get_mnemonic C S password =
     bindE (gets wallet_dir) (\<lambda>dir.
     bindE (on_disk (\<lambda>_. Lifecycle ''Error opening wallet seed file'') (seed_from_file C S dir password)) (\<lambda>wallet_seed.
     on_disk (\<lambda>_. Lifecycle ''Error recovering wallet seed'') (liftE (seed_to_mnemonic S wallet_seed))))"

definition validate_mnemonic :: "seed_ext \<Rightarrow> string \<Rightarrow> unit lc_op" where
  "validate_mnemonic S mnemonic = (case seed_from_mnemonic S mnemonic of
      Inr _ \<Rightarrow> ret () | Inl _ \<Rightarrow> throw (GenericError ''Validating mnemonic''))"

definition recover_from_mnemonic :: "crypto_ext \<Rightarrow> seed_ext \<Rightarrow> string \<Rightarrow> string \<Rightarrow> unit lc_op" where
  "recover_from_mnemonic C S mnemonic password =
     bindE (gets wallet_dir) (\<lambda>dir.
     on_disk (\<lambda>_. Lifecycle ''Error recovering from mnemonic'') (recover_from_phrase C S dir mnemonic password))"

definition change_password :: "crypto_ext \<Rightarrow> seed_ext \<Rightarrow> string \<Rightarrow> string \<Rightarrow> bool \<Rightarrow> unit lc_op" where
  "change_password C S old new remove_backup =
     bindE (gets wallet_dir) (\<lambda>dir.
     bindE (on_disk (\<lambda>_. Lifecycle ''Error opening wallet seed file'') (seed_from_file C S dir old)) (\<lambda>orig_wallet_seed.
     bindE (on_disk (\<lambda>_. Lifecycle ''Error recovering mnemonic'') (liftE (seed_to_mnemonic S orig_wallet_seed))) (\<lambda>orig_mnemonic.
     bindE (on_disk (\<lambda>_. Lifecycle ''Error temporarily backing up existing seed'') (backup_seed S dir)) (\<lambda>backup.
     bindE (on_disk (\<lambda>_. Lifecycle ''Unable to delete seed file for password change'') (delete_seed_file S dir)) (\<lambda>_.
     bindE (attempt (on_disk (\<lambda>_. LibWallet []) (init_file C S dir 0 (Some orig_mnemonic) new))) (\<lambda>r.
     bindE (case r of Inl (Panic p) \<Rightarrow> throw (Panic p) | _ \<Rightarrow> ret ()) (\<lambda>_.
     bindE (on_disk (\<lambda>_. Lifecycle ''Error opening wallet seed file'') (seed_from_file C S dir new)) (\<lambda>new_wallet_seed.
     if orig_wallet_seed \<noteq> new_wallet_seed
     then throw (Lifecycle ''New and Old wallet seeds are not equal on password change, not removing backups.'')
     else if remove_backup
          then on_disk (\<lambda>e. case e of ImplsIO m \<Rightarrow> StdIO m | _ \<Rightarrow> LibWallet []) (remove_file S backup)
          else ret ()))))))))"

definition under :: "string \<Rightarrow> string \<Rightarrow> bool" where
  "under dir p \<longleftrightarrow> p = dir \<or> starts_with (path_push dir []) p"

definition delete_wallet :: "seed_ext \<Rightarrow> unit lc_op" where
  "delete_wallet S =
     bindE (gets lc_data_dir) (\<lambda>dir. case os_remove_dir_all S dir of
       Some e \<Rightarrow> throw (StdIO e)
     | None \<Rightarrow> modify (\<lambda>s. s\<lparr>lc_disk := (lc_disk s)\<lparr>dk_files := filter (\<lambda>x. \<not> under dir (fst x)) (dk_files (lc_disk s)),
                                     dk_dirs := filter (\<lambda>p. \<not> under dir p) (dk_dirs (lc_disk s))\<rparr>,
           lc_dbs := (\<lambda>p. if under dir p then [] else lc_dbs s p),
           lc_stored_txs := (\<lambda>p. if under dir p then Map.empty else lc_stored_txs s p)\<rparr>))"

definition wallet_inst :: "wallet lc_op" where
  "wallet_inst = bindE (gets lc_backend) (\<lambda>b. case b of
      None \<Rightarrow> throw (Lifecycle ''Wallet has not been opened'')
    | Some (_, w) \<Rightarrow> ret w)"

text \<open>An operation of the open backend, \<open>w_lock.lc_provider()?.wallet_inst()?\<close> and what follows.\<close>

definition with_wallet :: "'a op \<Rightarrow> 'a lc_op" where
  "with_wallet m s = (case lc_backend s of
      None \<Rightarrow> (Inl (Lifecycle ''Wallet has not been opened''), s)
    | Some (dir, w) \<Rightarrow> (case m w of (r, w') \<Rightarrow> (r, s\<lparr>lc_backend := Some (dir, w')\<rparr>)))"

end
