(* ===== verification/LifecycleProps.thy ===== *)
theory LifecycleProps
  imports Lifecycle EpicboxProps BackendProps
begin

text \<open>
  What the lifecycle of a wallet promises of its seed: a change of password keeps it, a wallet
  that was created opens with its password; and what a wrong recovery phrase does.
\<close>

section \<open>Files\<close>

text \<open>The system does what it is asked, and a file reads back what was written.\<close>

definition disk_works :: "seed_ext \<Rightarrow> bool" where
  "disk_works S \<longleftrightarrow> (\<forall>p. os_create_dir_all S p = None \<and> os_create S p = None \<and> os_open S p = None \<and>
     os_read_text S p = None \<and> os_remove S p = None) \<and> (\<forall>p q. os_rename S p q = None) \<and>
     (\<forall>p s. os_write S p s = (length s, None))"

lemma disk_worksD:
  assumes "disk_works S"
  shows "os_create_dir_all S p = None" "os_create S p = None" "os_open S p = None" "os_read_text S p = None"
    "os_remove S p = None" "os_rename S p q = None" "os_write S p s = (length s, None)"
  using assms by (simp_all add: disk_works_def)

lemma io_app [simp]: "io None f d = (Inr (), f d)"
  by (simp add: io_def)

lemma map_of_filter_neq: "map_of (filter (\<lambda>x. fst x \<noteq> p) xs) q = (if q = p then None else map_of xs q)"
  by (induction xs) auto

lemma file_at_put [simp]: "file_at (put_file p s d) q = (if q = p then Some s else file_at d q)"
  by (simp add: file_at_def put_file_def map_of_filter_neq)

lemma file_at_del [simp]: "file_at (del_file p d) q = (if q = p then None else file_at d q)"
  by (simp add: file_at_def del_file_def map_of_filter_neq)

lemma dirs_files [simp]: "dk_dirs (put_file p s d) = dk_dirs d" "dk_dirs (del_file p d) = dk_dirs d"
  by (simp_all add: put_file_def del_file_def)

definition made_dir :: "string \<Rightarrow> disk \<Rightarrow> disk" where
  "made_dir dir d = d\<lparr>dk_dirs := List.union (ancestors dir) (dk_dirs d)\<rparr>"

lemma file_at_made [simp]: "file_at (made_dir dir d) = file_at d"
  by (simp add: made_dir_def file_at_def fun_eq_iff)

lemma set_ancestors: "p \<in> set (ancestors dir) \<Longrightarrow> length p \<le> length dir"
  by (auto simp: ancestors_def)

lemma seed_path_made [simp]: "seed_path dir \<in> set (dk_dirs (made_dir dir d)) \<longleftrightarrow> seed_path dir \<in> set (dk_dirs d)"
  using set_ancestors[of "seed_path dir" dir] by (auto simp: made_dir_def seed_path_def)

lemma create_and_write_works: "disk_works S \<Longrightarrow> create_and_write S p s d = (Inr (), put_file p s d)"
  by (simp add: create_and_write_def disk_worksD put_file_def bindE_app)

lemma create_dir_all_works: "disk_works S \<Longrightarrow> create_dir_all S dir d = (Inr (), made_dir dir d)"
  by (simp add: create_dir_all_def disk_worksD made_dir_def)

section \<open>Reading and writing the seed\<close>

definition codec_ok :: "seed_ext \<Rightarrow> bool" where
  "codec_ok S \<longleftrightarrow> (\<forall>b. util_from_hex S (util_to_hex S b) = Some b) \<and>
     (\<forall>es. \<exists>json. enc_seed_to_json S es = Inr json \<and> enc_seed_of_json S json = Inr es)"

definition sealing_ok :: "crypto_ext \<Rightarrow> bool" where
  "sealing_ok C \<longleftrightarrow> aead_ok C \<and> draws_ok C \<and> (\<forall>key n m. aead_seal C key n m \<noteq> None)"

definition read_seed :: "crypto_ext \<Rightarrow> seed_ext \<Rightarrow> string \<Rightarrow> string option \<Rightarrow> impls_error + WalletSeed" where
  "read_seed C S password c = (case c of
      None \<Rightarrow> Inl ImplsWalletSeedDoesntExist
    | Some buffer \<Rightarrow> (case enc_seed_of_json S buffer of
        Inl e \<Rightarrow> Inl (ImplsFormat e) | Inr es \<Rightarrow> enc_seed_decrypt C S es password))"

lemma seed_from_file_run:
  assumes "disk_works S" and "seed_path dir \<notin> set (dk_dirs d)"
  shows "seed_from_file C S dir password d = (read_seed C S password (file_at d (seed_path dir)), made_dir dir d)"
  using assms(2)
  by (auto simp: seed_from_file_def create_dir_all_works[OF assms(1)] disk_worksD[OF assms(1)] path_exists_def bindE_app
      read_seed_def Let_def split: option.splits sum.splits)

lemma decrypt_from_seed:
  assumes "codec_ok S" and "sealing_ok C" and "enc_seed_from_seed C S seed password = Inr es"
  shows "enc_seed_decrypt C S es password = Inr seed"
proof -
  obtain c where c: "aead_seal C (seed_key C (random_salt C) password) (random_nonce C) seed = Some c"
    "es = \<lparr>es_encrypted_seed = util_to_hex S c, es_salt = util_to_hex S (random_salt C), es_nonce = util_to_hex S (random_nonce C)\<rparr>"
    using assms(3) by (auto simp: enc_seed_from_seed_def split: option.splits)
  obtain tag where tag: "length tag = 16" "aead_open C (seed_key C (random_salt C) password) (random_nonce C) c = Some (seed @ tag)"
    using assms(2) c(1) unfolding sealing_ok_def aead_ok_def by blast
  have "length (random_nonce C) = 12" "util_from_hex S (util_to_hex S b) = Some b" for b
    using assms(1,2) by (auto simp: sealing_ok_def draws_ok_def codec_ok_def)
  then show ?thesis using tag by (simp add: enc_seed_decrypt_def c(2) hex_or_encryption_def)
qed

lemma write_seed_works:
  assumes "disk_works S" and "codec_ok S" and "sealing_ok C"
  obtains s where "write_seed C S dir seed password d = (Inr (), put_file (seed_path dir) s d)"
    "read_seed C S password (Some s) = Inr seed"
proof -
  obtain c where "aead_seal C (seed_key C (random_salt C) password) (random_nonce C) seed = Some c"
    using assms(3) unfolding sealing_ok_def by blast
  then obtain es where es: "enc_seed_from_seed C S seed password = Inr es"
    by (simp add: enc_seed_from_seed_def)
  obtain s where s: "enc_seed_to_json S es = Inr s" "enc_seed_of_json S s = Inr es"
    using assms(2) by (auto simp: codec_ok_def)
  show ?thesis
    by (rule that[of s])
      (simp_all add: write_seed_def es s create_and_write_works[OF assms(1)] read_seed_def decrypt_from_seed[OF assms(2,3) es])
qed

section \<open>The backup\<close>

lemma decimal_inj: "decimal m = decimal n \<longleftrightarrow> m = n"
proof
  assume "decimal m = decimal n"
  then have "parse_uint 10 (Suc (max m n)) (decimal m) = parse_uint 10 (Suc (max m n)) (decimal n)" by simp
  then show "m = n" by (simp add: parse_decimal less_Suc_eq_le)
qed simp

definition backup_candidate :: "string \<Rightarrow> nat \<Rightarrow> string" where
  "backup_candidate p i = (if i = 0 then p @ ''.bak'' else p @ ''.bak.'' @ decimal i)"

lemma backup_candidate_inj: "inj (backup_candidate p)"
  by (rule injI) (auto simp: backup_candidate_def decimal_inj split: if_splits)

lemma backup_name_Suc:
  "backup_name p (Suc fuel) (Suc i) name d =
    (if path_exists name d then backup_name p fuel (Suc (Suc i)) (backup_candidate p (Suc i)) d else Some name)"
  by (simp add: backup_candidate_def)

lemma backup_name_spec:
  "backup_name p fuel (Suc i) (backup_candidate p i) d = None \<Longrightarrow> \<forall>j < fuel. path_exists (backup_candidate p (i + j)) d"
  "backup_name p fuel (Suc i) (backup_candidate p i) d = Some name \<Longrightarrow> \<exists>j. name = backup_candidate p j \<and> \<not> path_exists name d"
proof (induction fuel arbitrary: i)
  case (Suc fuel)
  {
    case 1
    then have e: "path_exists (backup_candidate p i) d" "backup_name p fuel (Suc (Suc i)) (backup_candidate p (Suc i)) d = None"
      unfolding backup_name_Suc by (auto split: if_splits)
    show ?case
    proof (intro allI impI)
      fix j assume "j < Suc fuel"
      then show "path_exists (backup_candidate p (i + j)) d"
        using e(1) Suc.IH(1)[OF e(2)] by (cases j) auto
    qed
  next
    case 2
    then show ?case using Suc.IH(2)[of "Suc i"] unfolding backup_name_Suc by (auto split: if_splits)
  }
qed simp_all

lemma backup_name_found:
  obtains name j where "backup_name p (backup_fuel d) 1 (p @ ''.bak'') d = Some name" "name = backup_candidate p j"
    "\<not> path_exists name d"
proof -
  have p0: "p @ ''.bak'' = backup_candidate p 0" by (simp add: backup_candidate_def)
  have "backup_name p (backup_fuel d) 1 (p @ ''.bak'') d \<noteq> None"
  proof
    assume "backup_name p (backup_fuel d) 1 (p @ ''.bak'') d = None"
    then have all: "\<forall>j < backup_fuel d. path_exists (backup_candidate p j) d"
      using backup_name_spec(1)[of p "backup_fuel d" 0 d] p0 by simp
    let ?paths = "fst ` set (dk_files d) \<union> set (dk_dirs d)"
    have "backup_candidate p ` {..<backup_fuel d} \<subseteq> ?paths"
      using all by (auto simp: path_exists_def file_at_def map_of_eq_None_iff)
    then have "card (backup_candidate p ` {..<backup_fuel d}) \<le> card ?paths" by (intro card_mono) auto
    moreover have "card (backup_candidate p ` {..<backup_fuel d}) = backup_fuel d"
      using backup_candidate_inj[of p] by (subst card_image) (auto intro: inj_on_subset)
    moreover have "card ?paths \<le> length (dk_files d) + length (dk_dirs d)"
      using card_Un_le[of "fst ` set (dk_files d)" "set (dk_dirs d)"] card_image_le[of "set (dk_files d)" fst]
        card_length[of "dk_files d"] card_length[of "dk_dirs d"] by simp
    ultimately show False by (simp add: backup_fuel_def)
  qed
  then show ?thesis using that backup_name_spec(2)[of p "backup_fuel d" 0 d] p0 by auto
qed

lemma backup_seed_works:
  assumes "disk_works S" and "file_at d (seed_path dir) = Some s"
  obtains backup where "backup_seed S dir d = (Inr backup, put_file backup s (del_file (seed_path dir) d))"
    "file_at d backup = None" "backup \<notin> set (dk_dirs d)" "backup \<noteq> seed_path dir"
proof -
  obtain name j where n: "backup_name (seed_path dir) (backup_fuel d) 1 (seed_path dir @ ''.bak'') d = Some name"
    "name = backup_candidate (seed_path dir) j" "\<not> path_exists name d"
    by (rule backup_name_found) (rule that)
  have "backup_seed S dir d = (Inr name, put_file name s (del_file (seed_path dir) d))"
    using n(1) assms(2) by (simp add: backup_seed_def rename_file_def disk_worksD[OF assms(1)] attempt_app bindE_app Let_def)
  then show ?thesis
    using that n(2,3) by (auto simp: path_exists_def backup_candidate_def)
qed

section \<open>A change of password\<close>

text \<open>BIP 39: the words made of some entropy give it back.\<close>

definition words_ok :: "seed_ext \<Rightarrow> bool" where
  "words_ok S \<longleftrightarrow> (\<forall>s m. from_entropy S s = Some m \<longrightarrow> to_entropy S m = Some s)"

lemma on_disk_Inr [simp]: "m (lc_disk s) = (Inr x, d) \<Longrightarrow> on_disk f m s = (Inr x, s\<lparr>lc_disk := d\<rparr>)"
  by (simp add: on_disk_def)

lemma on_disk_Inl: "m (lc_disk s) = (Inl e, d) \<Longrightarrow> on_disk f m s = (Inl (impls_err f e), s\<lparr>lc_disk := d\<rparr>)"
  by (simp add: on_disk_def)

lemma init_file_works:
  assumes "disk_works S" and "codec_ok S" and "sealing_ok C"
    and "file_at d (seed_path dir) = None" and "seed_path dir \<notin> set (dk_dirs d)"
    and "case phrase of Some p \<Rightarrow> to_entropy S p = Some seed | None \<Rightarrow> random_seed S n = seed"
  obtains s where "init_file C S dir n phrase password d = (Inr seed, put_file (seed_path dir) s (made_dir dir d))"
    "read_seed C S password (Some s) = Inr seed"
proof -
  obtain s where s: "write_seed C S dir seed password (made_dir dir d) = (Inr (), put_file (seed_path dir) s (made_dir dir d))"
    "read_seed C S password (Some s) = Inr seed"
    by (rule write_seed_works[OF assms(1-3)]) (rule that)
  have "seed_file_exists dir (made_dir dir d) = False"
    using assms(4,5) by (simp add: seed_file_exists_def path_exists_def)
  then have "init_file C S dir n phrase password d = (Inr seed, put_file (seed_path dir) s (made_dir dir d))"
    using s(1) assms(6) by (cases phrase) (simp_all add: init_file_def create_dir_all_works[OF assms(1)] bindE_app
        seed_from_mnemonic_def seed_init_new_def)
  then show ?thesis using that s(2) by blast
qed

lemma delete_no_seed:
  "file_at d (seed_path dir) = None \<Longrightarrow> seed_path dir \<notin> set (dk_dirs d) \<Longrightarrow> delete_seed_file S dir d = (Inr (), d)"
  by (simp add: delete_seed_file_def path_exists_def)

text \<open>C20. A change of password with the right old one succeeds: the seed file then opens with the new
  password to the same seed, the old file is gone or, if it was to be kept, stands under a name
  that was free, and no other file changes.\<close>

theorem change_password_keeps_seed:
  assumes "disk_works S" and "codec_ok S" and "sealing_ok C" and "words_ok S"
    and "file_at (lc_disk s) (seed_path (wallet_dir s)) = Some old_file" and "seed_path (wallet_dir s) \<notin> set (dk_dirs (lc_disk s))"
    and "read_seed C S old (Some old_file) = Inr seed" and "from_entropy S seed = Some words"
  shows "\<exists>d new_file backup. change_password C S old new remove_backup s = (Inr (), s\<lparr>lc_disk := d\<rparr>) \<and>
    file_at d (seed_path (wallet_dir s)) = Some new_file \<and> read_seed C S new (Some new_file) = Inr seed \<and>
    file_at (lc_disk s) backup = None \<and> file_at d backup = (if remove_backup then None else Some old_file) \<and>
    (\<forall>p. p \<noteq> seed_path (wallet_dir s) \<and> p \<noteq> backup \<longrightarrow> file_at d p = file_at (lc_disk s) p)"
proof -
  let ?dir = "wallet_dir s" and ?p = "seed_path (wallet_dir s)"
  let ?d1 = "made_dir ?dir (lc_disk s)"
  have 1: "seed_from_file C S ?dir old (lc_disk s) = (Inr seed, ?d1)"
    using seed_from_file_run[OF assms(1,6)] assms(5,7) by simp
  obtain backup where 2: "backup_seed S ?dir ?d1 = (Inr backup, put_file backup old_file (del_file ?p ?d1))"
    "file_at ?d1 backup = None" "backup \<notin> set (dk_dirs ?d1)" "backup \<noteq> ?p"
    by (rule backup_seed_works[OF assms(1), of ?d1 ?dir old_file]) (use assms(5) that in auto)
  let ?d2 = "put_file backup old_file (del_file ?p ?d1)"
  have free: "file_at ?d2 ?p = None" "?p \<notin> set (dk_dirs ?d2)" using 2(4) assms(6) by auto
  have 3: "delete_seed_file S ?dir ?d2 = (Inr (), ?d2)" by (rule delete_no_seed[OF free])
  obtain f where 4: "init_file C S ?dir 0 (Some words) new ?d2 = (Inr seed, put_file ?p f (made_dir ?dir ?d2))"
    "read_seed C S new (Some f) = Inr seed"
    by (rule init_file_works[OF assms(1-3) free, where phrase = "Some words" and seed = seed and n = 0 and password = new]) (use assms(4,8) that in \<open>auto simp: words_ok_def\<close>)
  let ?d3 = "put_file ?p f (made_dir ?dir ?d2)"
  have 5: "seed_from_file C S ?dir new ?d3 = (Inr seed, made_dir ?dir ?d3)"
    using seed_from_file_run[OF assms(1), of ?dir ?d3] 4(2) free(2) by simp
  let ?d4 = "if remove_backup then del_file backup (made_dir ?dir ?d3) else made_dir ?dir ?d3"
  have 6: "remove_file S backup (made_dir ?dir ?d3) = (Inr (), del_file backup (made_dir ?dir ?d3))"
    using 2(4) by (simp add: remove_file_def disk_worksD[OF assms(1)])
  have "change_password C S old new remove_backup s = (Inr (), s\<lparr>lc_disk := ?d4\<rparr>)"
    using 1 2(1) 3 4(1) 5 6 assms(8)
    by (simp add: change_password_def bindE_app attempt_app seed_to_mnemonic_def on_disk_def)
  then show ?thesis
    using 2(2,4) 4(2) by (intro exI[of _ ?d4] exI[of _ f] exI[of _ backup]) auto
qed

section \<open>Creating and opening\<close>

lemma set_rows_simps [simp]:
  "lc_disk (set_rows dir rs s) = lc_disk s" "lc_data_dir (set_rows dir rs s) = lc_data_dir s"
  "lc_stored_txs (set_rows dir rs s) = lc_stored_txs s" "wallet_dir (set_rows dir rs s) = wallet_dir s"
  "wallet_dir (s\<lparr>lc_disk := d\<rparr>) = wallet_dir s"
  by (simp_all add: set_rows_def wallet_dir_def)

lemma rows_of_disk [simp]: "rows_of dir (s\<lparr>lc_disk := d\<rparr>) = rows_of dir s"
  by (cases "lc_backend s") (auto simp: rows_of_def)

lemma rows_of_set_rows [simp]: "rows_of dir (set_rows dir rs s) = rs"
  by (auto simp: rows_of_def set_rows_def split: option.splits)

definition opened :: "ext \<Rightarrow> (string \<Rightarrow> string option) \<Rightarrow> rows \<Rightarrow> wallet" where
  "opened E files rs = \<lparr>w_db = row_put (acct_key E (ap_label (default_account E))) (SAcctPathMapping (default_account E)) rs,
     w_files = files, w_keychain = None, w_master_checksum = None, w_parent_key_id = default_path E\<rparr>"

lemma open_backend_works:
  assumes "sqlite_ok E" and "keys_ok E"
  shows "open_backend E f dir s =
    (Inr (opened E (lc_stored_txs s dir) (rows_of dir s)), set_rows dir (w_db (opened E (lc_stored_txs s dir) (rows_of dir s))) s)"
  using put_ok[OF assms(1) keys_nonempty(8)[OF assms(2)]]
  by (simp add: open_backend_def backend_new_def put_ser_def opened_def)

lemma save_init_status_works:
  assumes "sqlite_ok E" and "keys_ok E"
  shows "save_init_status E st w = (Inr (), w\<lparr>w_db := row_put (init_status_key E) (SWalletInitStatus st) (w_db w)\<rparr>)"
  using put_db_ok[OF assms(1) keys_nonempty(11)[OF assms(2)]] by (simp add: save_init_status_def)

text \<open>What creating a wallet leaves, whether or not the seed file was written.\<close>

lemma create_wallet_run:
  assumes "sqlite_ok E" and "keys_ok E" and "\<not> seed_file_exists (wallet_dir s) (lc_disk s)"
    and "init_file C S (wallet_dir s) n phrase password (lc_disk s) = (r, d)" and "\<And>p. r \<noteq> Inl (ImplsPanic p)"
  shows "\<exists>rs. create_wallet E C S phrase n password test_mode s = (Inr (), set_rows (wallet_dir s) rs (s\<lparr>lc_disk := d\<rparr>)) \<and>
    (unique_keys (rows_of (wallet_dir s) s) \<longrightarrow> unique_keys rs \<and>
      store_get (init_status_key E) rs = Some (SWalletInitStatus (if phrase = None then InitNoScanning else InitNeedsScanning)))"
proof -
  let ?dir = "wallet_dir s" and ?st = "if phrase = None then InitNoScanning else InitNeedsScanning"
  let ?s1 = "s\<lparr>lc_disk := d\<rparr>"
  let ?w = "opened E (lc_stored_txs s ?dir) (rows_of ?dir s)"
  let ?rs = "row_put (init_status_key E) (SWalletInitStatus ?st) (w_db ?w)"
  have tried: "attempt (on_disk f (init_file C S ?dir n phrase password)) s = (Inr (case r of Inl e \<Rightarrow> Inl (impls_err f e) | Inr x \<Rightarrow> Inr x), ?s1)" for f
    by (simp add: attempt_app on_disk_def assms(4))
  have quiet: "(case (case r of Inl e \<Rightarrow> Inl (impls_err (\<lambda>_. LibWallet []) e) | Inr x \<Rightarrow> Inr x) of Inl (Panic p) \<Rightarrow> throw (Panic p) | _ \<Rightarrow> ret ()) = ret ()"
    using assms(5) by (auto simp: impls_err_def split: sum.splits impls_error.splits)
  have st: "(case phrase of None \<Rightarrow> InitNoScanning | Some _ \<Rightarrow> InitNeedsScanning) = ?st" by (cases phrase) auto
  have "create_wallet E C S phrase n password test_mode s = (Inr (), set_rows ?dir ?rs (set_rows ?dir (w_db ?w) ?s1))"
    using assms(3) open_backend_works[OF assms(1,2), of _ ?dir ?s1]
    by (simp add: create_wallet_def bindE_app tried quiet on_backend_def save_init_status_works[OF assms(1,2)] batch_no_mask_def commit_def st)
  moreover have "set_rows ?dir ?rs (set_rows ?dir (w_db ?w) ?s1) = set_rows ?dir ?rs ?s1"
    by (cases "lc_backend s") (auto simp: set_rows_def)
  moreover have "unique_keys (rows_of ?dir s) \<Longrightarrow> unique_keys ?rs \<and> store_get (init_status_key E) ?rs = Some (SWalletInitStatus ?st)"
    by (simp add: opened_def unique_keys_row_put get_put)
  ultimately show ?thesis by auto
qed

text \<open>C26. A wallet created on a directory without a seed opens with the same password: the open wallet's
  keychain, under the mask handed out, is the one of the seed, and it knows whether it has to be
  scanned, which is the case when it was made from a phrase.\<close>

theorem created_wallet_opens:
  assumes "disk_works S" and "codec_ok S" and "sealing_ok C" and "sqlite_ok E" and "keys_ok E"
    and "file_at (lc_disk s) (seed_path (wallet_dir s)) = None" and "seed_path (wallet_dir s) \<notin> set (dk_dirs (lc_disk s))"
    and "unique_keys (rows_of (wallet_dir s) s)"
    and "case phrase of Some p \<Rightarrow> to_entropy S p = Some seed | None \<Rightarrow> random_seed S n = seed"
    and "keychain_from_seed S seed (is_floonet C) = Inr k" and "derive_root_key E k = Inr root"
    and "mask_master_key E k (new_mask E test_rng) = Inr km" and "mask_master_key E km (new_mask E test_rng) = Inr k"
  shows "\<exists>s1 s2 m w. create_wallet E C S phrase n password test_mode s = (Inr (), s1) \<and>
    open_wallet E C S password create_mask test_rng s1 = (Inr m, s2) \<and> lc_backend s2 = Some (wallet_dir s, w) \<and>
    keychain E m w = (Inr k, w) \<and> init_status E w = (if phrase = None then InitNoScanning else InitNeedsScanning)"
proof -
  let ?dir = "wallet_dir s" and ?p = "seed_path (wallet_dir s)"
  have no_seed: "\<not> seed_file_exists ?dir (lc_disk s)" using assms(6,7) by (simp add: seed_file_exists_def path_exists_def)
  obtain f where init: "init_file C S ?dir n phrase password (lc_disk s) = (Inr seed, put_file ?p f (made_dir ?dir (lc_disk s)))"
    "read_seed C S password (Some f) = Inr seed"
    by (rule init_file_works[OF assms(1-3,6,7,9)]) (rule that)
  let ?d = "put_file ?p f (made_dir ?dir (lc_disk s))"
  obtain rs where made: "create_wallet E C S phrase n password test_mode s = (Inr (), set_rows ?dir rs (s\<lparr>lc_disk := ?d\<rparr>))"
    "unique_keys rs" "store_get (init_status_key E) rs = Some (SWalletInitStatus (if phrase = None then InitNoScanning else InitNeedsScanning))"
    using create_wallet_run[OF assms(4,5) no_seed init(1)] assms(8) by auto
  let ?s1 = "set_rows ?dir rs (s\<lparr>lc_disk := ?d\<rparr>)"
  let ?w = "opened E (lc_stored_txs s ?dir) rs"
  have read: "seed_from_file C S ?dir password ?d = (Inr seed, made_dir ?dir ?d)"
    using seed_from_file_run[OF assms(1), of ?dir ?d] assms(7) init(2) by simp
  obtain m w where m: "set_keychain E k create_mask test_rng ?w = (Inr m, w)" "keychain E m w = (Inr k, w)" "w_db w = w_db ?w"
    using assms(11-13) by (cases create_mask) (auto simp: set_keychain_def keychain_def keychain_result_def Let_def)
  have "\<exists>s2. open_wallet E C S password create_mask test_rng ?s1 = (Inr m, s2) \<and> lc_backend s2 = Some (?dir, w)"
    using read m(1) assms(10) open_backend_works[OF assms(4,5), of _ ?dir ?s1]
    by (simp add: open_wallet_def bindE_app on_disk_def on_backend_def seed_derive_keychain_def)
  moreover have "hd (init_status_key E) \<noteq> hd (acct_key E l)" for l
    by (simp add: hd_keys[OF assms(5)] prefix_defs)
  then have "init_status_key E \<noteq> acct_key E l" for l by metis
  then have "init_status E w = (if phrase = None then InitNoScanning else InitNeedsScanning)"
    using made(2,3) by (simp add: init_status_def m(3) opened_def get_ser_def get_put)
  ultimately show ?thesis using made(1) m(2) by blast
qed

section \<open>A wrong recovery phrase\<close>

text \<open>C27. Recovering with a phrase that is no mnemonic fails, but only after the seed file has been
  renamed: the wallet is left without one. Creating a wallet with such a phrase reports success
  and leaves a wallet that has no seed and cannot be opened.\<close>

theorem wrong_phrase_leaves_no_seed:
  assumes "disk_works S" and "to_entropy S phrase = None" and "seed_path (wallet_dir s) \<notin> set (dk_dirs (lc_disk s))"
    and "path_exists (wallet_dir s) (lc_disk s)" and "file_at (lc_disk s) (seed_path (wallet_dir s)) = Some old_file"
    and "sqlite_ok E" and "keys_ok E" and "seed_path (wallet_dir s') \<notin> set (dk_dirs (lc_disk s'))"
    and "file_at (lc_disk s') (seed_path (wallet_dir s')) = None"
  shows "(\<exists>d backup. recover_from_mnemonic C S phrase password s =
      (Inl (Lifecycle ''Error recovering from mnemonic''), s\<lparr>lc_disk := d\<rparr>) \<and>
      file_at d (seed_path (wallet_dir s)) = None \<and> file_at d backup = Some old_file)
    \<and> (\<exists>s''. create_wallet E C S (Some phrase) n password test_mode s' = (Inr (), s'') \<and>
      fst (wallet_exists s'') = Inr False \<and>
      fst (open_wallet E C S password create_mask test_rng s'') = Inl (Lifecycle ''Error opening wallet (is password correct?)''))"
proof (intro conjI)
  let ?dir = "wallet_dir s" and ?p = "seed_path (wallet_dir s)"
  obtain backup where b: "backup_seed S ?dir (lc_disk s) = (Inr backup, put_file backup old_file (del_file ?p (lc_disk s)))" "backup \<noteq> ?p"
    by (rule backup_seed_works[OF assms(1,5)]) (rule that)
  let ?d = "put_file backup old_file (del_file ?p (lc_disk s))"
  have "path_exists ?dir ?d" using assms(4) by (auto simp: path_exists_def seed_path_def)
  then have "recover_from_phrase C S ?dir phrase password (lc_disk s) = (Inl ImplsMnemonic, ?d)"
    using b(1) assms(2,5) by (simp add: recover_from_phrase_def seed_file_exists_def path_exists_def bindE_app seed_from_mnemonic_def)
  then have "recover_from_mnemonic C S phrase password s = (Inl (Lifecycle ''Error recovering from mnemonic''), s\<lparr>lc_disk := ?d\<rparr>)"
    by (simp add: recover_from_mnemonic_def bindE_app on_disk_def impls_err_def)
  then show "\<exists>d backup. recover_from_mnemonic C S phrase password s =
      (Inl (Lifecycle ''Error recovering from mnemonic''), s\<lparr>lc_disk := d\<rparr>) \<and>
      file_at d (seed_path (wallet_dir s)) = None \<and> file_at d backup = Some old_file"
    using b(2) by (intro exI[of _ ?d] exI[of _ backup]) auto
next
  let ?dir = "wallet_dir s'" and ?d = "made_dir (wallet_dir s') (lc_disk s')"
  have no_seed: "\<not> seed_file_exists ?dir (lc_disk s')" "\<not> seed_file_exists ?dir ?d"
    using assms(8,9) by (simp_all add: seed_file_exists_def path_exists_def)
  have "init_file C S ?dir n (Some phrase) password (lc_disk s') = (Inl ImplsMnemonic, ?d)"
    using no_seed(2) assms(2) by (simp add: init_file_def create_dir_all_works[OF assms(1)] bindE_app seed_from_mnemonic_def)
  then obtain rs where made: "create_wallet E C S (Some phrase) n password test_mode s' = (Inr (), set_rows ?dir rs (s'\<lparr>lc_disk := ?d\<rparr>))"
    using create_wallet_run[OF assms(6,7) no_seed(1)] by blast
  let ?s1 = "set_rows ?dir rs (s'\<lparr>lc_disk := ?d\<rparr>)"
  have "seed_from_file C S ?dir password ?d = (Inl ImplsWalletSeedDoesntExist, made_dir ?dir ?d)"
    using seed_from_file_run[OF assms(1), of ?dir ?d] assms(8,9) by (simp add: read_seed_def)
  then have "fst (open_wallet E C S password create_mask test_rng ?s1) = Inl (Lifecycle ''Error opening wallet (is password correct?)'')"
    using open_backend_works[OF assms(6,7), of _ ?dir ?s1] by (simp add: open_wallet_def bindE_app on_disk_def impls_err_def)
  then show "\<exists>s''. create_wallet E C S (Some phrase) n password test_mode s' = (Inr (), s'') \<and>
      fst (wallet_exists s'') = Inr False \<and>
      fst (open_wallet E C S password create_mask test_rng s'') = Inl (Lifecycle ''Error opening wallet (is password correct?)'')"
    using made no_seed(2) by (intro exI[of _ ?s1]) (simp add: wallet_exists_def)
qed

section \<open>On a concrete disk\<close>

text \<open>A JSON text for the witnesses: three fields, each character marked, each field closed.\<close>

definition write_field :: "string \<Rightarrow> string" where
  "write_field s = concat (map (\<lambda>c. [CHR ''c'', c]) s) @ ''e''"

fun read_field :: "string \<Rightarrow> string \<times> string" where
  "read_field (m # c # r) = (if m = CHR ''c'' then (c # fst (read_field r), snd (read_field r)) else ([], c # r))"
| "read_field s = ([], [])"

lemma read_write_field: "read_field (write_field s @ r) = (s, r)"
proof (induction s)
  case Nil
  then show ?case by (cases r) (simp_all add: write_field_def)
qed (simp add: write_field_def)

definition sample_seed :: seed_ext where
  "sample_seed = \<lparr>os_create_dir_all = (\<lambda>_. None), os_create = (\<lambda>_. None), os_write = (\<lambda>_ s. (length s, None)),
     os_open = (\<lambda>_. None), os_read_text = (\<lambda>_. None), os_rename = (\<lambda>_ _. None), os_remove = (\<lambda>_. None),
     os_remove_dir_all = (\<lambda>_. None), to_entropy = (\<lambda>m. if m = ''bad'' then None else Some (map of_char m)),
     from_entropy = (\<lambda>s. let m = map (\<lambda>x. char_of (unat x)) s in if m = ''bad'' then None else Some m),
     random_seed = (\<lambda>n. replicate n 4), util_to_hex = map (\<lambda>x. char_of (unat x)), util_from_hex = (\<lambda>s. Some (map of_char s)),
     enc_seed_to_json = (\<lambda>es. Inr (write_field (es_encrypted_seed es) @ write_field (es_salt es) @ write_field (es_nonce es))),
     enc_seed_of_json = (\<lambda>s. let (a, s) = read_field s; (b, s) = read_field s; (c, s) = read_field s in
       Inr \<lparr>es_encrypted_seed = a, es_salt = b, es_nonce = c\<rparr>),
     keychain_from_seed = (\<lambda>s _. Inr s)\<rparr>"

lemma sample_seed_ok: "disk_works sample_seed" "codec_ok sample_seed" "words_ok sample_seed" "sealing_ok sample_crypto"
proof -
  show "sealing_ok sample_crypto" using sample_cipher by (simp add: sealing_ok_def) (simp add: sample_crypto_def)
  have "read_field (write_field s) = (s, [])" for s using read_write_field[of s "[]"] by simp
  then show "codec_ok sample_seed" by (simp add: codec_ok_def sample_seed_def comp_def char_byte read_write_field)
qed (auto simp: disk_works_def words_ok_def sample_seed_def comp_def char_byte Let_def split: if_splits)

definition provider_with :: "(string \<times> string) list \<Rightarrow> provider" where
  "provider_with files = provider_new \<lparr>dk_files = files, dk_dirs = [''default/wallet_data'']\<rparr> (\<lambda>_. []) (\<lambda>_ _. None)"

lemma provider_with_simps [simp]:
  "wallet_dir (provider_with files) = ''default/wallet_data''" "rows_of dir (provider_with files) = []"
  "seed_path ''default/wallet_data'' \<notin> set (dk_dirs (lc_disk (provider_with files)))"
  "path_exists ''default/wallet_data'' (lc_disk (provider_with files))"
  "file_at (lc_disk (provider_with files)) p = map_of files p"
  by (simp_all add: provider_with_def provider_new_def wallet_dir_def path_push_def EPIC_WALLET_DIR_def rows_of_def
      path_exists_def file_at_def seed_path_def)

lemma sample_file:
  obtains f where "read_seed sample_crypto sample_seed ''old'' (Some f) = Inr [1, 2, 3]"
  using write_seed_works[OF sample_seed_ok(1,2,4), of "[]" "[1, 2, 3]" "''old''"] by metis

theorem change_password_keeps_seed_witness:
  "\<exists>f d g. change_password sample_crypto sample_seed ''old'' ''new'' True (provider_with [(seed_path ''default/wallet_data'', f)]) =
      (Inr (), (provider_with [(seed_path ''default/wallet_data'', f)])\<lparr>lc_disk := d\<rparr>) \<and>
    file_at d (seed_path ''default/wallet_data'') = Some g \<and> read_seed sample_crypto sample_seed ''new'' (Some g) = Inr [1, 2, 3]"
proof -
  obtain f where f: "read_seed sample_crypto sample_seed ''old'' (Some f) = Inr [1, 2, 3]" by (rule sample_file) (rule that)
  have "from_entropy sample_seed [1, 2, 3] = Some (map (\<lambda>x. char_of (unat x)) [1, 2, 3 :: u8])"
  proof -
    have "map (\<lambda>x. char_of (unat x)) [1, 2, 3 :: u8] \<noteq> ''bad''" by code_simp
    then show ?thesis by (simp add: sample_seed_def)
  qed
  then show ?thesis
    using change_password_keeps_seed[OF sample_seed_ok(1,2,4,3), of "provider_with [(seed_path ''default/wallet_data'', f)]" f
        "''old''" "[1, 2, 3]" _ "''new''" True] f by auto
qed

theorem created_wallet_opens_witness:
  "\<exists>s1 s2 m w. create_wallet the_ext sample_crypto sample_seed None 32 ''pw'' False (provider_with []) = (Inr (), s1) \<and>
    open_wallet the_ext sample_crypto sample_seed ''pw'' True False s1 = (Inr m, s2) \<and>
    lc_backend s2 = Some (''default/wallet_data'', w) \<and> keychain the_ext m w = (Inr (replicate 32 4), w)"
proof -
  have "keychain_from_seed sample_seed (replicate 32 4) b = Inr (replicate 32 4)"
    "random_seed sample_seed 32 = replicate 32 4" for b by (simp_all add: sample_seed_def)
  moreover have "derive_root_key the_ext (replicate 32 4) = Inr (replicate 32 4)"
    "mask_master_key the_ext (replicate 32 4) (new_mask the_ext False) = Inr (replicate 32 5)"
    "mask_master_key the_ext (replicate 32 5) (new_mask the_ext False) = Inr (replicate 32 4)"
    by (simp_all add: the_ext_def zip_replicate)
  ultimately show ?thesis
    using created_wallet_opens[OF sample_seed_ok(1,2,4) sqlite_ok_the_ext keys_ok_the_ext, where s = "provider_with []" and phrase = None
        and seed = "replicate 32 4" and n = 32 and k = "replicate 32 4" and root = "replicate 32 4" and test_rng = False
        and km = "replicate 32 5" and password = "''pw''" and test_mode = False and create_mask = True]
    by (auto simp: unique_keys_def)
qed

theorem wrong_phrase_leaves_no_seed_witness:
  "(\<exists>d backup. recover_from_mnemonic sample_crypto sample_seed ''bad'' ''pw'' (provider_with [(seed_path ''default/wallet_data'', ''f'')]) =
      (Inl (Lifecycle ''Error recovering from mnemonic''), (provider_with [(seed_path ''default/wallet_data'', ''f'')])\<lparr>lc_disk := d\<rparr>) \<and>
      file_at d (seed_path ''default/wallet_data'') = None \<and> file_at d backup = Some ''f'')
    \<and> (\<exists>s''. create_wallet the_ext sample_crypto sample_seed (Some ''bad'') 32 ''pw'' False (provider_with []) = (Inr (), s'') \<and>
      fst (wallet_exists s'') = Inr False)"
proof -
  have "to_entropy sample_seed ''bad'' = None" by (simp add: sample_seed_def)
  then show ?thesis
    using wrong_phrase_leaves_no_seed[OF sample_seed_ok(1), where phrase = "''bad''"
        and s = "provider_with [(seed_path ''default/wallet_data'', ''f'')]" and old_file = "''f''"
        and E = the_ext and s' = "provider_with []" and C = sample_crypto and password = "''pw''" and n = 32
        and test_mode = False and create_mask = False and test_rng = False] by auto
qed

end
