(* ===== verification/Json.thy ===== *)
theory Json
  imports ErrorText Text
begin

text \<open>
  JSON values, the JSON-RPC requests and responses of \<open>impls/src/client_utils/json_rpc.rs\<close>,
  and the HTTP client of \<open>impls/src/client_utils/client.rs\<close> over which they are exchanged.

  A value is a tree, its text a parameter, as are the readers and writers that serde
  generates and the exchange itself, which \<open>reqwest\<close> performs.
\<close>

datatype json =
    JNull
  | JBool bool
  | JInt int
  | JFloat string
  | JStr string
  | JArr "json list"
  | JObj "(string \<times> json) list"

text \<open>\<open>val[key]\<close> of a \<open>serde_json::Value\<close>: null where there is nothing.\<close>

definition jget :: "json \<Rightarrow> string \<Rightarrow> json" where
  "jget j k = (case j of JObj kvs \<Rightarrow> (case map_of kvs k of Some v \<Rightarrow> v | None \<Rightarrow> JNull) | _ \<Rightarrow> JNull)"

definition as_str :: "json \<Rightarrow> string option" where
  "as_str j = (case j of JStr s \<Rightarrow> Some s | _ \<Rightarrow> None)"

definition as_array :: "json \<Rightarrow> json list option" where
  "as_array j = (case j of JArr xs \<Rightarrow> Some xs | _ \<Rightarrow> None)"

definition jopt :: "('a \<Rightarrow> json) \<Rightarrow> 'a option \<Rightarrow> json" where
  "jopt f x = (case x of None \<Rightarrow> JNull | Some y \<Rightarrow> f y)"

definition jnum :: "'a::len word \<Rightarrow> json" where
  "jnum n = JInt (uint n)"

record json_ext =
  json_to_string :: "json \<Rightarrow> string option"
  json_of_string :: "string \<Rightarrow> json option"
  json_display :: "json \<Rightarrow> string"

section \<open>Requests and responses\<close>

record RpcRequest =
  rq_method :: string
  rq_params :: json
  rq_id :: json
  rq_jsonrpc :: "string option"

record RpcError =
  re_code :: int
  re_message :: string
  re_data :: "json option"

record RpcResponse =
  rs_result :: "json option"
  rs_error :: "RpcError option"
  rs_id :: json
  rs_jsonrpc :: "string option"

datatype rpc_error = JsonError string | Rpc RpcError

definition rpc_error_fmt :: "rpc_error \<Rightarrow> string" where
  "rpc_error_fmt e = (case e of JsonError s \<Rightarrow> ''JSON decode error: '' @ s | Rpc _ \<Rightarrow> ''RPC error response'')"

definition build_request :: "string \<Rightarrow> json \<Rightarrow> RpcRequest" where
  "build_request name params = \<lparr>rq_method = name, rq_params = params, rq_id = JInt 1, rq_jsonrpc = Some ''2.0''\<rparr>"

text \<open>The derived form of a request.\<close>

definition request_value :: "RpcRequest \<Rightarrow> json" where
  "request_value r = JObj [(''method'', JStr (rq_method r)), (''params'', rq_params r), (''id'', rq_id r),
     (''jsonrpc'', jopt JStr (rq_jsonrpc r))]"

text \<open>Reading the result as a type is reading it with that type's reader.\<close>

definition response_result :: "(json \<Rightarrow> string + 'd) \<Rightarrow> RpcResponse \<Rightarrow> rpc_error + 'd" where
  "response_result read r = (case rs_error r of
      Some e \<Rightarrow> Inl (Rpc e)
    | None \<Rightarrow>
        (case read (case rs_result r of Some v \<Rightarrow> jget v ''Ok'' | None \<Rightarrow> JNull) of
           Inl e \<Rightarrow> Inl (JsonError e) | Inr x \<Rightarrow> Inr x))"

definition into_result :: "(json \<Rightarrow> string + 'd) \<Rightarrow> RpcResponse \<Rightarrow> rpc_error + 'd" where
  "into_result read r = (case rs_error r of Some e \<Rightarrow> Inl (Rpc e) | None \<Rightarrow> response_result read r)"

section \<open>The HTTP client\<close>

datatype client_error =
    Internal string
  | RequestError string
  | ResponseError string

definition client_error_fmt :: "client_error \<Rightarrow> string" where
  "client_error_fmt e = (case e of
      Internal s \<Rightarrow> ''Internal error: '' @ s
    | RequestError s \<Rightarrow> ''Request error: '' @ s
    | ResponseError s \<Rightarrow> ''ResponseError error: '' @ s)"

text \<open>
  \<open>http_proxy\<close> and \<open>http_builder\<close> are the errors of building the client, if any, with and
  without its proxy. \<open>http_exchange\<close> sends a body to an address, with the value of the
  authorization header, and gets the text of the answer, whatever its status: the first error
  is one of the request, the second one of the answer's text.
\<close>

record http_ext = json_ext +
  socks_proxy_addr :: "string option"
  http_proxy :: "string \<Rightarrow> string option"
  http_builder :: "string option"
  http_exchange :: "string \<Rightarrow> string option \<Rightarrow> string \<Rightarrow> string + string + string"
  to_base64 :: "string \<Rightarrow> string"
  response_of_json :: "json \<Rightarrow> RpcResponse option"

definition client_build :: "'x http_ext_scheme \<Rightarrow> string option \<Rightarrow> client_error + unit" where
  "client_build H addr =
     and_then (case addr of
         None \<Rightarrow> Inr ()
       | Some a \<Rightarrow> (case http_proxy H (''socks5h://'' @ a) of
             Some e \<Rightarrow> Inl (Internal (''Unable to create proxy: '' @ e)) | None \<Rightarrow> Inr ())) (\<lambda>_.
     case http_builder H of Some e \<Rightarrow> Inl (Internal (''Unable to build client: '' @ e)) | None \<Rightarrow> Inr ())"

definition client_new :: "'x http_ext_scheme \<Rightarrow> client_error + unit" where
  "client_new H = client_build H (socks_proxy_addr H)"

definition authorization :: "'x http_ext_scheme \<Rightarrow> string option \<Rightarrow> string option" where
  "authorization H api_secret = map_option (\<lambda>s. ''Basic '' @ to_base64 H (''epic:'' @ s)) api_secret"

definition send_request ::
    "'x http_ext_scheme \<Rightarrow> string \<Rightarrow> string option \<Rightarrow> json \<Rightarrow> client_error + string" where
  "send_request H url api_secret input =
     and_then (case json_to_string H input of
         None \<Rightarrow> Inl (Internal ''Could not serialize data to JSON'') | Some body \<Rightarrow> Inr body) (\<lambda>body.
     case http_exchange H url (authorization H api_secret) body of
       Inl e \<Rightarrow> Inl (RequestError (''Cannot make request: '' @ e))
     | Inr (Inl e) \<Rightarrow> Inl (ResponseError (''Cannot parse response: '' @ e))
     | Inr (Inr data) \<Rightarrow> Inr data)"

definition client_post ::
    "'x http_ext_scheme \<Rightarrow> string \<Rightarrow> string option \<Rightarrow> RpcRequest \<Rightarrow> client_error + RpcResponse" where
  "client_post H url api_secret req =
     and_then (send_request H url api_secret (request_value req)) (\<lambda>data.
     case Option.bind (json_of_string H data) (response_of_json H) of
       None \<Rightarrow> Inl (ResponseError ''Cannot parse response'') | Some r \<Rightarrow> Inr r)"

end
