(* ===== verification/SecureApi.thy ===== *)
theory SecureApi
  imports Json Crypto
begin

text \<open>
  The secure owner API: the encrypted bodies of \<open>api/src/types.rs\<close>, the key agreement
  \<open>init_secure_api\<close> of \<open>api/src/owner_rpc_s.rs\<close>, and the handler of \<open>controller/src/controller.rs\<close>
  that decrypts a request, runs it and encrypts the reply; and the check of the foreign API.

  The generated readers and writers of the request types, base 64 and the cipher are fields of \<open>api_ext\<close>; the method calls themselves are an argument.
\<close>

section \<open>Encrypted bodies\<close>

record EncryptedBody =
  eb_nonce :: string
  eb_body_enc :: string

datatype RpcId = RpcNull | RpcStr string | RpcInteger u64

record EncryptedRequest =
  er_jsonrpc :: string
  er_method :: string
  er_id :: RpcId
  er_params :: EncryptedBody

record EncryptedResponse =
  es_jsonrpc :: string
  es_id :: RpcId
  es_result :: "(string \<times> EncryptedBody) list"

record EncryptionError =
  ee_code :: int
  ee_message :: string

record EncryptionErrorResponse =
  ev_jsonrpc :: string
  ev_id :: RpcId
  ev_error :: EncryptionError

record api_ext = json_ext +
  text_of_utf8 :: "bytes \<Rightarrow> string option"
  aes_seal :: "bytes \<Rightarrow> bytes \<Rightarrow> bytes \<Rightarrow> bytes option"
  aes_open :: "bytes \<Rightarrow> bytes \<Rightarrow> bytes \<Rightarrow> bytes option"
  b64_encode :: "bytes \<Rightarrow> string"
  b64_decode :: "string \<Rightarrow> bytes option"
  api_to_hex :: "bytes \<Rightarrow> string"
  api_from_hex :: "string \<Rightarrow> bytes option"
  api_nonce :: bytes
  body_to_value :: "EncryptedBody \<Rightarrow> json option"
  request_to_value :: "EncryptedRequest \<Rightarrow> json option"
  request_of_value :: "json \<Rightarrow> string + EncryptedRequest"
  response_to_value :: "EncryptedResponse \<Rightarrow> json option"
  error_to_value :: "EncryptionErrorResponse \<Rightarrow> json option"
  string_map_of_value :: "json \<Rightarrow> (string \<times> string) list option"
  value_map_of_value :: "json \<Rightarrow> (string \<times> json) list option"
  string_map_order :: "(string \<times> string) list \<Rightarrow> (string \<times> string) list"
  value_map_order :: "(string \<times> json) list \<Rightarrow> (string \<times> json) list"
  api_sk_from_slice :: "bytes \<Rightarrow> SecretKey option"

definition api_err :: "string \<Rightarrow> 'a option \<Rightarrow> error + 'a" where
  "api_err e x = or_err (APIEncryption e) x"

definition body_from_json :: "api_ext \<Rightarrow> json \<Rightarrow> SecretKey \<Rightarrow> error + EncryptedBody" where
  "body_from_json A json_in enc_key =
     and_then (api_err ''EncryptedBody Enc: Unable to encode JSON'' (json_to_string A json_in)) (\<lambda>text.
     and_then (api_err ''EncryptedBody: encryption failed'' (aes_seal A enc_key (api_nonce A) (str_bytes text))) (\<lambda>sealed.
     Inr \<lparr>eb_nonce = api_to_hex A (api_nonce A), eb_body_enc = b64_encode A sealed\<rparr>))"

definition body_decrypt :: "api_ext \<Rightarrow> EncryptedBody \<Rightarrow> SecretKey \<Rightarrow> error + json" where
  "body_decrypt A b dec_key =
     and_then (api_err ''EncryptedBody Dec: Encrypted request contains invalid Base64'' (b64_decode A (eb_body_enc b))) (\<lambda>to_decrypt.
     and_then (api_err ''EncryptedBody Dec: Invalid Nonce'' (api_from_hex A (eb_nonce b))) (\<lambda>nonce.
     if length nonce < 12 then Inl (APIEncryption ''EncryptedBody Dec: Invalid Nonce length'')
     else
       and_then (api_err ''EncryptedBody: decryption failed'' (aes_open A dec_key (take 12 nonce) to_decrypt)) (\<lambda>buffer.
       and_then (api_err ''EncryptedBody Dec: Invalid UTF-8'' (text_of_utf8 A (take (length buffer - 16) buffer))) (\<lambda>decrypted.
       api_err ''EncryptedBody Dec: Invalid JSON'' (json_of_string A decrypted)))))"

definition body_as_json_value :: "api_ext \<Rightarrow> EncryptedBody \<Rightarrow> error + json" where
  "body_as_json_value A b = api_err ''EncryptedBody: JSON serialization failed'' (body_to_value A b)"

definition body_as_json_str :: "api_ext \<Rightarrow> EncryptedBody \<Rightarrow> error + string" where
  "body_as_json_str A b = and_then (body_as_json_value A b) (\<lambda>v.
     api_err ''EncryptedBody: JSON String serialization failed'' (json_to_string A v))"

definition request_from_json :: "api_ext \<Rightarrow> RpcId \<Rightarrow> json \<Rightarrow> SecretKey \<Rightarrow> error + EncryptedRequest" where
  "request_from_json A i json_in enc_key =
     and_then (body_from_json A json_in enc_key) (\<lambda>params.
     Inr \<lparr>er_jsonrpc = ''2.0'', er_method = ''encrypted_request_v3'', er_id = i, er_params = params\<rparr>)"

definition request_as_json_value :: "api_ext \<Rightarrow> EncryptedRequest \<Rightarrow> error + json" where
  "request_as_json_value A r = api_err ''EncryptedRequest: JSON serialization failed'' (request_to_value A r)"

definition request_as_json_str :: "api_ext \<Rightarrow> EncryptedRequest \<Rightarrow> error + string" where
  "request_as_json_str A r = and_then (request_as_json_value A r) (\<lambda>v.
     api_err ''EncryptedRequest: JSON String serialization failed'' (json_to_string A v))"

definition request_decrypt :: "api_ext \<Rightarrow> EncryptedRequest \<Rightarrow> SecretKey \<Rightarrow> error + json" where
  "request_decrypt A r dec_key = body_decrypt A (er_params r) dec_key"

definition response_from_json :: "api_ext \<Rightarrow> RpcId \<Rightarrow> json \<Rightarrow> SecretKey \<Rightarrow> error + EncryptedResponse" where
  "response_from_json A i json_in enc_key =
     and_then (body_from_json A json_in enc_key) (\<lambda>b.
     Inr \<lparr>es_jsonrpc = ''2.0'', es_id = i, es_result = [(''Ok'', b)]\<rparr>)"

definition response_as_json_value :: "api_ext \<Rightarrow> EncryptedResponse \<Rightarrow> error + json" where
  "response_as_json_value A r = api_err ''EncryptedResponse: JSON serialization failed'' (response_to_value A r)"

definition response_as_json_str :: "api_ext \<Rightarrow> EncryptedResponse \<Rightarrow> error + string" where
  "response_as_json_str A r = and_then (response_as_json_value A r) (\<lambda>v.
     api_err ''EncryptedResponse: JSON String serialization failed'' (json_to_string A v))"

definition response_decrypt :: "api_ext \<Rightarrow> EncryptedResponse \<Rightarrow> SecretKey \<Rightarrow> error + json" where
  "response_decrypt A r dec_key = (case map_of (es_result r) ''Ok'' of
      None \<Rightarrow> Inl (Panic ''result.get(Ok)'')
    | Some b \<Rightarrow> body_decrypt A b dec_key)"

definition error_response_new :: "RpcId \<Rightarrow> int \<Rightarrow> string \<Rightarrow> EncryptionErrorResponse" where
  "error_response_new i code message =
     \<lparr>ev_jsonrpc = ''2.0'', ev_id = i, ev_error = \<lparr>ee_code = code, ee_message = message\<rparr>\<rparr>"

definition error_as_json_value :: "api_ext \<Rightarrow> EncryptionErrorResponse \<Rightarrow> json" where
  "error_as_json_value A e = (case error_to_value A e of
      Some v \<Rightarrow> v
    | None \<Rightarrow> JObj [(''json_rpc'', JStr ''2.0''), (''id'', JStr ''1''),
        (''error'', JObj [(''message'', JStr (''internal error serialising json error response ''
             @ ''EncryptedResponse: JSON serialization failed'')), (''code'', JInt (-32000))])])"

section \<open>Key agreement\<close>

text \<open>
  The key is kept and the server's public key is answered; the secret drawn and the curve
  are parameters.
\<close>

definition init_secure_api ::
    "crypto_ext \<Rightarrow> api_ext \<Rightarrow> SecretKey \<Rightarrow> PublicKey \<Rightarrow> (SecretKey option, error, PublicKey) proc" where
  "init_secure_api C A sec_key ecdh_pubkey =
     bindE (liftE (or_err (Secp []) (pk_mul C ecdh_pubkey sec_key))) (\<lambda>shared_pubkey.
     bindE (liftE (or_err (Secp []) (api_sk_from_slice A (drop 1 (pk_serialize C shared_pubkey))))) (\<lambda>shared_key.
     bindE (modify (\<lambda>_. Some shared_key)) (\<lambda>_.
     ret (pk_of_secret C sec_key))))"

section \<open>The handler\<close>

definition is_method :: "string \<Rightarrow> json \<Rightarrow> bool" where
  "is_method m val = (case as_str (jget val ''method'') of Some s \<Rightarrow> s = m | None \<Rightarrow> False)"

definition is_init_secure_api :: "json \<Rightarrow> bool" where
  "is_init_secure_api val = is_method ''init_secure_api'' val"

definition is_open_wallet :: "json \<Rightarrow> bool" where
  "is_open_wallet val = is_method ''open_wallet'' val"

definition is_encrypted_request :: "json \<Rightarrow> bool" where
  "is_encrypted_request val = is_method ''encrypted_request_v3'' val"

definition encryption_enabled :: "SecretKey option \<Rightarrow> bool" where
  "encryption_enabled key \<longleftrightarrow> key \<noteq> None"

definition check_encryption_started :: "api_ext \<Rightarrow> SecretKey option \<Rightarrow> json + unit" where
  "check_encryption_started A key =
     (if encryption_enabled key then Inr ()
      else Inl (error_as_json_value A (error_response_new (RpcInteger 1) (-32001)
             ''Encryption must be enabled. Please call 'init_secure_api` first'')))"

definition update_owner_api_shared_key :: "json \<Rightarrow> SecretKey option \<Rightarrow> SecretKey option \<Rightarrow> SecretKey option" where
  "update_owner_api_shared_key val new_key key =
     (if as_str (jget (jget val ''result'') ''Ok'') \<noteq> None then new_key else key)"

definition update_mask :: "api_ext \<Rightarrow> json \<Rightarrow> SecretKey option \<Rightarrow> SecretKey option" where
  "update_mask A val m = (case as_str (jget (jget val ''result'') ''Ok'') of
      None \<Rightarrow> m
    | Some key \<Rightarrow> (case api_from_hex A key of
          None \<Rightarrow> m
        | Some key_bytes \<Rightarrow> (case api_sk_from_slice A key_bytes of None \<Rightarrow> m | Some sk \<Rightarrow> Some sk)))"

text \<open>
  A request that cannot be answered is answered with an error value, on the left; a missing
  key fails the \<open>unwrap\<close>, which is \<open>None\<close>.
\<close>

definition error_value :: "api_ext \<Rightarrow> int \<Rightarrow> string \<Rightarrow> json" where
  "error_value A code message = error_as_json_value A (error_response_new (RpcInteger 1) code message)"

definition decrypt_request :: "ext \<Rightarrow> api_ext \<Rightarrow> SecretKey option \<Rightarrow> json \<Rightarrow> (json + RpcId \<times> json) option" where
  "decrypt_request E A key req = (case key of
      None \<Rightarrow> None
    | Some shared_key \<Rightarrow> Some
        (case request_of_value A req of
           Inl e \<Rightarrow> Inl (error_value A (-32002) (''Encrypted request format error: '' @ e))
         | Inr enc_req \<Rightarrow>
             (case request_decrypt A enc_req shared_key of
                Inl e \<Rightarrow> Inl (error_value A (-32002) (''Decryption error: '' @ error_fmt E e))
              | Inr v \<Rightarrow> Inr (er_id enc_req, v))))"

definition encrypt_response :: "ext \<Rightarrow> api_ext \<Rightarrow> SecretKey option \<Rightarrow> RpcId \<Rightarrow> json \<Rightarrow> (json + json) option" where
  "encrypt_response E A key i res = (case key of
      None \<Rightarrow> None
    | Some shared_key \<Rightarrow> Some
        (case response_from_json A i res shared_key of
           Inl e \<Rightarrow> Inl (error_value A (-32003) (''EncryptionError: '' @ error_fmt E e))
         | Inr enc_res \<Rightarrow>
             (case response_as_json_value A enc_res of
                Inl e \<Rightarrow> Inl (error_value A (-32002) (''Encrypted response format error: '' @ error_fmt E e))
              | Inr v \<Rightarrow> Inr v)))"

text \<open>The last pair of the map, in the order it is iterated; nothing for an empty one.\<close>

definition last_pair :: "('a \<Rightarrow> string) \<Rightarrow> (string \<times> 'a) list \<Rightarrow> string" where
  "last_pair show_value h = foldl (\<lambda>r (k, v). k @ '': '' @ show_value v) [] h"

definition error_string :: "api_ext \<Rightarrow> json \<Rightarrow> string option" where
  "error_string A e = (case e of
      JObj _ \<Rightarrow>
        (case string_map_of_value A e of
           Some h \<Rightarrow> Some (last_pair id (string_map_order A h))
         | None \<Rightarrow> map_option (\<lambda>h. last_pair (json_display A) (value_map_order A h)) (value_map_of_value A e))
    | JStr s \<Rightarrow> Some s
    | _ \<Rightarrow> None)"

definition check_error_response :: "api_ext \<Rightarrow> json \<Rightarrow> bool \<times> json" where
  "check_error_response A val = (case error_string A (jget (jget val ''result'') ''Err'') of
      Some s \<Rightarrow> (True, JObj [(''jsonrpc'', JStr ''2.0''), (''id'', jget val ''id''),
                   (''error'', JObj [(''message'', JStr s), (''code'', JInt (-32099))])])
    | None \<Rightarrow> (False, val))"

text \<open>The handler's own key, the mask it shares with the foreign API, and the owner with its key.\<close>

record 'w owner_handler =
  oh_shared_key :: "SecretKey option"
  oh_keychain_mask :: "SecretKey option"
  oh_api_key :: "SecretKey option"
  oh_api :: 'w

text \<open>What the dispatch of a method call answers; nothing when it panicked.\<close>

datatype MaybeReply = Reply json | DontReply

type_synonym 'w rpc = "json \<Rightarrow> 'w \<times> SecretKey option \<Rightarrow> MaybeReply option \<times> 'w \<times> SecretKey option"

text \<open>
  What is run on a request in the clear, with whether and under which id it came encrypted:
  the replies are encrypted under the key the handler had, then a new key is taken over.
\<close>

definition run_request ::
    "ext \<Rightarrow> api_ext \<Rightarrow> bool \<Rightarrow> 'w rpc \<Rightarrow> RpcId option \<Rightarrow> json \<Rightarrow> 'w owner_handler \<Rightarrow> json option \<times> 'w owner_handler" where
  "run_request E A running_foreign rpc encrypted val h =
     (case rpc val (oh_api h, oh_api_key h) of (reply, api, api_key) \<Rightarrow>
      (let h = h\<lparr>oh_api := api, oh_api_key := api_key\<rparr> in
       case reply of
         None \<Rightarrow> (None, h)
       | Some DontReply \<Rightarrow> (Some (JArr []), h)
       | Some (Reply r) \<Rightarrow>
           (let unencrypted_intercept = snd (check_error_response A r);
                h = (if is_open_wallet val \<and> running_foreign
                     then h\<lparr>oh_keychain_mask := update_mask A r (oh_keychain_mask h)\<rparr> else h);
                finish = (\<lambda>r. (Some r, if is_init_secure_api val
                     then h\<lparr>oh_shared_key := update_owner_api_shared_key unencrypted_intercept (oh_api_key h) (oh_shared_key h)\<rparr>
                     else h))
            in case encrypted of
                 None \<Rightarrow> finish r
               | Some i \<Rightarrow>
                   (case encrypt_response E A (oh_shared_key h) i unencrypted_intercept of
                      None \<Rightarrow> (None, h)
                    | Some (Inl v) \<Rightarrow> (Some v, h)
                    | Some (Inr v) \<Rightarrow> finish v))))"

definition call_api ::
    "ext \<Rightarrow> api_ext \<Rightarrow> bool \<Rightarrow> 'w rpc \<Rightarrow> json \<Rightarrow> 'w owner_handler \<Rightarrow> json option \<times> 'w owner_handler" where
  "call_api E A running_foreign rpc val h =
     (if is_init_secure_api val then run_request E A running_foreign rpc None val h
      else (case check_encryption_started A (oh_shared_key h) of
          Inl v \<Rightarrow> (Some v, h)
        | Inr _ \<Rightarrow> (case decrypt_request E A (oh_shared_key h) val of
              None \<Rightarrow> (None, h)
            | Some (Inl e) \<Rightarrow> (Some e, h)
            | Some (Inr (i, val)) \<Rightarrow> run_request E A running_foreign rpc (Some i) val h)))"

end
