(* ===== verification/SecureApiProps.thy ===== *)
theory SecureApiProps
  imports SecureApi WitnessEnv EpicboxProps
begin

text \<open>
  The secure owner API runs nothing that was not encrypted under the session's key, answers
  under that key, and both sides of its key agreement hold the same key.
\<close>

section \<open>What does not decrypt is not run\<close>

text \<open>The plaintext a request carries under a key, if it carries one.\<close>

definition opens_under :: "api_ext \<Rightarrow> SecretKey \<Rightarrow> json \<Rightarrow> json \<Rightarrow> bool" where
  "opens_under A k val v \<longleftrightarrow> (\<exists>r. request_of_value A val = Inr r \<and> request_decrypt A r k = Inr v)"

lemma decrypt_request_closed:
  assumes "\<nexists>v. opens_under A k val v"
  obtains msg where "decrypt_request E A (Some k) val = Some (Inl (error_value A (-32002) msg))"
proof (cases "request_of_value A val")
  case (Inl e)
  then show thesis by (intro that[of "''Encrypted request format error: '' @ e"]) (simp add: decrypt_request_def)
next
  case (Inr r)
  with assms obtain e where "request_decrypt A r k = Inl e"
    by (cases "request_decrypt A r k") (auto simp: opens_under_def)
  with Inr show thesis
    by (intro that[of "''Decryption error: '' @ error_fmt E e"]) (simp add: decrypt_request_def)
qed

lemma decrypt_request_open:
  assumes "request_of_value A val = Inr r" "request_decrypt A r k = Inr v"
  shows "decrypt_request E A (Some k) val = Some (Inr (er_id r, v))"
  using assms by (simp add: decrypt_request_def)


section \<open>Encrypted bodies\<close>

text \<open>
  What the libraries document: text forms are read back as what was written, the cipher opens
  what it sealed under the same key and nonce and leaves its tag of 16 bytes, a nonce has 12
  bytes, and a serialised request keeps its method.
\<close>

definition api_laws :: "api_ext \<Rightarrow> bool" where
  "api_laws A \<longleftrightarrow>
     (\<forall>j t. json_to_string A j = Some t \<longrightarrow> json_of_string A t = Some j \<and> text_of_utf8 A (str_bytes t) = Some t) \<and>
     (\<forall>key nonce m c. aes_seal A key nonce m = Some c \<longrightarrow>
        (\<exists>tag. length tag = 16 \<and> aes_open A key nonce c = Some (m @ tag))) \<and>
     (\<forall>b. b64_decode A (b64_encode A b) = Some b) \<and>
     (\<forall>b. api_from_hex A (api_to_hex A b) = Some b) \<and> length (api_nonce A) = 12 \<and>
     (\<forall>r v. request_to_value A r = Some v \<longrightarrow> request_of_value A v = Inr r \<and> jget v ''method'' = JStr (er_method r))"

lemma api_err_Inr: "api_err e x = Inr y \<longleftrightarrow> x = Some y"
  by (simp add: api_err_def or_err_def split: option.splits)

lemma body_round_trip:
  assumes "api_laws A" "body_from_json A j k = Inr b"
  shows "body_decrypt A b k = Inr j"
proof -
  obtain doc sealed where j: "json_to_string A j = Some doc"
    and s: "aes_seal A k (api_nonce A) (str_bytes doc) = Some sealed"
    and b: "b = \<lparr>eb_nonce = api_to_hex A (api_nonce A), eb_body_enc = b64_encode A sealed\<rparr>"
    using assms(2) by (auto simp: body_from_json_def and_then_eq_Inr api_err_Inr)
  obtain tag where "length tag = 16" "aes_open A k (api_nonce A) sealed = Some (str_bytes doc @ tag)"
    using assms(1) s unfolding api_laws_def by metis
  moreover have "json_of_string A doc = Some j" "text_of_utf8 A (str_bytes doc) = Some doc"
    using assms(1) j unfolding api_laws_def by blast+
  moreover have "b64_decode A (b64_encode A sealed) = Some sealed" "length (api_nonce A) = 12"
    "api_from_hex A (api_to_hex A (api_nonce A)) = Some (api_nonce A)"
    using assms(1) unfolding api_laws_def by blast+
  ultimately show ?thesis using b by (simp add: body_decrypt_def api_err_def or_err_def)
qed

lemma request_opens:
  assumes "api_laws A" "request_from_json A i v k = Inr r" "request_to_value A r = Some val"
  shows "request_of_value A val = Inr r" "request_decrypt A r k = Inr v" "er_id r = i" "\<not> is_init_secure_api val"
proof -
  obtain b where b: "body_from_json A v k = Inr b"
    and r: "r = \<lparr>er_jsonrpc = ''2.0'', er_method = ''encrypted_request_v3'', er_id = i, er_params = b\<rparr>"
    using assms(2) by (auto simp: request_from_json_def and_then_eq_Inr)
  have l: "request_of_value A val = Inr r" "jget val ''method'' = JStr (er_method r)"
    using assms(1,3) unfolding api_laws_def by blast+
  then show "request_of_value A val = Inr r" "er_id r = i" "\<not> is_init_secure_api val"
    using r by (simp_all add: is_init_secure_api_def is_method_def as_str_def)
  show "request_decrypt A r k = Inr v"
    using body_round_trip[OF assms(1) b] r by (simp add: request_decrypt_def)
qed

lemma response_opens:
  assumes "api_laws A" "response_from_json A i v k = Inr r"
  shows "es_id r = i" "response_decrypt A r k = Inr v"
  using assms body_round_trip[OF assms(1)]
  by (auto simp: response_from_json_def response_decrypt_def and_then_eq_Inr)

text \<open>An encrypted request is run on its plaintext and answered under the same key and id.\<close>

theorem encrypted_call_round_trip:
  assumes "api_laws A" and key: "oh_shared_key h = Some k"
    and req: "request_from_json A i v k = Inr r" "request_to_value A r = Some val"
    and run: "rpc v (oh_api h, oh_api_key h) = (Some (Reply reply), api, api_key)"
    and res: "response_from_json A i (snd (check_error_response A reply)) k = Inr resp"
      "response_to_value A resp = Some out"
  shows "\<exists>h'. call_api E A rf rpc val h = (Some out, h') \<and> oh_api h' = api \<and> oh_api_key h' = api_key \<and>
    (\<not> is_init_secure_api v \<longrightarrow> oh_shared_key h' = Some k) \<and>
    es_id resp = i \<and> response_decrypt A resp k = Inr (snd (check_error_response A reply))"
proof -
  note r = request_opens[OF assms(1) req] and o' = response_opens[OF assms(1) res(1)]
  have e: "encrypt_response E A (Some k) i (snd (check_error_response A reply)) = Some (Inr out)"
    using res by (simp add: encrypt_response_def response_as_json_value_def api_err_def or_err_def)
  have "call_api E A rf rpc val h = run_request E A rf rpc (Some i) v h"
    using r key by (simp add: call_api_def check_encryption_started_def encryption_enabled_def decrypt_request_open)
  also have "\<exists>h'. \<dots> = (Some out, h') \<and> oh_api h' = api \<and> oh_api_key h' = api_key \<and>
      (\<not> is_init_secure_api v \<longrightarrow> oh_shared_key h' = Some k)"
    using run e key by (simp add: run_request_def Let_def)
  finally show ?thesis using o' by auto
qed

section \<open>Key agreement\<close>

text \<open>
  What a client of public key \<open>pk_of_secret C c\<close> computes from the server's answer.
\<close>

definition client_key :: "crypto_ext \<Rightarrow> api_ext \<Rightarrow> SecretKey \<Rightarrow> PublicKey \<Rightarrow> SecretKey option" where
  "client_key C A c server = (case pk_mul C server c of None \<Rightarrow> None
      | Some s \<Rightarrow> api_sk_from_slice A (drop 1 (pk_serialize C s)))"

theorem init_secure_api_agrees:
  assumes "pk_mul C (pk_of_secret C c) s = pk_mul C (pk_of_secret C s) c"
  shows "case init_secure_api C A s (pk_of_secret C c) key of
      (Inr server, key') \<Rightarrow> key' \<noteq> None \<and> client_key C A c server = key'
    | (Inl _, key') \<Rightarrow> key' = key \<and> client_key C A c (pk_of_secret C s) = None"
  using assms by (auto simp: init_secure_api_def client_key_def bindE_app or_err_def split: option.splits sum.splits prod.splits)

section \<open>Witnesses\<close>

text \<open>
  One method call and one reply, written as their first letters; requests and responses of the
  one session are written as two fixed values.
\<close>

definition a_call :: json where
  "a_call = JObj [(''method'', JStr ''node_height''), (''id'', JInt 1)]"

definition a_reply :: json where
  "a_reply = JObj [(''id'', JInt 1), (''result'', JObj [(''Ok'', JInt 100)])]"

definition a_body :: "json \<Rightarrow> EncryptedBody" where
  "a_body j = \<lparr>eb_nonce = replicate 12 CHR ''n'',
     eb_body_enc = (if j = a_call then CHR ''c'' else CHR ''r'') # replicate 16 CHR ''t''\<rparr>"

definition a_request :: EncryptedRequest where
  "a_request = \<lparr>er_jsonrpc = ''2.0'', er_method = ''encrypted_request_v3'', er_id = RpcInteger 1, er_params = a_body a_call\<rparr>"

definition request_json :: json where
  "request_json = JObj [(''method'', JStr ''encrypted_request_v3'')]"

definition byte_str :: "bytes \<Rightarrow> string" where
  "byte_str bs = map (\<lambda>b. char_of (unat b)) bs"

definition sample_api :: api_ext where
  "sample_api = \<lparr>json_to_string = (\<lambda>j. if j = a_call then Some ''c'' else if j = a_reply then Some ''r'' else None),
     json_of_string = (\<lambda>s. if s = ''c'' then Some a_call else if s = ''r'' then Some a_reply else None),
     json_display = (\<lambda>_. []), text_of_utf8 = (\<lambda>b. Some (byte_str b)),
     aes_seal = (\<lambda>_ _ m. Some (m @ str_bytes (replicate 16 CHR ''t''))), aes_open = (\<lambda>_ _ c. Some c),
     b64_encode = byte_str, b64_decode = (\<lambda>s. Some (str_bytes s)),
     api_to_hex = byte_str, api_from_hex = (\<lambda>s. Some (str_bytes s)), api_nonce = str_bytes (replicate 12 CHR ''n''),
     body_to_value = (\<lambda>_. None),
     request_to_value = (\<lambda>r. if r = a_request then Some request_json else None),
     request_of_value = (\<lambda>v. if v = request_json then Inr a_request else Inl ''missing field''),
     response_to_value = (\<lambda>r. Some (JStr ''response'')), error_to_value = (\<lambda>_. None),
     string_map_of_value = (\<lambda>_. None), value_map_of_value = (\<lambda>_. None),
     string_map_order = id, value_map_order = id, api_sk_from_slice = Some\<rparr>"

lemma byte_of_char: "unat (of_char c :: u8) = of_char c"
proof -
  have "unat (of_nat (of_char c) :: u8) = of_char c"
    by (simp add: unsigned_of_nat take_bit_eq_mod)
  then show ?thesis by (simp only: of_nat_of_char)
qed

lemma byte_str_id: "byte_str (str_bytes s) = s" "str_bytes (byte_str bs) = bs"
proof -
  have "char_of (unat (of_char c :: u8)) = c" for c by (simp add: byte_of_char)
  then show "byte_str (str_bytes s) = s" by (simp add: byte_str_def str_bytes_def o_def)
  have "of_char (char_of (unat b) :: char) = (b :: u8)" for b
  proof -
    have "unat b < 256" using unsigned_less[of b] by simp
    then have "unat (of_char (char_of (unat b)) :: u8) = unat b" by (simp add: byte_of_char)
    then show ?thesis by (rule unsigned_word_eqI)
  qed
  then show "str_bytes (byte_str bs) = bs" by (simp add: byte_str_def str_bytes_def o_def)
qed

lemma bytes_simps: "byte_str (a @ b) = byte_str a @ byte_str b" "length (str_bytes s) = length s"
  by (simp_all add: byte_str_def str_bytes_def)

lemma sample_api_laws: "api_laws sample_api"
  unfolding api_laws_def
proof (intro conjI allI impI)
  fix j t assume "json_to_string sample_api j = Some t"
  then have "t = ''c'' \<and> j = a_call \<or> t = ''r'' \<and> j = a_reply" by (simp add: sample_api_def split: if_splits)
  then show "json_of_string sample_api t = Some j"
    "text_of_utf8 sample_api (str_bytes t) = Some t" by (auto simp: sample_api_def byte_str_id)
next
  fix r v assume "request_to_value sample_api r = Some v"
  then show "request_of_value sample_api v = Inr r" "jget v ''method'' = JStr (er_method r)"
    by (auto simp: sample_api_def a_request_def request_json_def jget_def split: if_splits)
qed (simp_all add: sample_api_def byte_str_id bytes_simps)

definition a_handler :: "nat owner_handler" where
  "a_handler = \<lparr>oh_shared_key = Some [7], oh_keychain_mask = None, oh_api_key = Some [7], oh_api = 0\<rparr>"


theorem encrypted_call_round_trip_witness:
  "\<exists>h' resp. call_api the_ext sample_api False (\<lambda>_ (n, k). (Some (Reply a_reply), n + 1, k)) request_json a_handler
      = (Some (JStr ''response''), h') \<and> oh_api h' = 1 \<and> response_decrypt sample_api resp [7] = Inr a_reply"
proof -
  have [simp]: "a_reply \<noteq> a_call" "snd (check_error_response sample_api a_reply) = a_reply"
    by (simp_all add: a_reply_def a_call_def check_error_response_def error_string_def jget_def)
  have req: "request_from_json sample_api (RpcInteger 1) a_call [7] = Inr a_request"
    by (simp add: request_from_json_def body_from_json_def api_err_def or_err_def a_request_def a_body_def
        sample_api_def byte_str_id bytes_simps)
  obtain resp where resp: "response_from_json sample_api (RpcInteger 1) a_reply [7] = Inr resp"
    by (simp add: response_from_json_def body_from_json_def api_err_def or_err_def sample_api_def)
  show ?thesis
    using encrypted_call_round_trip[of sample_api a_handler "[7]" "RpcInteger 1" a_call a_request request_json
        "\<lambda>_ (n, k). (Some (Reply a_reply), n + 1, k)" a_reply 1 "Some [7]" resp "JStr ''response''" the_ext False]
      sample_api_laws req resp by (auto simp: a_handler_def) (auto simp: sample_api_def)
qed

theorem init_secure_api_agrees_witness:
  "case init_secure_api sample_crypto sample_api [5] (pk_of_secret sample_crypto [6]) None of
      (Inr server, key') \<Rightarrow> key' \<noteq> None \<and> client_key sample_crypto sample_api [6] server = key'
    | (Inl _, key') \<Rightarrow> key' = None \<and> client_key sample_crypto sample_api [6] (pk_of_secret sample_crypto [5]) = None"
  by (rule init_secure_api_agrees) (simp add: sample_crypto_def)

end
