(* ===== verification/Config.thy ===== *)
theory Config
  imports Text
begin

text \<open>
  The configuration of a wallet, \<open>config/src/types.rs\<close>: the records, their defaults and the
  addresses derived from them. The logging configuration belongs to a foreign crate and is a
  type parameter.
\<close>

datatype ChainTypes = AutomatedTesting | UserTesting | Floonet | Mainnet

record WalletConfig =
  wc_chain_type :: "ChainTypes option"
  wc_api_listen_interface :: string
  wc_api_listen_port :: u16
  wc_owner_api_listen_port :: "u16 option"
  wc_owner_api_interface :: "string option"
  wc_api_secret_path :: "string option"
  wc_node_api_secret_path :: "string option"
  wc_check_node_api_http_addr :: string
  wc_owner_api_include_foreign :: "bool option"
  wc_data_file_dir :: string
  wc_no_commit_cache :: "bool option"
  wc_tls_certificate_file :: "string option"
  wc_tls_certificate_key :: "string option"
  wc_dark_background_color_scheme :: "bool option"
  wc_keybase_notify_ttl :: "u16 option"

definition default_owner_api_listen_port :: u16 where "default_owner_api_listen_port = 3420"

definition default_owner_api_interface :: string where "default_owner_api_interface = ''127.0.0.1''"

definition wallet_config_default :: WalletConfig where
  "wallet_config_default =
     \<lparr>wc_chain_type = Some Mainnet, wc_api_listen_interface = ''127.0.0.1'', wc_api_listen_port = 3415,
      wc_owner_api_listen_port = Some default_owner_api_listen_port,
      wc_owner_api_interface = Some default_owner_api_interface,
      wc_api_secret_path = Some ''.owner_api_secret'', wc_node_api_secret_path = Some ''.api_secret'',
      wc_check_node_api_http_addr = ''http://127.0.0.1:3413'', wc_owner_api_include_foreign = Some False,
      wc_data_file_dir = ''.'', wc_no_commit_cache = Some False, wc_tls_certificate_file = None,
      wc_tls_certificate_key = None, wc_dark_background_color_scheme = Some True, wc_keybase_notify_ttl = Some 1440\<rparr>"

definition api_listen_addr :: "WalletConfig \<Rightarrow> string" where
  "api_listen_addr c = wc_api_listen_interface c @ '':'' @ decimal (unat (wc_api_listen_port c))"

definition owner_api_listen_port :: "WalletConfig \<Rightarrow> u16" where
  "owner_api_listen_port c = (case wc_owner_api_listen_port c of Some p \<Rightarrow> p | None \<Rightarrow> default_owner_api_listen_port)"

definition owner_api_interface :: "WalletConfig \<Rightarrow> string" where
  "owner_api_interface c = (case wc_owner_api_interface c of Some i \<Rightarrow> i | None \<Rightarrow> default_owner_api_interface)"

definition owner_api_listen_addr :: "WalletConfig \<Rightarrow> string" where
  "owner_api_listen_addr c = owner_api_interface c @ '':'' @ decimal (unat (owner_api_listen_port c))"

record TorConfig =
  tc_use_tor_listener :: bool
  tc_socks_proxy_addr :: string
  tc_send_config_dir :: string

definition tor_config_default :: TorConfig where
  "tor_config_default = \<lparr>tc_use_tor_listener = True, tc_socks_proxy_addr = ''127.0.0.1:9050'', tc_send_config_dir = ''.''\<rparr>"

record EpicboxConfig =
  ec_domain :: "string option"
  ec_port :: "u16 option"
  ec_protocol_unsecure :: "bool option"
  ec_address_index :: "u32 option"

definition epicbox_config_default :: EpicboxConfig where
  "epicbox_config_default = \<lparr>ec_domain = Some ''epicbox.epiccash.com'', ec_port = Some 443,
     ec_protocol_unsecure = Some False, ec_address_index = Some 0\<rparr>"

datatype ConfigError =
    ParseError string string
  | FileIOError string string
  | FileNotFoundError string
  | SerializationError string

definition config_error_fmt :: "ConfigError \<Rightarrow> string" where
  "config_error_fmt e = (case e of
      ParseError p m \<Rightarrow> ''Error parsing configuration file at '' @ p @ '' - '' @ m
    | FileIOError a m \<Rightarrow> m @ '' '' @ a
    | FileNotFoundError p \<Rightarrow> ''Configuration file not found: '' @ p
    | SerializationError m \<Rightarrow> ''Error serializing configuration: '' @ m)"

definition config_error_of_io :: "string \<Rightarrow> ConfigError" where
  "config_error_of_io e = FileIOError [] (''Error loading config file: '' @ e)"

record 'l GlobalWalletConfigMembers =
  gm_wallet :: WalletConfig
  gm_tor :: "TorConfig option"
  gm_epicbox :: "EpicboxConfig option"
  gm_logging :: "'l option"

record 'l GlobalWalletConfig =
  gc_config_file_path :: "string option"
  gc_members :: "'l GlobalWalletConfigMembers option"

end
