(* ===== verification/EpicboxClient.thy ===== *)
theory EpicboxClient
  imports Owner Lifecycle Epicbox Config
begin

text \<open>
  Slates over epicbox: the requests and responses of \<open>impls/src/epicbox/protocol.rs\<close>, and the
  listener and sender of \<open>impls/src/adapters/epicbox.rs\<close>. A relay keeps the messages for a
  wallet; the wallet subscribes by signing the relay's challenge, is handed slates, runs them
  against its wallet, answers the sender through the relay and acknowledges each message.

  The state is the wallet's provider with the client's fields and the list of what was done to
  the outside, in order: requests written to the socket and transactions posted. The socket
  and the JSON of the messages are fields of \<open>epicbox_ext\<close>.
\<close>

section \<open>The protocol\<close>

datatype ProtocolError =
    UnknownError | InvalidRequest | InvalidSignature | InvalidChallenge | TooManySubscriptions

definition protocol_error_fmt :: "ProtocolError \<Rightarrow> string" where
  "protocol_error_fmt e = (case e of
      UnknownError \<Rightarrow> ''unknown error!'' | InvalidRequest \<Rightarrow> ''invalid request!''
    | InvalidSignature \<Rightarrow> ''invalid signature!'' | InvalidChallenge \<Rightarrow> ''invalid challenge!''
    | TooManySubscriptions \<Rightarrow> ''too many subscriptions!'')"

text \<open>The fields of each request in the order of the source.\<close>

datatype ProtocolRequest =
    ReqChallenge
  | ReqSubscribe string string
  | ReqPostSlate string string string string
  | ReqUnsubscribe string

datatype ProtocolRequestV2 =
    V2Challenge
  | V2Subscribe string string string
  | V2PostSlate string string string string
  | V2Unsubscribe string
  | V2Made string string string string
  | V2ClientDetails string string string

definition request_fmt :: "ProtocolRequest \<Rightarrow> string" where
  "request_fmt r = (case r of
      ReqChallenge \<Rightarrow> ''Challenge''
    | ReqSubscribe address _ \<Rightarrow> ''Subscribe to '' @ address
    | ReqUnsubscribe address \<Rightarrow> ''Unsubscribe from '' @ address
    | ReqPostSlate from to _ _ \<Rightarrow> ''PostSlate from '' @ from @ '' to '' @ to)"

definition request_v2_fmt :: "ProtocolRequestV2 \<Rightarrow> string" where
  "request_v2_fmt r = (case r of
      V2Challenge \<Rightarrow> ''Challenge''
    | V2Subscribe address _ _ \<Rightarrow> ''Subscribe to '' @ address
    | V2Unsubscribe address \<Rightarrow> ''Unsubscribe from '' @ address
    | V2PostSlate from to _ _ \<Rightarrow> ''PostSlate from '' @ from @ '' to '' @ to
    | V2Made _ _ _ epicboxmsgid \<Rightarrow> ''Made for to '' @ epicboxmsgid
    | V2ClientDetails wallet_version wallet_mode protocol_version \<Rightarrow>
        ''Wallet Version '' @ wallet_version @ '', Wallet Mode '' @ wallet_mode @ '', Protocol Version '' @ protocol_version)"

datatype ProtocolResponse =
    RespOk
  | RespError ProtocolError string
  | RespChallenge string
  | RespSlate string string string string

datatype ProtocolResponseV2 =
    V2Ok
  | V2Error ProtocolError string
  | V2ResponseChallenge string
  | V2Slate string string string string string string
  | V2GetVersion string

definition response_fmt :: "ProtocolResponse \<Rightarrow> string" where
  "response_fmt r = (case r of
      RespOk \<Rightarrow> ''Ok''
    | RespError kind _ \<Rightarrow> ''error: '' @ protocol_error_fmt kind
    | RespChallenge s \<Rightarrow> ''Challenge '' @ s
    | RespSlate from _ _ _ \<Rightarrow> ''Slate from '' @ from)"

definition response_v2_fmt :: "ProtocolResponseV2 \<Rightarrow> string" where
  "response_v2_fmt r = (case r of
      V2Ok \<Rightarrow> ''Ok''
    | V2Error kind _ \<Rightarrow> ''error: '' @ protocol_error_fmt kind
    | V2ResponseChallenge s \<Rightarrow> ''Challenge '' @ s
    | V2GetVersion s \<Rightarrow> ''Version '' @ s
    | V2Slate from _ _ _ _ epicboxmsgid \<Rightarrow> ''Slate from '' @ from @ '' with epicboxmsgid '' @ epicboxmsgid)"

section \<open>State and environment\<close>

definition EPICBOX_PROTOCOL_VERSION :: string where
  "EPICBOX_PROTOCOL_VERSION = ''3.0.0''"

definition CONNECTION_ERR_MSG :: string where
  "CONNECTION_ERR_MSG = CHR 0x0A # ''Can't connect to the epicbox server!'' @ [CHR 0x0A] @
     ''Check your epic-wallet.toml settings and make sure epicbox domain is correct.'' @ [CHR 0x0A]"

definition DEFAULT_EPICBOX_PORT_80 :: u16 where
  "DEFAULT_EPICBOX_PORT_80 = 80"

text \<open>What is done to the outside.\<close>

datatype action =
    SentV1 ProtocolRequest
  | SentV2 ProtocolRequestV2
  | PostedTx Transaction bool
  | PostedTor Transaction string
  | ClosedSocket

record epicbox_state =
  bx_provider :: provider
  bx_challenge :: "string option"
  bx_first_run :: bool
  bx_reconnections :: u32
  bx_done :: "action list"

type_synonym 'a ebx_op = "(epicbox_state, impls_error, 'a) proc"

text \<open>
  \<open>ws_send\<close> and \<open>ws_close\<close> are the failures of a write and of closing when so many actions were
  done before; \<open>done_alive\<close> says whether the channel told of an acknowledged message still has
  its receiver. \<open>xe_post_tx_tor\<close> and \<open>xe_get_onion_addresses\<close> are the remaining queries of the
  node client; \<open>xe_mempool\<close> its answers while the mempool is polled.
\<close>

record epicbox_ext =
  xe_read_message :: "string \<Rightarrow> EncryptedMessage option"
  xe_read_slate :: "string \<Rightarrow> VersionedSlate option"
  xe_write_message :: "EncryptedMessage \<Rightarrow> string"
  xe_write_slate :: "VersionedSlate \<Rightarrow> string"
  xe_read_response :: "string \<Rightarrow> ProtocolResponseV2 option"
  ws_connect :: "string \<Rightarrow> string option"
  ws_send :: "nat \<Rightarrow> string option"
  ws_close :: "nat \<Rightarrow> string option"
  done_alive :: bool
  xe_get_onion_addresses :: "error + string list"
  xe_shuffle :: "string list \<Rightarrow> string list"
  xe_post_tx_tor :: "Transaction \<Rightarrow> string \<Rightarrow> error + unit"
  xe_mempool :: "(error + PoolEntry list) list"
  xe_error_debug :: "error \<Rightarrow> string"
  pkg_version :: string

definition panics :: "impls_error \<Rightarrow> bool" where
  "panics e = (case e of ImplsPanic _ \<Rightarrow> True | ImplsDiverges \<Rightarrow> True | _ \<Rightarrow> False)"

text \<open>The outcome of a step that is looked at; a panic goes on.\<close>

definition outcome :: "'a ebx_op \<Rightarrow> (impls_error + 'a) ebx_op" where
  "outcome m s = (case m s of
      (Inl e, s') \<Rightarrow> (if panics e then Inl e else Inr (Inl e), s')
    | (Inr x, s') \<Rightarrow> (Inr (Inr x), s'))"

definition on_wallet :: "'a op \<Rightarrow> 'a ebx_op" where
  "on_wallet m s = (case with_wallet m (bx_provider s) of (r, p) \<Rightarrow> (lib_result r, s\<lparr>bx_provider := p\<rparr>))"

definition act :: "action \<Rightarrow> unit ebx_op" where
  "act a = modify (\<lambda>s. s\<lparr>bx_done := bx_done s @ [a]\<rparr>)"

section \<open>Sending\<close>

text \<open>A write to the socket: the error of the socket, or the request is sent.\<close>

definition ws_write :: "epicbox_ext \<Rightarrow> action \<Rightarrow> (string + unit) ebx_op" where
  "ws_write X a = bindE (gets (\<lambda>s. ws_send X (length (bx_done s)))) (\<lambda>failure. case failure of
      Some e \<Rightarrow> ret (Inl e)
    | None \<Rightarrow> bindE (act a) (\<lambda>_. ret (Inr ())))"

definition broker_post_slate ::
    "crypto_ext \<Rightarrow> epicbox_ext \<Rightarrow> VersionedSlate \<Rightarrow> EpicboxAddress \<Rightarrow> EpicboxAddress \<Rightarrow> SecretKey \<Rightarrow> unit ebx_op" where
  "broker_post_slate C X slate to from secret_key =
     bindE (liftE (lib_result (epicbox_public_key C to))) (\<lambda>pkey.
     bindE (liftE (lib_result (encrypted_message_new C (xe_write_slate X slate) to pkey secret_key))) (\<lambda>message.
     (let message_ser = xe_write_message X message in
      bindE (liftE (lib_result (sign_challenge C message_ser secret_key))) (\<lambda>signature.
      bindE (ws_write X (SentV1 (ReqPostSlate (epicbox_stripped from) (epicbox_stripped to) message_ser
                 (sig_to_hex C signature)))) (\<lambda>r.
      case r of Inl e \<Rightarrow> throw (ImplsPanic e) | Inr _ \<Rightarrow> ret ())))))"

definition broker_stop :: "epicbox_ext \<Rightarrow> (string + unit) ebx_op" where
  "broker_stop X = bindE (gets (\<lambda>s. ws_close X (length (bx_done s)))) (\<lambda>failure. case failure of
      Some e \<Rightarrow> ret (Inl e)
    | None \<Rightarrow> bindE (act ClosedSocket) (\<lambda>_. ret (Inr ())))"

record EpicboxPublisher =
  ep_address :: EpicboxAddress
  ep_secret_key :: SecretKey
  ep_wallet_mode :: string

definition publisher_post_slate ::
    "crypto_ext \<Rightarrow> epicbox_ext \<Rightarrow> EpicboxPublisher \<Rightarrow> VersionedSlate \<Rightarrow> EpicboxAddress \<Rightarrow> bool \<Rightarrow> unit ebx_op" where
  "publisher_post_slate C X p slate to close_connection =
     bindE (broker_post_slate C X slate to (ep_address p) (ep_secret_key p)) (\<lambda>_.
     if close_connection
     then bindE (broker_stop X) (\<lambda>r. case r of Inl e \<Rightarrow> throw (ImplsPanic e) | Inr _ \<Rightarrow> ret ())
     else ret ())"

definition publish ::
    "crypto_ext \<Rightarrow> epicbox_ext \<Rightarrow> EpicboxPublisher \<Rightarrow> VersionedSlate \<Rightarrow> string \<Rightarrow> unit ebx_op" where
  "publish C X p slate to =
     bindE (liftE (lib_result (epicbox_from_str C to))) (\<lambda>address. publisher_post_slate C X p slate address True)"

text \<open>
  The address of the wallet's first key, and the relay's address. A listener that cannot
  connect fails; a sender panics.
\<close>

definition wallet_epicbox_address ::
    "ext \<Rightarrow> crypto_ext \<Rightarrow> SecretKey option \<Rightarrow> EpicboxConfig \<Rightarrow> (EpicboxAddress \<times> SecretKey) op" where
  "wallet_epicbox_address E C keychain_mask config =
     bindE (keychain E keychain_mask) (\<lambda>k.
     bindE (gets w_parent_key_id) (\<lambda>parent_key_id.
     bindE (liftE (address_from_derivation_path E k parent_key_id 0)) (\<lambda>sec_key.
     bindE (liftE (case pubkey_from_secret E sec_key of
         Inl _ \<Rightarrow> Inl (Panic ''PublicKey::from_secret_key'') | Inr p \<Rightarrow> Inr p)) (\<lambda>pub_key.
     bindE (liftE (or_err Diverges (epicbox_address_new C pub_key (ec_domain config) (ec_port config)))) (\<lambda>address.
     ret (address, sec_key))))))"

definition epicbox_url :: "EpicboxConfig \<Rightarrow> EpicboxAddress \<Rightarrow> string" where
  "epicbox_url config address =
     (if (case ec_protocol_unsecure config of Some b \<Rightarrow> b | None \<Rightarrow> False)
      then ''ws://'' @ ea_domain address @ '':'' @
        decimal (unat (case ea_port address of Some p \<Rightarrow> p | None \<Rightarrow> DEFAULT_EPICBOX_PORT_80))
      else ''wss://'' @ ea_domain address @ '':'' @
        decimal (unat (case ea_port address of Some p \<Rightarrow> p | None \<Rightarrow> DEFAULT_EPICBOX_PORT_443)))"

definition start_epicbox ::
    "ext \<Rightarrow> crypto_ext \<Rightarrow> epicbox_ext \<Rightarrow> SecretKey option \<Rightarrow> EpicboxConfig \<Rightarrow> EpicboxPublisher ebx_op" where
  "start_epicbox E C X keychain_mask config =
     bindE (on_wallet (wallet_epicbox_address E C keychain_mask config)) (\<lambda>(address, sec_key).
     (case ws_connect X (epicbox_url config address) of
        Some _ \<Rightarrow> throw (ImplsPanic CONNECTION_ERR_MSG)
      | None \<Rightarrow> ret \<lparr>ep_address = address, ep_secret_key = sec_key, ep_wallet_mode = ''send''\<rparr>))"

text \<open>
  \<open>EpicboxChannel::send\<close>. The thread that \<open>start_epicbox\<close> leaves listening on the socket takes
  the steps of \<open>subscribe\<close> below.
\<close>

definition channel_send ::
    "ext \<Rightarrow> crypto_ext \<Rightarrow> epicbox_ext \<Rightarrow> string \<Rightarrow> EpicboxConfig option \<Rightarrow> SecretKey option \<Rightarrow> Slate \<Rightarrow> Slate ebx_op" where
  "channel_send E C X dest epicbox_config keychain_mask slate =
     (let config = (case epicbox_config of None \<Rightarrow> epicbox_config_default | Some c \<Rightarrow> c) in
      bindE (start_epicbox E C X keychain_mask config) (\<lambda>publisher.
      bindE (publish C X publisher (into_version slate V2) dest) (\<lambda>_.
      ret (slate_of_versioned (into_version slate V2)))))"

section \<open>A received slate\<close>

definition node_post_tx_act :: "ext \<Rightarrow> Transaction \<Rightarrow> bool \<Rightarrow> unit ebx_op" where
  "node_post_tx_act E tx fluff = bindE (act (PostedTx tx fluff)) (\<lambda>_. liftE (lib_result (post_tx E tx fluff)))"

definition tor_post_tx_act :: "epicbox_ext \<Rightarrow> Transaction \<Rightarrow> string \<Rightarrow> unit ebx_op" where
  "tor_post_tx_act X tx url = bindE (act (PostedTor tx url)) (\<lambda>_. liftE (lib_result (xe_post_tx_tor X tx url)))"

definition post_finalized :: "ext \<Rightarrow> epicbox_ext \<Rightarrow> TorConfig \<Rightarrow> string list \<Rightarrow> Transaction \<Rightarrow> unit ebx_op" where
  "post_finalized E X tor_config onion_addresses tx = (case xe_shuffle X onion_addresses of
      tor_node_url # _ \<Rightarrow>
        if tc_use_tor_listener tor_config
        then bindE (outcome (tor_post_tx_act X tx tor_node_url)) (\<lambda>r. case r of
               Inr _ \<Rightarrow> ret ()
             | Inl _ \<Rightarrow> node_post_tx_act E tx False)
        else node_post_tx_act E tx False
    | [] \<Rightarrow> node_post_tx_act E tx False)"

text \<open>Whether the slate was finalised, with the slate to send back.\<close>

definition process_incoming_slate ::
    "ext \<Rightarrow> epicbox_ext \<Rightarrow> SecretKey option \<Rightarrow> TorConfig \<Rightarrow> string option \<Rightarrow> Slate \<Rightarrow> (bool \<times> Slate) ebx_op" where
  "process_incoming_slate E X keychain_mask tor_config address slate =
     (if sl_num_participants slate > length (sl_participant_data slate) then
        (if b_inputs (tx_body (sl_tx slate)) = [] then ret (False, slate)
         else
           bindE (on_wallet (gets id)) (\<lambda>_.
           bindE (outcome (on_wallet (receive_tx E keychain_mask slate None None address False))) (\<lambda>r. case r of
             Inr ret_slate \<Rightarrow> ret (False, ret_slate)
           | Inl e \<Rightarrow> throw (ImplsEpicboxReceiveTx (case e of ImplsLibWallet e \<Rightarrow> xe_error_debug X e | _ \<Rightarrow> [])))))
      else
        bindE (on_wallet (finalize_tx E keychain_mask slate)) (\<lambda>finalized_slate.
        (let onion_addresses = (case xe_get_onion_addresses X of Inr as \<Rightarrow> as | Inl _ \<Rightarrow> []) in
         bindE (post_finalized E X tor_config onion_addresses (sl_tx finalized_slate)) (\<lambda>_.
         bindE (outcome (on_wallet (wait_for_tx_in_mempool E keychain_mask (sl_id finalized_slate) (take 240 (xe_mempool X))))) (\<lambda>found.
         bindE (if found = Inr True then on_wallet (update_mempool_status E keychain_mask finalized_slate) else ret ()) (\<lambda>_.
         ret (True, slate)))))))"

text \<open>
  \<open>on_slate\<close>: the slate is processed and sent back in the version it came in; every error is
  logged, except one of sending it back, which panics.
\<close>

definition on_slate ::
    "ext \<Rightarrow> crypto_ext \<Rightarrow> epicbox_ext \<Rightarrow> SecretKey option \<Rightarrow> TorConfig \<Rightarrow> EpicboxPublisher \<Rightarrow> EpicboxAddress \<Rightarrow>
     VersionedSlate \<Rightarrow> unit ebx_op" where
  "on_slate E C X keychain_mask tor_config publisher from vslate =
     bindE (outcome (process_incoming_slate E X keychain_mask tor_config (Some (epicbox_fmt from)) (slate_of_versioned vslate))) (\<lambda>r.
     case r of
       Inl _ \<Rightarrow> ret ()
     | Inr (is_finalized, slate) \<Rightarrow>
         if is_finalized then ret ()
         else
           bindE (outcome (publisher_post_slate C X publisher (into_version slate (versioned_slate_version vslate)) from False)) (\<lambda>r.
           case r of Inl _ \<Rightarrow> throw (ImplsPanic ''failed posting slate!'') | Inr _ \<Rightarrow> ret ()))"

section \<open>The subscription\<close>

definition made_send :: "crypto_ext \<Rightarrow> epicbox_ext \<Rightarrow> EpicboxAddress \<Rightarrow> SecretKey \<Rightarrow> string \<Rightarrow> unit ebx_op" where
  "made_send C X address secret_key epicboxmsgid =
     bindE (liftE (lib_result (sign_challenge C epicboxmsgid secret_key))) (\<lambda>signature.
     bindE (ws_write X (SentV2 (V2Made (ea_public_key address) (sig_to_hex C signature) EPICBOX_PROTOCOL_VERSION epicboxmsgid))) (\<lambda>r.
     case r of
       Inr _ \<Rightarrow> if done_alive X then ret () else throw (ImplsPanic ''SendError'')
     | Inl e \<Rightarrow> throw (ImplsEpicboxTungstenite (''Could not send 'Made' request! '' @ e))))"

definition client_details :: "epicbox_ext \<Rightarrow> string \<Rightarrow> unit ebx_op" where
  "client_details X wallet_mode =
     bindE (ws_write X (SentV2 (V2ClientDetails (pkg_version X) wallet_mode EPICBOX_PROTOCOL_VERSION))) (\<lambda>r.
     case r of
       Inr _ \<Rightarrow> ret ()
     | Inl e \<Rightarrow> throw (ImplsEpicboxTungstenite (''Could not send 'ClientDetails' request! '' @ e)))"

definition subscribe_request :: "crypto_ext \<Rightarrow> EpicboxAddress \<Rightarrow> SecretKey \<Rightarrow> string \<Rightarrow> impls_error + ProtocolRequestV2" where
  "subscribe_request C address secret_key challenge =
     and_then (lib_result (sign_challenge C challenge secret_key)) (\<lambda>signature.
     Inr (V2Subscribe (ea_public_key address) EPICBOX_PROTOCOL_VERSION (sig_to_hex C signature)))"

definition on_challenge :: "crypto_ext \<Rightarrow> epicbox_ext \<Rightarrow> EpicboxPublisher \<Rightarrow> string \<Rightarrow> unit ebx_op" where
  "on_challenge C X me s =
     bindE (modify (\<lambda>st. st\<lparr>bx_challenge := Some s\<rparr>)) (\<lambda>_.
     bindE (gets bx_first_run) (\<lambda>first_run.
     bindE (if first_run
            then bindE (client_details X (ep_wallet_mode me)) (\<lambda>_. modify (\<lambda>st. st\<lparr>bx_first_run := False\<rparr>))
            else ret ()) (\<lambda>_.
     bindE (liftE (subscribe_request C (ep_address me) (ep_secret_key me) s)) (\<lambda>request_sub.
     bindE (ws_write X (SentV2 request_sub)) (\<lambda>_. ret ())))))"

text \<open>
  A slate: its message is checked and decrypted, handled, and then acknowledged. The flag says
  whether the loop goes on.
\<close>

definition on_slate_response ::
    "ext \<Rightarrow> crypto_ext \<Rightarrow> epicbox_ext \<Rightarrow> SecretKey option \<Rightarrow> TorConfig \<Rightarrow> EpicboxPublisher \<Rightarrow>
     string \<Rightarrow> string \<Rightarrow> string \<Rightarrow> string \<Rightarrow> bool ebx_op" where
  "on_slate_response E C X keychain_mask tor_config me from s signature epicboxmsgid =
     (case proof_from_response C (xe_read_message X) (xe_read_slate X) from s signature (ep_secret_key me) (Some (ep_address me)) of
        Inl (ProofPanic p) \<Rightarrow> throw (ImplsPanic p)
      | Inl _ \<Rightarrow> ret False
      | Inr (slate, tx_proof) \<Rightarrow>
          bindE (on_slate E C X keychain_mask tor_config me (tp_address tx_proof) slate) (\<lambda>_.
          bindE (gets bx_challenge) (\<lambda>challenge. case challenge of
            None \<Rightarrow> throw (ImplsPanic ''client.challenge'')
          | Some ch \<Rightarrow>
              bindE (liftE (subscribe_request C (ep_address me) (ep_secret_key me) ch)) (\<lambda>request_sub.
              bindE (ws_write X (SentV2 request_sub)) (\<lambda>r. case r of
                Inl _ \<Rightarrow> ret True
              | Inr _ \<Rightarrow> bindE (outcome (made_send C X (ep_address me) (ep_secret_key me) epicboxmsgid)) (\<lambda>_. ret True))))))"

datatype ws_message = WsText string | WsPing | WsPong | WsFrame | WsClose

text \<open>One round of the loop: the node is not synced, a read fails, or a message is read.\<close>

datatype ws_event = NotSynced | ReadError string | ReadMessage ws_message

definition on_response ::
    "ext \<Rightarrow> crypto_ext \<Rightarrow> epicbox_ext \<Rightarrow> SecretKey option \<Rightarrow> TorConfig \<Rightarrow> EpicboxPublisher \<Rightarrow> ProtocolResponseV2 \<Rightarrow> bool ebx_op" where
  "on_response E C X keychain_mask tor_config me response = (case response of
      V2ResponseChallenge s \<Rightarrow> bindE (on_challenge C X me s) (\<lambda>_. ret True)
    | V2Slate from s signature _ _ epicboxmsgid \<Rightarrow>
        on_slate_response E C X keychain_mask tor_config me from s signature epicboxmsgid
    | V2GetVersion _ \<Rightarrow> ret True
    | V2Error _ _ \<Rightarrow> ret True
    | V2Ok \<Rightarrow> ret True)"

definition on_event ::
    "ext \<Rightarrow> crypto_ext \<Rightarrow> epicbox_ext \<Rightarrow> SecretKey option \<Rightarrow> TorConfig \<Rightarrow> EpicboxPublisher \<Rightarrow> ws_event \<Rightarrow> bool ebx_op" where
  "on_event E C X keychain_mask tor_config me e = (case e of
      NotSynced \<Rightarrow> ret True
    | ReadError _ \<Rightarrow>
        bindE (modify (\<lambda>st. st\<lparr>bx_reconnections := bx_reconnections st + 1\<rparr>)) (\<lambda>_.
        bindE (broker_stop X) (\<lambda>_. throw ImplsEpicboxWebsocketAbnormalTermination))
    | ReadMessage (WsText t) \<Rightarrow>
        (case xe_read_response X t of
           None \<Rightarrow> ret False
         | Some response \<Rightarrow>
             bindE (modify (\<lambda>st. st\<lparr>bx_reconnections := 0\<rparr>)) (\<lambda>_.
             on_response E C X keychain_mask tor_config me response))
    | ReadMessage WsClose \<Rightarrow> bindE (broker_stop X) (\<lambda>_. ret False)
    | ReadMessage _ \<Rightarrow> ret True)"

text \<open>
  \<open>subscribe\<close> on the events of a connection so far: an error, the end of the subscription
  (\<open>False\<close>), or still waiting for the next event (\<open>True\<close>).
\<close>

fun subscribe ::
    "ext \<Rightarrow> crypto_ext \<Rightarrow> epicbox_ext \<Rightarrow> SecretKey option \<Rightarrow> TorConfig \<Rightarrow> EpicboxPublisher \<Rightarrow> ws_event list \<Rightarrow> bool ebx_op" where
  "subscribe E C X keychain_mask tor_config me [] = ret True"
| "subscribe E C X keychain_mask tor_config me (e # es) =
     bindE (on_event E C X keychain_mask tor_config me e) (\<lambda>go.
     if go then subscribe E C X keychain_mask tor_config me es else ret False)"

text \<open>\<open>EpicboxListenChannel::listen\<close>.\<close>

definition epicbox_listen ::
    "ext \<Rightarrow> crypto_ext \<Rightarrow> epicbox_ext \<Rightarrow> SecretKey option \<Rightarrow> EpicboxConfig \<Rightarrow> TorConfig \<Rightarrow> ws_event list \<Rightarrow> bool ebx_op" where
  "epicbox_listen E C X keychain_mask config tor_config events =
     bindE (on_wallet (wallet_epicbox_address E C keychain_mask config)) (\<lambda>(address, sec_key).
     (case ws_connect X (epicbox_url config address) of
        Some e \<Rightarrow>
          bindE (modify (\<lambda>st. st\<lparr>bx_reconnections := bx_reconnections st + 1\<rparr>)) (\<lambda>_.
          throw (ImplsEpicboxTungstenite e))
      | None \<Rightarrow>
          bindE (modify (\<lambda>st. st\<lparr>bx_challenge := None, bx_first_run := True\<rparr>)) (\<lambda>_.
          subscribe E C X keychain_mask tor_config
            \<lparr>ep_address = address, ep_secret_key = sec_key, ep_wallet_mode = ''listener''\<rparr> events)))"

end
