(* ===== verification/NodeHttp.thy ===== *)
theory NodeHttp
  imports Json
begin

text \<open>
  The node client over HTTP, \<open>impls/src/node_clients/http.rs\<close>: each query of the trait
  \<open>NodeClient\<close> as a JSON-RPC request to the node and the reading of its answer. The records of
  the crate \<open>epic_api\<close> in an answer are given by the fields the client reads.
\<close>

definition FOREIGN_ENDPOINT :: string where "FOREIGN_ENDPOINT = ''/v2/foreign''"

definition OWNER_ENDPOINT :: string where "OWNER_ENDPOINT = ''/v2/owner''"

definition TOR_ENDPOINT :: string where "TOR_ENDPOINT = ''/v2/tor''"

record NodeVersionInfo =
  nv_node_version :: string
  nv_block_header_version :: u16
  nv_verified :: "bool option"

record GetTipResp =
  gt_height :: u64
  gt_last_block_pushed :: string

record GetVersionResp =
  gv_node_version :: string
  gv_block_header_version :: u16

record LocatedTxKernel =
  lk_tx_kernel :: TxKernel
  lk_height :: u64
  lk_mmr_index :: u64

datatype OutputType = Coinbase | TransactionOutput

record OutputPrintable =
  op_output_type :: OutputType
  op_commit :: Commitment
  op_spent :: bool
  op_range_proof :: "string + RangeProof"
  op_block_height :: "u64 option"
  op_mmr_index :: u64

record OutputListing =
  ol_highest_index :: u64
  ol_last_retrieved_index :: u64
  ol_outputs :: "OutputPrintable list"

text \<open>
  The generated readers, with the message of a failure; the debugging form of a value; the
  environment variable; and the order in which the answers to several requests arrive.
\<close>

record node_ext = http_ext +
  tip_of_json :: "json \<Rightarrow> string + GetTipResp"
  version_of_json :: "json \<Rightarrow> string + GetVersionResp"
  mempool_of_json :: "json \<Rightarrow> string + PoolEntry list"
  status_of_json :: "json \<Rightarrow> string + NodeStatus"
  kernel_of_json :: "json \<Rightarrow> string + LocatedTxKernel"
  outputs_of_json :: "json \<Rightarrow> string + OutputPrintable list"
  listing_of_json :: "json \<Rightarrow> string + OutputListing"
  tx_json :: "Transaction \<Rightarrow> json"
  hex_of :: "bytes \<Rightarrow> string"
  commit_debug :: "Commitment \<Rightarrow> string"
  printable_debug :: "OutputPrintable \<Rightarrow> string"
  response_debug :: "RpcResponse \<Rightarrow> string"
  env_output_query_size :: "string option"
  arrival :: "nat \<Rightarrow> nat list"

record HTTPNodeClient =
  hn_node_url :: string
  hn_node_api_secret :: "string option"
  hn_node_version_info :: "NodeVersionInfo option"

definition http_node_client_new ::
    "node_ext \<Rightarrow> string \<Rightarrow> string option \<Rightarrow> error + HTTPNodeClient" where
  "http_node_client_new H node_url node_api_secret = (case client_new H of
      Inl _ \<Rightarrow> Inl (InternalServerError ''Failed to create HTTP client'')
    | Inr _ \<Rightarrow> Inr \<lparr>hn_node_url = node_url, hn_node_api_secret = node_api_secret, hn_node_version_info = None\<rparr>)"

definition set_node_url :: "string \<Rightarrow> HTTPNodeClient \<Rightarrow> HTTPNodeClient" where
  "set_node_url node_url c = c\<lparr>hn_node_url := node_url\<rparr>"

definition set_node_api_secret :: "string option \<Rightarrow> HTTPNodeClient \<Rightarrow> HTTPNodeClient" where
  "set_node_api_secret s c = c\<lparr>hn_node_api_secret := s\<rparr>"

section \<open>One request\<close>

definition send_json_request ::
    "node_ext \<Rightarrow> HTTPNodeClient \<Rightarrow> (json \<Rightarrow> string + 'd) \<Rightarrow> string \<Rightarrow> string \<Rightarrow> json \<Rightarrow> error + 'd" where
  "send_json_request H c read endpoint rpc_method params =
     (case client_post H (hn_node_url c @ endpoint) (hn_node_api_secret c) (build_request rpc_method params) of
        Inr inner \<Rightarrow>
          (case into_result read inner of
             Inr r \<Rightarrow> Inr r
           | Inl e \<Rightarrow>
               (let bad = BadRequest (''Unable to parse response for '' @ rpc_method @ '': '' @ rpc_error_fmt e) in
                case rs_error inner of
                  Some rpc \<Rightarrow>
                    if contains (re_message rpc) ''Unauthorized'' then Inl Unauthorized
                    else if contains (re_message rpc) ''Not found'' then Inl NotFound
                    else Inl bad
                | None \<Rightarrow> Inl bad))
      | Inl e \<Rightarrow> Inl (ClientCallback (''Error calling '' @ rpc_method @ '': '' @ client_error_fmt e)))"

section \<open>The queries\<close>

definition http_get_version_info ::
    "ext \<Rightarrow> node_ext \<Rightarrow> HTTPNodeClient \<Rightarrow> NodeVersionInfo option \<times> HTTPNodeClient" where
  "http_get_version_info E H c = (case hn_node_version_info c of
      Some v \<Rightarrow> (Some v, c)
    | None \<Rightarrow>
        (case send_json_request H c (version_of_json H) FOREIGN_ENDPOINT ''get_version'' JNull of
           Inr n \<Rightarrow>
             (let retval = \<lparr>nv_node_version = gv_node_version n,
                 nv_block_header_version = gv_block_header_version n, nv_verified = Some True\<rparr>
              in (Some retval, c\<lparr>hn_node_version_info := Some retval\<rparr>))
         | Inl e \<Rightarrow>
             if contains (error_fmt E e) ''404''
             then (Some \<lparr>nv_node_version = ''1.0.0'', nv_block_header_version = 1, nv_verified = Some False\<rparr>, c)
             else (None, c)))"

definition http_post_tx :: "node_ext \<Rightarrow> HTTPNodeClient \<Rightarrow> Transaction \<Rightarrow> bool \<Rightarrow> error + unit" where
  "http_post_tx H c tx fluff =
     and_then (send_json_request H c Inr FOREIGN_ENDPOINT ''push_transaction'' (JArr [tx_json H tx, JBool fluff])) (\<lambda>_.
     Inr ())"

text \<open>The answer of the Tor node is not looked at.\<close>

definition http_post_tx_tor :: "node_ext \<Rightarrow> HTTPNodeClient \<Rightarrow> Transaction \<Rightarrow> string \<Rightarrow> error + unit" where
  "http_post_tx_tor H c tx tor_node_url = (case client_new H of
      Inl _ \<Rightarrow> Inl (Panic ''Failed to create HTTP client with SOCKS proxy'')
    | Inr _ \<Rightarrow>
        (let sent = client_post H (tor_node_url @ TOR_ENDPOINT) (hn_node_api_secret c)
               (build_request ''push_transaction'' (JArr [tx_json H tx, JBool False]))
         in Inr ()))"

definition http_get_mempool :: "node_ext \<Rightarrow> HTTPNodeClient \<Rightarrow> error + PoolEntry list" where
  "http_get_mempool H c =
     send_json_request H c (mempool_of_json H) FOREIGN_ENDPOINT ''get_unconfirmed_transactions'' JNull"

definition http_get_chain_tip :: "node_ext \<Rightarrow> HTTPNodeClient \<Rightarrow> error + u64 \<times> string" where
  "http_get_chain_tip H c =
     and_then (send_json_request H c (tip_of_json H) FOREIGN_ENDPOINT ''get_tip'' JNull) (\<lambda>r.
     Inr (gt_height r, gt_last_block_pushed r))"

definition chain_height :: "node_ext \<Rightarrow> HTTPNodeClient \<Rightarrow> error + u64 \<times> string" where
  "chain_height H c = http_get_chain_tip H c"

definition http_get_node_status :: "node_ext \<Rightarrow> HTTPNodeClient \<Rightarrow> error + NodeStatus" where
  "http_get_node_status H c = send_json_request H c (status_of_json H) OWNER_ENDPOINT ''get_status'' JNull"

text \<open>A kernel that is not there is recognised by the text of the answer.\<close>

definition http_get_kernel ::
    "node_ext \<Rightarrow> HTTPNodeClient \<Rightarrow> Commitment \<Rightarrow> u64 option \<Rightarrow> u64 option \<Rightarrow> error + (TxKernel \<times> u64 \<times> u64) option" where
  "http_get_kernel H c excess min_height max_height =
     (case client_post H (hn_node_url c @ FOREIGN_ENDPOINT) (hn_node_api_secret c)
             (build_request ''get_kernel'' (JArr [JStr (hex_of H excess), jopt jnum min_height, jopt jnum max_height])) of
        Inl e \<Rightarrow> Inl (ClientCallback (''Error calling get_kernel: '' @ client_error_fmt e))
      | Inr inner \<Rightarrow>
          (case into_result (kernel_of_json H) inner of
             Inr r \<Rightarrow> Inr (Some (lk_tx_kernel r, lk_height r, lk_mmr_index r))
           | Inl e \<Rightarrow>
               if contains (response_debug H inner) ''NotFound'' then Inr None
               else Inl (ClientCallback (''Unable to parse response for get_kernel: '' @ rpc_error_fmt e))))"

section \<open>Outputs in chunks\<close>

text \<open>\<open>chunks(n)\<close>, for an \<open>n\<close> that is not zero.\<close>

function chunks :: "nat \<Rightarrow> 'a list \<Rightarrow> 'a list list" where
  "chunks n xs = (if n = 0 \<or> xs = [] then [] else take n xs # chunks n (drop n xs))"
  by auto
termination by (relation "measure (\<lambda>(n, xs). length xs)") auto

declare chunks.simps [simp del]

definition output_chunk_size :: "node_ext \<Rightarrow> nat" where
  "output_chunk_size H = (case env_output_query_size H of
      Some s \<Rightarrow> (case parse_uint 10 (2 ^ 64) s of Some c \<Rightarrow> c | None \<Rightarrow> 500)
    | None \<Rightarrow> 500)"

definition outputs_request :: "node_ext \<Rightarrow> string list \<Rightarrow> RpcRequest" where
  "outputs_request H chunk =
     build_request ''get_outputs'' (JArr [JArr (map JStr chunk), JNull, JNull, JBool False, JBool False])"

text \<open>All requests are sent; their answers are taken in the order of arrival, up to the first failure.\<close>

definition output_answers :: "node_ext \<Rightarrow> HTTPNodeClient \<Rightarrow> string list \<Rightarrow> client_error + RpcResponse list" where
  "output_answers H c query_params =
     (let reqs = map (outputs_request H) (chunks (output_chunk_size H) query_params)
      in map_each (\<lambda>i. client_post H (hn_node_url c @ FOREIGN_ENDPOINT) (hn_node_api_secret c) (reqs ! i))
           (arrival H (length reqs)))"

definition read_outputs :: "node_ext \<Rightarrow> RpcResponse \<Rightarrow> error + OutputPrintable list" where
  "read_outputs H r = (case into_result (outputs_of_json H) r of
      Inr os \<Rightarrow> Inr os
    | Inl e \<Rightarrow> Inl (ClientCallback (''Unable to parse response for get_outputs: '' @ rpc_error_fmt e)))"

definition insert_output ::
    "node_ext \<Rightarrow> OutputPrintable \<Rightarrow> (Commitment \<Rightarrow> (string \<times> u64 \<times> u64) option)
      \<Rightarrow> error + (Commitment \<Rightarrow> (string \<times> u64 \<times> u64) option)" where
  "insert_output H out m = (case op_block_height out of
      None \<Rightarrow> Inl (ClientCallback (''Missing block height for output '' @ commit_debug H (op_commit out)))
    | Some h \<Rightarrow> Inr (m(op_commit out \<mapsto> (hex_of H (op_commit out), h, op_mmr_index out))))"

fun insert_outputs ::
    "node_ext \<Rightarrow> OutputPrintable list \<Rightarrow> (Commitment \<Rightarrow> (string \<times> u64 \<times> u64) option)
      \<Rightarrow> error + (Commitment \<Rightarrow> (string \<times> u64 \<times> u64) option)" where
  "insert_outputs H [] m = Inr m"
| "insert_outputs H (out # os) m = and_then (insert_output H out m) (insert_outputs H os)"

definition http_get_outputs_from_node ::
    "node_ext \<Rightarrow> HTTPNodeClient \<Rightarrow> Commitment list \<Rightarrow> error + (Commitment \<Rightarrow> (string \<times> u64 \<times> u64) option)" where
  "http_get_outputs_from_node H c wallet_outputs =
     (if wallet_outputs = [] then Inr Map.empty
      else if output_chunk_size H = 0 then Inl (Panic ''chunk size must be non-zero'')
      else (case output_answers H c (map (hex_of H) wallet_outputs) of
          Inl e \<Rightarrow> Inl (ClientCallback (''Getting outputs by id: '' @ client_error_fmt e))
        | Inr resps \<Rightarrow>
            and_then (map_each (read_outputs H) resps) (\<lambda>results.
            insert_outputs H (concat results) Map.empty)))"

section \<open>Listings\<close>

definition listed_output ::
    "node_ext \<Rightarrow> OutputPrintable \<Rightarrow> error + (Commitment \<times> RangeProof \<times> bool \<times> u64 \<times> u64)" where
  "listed_output H out = (case op_range_proof out of
      Inl e \<Rightarrow> Inl (ClientCallback (''Unexpected error in returned output (missing range proof): ''
         @ commit_debug H (op_commit out) @ ''. '' @ printable_debug H out @ '', '' @ e))
    | Inr range_proof \<Rightarrow> (case op_block_height out of
          None \<Rightarrow> Inl (ClientCallback (''Unexpected error in returned output (missing block height): ''
             @ commit_debug H (op_commit out) @ ''. '' @ printable_debug H out))
        | Some block_height \<Rightarrow>
            Inr (op_commit out, range_proof, op_output_type out = Coinbase, block_height, op_mmr_index out)))"

definition http_get_outputs_by_pmmr_index ::
    "node_ext \<Rightarrow> HTTPNodeClient \<Rightarrow> u64 \<Rightarrow> u64 option \<Rightarrow> u64
      \<Rightarrow> error + u64 \<times> u64 \<times> (Commitment \<times> RangeProof \<times> bool \<times> u64 \<times> u64) list" where
  "http_get_outputs_by_pmmr_index H c start_index end_index max_outputs =
     and_then (send_json_request H c (listing_of_json H) FOREIGN_ENDPOINT ''get_unspent_outputs''
         (JArr [jnum start_index, jopt jnum end_index, jnum max_outputs, JBool True])) (\<lambda>res.
     and_then (map_each (listed_output H) (filter (\<lambda>out. \<not> op_spent out) (ol_outputs res))) (\<lambda>api_outputs.
     Inr (ol_highest_index res, ol_last_retrieved_index res, api_outputs)))"

definition http_height_range_to_pmmr_indices ::
    "node_ext \<Rightarrow> HTTPNodeClient \<Rightarrow> u64 \<Rightarrow> u64 option \<Rightarrow> error + u64 \<times> u64" where
  "http_height_range_to_pmmr_indices H c start_height end_height =
     and_then (send_json_request H c (listing_of_json H) FOREIGN_ENDPOINT ''get_pmmr_indices''
         (JArr [jnum start_height, jopt jnum end_height])) (\<lambda>res.
     Inr (ol_last_retrieved_index res, ol_highest_index res))"

definition http_get_onion_addresses :: "node_ext \<Rightarrow> HTTPNodeClient \<Rightarrow> error + string list" where
  "http_get_onion_addresses H c =
     and_then (send_json_request H c Inr OWNER_ENDPOINT ''get_onion_addresses'' JNull) (\<lambda>v.
     Inr (case as_array v of Some arr \<Rightarrow> List.map_filter as_str arr | None \<Rightarrow> []))"

text \<open>The queries of one client as the interface the wallet uses.\<close>

definition http_node :: "node_ext \<Rightarrow> HTTPNodeClient \<Rightarrow> node_client" where
  "http_node H c = \<lparr>get_chain_tip = http_get_chain_tip H c, get_node_status = http_get_node_status H c,
     get_mempool = http_get_mempool H c, get_kernel = http_get_kernel H c,
     get_outputs_from_node = http_get_outputs_from_node H c,
     get_outputs_by_pmmr_index = http_get_outputs_by_pmmr_index H c,
     height_range_to_pmmr_indices = http_height_range_to_pmmr_indices H c, node_post_tx = http_post_tx H c\<rparr>"

end
