(* ===== verification/NodeHttpProps.thy ===== *)
theory NodeHttpProps
  imports NodeHttp "HOL-Library.Multiset"
begin

text \<open>
  A query for outputs answers the same whatever its chunk size and however the answers
  arrive; and what the client takes for a posted transaction.
\<close>

section \<open>Chunks\<close>

lemma chunks_simps [simp]:
  "chunks n [] = []"
  "n \<noteq> 0 \<Longrightarrow> xs \<noteq> [] \<Longrightarrow> chunks n xs = take n xs # chunks n (drop n xs)"
  by (subst chunks.simps; simp)+

lemma concat_chunks: "n \<noteq> 0 \<Longrightarrow> concat (chunks n xs) = xs"
  by (induction n xs rule: chunks.induct) (metis append_take_drop_id chunks_simps concat.simps)

lemma chunks_map: "chunks n (map f xs) = map (map f) (chunks n xs)"
proof (induction n xs rule: chunks.induct)
  case (1 n xs)
  then show ?case
    by (cases "n = 0 \<or> xs = []") (auto simp: take_map drop_map chunks.simps[of 0])
qed

lemma map_each_total: "(\<And>x. x \<in> set xs \<Longrightarrow> f x = Inr (g x)) \<Longrightarrow> map_each f xs = Inr (map g xs)"
  by (induction xs) simp_all

section \<open>Outputs\<close>

text \<open>
  The node knows a height and an index for some commitments, and answers a list of
  commitments with the outputs of those it knows. The answers to \<open>n\<close> requests arrive in some
  order.
\<close>

definition lists_utxo :: "(Commitment \<Rightarrow> (u64 \<times> u64) option) \<Rightarrow> Commitment list \<Rightarrow> OutputPrintable list \<Rightarrow> bool" where
  "lists_utxo utxo cs os \<longleftrightarrow>
     (\<forall>out \<in> set os. \<exists>h. op_block_height out = Some h \<and> utxo (op_commit out) = Some (h, op_mmr_index out)) \<and>
     op_commit ` set os = {x \<in> set cs. utxo x \<noteq> None}"

definition serves_outputs :: "node_ext \<Rightarrow> HTTPNodeClient \<Rightarrow> (Commitment \<Rightarrow> (u64 \<times> u64) option) \<Rightarrow> bool" where
  "serves_outputs H c utxo \<longleftrightarrow>
     (\<forall>cs. \<exists>r os. client_post H (hn_node_url c @ FOREIGN_ENDPOINT) (hn_node_api_secret c)
          (outputs_request H (map (hex_of H) cs)) = Inr r \<and>
        into_result (outputs_of_json H) r = Inr os \<and> lists_utxo utxo cs os) \<and>
     (\<forall>n. mset (arrival H n) = mset [0..<n])"

lemma insert_outputs_utxo:
  assumes "\<forall>out \<in> set os. \<exists>h. op_block_height out = Some h \<and> utxo (op_commit out) = Some (h, op_mmr_index out)"
  shows "insert_outputs H os m = Inr (\<lambda>x. if x \<in> op_commit ` set os
    then map_option (\<lambda>(h, i). (hex_of H x, h, i)) (utxo x) else m x)"
  using assms
proof (induction os arbitrary: m)
  case (Cons out os)
  then obtain h where h: "op_block_height out = Some h" "utxo (op_commit out) = Some (h, op_mmr_index out)"
    by auto
  then show ?case using Cons by (auto simp: insert_output_def fun_eq_iff)
qed simp

lemma lists_utxo_concat:
  "list_all2 (lists_utxo utxo) css oss \<Longrightarrow> lists_utxo utxo (concat css) (concat oss)"
proof (induction css oss rule: list_all2_induct)
  case (Cons cs css os oss)
  then have "lists_utxo utxo (cs @ concat css) (os @ concat oss)"
    unfolding lists_utxo_def by (simp add: image_Un ball_Un) blast
  then show ?case by simp
qed (simp add: lists_utxo_def)

lemma lists_utxo_mset: "lists_utxo utxo cs os \<Longrightarrow> set os' = set os \<Longrightarrow> lists_utxo utxo cs os'"
  by (simp add: lists_utxo_def)

lemma lists_utxo_insert:
  assumes "lists_utxo utxo cs os"
  shows "insert_outputs H os Map.empty =
    Inr (\<lambda>x. if x \<in> set cs then map_option (\<lambda>(h, i). (hex_of H x, h, i)) (utxo x) else None)"
proof -
  have "x \<in> op_commit ` set os \<longleftrightarrow> x \<in> set cs \<and> utxo x \<noteq> None" for x
    using assms by (simp add: lists_utxo_def)
  moreover have "insert_outputs H os Map.empty = Inr (\<lambda>x. if x \<in> op_commit ` set os
      then map_option (\<lambda>(h, i). (hex_of H x, h, i)) (utxo x) else None)"
    using assms unfolding lists_utxo_def by (intro insert_outputs_utxo) blast
  ultimately show ?thesis by (auto simp: fun_eq_iff simp del: not_None_eq)
qed

theorem chunked_outputs_query:
  assumes "serves_outputs H c utxo" "output_chunk_size H \<noteq> 0"
  shows "http_get_outputs_from_node H c cs =
    Inr (\<lambda>x. if x \<in> set cs then map_option (\<lambda>(h, i). (hex_of H x, h, i)) (utxo x) else None)"
proof (cases "cs = []")
  case False
  define url where "url = hn_node_url c @ FOREIGN_ENDPOINT"
  define css where "css = chunks (output_chunk_size H) cs"
  have "\<forall>ch. \<exists>r os. client_post H url (hn_node_api_secret c) (outputs_request H (map (hex_of H) ch)) = Inr r \<and>
      read_outputs H r = Inr os \<and> lists_utxo utxo ch os"
    using assms(1) unfolding serves_outputs_def url_def read_outputs_def by (metis (lifting) sum.simps(6))
  then obtain r os where post: "client_post H url (hn_node_api_secret c) (outputs_request H (map (hex_of H) ch)) = Inr (r ch)"
    and read: "read_outputs H (r ch) = Inr (os ch)" and lists: "lists_utxo utxo ch (os ch)" for ch
    by metis
  define js where "js = arrival H (length css)"
  have js: "mset js = mset [0..<length css]" using assms(1) by (simp add: serves_outputs_def js_def)
  then have "set js = {0..<length css}" by (metis set_mset_mset set_upt)
  then have answers: "output_answers H c (map (hex_of H) cs) = Inr (map (\<lambda>i. r (css ! i)) js)"
    by (simp add: output_answers_def Let_def chunks_map flip: url_def css_def js_def)
      (rule map_each_total, simp add: post)
  have "map_each (read_outputs H) (map (\<lambda>i. r (css ! i)) js) = Inr (map (\<lambda>i. os (css ! i)) js)"
    by (subst map_each_total[where g = "\<lambda>q. projr (read_outputs H q)"]) (auto simp: read)
  moreover have "lists_utxo utxo cs (concat (map (\<lambda>i. os (css ! i)) js))"
  proof (rule lists_utxo_mset)
    have "list_all2 (lists_utxo utxo) css (map os css)"
      by (simp add: list_all2_conv_all_nth lists)
    then show "lists_utxo utxo cs (concat (map os css))"
      using lists_utxo_concat concat_chunks[OF assms(2), of cs] by (metis css_def)
    show "set (concat (map (\<lambda>i. os (css ! i)) js)) = set (concat (map os css))"
    proof -
      have "(!) css ` set js = set css"
        unfolding \<open>set js = _\<close> by (subst nth_image) simp_all
      then have "os ` set css = (\<lambda>i. os (css ! i)) ` set js" by (metis image_image)
      then show ?thesis by simp
    qed
  qed
  then have "insert_outputs H (concat (map (\<lambda>i. os (css ! i)) js)) Map.empty =
      Inr (\<lambda>x. if x \<in> set cs then map_option (\<lambda>(h, i). (hex_of H x, h, i)) (utxo x) else None)"
    by (rule lists_utxo_insert)
  ultimately show ?thesis using False assms(2) answers by (simp add: http_get_outputs_from_node_def)
qed (simp add: http_get_outputs_from_node_def)

section \<open>Posting\<close>

lemma send_json_request_Inr:
  "send_json_request H c read endpoint name params = Inr x \<longleftrightarrow>
     (\<exists>r. client_post H (hn_node_url c @ endpoint) (hn_node_api_secret c) (build_request name params) = Inr r \<and>
        into_result read r = Inr x)"
  by (auto simp: send_json_request_def Let_def split: sum.splits option.splits)

lemma into_result_value: "into_result Inr r = (case rs_error r of Some e \<Rightarrow> Inl (Rpc e)
    | None \<Rightarrow> Inr (case rs_result r of Some v \<Rightarrow> jget v ''Ok'' | None \<Rightarrow> JNull))"
  by (simp add: into_result_def response_result_def split: option.splits)

theorem http_post_tx_iff:
  "node_post_tx (http_node H c) tx fluff = Inr () \<longleftrightarrow>
     (\<exists>r. client_post H (hn_node_url c @ FOREIGN_ENDPOINT) (hn_node_api_secret c)
          (build_request ''push_transaction'' (JArr [tx_json H tx, JBool fluff])) = Inr r \<and> rs_error r = None)"
proof -
  have "(\<exists>x. into_result Inr r = Inr x) \<longleftrightarrow> rs_error r = None" for r
    by (simp add: into_result_value split: option.split)
  then show ?thesis
    by (simp add: http_node_def http_post_tx_def and_then_eq_Inr send_json_request_Inr) metis
qed

section \<open>Witnesses\<close>

text \<open>A node that knows one output and answers with its first letter, asked output by output.\<close>

definition asks_for :: "string \<Rightarrow> json \<Rightarrow> bool" where
  "asks_for s j = (case jget j ''params'' of JArr (JArr ss # _) \<Rightarrow> JStr s \<in> set ss | _ \<Rightarrow> False)"

definition a_printable :: OutputPrintable where
  "a_printable = \<lparr>op_output_type = Coinbase, op_commit = [1], op_spent = False, op_range_proof = Inl [],
     op_block_height = Some 5, op_mmr_index = 9\<rparr>"

definition sample_node :: node_ext where
  "sample_node = \<lparr>json_to_string = (\<lambda>j. Some (if asks_for ''a'' j then ''y'' else ''n'')),
     json_of_string = (\<lambda>s. Some (JStr s)), json_display = (\<lambda>_. []),
     socks_proxy_addr = None, http_proxy = (\<lambda>_. None), http_builder = None,
     http_exchange = (\<lambda>_ _ body. Inr (Inr body)), to_base64 = id,
     response_of_json = (\<lambda>j. Some \<lparr>rs_result = Some (JObj [(''Ok'', j)]), rs_error = None, rs_id = JInt 1, rs_jsonrpc = None\<rparr>),
     tip_of_json = (\<lambda>_. Inl []), version_of_json = (\<lambda>_. Inl []), mempool_of_json = (\<lambda>_. Inl []),
     status_of_json = (\<lambda>_. Inl []), kernel_of_json = (\<lambda>_. Inl []),
     outputs_of_json = (\<lambda>j. Inr (if j = JStr ''y'' then [a_printable] else [])), listing_of_json = (\<lambda>_. Inl []),
     tx_json = (\<lambda>_. JNull), hex_of = (\<lambda>b. if b = [1] then ''a'' else ''b''),
     commit_debug = (\<lambda>_. []), printable_debug = (\<lambda>_. []), response_debug = (\<lambda>_. []),
     env_output_query_size = Some ''1'', arrival = (\<lambda>n. rev [0..<n])\<rparr>"

definition a_client :: HTTPNodeClient where
  "a_client = \<lparr>hn_node_url = ''http://node'', hn_node_api_secret = None, hn_node_version_info = None\<rparr>"

lemma sample_node_serves: "serves_outputs sample_node a_client [[1] \<mapsto> (5, 9)]"
proof -
  have "asks_for ''a'' (request_value (outputs_request sample_node (map (hex_of sample_node) cs))) \<longleftrightarrow> [1] \<in> set cs" for cs
    by (auto simp: asks_for_def request_value_def outputs_request_def build_request_def jget_def sample_node_def image_iff)
  then show ?thesis
    by (auto simp: serves_outputs_def client_post_def send_request_def sample_node_def into_result_def
        response_result_def jget_def lists_utxo_def a_printable_def)
qed

theorem chunked_outputs_query_witness:
  "\<exists>m. http_get_outputs_from_node sample_node a_client [[1], [2]] = Inr m \<and> m [1] = Some (''a'', 5, 9) \<and> m [2] = None"
proof -
  have "output_chunk_size sample_node \<noteq> 0"
    by (simp add: output_chunk_size_def sample_node_def parse_uint_def digit_val_def digits_value_def)
  then show ?thesis
    using chunked_outputs_query[OF sample_node_serves, of "[[1], [2]]"] by (simp add: sample_node_def)
qed

end
