(* ===== verification/EpicboxClientProps.thy ===== *)
theory EpicboxClientProps
  imports EpicboxClient EpicboxProps NodeHttpProps SlateVersionProps WitnessEnv BackendInv
begin

text \<open>
  What a listening wallet does to the outside is caused by messages that were signed by their
  sender and encrypted for it; a slate that is sent reaches its receiver; and what sending
  loses, and when a transaction is not posted to the node.
\<close>

section \<open>Causes\<close>

text \<open>A text among the events that reads as a response, and one that carries a verified slate.\<close>

definition received :: "epicbox_ext \<Rightarrow> ws_event list \<Rightarrow> ProtocolResponseV2 \<Rightarrow> bool" where
  "received X es r \<longleftrightarrow> (\<exists>t. ReadMessage (WsText t) \<in> set es \<and> xe_read_response X t = Some r)"

definition carries ::
    "crypto_ext \<Rightarrow> epicbox_ext \<Rightarrow> EpicboxPublisher \<Rightarrow> ws_event list \<Rightarrow> VersionedSlate \<Rightarrow> TxProof \<Rightarrow> string \<Rightarrow> bool" where
  "carries C X me es slate p i \<longleftrightarrow> (\<exists>from s sg ch ver. received X es (V2Slate from s sg ch ver i) \<and>
     proof_from_response C (xe_read_message X) (xe_read_slate X) from s sg (ep_secret_key me) (Some (ep_address me)) = Inr (slate, p))"

definition all_signed :: "Slate \<Rightarrow> bool" where
  "all_signed s \<longleftrightarrow> sl_num_participants s \<le> length (sl_participant_data s)"

definition justified :: "crypto_ext \<Rightarrow> epicbox_ext \<Rightarrow> EpicboxPublisher \<Rightarrow> ws_event list \<Rightarrow> action \<Rightarrow> bool" where
  "justified C X me es a = (case a of
      SentV1 r \<Rightarrow> \<exists>from to m sg vs p i. r = ReqPostSlate from to m sg \<and> carries C X me es vs p i \<and>
         to = epicbox_stripped (tp_address p)
    | SentV2 (V2Made _ _ _ i) \<Rightarrow> \<exists>vs p. carries C X me es vs p i
    | SentV2 (V2Subscribe k ver sg) \<Rightarrow> \<exists>ch. received X es (V2ResponseChallenge ch) \<and>
         subscribe_request C (ep_address me) (ep_secret_key me) ch = Inr (V2Subscribe k ver sg)
    | SentV2 (V2ClientDetails _ _ _) \<Rightarrow> True
    | SentV2 _ \<Rightarrow> False
    | PostedTx _ _ \<Rightarrow> \<exists>vs p i. carries C X me es vs p i \<and> all_signed (slate_of_versioned vs)
    | PostedTor _ _ \<Rightarrow> \<exists>vs p i. carries C X me es vs p i \<and> all_signed (slate_of_versioned vs)
    | ClosedSocket \<Rightarrow> True)"

text \<open>Every action so far is justified, the challenge was received, and an untouched wallet stays so.\<close>

definition accounted ::
    "crypto_ext \<Rightarrow> epicbox_ext \<Rightarrow> EpicboxPublisher \<Rightarrow> ws_event list \<Rightarrow> provider \<Rightarrow> epicbox_state \<Rightarrow> bool" where
  "accounted C X me es w st \<longleftrightarrow> (\<forall>a \<in> set (bx_done st). justified C X me es a) \<and>
     (\<forall>ch. bx_challenge st = Some ch \<longrightarrow> received X es (V2ResponseChallenge ch)) \<and>
     ((\<nexists>vs p i. carries C X me es vs p i) \<longrightarrow> bx_provider st = w)"

section \<open>Invariants of the steps\<close>

lemma keeps_gets_bindE: "(\<And>s. I s \<Longrightarrow> keeps I (f (g s))) \<Longrightarrow> keeps I (bindE (gets g) f)"
  by (simp add: keeps_def)

lemma keeps_liftE_bindE: "(\<And>x. r = Inr x \<Longrightarrow> keeps I (f x)) \<Longrightarrow> keeps I (bindE (liftE r) f)"
  by (auto simp: keeps_def bindE_app split: sum.split)

lemma keeps_outcome [keeps_intros]: "keeps I m \<Longrightarrow> keeps I (outcome m)"
  by (auto simp: keeps_def outcome_def split: prod.split sum.split)

lemma accounted_act: "justified C X me es a \<Longrightarrow> keeps (accounted C X me es w) (act a)"
  by (auto simp: act_def accounted_def intro!: keeps_modify)

lemma accounted_write: "justified C X me es a \<Longrightarrow> keeps (accounted C X me es w) (ws_write X a)"
  unfolding ws_write_def by (intro keeps_intros accounted_act)

lemma accounted_stop: "keeps (accounted C X me es w) (broker_stop X)"
  unfolding broker_stop_def by (intro keeps_intros accounted_act) (simp add: justified_def)

lemma accounted_wallet: "carries C X me es vs p i \<Longrightarrow> keeps (accounted C X me es w) (on_wallet m)"
  by (auto simp: keeps_def on_wallet_def accounted_def split: prod.split)

lemma accounted_post_slate:
  assumes "carries C X me es vs p i"
  shows "keeps (accounted C X me es w) (publisher_post_slate C X me' slate (tp_address p) cl)"
  unfolding publisher_post_slate_def broker_post_slate_def Let_def
  by (intro keeps_intros accounted_stop accounted_write) (use assms in \<open>auto simp: justified_def\<close>)

lemma accounted_post_finalized:
  assumes "carries C X me es vs p i" "all_signed (slate_of_versioned vs)"
  shows "keeps (accounted C X me es w) (post_finalized E X tc as tx)"
proof -
  have "justified C X me es (PostedTx tx fluff)" "justified C X me es (PostedTor tx url)" for url fluff
    using assms by (auto simp: justified_def)
  then have "keeps (accounted C X me es w) (node_post_tx_act E tx False)"
    "\<And>url. keeps (accounted C X me es w) (tor_post_tx_act X tx url)"
    unfolding node_post_tx_act_def tor_post_tx_act_def by (intro keeps_intros accounted_act; simp)+
  then show ?thesis
    unfolding post_finalized_def by (auto intro!: keeps_intros split: list.split)
qed

lemma accounted_process:
  assumes "carries C X me es vs p i"
  shows "keeps (accounted C X me es w) (process_incoming_slate E X km tc a (slate_of_versioned vs))"
proof (cases "all_signed (slate_of_versioned vs)")
  case True
  then show ?thesis
    unfolding process_incoming_slate_def all_signed_def Let_def
    by (auto intro!: keeps_intros accounted_wallet[OF assms] accounted_post_finalized[OF assms True])
next
  case False
  then show ?thesis
    unfolding process_incoming_slate_def all_signed_def
    by (auto intro!: keeps_intros accounted_wallet[OF assms])
qed

lemma accounted_on_slate:
  assumes "carries C X me es vs p i"
  shows "keeps (accounted C X me es w) (on_slate E C X km tc me (tp_address p) vs)"
  unfolding on_slate_def
  by (intro keeps_intros accounted_process[OF assms] accounted_post_slate[OF assms])

lemma accounted_subscribe:
  assumes "received X es (V2ResponseChallenge ch)"
    and "subscribe_request C (ep_address me) (ep_secret_key me) ch = Inr r"
  shows "keeps (accounted C X me es w) (ws_write X (SentV2 r))"
proof -
  obtain sg where "r = V2Subscribe (ea_public_key (ep_address me)) EPICBOX_PROTOCOL_VERSION sg"
    using assms(2) by (auto simp: subscribe_request_def and_then_eq_Inr)
  then show ?thesis using assms by (intro accounted_write) (auto simp: justified_def)
qed

lemma accounted_challenge:
  assumes "received X es (V2ResponseChallenge ch)"
  shows "keeps (accounted C X me es w) (on_challenge C X me ch)"
  unfolding on_challenge_def client_details_def
  by (intro keeps_intros accounted_write keeps_liftE_bindE accounted_subscribe[OF assms])
    (use assms in \<open>auto simp: accounted_def justified_def\<close>)

lemma accounted_slate_response:
  assumes "received X es (V2Slate from s sg ch ver i)"
  shows "keeps (accounted C X me es w) (on_slate_response E C X km tc me from s sg i)"
proof (cases "proof_from_response C (xe_read_message X) (xe_read_slate X) from s sg (ep_secret_key me) (Some (ep_address me))")
  case (Inl e)
  then show ?thesis
    by (cases e) (simp_all add: on_slate_response_def keeps_intros)
next
  case (Inr r)
  obtain vs p where r: "r = (vs, p)" by fastforce
  with Inr assms have c: "carries C X me es vs p i" unfolding carries_def by blast
  have made: "keeps (accounted C X me es w) (made_send C X a k i)" for a k
    unfolding made_send_def by (intro keeps_intros accounted_write) (use c in \<open>auto simp: justified_def\<close>)
  have "keeps (accounted C X me es w) (bindE (gets bx_challenge) (\<lambda>challenge. case challenge of
            None \<Rightarrow> throw (ImplsPanic ''client.challenge'')
          | Some ch \<Rightarrow>
              bindE (liftE (subscribe_request C (ep_address me) (ep_secret_key me) ch)) (\<lambda>request_sub.
              bindE (ws_write X (SentV2 request_sub)) (\<lambda>r. case r of
                Inl _ \<Rightarrow> ret True
              | Inr _ \<Rightarrow> bindE (outcome (made_send C X (ep_address me) (ep_secret_key me) i)) (\<lambda>_. ret True)))))"
  proof (rule keeps_gets_bindE)
    fix st assume "accounted C X me es w st"
    then have "received X es (V2ResponseChallenge ch)" if "bx_challenge st = Some ch" for ch
      using that by (simp add: accounted_def)
    then show "keeps (accounted C X me es w) (case bx_challenge st of
            None \<Rightarrow> throw (ImplsPanic ''client.challenge'')
          | Some ch \<Rightarrow>
              bindE (liftE (subscribe_request C (ep_address me) (ep_secret_key me) ch)) (\<lambda>request_sub.
              bindE (ws_write X (SentV2 request_sub)) (\<lambda>r. case r of
                Inl _ \<Rightarrow> ret True
              | Inr _ \<Rightarrow> bindE (outcome (made_send C X (ep_address me) (ep_secret_key me) i)) (\<lambda>_. ret True))))"
      by (cases "bx_challenge st")
        (auto intro!: keeps_intros keeps_liftE_bindE accounted_subscribe made)
  qed
  then show ?thesis
    unfolding on_slate_response_def Inr r
    by (simp add: keeps_bindE accounted_on_slate[OF c])
qed

lemma accounted_event:
  assumes "e \<in> set es"
  shows "keeps (accounted C X me es w) (on_event E C X km tc me e)"
proof -
  have "keeps (accounted C X me es w) (on_response E C X km tc me r)" if "received X es r" for r
    using that accounted_challenge[of X es] accounted_slate_response[of X es]
    by (cases r) (auto simp: on_response_def intro!: keeps_intros)
  moreover have "accounted C X me es w st \<Longrightarrow> accounted C X me es w (st\<lparr>bx_reconnections := n\<rparr>)" for st n
    by (simp add: accounted_def)
  ultimately show ?thesis
    using assms
    by (auto simp: on_event_def received_def intro!: keeps_intros accounted_stop
        split: ws_event.split ws_message.split option.split)
qed

lemma accounted_run:
  "set es' \<subseteq> set es \<Longrightarrow> keeps (accounted C X me es w) (subscribe E C X km tc me es')"
  by (induction es') (auto intro!: keeps_intros accounted_event)

lemma snd_with_wallet: "(\<And>w. snd (m w) = w) \<Longrightarrow> snd (with_wallet m p) = p"
proof -
  assume m: "\<And>w. snd (m w) = w"
  have "snd (with_wallet m p) = p" if "lc_backend p = Some (d, w)" for d w
  proof -
    have "snd (with_wallet m p) = p\<lparr>lc_backend := Some (d, w)\<rparr>"
      using that m[of w] by (simp add: with_wallet_def prod.case_eq_if)
    also have "\<dots> = p" using that by (metis provider.surjective provider.update_convs(5))
    finally show ?thesis .
  qed
  then show ?thesis by (cases "lc_backend p") (auto simp: with_wallet_def)
qed

lemma wallet_epicbox_address_reads: "snd (wallet_epicbox_address E C km config w) = w"
proof -
  have "keeps (\<lambda>w'. w' = w) (wallet_epicbox_address E C km config)"
    unfolding wallet_epicbox_address_def by (intro keeps_intros)
  then show ?thesis by (simp add: keeps_def)
qed


section \<open>Delivery\<close>

text \<open>
  Over a relay that hands messages on, what one wallet posts to another's address is accepted
  there as coming from the sender, and is the slate that was posted.
\<close>

definition signs_ok :: "crypto_ext \<Rightarrow> SecretKey \<Rightarrow> bool" where
  "signs_ok C a \<longleftrightarrow> (\<forall>t h sg. secp_message C (sha256 C (str_bytes t)) = Inr h \<and> secp_sign C h a = Some sg \<longrightarrow> secp_verify C h sg (pk_of_secret C a) \<and>
     sig_to_der C sg \<noteq> [] \<and> sig_from_der C (sig_to_der C sg) = Some sg)"

lemma sign_verifies:
  assumes "signs_ok C a" "sign_challenge C t a = Inr sg"
  shows "verify_signature C t sg (pk_of_secret C a) = Inr ()" "sig_from_hex C (sig_to_hex C sg) = Inr sg"
proof -
  obtain h where h: "secp_message C (sha256 C (str_bytes t)) = Inr h" "secp_sign C h a = Some sg"
    using assms(2) by (auto simp: sign_challenge_def and_then_eq_Inr unwrap_secp_def or_err_def split: option.splits)
  then have "secp_verify C h sg (pk_of_secret C a)" "sig_to_der C sg \<noteq> []" "sig_from_der C (sig_to_der C sg) = Some sg"
    using assms(1) unfolding signs_ok_def by blast+
  then show "verify_signature C t sg (pk_of_secret C a) = Inr ()" "sig_from_hex C (sig_to_hex C sg) = Inr sg"
    using h by (simp_all add: verify_signature_def sig_from_hex_def sig_to_hex_def hex_round_trip_plain unwrap_secp_def or_err_def)
qed

lemma response_accepted:
  assumes "shared_secret C a b" "aead_ok C" "draws_ok C" "from_utf8 C (str_bytes w) = Some w"
    and m: "encrypted_message_new C w to (pk_of_secret C b) a = Inr m"
    and "sign_challenge C t a = Inr sg" "signs_ok C a"
    and "epicbox_from_str C f = Inr addr" "epicbox_public_key C addr = Inr (pk_of_secret C a)"
    and "rm t = Some m" "rs w = Some slate"
  shows "\<exists>p. proof_from_response C rm rs f t (sig_to_hex C sg) b (Some to) = Inr (slate, p) \<and> tp_address p = addr"
proof -
  obtain key where "em_destination m = to" "message_key C m (pk_of_secret C a) b = Inr key" "decrypt_with_key C m key = Inr w"
    using message_opens[OF assms(1-4), of to] m by auto
  then show ?thesis
    using assms(8-11) sign_verifies[OF assms(7,6)]
    by (simp add: proof_from_response_def verify_extract_def proof_err_def proof_opt_def)
qed

lemma publisher_post_slate_sends:
  assumes "epicbox_public_key C to = Inr pk"
    and "encrypted_message_new C (xe_write_slate X slate) to pk (ep_secret_key p) = Inr m"
    and "sign_challenge C (xe_write_message X m) (ep_secret_key p) = Inr sg"
    and "\<And>n. ws_send X n = None" "\<And>n. ws_close X n = None"
  shows "\<exists>st'. publisher_post_slate C X p slate to cl st = (Inr (), st')"
  using assms
  by (simp add: publisher_post_slate_def broker_post_slate_def ws_write_def broker_stop_def act_def Let_def bindE_app lib_result_def)

text \<open>A slate posted by one wallet is accepted by the wallet it is addressed to, with the sender's key.\<close>

theorem epicbox_delivers:
  assumes "key_ok C (pk_of_secret C a)" "key_ok C (pk_of_secret C b)" "sha_ok C"
    and "shared_secret C a b" "aead_ok C" "draws_ok C" "signs_ok C a"
    and "d \<noteq> []" "\<forall>c \<in> set d. domain_char c" "epicbox_address_new C (pk_of_secret C a) (Some d) port = Some from"
    and "epicbox_address_new C (pk_of_secret C b) domain port' = Some to"
    and "from_utf8 C (str_bytes (xe_write_slate X slate)) = Some (xe_write_slate X slate)"
    and "xe_read_slate X (xe_write_slate X slate) = Some slate"
    and "\<And>m. encrypted_message_new C (xe_write_slate X slate) to (pk_of_secret C b) a = Inr m \<Longrightarrow>
      xe_read_message X (xe_write_message X m) = Some m"
    and run: "publisher_post_slate C X \<lparr>ep_address = from, ep_secret_key = a, ep_wallet_mode = mode\<rparr> slate to cl st = (Inr (), st')"
  shows "\<exists>f m sg p. bx_done st' = bx_done st @ SentV1 (ReqPostSlate f (epicbox_stripped to) m sg) # (if cl then [ClosedSocket] else []) \<and>
    proof_from_response C (xe_read_message X) (xe_read_slate X) f m sg b (Some to) = Inr (slate, p) \<and>
    epicbox_public_key C (tp_address p) = Inr (pk_of_secret C a)"
proof -
  obtain from' where from': "epicbox_from_str C (epicbox_fmt from) = Inr from'" "epicbox_public_key C from' = Inr (pk_of_secret C a)"
    using assms(10) by (rule_tac address_parses[OF assms(1,3,8,9), of "[]" port]) (auto simp: epicbox_public_key_def)
  have to: "epicbox_public_key C to = Inr (pk_of_secret C b)"
  proof -
    obtain s where "pk_to_base58_check C (pk_of_secret C b) (version_bytes C) = Some s" "pk_from_base58_check C s (version_bytes C) = Inr (pk_of_secret C b)"
      by (rule address_text[OF assms(2,3)]) (rule that)
    then show ?thesis using assms(11) by (auto simp: epicbox_address_new_def epicbox_public_key_def)
  qed
  let ?w = "xe_write_slate X slate"
  obtain m sg where m: "encrypted_message_new C ?w to (pk_of_secret C b) a = Inr m"
    and sg: "sign_challenge C (xe_write_message X m) a = Inr sg"
    and out: "bx_done st' = bx_done st @ SentV1 (ReqPostSlate (epicbox_stripped from) (epicbox_stripped to) (xe_write_message X m)
          (sig_to_hex C sg)) # (if cl then [ClosedSocket] else [])"
    using run to
    by (auto simp: publisher_post_slate_def broker_post_slate_def ws_write_def broker_stop_def act_def Let_def bindE_app
        lib_result_def split: sum.splits option.splits if_splits)
  then show ?thesis
    using response_accepted[where rm = "xe_read_message X" and rs = "xe_read_slate X",
        OF assms(4-6,12) m sg assms(7) from' assms(14)[OF m] assms(13)] from'(2)
    by (auto simp: epicbox_stripped_def)
qed

section \<open>What is lost\<close>

text \<open>
  Sending over epicbox posts the slate in version 2, and hands it back as it came out of that
  version: without its payment proof and without its time to live.
\<close>

theorem epicbox_send_strips:
  assumes "channel_send E C X dest config km slate st = (Inr slate', st')"
  shows "slate' = slate\<lparr>sl_ttl_cutoff_height := None, sl_payment_proof := None\<rparr> \<and>
    (\<exists>from to m sg. bx_done st' = bx_done st @ [SentV1 (ReqPostSlate from to m sg), ClosedSocket])"
proof -
  have "bx_done st1 = bx_done st" if "on_wallet m st = (r, st1)" for m :: "(EpicboxAddress \<times> SecretKey) op" and r st1
    using that by (auto simp: on_wallet_def split: prod.splits)
  then show ?thesis
    using assms
    by (auto simp: channel_send_def start_epicbox_def publish_def publisher_post_slate_def broker_post_slate_def
        ws_write_def broker_stop_def act_def Let_def bindE_app slate_through_v2 split: sum.splits option.splits prod.splits)
qed

text \<open>
  With a Tor listener configured and an onion address known, the finished transaction goes to
  that address only: the HTTP client reports success whatever becomes of the request, so the
  transaction is not posted to the node even if the address cannot be reached.
\<close>

theorem tor_post_never_falls_back:
  assumes "client_new H = Inr ()" "xe_post_tx_tor X = http_post_tx_tor H c"
    and "tc_use_tor_listener tc" "xe_shuffle X addresses = url # urls"
  shows "post_finalized E X tc addresses tx st = (Inr (), st\<lparr>bx_done := bx_done st @ [PostedTor tx url]\<rparr>)"
  using assms by (simp add: post_finalized_def tor_post_tx_act_def act_def outcome_def bindE_app lib_result_def http_post_tx_tor_def)

text \<open>A slate that could not be processed is acknowledged like one that could.\<close>

theorem failed_slate_acknowledged:
  assumes "proof_from_response C (xe_read_message X) (xe_read_slate X) from s signature (ep_secret_key me) (Some (ep_address me)) = Inr (vs, p)"
    and "process_incoming_slate E X km tc (Some (epicbox_fmt (tp_address p))) (slate_of_versioned vs) st = (Inl e, st1)"
    and "\<not> panics e" "bx_challenge st1 = Some ch" "\<And>n. ws_send X n = None" "done_alive X"
    and "subscribe_request C (ep_address me) (ep_secret_key me) ch = Inr sub" "sign_challenge C i (ep_secret_key me) = Inr sg"
  shows "on_slate_response E C X km tc me from s signature i st = (Inr True, st1\<lparr>bx_done := bx_done st1 @
    [SentV2 sub, SentV2 (V2Made (ea_public_key (ep_address me)) (sig_to_hex C sg) EPICBOX_PROTOCOL_VERSION i)]\<rparr>)"
  using assms by (simp add: on_slate_response_def on_slate_def outcome_def ws_write_def made_send_def act_def bindE_app lib_result_def)

section \<open>Witnesses\<close>

text \<open>A socket that takes everything; texts stand for one message, one slate and one response.\<close>

definition a_slate :: Slate where
  "a_slate = the_slate\<lparr>sl_num_participants := 0\<rparr>"

definition sample_box :: "EncryptedMessage \<Rightarrow> epicbox_ext" where
  "sample_box m = \<lparr>xe_read_message = (\<lambda>_. Some m), xe_read_slate = (\<lambda>_. Some (into_version a_slate V3)), xe_write_message = (\<lambda>_. ''m''),
     xe_write_slate = (\<lambda>_. ''hi''), xe_read_response = (\<lambda>_. Some (V2ResponseChallenge ''hi'')), ws_connect = (\<lambda>_. None), ws_send = (\<lambda>_. None),
     ws_close = (\<lambda>_. None), done_alive = True, xe_get_onion_addresses = Inr [''http://onion''], xe_shuffle = id,
     xe_post_tx_tor = http_post_tx_tor sample_node a_client, xe_mempool = [], xe_error_debug = (\<lambda>_. []), pkg_version = ''3''\<rparr>"

definition a_message :: EncryptedMessage where
  "a_message = \<lparr>em_destination = sample_address, em_encrypted_message = [], em_salt = [], em_nonce = []\<rparr>"

definition closed_provider :: provider where
  "closed_provider = \<lparr>lc_disk = \<lparr>dk_files = [], dk_dirs = []\<rparr>, lc_dbs = (\<lambda>_. []), lc_stored_txs = (\<lambda>_. Map.empty),
     lc_data_dir = [], lc_backend = None\<rparr>"

definition fresh_client :: "(string \<times> wallet) option \<Rightarrow> epicbox_state" where
  "fresh_client w = \<lparr>bx_provider = closed_provider\<lparr>lc_backend := w\<rparr>, bx_challenge = Some ''hi'',
     bx_first_run = True, bx_reconnections = 0, bx_done = []\<rparr>"

theorem tor_post_never_falls_back_witness:
  "post_finalized the_ext (sample_box a_message) tor_config_default [''http://onion''] (empty_transaction the_ext) (fresh_client None)
    = (Inr (), (fresh_client None)\<lparr>bx_done := [PostedTor (empty_transaction the_ext) ''http://onion'']\<rparr>)"
  using tor_post_never_falls_back[of sample_node "sample_box a_message" a_client tor_config_default "[''http://onion'']"
      "''http://onion''" "[]" the_ext "empty_transaction the_ext" "fresh_client None"]
  by (simp add: sample_box_def sample_node_def client_new_def client_build_def tor_config_default_def fresh_client_def)

lemma sample_key_text: "\<exists>s. pk_to_base58_check sample_crypto k (version_bytes sample_crypto) = Some s"
  by (simp add: pk_to_base58_check_def to_base58_check_def Let_def to_base58_digits)

lemma sample_path: "address_from_derivation_path the_ext (replicate 32 5) (Identifier 0) 0 = Inr (replicate 32 5)"
  by (simp add: address_from_derivation_path_def address_path_def nat_to_path_def path_set_def usize_sub_def)
    (simp add: the_ext_def)

lemma listener_key:
  obtains a where "with_wallet (wallet_epicbox_address the_ext sample_crypto None epicbox_config_default)
    (bx_provider (fresh_client (Some ([], the_wallet)))) = (Inr (a, replicate 32 5), bx_provider (fresh_client (Some ([], the_wallet))))"
proof -
  obtain s where s: "pk_to_base58_check sample_crypto (replicate 32 5) (version_bytes sample_crypto) = Some s"
    using sample_key_text by blast
  have "pubkey_from_secret the_ext k = Inr k" for k by (simp add: the_ext_def)
  moreover have "w_parent_key_id the_wallet = Identifier 0" by (simp add: the_wallet_def)
  ultimately show thesis
    using that s sample_path
    by (simp add: with_wallet_def fresh_client_def wallet_epicbox_address_def epicbox_address_new_def or_err_def)
qed


lemma sample_signs: "signs_ok sample_crypto k" "sign_challenge sample_crypto u k = Inr [1, 2, 3, 4]"
  by (simp_all add: signs_ok_def sign_challenge_def unwrap_secp_def or_err_def sample_crypto_def)

lemma sample_encrypts:
  obtains m where "encrypted_message_new sample_crypto ''hi'' d pk k = Inr m"
proof -
  have "encrypted_message_new sample_crypto ''hi'' d pk k \<noteq> Inl e" for e
    by (simp add: encrypted_message_new_def common_key_def or_err_def byte_slice_def sample_crypto_def)
  then show ?thesis using that by (metis sum.exhaust)
qed

lemma sample_box_simps:
  "xe_write_slate (sample_box m) v = ''hi''" "ws_send (sample_box m) n = None" "ws_close (sample_box m) n = None"
  "ws_connect (sample_box m) u = None" "xe_read_message (sample_box m) u = Some m"
  "xe_read_slate (sample_box m) u = Some (into_version a_slate V3)" "done_alive (sample_box m)"
  by (simp_all add: sample_box_def)

theorem epicbox_send_strips_witness:
  "\<exists>to slate' st'. channel_send the_ext sample_crypto (sample_box a_message) to None None a_slate (fresh_client (Some ([], the_wallet)))
     = (Inr slate', st') \<and> sl_payment_proof slate' = None"
proof -
  let ?C = sample_crypto and ?X = "sample_box a_message" and ?st = "fresh_client (Some ([], the_wallet))"
  obtain a where a: "on_wallet (wallet_epicbox_address the_ext ?C None epicbox_config_default) ?st = (Inr (a, replicate 32 5), ?st)"
    by (rule listener_key) (auto simp: on_wallet_def lib_result_def)
  obtain t where t: "epicbox_from_str ?C (epicbox_fmt t) = Inr t" "epicbox_public_key ?C t = Inr (2 # replicate 32 7)"
    by (rule sample_sender) (rule that)
  obtain m where m: "encrypted_message_new ?C ''hi'' t (2 # replicate 32 7) (replicate 32 5) = Inr m"
    by (rule sample_encrypts) (rule that)
  let ?p = "\<lparr>ep_address = a, ep_secret_key = replicate 32 5, ep_wallet_mode = ''send''\<rparr>"
  have "\<exists>st'. publisher_post_slate ?C ?X ?p (into_version a_slate V2) t True ?st = (Inr (), st')"
    by (rule publisher_post_slate_sends[OF t(2), where m = m and sg = "[1, 2, 3, 4]"])
      (use m sample_signs in \<open>simp_all add: sample_box_simps\<close>)
  then obtain st' where "publisher_post_slate ?C ?X ?p (into_version a_slate V2) t True ?st = (Inr (), st')" by blast
  then have run: "channel_send the_ext ?C ?X (epicbox_fmt t) None None a_slate ?st
      = (Inr (slate_of_versioned (into_version a_slate V2)), st')"
    using a t(1) by (simp add: channel_send_def start_epicbox_def publish_def bindE_app lib_result_def sample_box_simps)
  from epicbox_send_strips[OF this] have "sl_payment_proof (slate_of_versioned (into_version a_slate V2)) = None" by simp
  with run show ?thesis by blast
qed

lemma sample_key_ok: "key_ok sample_crypto (pk_of_secret sample_crypto (replicate 32 k))"
  by (simp add: key_ok_def sample_crypto_def)

theorem epicbox_delivers_witness:
  "\<exists>m from to f e sg p. encrypted_message_new sample_crypto ''hi'' to (pk_of_secret sample_crypto (replicate 32 6)) (replicate 32 5) = Inr m \<and>
     bx_done (snd (publisher_post_slate sample_crypto (sample_box m) \<lparr>ep_address = from, ep_secret_key = replicate 32 5, ep_wallet_mode = ''send''\<rparr>
       (into_version a_slate V3) to True (fresh_client None))) = [SentV1 (ReqPostSlate f (epicbox_stripped to) e sg), ClosedSocket] \<and>
     proof_from_response sample_crypto (xe_read_message (sample_box m)) (xe_read_slate (sample_box m)) f e sg (replicate 32 6) (Some to)
       = Inr (into_version a_slate V3, p)"
proof -
  let ?C = sample_crypto and ?a = "replicate 32 5" and ?b = "replicate 32 6"
  have new: "\<exists>x. epicbox_address_new ?C (pk_of_secret ?C k) d p = Some x" for k d p
    using sample_key_text by (simp add: epicbox_address_new_def) 
  obtain src to where addresses: "epicbox_address_new ?C (pk_of_secret ?C ?a) (Some ''epic.tech'') None = Some src"
    "epicbox_address_new ?C (pk_of_secret ?C ?b) None None = Some to"
    using new by blast
  obtain m where m: "encrypted_message_new ?C ''hi'' to (pk_of_secret ?C ?b) ?a = Inr m"
    by (rule sample_encrypts) (rule that)
  let ?X = "sample_box m" and ?p = "\<lparr>ep_address = src, ep_secret_key = ?a, ep_wallet_mode = ''send''\<rparr>"
  have to: "epicbox_public_key ?C to = Inr (pk_of_secret ?C ?b)"
    by (rule address_text[OF sample_key_ok[of 6] sample_crypto_ok(2)])
      (use addresses(2) in \<open>auto simp: epicbox_address_new_def epicbox_public_key_def\<close>)
  have "\<exists>st'. publisher_post_slate ?C ?X ?p (into_version a_slate V3) to True (fresh_client None) = (Inr (), st')"
    by (rule publisher_post_slate_sends[OF to, where m = m and sg = "[1, 2, 3, 4]"])
      (use m sample_signs in \<open>simp_all add: sample_box_simps\<close>)
  then obtain st' where run: "publisher_post_slate ?C ?X ?p (into_version a_slate V3) to True (fresh_client None) = (Inr (), st')" by blast
  have "\<exists>f e sg p. bx_done st' = bx_done (fresh_client None) @ SentV1 (ReqPostSlate f (epicbox_stripped to) e sg) # (if True then [ClosedSocket] else []) \<and>
    proof_from_response ?C (xe_read_message ?X) (xe_read_slate ?X) f e sg ?b (Some to) = Inr (into_version a_slate V3, p) \<and>
    epicbox_public_key ?C (tp_address p) = Inr (pk_of_secret ?C ?a)"
    by (rule epicbox_delivers[OF sample_key_ok sample_key_ok sample_crypto_ok(2) sample_cipher sample_signs(1) _ _ addresses _ _ _ run])
      (use m sample_text in \<open>auto simp: sample_box_simps domain_char_def digit_val_def\<close>)
  then obtain f e sg p where "bx_done st' = [SentV1 (ReqPostSlate f (epicbox_stripped to) e sg), ClosedSocket]"
    "proof_from_response ?C (xe_read_message ?X) (xe_read_slate ?X) f e sg ?b (Some to) = Inr (into_version a_slate V3, p)"
    by (auto simp: fresh_client_def)
  moreover have "bx_done (snd (publisher_post_slate ?C ?X ?p (into_version a_slate V3) to True (fresh_client None))) = bx_done st'"
    using run by simp
  ultimately show ?thesis using m by metis
qed

text \<open>The wallet is closed, so that the slate cannot be finalised.\<close>

lemma closed_process:
  "process_incoming_slate the_ext X None tc d (slate_of_versioned (into_version a_slate V3)) (fresh_client None)
     = (Inl (ImplsLibWallet (Lifecycle ''Wallet has not been opened'')), fresh_client None)"
proof -
  have "length (sl_participant_data (slate_of_versioned (into_version a_slate V3))) \<ge> sl_num_participants (slate_of_versioned (into_version a_slate V3))"
    by (simp add: slate_through_v3 a_slate_def)
  then show ?thesis
    by (simp add: process_incoming_slate_def on_wallet_def with_wallet_def bindE_app lib_result_def)
      (simp add: fresh_client_def closed_provider_def to_impls_def)
qed

theorem failed_slate_acknowledged_witness:
  "\<exists>m me f t sg sub made. on_slate_response the_ext sample_crypto (sample_box m) None tor_config_default me f t sg ''id'' (fresh_client None)
     = (Inr True, (fresh_client None)\<lparr>bx_done := [SentV2 sub, SentV2 made]\<rparr>)"
proof -
  let ?C = sample_crypto and ?a = "replicate 32 5" and ?b = "replicate 32 6"
  obtain t where t: "epicbox_from_str ?C (epicbox_fmt t) = Inr t" "epicbox_public_key ?C t = Inr (2 # replicate 32 7)"
    by (rule sample_sender) (rule that)
  obtain m where m: "encrypted_message_new ?C ''hi'' t (pk_of_secret ?C ?b) (replicate 32 7) = Inr m"
    by (rule sample_encrypts) (rule that)
  let ?X = "sample_box m" and ?me = "\<lparr>ep_address = t, ep_secret_key = ?b, ep_wallet_mode = ''listener''\<rparr>"
  have "\<exists>p. proof_from_response ?C (xe_read_message ?X) (xe_read_slate ?X) (epicbox_fmt t) ''hi'' (sig_to_hex ?C [1, 2, 3, 4]) ?b (Some t)
      = Inr (into_version a_slate V3, p) \<and> tp_address p = t"
    by (rule response_accepted[OF sample_cipher sample_text m sample_signs(2,1) t(1)])
      (use t(2) in \<open>simp_all add: sample_box_simps sample_crypto_def\<close>)
  then obtain p where p: "proof_from_response ?C (xe_read_message ?X) (xe_read_slate ?X) (epicbox_fmt t) ''hi'' (sig_to_hex ?C [1, 2, 3, 4]) ?b (Some t)
      = Inr (into_version a_slate V3, p)" by blast
  let ?sub = "V2Subscribe (ea_public_key t) EPICBOX_PROTOCOL_VERSION (sig_to_hex ?C [1, 2, 3, 4])"
  have "on_slate_response the_ext ?C ?X None tor_config_default ?me (epicbox_fmt t) ''hi'' (sig_to_hex ?C [1, 2, 3, 4]) ''id'' (fresh_client None)
    = (Inr True, (fresh_client None)\<lparr>bx_done := bx_done (fresh_client None) @
        [SentV2 ?sub, SentV2 (V2Made (ea_public_key (ep_address ?me)) (sig_to_hex ?C [1, 2, 3, 4]) EPICBOX_PROTOCOL_VERSION ''id'')]\<rparr>)"
    by (rule failed_slate_acknowledged[OF _ closed_process])
      (use p sample_signs(2) in \<open>simp_all add: sample_box_simps panics_def fresh_client_def subscribe_request_def lib_result_def\<close>)
  moreover have "bx_done (fresh_client None) = []" by (simp add: fresh_client_def)
  ultimately show ?thesis by (metis append_Nil)
qed

end
