(* ===== verification/Tor.thy ===== *)
theory Tor
  imports Seed Address ErrorText
begin

text \<open>
  The files a hidden service needs, \<open>impls/src/tor/config.rs\<close>, and what is read from the output
  of a starting Tor process, \<open>impls/src/tor/process.rs\<close>. The files are those of the disk of
  \<open>Seed\<close>; the separator is the one of Unix. The bytes of a key are written as characters.
\<close>

definition SEC_KEY_FILE :: string where "SEC_KEY_FILE = ''hs_ed25519_secret_key''"

definition PUB_KEY_FILE :: string where "PUB_KEY_FILE = ''hs_ed25519_public_key''"

definition HOSTNAME_FILE :: string where "HOSTNAME_FILE = ''hostname''"

definition TORRC_FILE :: string where "TORRC_FILE = ''torrc''"

definition TOR_DATA_DIR :: string where "TOR_DATA_DIR = ''data''"

definition AUTH_CLIENTS_DIR :: string where "AUTH_CLIENTS_DIR = ''authorized_clients''"

definition HIDDEN_SERVICES_DIR :: string where "HIDDEN_SERVICES_DIR = ''onion_service_addresses''"

text \<open>
  What the system answers beyond \<open>seed_ext\<close>: whether a mode can be set, how much a single
  \<open>write\<close> takes, flushing, and the random name of a directory.
\<close>

record tor_ext =
  os_set_mode :: "string \<Rightarrow> nat \<Rightarrow> string option"
  os_write_once :: "string \<Rightarrow> string \<Rightarrow> string + nat"
  os_flush :: "string \<Rightarrow> string option"
  os_sync :: "string \<Rightarrow> string option"
  random_name :: string

section \<open>Writing files\<close>

definition create_file :: "seed_ext \<Rightarrow> string \<Rightarrow> unit disk_op" where
  "create_file S p = io (os_create S p) (put_file p [])"

definition append_file :: "string \<Rightarrow> string \<Rightarrow> disk \<Rightarrow> disk" where
  "append_file p s d = put_file p ((case file_at d p of Some c \<Rightarrow> c | None \<Rightarrow> []) @ s) d"

definition write_all :: "seed_ext \<Rightarrow> string \<Rightarrow> string \<Rightarrow> unit disk_op" where
  "write_all S p s = (case os_write S p s of (n, failure) \<Rightarrow>
     bindE (modify (append_file p (take n s))) (\<lambda>_. io failure id))"

text \<open>A single \<open>write\<close>, whose count is not looked at.\<close>

definition write_once :: "tor_ext \<Rightarrow> string \<Rightarrow> string \<Rightarrow> unit disk_op" where
  "write_once T p s = (case os_write_once T p s of
      Inl e \<Rightarrow> throw (ImplsIO e)
    | Inr n \<Rightarrow> modify (append_file p (take n s)))"

definition set_mode :: "tor_ext \<Rightarrow> string \<Rightarrow> nat \<Rightarrow> unit disk_op" where
  "set_mode T p mode = io (os_set_mode T p mode) id"

definition set_permissions :: "tor_ext \<Rightarrow> string \<Rightarrow> unit disk_op" where
  "set_permissions T file_path = set_mode T file_path 0x1C0"

definition finish_file :: "tor_ext \<Rightarrow> string \<Rightarrow> unit disk_op" where
  "finish_file T p = bindE (io (os_flush T p) id) (\<lambda>_. bindE (io (os_sync T p) id) (\<lambda>_. set_mode T p 0x180))"

definition bytes_str :: "bytes \<Rightarrow> string" where
  "bytes_str bs = map (\<lambda>b. char_of (unat b)) bs"

section \<open>The configuration file\<close>

record TorRcConfigItem =
  tri_name :: string
  tri_value :: string

record TorRcConfig =
  trc_items :: "TorRcConfigItem list"

definition torrc_new :: TorRcConfig where
  "torrc_new = \<lparr>trc_items = []\<rparr>"

definition add_item :: "string \<Rightarrow> string \<Rightarrow> TorRcConfig \<Rightarrow> TorRcConfig" where
  "add_item name v c = c\<lparr>trc_items := trc_items c @ [\<lparr>tri_name = name, tri_value = v\<rparr>]\<rparr>"

fun write_items :: "seed_ext \<Rightarrow> string \<Rightarrow> TorRcConfigItem list \<Rightarrow> unit disk_op" where
  "write_items S p [] = ret ()"
| "write_items S p (item # items) =
     bindE (write_all S p (tri_name item)) (\<lambda>_.
     bindE (write_all S p '' '') (\<lambda>_.
     bindE (write_all S p (tri_value item)) (\<lambda>_.
     bindE (write_all S p [CHR 0x0A]) (\<lambda>_.
     write_items S p items))))"

definition write_to_file :: "seed_ext \<Rightarrow> TorRcConfig \<Rightarrow> string \<Rightarrow> unit disk_op" where
  "write_to_file S c file_path = bindE (create_file S file_path) (\<lambda>_. write_items S file_path (trc_items c))"

definition in_dir :: "string \<Rightarrow> string \<Rightarrow> string" where
  "in_dir dir name = dir @ ''/'' @ name"

fun add_services :: "string \<Rightarrow> string list \<Rightarrow> TorRcConfig \<Rightarrow> TorRcConfig" where
  "add_services wallet_listener_addr [] props = props"
| "add_services wallet_listener_addr (dir # dirs) props =
     add_services wallet_listener_addr dirs
       (add_item ''HiddenServicePort'' (''80 '' @ wallet_listener_addr) (add_item ''HiddenServiceDir'' dir props))"

definition output_torrc :: "seed_ext \<Rightarrow> string \<Rightarrow> string \<Rightarrow> string \<Rightarrow> string list \<Rightarrow> unit disk_op" where
  "output_torrc S tor_config_directory wallet_listener_addr socks_port service_dirs =
     (let props = add_item ''SocksPort'' socks_port torrc_new;
          props = add_item ''DataDirectory'' (in_dir tor_config_directory TOR_DATA_DIR) props;
          props = add_services wallet_listener_addr service_dirs props
      in write_to_file S props (in_dir tor_config_directory TORRC_FILE))"

section \<open>The files of a service\<close>

definition onion_address_from_seckey :: "ext \<Rightarrow> SecretKey \<Rightarrow> impls_error + string" where
  "onion_address_from_seckey E sec_key = lib_result (onion_v3_from_pubkey E (snd (ed25519_keypair E sec_key)))"

definition zero3 :: string where
  "zero3 = replicate 3 (CHR 0x00)"

definition create_onion_service_sec_key_file ::
    "seed_ext \<Rightarrow> tor_ext \<Rightarrow> string \<Rightarrow> bytes \<Rightarrow> bytes \<Rightarrow> unit disk_op" where
  "create_onion_service_sec_key_file S T os_directory d_sec_key d_pub_key =
     (let p = in_dir os_directory SEC_KEY_FILE in
      bindE (create_file S p) (\<lambda>_.
      bindE (write_once T p (''== ed25519v1-secret: type0 =='' @ zero3)) (\<lambda>_.
      bindE (write_all S p (bytes_str d_sec_key)) (\<lambda>_.
      bindE (write_all S p (bytes_str d_pub_key)) (\<lambda>_.
      finish_file T p)))))"

definition create_onion_service_pub_key_file :: "seed_ext \<Rightarrow> tor_ext \<Rightarrow> string \<Rightarrow> bytes \<Rightarrow> unit disk_op" where
  "create_onion_service_pub_key_file S T os_directory pub_key =
     (let p = in_dir os_directory PUB_KEY_FILE in
      bindE (create_file S p) (\<lambda>_.
      bindE (write_once T p (''== ed25519v1-public: type0 =='' @ zero3)) (\<lambda>_.
      bindE (write_all S p (bytes_str pub_key)) (\<lambda>_.
      finish_file T p))))"

definition create_onion_service_hostname_file :: "seed_ext \<Rightarrow> tor_ext \<Rightarrow> string \<Rightarrow> string \<Rightarrow> unit disk_op" where
  "create_onion_service_hostname_file S T os_directory hostname =
     (let p = in_dir os_directory HOSTNAME_FILE in
      bindE (create_file S p) (\<lambda>_.
      bindE (write_all S p (hostname @ ''.onion'' @ [CHR 0x0A])) (\<lambda>_.
      finish_file T p)))"

definition create_onion_auth_clients_dir :: "seed_ext \<Rightarrow> tor_ext \<Rightarrow> string \<Rightarrow> unit disk_op" where
  "create_onion_auth_clients_dir S T os_directory =
     (let p = in_dir os_directory AUTH_CLIENTS_DIR in
      bindE (create_dir_all S p) (\<lambda>_. set_permissions T p))"

definition service_dir :: "string \<Rightarrow> string \<Rightarrow> string" where
  "service_dir tor_config_directory address = in_dir (in_dir tor_config_directory HIDDEN_SERVICES_DIR) address"

definition service_files ::
    "ext \<Rightarrow> seed_ext \<Rightarrow> tor_ext \<Rightarrow> string \<Rightarrow> SecretKey \<Rightarrow> string \<Rightarrow> unit disk_op" where
  "service_files E S T dir sec_key address = (case ed25519_keypair E sec_key of (d_sec_key, d_pub_key) \<Rightarrow>
     bindE (create_onion_service_sec_key_file S T dir d_sec_key d_pub_key) (\<lambda>_.
     bindE (create_onion_service_pub_key_file S T dir d_pub_key) (\<lambda>_.
     bindE (create_onion_service_hostname_file S T dir address) (\<lambda>_.
     create_onion_auth_clients_dir S T dir))))"

definition make_service_dir :: "seed_ext \<Rightarrow> tor_ext \<Rightarrow> string \<Rightarrow> string \<Rightarrow> unit disk_op" where
  "make_service_dir S T tor_config_directory dir =
     bindE (create_dir_all S dir) (\<lambda>_.
     bindE (set_permissions T (in_dir tor_config_directory HIDDEN_SERVICES_DIR)) (\<lambda>_.
     set_permissions T dir))"

definition output_onion_service_config ::
    "ext \<Rightarrow> seed_ext \<Rightarrow> tor_ext \<Rightarrow> string \<Rightarrow> SecretKey \<Rightarrow> string disk_op" where
  "output_onion_service_config E S T tor_config_directory sec_key =
     bindE (liftE (onion_address_from_seckey E sec_key)) (\<lambda>address.
     (let dir = service_dir tor_config_directory address in
      bindE (gets (path_exists dir)) (\<lambda>exists.
      if exists then ret address
      else
        bindE (make_service_dir S T tor_config_directory dir) (\<lambda>_.
        bindE (service_files E S T dir sec_key address) (\<lambda>_.
        bindE (set_permissions T dir) (\<lambda>_. ret address))))))"

fun output_services :: "ext \<Rightarrow> seed_ext \<Rightarrow> tor_ext \<Rightarrow> string \<Rightarrow> SecretKey list \<Rightarrow> string list disk_op" where
  "output_services E S T tor_config_directory [] = ret []"
| "output_services E S T tor_config_directory (k # ks) =
     bindE (output_onion_service_config E S T tor_config_directory k) (\<lambda>service_dir.
     bindE (output_services E S T tor_config_directory ks) (\<lambda>dirs. ret (service_dir # dirs)))"

definition output_tor_listener_config ::
    "ext \<Rightarrow> seed_ext \<Rightarrow> tor_ext \<Rightarrow> string \<Rightarrow> string \<Rightarrow> SecretKey list \<Rightarrow> unit disk_op" where
  "output_tor_listener_config E S T tor_config_directory wallet_listener_addr listener_keys =
     (let tor_data_dir = in_dir tor_config_directory TOR_DATA_DIR in
      bindE (create_dir_all S tor_data_dir) (\<lambda>_.
      bindE (set_permissions T tor_data_dir) (\<lambda>_.
      bindE (output_services E S T tor_config_directory listener_keys) (\<lambda>service_dirs.
      output_torrc S tor_config_directory wallet_listener_addr ''0'' service_dirs))))"

definition output_tor_sender_config :: "seed_ext \<Rightarrow> string \<Rightarrow> string \<Rightarrow> unit disk_op" where
  "output_tor_sender_config S tor_config_dir socks_listener_addr =
     bindE (create_dir_all S tor_config_dir) (\<lambda>_. output_torrc S tor_config_dir [] socks_listener_addr [])"

definition output_tor_listener_config_auto ::
    "ext \<Rightarrow> seed_ext \<Rightarrow> tor_ext \<Rightarrow> string \<Rightarrow> string \<Rightarrow> string \<Rightarrow> SecretKey \<Rightarrow> unit disk_op" where
  "output_tor_listener_config_auto E S T tor_config_directory api_http_addr socks_listener_addr sec_key =
     (let tor_data_dir = in_dir tor_config_directory TOR_DATA_DIR in
      bindE (create_dir_all S tor_data_dir) (\<lambda>_.
      bindE (set_permissions T tor_data_dir) (\<lambda>_.
      bindE (liftE (onion_address_from_seckey E sec_key)) (\<lambda>address.
      (let dir = service_dir tor_config_directory address in
       bindE (make_service_dir S T tor_config_directory dir) (\<lambda>_.
       bindE (service_files E S T dir sec_key address) (\<lambda>_.
       bindE (output_torrc S tor_config_directory api_http_addr socks_listener_addr [dir]) (\<lambda>_.
       set_permissions T tor_config_directory))))))))"

definition output_onion_service_config_auto :: "seed_ext \<Rightarrow> tor_ext \<Rightarrow> string \<Rightarrow> string disk_op" where
  "output_onion_service_config_auto S T tor_config_directory =
     (let dir = service_dir tor_config_directory (random_name T) in
      bindE (create_dir_all S dir) (\<lambda>_. bindE (set_permissions T dir) (\<lambda>_. ret (random_name T))))"

section \<open>Addresses\<close>

definition is_tor_address :: "ext \<Rightarrow> string \<Rightarrow> impls_error + unit" where
  "is_tor_address E input = (case pubkey_from_onion_v3 E input of
      Inr _ \<Rightarrow> Inr ()
    | Inl (Panic p) \<Rightarrow> Inl (ImplsPanic p)
    | Inl e \<Rightarrow> Inl (ImplsNotOnion (error_fmt E e)))"

definition complete_tor_address :: "ext \<Rightarrow> string \<Rightarrow> impls_error + string" where
  "complete_tor_address E input =
     and_then (is_tor_address E input) (\<lambda>_.
     (let input = to_uppercase E input;
          input = (if \<not> starts_with ''HTTP://'' input \<and> \<not> starts_with ''HTTPS://'' input then ''HTTP://'' @ input else input);
          input = (if \<not> ends_with ''.ONION'' input then input @ ''.ONION'' else input)
      in Inr (to_lowercase E input)))"

end
