(* ===== verification/Adapters.thy ===== *)
theory Adapters
  imports Tor SlateVersions Json
begin

text \<open>
  Ways to hand a slate over: \<open>create_sender\<close> of \<open>impls/src/adapters/mod.rs\<close>, the HTTP sender of
  \<open>http.rs\<close> and the files of \<open>file.rs\<close>. The JSON values of slates are parameters.
\<close>

section \<open>Over HTTP\<close>

definition as_u16 :: "json \<Rightarrow> u16 option" where
  "as_u16 j = (case j of JInt n \<Rightarrow> if 0 \<le> n \<and> n < 2 ^ 16 then Some (of_int n) else None | _ \<Rightarrow> None)"

definition as_strings :: "json \<Rightarrow> string list option" where
  "as_strings j = (case j of JArr xs \<Rightarrow> those (map as_str xs) | _ \<Rightarrow> None)"

record sender_ext = http_ext +
  sx_slate :: "VersionedSlate \<Rightarrow> json"
  sx_codec :: json_codec
  sx_which_runs :: bool

definition http_sender_new :: "string \<Rightarrow> string option" where
  "http_sender_new base_url =
     (if \<not> starts_with ''http'' base_url \<and> \<not> starts_with ''https'' base_url then None else Some base_url)"

definition sender_post :: "'x sender_ext_scheme \<Rightarrow> string \<Rightarrow> string option \<Rightarrow> json \<Rightarrow> client_error + string" where
  "sender_post H url api_secret input = (case client_new H of
      Inl _ \<Rightarrow> Inl (Internal ''Unable to create http client'')
    | Inr _ \<Rightarrow> send_request H url api_secret input)"

text \<open>The value of an answer, whose text must be JSON.\<close>

definition answer_value :: "'x sender_ext_scheme \<Rightarrow> string \<Rightarrow> error + json" where
  "answer_value H res = or_err (Panic ''serde_json::from_str'') (json_of_string H res)"

definition error_report :: "'x sender_ext_scheme \<Rightarrow> string \<Rightarrow> json \<Rightarrow> error + unit" where
  "error_report H what res =
     (if jget res ''error'' \<noteq> JNull
      then Inl (ClientCallback (what @ '': Error: '' @ json_display H (jget (jget res ''error'') ''code'') @ '', Message: '' @
             json_display H (jget (jget res ''error'') ''message'')))
      else Inr ())"

definition negotiate :: "json \<Rightarrow> error + SlateVersion" where
  "negotiate resp_value =
     and_then (or_err (Panic ''foreign_api_version'') (as_u16 (jget resp_value ''foreign_api_version''))) (\<lambda>foreign_api_version.
     and_then (or_err (Panic ''supported_slate_versions'') (as_strings (jget resp_value ''supported_slate_versions''))) (\<lambda>supported.
     if foreign_api_version < 2 then Inl (ClientCallback ''Other wallet reports unrecognized API format.'')
     else if ''V3'' \<in> set supported then Inr V3
     else if ''V2'' \<in> set supported then Inr V2
     else Inl (ClientCallback ''Unable to negotiate slate format with other wallet.'')))"

definition rpc_call :: "string \<Rightarrow> json list \<Rightarrow> json" where
  "rpc_call name params = JObj [(''jsonrpc'', JStr ''2.0''), (''method'', JStr name), (''id'', JInt 1), (''params'', JArr params)]"

definition check_other_version :: "'x sender_ext_scheme \<Rightarrow> string \<Rightarrow> error + SlateVersion" where
  "check_other_version H url =
     and_then (case sender_post H url None (rpc_call ''check_version'' []) of
         Inr res \<Rightarrow> Inr res
       | Inl e \<Rightarrow> Inl (ClientCallback
           (if contains (client_error_fmt e) ''404''
            then ''Other wallet is incompatible and requires an upgrade. '' @
                 ''Please urge the other wallet owner to upgrade and try the transaction again.''
            else ''Performing version check (is recipient listening?): '' @ client_error_fmt e))) (\<lambda>res.
     and_then (answer_value H res) (\<lambda>res.
     and_then (error_report H ''Posting transaction'' res) (\<lambda>_.
     negotiate (jget (jget res ''result'') ''Ok''))))"

text \<open>The slate in the version the other wallet reads.\<close>

definition version_to_send :: "Slate \<Rightarrow> SlateVersion \<Rightarrow> error + VersionedSlate" where
  "version_to_send slate v = (case v of
      V3 \<Rightarrow> Inr (into_version slate V3)
    | V2 \<Rightarrow>
        if sl_payment_proof slate \<noteq> None
        then Inl (ClientCallback (''Payment proof requested, but other wallet does not support payment proofs. '' @
               ''Please urge other user to upgrade, or re-send tx without a payment proof''))
        else Inr (into_version (slate\<lparr>sl_version_info := (sl_version_info slate)\<lparr>vc_version := 2, vc_orig_version := 2\<rparr>\<rparr>) V2))"

definition receive_request :: "'x sender_ext_scheme \<Rightarrow> VersionedSlate \<Rightarrow> json" where
  "receive_request H slate_send = rpc_call ''receive_tx'' [sx_slate H slate_send, JNull, JNull, JNull]"

definition http_send_tx :: "'x sender_ext_scheme \<Rightarrow> string \<Rightarrow> bool \<Rightarrow> Slate \<Rightarrow> error + Slate" where
  "http_send_tx H base_url is_node_synced slate =
     (if \<not> is_node_synced then Inl (ClientCallback ''Node not synchronized'')
      else
        (let trailing = (if ends_with ''/'' base_url then [] else ''/'');
             url_str = base_url @ trailing @ ''v2/foreign'' in
         and_then (check_other_version H url_str) (\<lambda>v.
         and_then (version_to_send slate v) (\<lambda>slate_send.
         and_then (case sender_post H url_str None (receive_request H slate_send) of
             Inr res \<Rightarrow> Inr res
           | Inl e \<Rightarrow> Inl (ClientCallback (''Posting transaction slate (is recipient listening?): '' @ client_error_fmt e))) (\<lambda>res.
         and_then (answer_value H res) (\<lambda>res.
         and_then (error_report H ''Posting transaction slate'' res) (\<lambda>_.
         and_then (or_err (Panic ''serde_json::to_string'') (json_to_string H (jget (jget res ''result'') ''Ok''))) (\<lambda>slate_text.
         (case deserialize_upgrade (sx_codec H) slate_text of
            Inr s \<Rightarrow> Inr s | Inl (Panic p) \<Rightarrow> Inl (Panic p) | Inl _ \<Rightarrow> Inl SlateDeser)))))))))"

section \<open>Choosing a sender\<close>

datatype slate_sender = HttpSender string | KeybaseSender string

definition keybase_installed :: "'x sender_ext_scheme \<Rightarrow> bool" where
  "keybase_installed H = sx_which_runs H"

definition keybase_channel_new :: "'x sender_ext_scheme \<Rightarrow> string \<Rightarrow> error + string" where
  "keybase_channel_new H channel =
     (if CHR '','' \<in> set channel then Inl (GenericError ''Only one recipient is supported!'')
      else if \<not> keybase_installed H
      then Inl (GenericError ''Keybase executable not found, make sure it is installed and in your PATH'')
      else Inr channel)"

definition create_sender :: "ext \<Rightarrow> 'x sender_ext_scheme \<Rightarrow> string \<Rightarrow> string \<Rightarrow> error + slate_sender" where
  "create_sender E H method dest =
     (let invalid = WalletComms (''Invalid wallet comm type and destination. method: '' @ method @ '', dest: '' @ dest) in
      and_then (case complete_tor_address E dest of
          Inr d \<Rightarrow> Inr (''tor'', d)
        | Inl (ImplsPanic p) \<Rightarrow> Inl (Panic p)
        | Inl _ \<Rightarrow> Inr (method, dest)) (\<lambda>(method, dest).
      if method = ''http'' \<or> method = ''tor''
      then (case http_sender_new dest of Some u \<Rightarrow> Inr (HttpSender u) | None \<Rightarrow> Inl invalid)
      else if method = ''keybase'' then (case keybase_channel_new H dest of Inr c \<Rightarrow> Inr (KeybaseSender c) | Inl e \<Rightarrow> Inl e)
      else if method = ''self'' then Inl (WalletComms (''No sender implementation for '' @ [CHR 0x22] @ ''self'' @ [CHR 0x22] @ ''.''))
      else if method = ''file'' then Inl (WalletComms ''File based transactions must be performed asynchronously.'')
      else Inl (WalletComms (''Wallet comm method '' @ [CHR 0x22] @ method @ [CHR 0x22] @ '' does not exist.''))))"

section \<open>Files\<close>

definition std_io :: "impls_error \<Rightarrow> error" where
  "std_io e = (case e of ImplsIO m \<Rightarrow> StdIO m | ImplsPanic p \<Rightarrow> Panic p | _ \<Rightarrow> Diverges)"

definition on_files :: "'a disk_op \<Rightarrow> (disk, error, 'a) proc" where
  "on_files m d = (case m d of (Inl e, d') \<Rightarrow> (Inl (std_io e), d') | (Inr x, d') \<Rightarrow> (Inr x, d'))"

definition versioned_text :: "json_codec \<Rightarrow> VersionedSlate \<Rightarrow> string" where
  "versioned_text J s = (case s of SlateAsV3 s \<Rightarrow> ser_v3 J s | SlateAsV2 s \<Rightarrow> ser_v2 J s)"

definition file_version :: "Slate \<Rightarrow> VersionedSlate" where
  "file_version slate =
     (if sl_payment_proof slate \<noteq> None \<or> sl_ttl_cutoff_height slate \<noteq> None then into_version slate V3
      else into_version (slate\<lparr>sl_version_info := (sl_version_info slate)\<lparr>vc_version := 2, vc_orig_version := 2\<rparr>\<rparr>) V2)"

definition file_put_tx :: "seed_ext \<Rightarrow> tor_ext \<Rightarrow> json_codec \<Rightarrow> string \<Rightarrow> Slate \<Rightarrow> (disk, error, unit) proc" where
  "file_put_tx S T J p slate =
     bindE (on_files (create_file S p)) (\<lambda>_.
     bindE (on_files (write_all S p (versioned_text J (file_version slate)))) (\<lambda>_.
     on_files (io (os_sync T p) id)))"

definition file_get_tx :: "seed_ext \<Rightarrow> json_codec \<Rightarrow> string \<Rightarrow> (disk, error, Slate) proc" where
  "file_get_tx S J p =
     bindE (on_files (io (os_open S p) id)) (\<lambda>_.
     bindE (on_files (io (os_read_text S p) id)) (\<lambda>_.
     bindE (gets (\<lambda>d. file_at d p)) (\<lambda>c. case c of
       None \<Rightarrow> throw (StdIO ''No such file or directory'')
     | Some content \<Rightarrow> liftE (deserialize_upgrade J content))))"

end
