(* ===== verification/ForeignApi.thy ===== *)
theory ForeignApi
  imports Owner Lifecycle NodeHttp
begin

text \<open>
  The operations a wallet offers to others: \<open>api/src/foreign.rs\<close>, their networked form
  \<open>api/src/foreign_rpc.rs\<close>, and the handler of \<open>controller/src/controller.rs\<close> behind
  \<open>/v2/foreign\<close>. The wallet is the one the provider has open. The dispatch that the macro of
  \<open>easy_jsonrpc_mw\<close> generates is a parameter: which call a request is, or what is answered to
  one that is none.
\<close>

section \<open>The operations\<close>

datatype ForeignCheckMiddlewareFn = CheckVersion | BuildCoinbase | VerifySlateMessages | ReceiveTx | FinalizeInvoiceTx

type_synonym ForeignCheckMiddleware =
  "ForeignCheckMiddlewareFn \<Rightarrow> NodeVersionInfo option \<Rightarrow> Slate option \<Rightarrow> error + unit"

text \<open>The wallet of the API is the provider; \<open>fa_node_version\<close> is what its node client answers.\<close>

record foreign_api =
  fa_doctest_mode :: bool
  fa_middleware :: "ForeignCheckMiddleware option"
  fa_keychain_mask :: "SecretKey option"
  fa_node_version :: "NodeVersionInfo option"

definition foreign_new :: "SecretKey option \<Rightarrow> ForeignCheckMiddleware option \<Rightarrow> NodeVersionInfo option \<Rightarrow> foreign_api" where
  "foreign_new keychain_mask middleware v =
     \<lparr>fa_doctest_mode = False, fa_middleware = middleware, fa_keychain_mask = keychain_mask, fa_node_version = v\<rparr>"

definition run_middleware :: "foreign_api \<Rightarrow> ForeignCheckMiddlewareFn \<Rightarrow> Slate option \<Rightarrow> error + unit" where
  "run_middleware A name slate = (case fa_middleware A of
      None \<Rightarrow> Inr () | Some m \<Rightarrow> m name (fa_node_version A) slate)"

definition foreign_check_version :: "foreign_api \<Rightarrow> VersionInfo lc_op" where
  "foreign_check_version A =
     bindE (case fa_middleware A of None \<Rightarrow> ret () | Some _ \<Rightarrow> with_wallet (liftE (run_middleware A CheckVersion None))) (\<lambda>_.
     ret check_version)"

definition foreign_build_coinbase :: "ext \<Rightarrow> foreign_api \<Rightarrow> BlockFees \<Rightarrow> CbData lc_op" where
  "foreign_build_coinbase E A block_fees = with_wallet
     (bindE (liftE (run_middleware A BuildCoinbase None)) (\<lambda>_.
      build_coinbase E (fa_keychain_mask A) block_fees (fa_doctest_mode A)))"

definition foreign_build_foundation :: "ext \<Rightarrow> foreign_api \<Rightarrow> BlockFees \<Rightarrow> CbData lc_op" where
  "foreign_build_foundation E A block_fees = with_wallet
     (bindE (liftE (run_middleware A BuildCoinbase None)) (\<lambda>_.
      build_foundation E (fa_keychain_mask A) block_fees (fa_doctest_mode A)))"

definition foreign_verify_slate_messages :: "ext \<Rightarrow> foreign_api \<Rightarrow> Slate \<Rightarrow> unit lc_op" where
  "foreign_verify_slate_messages E A slate =
     bindE (case fa_middleware A of
         None \<Rightarrow> ret () | Some _ \<Rightarrow> with_wallet (liftE (run_middleware A VerifySlateMessages (Some slate)))) (\<lambda>_.
     liftE (verify_messages E slate))"

definition foreign_receive_tx ::
    "ext \<Rightarrow> foreign_api \<Rightarrow> Slate \<Rightarrow> string option \<Rightarrow> string option \<Rightarrow> string option \<Rightarrow> Slate lc_op" where
  "foreign_receive_tx E A slate dest_acct_name message addr_from = with_wallet
     (bindE (liftE (run_middleware A ReceiveTx (Some slate))) (\<lambda>_.
      receive_tx E (fa_keychain_mask A) slate dest_acct_name message addr_from (fa_doctest_mode A)))"

definition foreign_finalize_invoice_tx :: "ext \<Rightarrow> foreign_api \<Rightarrow> Slate \<Rightarrow> Slate lc_op" where
  "foreign_finalize_invoice_tx E A slate = with_wallet
     (bindE (liftE (run_middleware A FinalizeInvoiceTx (Some slate))) (\<lambda>_.
      finalize_invoice_tx E (fa_keychain_mask A) slate))"

text \<open>The check the listener installs.\<close>

definition check_middleware :: ForeignCheckMiddleware where
  "check_middleware name node_version_info slate = (case name of
      BuildCoinbase \<Rightarrow> Inr ()
    | _ \<Rightarrow>
        (let bhv = (case node_version_info of Some n \<Rightarrow> nv_block_header_version n | None \<Rightarrow> 2) in
         case slate of
           Some s \<Rightarrow> if bhv > 3 \<and> vc_block_header_version (sl_version_info s) < EPIC_BLOCK_HEADER_VERSION
              then Inl (Compatibility (''Incoming Slate is not compatible with this wallet. '' @
                        ''Please upgrade the node or use a different one.''))
              else Inr ()
         | None \<Rightarrow> Inr ()))"

section \<open>The networked form\<close>

definition rpc_build_coinbase :: "ext \<Rightarrow> foreign_api \<Rightarrow> BlockFees \<Rightarrow> VersionedCoinbase lc_op" where
  "rpc_build_coinbase E A block_fees =
     bindE (foreign_build_coinbase E A block_fees) (\<lambda>cb. ret (coinbase_into_version cb V3))"

definition rpc_build_foundation :: "ext \<Rightarrow> foreign_api \<Rightarrow> BlockFees \<Rightarrow> VersionedCoinbase lc_op" where
  "rpc_build_foundation E A block_fees =
     bindE (foreign_build_foundation E A block_fees) (\<lambda>cb. ret (coinbase_into_version cb V3))"

definition rpc_verify_slate_messages :: "ext \<Rightarrow> foreign_api \<Rightarrow> VersionedSlate \<Rightarrow> unit lc_op" where
  "rpc_verify_slate_messages E A slate = foreign_verify_slate_messages E A (slate_of_versioned slate)"

definition rpc_receive_tx ::
    "ext \<Rightarrow> foreign_api \<Rightarrow> VersionedSlate \<Rightarrow> string option \<Rightarrow> string option \<Rightarrow> string option \<Rightarrow> VersionedSlate lc_op" where
  "rpc_receive_tx E A in_slate dest_acct_name message addr_from =
     (let version = versioned_slate_version in_slate; slate_from = slate_of_versioned in_slate in
      bindE (foreign_receive_tx E A slate_from dest_acct_name message addr_from) (\<lambda>out_slate.
      ret (into_version out_slate version)))"

definition rpc_finalize_invoice_tx :: "ext \<Rightarrow> foreign_api \<Rightarrow> VersionedSlate \<Rightarrow> VersionedSlate lc_op" where
  "rpc_finalize_invoice_tx E A in_slate =
     (let version = versioned_slate_version in_slate in
      bindE (foreign_finalize_invoice_tx E A (slate_of_versioned in_slate)) (\<lambda>out_slate.
      ret (into_version out_slate version)))"

section \<open>The handler\<close>

datatype foreign_call =
    FCheckVersion
  | FBuildCoinbase BlockFees
  | FBuildFoundation BlockFees
  | FVerifySlateMessages VersionedSlate
  | FReceiveTx VersionedSlate "string option" "string option" "string option"
  | FFinalizeInvoiceTx VersionedSlate

text \<open>
  \<open>fx_call\<close> reads a request: a call with the request's id, or the reply to a request that is no
  call, if any. The other fields are the readers and writers of serde.
\<close>

record foreign_ext = json_ext +
  fx_pretty :: "json \<Rightarrow> string option"
  fx_request_error :: "string \<Rightarrow> string"
  fx_call :: "json \<Rightarrow> json option + foreign_call \<times> json"
  fx_version_info :: "VersionInfo \<Rightarrow> json"
  fx_coinbase :: "VersionedCoinbase \<Rightarrow> json"
  fx_slate :: "VersionedSlate \<Rightarrow> json"
  fx_error :: "error \<Rightarrow> json"

text \<open>What is answered; a panic answers nothing and is the error.\<close>

definition rpc_answer :: "'x foreign_ext_scheme \<Rightarrow> json \<Rightarrow> ('a \<Rightarrow> json) \<Rightarrow> ('s, error, 'a) proc \<Rightarrow> ('s, error, json) proc" where
  "rpc_answer X i f m s = (case m s of
      (Inl (Panic p), s') \<Rightarrow> (Inl (Panic p), s')
    | (Inl Diverges, s') \<Rightarrow> (Inl Diverges, s')
    | (Inl e, s') \<Rightarrow> (Inr (JObj [(''id'', i), (''jsonrpc'', JStr ''2.0''), (''result'', JObj [(''Err'', fx_error X e)])]), s')
    | (Inr x, s') \<Rightarrow> (Inr (JObj [(''id'', i), (''jsonrpc'', JStr ''2.0''), (''result'', JObj [(''Ok'', f x)])]), s'))"

definition foreign_handle_request :: "ext \<Rightarrow> 'x foreign_ext_scheme \<Rightarrow> foreign_api \<Rightarrow> json \<Rightarrow> json option lc_op" where
  "foreign_handle_request E X A val = (case fx_call X val of
      Inl reply \<Rightarrow> ret reply
    | Inr (call, i) \<Rightarrow>
        bindE (case call of
            FCheckVersion \<Rightarrow> rpc_answer X i (fx_version_info X) (foreign_check_version A)
          | FBuildCoinbase b \<Rightarrow> rpc_answer X i (fx_coinbase X) (rpc_build_coinbase E A b)
          | FBuildFoundation b \<Rightarrow> rpc_answer X i (fx_coinbase X) (rpc_build_foundation E A b)
          | FVerifySlateMessages s \<Rightarrow> rpc_answer X i (\<lambda>_. JNull) (rpc_verify_slate_messages E A s)
          | FReceiveTx s d m a \<Rightarrow> rpc_answer X i (fx_slate X) (rpc_receive_tx E A s d m a)
          | FFinalizeInvoiceTx s \<Rightarrow> rpc_answer X i (fx_slate X) (rpc_finalize_invoice_tx E A s)) (\<lambda>r. ret (Some r)))"

definition foreign_call_api :: "ext \<Rightarrow> 'x foreign_ext_scheme \<Rightarrow> foreign_api \<Rightarrow> json \<Rightarrow> json lc_op" where
  "foreign_call_api E X A val =
     bindE (foreign_handle_request E X A val) (\<lambda>reply. case reply of Some r \<Rightarrow> ret r | None \<Rightarrow> ret (JArr []))"

text \<open>The status and the text of an answer.\<close>

datatype http_reply = HttpReply nat string

definition json_response_pretty :: "'x foreign_ext_scheme \<Rightarrow> json \<Rightarrow> http_reply" where
  "json_response_pretty X v = (case fx_pretty X v of Some t \<Rightarrow> HttpReply 200 t | None \<Rightarrow> HttpReply 500 [])"

definition create_error_response :: "string \<Rightarrow> http_reply" where
  "create_error_response e = HttpReply 500 e"

text \<open>The handler keeps the mask that is set when the request comes in.\<close>

definition foreign_post ::
    "ext \<Rightarrow> 'x foreign_ext_scheme \<Rightarrow> bool \<Rightarrow> SecretKey option \<Rightarrow> NodeVersionInfo option \<Rightarrow> string \<Rightarrow> http_reply lc_op" where
  "foreign_post E X is_node_synced km v body =
     (if \<not> is_node_synced then ret (HttpReply 503 ''Node not synchronized'')
      else (case json_of_string X body of
          None \<Rightarrow> ret (create_error_response (fx_request_error X body))
        | Some val \<Rightarrow>
            bindE (foreign_call_api E X (foreign_new km (Some check_middleware) v) val) (\<lambda>res.
            ret (json_response_pretty X res))))"

end
