(* ===== verification/TorProcess.thy ===== *)
theory TorProcess
  imports Tor
begin

text \<open>
  Starting Tor: \<open>impls/src/tor/process.rs\<close>. The output of the process is the list of the lines
  it writes, each with its line end, and the error of a read after them, if any; decoding the
  bytes, spawning and the timer are parameters. The process ids that were killed are recorded.
\<close>

datatype tor_error =
    TorProcess string
  | TorIO string
  | TorPID string
  | TorFailed string "string list"
  | InvalidLogLine
  | InvalidBootstrapLine string
  | TorRegex string
  | ProcessNotStarted
  | TorTimeout
  | TorPanic string

record process_spec =
  tp_tor_cmd :: string
  tp_args :: "string list"
  tp_torrc_path :: "string option"
  tp_completion_percent :: u8
  tp_timeout :: u32
  tp_working_dir :: "string option"
  tp_process :: "int option"

definition tor_process_new :: process_spec where
  "tor_process_new = \<lparr>tp_tor_cmd = ''tor/tor'', tp_args = [], tp_torrc_path = None, tp_completion_percent = 100,
     tp_timeout = 0, tp_working_dir = None, tp_process = None\<rparr>"

definition tp_set_tor_cmd :: "string \<Rightarrow> process_spec \<Rightarrow> process_spec" where
  "tp_set_tor_cmd cmd p = p\<lparr>tp_tor_cmd := cmd\<rparr>"

definition tp_set_torrc_path :: "string \<Rightarrow> process_spec \<Rightarrow> process_spec" where
  "tp_set_torrc_path f p = p\<lparr>tp_torrc_path := Some f\<rparr>"

definition tp_add_arg :: "string \<Rightarrow> process_spec \<Rightarrow> process_spec" where
  "tp_add_arg arg p = p\<lparr>tp_args := tp_args p @ [arg]\<rparr>"

definition tp_add_args :: "string list \<Rightarrow> process_spec \<Rightarrow> process_spec" where
  "tp_add_args args p = fold tp_add_arg args p"

definition tp_set_completion_percent :: "u8 \<Rightarrow> process_spec \<Rightarrow> process_spec" where
  "tp_set_completion_percent n p = p\<lparr>tp_completion_percent := n\<rparr>"

definition tp_set_timeout :: "u32 \<Rightarrow> process_spec \<Rightarrow> process_spec" where
  "tp_set_timeout n p = p\<lparr>tp_timeout := n\<rparr>"

definition tp_set_working_dir :: "string \<Rightarrow> process_spec \<Rightarrow> process_spec" where
  "tp_set_working_dir d p = p\<lparr>tp_working_dir := Some d\<rparr>"

section \<open>The output\<close>

text \<open>
  The expression \<open>^\[notice\] Bootstrapped ([0-9]+)%(.*): \<close>: the digits of its first group.
\<close>

definition bootstrap_perc :: "string \<Rightarrow> string option" where
  "bootstrap_perc line =
     (let pre = ''[notice] Bootstrapped '' in
      if \<not> starts_with pre line then None
      else
        (let r = drop (length pre) line;
             ds = takeWhile (\<lambda>c. digit_val 10 c \<noteq> None) r;
             r = drop (length ds) r
         in if ds \<noteq> [] \<and> starts_with ''%'' r \<and>
               contains (takeWhile (\<lambda>c. c \<noteq> CHR 0x0A) (drop 1 r)) '': ''
            then Some ds else None))"

definition timestamp_len :: nat where
  "timestamp_len = 19"

text \<open>What one line means: an error, or whether the process is up, with the warnings so far.\<close>

definition tor_line :: "u8 \<Rightarrow> string list \<Rightarrow> string \<Rightarrow> tor_error + bool \<times> string list" where
  "tor_line completion_perc warnings raw_line =
     (if length raw_line < timestamp_len + 1 then Inl InvalidLogLine
      else (case and_then (str_slice 0 timestamp_len raw_line) (\<lambda>_.
                   str_slice (timestamp_len + 1) (length raw_line - 1) raw_line) of
          Inl _ \<Rightarrow> Inl (TorPanic ''str slice'')
        | Inr line \<Rightarrow>
            if nth_piece 0 CHR '' '' line = Some ''[notice]'' then
              (if nth_piece 1 CHR '' '' line = Some ''Bootstrapped''
               then (case Option.bind (bootstrap_perc line) (parse_uint 10 256) of
                   None \<Rightarrow> Inl (InvalidBootstrapLine line)
                 | Some perc \<Rightarrow> Inr (unat completion_perc \<le> perc, warnings))
               else Inr (False, warnings))
            else if nth_piece 0 CHR '' '' line = Some ''[warn]'' then Inr (False, warnings @ [line])
            else if nth_piece 0 CHR '' '' line = Some ''[err]'' then Inl (TorFailed line warnings)
            else Inr (False, warnings)))"

text \<open>The lines that are left when the process is up, or when there are no more.\<close>

fun parse_lines :: "u8 \<Rightarrow> string list \<Rightarrow> string option \<Rightarrow> string list \<Rightarrow> tor_error + string list" where
  "parse_lines completion_perc warnings failure [] =
     (case failure of Some e \<Rightarrow> Inl (TorProcess e) | None \<Rightarrow> Inr [])"
| "parse_lines completion_perc warnings failure (raw_line # lines) =
     (case tor_line completion_perc warnings raw_line of
        Inl e \<Rightarrow> Inl e
      | Inr (up, warnings) \<Rightarrow> if up then Inr lines else parse_lines completion_perc warnings failure lines)"

definition parse_tor_stdout :: "string list \<Rightarrow> string option \<Rightarrow> u8 \<Rightarrow> tor_error + string list" where
  "parse_tor_stdout lines failure completion_perc = parse_lines completion_perc [] failure lines"

section \<open>Launching\<close>

text \<open>
  The processes of the system, the outcome of spawning with the arguments, what the process
  writes, and whether the timer goes off first.
\<close>

record tor_os =
  os_process :: "int \<Rightarrow> bool"
  os_spawn :: "string \<Rightarrow> string list \<Rightarrow> string + int"
  os_stdout :: "string list \<times> string option"
  os_too_late :: bool

record tor_world =
  tw_disk :: disk
  tw_killed :: "int list"

type_synonym 'a tor_op = "(tor_world, tor_error, 'a) proc"

text \<open>\<open>parse::<i32>\<close>.\<close>

definition parse_i32 :: "string \<Rightarrow> int option" where
  "parse_i32 s = (case s of
      CHR ''-'' # d # cs \<Rightarrow>
        (if d = CHR ''+'' then None
         else map_option (\<lambda>n. - int n) (parse_uint 10 (2 ^ 31 + 1) (d # cs)))
    | _ \<Rightarrow> map_option int (parse_uint 10 (2 ^ 31) s))"

definition tor_io :: "'a disk_op \<Rightarrow> 'a tor_op" where
  "tor_io m s = (case m (tw_disk s) of
      (Inl (ImplsIO e), d) \<Rightarrow> (Inl (TorIO e), s\<lparr>tw_disk := d\<rparr>)
    | (Inl _, d) \<Rightarrow> (Inl (TorIO []), s\<lparr>tw_disk := d\<rparr>)
    | (Inr x, d) \<Rightarrow> (Inr x, s\<lparr>tw_disk := d\<rparr>))"

definition kill_pid :: "int \<Rightarrow> unit tor_op" where
  "kill_pid pid = modify (\<lambda>s. s\<lparr>tw_killed := tw_killed s @ [pid]\<rparr>)"

definition kill_process :: "process_spec \<Rightarrow> unit tor_op" where
  "kill_process p = (case tp_process p of None \<Rightarrow> throw ProcessNotStarted | Some pid \<Rightarrow> kill_pid pid)"

definition pid_file :: "string \<Rightarrow> string" where
  "pid_file d = in_dir d ''pid''"

definition read_file :: "seed_ext \<Rightarrow> string \<Rightarrow> string disk_op" where
  "read_file S p =
     bindE (io (os_open S p) id) (\<lambda>_.
     bindE (io (os_read_text S p) id) (\<lambda>_.
     bindE (gets (\<lambda>d. file_at d p)) (\<lambda>c.
     case c of None \<Rightarrow> throw (ImplsIO ''Is a directory'') | Some s \<Rightarrow> ret s)))"

definition kill_old :: "seed_ext \<Rightarrow> tor_os \<Rightarrow> string \<Rightarrow> unit tor_op" where
  "kill_old S OS d =
     bindE (gets (\<lambda>s. path_exists (pid_file d) (tw_disk s))) (\<lambda>exists.
     if exists then
       bindE (tor_io (read_file S (pid_file d))) (\<lambda>pid.
       (case parse_i32 pid of
          None \<Rightarrow> throw (TorPID pid)
        | Some pid \<Rightarrow> if os_process OS pid then kill_pid pid else ret ()))
     else ret ())"

definition decimal_int :: "int \<Rightarrow> string" where
  "decimal_int n = (if n < 0 then ''-'' @ decimal (nat (- n)) else decimal (nat n))"

definition launch :: "seed_ext \<Rightarrow> tor_os \<Rightarrow> process_spec \<Rightarrow> process_spec tor_op" where
  "launch S OS p =
     bindE (case tp_working_dir p of Some d \<Rightarrow> kill_old S OS d | None \<Rightarrow> ret ()) (\<lambda>_.
     bindE (case os_spawn OS (tp_tor_cmd p)
                ((case tp_torrc_path p of Some f \<Rightarrow> [''-f'', f] | None \<Rightarrow> []) @ tp_args p) of
         Inl e \<Rightarrow> throw (TorProcess (''TOR executable (`tor/tor`) not found. '' @
             ''Please ensure TOR is installed and on the path: '' @ e))
       | Inr pid \<Rightarrow> ret pid) (\<lambda>pid.
     bindE (case tp_working_dir p of
         Some d \<Rightarrow> tor_io (create_and_write S (pid_file d) (decimal_int pid))
       | None \<Rightarrow> ret ()) (\<lambda>_.
     (let p = p\<lparr>tp_process := Some pid\<rparr> in
      case (if os_too_late OS then Inl TorTimeout
            else parse_tor_stdout (fst (os_stdout OS)) (snd (os_stdout OS)) (tp_completion_percent p)) of
        Inr _ \<Rightarrow> ret p
      | Inl e \<Rightarrow> bindE (attempt (kill_process p)) (\<lambda>_. throw e)))))"

end
