(* ===== verification/TorProps.thy ===== *)
theory TorProps
  imports TorProcess LifecycleProps PaymentProofProps
begin

text \<open>
  What is written for a hidden service and what Tor is told about it; which addresses are
  completed, and to what; and when a starting process counts as started.
\<close>

section \<open>The files of a service\<close>

definition tor_works :: "tor_ext \<Rightarrow> bool" where
  "tor_works T \<longleftrightarrow> (\<forall>p m. os_set_mode T p m = None) \<and> (\<forall>p s. os_write_once T p s = Inr (length s)) \<and>
     (\<forall>p. os_flush T p = None \<and> os_sync T p = None)"

lemma tor_worksD:
  assumes "tor_works T"
  shows "os_set_mode T p m = None" "os_write_once T p s = Inr (length s)" "os_flush T p = None" "os_sync T p = None"
  using assms by (simp_all add: tor_works_def)

lemma append_put [simp]: "append_file p s (put_file p c d) = put_file p (c @ s) d"
  by (simp add: append_file_def) (simp add: put_file_def)

lemma create_file_works: "disk_works S \<Longrightarrow> create_file S p d = (Inr (), put_file p [] d)"
  by (simp add: create_file_def disk_worksD)

lemma write_all_works: "disk_works S \<Longrightarrow> write_all S p s d = (Inr (), append_file p s d)"
  by (simp add: write_all_def disk_worksD bindE_app)

lemma write_once_works: "tor_works T \<Longrightarrow> write_once T p s d = (Inr (), append_file p s d)"
  by (simp add: write_once_def tor_worksD)

lemma set_permissions_works: "tor_works T \<Longrightarrow> set_permissions T p d = (Inr (), d)"
  by (simp add: set_permissions_def set_mode_def tor_worksD)

lemma finish_file_works: "tor_works T \<Longrightarrow> finish_file T p d = (Inr (), d)"
  by (simp add: finish_file_def set_mode_def tor_worksD bindE_app)

lemmas file_works = create_file_works write_all_works write_once_works set_permissions_works finish_file_works
  create_dir_all_works

text \<open>The disk with a service's three files in its directory.\<close>

definition with_service :: "ext \<Rightarrow> string \<Rightarrow> SecretKey \<Rightarrow> string \<Rightarrow> disk \<Rightarrow> disk" where
  "with_service E dir k address d = (case ed25519_keypair E k of (sk, pk) \<Rightarrow>
     made_dir (in_dir dir AUTH_CLIENTS_DIR)
      (put_file (in_dir dir HOSTNAME_FILE) (address @ ''.onion'' @ [CHR 0x0A])
       (put_file (in_dir dir PUB_KEY_FILE) (''== ed25519v1-public: type0 =='' @ zero3 @ bytes_str pk)
        (put_file (in_dir dir SEC_KEY_FILE) (''== ed25519v1-secret: type0 =='' @ zero3 @ bytes_str sk @ bytes_str pk) d))))"

lemma service_files_works:
  assumes "disk_works S" "tor_works T"
  shows "service_files E S T dir k address d = (Inr (), with_service E dir k address d)"
  using assms
  by (simp add: service_files_def with_service_def create_onion_service_sec_key_file_def create_onion_service_pub_key_file_def
      create_onion_service_hostname_file_def create_onion_auth_clients_dir_def Let_def file_works bindE_app split: prod.split)

lemma make_service_dir_works:
  "disk_works S \<Longrightarrow> tor_works T \<Longrightarrow> make_service_dir S T c dir d = (Inr (), made_dir dir d)"
  by (simp add: make_service_dir_def file_works bindE_app)

text \<open>The text of the configuration.\<close>

definition torrc_line :: "TorRcConfigItem \<Rightarrow> string" where
  "torrc_line i = tri_name i @ '' '' @ tri_value i @ [CHR 0x0A]"

lemma write_items_works:
  "disk_works S \<Longrightarrow> write_items S p is (put_file p c d) = (Inr (), put_file p (c @ concat (map torrc_line is)) d)"
  by (induction "is" arbitrary: c) (simp_all add: file_works bindE_app torrc_line_def)

definition torrc_text :: "string \<Rightarrow> string \<Rightarrow> string \<Rightarrow> string list \<Rightarrow> string" where
  "torrc_text c addr socks dirs =
     ''SocksPort '' @ socks @ [CHR 0x0A] @ ''DataDirectory '' @ in_dir c TOR_DATA_DIR @ [CHR 0x0A] @
     concat (map (\<lambda>d. ''HiddenServiceDir '' @ d @ [CHR 0x0A] @ ''HiddenServicePort 80 '' @ addr @ [CHR 0x0A]) dirs)"

lemma add_services_text:
  "concat (map torrc_line (trc_items (add_services addr dirs props))) = concat (map torrc_line (trc_items props)) @
     concat (map (\<lambda>d. ''HiddenServiceDir '' @ d @ [CHR 0x0A] @ ''HiddenServicePort 80 '' @ addr @ [CHR 0x0A]) dirs)"
  by (induction dirs arbitrary: props) (simp_all add: add_item_def torrc_line_def)

lemma output_torrc_works:
  assumes "disk_works S"
  shows "output_torrc S c addr socks dirs d = (Inr (), put_file (in_dir c TORRC_FILE) (torrc_text c addr socks dirs) d)"
  using assms
  by (simp add: output_torrc_def write_to_file_def Let_def file_works write_items_works bindE_app add_services_text torrc_text_def)
    (simp add: add_item_def torrc_new_def torrc_line_def)


text \<open>
  The configuration with given keys writes the files of each service to that service's
  directory, but gives Tor the bare addresses as directories.
\<close>

lemma output_services_works:
  assumes "disk_works S" "tor_works T" "list_all (\<lambda>k. \<exists>a. onion_v3_from_pubkey E (dalek_public E k) = Inr a) ks"
  shows "\<exists>d'. output_services E S T c ks d = (Inr (map (\<lambda>k. projr (onion_v3_from_pubkey E (dalek_public E k))) ks), d')"
  using assms(3)
proof (induction ks arbitrary: d)
  case (Cons k ks)
  then obtain a where a: "onion_v3_from_pubkey E (dalek_public E k) = Inr a" by auto
  have "\<exists>d'. output_onion_service_config E S T c k d = (Inr a, d')"
    using assms(1,2) a
    by (simp add: output_onion_service_config_def onion_address_from_seckey_def ed25519_keypair_def lib_result_def Let_def
        bindE_app make_service_dir_works service_files_works file_works)
  then obtain d1 where d1: "output_onion_service_config E S T c k d = (Inr a, d1)" by blast
  obtain d2 where "output_services E S T c ks d1 = (Inr (map (\<lambda>k. projr (onion_v3_from_pubkey E (dalek_public E k))) ks), d2)"
    using Cons.IH[of d1] Cons.prems by auto
  then show ?case using d1 a by simp
qed simp

theorem given_keys_name_address:
  assumes "disk_works S" "tor_works T" "list_all (\<lambda>k. \<exists>a. onion_v3_from_pubkey E (dalek_public E k) = Inr a) ks"
  shows "\<exists>d'. output_tor_listener_config E S T c addr ks d = (Inr (), d') \<and>
    file_at d' (in_dir c TORRC_FILE) =
      Some (torrc_text c addr ''0'' (map (\<lambda>k. projr (onion_v3_from_pubkey E (dalek_public E k))) ks))"
proof -
  obtain d' where "output_services E S T c ks (made_dir (in_dir c TOR_DATA_DIR) d)
      = (Inr (map (\<lambda>k. projr (onion_v3_from_pubkey E (dalek_public E k))) ks), d')"
    using output_services_works[OF assms] by blast
  then show ?thesis
    using assms(1,2)
    by (simp add: output_tor_listener_config_def Let_def bindE_app file_works output_torrc_works)
qed

section \<open>Addresses\<close>

lemma ascii_up: "ascii_upper ''http://'' = ''HTTP://''" "ascii_upper ''https://'' = ''HTTPS://''" "ascii_upper ''.onion'' = ''.ONION''"
  by code_simp+

lemma onion_upper:
  assumes "case_ok E" "set t \<subseteq> set base32_alphabet"
    and "pre \<in> {[], ''http://'', ''https://''}" "suf \<in> {[], ''.onion''}"
  shows "to_uppercase E (pre @ ascii_lower t @ suf) = ascii_upper pre @ t @ ascii_upper suf"
proof -
  have "\<forall>c \<in> set (pre @ ascii_lower t @ suf). (of_char c :: nat) < 128"
    using assms(3,4) base32_upper_lower(4)[OF assms(2)] by auto
  then show ?thesis
    using assms(1) base32_upper_lower(1)[OF assms(2)] by (simp add: case_ok_def ascii_upper_def)
qed

lemma onion_lower:
  assumes "case_ok E" "set t \<subseteq> set base32_alphabet"
  shows "to_lowercase E (''HTTP://'' @ t @ ''.ONION'') = ''http://'' @ ascii_lower t @ ''.onion''"
    "to_lowercase E (''HTTPS://'' @ t @ ''.ONION'') = ''https://'' @ ascii_lower t @ ''.onion''"
proof -
  have ascii: "\<forall>c \<in> set (''HTTP://'' @ t @ ''.ONION''). (of_char c :: nat) < 128"
    "\<forall>c \<in> set (''HTTPS://'' @ t @ ''.ONION''). (of_char c :: nat) < 128"
    using base32_upper_lower(3)[OF assms(2)] by auto
  have split: "ascii_lower (x @ t @ y) = ascii_lower x @ ascii_lower t @ ascii_lower y" for x y
    by (simp add: ascii_lower_def)
  have "ascii_lower ''HTTP://'' = ''http://''" "ascii_lower ''HTTPS://'' = ''https://''" "ascii_lower ''.ONION'' = ''.onion''"
    by code_simp+
  with ascii assms(1) split show "to_lowercase E (''HTTP://'' @ t @ ''.ONION'') = ''http://'' @ ascii_lower t @ ''.onion''"
    "to_lowercase E (''HTTPS://'' @ t @ ''.ONION'') = ''https://'' @ ascii_lower t @ ''.onion''"
    unfolding case_ok_def by metis+
qed

lemma complete_onion:
  assumes "case_ok E" "base32_ok E" "dalek_key E k" "onion_v3_from_pubkey E k = Inr a"
    and "pre \<in> {[], ''http://'', ''https://''}" "suf \<in> {[], ''.onion''}"
  shows "complete_tor_address E (pre @ a @ suf) = Inr ((if pre = [] then ''http://'' else pre) @ a @ ''.onion'')"
proof -
  obtain t where t: "onion_v3_from_pubkey E k = Inr (ascii_lower t)" "set t \<subseteq> set base32_alphabet"
    "\<And>s. strip_onion E s = t \<Longrightarrow> pubkey_from_onion_v3 E s = Inr k"
    by (rule onion_text[OF assms(1-3)]) (rule that)
  then have a: "a = ascii_lower t" using assms(4) by simp
  let ?pre = "if pre = [] then ''http://'' else pre"
  have reads: "pubkey_from_onion_v3 E (pre @ a @ suf) = Inr k"
    using strip_onion_text[OF assms(1) t(2)] t(3) assms(5,6) a by simp
  define P S where "P = ascii_upper pre" and "S = ascii_upper suf"
  have PS: "P = [] \<and> pre = [] \<or> P = ''HTTP://'' \<and> pre = ''http://'' \<or> P = ''HTTPS://'' \<and> pre = ''https://''" "S = [] \<or> S = ''.ONION''"
    using assms(5,6) ascii_up by (auto simp: P_def S_def) (simp_all add: ascii_upper_def)
  have up: "to_uppercase E (pre @ a @ suf) = P @ t @ S"
    using onion_upper[OF assms(1) t(2) assms(5,6)] a by (simp add: P_def S_def)
  have low: "to_lowercase E ((if P = [] then ''HTTP://'' else P) @ t @ ''.ONION'') = ?pre @ a @ ''.onion''"
    using onion_lower[OF assms(1) t(2)] PS(1) a by (elim disjE) simp_all
  have no: "CHR '':'' \<notin> set (t @ S)" "CHR ''.'' \<notin> set (P @ t)"
    using base32_plain[OF t(2)] PS by auto
  have scheme: "(if \<not> starts_with ''HTTP://'' (P @ t @ S) \<and> \<not> starts_with ''HTTPS://'' (P @ t @ S) then ''HTTP://'' @ P @ t @ S else P @ t @ S)
      = (if P = [] then ''HTTP://'' else P) @ t @ S"
    using PS(1) starts_with_absent[OF _ no(1), of "''HTTP://''"] starts_with_absent[OF _ no(1), of "''HTTPS://''"]
    by (elim disjE) (simp_all add: starts_with_def)
  have suffix: "(if \<not> ends_with ''.ONION'' (Q @ t @ S) then (Q @ t @ S) @ ''.ONION'' else Q @ t @ S) = Q @ t @ ''.ONION''"
    if "CHR ''.'' \<notin> set Q" for Q
    using PS(2) ends_with_absent[of "CHR ''.''" "''.ONION''" "Q @ t"] no(2) that
    by (auto simp: ends_with_def)
  have plain: "CHR ''.'' \<notin> set (if P = [] then ''HTTP://'' else P)" using PS(1) by auto
  have "complete_tor_address E (pre @ a @ suf) = Inr (to_lowercase E ((if P = [] then ''HTTP://'' else P) @ t @ ''.ONION''))"
    unfolding complete_tor_address_def is_tor_address_def reads up Let_def sum.case and_then_simps scheme suffix[OF plain] ..
  then show ?thesis using low by simp
qed

text \<open>
  An onion address of a key, with or without scheme and suffix, is completed to the address with
  both, which is completed to itself; and exactly the texts that stand for a key are completed.
\<close>

theorem complete_tor_address_normal:
  assumes "case_ok E" "base32_ok E" "dalek_key E k" "onion_v3_from_pubkey E k = Inr a"
    and "pre \<in> {[], ''http://'', ''https://''}" "suf \<in> {[], ''.onion''}"
  shows "(let full = (if pre = [] then ''http://'' else pre) @ a @ ''.onion'' in
      complete_tor_address E (pre @ a @ suf) = Inr full \<and> complete_tor_address E full = Inr full) \<and>
    ((\<exists>r. complete_tor_address E s = Inr r) \<longleftrightarrow> (\<exists>k. pubkey_from_onion_v3 E s = Inr k))"
proof -
  have "(if pre = [] then ''http://'' else pre) \<in> {[], ''http://'', ''https://''}" using assms(5) by auto
  from complete_onion[OF assms(1-4) this, of "''.onion''"] complete_onion[OF assms]
  show ?thesis
    by (auto simp: complete_tor_address_def is_tor_address_def Let_def split: sum.splits error.splits)
qed

section \<open>Starting\<close>

definition harmless :: "u8 \<Rightarrow> string \<Rightarrow> bool" where
  "harmless p l \<longleftrightarrow> (\<exists>ws. tor_line p [] l = Inr (False, ws))"

definition reaches :: "u8 \<Rightarrow> string \<Rightarrow> bool" where
  "reaches p l \<longleftrightarrow> (\<exists>ws. tor_line p [] l = Inr (True, ws))"

lemma tor_line_warnings:
  "(\<exists>ws'. tor_line p ws l = Inr (b, ws')) \<longleftrightarrow> (\<exists>ws'. tor_line p [] l = Inr (b, ws'))"
  by (auto simp: tor_line_def split: sum.splits option.splits)

lemma run_head:
  "(\<exists>pre. list_all P pre \<and> ((\<exists>l'. l # ls = pre @ l' # rest \<and> Q l') \<or> (l # ls = pre \<and> C))) \<longleftrightarrow>
    Q l \<and> ls = rest \<or> P l \<and> (\<exists>pre. list_all P pre \<and> ((\<exists>l'. ls = pre @ l' # rest \<and> Q l') \<or> (ls = pre \<and> C)))"
  (is "?L \<longleftrightarrow> ?R")
proof
  assume ?L
  then obtain pre where "list_all P pre" "(\<exists>l'. l # ls = pre @ l' # rest \<and> Q l') \<or> (l # ls = pre \<and> C)" by blast
  then show ?R by (cases pre) auto
next
  assume ?R
  then show ?L
  proof (elim disjE exE conjE)
    show "Q l \<Longrightarrow> ls = rest \<Longrightarrow> ?L" by (rule exI[of _ "[]"]) simp
    fix pre assume *: "P l" "list_all P pre"
    show "ls = pre @ l' # rest \<Longrightarrow> Q l' \<Longrightarrow> ?L" for l' using * by (intro exI[of _ "l # pre"]) auto
    show "ls = pre \<Longrightarrow> C \<Longrightarrow> ?L" using * by (intro exI[of _ "l # pre"]) auto
  qed
qed

text \<open>Tor counts as started when its output has a line that reports enough progress after harmless
  ones, and also when the output ends with harmless lines only, whatever progress it reported.\<close>

theorem tor_started_iff:
  "parse_tor_stdout ls failure p = Inr rest \<longleftrightarrow>
    (\<exists>pre. list_all (harmless p) pre \<and>
      ((\<exists>l. ls = pre @ l # rest \<and> reaches p l) \<or> (ls = pre \<and> failure = None \<and> rest = [])))"
proof -
  have "parse_lines p ws failure ls = Inr rest \<longleftrightarrow>
    (\<exists>pre. list_all (harmless p) pre \<and>
      ((\<exists>l. ls = pre @ l # rest \<and> reaches p l) \<or> (ls = pre \<and> failure = None \<and> rest = [])))" for ws
  proof (induction ls arbitrary: ws)
    case Nil
    then show ?case by (auto split: option.splits)
  next
    case (Cons l ls)
    have head: "(\<exists>pre. list_all (harmless p) pre \<and> ((\<exists>l'. l # ls = pre @ l' # rest \<and> reaches p l') \<or>
        (l # ls = pre \<and> failure = None \<and> rest = []))) \<longleftrightarrow>
      reaches p l \<and> ls = rest \<or> harmless p l \<and> (\<exists>pre. list_all (harmless p) pre \<and>
        ((\<exists>l'. ls = pre @ l' # rest \<and> reaches p l') \<or> (ls = pre \<and> failure = None \<and> rest = [])))"
      by (rule run_head)
    show ?case
    proof (cases "tor_line p ws l")
      case (Inl e)
      then have "\<not> reaches p l" "\<not> harmless p l"
        using tor_line_warnings[of p ws l] by (auto simp: reaches_def harmless_def)
      with Inl head show ?thesis by simp
    next
      case (Inr r)
      obtain up ws' where r: "r = (up, ws')" by fastforce
      then have "reaches p l \<longleftrightarrow> up" "harmless p l \<longleftrightarrow> \<not> up"
        using Inr tor_line_warnings[of p ws l] by (auto simp: reaches_def harmless_def)
      with Inr r head Cons.IH[of ws'] show ?thesis by auto
    qed
  qed
  then show ?thesis by (simp add: parse_tor_stdout_def)
qed

section \<open>Witnesses\<close>

definition sample_tor :: tor_ext where
  "sample_tor = \<lparr>os_set_mode = (\<lambda>_ _. None), os_write_once = (\<lambda>_ s. Inr (length s)), os_flush = (\<lambda>_. None), os_sync = (\<lambda>_. None),
     random_name = ''r''\<rparr>"

lemma proof_key: "dalek_public proof_ext k = k"
  by (simp add: proof_ext_def the_ext_def)


theorem complete_tor_address_normal_witness:
  "\<exists>a. onion_v3_from_pubkey proof_ext (replicate 32 5) = Inr a \<and>
     complete_tor_address proof_ext a = Inr (''http://'' @ a @ ''.onion'')"
proof -
  obtain a where a: "onion_v3_from_pubkey proof_ext (replicate 32 5) = Inr a"
    by (simp add: onion_v3_from_pubkey_def Let_def)
  then show ?thesis
    using complete_tor_address_normal[of proof_ext "replicate 32 5" a "[]" "[]" "[]"] by (simp add: proof_ext_simps Let_def)
qed

end
