(* ===== verification/AdapterProps.thy ===== *)
theory AdapterProps
  imports Adapters ForeignApi TorProps SlateVersionProps WitnessEnv "HOL-Library.Countable"
begin

text \<open>
  What becomes of a slate that is handed over: sent to another wallet's listener over HTTP, it
  comes back as that wallet's \<open>receive_tx\<close> made it; written to a file, it is read back. And
  what a listener can answer that the sender does not survive.
\<close>

section \<open>Sending to a listener\<close>

text \<open>The address is served by the handler of a wallet in the state \<open>P\<close>.\<close>

definition served ::
    "ext \<Rightarrow> 'y foreign_ext_scheme \<Rightarrow> bool \<Rightarrow> SecretKey option \<Rightarrow> NodeVersionInfo option \<Rightarrow> provider \<Rightarrow> 'x sender_ext_scheme \<Rightarrow> string \<Rightarrow> bool" where
  "served E X synced km v P H url \<longleftrightarrow> (\<forall>body. http_exchange H url None body = (case foreign_post E X synced km v body P of
      (Inr (HttpReply _ t), _) \<Rightarrow> Inr (Inr t) | (Inl _, _) \<Rightarrow> Inl ''connection closed''))"

text \<open>
  The two ends agree on JSON, on the calls and on the values, as serde and the macro's dispatch
  document: what is written is read back as it was, and null is no slate.
\<close>

definition wire_ok :: "'y foreign_ext_scheme \<Rightarrow> 'x sender_ext_scheme \<Rightarrow> Slate \<Rightarrow> bool" where
  "wire_ok X H s \<longleftrightarrow>
     (\<forall>j. \<exists>t. json_to_string H j = Some t \<and> json_of_string X t = Some j) \<and>
     (\<forall>j. \<exists>t. fx_pretty X j = Some t \<and> json_of_string H t = Some j) \<and>
     fx_call X (rpc_call ''check_version'' []) = Inr (FCheckVersion, JInt 1) \<and>
     fx_call X (receive_request H (into_version s V3)) = Inr (FReceiveTx (into_version s V3) None None None, JInt 1) \<and>
     fx_version_info X check_version =
       JObj [(''foreign_api_version'', JInt 2), (''supported_slate_versions'', JArr [JStr ''V3'', JStr ''V2''])] \<and>
     (\<forall>out t. json_to_string H (fx_slate X out) = Some t \<longrightarrow> t = versioned_text (sx_codec H) out) \<and>
     (\<forall>t. json_to_string H JNull = Some t \<longrightarrow> de_probe (sx_codec H) t = None)"

definition answer_of :: "string \<Rightarrow> json \<Rightarrow> json" where
  "answer_of k x = JObj [(''id'', JInt 1), (''jsonrpc'', JStr ''2.0''), (''result'', JObj [(k, x)])]"

definition foreign_url :: "string \<Rightarrow> string" where
  "foreign_url base_url = base_url @ (if ends_with ''/'' base_url then [] else ''/'') @ ''v2/foreign''"

text \<open>A call that is answered comes back as the value answered.\<close>

lemma served_post:
  assumes "wire_ok X H s" "served E X True km v P H url" "client_new H = Inr ()"
    and "fst (foreign_call_api E X (foreign_new km (Some check_middleware) v) j P) = Inr r"
  shows "\<exists>t. sender_post H url None j = Inr t \<and> answer_value H t = Inr r"
proof -
  obtain t where t: "json_to_string H j = Some t" "json_of_string X t = Some j"
    using assms(1) unfolding wire_ok_def by blast
  obtain u where u: "fx_pretty X r = Some u" "json_of_string H u = Some r"
    using assms(1) unfolding wire_ok_def by blast
  obtain P' where "foreign_call_api E X (foreign_new km (Some check_middleware) v) j P = (Inr r, P')"
    using assms(4) by (metis prod.collapse)
  then have "foreign_post E X True km v t P = (Inr (HttpReply 200 u), P')"
    using t u by (simp add: foreign_post_def json_response_pretty_def)
  then have "http_exchange H url None t = Inr (Inr u)" using assms(2) by (simp add: served_def)
  then show ?thesis
    using assms(3) t u by (simp add: sender_post_def send_request_def authorization_def answer_value_def or_err_def)
qed

lemma served_version:
  assumes "wire_ok X H s" "served E X True km v P H url" "client_new H = Inr ()" "lc_backend P \<noteq> None"
  shows "check_other_version H url = Inr V3"
proof -
  have call: "fx_call X (rpc_call ''check_version'' []) = Inr (FCheckVersion, JInt 1)"
    and info: "fx_version_info X check_version =
       JObj [(''foreign_api_version'', JInt 2), (''supported_slate_versions'', JArr [JStr ''V3'', JStr ''V2''])]"
    using assms(1) by (simp_all add: wire_ok_def)
  have "fst (foreign_call_api E X (foreign_new km (Some check_middleware) v) (rpc_call ''check_version'' []) P)
      = Inr (answer_of ''Ok'' (fx_version_info X check_version))"
    using assms(4) call
    by (auto simp: foreign_call_api_def foreign_handle_request_def rpc_answer_def foreign_check_version_def run_middleware_def
        foreign_new_def with_wallet_def check_middleware_def answer_of_def bindE_app split: option.split)
  from served_post[OF assms(1-3) this] obtain t where
    "sender_post H url None (rpc_call ''check_version'' []) = Inr t"
    "answer_value H t = Inr (answer_of ''Ok'' (fx_version_info X check_version))" by blast
  then show ?thesis
    by (simp add: check_other_version_def error_report_def answer_of_def jget_def info negotiate_def as_u16_def as_strings_def
        as_str_def or_err_def)
qed

lemma versioned_text_read:
  assumes "json_ok J s" "vc_version (sl_version_info s) = 3"
  shows "deserialize_upgrade J (versioned_text J (into_version s V3)) = Inr s"
  using assms parse_ser[OF assms(1)]
  by (simp add: versioned_text_def into_version_def deserialize_upgrade_def json_ok_def Let_def slate3.dec_enc)

lemma sent_as: "versioned_slate_version (into_version s V3) = V3"
  by (simp add: versioned_slate_version_def into_version_def)

text \<open>C33. A slate sent over HTTP to the listener of an open wallet comes back as that wallet's
  \<open>receive_tx\<close> made it from the slate that was sent; a refusal, for whatever reason, comes back
  as an unreadable slate.\<close>

theorem http_send_is_receive:
  assumes "wire_ok X H s" "served E X True km v P H (foreign_url base)" "client_new H = Inr ()" "lc_backend P \<noteq> None"
    and "foreign_receive_tx E (foreign_new km (Some check_middleware) v) s None None None P = (r, P')"
  shows "(\<forall>out. r = Inr out \<and> json_ok (sx_codec H) out \<and> vc_version (sl_version_info out) = 3 \<longrightarrow>
      http_send_tx H base True s = Inr out) \<and>
    (\<forall>e. r = Inl e \<and> e \<noteq> Diverges \<and> (\<forall>p. e \<noteq> Panic p) \<longrightarrow> http_send_tx H base True s = Inl SlateDeser)"
proof -
  let ?A = "foreign_new km (Some check_middleware) v"
  have v3: "check_other_version H (foreign_url base) = Inr V3" by (rule served_version[OF assms(1-4)])
  have call: "fx_call X (receive_request H (into_version s V3)) = Inr (FReceiveTx (into_version s V3) None None None, JInt 1)"
    using assms(1) by (simp add: wire_ok_def)
  have run: "foreign_call_api E X ?A (receive_request H (into_version s V3)) P =
      rpc_answer X (JInt 1) (fx_slate X) (bindE (foreign_receive_tx E ?A s None None None) (\<lambda>out. ret (into_version out V3))) P"
    using call by (auto simp: foreign_call_api_def foreign_handle_request_def rpc_receive_tx_def Let_def slate_through_v3
        sent_as bindE_app split: sum.split prod.split)
  have sent: "http_send_tx H base True s = (case json_to_string H (jget (jget a ''result'') ''Ok'') of
        None \<Rightarrow> Inl (Panic ''serde_json::to_string'')
      | Some t \<Rightarrow> (case deserialize_upgrade (sx_codec H) t of
            Inr s \<Rightarrow> Inr s | Inl (Panic p) \<Rightarrow> Inl (Panic p) | Inl _ \<Rightarrow> Inl SlateDeser))"
    if "fst (foreign_call_api E X ?A (receive_request H (into_version s V3)) P) = Inr a" "jget a ''error'' = JNull" for a
    using served_post[OF assms(1-3) that(1)] that(2) v3
    by (auto simp: http_send_tx_def version_to_send_def foreign_url_def error_report_def or_err_def Let_def split: option.split)
  have texts: "\<exists>t. json_to_string H j = Some t" for j using assms(1) unfolding wire_ok_def by blast
  show ?thesis
  proof (intro conjI allI impI)
    fix out assume out: "r = Inr out \<and> json_ok (sx_codec H) out \<and> vc_version (sl_version_info out) = 3"
    obtain t where t: "json_to_string H (fx_slate X (into_version out V3)) = Some t" "t = versioned_text (sx_codec H) (into_version out V3)"
      using texts assms(1) unfolding wire_ok_def by meson
    have "fst (foreign_call_api E X ?A (receive_request H (into_version s V3)) P) = Inr (answer_of ''Ok'' (fx_slate X (into_version out V3)))"
      using run assms(5) out by (simp add: rpc_answer_def answer_of_def bindE_app)
    from sent[OF this] show "http_send_tx H base True s = Inr out"
      using t out versioned_text_read[of "sx_codec H" out] by (simp add: answer_of_def jget_def)
  next
    fix e assume e: "r = Inl e \<and> e \<noteq> Diverges \<and> (\<forall>p. e \<noteq> Panic p)"
    obtain t where t: "json_to_string H JNull = Some t" "de_probe (sx_codec H) t = None"
      using texts assms(1) unfolding wire_ok_def by meson
    have "fst (foreign_call_api E X ?A (receive_request H (into_version s V3)) P) = Inr (answer_of ''Err'' (fx_error X e))"
      using run assms(5) e by (cases e) (simp_all add: rpc_answer_def answer_of_def bindE_app)
    from sent[OF this] show "http_send_tx H base True s = Inl SlateDeser"
      using t by (simp add: answer_of_def jget_def deserialize_upgrade_def parse_slate_version_def)
  qed
qed

text \<open>A listener whose node is not synced answers every request with a plain text, and one whose
  wallet is closed answers the question for its version with an error: either makes the sender
  panic.\<close>

theorem listener_panics_sender:
  assumes "wire_ok X H s" "client_new H = Inr ()" "json_of_string H ''Node not synchronized'' = None"
    and "served E X synced km v P H (foreign_url base)" "\<not> synced \<or> lc_backend P = None"
  shows "\<exists>p. http_send_tx H base True s = Inl (Panic p)"
proof (cases synced)
  case False
  obtain t where t: "json_to_string H (rpc_call ''check_version'' []) = Some t" using assms(1) unfolding wire_ok_def by blast
  have "http_exchange H (foreign_url base) None t = Inr (Inr ''Node not synchronized'')"
    using assms(4) False by (simp add: served_def foreign_post_def)
  then show ?thesis
    using assms(2,3) t
    by (simp add: http_send_tx_def check_other_version_def sender_post_def send_request_def authorization_def answer_value_def
        or_err_def foreign_url_def)
next
  case True
  have call: "fx_call X (rpc_call ''check_version'' []) = Inr (FCheckVersion, JInt 1)"
    using assms(1) by (simp add: wire_ok_def)
  have "fst (foreign_call_api E X (foreign_new km (Some check_middleware) v) (rpc_call ''check_version'' []) P)
      = Inr (answer_of ''Err'' (fx_error X (Lifecycle ''Wallet has not been opened'')))"
    using assms(5) True call
    by (auto simp: foreign_call_api_def foreign_handle_request_def rpc_answer_def foreign_check_version_def
        foreign_new_def with_wallet_def answer_of_def bindE_app)
  moreover have "served E X True km v P H (foreign_url base)" using assms(4) True by simp
  ultimately show ?thesis
    using served_post[OF assms(1) _ assms(2)]
    by (fastforce simp: http_send_tx_def check_other_version_def error_report_def answer_of_def jget_def negotiate_def as_u16_def
        or_err_def foreign_url_def)
qed

section \<open>Files\<close>

lemma versioned_text_read_v2:
  assumes "json_ok J s" "vc_version (sl_version_info s) = 2"
  shows "deserialize_upgrade J (versioned_text J (into_version s V2)) = Inr (s\<lparr>sl_ttl_cutoff_height := None, sl_payment_proof := None\<rparr>)"
  using assms parse_ser[OF assms(1)] slate_through_v2[of s]
  by (simp add: versioned_text_def into_version_def deserialize_upgrade_def json_ok_def Let_def slate_of_versioned_def)

text \<open>A slate written to a file is read back from it. One with a payment proof or a time to live is
  read back as it was, any other as a slate of version 2 that is otherwise the same.\<close>

theorem file_round_trip:
  assumes "disk_works S" "tor_works T"
    and "json_ok J s" "vc_version (sl_version_info s) = 3"
    and "s2 = s\<lparr>sl_version_info := (sl_version_info s)\<lparr>vc_version := 2, vc_orig_version := 2\<rparr>\<rparr>" "json_ok J s2"
  shows "\<exists>d'. file_put_tx S T J p s d = (Inr (), d') \<and>
    file_get_tx S J p d' =
      (Inr (if sl_payment_proof s \<noteq> None \<or> sl_ttl_cutoff_height s \<noteq> None then s else s2), d')"
proof -
  have put: "file_put_tx S T J p s d = (Inr (), put_file p (versioned_text J (file_version s)) d)"
    using assms(1,2) by (simp add: file_put_tx_def on_files_def file_works disk_worksD tor_worksD bindE_app)
  have "deserialize_upgrade J (versioned_text J (file_version s)) =
      Inr (if sl_payment_proof s \<noteq> None \<or> sl_ttl_cutoff_height s \<noteq> None then s else s2)"
    using versioned_text_read[OF assms(3,4)] versioned_text_read_v2[OF assms(6)] assms(5)
    by (auto simp: file_version_def)
  then show ?thesis
    using put assms(1) by (simp add: file_get_tx_def on_files_def disk_worksD bindE_app)
qed

section \<open>Witnesses\<close>

text \<open>A JSON text for the witnesses: as many letters as the number of the value.\<close>

instance json :: countable
  by countable_datatype

definition dump :: "json \<Rightarrow> string" where
  "dump j = replicate (to_nat j) (CHR ''x'')"

definition load :: "string \<Rightarrow> json option" where
  "load t = (if list_all (\<lambda>c. c = CHR ''x'') t then Some (from_nat (length t)) else None)"

lemma load_dump [simp]: "load (dump j) = Some j"
  by (simp add: load_def dump_def list_all_iff)

lemma dump_eq [simp]: "dump i = dump j \<longleftrightarrow> i = j"
  by (metis load_dump option.inject)

text \<open>A codec that knows two slates by their version numbers.\<close>

definition two_codec :: "Slate \<Rightarrow> Slate \<Rightarrow> json_codec" where
  "two_codec a b = (let is_b = (\<lambda>v. v = vc_version (sl_version_info b)); A = JStr ''a''; B = JStr ''b''; A2 = JStr ''a2''; B2 = JStr ''b2'' in
     \<lparr>de_probe = (\<lambda>t. if t = dump JNull then None
        else Some \<lparr>sv_version = None, sv_version_info = Some (sl_version_info (if t = dump B \<or> t = dump B2 then b else a))\<rparr>),
      de_v3 = (\<lambda>t. if t = dump B then Some (slate_v3_of b) else if t = dump A then Some (slate_v3_of a) else None),
      de_v2 = (\<lambda>t. if t = dump B2 then Some (slate_v2_of_v3 (slate_v3_of b)) else Some (slate_v2_of_v3 (slate_v3_of a))),
      ser_v3 = (\<lambda>x. dump (if is_b (vc_version (version_info_of_v3 (sl3_version_info x))) then B else A)),
      ser_v2 = (\<lambda>x. dump (if is_b (vc_version (version_info_of_v3 (version_info_v3_of_v2 (sl2_version_info x)))) then B2 else A2))\<rparr>)"

lemma two_codec_ok:
  "json_ok (two_codec a b) b"
  "vc_version (sl_version_info a) \<noteq> vc_version (sl_version_info b) \<Longrightarrow> json_ok (two_codec a b) a"
  by (simp_all add: json_ok_def two_codec_def Let_def vi3.dec_enc vi23.enc_dec)

definition with_version :: "u16 \<Rightarrow> Slate \<Rightarrow> Slate" where
  "with_version n s = s\<lparr>sl_version_info := (sl_version_info s)\<lparr>vc_version := n, vc_orig_version := n\<rparr>\<rparr>"

lemma the_slate_version: "vc_version (sl_version_info the_slate) = 3" "sl_payment_proof the_slate = None"
  "sl_ttl_cutoff_height the_slate = None"
  by (simp_all add: the_slate_def slate_blank_def CURRENT_SLATE_VERSION_def)

theorem file_round_trip_witness:
  "\<exists>d'. file_put_tx sample_seed sample_tor (two_codec the_slate (with_version 2 the_slate)) ''slate.tx'' the_slate
       \<lparr>dk_files = [], dk_dirs = []\<rparr> = (Inr (), d') \<and>
     file_get_tx sample_seed (two_codec the_slate (with_version 2 the_slate)) ''slate.tx'' d' = (Inr (with_version 2 the_slate), d')"
proof -
  let ?J = "two_codec the_slate (with_version 2 the_slate)"
  have works: "tor_works sample_tor" by (simp add: tor_works_def sample_tor_def)
  have "json_ok ?J the_slate" "json_ok ?J (with_version 2 the_slate)"
    using two_codec_ok by (simp_all add: with_version_def the_slate_version)
  from file_round_trip[OF sample_seed_ok(1) works this(1) the_slate_version(1) with_version_def this(2)]
  show ?thesis by (simp add: the_slate_version)
qed

definition sample_sender :: "(string \<Rightarrow> string + string + string) \<Rightarrow> sender_ext" where
  "sample_sender ex = \<lparr>json_to_string = (\<lambda>j. Some (dump j)), json_of_string = load, json_display = (\<lambda>_. []),
     socks_proxy_addr = None, http_proxy = (\<lambda>_. None), http_builder = None, http_exchange = (\<lambda>_ _ body. ex body),
     to_base64 = id, response_of_json = (\<lambda>_. None), sx_slate = (\<lambda>s. JStr ''sent''),
     sx_codec = two_codec the_slate the_slate, sx_which_runs = True\<rparr>"

definition sample_foreign :: "Slate \<Rightarrow> foreign_ext" where
  "sample_foreign s = \<lparr>json_to_string = (\<lambda>j. Some (dump j)), json_of_string = load, json_display = (\<lambda>_. []),
     fx_pretty = (\<lambda>j. Some (dump j)), fx_request_error = id,
     fx_call = (\<lambda>j. if j = rpc_call ''check_version'' [] then Inr (FCheckVersion, JInt 1)
        else Inr (FReceiveTx (into_version s V3) None None None, JInt 1)),
     fx_version_info = (\<lambda>_. JObj [(''foreign_api_version'', JInt 2), (''supported_slate_versions'', JArr [JStr ''V3'', JStr ''V2''])]),
     fx_coinbase = (\<lambda>_. JNull), fx_slate = (\<lambda>v. the (load (versioned_text (two_codec the_slate the_slate) v))),
     fx_error = (\<lambda>_. JStr ''error'')\<rparr>"

lemma sample_wire: "wire_ok (sample_foreign s) (sample_sender ex) s"
  by (simp add: wire_ok_def sample_foreign_def sample_sender_def receive_request_def rpc_call_def check_version_def)
    (auto simp: versioned_text_def two_codec_def Let_def split: VersionedSlate.split)

definition answers :: "bool \<Rightarrow> provider \<Rightarrow> Slate \<Rightarrow> string \<Rightarrow> string + string + string" where
  "answers synced P s body = (case foreign_post the_ext (sample_foreign s) synced None None body P of
      (Inr (HttpReply _ t), _) \<Rightarrow> Inr (Inr t) | (Inl _, _) \<Rightarrow> Inl ''connection closed'')"

lemma sample_served: "served the_ext (sample_foreign s) synced None None P (sample_sender (answers synced P s)) url"
  by (simp add: served_def answers_def sample_sender_def)

lemma sample_client: "client_new (sample_sender ex) = Inr ()"
  by (simp add: client_new_def client_build_def sample_sender_def)

definition open_provider :: provider where
  "open_provider = \<lparr>lc_disk = \<lparr>dk_files = [], dk_dirs = []\<rparr>, lc_dbs = (\<lambda>_. []), lc_stored_txs = (\<lambda>_. Map.empty),
     lc_data_dir = [], lc_backend = Some ([], the_wallet)\<rparr>"

definition expired_slate :: Slate where
  "expired_slate = the_slate\<lparr>sl_ttl_cutoff_height := Some 0\<rparr>"

theorem http_send_is_receive_witness:
  "http_send_tx (sample_sender (answers True open_provider expired_slate)) ''http://wallet'' True expired_slate = Inl SlateDeser"
proof -
  have "\<exists>P'. foreign_receive_tx the_ext (foreign_new None (Some check_middleware) None) expired_slate None None None open_provider
      = (Inl TransactionExpired, P')"
    by (simp add: foreign_receive_tx_def with_wallet_def open_provider_def run_middleware_def foreign_new_def check_middleware_def
        receive_tx_def check_ttl_def expired_slate_def bindE_app)
  then obtain P' where run: "foreign_receive_tx the_ext (foreign_new None (Some check_middleware) None) expired_slate None None None
      open_provider = (Inl TransactionExpired, P')" by blast
  have "lc_backend open_provider \<noteq> None" by (simp add: open_provider_def)
  from http_send_is_receive[OF sample_wire sample_served sample_client this run] show ?thesis by simp
qed

theorem listener_panics_sender_witness:
  "(\<exists>p. http_send_tx (sample_sender (answers False open_provider the_slate)) ''http://wallet'' True the_slate = Inl (Panic p))"
  by (rule listener_panics_sender[OF sample_wire sample_client _ sample_served]) (simp_all add: sample_sender_def load_def)

end
