(* ===== verification/WalletInv.thy ===== *)
theory WalletInv
  imports Owner PaymentProofs BackendSpec
begin

text \<open>
  What every operation of the owner and of the recipient keeps. The locale \<open>batch_invariant\<close> is the
  contract between the backend and the operations built on it: a property of the wallet that each
  write of a batch keeps is kept by each operation, on success and on every error. It is
  interpreted on three properties: the table stays typed with unique keys, an entry of the
  transaction log is never lost, and the keychain stays as it was opened.
\<close>

section \<open>Combinators\<close>

lemma keeps_match_ok [keeps_intros]:
  assumes "keeps I m" "\<And>x. keeps I (f x)" "keeps I g"
  shows "keeps I (match_ok m f g)"
proof (rule keepsI)
  fix w assume w: "I w"
  obtain r w' where m: "m w = (r, w')" by fastforce
  then have "I w'" using assms(1) w by (rule_tac keepsE)
  then show "I (snd (match_ok m f g w))"
    using m assms(2,3) by (auto simp: match_ok_def keepsD split: sum.split error.split)
qed

lemma keeps_unwrap_op [keeps_intros]: "keeps I m \<Longrightarrow> keeps I (unwrap_op m)"
  by (auto simp: keeps_def unwrap_op_def split: prod.splits sum.splits)

lemma keeps_on_slate [keeps_intros]: "keeps I (on_slate m s)"
  by (auto simp: keeps_def on_slate_def split: prod.splits sum.splits)

lemma keeps_case_list [keeps_intros]:
  "keeps I m \<Longrightarrow> (\<And>x xs. keeps I (f x xs)) \<Longrightarrow> keeps I (case xs of [] \<Rightarrow> m | x # xs \<Rightarrow> f x xs)"
  by (cases xs) simp_all

lemma keeps_case_prod_app [keeps_intros]:
  "(\<And>a b. keeps I (f a b x)) \<Longrightarrow> keeps I ((case p of (a, b) \<Rightarrow> f a b) x)"
  by (cases p) simp

section \<open>The contract\<close>

locale batch_invariant =
  fixes E :: ext and I :: "wallet \<Rightarrow> bool"
  assumes inv_save: "keeps I (save E out)"
    and inv_delete: "keeps I (delete E i m t)"
    and inv_tx_id: "keeps I (next_tx_log_id E i)"
    and inv_entry: "keeps I (save_tx_log_entry E e i)"
    and inv_height: "keeps I (save_last_confirmed_height E i h)"
    and inv_scanned: "keeps I (save_last_scanned_block E b)"
    and inv_init: "keeps I (save_init_status E st)"
    and inv_child: "keeps I (save_child_index E i n)"
    and inv_account: "keeps I (save_acct_path E mp)"
    and inv_context: "keeps I (save_private_context E bt s p cx)"
    and inv_drop: "keeps I (delete_private_context E s p)"
    and inv_store: "keeps I (store_tx E u tx)"
    and inv_active: "keeps I (set_parent_key_id i)"
begin

lemmas inv_writes = inv_save inv_delete inv_tx_id inv_entry inv_height inv_scanned inv_init inv_child
  inv_account inv_context inv_drop inv_store inv_active

lemma inv_lock: "keeps I (lock_output E out)"
  unfolding lock_output_def by (intro keeps_intros inv_writes)

lemma inv_refresh: "keeps I (refresh_outputs E km i)"
  unfolding refresh_outputs_def refresh_output_state_def map_wallet_outputs_def apply_api_outputs_def
    apply_output_def confirm_coinbase_def confirm_tx_def clean_old_unconfirmed_def
  by (intro keeps_intros inv_writes)

lemma inv_retrieve: "keeps I (retrieve_outputs E km a b c d e f g)"
  unfolding retrieve_outputs_def Let_def by (intro keeps_intros)

lemma inv_cancel: "keeps I (cancel_tx E km i a b)"
  unfolding cancel_tx_def cancel_tx_and_outputs_def cancel_output_def
  by (intro keeps_intros inv_writes inv_retrieve)

lemma inv_next_child: "keeps I (next_child E km)"
  unfolding next_child_def by (intro keeps_intros inv_writes)

lemma inv_reward: "keeps I (build_coinbase E km b t)" "keeps I (build_foundation E km b t)"
  unfolding build_coinbase_def build_foundation_def receive_coinbase_def receive_foundation_def
    reward_key_def retrieve_existing_key_def next_available_key_def Let_def
  by (intro keeps_intros inv_writes inv_next_child)+

lemma inv_select: "keeps I (add_inputs_to_slate E km s a b c d e f g h j)"
  unfolding add_inputs_to_slate_def build_send_tx_def select_send_tx_def inputs_and_change_def
    change_output_def sign_rounds_def Let_def
  by (intro keeps_intros inv_writes inv_next_child inv_refresh)

lemma inv_receive_output: "keeps I (add_output_to_slate E km s a b c d e)"
  unfolding add_output_to_slate_def build_recipient_output_def next_available_key_def sign_rounds_def Let_def
  by (intro keeps_intros inv_writes inv_next_child)

lemma inv_lock_context: "keeps I (lock_tx_context E km s cx a)"
  unfolding lock_tx_context_def output_commits_def cache_commit_def lock_input_def save_change_def Let_def
  by (intro keeps_intros inv_writes inv_lock)

lemma inv_estimate: "keeps I (estimate_send_tx E km a b c d e f)"
  unfolding estimate_send_tx_def by (intro keeps_intros inv_refresh)

lemma inv_stored:
  "keeps I (update_stored_tx E km cx s b)" "keeps I (update_message E km s)" "keeps I (update_public_addr E km s a i)"
  "keeps I (update_mempool_status E km s)" "keeps I (verify_slate_payment_proof E km j cx s)"
  unfolding update_stored_tx_def final_proof_info_def update_message_def update_public_addr_def update_entries_def
    update_mempool_status_def verify_slate_payment_proof_def Let_def
  by (intro keeps_intros inv_writes)+

lemma inv_contexts: "keeps I (keep_context E km u p cx)" "keeps I (drop_context E km u p)"
  unfolding keep_context_def drop_context_def by (intro keeps_intros inv_writes)+

lemma inv_accounts: "keeps I (new_acct_path E km l)" "keeps I (set_acct_path E km l i)"
    "keeps I (set_parent_key_id_by_name l)"
  unfolding new_acct_path_def set_acct_path_def Let_def
  by (intro keeps_intros inv_writes)+
    (use inv_active in \<open>auto simp: keeps_def set_parent_key_id_by_name_def split: option.split\<close>)

lemma inv_scan: "keeps I (scan E km d a b)"
  unfolding scan_def sort_chain_output_def fix_mmr_index_def make_unspent_def cancel_tx_log_entry_def
    restore_missing_output_def note_parent_def restore_log_id_def delete_unconfirmed_outputs_def
    drop_unconfirmed_def restore_account_def Let_def
  by (intro keeps_intros inv_writes inv_retrieve inv_accounts)

text \<open>The operations of \<open>owner.rs\<close> and \<open>foreign.rs\<close>.\<close>

lemma inv_checks: "keeps I (check_ttl E s)" "keeps I (refuse_twice E s i b ty)" "keeps I (named_account E n)"
    "keeps I (proof_address E km i d)" "keeps I (request_proof E km i r cx s)"
  unfolding check_ttl_def refuse_twice_def named_account_def request_proof_def proof_address_def
  by (intro keeps_intros)+

lemma inv_complete: "keeps I (complete_tx E km s p cx)"
  unfolding complete_tx_def by (intro keeps_intros)

lemma inv_init_send: "keeps I (init_send_tx E km args t)"
  unfolding init_send_tx_def Let_def
  by (intro keeps_intros inv_checks inv_select inv_estimate inv_contexts)

lemma inv_invoices: "keeps I (issue_invoice_tx E km iargs t)" "keeps I (process_invoice_tx E km s args t)"
    "keeps I (finalize_invoice_tx E km s)"
  unfolding issue_invoice_tx_def process_invoice_tx_def finalize_invoice_tx_def Let_def
  by (intro keeps_intros inv_checks inv_select inv_receive_output inv_contexts inv_complete inv_stored)+

lemma inv_tx_lock: "keeps I (tx_lock_outputs E km s p a)"
  unfolding tx_lock_outputs_def by (intro keeps_intros inv_lock_context)

lemma inv_finalize: "keeps I (finalize_tx E km s)"
  unfolding finalize_tx_def by (intro keeps_intros inv_checks inv_complete inv_stored inv_contexts)

lemma inv_receive: "keeps I (receive_tx E km s d m a t)"
  unfolding receive_tx_def by (intro keeps_intros inv_checks inv_receive_output inv_stored)

lemma inv_update_outputs: "keeps I (update_outputs E km)"
  using inv_refresh
  by (auto simp: keeps_def update_outputs_def split: prod.split sum.split error.split) (metis snd_conv)+

lemma inv_kernel_loop: "keeps I (kernel_loop E km h i txs)"
proof (induction txs)
  case (Cons tx txs)
  show ?case
    unfolding kernel_loop.simps Let_def by (intro keeps_intros inv_writes Cons)
qed (unfold kernel_loop.simps, intro keeps_intros)

lemma inv_update: "keeps I (update_wallet_state E km)"
  unfolding update_wallet_state_def update_txs_via_kernel_def cancel_expired_def
  by (intro keeps_intros inv_writes inv_update_outputs inv_kernel_loop inv_scan inv_cancel)

lemma inv_owner: "keeps I (owner_scan E km h d)" "keeps I (owner_cancel_tx E km a b)"
  unfolding owner_scan_def owner_cancel_tx_def
  by (intro keeps_intros inv_writes inv_update_outputs inv_scan inv_update inv_cancel)+

lemma inv_queries: "keeps I (maybe_update E km r)" "keeps I (owner_retrieve_outputs E km a r b c d e f)"
    "keeps I (owner_retrieve_txs E km r g h k l m)" "keeps I (retrieve_summary_info E km r n)"
    "keeps I (node_height E km)" "keeps I (get_public_proof_address E km ix)"
  unfolding maybe_update_def owner_retrieve_outputs_def owner_retrieve_txs_def retrieve_summary_info_def
    node_height_def get_public_proof_address_def
  by (intro keeps_intros inv_update inv_retrieve inv_checks)+

lemma inv_mempool: "keeps I (wait_for_tx_in_mempool E km u answers)"
proof (induction answers)
  case (Cons a answers)
  show ?case
    unfolding wait_for_tx_in_mempool.simps mark_mempool_def by (intro keeps_intros inv_writes Cons)
qed (unfold wait_for_tx_in_mempool.simps, intro keeps_intros)

lemma inv_proofs: "keeps I (retrieve_payment_proof E km r a b)"
  unfolding retrieve_payment_proof_def by (intro keeps_intros inv_queries)

lemma inv_verify: "keeps I (verify_payment_proof E km p)"
  unfolding verify_payment_proof_def Let_def
  apply (intro keeps_intros)
  subgoal for _ _ _ e by (cases e) (simp_all add: keeps_throw)
  done

end

section \<open>The table stays typed\<close>

definition well_typed :: "ext \<Rightarrow> wallet \<Rightarrow> bool" where
  "well_typed E w \<longleftrightarrow> (keys_ok E \<longrightarrow> wallet_ok E w)"

lemma keeps_well_typed: "(keys_ok E \<Longrightarrow> keeps (wallet_ok E) m) \<Longrightarrow> keeps (well_typed E) m"
  by (auto simp: keeps_def well_typed_def)

interpretation typed: batch_invariant E "well_typed E" for E
  by unfold_locales (rule keeps_well_typed; intro keeps_intros; assumption)+

section \<open>The log never loses an entry\<close>

definition log_grown :: "ext \<Rightarrow> wallet \<Rightarrow> wallet \<Rightarrow> bool" where
  "log_grown E w0 w \<longleftrightarrow> (keys_ok E \<and> wallet_ok E w0 \<longrightarrow> wallet_ok E w \<and> dom (tx_at E w0) \<subseteq> dom (tx_at E w))"

lemma keeps_log_grown:
  assumes "\<And>w1. keys_ok E \<Longrightarrow> wallet_ok E w1 \<Longrightarrow>
    wallet_ok E (snd (m w1)) \<and> dom (tx_at E w1) \<subseteq> dom (tx_at E (snd (m w1)))"
  shows "keeps (log_grown E w0) m"
  using assms unfolding keeps_def log_grown_def by blast

text \<open>A write that keeps off the rows of the log.\<close>

lemma keeps_log_frame:
  assumes "\<And>w1. keys_ok E \<Longrightarrow> keeps (frame E (- {TX_LOG_ENTRY_PREFIX}) w1) m"
  shows "keeps (log_grown E w0) m"
proof (rule keeps_log_grown)
  fix w1 assume K: "keys_ok E" and W: "wallet_ok E w1"
  have "frame E (- {TX_LOG_ENTRY_PREFIX}) w1 (snd (m w1))"
    using keepsD[OF assms[OF K] frame_refl[OF W]] .
  then show "wallet_ok E (snd (m w1)) \<and> dom (tx_at E w1) \<subseteq> dom (tx_at E (snd (m w1)))"
    using frame_tx_at[OF K] frameD(1) by fastforce
qed

lemma log_entry: "keeps (log_grown E w0) (save_tx_log_entry E e i)"
proof (rule keeps_log_grown)
  fix w1 assume K: "keys_ok E" and W: "wallet_ok E w1"
  have "wallet_ok E (snd (save_tx_log_entry E e i w1))"
    by (rule keepsD[where I = "wallet_ok E", OF _ W]) (intro keeps_intros K)
  moreover have "dom (tx_at E w1) \<subseteq> dom (tx_at E (snd (save_tx_log_entry E e i w1)))"
    by (rule put_cases[of E "tx_log_key E i (tl_id e)" "STxLogEntry e" "w_db w1"])
       (auto simp: save_tx_log_entry_def put_db_def on_db_def put_ser_def tx_at_put[OF K W])
  ultimately show "wallet_ok E (snd (save_tx_log_entry E e i w1)) \<and>
      dom (tx_at E w1) \<subseteq> dom (tx_at E (snd (save_tx_log_entry E e i w1)))" by blast
qed

lemma log_same_db: "(\<And>w. w_db (snd (m w)) = w_db w) \<Longrightarrow> keeps (log_grown E w0) m"
  by (rule keeps_log_grown) (simp add: wallet_ok_def tx_at_def get_ser_def)

lemma drop_rows: "snd (delete_private_context E s p w) = snd (on_db (delete_key E (ctx_key E s p)) w)"
proof (cases "on_db (delete_key E (ctx_key E s p)) w")
  case (Pair r w')
  show ?thesis
  proof (cases r)
    case (Inl e)
    then show ?thesis using Pair by (cases e) (simp_all add: delete_private_context_def)
  qed (simp add: Pair delete_private_context_def)
qed

lemma keeps_drop: "keeps I (on_db (delete_key E (ctx_key E s p))) \<Longrightarrow> keeps I (delete_private_context E s p)"
  by (simp add: keeps_def drop_rows)

interpretation logs: batch_invariant E "log_grown E w0" for E w0
proof unfold_locales
  show "keeps (log_grown E w0) (save_tx_log_entry E e i)" for e i by (rule log_entry)
  show "keeps (log_grown E w0) (store_tx E u tx)" for u tx
    by (rule log_same_db) (simp add: store_tx_def split: sum.split prod.split)
  show "keeps (log_grown E w0) (set_parent_key_id i)" for i
    by (rule log_same_db) (simp add: set_parent_key_id_def)
  show "keeps (log_grown E w0) (delete_private_context E s p)" for s p
    by (rule keeps_log_frame, rule keeps_drop, rule keeps_frame_delete) (simp add: hd_keys prefix_defs)
qed (rule keeps_log_frame; intro keeps_intros; simp add: prefix_defs)+

section \<open>The keychain stays\<close>

definition same_keychain :: "wallet \<Rightarrow> wallet \<Rightarrow> bool" where
  "same_keychain w0 w \<longleftrightarrow> w_keychain w = w_keychain w0 \<and> w_master_checksum w = w_master_checksum w0"

lemma same_keychain_db: "keeps (same_keychain w0) (on_db f)"
  by (simp add: keeps_def same_keychain_def on_db_def split: prod.split)

lemma same_keychain_put: "keeps (same_keychain w0) (put_db E k v)"
  unfolding put_db_def by (rule same_keychain_db)

interpretation keychain_stays: batch_invariant E "same_keychain w0" for E w0
proof unfold_locales
  show "keeps (same_keychain w0) (store_tx E u tx)" for u tx
    by (simp add: keeps_def same_keychain_def store_tx_def split: sum.split prod.split)
  show "keeps (same_keychain w0) (set_parent_key_id i)" for i
    by (simp add: keeps_def same_keychain_def set_parent_key_id_def)
  show "keeps (same_keychain w0) (delete_private_context E s p)" for s p
    by (rule keeps_drop, rule same_keychain_db)
qed (unfold save_def delete_def save_output_history_def next_output_history_id_def next_tx_log_id_def save_tx_log_entry_def
    save_last_confirmed_height_def save_last_scanned_block_def save_init_status_def save_child_index_def
    save_acct_path_def save_private_context_def; intro keeps_intros same_keychain_put same_keychain_db)+

end
