(* ===== verification/Keybase.thy ===== *)
theory Keybase
  imports Adapters Owner Lifecycle Config
begin

text \<open>
  Slates over keybase, \<open>impls/src/adapters/keybase.rs\<close>: the calls of the \<open>keybase\<close> program, the
  sender, which waits for an answer, and the listener, which receives slates and answers them.

  The state keeps the argument lists of the calls made so far; what the program answers is a
  function of them and of the new call, \<open>None\<close> when it cannot be run. The iteration order of
  hash sets and maps of strings is a parameter too, and \<open>kb_elapsed k\<close> are the whole seconds
  that have passed when the sender asks for the time after \<open>k\<close> rounds.
\<close>

record kb_ext = sender_ext +
  kb_output :: "string list list \<Rightarrow> string list \<Rightarrow> (bool \<times> string) option"
  kb_elapsed :: "nat \<Rightarrow> nat"
  kb_hash_order :: "string list \<Rightarrow> string list"

record kb_world =
  kb_calls :: "string list list"
  kb_provider :: provider

type_synonym 'a kb_op = "(kb_world, error, 'a) proc"

definition TTL :: u16 where "TTL = 60"

definition SLATE_NEW :: string where "SLATE_NEW = ''epic_slate_new''"

definition SLATE_SIGNED :: string where "SLATE_SIGNED = ''epic_slate_signed''"

text \<open>The outcome of a step that is looked at; a panic goes on.\<close>

definition looked_at :: "('s, error, 'a) proc \<Rightarrow> ('s, error, error + 'a) proc" where
  "looked_at m s = (case m s of
      (Inl (Panic p), s') \<Rightarrow> (Inl (Panic p), s')
    | (Inl Diverges, s') \<Rightarrow> (Inl Diverges, s')
    | (r, s') \<Rightarrow> (Inr r, s'))"

definition kb_wallet :: "'a op \<Rightarrow> 'a kb_op" where
  "kb_wallet m s = (case with_wallet m (kb_provider s) of (r, p) \<Rightarrow> (r, s\<lparr>kb_provider := p\<rparr>))"

section \<open>Calling keybase\<close>

definition kb_command :: "'x kb_ext_scheme \<Rightarrow> string list \<Rightarrow> json kb_op" where
  "kb_command X args =
     bindE (gets kb_calls) (\<lambda>calls.
     bindE (modify (\<lambda>s. s\<lparr>kb_calls := calls @ [args]\<rparr>)) (\<lambda>_.
     case kb_output X calls args of
       None \<Rightarrow> throw (Panic ''No output'')
     | Some (success, out) \<Rightarrow>
         if \<not> success then throw (GenericError ''keybase api fail'')
         else liftE (or_err (Panic ''Bad output'') (json_of_string X out))))"

definition api_send :: "'x kb_ext_scheme \<Rightarrow> string \<Rightarrow> json kb_op" where
  "api_send X payload = kb_command X [''chat'', ''api'', ''-m'', payload]"

definition whoami :: "'x kb_ext_scheme \<Rightarrow> string kb_op" where
  "whoami X =
     bindE (kb_command X [''status'', ''-json'']) (\<lambda>response.
     case as_str (jget response ''Username'') of
       Some s \<Rightarrow> ret s
     | None \<Rightarrow> throw (GenericError ''keybase username query fail''))"

text \<open>The text of a value that \<open>json!\<close> builds.\<close>

definition kb_payload :: "'x kb_ext_scheme \<Rightarrow> json \<Rightarrow> string kb_op" where
  "kb_payload X v = liftE (or_err (Panic ''serde_json::to_string'') (json_to_string X v))"

definition jpath :: "json \<Rightarrow> string list \<Rightarrow> json" where
  "jpath j ks = foldl jget j ks"

definition array_or_nothing :: "json \<Rightarrow> json list" where
  "array_or_nothing j = (case as_array j of Some xs \<Rightarrow> xs | None \<Rightarrow> [JObj []])"

definition unread_texts :: "json list \<Rightarrow> string list" where
  "unread_texts msgs =
     map (\<lambda>msg. case as_str (jpath msg [''msg'', ''content'', ''text'', ''body'']) of Some s \<Rightarrow> s | None \<Rightarrow> [])
       (filter (\<lambda>msg. jpath msg [''msg'', ''content'', ''type''] = JStr ''text'' \<and> jpath msg [''msg'', ''unread''] = JBool True) msgs)"

definition read_from_channel :: "'x kb_ext_scheme \<Rightarrow> string \<Rightarrow> string \<Rightarrow> string list kb_op" where
  "read_from_channel X channel topic =
     bindE (kb_payload X (JObj [(''method'', JStr ''read''), (''params'', JObj [(''options'', JObj [
         (''channel'', JObj [(''name'', JStr channel), (''topic_type'', JStr ''dev''), (''topic_name'', JStr topic)]),
         (''unread_only'', JBool True), (''peek'', JBool False)])])])) (\<lambda>payload.
     bindE (looked_at (api_send X payload)) (\<lambda>response. case response of
       Inr res \<Rightarrow> ret (unread_texts (array_or_nothing (jpath res [''result'', ''messages''])))
     | Inl _ \<Rightarrow> throw (GenericError ''keybase api fail'')))"

fun unread_channels :: "string \<Rightarrow> json list \<Rightarrow> error + string list" where
  "unread_channels topic [] = Inr []"
| "unread_channels topic (msg # msgs) =
     (if jget msg ''unread'' = JBool True \<and> jpath msg [''channel'', ''topic_name''] = JStr topic
      then and_then (or_err (Panic ''Option::unwrap'') (as_str (jpath msg [''channel'', ''name'']))) (\<lambda>channel.
           and_then (unread_channels topic msgs) (\<lambda>channels. Inr (List.insert channel channels)))
      else unread_channels topic msgs)"

text \<open>The message maps to the channel it was read from last.\<close>

definition insert_unread :: "string \<Rightarrow> string \<Rightarrow> (string \<times> string) list \<Rightarrow> (string \<times> string) list" where
  "insert_unread msg channel unread = (msg, channel) # filter (\<lambda>u. fst u \<noteq> msg) unread"

fun read_channels :: "'x kb_ext_scheme \<Rightarrow> string \<Rightarrow> string list \<Rightarrow> (string \<times> string) list \<Rightarrow> (string \<times> string) list kb_op" where
  "read_channels X topic [] unread = ret unread"
| "read_channels X topic (channel # channels) unread =
     bindE (looked_at (read_from_channel X channel topic)) (\<lambda>messages. case messages of
       Inl _ \<Rightarrow> ret unread
     | Inr msgs \<Rightarrow> read_channels X topic channels (fold (\<lambda>msg. insert_unread msg channel) msgs unread))"

definition get_unread :: "'x kb_ext_scheme \<Rightarrow> string \<Rightarrow> (string \<times> string) list kb_op" where
  "get_unread X topic =
     bindE (kb_payload X (JObj [(''method'', JStr ''list''), (''params'', JObj [(''options'', JObj [(''topic_type'', JStr ''dev'')])])])) (\<lambda>payload.
     bindE (looked_at (api_send X payload)) (\<lambda>response. case response of
       Inr res \<Rightarrow>
         bindE (liftE (unread_channels topic (array_or_nothing (jpath res [''result'', ''conversations''])))) (\<lambda>channels.
         read_channels X topic (kb_hash_order X channels) [])
     | Inl _ \<Rightarrow> throw (GenericError ''keybase api fail'')))"

text \<open>Whether the answer to a message says that it was sent.\<close>

definition said_sent :: "'x kb_ext_scheme \<Rightarrow> string \<Rightarrow> bool kb_op" where
  "said_sent X payload =
     bindE (looked_at (api_send X payload)) (\<lambda>response. case response of
       Inr res \<Rightarrow> ret (as_str (jpath res [''result'', ''message'']) = Some ''message sent'')
     | Inl _ \<Rightarrow> ret False)"

definition kb_send :: "'x kb_ext_scheme \<Rightarrow> Slate \<Rightarrow> string \<Rightarrow> string \<Rightarrow> u16 \<Rightarrow> bool kb_op" where
  "kb_send X message channel topic ttl =
     (let seconds = decimal (unat ttl) @ ''s'' in
      bindE (liftE (case slate_serialize (sx_codec X) message of
          Inr s \<Rightarrow> Inr s | Inl _ \<Rightarrow> Inl (Panic ''serde_json::to_string''))) (\<lambda>serialized.
      bindE (kb_payload X (JObj [(''method'', JStr ''send''), (''params'', JObj [(''options'', JObj [
         (''channel'', JObj [(''name'', JStr channel), (''topic_name'', JStr topic), (''topic_type'', JStr ''dev'')]),
         (''message'', JObj [(''body'', JStr serialized)]),
         (''exploding_lifetime'', JStr seconds)])])])) (\<lambda>payload.
      said_sent X payload)))"

definition kb_notify :: "'x kb_ext_scheme \<Rightarrow> string \<Rightarrow> string \<Rightarrow> u16 \<Rightarrow> bool kb_op" where
  "kb_notify X message channel ttl =
     (let minutes = decimal (unat ttl) @ ''m'' in
      bindE (kb_payload X (JObj [(''method'', JStr ''send''), (''params'', JObj [(''options'', JObj [
         (''channel'', JObj [(''name'', JStr channel)]),
         (''message'', JObj [(''body'', JStr message)]),
         (''exploding_lifetime'', JStr minutes)])])])) (\<lambda>payload.
      said_sent X payload))"

section \<open>The sender\<close>

text \<open>The first message that is a slate.\<close>

fun first_slate :: "json_codec \<Rightarrow> string list \<Rightarrow> error + Slate option" where
  "first_slate J [] = Inr None"
| "first_slate J (msg # msgs) = (case deserialize_upgrade J msg of
      Inr slate \<Rightarrow> Inr (Some slate)
    | Inl (Panic p) \<Rightarrow> Inl (Panic p)
    | Inl _ \<Rightarrow> first_slate J msgs)"

text \<open>
  The loop asks for the time at the start of each round, and a round sleeps a second. The fuel
  is one more than the number of seconds, see \<open>poll_returns\<close>.
\<close>

fun kb_poll_loop :: "nat \<Rightarrow> 'x kb_ext_scheme \<Rightarrow> nat \<Rightarrow> string \<Rightarrow> nat \<Rightarrow> Slate option kb_op" where
  "kb_poll_loop 0 X nseconds channel k = throw Diverges"
| "kb_poll_loop (Suc fuel) X nseconds channel k =
     (if kb_elapsed X k < nseconds
      then
        bindE (looked_at (read_from_channel X channel SLATE_SIGNED)) (\<lambda>unread. case unread of
          Inl _ \<Rightarrow> throw (Panic ''Result::unwrap'')
        | Inr msgs \<Rightarrow>
            bindE (liftE (first_slate (sx_codec X) msgs)) (\<lambda>slate. case slate of
              Some s \<Rightarrow> ret (Some s)
            | None \<Rightarrow> kb_poll_loop fuel X nseconds channel (k + 1)))
      else ret None)"

definition kb_poll :: "'x kb_ext_scheme \<Rightarrow> nat \<Rightarrow> string \<Rightarrow> Slate option kb_op" where
  "kb_poll X nseconds channel = kb_poll_loop (nseconds + 1) X nseconds channel 0"

definition keybase_send_tx :: "'x kb_ext_scheme \<Rightarrow> string \<Rightarrow> Slate \<Rightarrow> Slate kb_op" where
  "keybase_send_tx X channel slate =
     bindE (kb_send X slate channel SLATE_NEW TTL) (\<lambda>sent.
     if \<not> sent then throw (ClientCallback ''Posting transaction slate'')
     else
       bindE (kb_poll X (unat TTL) channel) (\<lambda>reply. case reply of
         Some s \<Rightarrow> ret s
       | None \<Rightarrow> throw (ClientCallback ''Receiving reply from recipient'')))"

section \<open>The listener\<close>

definition keybase_all_channels_new :: "'x sender_ext_scheme \<Rightarrow> error + unit" where
  "keybase_all_channels_new H =
     (if \<not> keybase_installed H
      then Inl (GenericError ''Keybase executable not found, make sure it is installed and in your PATH'')
      else Inr ())"

definition notice_text :: "string \<Rightarrow> string \<Rightarrow> string" where
  "notice_text sender tx_uuid =
     ''[epic wallet notice]: you could have some coins received from @'' @ sender @ [CHR 0x0A] @ ''Transaction Id: '' @ tx_uuid"

definition notify_on_receive :: "'x kb_ext_scheme \<Rightarrow> u16 \<Rightarrow> string \<Rightarrow> string \<Rightarrow> unit kb_op" where
  "notify_on_receive X keybase_notify_ttl channel tx_uuid =
     (if keybase_notify_ttl > 0
      then
        bindE (looked_at (whoami X)) (\<lambda>my_username. case my_username of
          Inr receiver \<Rightarrow>
            (case split_on CHR '','' channel of
               v0 # v1 # _ \<Rightarrow>
                 bindE (kb_notify X (notice_text (if v0 = receiver then v1 else v0) tx_uuid) receiver keybase_notify_ttl) (\<lambda>_. ret ())
             | _ \<Rightarrow> ret ())
        | Inl _ \<Rightarrow> ret ())
      else ret ())"

definition count_commas :: "string \<Rightarrow> nat" where
  "count_commas channel = length (filter (\<lambda>c. c = CHR '','') channel)"

text \<open>One message with its channel.\<close>

definition kb_on_message ::
    "ext \<Rightarrow> 'x kb_ext_scheme \<Rightarrow> SecretKey option \<Rightarrow> WalletConfig \<Rightarrow> string \<times> string \<Rightarrow> unit kb_op" where
  "kb_on_message E X keychain_mask config u = (case u of (msg, channel) \<Rightarrow>
     (case deserialize_upgrade (sx_codec X) msg of
        Inl (Panic p) \<Rightarrow> throw (Panic p)
      | Inl _ \<Rightarrow> ret ()
      | Inr slate \<Rightarrow>
          if count_commas channel > 1 then ret ()
          else
            bindE (liftE (verify_messages E slate)) (\<lambda>_.
            bindE (looked_at (kb_wallet (receive_tx E keychain_mask slate None None (Some channel) False))) (\<lambda>res. case res of
              Inr s \<Rightarrow>
                bindE (kb_send X s channel SLATE_SIGNED TTL) (\<lambda>success.
                if success
                then notify_on_receive X (case wc_keybase_notify_ttl config of Some t \<Rightarrow> t | None \<Rightarrow> 1440) channel
                       (uuid_string E (sl_id slate))
                else ret ())
            | Inl _ \<Rightarrow> ret ()))))"

text \<open>
  The rounds of the loop, each with what \<open>is_node_synced\<close> says in it. The listener returns when
  the channels cannot be listed or a message cannot be verified, and \<open>True\<close> stands for a loop
  that goes on.
\<close>

fun kb_rounds ::
    "ext \<Rightarrow> 'x kb_ext_scheme \<Rightarrow> SecretKey option \<Rightarrow> WalletConfig \<Rightarrow> bool list \<Rightarrow> bool kb_op" where
  "kb_rounds E X keychain_mask config [] = ret True"
| "kb_rounds E X keychain_mask config (is_node_synced # rounds) =
     (if \<not> is_node_synced then kb_rounds E X keychain_mask config rounds
      else
        bindE (looked_at (get_unread X SLATE_NEW)) (\<lambda>unread. case unread of
          Inl _ \<Rightarrow> ret False
        | Inr us \<Rightarrow>
            bindE (for_each (kb_on_message E X keychain_mask config)
                     (List.map_filter (\<lambda>msg. map_option (Pair msg) (map_of us msg)) (kb_hash_order X (map fst us)))) (\<lambda>_.
            kb_rounds E X keychain_mask config rounds)))"

definition keybase_listen ::
    "ext \<Rightarrow> 'x kb_ext_scheme \<Rightarrow> SecretKey option \<Rightarrow> WalletConfig \<Rightarrow> bool list \<Rightarrow> bool kb_op" where
  "keybase_listen E X keychain_mask config rounds =
     bindE (kb_wallet (ret ())) (\<lambda>_. kb_rounds E X keychain_mask config rounds)"

end
