(* ===== verification/OwnerApi.thy ===== *)
theory OwnerApi
  imports Keybase EpicboxClient PaymentProofs
begin

text \<open>
  The owner's interface, \<open>api/src/owner.rs\<close>: each operation of the wallet behind the check of its
  keychain mask, sending a slate at once, and the operations of the provider. The messages of
  the updater and its thread are in \<open>UpdaterThread\<close>.

  The state is the \<open>Owner\<close> structure without the handles of its threads, with the actions done on
  the network and the calls of keybase so far.
\<close>

record owner_env =
  oe_E :: ext
  oe_C :: crypto_ext
  oe_S :: seed_ext
  oe_X :: epicbox_ext
  oe_K :: kb_ext

record owner_state =
  ow_provider :: provider
  ow_doctest_mode :: bool
  ow_updater_running :: bool
  ow_tor_config :: "TorConfig option"
  ow_epicbox_config :: "EpicboxConfig option"
  ow_is_node_synced :: bool
  ow_done :: "action list"
  ow_kb_calls :: "string list list"

type_synonym 'a owner_op = "(owner_state, error, 'a) proc"

section \<open>Errors of the implementation crate\<close>

definition impls_error_fmt :: "ext \<Rightarrow> impls_error \<Rightarrow> string" where
  "impls_error_fmt E e = (case e of
      ImplsIO s \<Rightarrow> ''Std IO error: '' @ s
    | ImplsFormat s \<Rightarrow> ''Serde JSON error: '' @ s
    | ImplsKeychain s \<Rightarrow> ''Keychain error: '' @ s
    | ImplsWalletSeedExists s \<Rightarrow> ''Wallet seed file exists: '' @ s
    | ImplsWalletSeedDoesntExist \<Rightarrow> ''Wallet seed doesn't exist error''
    | ImplsWalletDoesntExist s t \<Rightarrow> ''Wallet doesn't exist at '' @ s @ ''. '' @ t
    | ImplsEncryption \<Rightarrow> ''Enc/Decryption error (check password?)''
    | ImplsMnemonic \<Rightarrow> ''BIP39 Mnemonic (word list) Error''
    | ImplsGenericError s \<Rightarrow> ''Generic error: '' @ s
    | ImplsLibWallet x \<Rightarrow> ''LibWallet Error: '' @ error_fmt E x
    | ImplsNotOnion s \<Rightarrow> ''Address is not an Onion v3 Address: '' @ s
    | ImplsTorConfig s \<Rightarrow> ''Tor Config Error: '' @ s
    | ImplsED25519Key s \<Rightarrow> ''Error generating ed25519 secret key: '' @ s
    | ImplsEpicboxTungstenite s \<Rightarrow> ''Epicbox Error: '' @ s
    | ImplsNoListener s \<Rightarrow> ''No listener on: '' @ s
    | ImplsEpicboxWebsocketAbnormalTermination \<Rightarrow> ''Epicbox websocket terminated unexpectedly''
    | ImplsEpicboxReceiveTx s \<Rightarrow> ''Epicbox ReceiveTx: '' @ s
    | ImplsPanic s \<Rightarrow> s
    | ImplsDiverges \<Rightarrow> [])"

text \<open>\<open>From<impls::Error>\<close>; a panic stays a panic.\<close>

definition of_impls :: "ext \<Rightarrow> impls_error \<Rightarrow> error" where
  "of_impls E e = (case e of ImplsPanic p \<Rightarrow> Panic p | ImplsDiverges \<Rightarrow> Diverges | _ \<Rightarrow> LibWallet (impls_error_fmt E e))"

section \<open>Steps on the parts of the state\<close>

text \<open>An operation of the provider, one of the open wallet, and the test of the mask.\<close>

definition on_provider :: "'a lc_op \<Rightarrow> 'a owner_op" where
  "on_provider m s = (case m (ow_provider s) of (r, p) \<Rightarrow> (r, s\<lparr>ow_provider := p\<rparr>))"

definition use_wallet :: "'a op \<Rightarrow> 'a owner_op" where
  "use_wallet m = on_provider (with_wallet m)"

definition test_mask :: "owner_env \<Rightarrow> SecretKey option \<Rightarrow> 'a op \<Rightarrow> 'a op" where
  "test_mask V keychain_mask m = bindE (keychain (oe_E V) keychain_mask) (\<lambda>_. m)"

definition on_epicbox :: "owner_env \<Rightarrow> 'a ebx_op \<Rightarrow> 'a owner_op" where
  "on_epicbox V m s =
     (case m \<lparr>bx_provider = ow_provider s, bx_challenge = None, bx_first_run = True, bx_reconnections = 0, bx_done = ow_done s\<rparr> of
        (r, b) \<Rightarrow> (case r of Inl e \<Rightarrow> Inl (of_impls (oe_E V) e) | Inr x \<Rightarrow> Inr x,
          s\<lparr>ow_provider := bx_provider b, ow_done := bx_done b\<rparr>))"

definition on_keybase :: "'a kb_op \<Rightarrow> 'a owner_op" where
  "on_keybase m s =
     (case m \<lparr>kb_calls = ow_kb_calls s, kb_provider = ow_provider s\<rparr> of
        (r, k) \<Rightarrow> (r, s\<lparr>ow_kb_calls := kb_calls k, ow_provider := kb_provider k\<rparr>))"

definition network :: "action \<Rightarrow> error + 'a \<Rightarrow> 'a owner_op" where
  "network a r = bindE (modify (\<lambda>s. s\<lparr>ow_done := ow_done s @ [a]\<rparr>)) (\<lambda>_. liftE r)"

text \<open>A running updater refreshes the wallet, so that the operation need not.\<close>

definition refresh_wanted :: "bool \<Rightarrow> bool owner_op" where
  "refresh_wanted refresh_from_node = gets (\<lambda>s. if ow_updater_running s then False else refresh_from_node)"

section \<open>The structure\<close>

definition owner_new :: "provider \<Rightarrow> bool \<Rightarrow> owner_state" where
  "owner_new p is_node_synced =
     \<lparr>ow_provider = p, ow_doctest_mode = False, ow_updater_running = False, ow_tor_config = None,
      ow_epicbox_config = None, ow_is_node_synced = is_node_synced, ow_done = [], ow_kb_calls = []\<rparr>"

definition set_tor_config :: "TorConfig option \<Rightarrow> unit owner_op" where
  "set_tor_config tor_config = modify (\<lambda>s. s\<lparr>ow_tor_config := tor_config\<rparr>)"

definition set_epicbox_config :: "EpicboxConfig option \<Rightarrow> unit owner_op" where
  "set_epicbox_config epicbox_config = modify (\<lambda>s. s\<lparr>ow_epicbox_config := epicbox_config\<rparr>)"

section \<open>Accounts and listings\<close>

definition api_accounts :: "owner_env \<Rightarrow> SecretKey option \<Rightarrow> AcctPathMapping list owner_op" where
  "api_accounts V keychain_mask = use_wallet (test_mask V keychain_mask (gets accounts))"

definition api_create_account_path :: "owner_env \<Rightarrow> SecretKey option \<Rightarrow> string \<Rightarrow> Identifier owner_op" where
  "api_create_account_path V keychain_mask label = use_wallet (new_acct_path (oe_E V) keychain_mask label)"

definition api_set_active_account :: "owner_env \<Rightarrow> SecretKey option \<Rightarrow> string \<Rightarrow> unit owner_op" where
  "api_set_active_account V keychain_mask label = use_wallet (test_mask V keychain_mask (set_parent_key_id_by_name label))"

definition api_retrieve_outputs ::
    "owner_env \<Rightarrow> SecretKey option \<Rightarrow> bool \<Rightarrow> bool \<Rightarrow> bool \<Rightarrow> u32 option \<Rightarrow> nat option \<Rightarrow> nat option \<Rightarrow> string option \<Rightarrow>
     RetrieveOutputsResult owner_op" where
  "api_retrieve_outputs V keychain_mask include_spent refresh_from_node show_full_history tx_id limit offset sort_order =
     bindE (refresh_wanted refresh_from_node) (\<lambda>refresh_from_node.
     use_wallet (owner_retrieve_outputs (oe_E V) keychain_mask include_spent refresh_from_node show_full_history tx_id
       limit offset sort_order))"

text \<open>15 January 2019, 16:01:26 UTC.\<close>

definition doctest_ts :: timestamp where
  "doctest_ts = 1547568086"

definition doctest_times :: "TxLogEntry \<Rightarrow> TxLogEntry" where
  "doctest_times t = t\<lparr>tl_confirmation_ts := Some doctest_ts, tl_creation_ts := doctest_ts\<rparr>"

definition api_retrieve_txs ::
    "owner_env \<Rightarrow> SecretKey option \<Rightarrow> bool \<Rightarrow> u32 option \<Rightarrow> Uuid option \<Rightarrow> nat option \<Rightarrow> nat option \<Rightarrow> string option \<Rightarrow>
     RetrieveTxsResult owner_op" where
  "api_retrieve_txs V keychain_mask refresh_from_node tx_id tx_slate_id limit offset sort_order =
     bindE (refresh_wanted refresh_from_node) (\<lambda>refresh_from_node.
     bindE (use_wallet (owner_retrieve_txs (oe_E V) keychain_mask refresh_from_node tx_id tx_slate_id limit offset sort_order)) (\<lambda>res.
     bindE (gets ow_doctest_mode) (\<lambda>doctest_mode.
     ret (if doctest_mode then res\<lparr>rt_txs := map doctest_times (rt_txs res)\<rparr> else res))))"

definition api_retrieve_summary_info :: "owner_env \<Rightarrow> SecretKey option \<Rightarrow> bool \<Rightarrow> u64 \<Rightarrow> (bool \<times> WalletInfo) owner_op" where
  "api_retrieve_summary_info V keychain_mask refresh_from_node minimum_confirmations =
     bindE (refresh_wanted refresh_from_node) (\<lambda>refresh_from_node.
     use_wallet (retrieve_summary_info (oe_E V) keychain_mask refresh_from_node minimum_confirmations))"

section \<open>Transactions\<close>

definition api_tx_lock_outputs :: "owner_env \<Rightarrow> SecretKey option \<Rightarrow> Slate \<Rightarrow> nat \<Rightarrow> string option \<Rightarrow> unit owner_op" where
  "api_tx_lock_outputs V keychain_mask slate participant_id addr_to =
     use_wallet (tx_lock_outputs (oe_E V) keychain_mask slate participant_id addr_to)"

definition api_finalize_tx :: "owner_env \<Rightarrow> SecretKey option \<Rightarrow> Slate \<Rightarrow> Slate owner_op" where
  "api_finalize_tx V keychain_mask slate = use_wallet (finalize_tx (oe_E V) keychain_mask slate)"

definition api_post_tx :: "owner_env \<Rightarrow> SecretKey option \<Rightarrow> Transaction \<Rightarrow> bool \<Rightarrow> unit owner_op" where
  "api_post_tx V keychain_mask tx fluff =
     bindE (use_wallet (test_mask V keychain_mask (ret ()))) (\<lambda>_. network (PostedTx tx fluff) (post_tx (oe_E V) tx fluff))"

definition post_tx_tor :: "epicbox_ext \<Rightarrow> Transaction \<Rightarrow> string \<Rightarrow> error + unit" where
  "post_tx_tor X tx tor_node_url = xe_post_tx_tor X tx tor_node_url"

definition api_post_tx_tor :: "owner_env \<Rightarrow> SecretKey option \<Rightarrow> Transaction \<Rightarrow> string \<Rightarrow> unit owner_op" where
  "api_post_tx_tor V keychain_mask tx tor_node_url =
     bindE (use_wallet (test_mask V keychain_mask (ret ()))) (\<lambda>_.
     network (PostedTor tx tor_node_url) (post_tx_tor (oe_X V) tx tor_node_url))"

text \<open>The sender that was chosen, and what it does.\<close>

definition sender_send_tx :: "owner_env \<Rightarrow> bool \<Rightarrow> slate_sender \<Rightarrow> Slate \<Rightarrow> Slate owner_op" where
  "sender_send_tx V is_node_synced sender slate = (case sender of
      HttpSender url \<Rightarrow> liftE (http_send_tx (oe_K V) url is_node_synced slate)
    | KeybaseSender channel \<Rightarrow> on_keybase (keybase_send_tx (oe_K V) channel slate))"

definition send_over_epicbox :: "owner_env \<Rightarrow> SecretKey option \<Rightarrow> InitTxSendArgs \<Rightarrow> Slate \<Rightarrow> Slate owner_op" where
  "send_over_epicbox V keychain_mask sa slate =
     bindE (gets ow_epicbox_config) (\<lambda>epicbox_config.
     bindE (on_epicbox V (channel_send (oe_E V) (oe_C V) (oe_X V) (is_dest sa) epicbox_config keychain_mask slate)) (\<lambda>slate.
     bindE (api_tx_lock_outputs V keychain_mask slate 0 (Some (is_dest sa))) (\<lambda>_. ret slate)))"

definition send_over_sender :: "owner_env \<Rightarrow> SecretKey option \<Rightarrow> bool \<Rightarrow> InitTxSendArgs \<Rightarrow> Slate \<Rightarrow> Slate owner_op" where
  "send_over_sender V keychain_mask is_node_synced sa slate =
     bindE (liftE (case create_sender (oe_E V) (oe_K V) (is_method sa) (is_dest sa) of
         Inr sender \<Rightarrow> Inr sender
       | Inl (Panic p) \<Rightarrow> Inl (Panic p)
       | Inl e \<Rightarrow> Inl (GenericError (error_fmt (oe_E V) e)))) (\<lambda>sender.
     bindE (sender_send_tx V is_node_synced sender slate) (\<lambda>slate.
     bindE (api_tx_lock_outputs V keychain_mask slate 0 (Some (is_dest sa))) (\<lambda>_.
     bindE (if is_finalize sa then api_finalize_tx V keychain_mask slate else ret slate) (\<lambda>slate.
     bindE (if is_post_tx sa then api_post_tx V keychain_mask (sl_tx slate) (is_fluff sa) else ret ()) (\<lambda>_.
     ret slate)))))"

definition api_init_send_tx :: "owner_env \<Rightarrow> SecretKey option \<Rightarrow> InitTxArgs \<Rightarrow> bool \<Rightarrow> Slate owner_op" where
  "api_init_send_tx V keychain_mask args is_node_synced =
     bindE (gets ow_doctest_mode) (\<lambda>doctest_mode.
     bindE (use_wallet (init_send_tx (oe_E V) keychain_mask args doctest_mode)) (\<lambda>slate.
     case ia_send_args args of
       None \<Rightarrow> ret slate
     | Some sa \<Rightarrow>
         if is_method sa \<noteq> ''http'' \<and> is_method sa \<noteq> ''keybase'' \<and> is_method sa \<noteq> ''epicbox''
         then throw (ClientCallback ''unsupported payment method'')
         else if is_method sa = ''epicbox'' then send_over_epicbox V keychain_mask sa slate
         else send_over_sender V keychain_mask is_node_synced sa slate))"

definition api_issue_invoice_tx :: "owner_env \<Rightarrow> SecretKey option \<Rightarrow> IssueInvoiceTxArgs \<Rightarrow> Slate owner_op" where
  "api_issue_invoice_tx V keychain_mask args =
     bindE (gets ow_doctest_mode) (\<lambda>doctest_mode. use_wallet (issue_invoice_tx (oe_E V) keychain_mask args doctest_mode))"

definition api_process_invoice_tx :: "owner_env \<Rightarrow> SecretKey option \<Rightarrow> Slate \<Rightarrow> InitTxArgs \<Rightarrow> Slate owner_op" where
  "api_process_invoice_tx V keychain_mask slate args =
     bindE (gets ow_doctest_mode) (\<lambda>doctest_mode. use_wallet (process_invoice_tx (oe_E V) keychain_mask slate args doctest_mode))"

definition api_cancel_tx :: "owner_env \<Rightarrow> SecretKey option \<Rightarrow> u32 option \<Rightarrow> Uuid option \<Rightarrow> unit owner_op" where
  "api_cancel_tx V keychain_mask tx_id tx_slate_id = use_wallet (owner_cancel_tx (oe_E V) keychain_mask tx_id tx_slate_id)"

definition api_get_stored_tx :: "owner_env \<Rightarrow> SecretKey option \<Rightarrow> TxLogEntry \<Rightarrow> Transaction option owner_op" where
  "api_get_stored_tx V keychain_mask tx_log_entry =
     use_wallet (test_mask V keychain_mask (get_stored_tx (oe_E V) tx_log_entry))"

definition api_verify_slate_messages :: "owner_env \<Rightarrow> SecretKey option \<Rightarrow> Slate \<Rightarrow> unit owner_op" where
  "api_verify_slate_messages V keychain_mask slate =
     bindE (use_wallet (test_mask V keychain_mask (ret ()))) (\<lambda>_. liftE (verify_messages (oe_E V) slate))"

definition api_scan :: "owner_env \<Rightarrow> SecretKey option \<Rightarrow> u64 option \<Rightarrow> bool \<Rightarrow> unit owner_op" where
  "api_scan V keychain_mask start_height delete_unconfirmed =
     use_wallet (owner_scan (oe_E V) keychain_mask start_height delete_unconfirmed)"

definition api_node_height :: "owner_env \<Rightarrow> SecretKey option \<Rightarrow> NodeHeightResult owner_op" where
  "api_node_height V keychain_mask =
     bindE (use_wallet (test_mask V keychain_mask (ret ()))) (\<lambda>_.
     bindE (use_wallet (node_height (oe_E V) keychain_mask)) (\<lambda>res.
     bindE (gets ow_doctest_mode) (\<lambda>doctest_mode.
     ret (if doctest_mode
          then res\<lparr>nh_header_hash := ''d4b3d3c40695afd8c7760f8fc423565f7d41310b7a4e1c4a4a7950a66f16240d''\<rparr> else res))))"

section \<open>The provider's operations\<close>

definition api_get_top_level_directory :: "string owner_op" where
  "api_get_top_level_directory =
     bindE (gets ow_doctest_mode) (\<lambda>doctest_mode.
     if doctest_mode then ret ''/doctest/dir'' else on_provider get_top_level_directory)"

definition api_set_top_level_directory :: "string \<Rightarrow> unit owner_op" where
  "api_set_top_level_directory dir = on_provider (set_top_level_directory dir)"

definition api_create_wallet :: "owner_env \<Rightarrow> string option \<Rightarrow> string option \<Rightarrow> u32 \<Rightarrow> string \<Rightarrow> unit owner_op" where
  "api_create_wallet V name mnemonic mnemonic_length password =
     bindE (gets ow_doctest_mode) (\<lambda>doctest_mode.
     on_provider (create_wallet (oe_E V) (oe_C V) (oe_S V) mnemonic (unat mnemonic_length) password doctest_mode))"

definition doctest_mask :: SecretKey where
  "doctest_mask =
     [0xd0, 0x96, 0xb3, 0xcb, 0x75, 0x98, 0x6b, 0x3b, 0x13, 0xf8, 0x0b, 0x8f, 0x52, 0x43, 0xa9, 0xed,
      0xf0, 0xaf, 0x4c, 0x74, 0xac, 0x37, 0x57, 0x8c, 0x5a, 0x12, 0xcf, 0xb5, 0xb5, 0x9b, 0x18, 0x68]"

definition api_open_wallet :: "owner_env \<Rightarrow> string option \<Rightarrow> string \<Rightarrow> bool \<Rightarrow> SecretKey option owner_op" where
  "api_open_wallet V name password use_mask =
     bindE (gets ow_doctest_mode) (\<lambda>doctest_mode.
     if doctest_mode then ret (Some doctest_mask)
     else on_provider (open_wallet (oe_E V) (oe_C V) (oe_S V) password use_mask doctest_mode))"

definition api_close_wallet :: "string option \<Rightarrow> unit owner_op" where
  "api_close_wallet name = on_provider close_wallet"

definition api_get_mnemonic :: "owner_env \<Rightarrow> string option \<Rightarrow> string \<Rightarrow> string owner_op" where
  "api_get_mnemonic V name password = on_provider (get_mnemonic (oe_C V) (oe_S V) password)"

definition api_change_password :: "owner_env \<Rightarrow> string option \<Rightarrow> string \<Rightarrow> string \<Rightarrow> bool \<Rightarrow> unit owner_op" where
  "api_change_password V name old new remove_backup = on_provider (change_password (oe_C V) (oe_S V) old new remove_backup)"

definition api_delete_wallet :: "owner_env \<Rightarrow> string option \<Rightarrow> unit owner_op" where
  "api_delete_wallet V name = on_provider (delete_wallet (oe_S V))"

section \<open>Addresses and payment proofs\<close>

definition get_public_address ::
    "ext \<Rightarrow> crypto_ext \<Rightarrow> SecretKey option \<Rightarrow> EpicboxConfig \<Rightarrow> u32 \<Rightarrow> EpicboxAddress op" where
  "get_public_address E C keychain_mask epicbox_config index =
     bindE (gets w_parent_key_id) (\<lambda>parent_key_id.
     bindE (keychain E keychain_mask) (\<lambda>k.
     bindE (liftE (address_from_derivation_path E k parent_key_id index)) (\<lambda>sec_addr_key.
     bindE (liftE (case pubkey_from_secret E sec_addr_key of
         Inl _ \<Rightarrow> Inl (Panic ''PublicKey::from_secret_key'') | Inr p \<Rightarrow> Inr p)) (\<lambda>pub_key.
     bindE (liftE (or_err (Panic ''Option::unwrap'') (ec_domain epicbox_config))) (\<lambda>domain.
     bindE (liftE (or_err (Panic ''Option::unwrap'') (ec_port epicbox_config))) (\<lambda>port.
     liftE (or_err Diverges (epicbox_address_new C pub_key (Some domain) (Some port)))))))))"

definition api_get_public_address :: "owner_env \<Rightarrow> SecretKey option \<Rightarrow> u32 \<Rightarrow> EpicboxAddress owner_op" where
  "api_get_public_address V keychain_mask derivation_index =
     bindE (gets (\<lambda>s. case ow_epicbox_config s of None \<Rightarrow> epicbox_config_default | Some c \<Rightarrow> c)) (\<lambda>epicbox_config.
     bindE (use_wallet (test_mask V keychain_mask (ret ()))) (\<lambda>_.
     use_wallet (get_public_address (oe_E V) (oe_C V) keychain_mask epicbox_config derivation_index)))"

definition api_get_public_proof_address :: "owner_env \<Rightarrow> SecretKey option \<Rightarrow> u32 \<Rightarrow> DalekPublicKey owner_op" where
  "api_get_public_proof_address V keychain_mask derivation_index =
     bindE (use_wallet (test_mask V keychain_mask (ret ()))) (\<lambda>_.
     use_wallet (get_public_proof_address (oe_E V) keychain_mask derivation_index))"

definition proof_address_from_onion_v3 :: "owner_env \<Rightarrow> string \<Rightarrow> DalekPublicKey owner_op" where
  "proof_address_from_onion_v3 V address_v3 = liftE (pubkey_from_onion_v3 (oe_E V) address_v3)"

definition api_retrieve_payment_proof ::
    "owner_env \<Rightarrow> SecretKey option \<Rightarrow> bool \<Rightarrow> u32 option \<Rightarrow> Uuid option \<Rightarrow> PaymentProof owner_op" where
  "api_retrieve_payment_proof V keychain_mask refresh_from_node tx_id tx_slate_id =
     bindE (refresh_wanted refresh_from_node) (\<lambda>refresh_from_node.
     use_wallet (retrieve_payment_proof (oe_E V) keychain_mask refresh_from_node tx_id tx_slate_id))"

definition api_verify_payment_proof :: "owner_env \<Rightarrow> SecretKey option \<Rightarrow> PaymentProof \<Rightarrow> (bool \<times> bool) owner_op" where
  "api_verify_payment_proof V keychain_mask pp = use_wallet (verify_payment_proof (oe_E V) keychain_mask pp)"

definition api_update_mempool_status :: "owner_env \<Rightarrow> SecretKey option \<Rightarrow> Slate \<Rightarrow> unit owner_op" where
  "api_update_mempool_status V keychain_mask slate = use_wallet (update_mempool_status (oe_E V) keychain_mask slate)"

definition api_wait_for_tx_in_mempool :: "owner_env \<Rightarrow> SecretKey option \<Rightarrow> Uuid \<Rightarrow> u32 \<Rightarrow> bool owner_op" where
  "api_wait_for_tx_in_mempool V keychain_mask tx_slate_id max_attempts =
     use_wallet (wait_for_tx_in_mempool (oe_E V) keychain_mask tx_slate_id (take (unat max_attempts) (xe_mempool (oe_X V))))"

end
