(* ===== verification/UpdaterThread.thy ===== *)
theory UpdaterThread
  imports OwnerApi
begin

text \<open>
  The thread that keeps a wallet up to date, \<open>libwallet/src/api_impl/owner_updater.rs\<close>, with the
  operations of \<open>api/src/owner.rs\<close> that start and stop it and read its messages.
\<close>

section \<open>The queue of messages\<close>

definition MESSAGE_QUEUE_MAX_LEN :: nat where "MESSAGE_QUEUE_MAX_LEN = 10000"

datatype StatusMessage =
    UpdatingOutputs string
  | UpdatingTransactions string
  | FullScanWarn string
  | Scanning string u8
  | ScanningComplete string
  | UpdateWarning string

text \<open>\<open>while q.len() > MESSAGE_QUEUE_MAX_LEN { q.pop(); }\<close>\<close>

function pop_excess :: "StatusMessage list \<Rightarrow> StatusMessage list" where
  "pop_excess q = (if length q > MESSAGE_QUEUE_MAX_LEN then pop_excess (butlast q) else q)"
  by pat_completeness auto
termination by (relation "measure length") (auto simp: MESSAGE_QUEUE_MAX_LEN_def)

declare pop_excess.simps [simp del]

text \<open>What the log thread does with a message it receives.\<close>

definition receive_message :: "StatusMessage \<Rightarrow> StatusMessage list \<Rightarrow> StatusMessage list" where
  "receive_message m q = pop_excess (m # q)"

text \<open>\<open>get_updater_messages\<close>: what is returned, and what stays in the queue.\<close>

definition get_updater_messages :: "nat \<Rightarrow> StatusMessage list \<Rightarrow> StatusMessage list \<times> StatusMessage list" where
  "get_updater_messages n q = (let index = length q - n in (drop index q, take index q))"

datatype queue_event = Received StatusMessage | Asked nat

text \<open>The answers given over a run, oldest first, and the queue it leaves.\<close>

fun run_queue :: "queue_event list \<Rightarrow> StatusMessage list \<Rightarrow> StatusMessage list list \<times> StatusMessage list" where
  "run_queue [] q = ([], q)"
| "run_queue (Received m # es) q = run_queue es (receive_message m q)"
| "run_queue (Asked n # es) q =
     (case get_updater_messages n q of (ms, q) \<Rightarrow> (case run_queue es q of (mss, q) \<Rightarrow> (ms # mss, q)))"

section \<open>The thread\<close>

text \<open>
  Threads wait for the updater, one holds it: it is in a round, or asleep between two. The label
  of a step is what happens in it.
\<close>

datatype updater_phase = Working | Sleeping

record updater_state =
  us_owner :: owner_state
  us_waiting :: "SecretKey option list"
  us_holder :: "(SecretKey option \<times> updater_phase) option"

datatype updater_label = Start "SecretKey option" | Enter | Round | Failed | Wake | Stop | Call

definition start_updater :: "SecretKey option \<Rightarrow> updater_state \<Rightarrow> updater_state" where
  "start_updater keychain_mask s = s\<lparr>us_waiting := us_waiting s @ [keychain_mask]\<rparr>"

definition set_running :: "bool \<Rightarrow> updater_state \<Rightarrow> updater_state" where
  "set_running b s = s\<lparr>us_owner := (us_owner s)\<lparr>ow_updater_running := b\<rparr>\<rparr>"

definition stop_updater :: "updater_state \<Rightarrow> updater_state" where
  "stop_updater s = set_running False s"

text \<open>The body of the loop, and what follows a round that succeeded.\<close>

definition updater_round :: "owner_env \<Rightarrow> SecretKey option \<Rightarrow> owner_state \<Rightarrow> (error + bool) \<times> owner_state" where
  "updater_round V keychain_mask = use_wallet (update_wallet_state (oe_E V) keychain_mask)"

definition after_round :: "SecretKey option \<Rightarrow> owner_state \<Rightarrow> (SecretKey option \<times> updater_phase) option" where
  "after_round keychain_mask ow = (if \<not> ow_updater_running ow then None else Some (keychain_mask, Sleeping))"

text \<open>
  \<open>Call\<close> stands for any other operation of the owner; none of them touches \<open>updater_running\<close>. A
  round that fails, or panics, ends the thread and releases the updater; it does not reset
  \<open>updater_running\<close>.
\<close>

inductive updater_step :: "owner_env \<Rightarrow> updater_label \<Rightarrow> updater_state \<Rightarrow> updater_state \<Rightarrow> bool" for V where
  start: "updater_step V (Start km) s (start_updater km s)"
| enter: "us_holder s = None \<Longrightarrow> us_waiting s = km # kms \<Longrightarrow>
    updater_step V Enter s (set_running True (s\<lparr>us_waiting := kms, us_holder := Some (km, Working)\<rparr>))"
| round: "us_holder s = Some (km, Working) \<Longrightarrow> updater_round V km (us_owner s) = (Inr b, ow) \<Longrightarrow>
    updater_step V Round s (s\<lparr>us_owner := ow, us_holder := after_round km ow\<rparr>)"
| failed: "us_holder s = Some (km, Working) \<Longrightarrow> updater_round V km (us_owner s) = (Inl e, ow) \<Longrightarrow>
    updater_step V Failed s (s\<lparr>us_owner := ow, us_holder := None\<rparr>)"
| wake: "us_holder s = Some (km, Sleeping) \<Longrightarrow>
    updater_step V Wake s (s\<lparr>us_holder := Some (km, Working)\<rparr>)"
| stop: "updater_step V Stop s (stop_updater s)"
| call: "ow_updater_running ow = ow_updater_running (us_owner s) \<Longrightarrow> updater_step V Call s (s\<lparr>us_owner := ow\<rparr>)"

inductive_cases updater_stepE: "updater_step V l s t"

text \<open>A run with its labels.\<close>

inductive updater_run :: "owner_env \<Rightarrow> updater_label list \<Rightarrow> updater_state \<Rightarrow> updater_state \<Rightarrow> bool" for V where
  nil: "updater_run V [] s s"
| cons: "updater_step V l s t \<Longrightarrow> updater_run V ls t u \<Longrightarrow> updater_run V (l # ls) s u"

inductive_simps updater_run_simps: "updater_run V [] s t" "updater_run V (l # ls) s t"

definition updater_new :: "owner_state \<Rightarrow> updater_state" where
  "updater_new ow = set_running False \<lparr>us_owner = ow, us_waiting = [], us_holder = None\<rparr>"

end
