(* ===== verification/OwnerInv.thy ===== *)
theory OwnerInv
  imports WalletInv UpdaterThread ForeignApi
begin

text \<open>
  The invariants of \<open>WalletInv\<close> carried to everything that uses an open wallet: the owner's
  interface, the thread that updates it, other wallets' calls, the listeners of the relay and of
  keybase. The clients of the locale \<open>batch_invariant\<close> are proved here once for any invariant.
\<close>

section \<open>A provider that serves its wallet\<close>

text \<open>The open wallet, if any, satisfies \<open>I\<close>; which one it is and the closed databases are fixed.\<close>

definition serving :: "(wallet \<Rightarrow> bool) \<Rightarrow> (string \<Rightarrow> rows) \<Rightarrow> string option \<Rightarrow> provider \<Rightarrow> bool" where
  "serving I dbs b p \<longleftrightarrow> lc_dbs p = dbs \<and> map_option fst (lc_backend p) = b \<and> (\<forall>dir w. lc_backend p = Some (dir, w) \<longrightarrow> I w)"

lemma keeps_with_wallet: "keeps I m \<Longrightarrow> keeps (serving I dbs b) (with_wallet m)"
  by (auto simp: keeps_def serving_def with_wallet_def split: option.splits prod.splits)

definition at_owner :: "(provider \<Rightarrow> bool) \<Rightarrow> owner_state \<Rightarrow> bool" where
  "at_owner J s \<longleftrightarrow> J (ow_provider s)"

definition at_epicbox :: "(provider \<Rightarrow> bool) \<Rightarrow> epicbox_state \<Rightarrow> bool" where
  "at_epicbox J s \<longleftrightarrow> J (bx_provider s)"

definition at_keybase :: "(provider \<Rightarrow> bool) \<Rightarrow> kb_world \<Rightarrow> bool" where
  "at_keybase J s \<longleftrightarrow> J (kb_provider s)"

lemmas at_defs = at_owner_def at_epicbox_def at_keybase_def

lemma keeps_on_provider: "keeps J m \<Longrightarrow> keeps (at_owner J) (on_provider m)"
  by (auto simp: keeps_def at_defs on_provider_def split: prod.split)

lemma keeps_on_epicbox: "keeps (at_epicbox J) m \<Longrightarrow> keeps (at_owner J) (on_epicbox V m)"
  by (auto simp: keeps_def at_defs on_epicbox_def split: prod.split)
    (metis epicbox_state.select_convs(1) snd_conv)

lemma keeps_on_keybase: "keeps (at_keybase J) m \<Longrightarrow> keeps (at_owner J) (on_keybase m)"
  by (auto simp: keeps_def at_defs on_keybase_def split: prod.split)
    (metis kb_world.select_convs(2) snd_conv)

lemma keeps_network [keeps_intros]: "keeps (at_owner J) (network a r)"
  unfolding network_def by (intro keeps_intros) (simp add: at_defs)

lemma looked_at_state: "snd (looked_at m s) = snd (m s)"
proof (cases "m s")
  case (Pair r t)
  show ?thesis
  proof (cases r)
    case (Inl e)
    then show ?thesis using Pair by (cases e) (simp_all add: looked_at_def)
  qed (simp add: Pair looked_at_def)
qed

lemma keeps_looked_at [keeps_intros]: "keeps I m \<Longrightarrow> keeps I (looked_at m)"
  by (simp add: keeps_def looked_at_state)

lemma keeps_outcome_of [keeps_intros]: "keeps I m \<Longrightarrow> keeps I (outcome m)"
  by (auto simp: keeps_def outcome_def split: prod.split sum.split)

text \<open>Keybase without a wallet.\<close>

lemma keeps_kb_command: "keeps (at_keybase J) (kb_command X args)"
  unfolding kb_command_def by (intro keeps_intros) (simp add: at_defs)

lemma keeps_said_sent: "keeps (at_keybase J) (said_sent X p)" "keeps (at_keybase J) (kb_send X m c t d)"
    "keeps (at_keybase J) (kb_notify X n c d)" "keeps (at_keybase J) (read_from_channel X c t)"
    "keeps (at_keybase J) (whoami X)"
  unfolding said_sent_def kb_send_def kb_notify_def read_from_channel_def whoami_def kb_payload_def api_send_def Let_def
  by (intro keeps_intros keeps_kb_command)+

lemma keeps_keybase_send: "keeps (at_keybase J) (keybase_send_tx X c s)"
proof -
  have "keeps (at_keybase J) (kb_poll_loop f X n c k)" for f n k
  proof (induction f arbitrary: k)
    case (Suc f)
    show ?case unfolding kb_poll_loop.simps by (intro keeps_intros keeps_said_sent Suc)
  qed (simp add: keeps_throw)
  then show ?thesis
    unfolding keybase_send_tx_def kb_poll_def by (intro keeps_intros keeps_said_sent)
qed

lemma keeps_get_unread: "keeps (at_keybase J) (get_unread X t)"
proof -
  have "keeps (at_keybase J) (read_channels X t cs us)" for cs us
  proof (induction cs arbitrary: us)
    case (Cons c cs)
    show ?case unfolding read_channels.simps by (intro keeps_intros keeps_said_sent Cons)
  qed (unfold read_channels.simps, intro keeps_intros)
  then show ?thesis
    unfolding get_unread_def kb_payload_def api_send_def by (intro keeps_intros keeps_kb_command)
qed

lemma keeps_notify: "keeps (at_keybase J) (notify_on_receive X t c u)"
  unfolding notify_on_receive_def by (intro keeps_intros keeps_said_sent)

text \<open>The relay without a wallet.\<close>

lemma keeps_act: "keeps (at_epicbox J) (act a)" "keeps (at_epicbox J) (ws_write X a)" "keeps (at_epicbox J) (broker_stop X)"
  unfolding act_def ws_write_def broker_stop_def by (intro keeps_intros; simp add: at_defs)+

lemma keeps_post_slate: "keeps (at_epicbox J) (publisher_post_slate C X p s to cl)" "keeps (at_epicbox J) (publish C X p s t)"
  unfolding publish_def publisher_post_slate_def broker_post_slate_def Let_def by (intro keeps_intros keeps_act)+

lemma keeps_post_finalized: "keeps (at_epicbox J) (post_finalized E X tc as tx)"
  unfolding post_finalized_def node_post_tx_act_def tor_post_tx_act_def by (intro keeps_intros keeps_act)

lemma keeps_epicbox_requests: "keeps (at_epicbox J) (made_send C X a k i)" "keeps (at_epicbox J) (on_challenge C X me ch)"
  unfolding made_send_def on_challenge_def client_details_def by (intro keeps_intros keeps_act; simp add: at_defs)+


section \<open>Everything that uses the wallet\<close>

context batch_invariant
begin

lemma serving_wallet: "keeps I m \<Longrightarrow> keeps (at_owner (serving I dbs b)) (use_wallet m)"
  unfolding use_wallet_def by (intro keeps_on_provider keeps_with_wallet)

lemma serving_test_mask: "keeps I m \<Longrightarrow> keeps I (test_mask V km m)"
  unfolding test_mask_def by (intro keeps_intros)

lemma serving_on_wallet: "keeps I m \<Longrightarrow> keeps (at_epicbox (serving I dbs b)) (on_wallet m)"
  using keeps_with_wallet[of I m dbs b]
  by (auto simp: keeps_def at_defs on_wallet_def split: prod.split)

lemma serving_kb_wallet: "keeps I m \<Longrightarrow> keeps (at_keybase (serving I dbs b)) (kb_wallet m)"
  using keeps_with_wallet[of I m dbs b]
  by (auto simp: keeps_def at_defs kb_wallet_def split: prod.split)

lemma inv_epicbox_address: "keeps I (wallet_epicbox_address E C km config)" "keeps I (get_public_address E C km config ix)"
  unfolding wallet_epicbox_address_def get_public_address_def by (intro keeps_intros)+

lemma serving_channel_send: "keeps (at_epicbox (serving I dbs b)) (channel_send E C X d c km s)"
  unfolding channel_send_def start_epicbox_def Let_def
  by (intro keeps_intros serving_on_wallet inv_epicbox_address keeps_post_slate)

lemma serving_on_slate: "keeps (at_epicbox (serving I dbs b)) (on_slate E C X km tc me from vs)"
  unfolding EpicboxClient.on_slate_def process_incoming_slate_def Let_def
  by (intro keeps_intros serving_on_wallet inv_receive inv_finalize inv_mempool inv_stored keeps_post_slate keeps_post_finalized)

lemma serving_on_slate_response: "keeps (at_epicbox (serving I dbs b)) (on_slate_response E C X km tc me f s g i)"
proof (cases "proof_from_response C (xe_read_message X) (xe_read_slate X) f s g (ep_secret_key me) (Some (ep_address me))")
  case (Inl e)
  then show ?thesis by (cases e) (simp_all add: on_slate_response_def keeps_intros)
next
  case (Inr r)
  then show ?thesis
    unfolding on_slate_response_def
    by (auto intro!: keeps_intros serving_on_slate keeps_act keeps_epicbox_requests split: prod.split)
qed

lemma serving_on_event: "keeps (at_epicbox (serving I dbs b)) (on_event E C X km tc me e)"
proof -
  have "keeps (at_epicbox (serving I dbs b)) (on_response E C X km tc me r)" for r
    by (cases r) (auto simp: on_response_def intro!: keeps_intros keeps_epicbox_requests serving_on_slate_response)
  then have "keeps (at_epicbox (serving I dbs b)) (on_event E C X km tc me (ReadMessage m))" for m
    by (cases m) (auto simp: on_event_def at_defs intro!: keeps_intros keeps_act split: option.split)
  then show ?thesis
    by (cases e) (auto simp: on_event_def at_defs intro!: keeps_intros keeps_act)
qed

lemma serving_listen: "keeps (at_epicbox (serving I dbs b)) (epicbox_listen E C X km config tc events)"
proof -
  have "keeps (at_epicbox (serving I dbs b)) (subscribe E C X km tc me es)" for me es
  proof (induction es)
    case (Cons e es)
    show ?case unfolding subscribe.simps by (intro keeps_intros serving_on_event Cons)
  qed (unfold subscribe.simps, intro keeps_intros)
  then show ?thesis
    unfolding epicbox_listen_def
    by (auto simp: at_defs intro!: keeps_intros serving_on_wallet inv_epicbox_address split: option.split prod.split)
qed

lemma serving_kb_message: "keeps (at_keybase (serving I dbs b)) (kb_on_message E X km config u)"
proof (cases u)
  case (Pair msg channel)
  show ?thesis
  proof (cases "deserialize_upgrade (sx_codec X) msg")
    case (Inl e)
    then show ?thesis using Pair by (cases e) (simp_all add: kb_on_message_def keeps_intros)
  next
    case (Inr s)
    then show ?thesis
      using Pair by (auto simp: kb_on_message_def
          intro!: keeps_intros keeps_said_sent keeps_notify serving_kb_wallet inv_receive)
  qed
qed

lemma serving_kb_listen: "keeps (at_keybase (serving I dbs b)) (keybase_listen E X km config rounds)"
proof -
  have "keeps (at_keybase (serving I dbs b)) (kb_rounds E X km config rounds)"
  proof (induction rounds)
    case (Cons r rounds)
    show ?case unfolding kb_rounds.simps by (intro keeps_intros keeps_get_unread serving_kb_message Cons)
  qed (unfold kb_rounds.simps, intro keeps_intros)
  then show ?thesis
    unfolding keybase_listen_def by (intro keeps_intros serving_kb_wallet)
qed

text \<open>Other wallets.\<close>

lemma serving_rpc_answer: "keeps J m \<Longrightarrow> keeps J (rpc_answer X i f m)"
proof (rule keepsI)
  fix s assume a: "keeps J m" "J s"
  obtain r t where m: "m s = (r, t)" by fastforce
  then have "J t" using a by (rule_tac keepsE)
  then show "J (snd (rpc_answer X i f m s))"
  proof (cases r)
    case (Inl e)
    then show ?thesis using m \<open>J t\<close> by (cases e) (simp_all add: rpc_answer_def)
  qed (simp add: m rpc_answer_def)
qed

lemma serving_foreign:
  "keeps (serving I dbs b) (foreign_check_version A)" "keeps (serving I dbs b) (foreign_verify_slate_messages E A s)"
  "keeps (serving I dbs b) (foreign_build_coinbase E A bf)" "keeps (serving I dbs b) (foreign_build_foundation E A bf)"
  "keeps (serving I dbs b) (foreign_receive_tx E A s d m a)" "keeps (serving I dbs b) (foreign_finalize_invoice_tx E A s)"
  unfolding foreign_check_version_def foreign_verify_slate_messages_def foreign_build_coinbase_def
    foreign_build_foundation_def foreign_receive_tx_def foreign_finalize_invoice_tx_def
  by (intro keeps_intros keeps_with_wallet inv_reward inv_receive inv_invoices)+

lemma serving_foreign_post: "keeps (serving I dbs b) (foreign_post E X synced km v body)"
proof -
  have "keeps (serving I dbs b) (foreign_handle_request E X A val)" for A val
    unfolding foreign_handle_request_def rpc_build_coinbase_def rpc_build_foundation_def rpc_verify_slate_messages_def
      rpc_receive_tx_def rpc_finalize_invoice_tx_def Let_def
    by (auto intro!: keeps_intros serving_rpc_answer serving_foreign split: sum.split prod.split foreign_call.split)
  then show ?thesis
    unfolding foreign_post_def foreign_call_api_def by (intro keeps_intros)
qed

text \<open>The owner.\<close>

lemma serving_api_queries:
  assumes "oe_E V = E"
  shows "keeps (at_owner (serving I dbs b)) (api_accounts V km)"
    "keeps (at_owner (serving I dbs b)) (api_create_account_path V km l)"
    "keeps (at_owner (serving I dbs b)) (api_set_active_account V km l)"
    "keeps (at_owner (serving I dbs b)) (api_retrieve_outputs V km u r h t li off so)"
    "keeps (at_owner (serving I dbs b)) (api_retrieve_txs V km r t us li off so)"
    "keeps (at_owner (serving I dbs b)) (api_retrieve_summary_info V km r n)"
    "keeps (at_owner (serving I dbs b)) (api_get_stored_tx V km e)"
    "keeps (at_owner (serving I dbs b)) (api_verify_slate_messages V km s)"
    "keeps (at_owner (serving I dbs b)) (api_node_height V km)"
    "keeps (at_owner (serving I dbs b)) (api_get_public_address V km ix)"
    "keeps (at_owner (serving I dbs b)) (api_get_public_proof_address V km ix)"
    "keeps (at_owner (serving I dbs b)) (api_retrieve_payment_proof V km r t us)"
    "keeps (at_owner (serving I dbs b)) (api_verify_payment_proof V km p)"
  unfolding api_accounts_def api_create_account_path_def api_set_active_account_def api_retrieve_outputs_def
    api_retrieve_txs_def api_retrieve_summary_info_def api_get_stored_tx_def api_verify_slate_messages_def
    api_node_height_def api_get_public_address_def api_get_public_proof_address_def api_retrieve_payment_proof_def
    api_verify_payment_proof_def refresh_wanted_def assms
  by (intro keeps_intros serving_wallet serving_test_mask inv_accounts inv_queries inv_epicbox_address
      inv_proofs inv_verify)+

lemma serving_api_steps:
  assumes "oe_E V = E"
  shows "keeps (at_owner (serving I dbs b)) (api_tx_lock_outputs V km s p a)"
    "keeps (at_owner (serving I dbs b)) (api_finalize_tx V km s)"
    "keeps (at_owner (serving I dbs b)) (api_post_tx V km tx f)"
    "keeps (at_owner (serving I dbs b)) (api_post_tx_tor V km tx url)"
    "keeps (at_owner (serving I dbs b)) (api_issue_invoice_tx V km iargs)"
    "keeps (at_owner (serving I dbs b)) (api_process_invoice_tx V km s args)"
    "keeps (at_owner (serving I dbs b)) (api_cancel_tx V km t us)"
    "keeps (at_owner (serving I dbs b)) (api_scan V km h d)"
    "keeps (at_owner (serving I dbs b)) (api_update_mempool_status V km s)"
    "keeps (at_owner (serving I dbs b)) (api_wait_for_tx_in_mempool V km uid n)"
    "keeps (at_owner (serving I dbs b)) (updater_round V km)"
  unfolding api_tx_lock_outputs_def api_finalize_tx_def api_post_tx_def api_post_tx_tor_def api_issue_invoice_tx_def
    api_process_invoice_tx_def api_cancel_tx_def api_scan_def api_update_mempool_status_def
    api_wait_for_tx_in_mempool_def updater_round_def assms
  by (intro keeps_intros serving_wallet serving_test_mask inv_tx_lock inv_finalize inv_invoices
      inv_owner inv_stored inv_mempool inv_update)+

lemma serving_api_send:
  assumes "oe_E V = E"
  shows "keeps (at_owner (serving I dbs b)) (api_init_send_tx V km args synced)"
proof -
  have "keeps (at_owner (serving I dbs b)) (sender_send_tx V synced sender s)" for sender s
    by (cases sender) (auto simp: sender_send_tx_def intro!: keeps_intros keeps_on_keybase keeps_keybase_send)
  then show ?thesis
    unfolding api_init_send_tx_def send_over_epicbox_def send_over_sender_def assms
    by (intro keeps_intros serving_wallet inv_init_send serving_api_steps[OF assms] keeps_on_epicbox serving_channel_send)
qed

end

end
