(* ===== verification/KeybaseProps.thy ===== *)
theory KeybaseProps
  imports Keybase
begin

text \<open>
  The wait for an answer over keybase ends, after at most as many questions as it has seconds,
  and takes the first slate there is for the answer.
\<close>

section \<open>Calls\<close>

text \<open>A call is noted once, and its outcome does not depend on the wallet.\<close>

lemma kb_command_notes: "kb_calls (snd (kb_command X args s)) = kb_calls s @ [args]"
  by (auto simp: kb_command_def bindE_app split: option.splits prod.splits sum.splits)

lemma kb_command_fails:
  "fst (kb_command X args s) = Inl e \<Longrightarrow> e = GenericError ''keybase api fail'' \<or> (\<exists>p. e = Panic p)"
  by (auto simp: kb_command_def bindE_app or_err_def split: option.splits prod.splits sum.splits if_splits)

lemma looked_at_app:
  "looked_at m s = (case fst (m s) of
      Inl (Panic p) \<Rightarrow> (Inl (Panic p), snd (m s)) | Inl Diverges \<Rightarrow> (Inl Diverges, snd (m s)) | r \<Rightarrow> (Inr r, snd (m s)))"
  by (auto simp: looked_at_def split: prod.splits sum.splits error.splits)

lemma read_from_channel_notes:
  "length (kb_calls (snd (read_from_channel X channel topic s))) \<le> length (kb_calls s) + 1"
  by (auto simp: read_from_channel_def kb_payload_def or_err_def bindE_app api_send_def looked_at_app kb_command_notes
      split: option.splits prod.splits sum.splits error.splits)

lemma read_from_channel_returns: "fst (read_from_channel X channel topic s) \<noteq> Inl Diverges"
  using kb_command_fails[of X _ s Diverges]
  by (auto simp: read_from_channel_def kb_payload_def or_err_def bindE_app api_send_def looked_at_app
      split: option.splits prod.splits sum.splits error.splits)

lemma first_slate_returns: "first_slate J msgs \<noteq> Inl Diverges"
  by (induction msgs) (auto split: sum.splits error.splits)

section \<open>Waiting\<close>

lemma poll_loop_returns:
  assumes "\<And>k. k \<le> kb_elapsed X k"
  shows "n < k + fuel \<Longrightarrow> k \<le> n \<Longrightarrow> fst (kb_poll_loop fuel X n channel k s) \<noteq> Inl Diverges \<and>
    length (kb_calls (snd (kb_poll_loop fuel X n channel k s))) \<le> length (kb_calls s) + (n - k)"
proof (induction fuel arbitrary: k s)
  case 0
  then show ?case by simp
next
  case (Suc fuel)
  show ?case
  proof (cases "kb_elapsed X k < n")
    case True
    then have k: "k < n" using assms[of k] by simp
    obtain r s1 where read: "read_from_channel X channel SLATE_SIGNED s = (r, s1)" by fastforce
    have once: "length (kb_calls s1) \<le> length (kb_calls s) + 1" and r: "r \<noteq> Inl Diverges"
      using read_from_channel_notes[of X channel SLATE_SIGNED s] read_from_channel_returns[of X channel SLATE_SIGNED s] read
      by simp_all
    have next_round: "fst (kb_poll_loop fuel X n channel (k + 1) s1) \<noteq> Inl Diverges \<and>
        length (kb_calls (snd (kb_poll_loop fuel X n channel (k + 1) s1))) \<le> length (kb_calls s1) + (n - (k + 1))"
      by (rule Suc.IH) (use Suc.prems k in simp_all)
    show ?thesis
      using True k once r next_round first_slate_returns[of "sx_codec X"]
      by (auto simp: bindE_app looked_at_app read split: sum.splits error.splits option.splits)
  qed simp
qed

text \<open>The wait for an answer over keybase returns, whatever the program answers, and asks for messages
  at most once for each second it waits: the clock is read between rounds that sleep a second.\<close>

theorem keybase_poll_ends:
  assumes "\<And>k. k \<le> kb_elapsed X k"
  shows "fst (kb_poll X n channel s) \<noteq> Inl Diverges \<and>
    length (kb_calls (snd (kb_poll X n channel s))) \<le> length (kb_calls s) + n"
  using poll_loop_returns[OF assms, where n = n and k = 0 and fuel = "n + 1"] by (simp add: kb_poll_def)

definition silent_keybase :: kb_ext where
  "silent_keybase = \<lparr>json_to_string = (\<lambda>_. Some []), json_of_string = (\<lambda>_. Some JNull), json_display = (\<lambda>_. []),
     socks_proxy_addr = None, http_proxy = (\<lambda>_. None), http_builder = None, http_exchange = (\<lambda>_ _ _. Inl []),
     to_base64 = (\<lambda>s. s), response_of_json = (\<lambda>_. None), sx_slate = (\<lambda>_. JNull), sx_codec = undefined,
     sx_which_runs = True, kb_output = (\<lambda>_ _. Some (True, [])), kb_elapsed = (\<lambda>k. k), kb_hash_order = (\<lambda>xs. xs)\<rparr>"

theorem keybase_poll_ends_witness:
  "fst (kb_poll silent_keybase 2 ''bob'' \<lparr>kb_calls = [], kb_provider = provider_new \<lparr>dk_files = [], dk_dirs = []\<rparr> (\<lambda>_. []) (\<lambda>_ _. None)\<rparr>) \<noteq> Inl Diverges"
  using keybase_poll_ends[of silent_keybase 2 "''bob''"] by (simp add: silent_keybase_def)

text \<open>
  A message that was sent is answered by the first slate the other side left on the channel,
  whether or not it is the slate that was sent.
\<close>

lemma keybase_takes_any_slate:
  assumes "kb_send X slate channel SLATE_NEW TTL s = (Inr True, s1)" "kb_elapsed X 0 < unat TTL"
    and "read_from_channel X channel SLATE_SIGNED s1 = (Inr (msg # msgs), s2)"
    and "deserialize_upgrade (sx_codec X) msg = Inr other"
  shows "keybase_send_tx X channel slate s = (Inr other, s2)"
  using assms by (simp add: keybase_send_tx_def kb_poll_def looked_at_app)

end
