(* ===== verification/OwnerProps.thy ===== *)
theory OwnerProps
  imports OwnerInv BackendProps LifecycleProps KeybaseProps
begin

text \<open>
  What holds of the wallet whatever is called and in whatever order: by its owner, by other
  wallets, by the relay and by the thread that updates it.
\<close>

section \<open>Calls\<close>

text \<open>One use of the open wallet. The state after a call is the same whether it succeeds or fails.\<close>

inductive wallet_call :: "owner_env \<Rightarrow> owner_state \<Rightarrow> owner_state \<Rightarrow> bool" for V where
  accounts: "wallet_call V s (snd (api_accounts V km s))"
| create_account: "wallet_call V s (snd (api_create_account_path V km label s))"
| set_account: "wallet_call V s (snd (api_set_active_account V km label s))"
| outputs: "wallet_call V s (snd (api_retrieve_outputs V km spent refresh history tx_id limit offset order s))"
| txs: "wallet_call V s (snd (api_retrieve_txs V km refresh tx_id u limit offset order s))"
| summary: "wallet_call V s (snd (api_retrieve_summary_info V km refresh n s))"
| init_send: "wallet_call V s (snd (api_init_send_tx V km args synced s))"
| issue_invoice: "wallet_call V s (snd (api_issue_invoice_tx V km iargs s))"
| process_invoice: "wallet_call V s (snd (api_process_invoice_tx V km slate args s))"
| lock_outputs: "wallet_call V s (snd (api_tx_lock_outputs V km slate participant addr s))"
| finalize: "wallet_call V s (snd (api_finalize_tx V km slate s))"
| post: "wallet_call V s (snd (api_post_tx V km tx fluff s))"
| post_tor: "wallet_call V s (snd (api_post_tx_tor V km tx url s))"
| cancel: "wallet_call V s (snd (api_cancel_tx V km tx_id u s))"
| stored: "wallet_call V s (snd (api_get_stored_tx V km entry s))"
| messages: "wallet_call V s (snd (api_verify_slate_messages V km slate s))"
| scan: "wallet_call V s (snd (api_scan V km start delete_unconfirmed s))"
| height: "wallet_call V s (snd (api_node_height V km s))"
| address: "wallet_call V s (snd (api_get_public_address V km ix s))"
| proof_address: "wallet_call V s (snd (api_get_public_proof_address V km ix s))"
| payment_proof: "wallet_call V s (snd (api_retrieve_payment_proof V km refresh tx_id u s))"
| verify_proof: "wallet_call V s (snd (api_verify_payment_proof V km pp s))"
| mempool_status: "wallet_call V s (snd (api_update_mempool_status V km slate s))"
| mempool_wait: "wallet_call V s (snd (api_wait_for_tx_in_mempool V km uid attempts s))"
| update: "wallet_call V s (snd (updater_round V km s))"
| other_wallet: "wallet_call V s (snd (on_provider (foreign_post (oe_E V) (X :: foreign_ext) synced km v body) s))"
| relay: "wallet_call V s (snd (on_epicbox V (epicbox_listen (oe_E V) (oe_C V) (oe_X V) km config tc events) s))"
| keybase: "wallet_call V s (snd (on_keybase (keybase_listen (oe_E V) (oe_K V) km wconfig rounds) s))"

context batch_invariant
begin

lemma calls_keep:
  assumes "(wallet_call V)\<^sup>*\<^sup>* s t" "oe_E V = E" "at_owner (serving I dbs b) s"
  shows "at_owner (serving I dbs b) t"
  using assms(1,3)
proof (induction rule: rtranclp_induct)
  case (step t u)
  then have t: "at_owner (serving I dbs b) t" by blast
  note K = serving_api_queries[OF assms(2)] serving_api_steps[OF assms(2)] serving_api_send[OF assms(2)]
    keeps_on_provider[OF serving_foreign_post] keeps_on_epicbox[OF serving_listen] keeps_on_keybase[OF serving_kb_listen]
  note K' = K[unfolded keeps_def, rule_format, OF t]
  from step.hyps(2) show ?case by (cases rule: wallet_call.cases) (simp_all only: assms(2) K')
qed

end

section \<open>The wallet while it is open\<close>

lemma calls_on_open:
  assumes "batch_invariant (oe_E V) I" "(wallet_call V)\<^sup>*\<^sup>* s t" "lc_backend (ow_provider s) = Some (dir, w)" "I w"
  shows "\<exists>w'. lc_backend (ow_provider t) = Some (dir, w') \<and> I w'"
  using batch_invariant.calls_keep[OF assms(1,2) refl, of "lc_dbs (ow_provider s)" "Some dir"] assms(3,4)
  by (auto simp: at_owner_def serving_def)


text \<open>A relay that says nothing, and an environment for the witnesses.\<close>

definition quiet_box :: epicbox_ext where
  "quiet_box = \<lparr>xe_read_message = (\<lambda>_. None), xe_read_slate = (\<lambda>_. None), xe_write_message = (\<lambda>_. []),
     xe_write_slate = (\<lambda>_. []), xe_read_response = (\<lambda>_. None), ws_connect = (\<lambda>_. None), ws_send = (\<lambda>_. None),
     ws_close = (\<lambda>_. None), done_alive = True, xe_get_onion_addresses = Inr [], xe_shuffle = (\<lambda>xs. xs),
     xe_post_tx_tor = (\<lambda>_ _. Inr ()), xe_mempool = [], xe_error_debug = (\<lambda>_. []), pkg_version = ''3''\<rparr>"

definition sample_env :: owner_env where
  "sample_env = \<lparr>oe_E = the_ext, oe_C = sample_crypto, oe_S = sample_seed, oe_X = quiet_box, oe_K = silent_keybase\<rparr>"

definition serving_provider :: provider where
  "serving_provider = \<lparr>lc_disk = \<lparr>dk_files = [], dk_dirs = []\<rparr>, lc_dbs = (\<lambda>_. []), lc_stored_txs = (\<lambda>_. Map.empty),
     lc_data_dir = [], lc_backend = Some ([], the_wallet)\<rparr>"

lemma serving_is: "lc_backend (ow_provider (owner_new serving_provider True)) = Some ([], the_wallet)"
  "oe_E sample_env = the_ext"
  by (simp_all add: owner_new_def serving_provider_def sample_env_def)


section \<open>Opening, creating and closing\<close>

definition provider_typed :: "ext \<Rightarrow> provider \<Rightarrow> bool" where
  "provider_typed E p \<longleftrightarrow> (\<forall>dir. db_ok E (lc_dbs p dir)) \<and> (\<forall>dir w. lc_backend p = Some (dir, w) \<longrightarrow> wallet_ok E w)"

lemma provider_typed_rows: "provider_typed E p \<Longrightarrow> db_ok E (rows_of dir p)"
  by (auto simp: provider_typed_def rows_of_def wallet_ok_def split: option.split)

lemma provider_typed_set_rows: "provider_typed E p \<Longrightarrow> db_ok E rs \<Longrightarrow> provider_typed E (set_rows dir rs p)"
  by (auto simp: provider_typed_def set_rows_def wallet_ok_def)

lemma keeps_on_disk [keeps_intros]: "keeps (provider_typed E) (on_disk f m)"
  by (auto simp: keeps_def provider_typed_def on_disk_def split: prod.split)

lemma backend_new_rows:
  assumes "keys_ok E" "db_ok E rs"
  shows "db_ok E (snd (backend_new E files rs)) \<and>
    (\<forall>w. fst (backend_new E files rs) = Inr w \<longrightarrow> wallet_ok E w)"
proof -
  have "entry_ok E (acct_key E (ap_label (default_account E))) (SAcctPathMapping (default_account E))"
    by (rule entry_ok_simps(8)[OF assms(1)])
  then show ?thesis
    using assms(2)
    by (cases rule: put_cases[of E "acct_key E (ap_label (default_account E))" "SAcctPathMapping (default_account E)" rs])
       (auto simp: backend_new_def put_ser_def wallet_ok_def db_ok_row_put)
qed

text \<open>What follows the opening of a backend, or a step on one, may rely on its rows.\<close>

lemma typed_open_backend:
  assumes "keys_ok E" "\<And>w. wallet_ok E w \<Longrightarrow> keeps (provider_typed E) (f w)"
  shows "keeps (provider_typed E) (bindE (open_backend E err dir) f)"
proof (rule keepsI)
  fix p assume p: "provider_typed E p"
  obtain r rs where new: "backend_new E (lc_stored_txs p dir) (rows_of dir p) = (r, rs)" by fastforce
  have rs: "db_ok E rs" "\<And>w. r = Inr w \<Longrightarrow> wallet_ok E w"
    using backend_new_rows[OF assms(1) provider_typed_rows[OF p], of "lc_stored_txs p dir" dir] new by auto
  show "provider_typed E (snd (bindE (open_backend E err dir) f p))"
  proof (cases r)
    case (Inl e)
    then show ?thesis
      using new provider_typed_set_rows[OF p rs(1)] by (cases e) (simp_all add: open_backend_def bindE_app)
  next
    case (Inr w)
    then show ?thesis
      using new keepsD[OF assms(2)[OF rs(2)[OF Inr]] provider_typed_set_rows[OF p rs(1)]]
      by (simp add: open_backend_def bindE_app)
  qed
qed

lemma typed_on_backend:
  assumes "wallet_ok E w" "keeps (wallet_ok E) m" "\<And>x w'. wallet_ok E w' \<Longrightarrow> keeps (provider_typed E) (f (x, w'))"
  shows "keeps (provider_typed E) (bindE (on_backend dir m w) f)"
proof (rule keepsI)
  fix p assume p: "provider_typed E p"
  obtain r w' where m: "m w = (r, w')" by fastforce
  have w': "wallet_ok E w'" using keepsE[OF assms(2,1) m] .
  then have "db_ok E (w_db w')" by (simp add: wallet_ok_def)
  note q = provider_typed_set_rows[OF p this]
  show "provider_typed E (snd (bindE (on_backend dir m w) f p))"
    using m keepsD[OF assms(3)[OF w'] q] q by (cases r) (simp_all add: on_backend_def bindE_app)
qed

lemma keeps_open_wallet: "keys_ok E \<Longrightarrow> keeps (provider_typed E) (open_wallet E C S pw create_mask rng)"
  unfolding open_wallet_def
  by (rule typed_open_backend typed_on_backend | simp only: prod.case | rule keeps_intros | assumption)+
    (auto simp: provider_typed_def intro: keeps_intros)

lemma keeps_create_wallet: "keys_ok E \<Longrightarrow> keeps (provider_typed E) (create_wallet E C S mn len pw t)"
  unfolding create_wallet_def
  apply (rule typed_open_backend typed_on_backend | rule keeps_intros | assumption)+
  subgoal for _ _ _ e by (cases e) (simp_all add: keeps_throw keeps_ret)
  by (rule typed_open_backend typed_on_backend | rule keeps_intros | assumption)+

lemma keeps_close_wallet: "keeps (provider_typed E) close_wallet"
proof (rule keepsI)
  fix p assume p: "provider_typed E p"
  show "provider_typed E (snd (close_wallet p))"
  proof (cases "lc_backend p")
    case (Some dw)
    then have "db_ok E (w_db (snd dw))" using p by (cases dw) (simp add: provider_typed_def wallet_ok_def)
    from provider_typed_set_rows[OF p this, of "fst dw"] show ?thesis
      using Some by (cases dw) (simp add: close_wallet_def provider_typed_def)
  qed (use p in \<open>simp add: close_wallet_def\<close>)
qed

lemma keeps_change_password: "keeps (provider_typed E) (change_password C S old new_pw b)"
  unfolding change_password_def
  apply (intro keeps_intros)
  subgoal for _ _ _ _ _ _ e by (cases e) (simp_all add: keeps_throw keeps_ret)
  done

lemma keeps_lifecycle:
  "keeps (provider_typed E) (get_mnemonic C S pw)" "keeps (provider_typed E) (recover_from_mnemonic C S mn pw)"
  "keeps (provider_typed E) (delete_wallet S)" "keeps (provider_typed E) (set_top_level_directory dir)"
  "keeps (provider_typed E) get_top_level_directory"
  unfolding get_mnemonic_def recover_from_mnemonic_def delete_wallet_def set_top_level_directory_def
    get_top_level_directory_def
  by ((intro keeps_intros)?; (simp add: provider_typed_def db_ok_def unique_keys_def)?)+

section \<open>The whole interface\<close>

inductive provider_call :: "owner_env \<Rightarrow> owner_state \<Rightarrow> owner_state \<Rightarrow> bool" for V where
  create: "provider_call V s (snd (api_create_wallet V name mnemonic len pw s))"
| opened: "provider_call V s (snd (api_open_wallet V name pw use_mask s))"
| closed: "provider_call V s (snd (api_close_wallet name s))"
| phrase: "provider_call V s (snd (api_get_mnemonic V name pw s))"
| password: "provider_call V s (snd (api_change_password V name old new_pw remove_backup s))"
| deletion: "provider_call V s (snd (api_delete_wallet V name s))"
| recovery: "provider_call V s (snd (on_provider (recover_from_mnemonic (oe_C V) (oe_S V) phrase pw) s))"
| directory: "provider_call V s (snd (api_set_top_level_directory dir s))"
| asked_directory: "provider_call V s (snd (api_get_top_level_directory s))"
| tor_config: "provider_call V s (snd (set_tor_config tc s))"
| epicbox_config: "provider_call V s (snd (set_epicbox_config ec s))"

lemma provider_call_typed:
  assumes "keys_ok (oe_E V)" "provider_call V s t" "at_owner (provider_typed (oe_E V)) s"
  shows "at_owner (provider_typed (oe_E V)) t"
proof -
  have K: "keeps (at_owner (provider_typed (oe_E V))) (api_create_wallet V name mn len pw)"
    "keeps (at_owner (provider_typed (oe_E V))) (api_open_wallet V name pw use_mask)"
    "keeps (at_owner (provider_typed (oe_E V))) (api_close_wallet name)"
    "keeps (at_owner (provider_typed (oe_E V))) (api_get_mnemonic V name pw)"
    "keeps (at_owner (provider_typed (oe_E V))) (api_change_password V name old new_pw rb)"
    "keeps (at_owner (provider_typed (oe_E V))) (api_delete_wallet V name)"
    "keeps (at_owner (provider_typed (oe_E V))) (on_provider (recover_from_mnemonic (oe_C V) (oe_S V) phrase pw))"
    "keeps (at_owner (provider_typed (oe_E V))) (api_set_top_level_directory dir)"
    "keeps (at_owner (provider_typed (oe_E V))) api_get_top_level_directory"
    "keeps (at_owner (provider_typed (oe_E V))) (set_tor_config tc)"
    "keeps (at_owner (provider_typed (oe_E V))) (set_epicbox_config ec)"
    for name mn len pw use_mask old new_pw rb phrase dir tc ec
    unfolding api_create_wallet_def api_open_wallet_def api_close_wallet_def api_get_mnemonic_def api_change_password_def
      api_delete_wallet_def api_set_top_level_directory_def api_get_top_level_directory_def set_tor_config_def
      set_epicbox_config_def
    by (intro keeps_intros keeps_on_provider keeps_create_wallet keeps_open_wallet keeps_close_wallet
        keeps_change_password keeps_lifecycle assms(1); simp add: at_defs)+
  show ?thesis
    using assms(2) by (cases rule: provider_call.cases) (simp_all only: K[unfolded keeps_def, rule_format, OF assms(3)])
qed

lemma wallet_call_typed:
  assumes "keys_ok (oe_E V)" "wallet_call V s t" "at_owner (provider_typed (oe_E V)) s"
  shows "at_owner (provider_typed (oe_E V)) t"
proof -
  have "at_owner (serving (well_typed (oe_E V)) (lc_dbs (ow_provider s)) (map_option fst (lc_backend (ow_provider s)))) s"
    using assms(3) by (auto simp: at_defs serving_def provider_typed_def well_typed_def)
  from typed.calls_keep[OF r_into_rtranclp[where r = "wallet_call V", OF assms(2)] refl this] show ?thesis
    using assms(1,3) by (auto simp: at_defs serving_def provider_typed_def well_typed_def)
qed

lemma found_output:
  assumes "keys_ok E" "wallet_ok E w"
  shows "fst (get_output E i m w) = Inl (not_found_key E i) \<or>
    (\<exists>out. fst (get_output E i m w) = Inr out \<and> od_key_id out = i \<and> od_mmr_index out = m \<and> out \<in> set (iter w))"
  using out_at_key[OF assms] by (cases "out_at E w (i, m)") (simp_all add: get_output_eq[OF assms] iter_lookup[OF assms])



end
