(* ===== verification/UpdaterProps.thy ===== *)
theory UpdaterProps
  imports UpdaterThread LifecycleProps KeybaseProps "HOL-Library.Sublist"
begin

text \<open>
  The messages of the updater reach their reader in order and are never repeated, and its queue is
  bounded; an updater that failed goes on counting as running.
\<close>

section \<open>The queue\<close>

lemma pop_excess_take: "pop_excess q = take MESSAGE_QUEUE_MAX_LEN q"
proof (induction q rule: pop_excess.induct)
  case (1 q)
  show ?case
  proof (cases "length q > MESSAGE_QUEUE_MAX_LEN")
    case True
    then have "pop_excess q = take MESSAGE_QUEUE_MAX_LEN (butlast q)"
      using 1 by (simp add: pop_excess.simps[of q])
    then show ?thesis using True by (simp add: take_butlast)
  qed (simp add: pop_excess.simps[of q])
qed

fun received_messages :: "queue_event list \<Rightarrow> StatusMessage list" where
  "received_messages [] = []"
| "received_messages (Received m # es) = m # received_messages es"
| "received_messages (Asked n # es) = received_messages es"

lemma asked_parts: "get_updater_messages n q = (ms, r) \<Longrightarrow> q = r @ ms"
  by (auto simp: get_updater_messages_def Let_def)

lemma run_queue_order:
  "run_queue es q = (answers, rest) \<Longrightarrow> length q \<le> MESSAGE_QUEUE_MAX_LEN \<Longrightarrow>
    length rest \<le> MESSAGE_QUEUE_MAX_LEN \<and>
    subseq (concat (map rev answers) @ rev rest) (rev q @ received_messages es) \<and>
    (length q + length (received_messages es) \<le> MESSAGE_QUEUE_MAX_LEN \<longrightarrow>
      concat (map rev answers) @ rev rest = rev q @ received_messages es)"
proof (induction es arbitrary: q answers)
  case (Cons e es)
  show ?case
  proof (cases e)
    case (Received m)
    let ?q = "receive_message m q"
    have q: "?q = take MESSAGE_QUEUE_MAX_LEN (m # q)" by (simp add: receive_message_def pop_excess_take)
    have IH: "length rest \<le> MESSAGE_QUEUE_MAX_LEN"
      "subseq (concat (map rev answers) @ rev rest) (rev ?q @ received_messages es)"
      "length ?q + length (received_messages es) \<le> MESSAGE_QUEUE_MAX_LEN \<Longrightarrow>
        concat (map rev answers) @ rev rest = rev ?q @ received_messages es"
      using Cons.IH[of ?q answers] Cons.prems(1) Received q by simp_all
    have "rev (m # q) = rev (drop MESSAGE_QUEUE_MAX_LEN (m # q)) @ rev ?q"
      unfolding q by (metis append_take_drop_id rev_append)
    then have "subseq (rev ?q) (rev (m # q))" by (metis list_emb_append2 subseq_order.order_refl)
    then have "subseq (rev ?q @ received_messages es) (rev (m # q) @ received_messages es)" by (simp only: subseq_append)
    then have "subseq (concat (map rev answers) @ rev rest) (rev q @ received_messages (e # es))"
      using subseq_order.order_trans[OF IH(2)] Received by simp
    moreover have "concat (map rev answers) @ rev rest = rev q @ received_messages (e # es)"
      if "length q + length (received_messages (e # es)) \<le> MESSAGE_QUEUE_MAX_LEN"
    proof -
      have "?q = m # q" using that q Received by simp
      then show ?thesis using IH(3) that Received by simp
    qed
    ultimately show ?thesis using IH(1) by blast
  next
    case (Asked n)
    obtain ms r where a: "get_updater_messages n q = (ms, r)" by fastforce
    then obtain as where as: "run_queue es r = (as, rest)" "answers = ms # as"
      using Cons.prems(1) Asked by (auto split: prod.splits)
    have q: "q = r @ ms" by (rule asked_parts[OF a])
    note IH = Cons.IH[OF as(1)]
    show ?thesis using IH Cons.prems(2) as(2) Asked unfolding q by (auto simp: subseq_append')
  qed
qed simp

text \<open>C35. The messages handed out over time, with those still waiting, are the received ones in the order
  they came, none twice. The queue never holds more than 10,000; none is lost unless more than
  that many came.\<close>

theorem updater_messages_in_order:
  assumes "run_queue es [] = (answers, rest)"
  shows "length rest \<le> 10000 \<and> subseq (concat (map rev answers) @ rev rest) (received_messages es) \<and>
    (length (received_messages es) \<le> 10000 \<longrightarrow> concat (map rev answers) @ rev rest = received_messages es)"
  using run_queue_order[OF assms] by (simp add: MESSAGE_QUEUE_MAX_LEN_def)

theorem updater_messages_in_order_witness:
  "run_queue [Received (UpdateWarning ''a''), Received (UpdateWarning ''b''), Asked 1] [] =
     ([[UpdateWarning ''a'']], [UpdateWarning ''b'']) \<and>
   concat (map rev [[UpdateWarning ''a'']]) @ rev [UpdateWarning ''b''] = [UpdateWarning ''a'', UpdateWarning ''b'']"
proof -
  have run: "run_queue [Received (UpdateWarning ''a''), Received (UpdateWarning ''b''), Asked 1] [] =
      ([[UpdateWarning ''a'']], [UpdateWarning ''b''])"
    by (simp add: receive_message_def pop_excess_take MESSAGE_QUEUE_MAX_LEN_def get_updater_messages_def)
  then show ?thesis using updater_messages_in_order[OF run] by simp
qed

section \<open>The thread\<close>

text \<open>While nobody stops it, an updater that was entered counts as running, and one that holds was entered.\<close>

lemma updater_step_running:
  assumes "updater_step V l s t" "l \<noteq> Stop" "us_holder s \<noteq> None \<Longrightarrow> ow_updater_running (us_owner s)"
    and round_keeps: "\<And>km ow. ow_updater_running (snd (updater_round V km ow)) = ow_updater_running ow"
  shows "(us_holder t \<noteq> None \<longrightarrow> ow_updater_running (us_owner t)) \<and>
    (ow_updater_running (us_owner s) \<longrightarrow> ow_updater_running (us_owner t))"
  using assms(1)
proof (cases rule: updater_step.cases)
  case (round km b ow)
  then show ?thesis using assms(3) round_keeps[of km "us_owner s"] by simp
next
  case (failed km e ow)
  then show ?thesis using round_keeps[of km "us_owner s"] by simp
qed (use assms in \<open>auto simp: start_updater_def set_running_def stop_updater_def\<close>)

lemma round_keeps_running: "ow_updater_running (snd (updater_round V km ow)) = ow_updater_running ow"
  by (simp add: updater_round_def use_wallet_def on_provider_def split: prod.split)

lemma updater_run_running:
  "updater_run V ls s t \<Longrightarrow> Stop \<notin> set ls \<Longrightarrow> (us_holder s \<noteq> None \<longrightarrow> ow_updater_running (us_owner s)) \<Longrightarrow>
    (us_holder t \<noteq> None \<longrightarrow> ow_updater_running (us_owner t)) \<and>
    (ow_updater_running (us_owner s) \<longrightarrow> ow_updater_running (us_owner t))"
proof (induction rule: updater_run.induct)
  case (cons l s t ls u)
  then show ?case
    using updater_step_running[OF cons.hyps(1) _ _ round_keeps_running] by auto
qed simp

lemma updater_run_append: "updater_run V (ls @ ls') s u \<longleftrightarrow> (\<exists>t. updater_run V ls s t \<and> updater_run V ls' t u)"
  by (induction ls arbitrary: s) (auto simp: updater_run_simps)


text \<open>A wallet that is not open makes the first round fail.\<close>

definition closed_owner :: owner_state where
  "closed_owner = owner_new (provider_new \<lparr>dk_files = [], dk_dirs = []\<rparr> (\<lambda>_. []) (\<lambda>_. Map.empty)) True"

lemma closed_round: "updater_round V km (closed_owner\<lparr>ow_updater_running := r\<rparr>) =
    (Inl (Lifecycle ''Wallet has not been opened''), closed_owner\<lparr>ow_updater_running := r\<rparr>)"
  by (simp add: updater_round_def use_wallet_def on_provider_def with_wallet_def closed_owner_def owner_new_def provider_new_def)


end
