(* ===== verification/Emoji.thy ===== *)
theory Emoji
  imports Adapters
begin

unbundle bit_operations_syntax

text \<open>
  A slate as a text of emojis, \<open>impls/src/adapters/emoji.rs\<close>: its JSON text is cut into groups of
  ten bits, each the number of one of 1024 emojis, and the first emoji says how many bits were added
  to fill the last group. The glyphs of \<open>EMOJI_MAP\<close> come from the crate \<open>emoji\<close> and are the argument
  \<open>glyphs\<close>. A bit vector is the list of its bits.
\<close>

section \<open>Bits\<close>

definition byte2bitvec :: "u8 \<Rightarrow> bool list" where
  "byte2bitvec byte = map (\<lambda>i. drop_bit 7 (push_bit i byte) = 1) [0..<8]"

definition bitvec2byte :: "bool list \<Rightarrow> u8" where
  "bitvec2byte bit_vec =
     of_nat (fst (fold (\<lambda>b (byte, exp). (byte + of_bool b * 2 ^ exp, exp + 1)) (rev bit_vec) (0 :: nat, 0 :: nat)))"

text \<open>The first group is the number of extra bits, which follow it.\<close>

definition set_extra_bits :: "nat \<Rightarrow> bool list" where
  "set_extra_bits data_len =
     (let extra_bits = of_nat (10 - (data_len * 8 mod 2 ^ 64) mod 10) :: u8;
          extra_bits_vec = byte2bitvec extra_bits
      in replicate 6 False @ drop 4 extra_bits_vec @ replicate (unat extra_bits) False)"

text \<open>\<open>BitField::load\<close> of a vector whose first bit is the lowest.\<close>

definition load_u16 :: "bool list \<Rightarrow> u16" where
  "load_u16 bv = horner_sum of_bool 2 bv"

function drain_tens :: "bool list \<Rightarrow> error + u16 list" where
  "drain_tens bitstream =
     (if bitstream = [] then Inr []
      else if length bitstream < 10 then Inl (Panic ''drain'')
      else and_then (drain_tens (drop 10 bitstream)) (\<lambda>idx.
           Inr (load_u16 (rev (replicate 6 False @ take 10 bitstream)) # idx)))"
  by pat_completeness auto
termination by (relation "measure length") auto

declare drain_tens.simps [simp del]

definition index_bits :: "u16 \<Rightarrow> bool list" where
  "index_bits idx = map (\<lambda>i. drop_bit 15 (push_bit (16 - i) idx) = 1) (rev [1..<11])"

section \<open>Glyphs\<close>

text \<open>The characters of a text in UTF-8: a byte that does not continue one, and those that do.\<close>

definition continues :: "char \<Rightarrow> bool" where
  "continues c \<longleftrightarrow> 0x80 \<le> (of_char c :: nat) \<and> (of_char c :: nat) < 0xC0"

function utf8_chars :: "string \<Rightarrow> string list" where
  "utf8_chars [] = []"
| "utf8_chars (c # cs) = (c # takeWhile continues cs) # utf8_chars (dropWhile continues cs)"
  by pat_completeness auto
termination by (relation "measure length") (auto simp: le_imp_less_Suc length_dropWhile_le)

text \<open>\<open>byte as char\<close>, pushed on a string: the character with that number.\<close>

definition push_byte_as_char :: "u8 \<Rightarrow> string" where
  "push_byte_as_char b =
     (if b < 0x80 then [char_of (unat b)]
      else [char_of (0xC0 + unat b div 64), char_of (0x80 + unat b mod 64)])"

fun translate2emoji :: "string list \<Rightarrow> u16 list \<Rightarrow> error + string" where
  "translate2emoji glyphs [] = Inr []"
| "translate2emoji glyphs (v # content) =
     (if unat v < length glyphs
      then and_then (translate2emoji glyphs content) (\<lambda>s. Inr (glyphs ! unat v @ s))
      else Inl (Panic ''index out of bounds''))"

definition glyph_position :: "string list \<Rightarrow> string \<Rightarrow> error + nat" where
  "glyph_position glyphs emoji =
     or_err (Panic ''Option::unwrap'') (find (\<lambda>i. glyphs ! i = emoji) [0..<length glyphs])"

fun glyph_bits :: "string list \<Rightarrow> string list \<Rightarrow> error + bool list" where
  "glyph_bits glyphs [] = Inr []"
| "glyph_bits glyphs (emoji # emojis) =
     and_then (glyph_position glyphs emoji) (\<lambda>idx.
     and_then (glyph_bits glyphs emojis) (\<lambda>bits. Inr (index_bits (of_nat idx) @ bits)))"

function read_chars :: "bool list \<Rightarrow> error + string" where
  "read_chars bits =
     (if bits = [] then Inr []
      else if length bits < 8 then Inl (Panic ''index out of bounds'')
      else and_then (read_chars (drop 8 bits)) (\<lambda>content.
           Inr (push_byte_as_char (bitvec2byte (take 8 bits)) @ content)))"
  by pat_completeness auto
termination by (relation "measure length") auto

declare read_chars.simps [simp del]

definition translate2string :: "string list \<Rightarrow> string \<Rightarrow> error + string" where
  "translate2string glyphs emoji_string =
     and_then (glyph_bits glyphs (utf8_chars emoji_string)) (\<lambda>bit_vec.
     case utf8_chars emoji_string of
       [] \<Rightarrow> Inl (Panic ''Option::unwrap'')
     | emoji # _ \<Rightarrow> and_then (glyph_position glyphs emoji) (\<lambda>num_extra_bits.
         read_chars (drop (10 + num_extra_bits) bit_vec)))"

section \<open>Slates\<close>

definition emoji_bits :: "string \<Rightarrow> bool list" where
  "emoji_bits slate_str =
     set_extra_bits (length slate_str) @ concat (map (\<lambda>c. byte2bitvec (of_char c)) slate_str)"

definition emoji_encode :: "json_codec \<Rightarrow> string list \<Rightarrow> Slate \<Rightarrow> error + string" where
  "emoji_encode J glyphs slate =
     and_then (drain_tens (emoji_bits (versioned_text J (file_version slate)))) (translate2emoji glyphs)"

definition emoji_decode :: "json_codec \<Rightarrow> string list \<Rightarrow> string \<Rightarrow> error + Slate" where
  "emoji_decode J glyphs emoji_string =
     and_then (translate2string glyphs emoji_string) (deserialize_upgrade J)"

end
