(* ===== verification/EmojiProps.thy ===== *)
theory EmojiProps
  imports Emoji AdapterProps SecureApiProps
begin

text \<open>
  Encoding never fails with a table of 1024 glyphs, and what is encoded decodes to the slate when
  its JSON text is ASCII. Other characters come out as two for each of their bytes.
\<close>

section \<open>Bits of a byte and of a group\<close>

lemma bit_of_top:
  assumes "x < LENGTH('a)"
  shows "drop_bit (LENGTH('a) - 1) (push_bit x w) = (1 :: 'a :: len word) \<longleftrightarrow> bit w (LENGTH('a) - 1 - x)"
proof -
  let ?x = "drop_bit (LENGTH('a) - 1) (push_bit x w)"
  have n: "bit ?x n \<longleftrightarrow> n = 0 \<and> bit w (LENGTH('a) - 1 - x)" for n
  proof (cases "n = 0")
    case False
    then have "\<not> bit (push_bit x w) (LENGTH('a) - 1 + n)" using bit_imp_le_length by fastforce
    then show ?thesis using False by (simp add: bit_drop_bit_eq)
  qed (use assms in \<open>auto simp: bit_drop_bit_eq bit_push_bit_iff\<close>)
  show ?thesis
  proof
    assume "?x = 1"
    then have "bit ?x 0" by simp
    then show "bit w (LENGTH('a) - 1 - x)" using n by blast
  next
    assume "bit w (LENGTH('a) - 1 - x)"
    then have "bit ?x n = bit (1 :: 'a word) n" for n using n by (simp add: bit_1_iff)
    then show "?x = 1" by (intro bit_word_eqI) simp
  qed
qed

lemma byte2bitvec_bits: "byte2bitvec b = map (bit b) (rev [0..<8])"
proof -
  have "drop_bit 7 (push_bit i b) = 1 \<longleftrightarrow> bit b (7 - i)" if "i < 8" for i
    using bit_of_top[of i b] that by simp
  then have "byte2bitvec b = map (\<lambda>i. bit b (7 - i)) [0..<8]"
    by (auto simp: byte2bitvec_def)
  also have "\<dots> = map (bit b) (rev [0..<8])" by (rule nth_equalityI) (simp_all add: rev_nth)
  finally show ?thesis .
qed

lemma length_byte2bitvec [simp]: "length (byte2bitvec b) = 8"
  by (simp add: byte2bitvec_def)

lemma bitvec2byte_sum: "bitvec2byte bs = horner_sum of_bool 2 (rev bs)"
proof -
  have "fst (fold (\<lambda>b (byte, exp). (byte + of_bool b * 2 ^ exp, exp + 1)) bs (n, k)) =
      n + 2 ^ k * (horner_sum of_bool 2 bs :: nat)" for bs n k
    by (induction bs arbitrary: n k) (simp_all add: algebra_simps)
  then have "bitvec2byte bs = of_nat (horner_sum of_bool 2 (rev bs))"
    by (simp add: bitvec2byte_def)
  also have "\<dots> = horner_sum of_bool 2 (rev bs)"
    by (induction bs rule: rev_induct) simp_all
  finally show ?thesis .
qed

lemma bitvec2byte_inverse: "bitvec2byte (byte2bitvec b) = b"
proof -
  have "bitvec2byte (byte2bitvec b) = take_bit 8 b"
    by (simp add: bitvec2byte_sum byte2bitvec_bits rev_map horner_sum_bit_eq_take_bit)
  then show ?thesis by (simp add: take_bit_word_eq_self)
qed

lemma index_bits_load:
  assumes "length bs = 10" "w = load_u16 (rev (replicate 6 False @ bs))"
  shows "index_bits w = bs" "unat w < 1024"
proof -
  have b: "bit w n \<longleftrightarrow> n < 10 \<and> bs ! (9 - n)" for n
    using assms by (auto simp: load_u16_def bit_horner_sum_bit_word_iff nth_append rev_nth)
  have "drop_bit 15 (push_bit (16 - i) w) = 1 \<longleftrightarrow> bit w (i - 1)" if "i \<in> {1..<11}" for i
    using bit_of_top[of "16 - i" w] that by simp
  then have "index_bits w = map (\<lambda>i. bit w (i - 1)) (rev [1..<11])"
    unfolding index_bits_def by (intro map_cong) simp_all
  also have "\<dots> = bs" using assms(1) by (intro nth_equalityI) (auto simp: rev_nth b)
  finally show "index_bits w = bs" .
  have trunc: "w = take_bit 10 w" by (intro bit_word_eqI) (auto simp: bit_take_bit_iff b)
  then have "unat w = take_bit 10 (unat w)" by (subst (1) trunc) (rule unsigned_take_bit_eq)
  also have "\<dots> < 2 ^ 10" by (rule take_bit_nat_less_exp)
  finally show "unat w < 1024" by simp
qed

section \<open>Groups, glyphs and bytes\<close>

lemma drain_tens_groups:
  assumes "length bits mod 10 = 0"
  shows "\<exists>vs. drain_tens bits = Inr vs \<and> (\<forall>v \<in> set vs. unat v < 1024) \<and> concat (map index_bits vs) = bits"
  using assms
proof (induction bits rule: drain_tens.induct)
  case (1 bits)
  show ?case
  proof (cases "bits = []")
    case False
    then have len: "10 \<le> length bits" using "1.prems" by (cases "length bits < 10") auto
    then have "length (drop 10 bits) mod 10 = 0" using "1.prems" by (simp add: mod_if)
    then obtain vs where vs: "drain_tens (drop 10 bits) = Inr vs" "\<forall>v \<in> set vs. unat v < 1024"
      "concat (map index_bits vs) = drop 10 bits"
      using "1.IH" False len by auto
    define w where "w = load_u16 (rev (replicate 6 False @ take 10 bits))"
    have w: "index_bits w = take 10 bits" "unat w < 1024" using index_bits_load[OF _ w_def] len by simp_all
    have "drain_tens bits = Inr (w # vs)"
      using False len vs(1) by (subst drain_tens.simps) (simp add: w_def)
    then show ?thesis using w vs by (intro exI[of _ "w # vs"]) simp
  qed (simp add: drain_tens.simps)
qed

lemma drain_tens_first:
  assumes "drain_tens bits = Inr vs" "10 \<le> length bits"
  shows "\<exists>ws. vs = load_u16 (rev (replicate 6 False @ take 10 bits)) # ws"
  using assms by (subst (asm) drain_tens.simps) (auto simp: and_then_eq_Inr split: if_splits)

definition one_char :: "string \<Rightarrow> bool" where
  "one_char g \<longleftrightarrow> (\<exists>c cs. g = c # cs \<and> \<not> continues c \<and> list_all continues cs)"

definition glyphs_ok :: "string list \<Rightarrow> bool" where
  "glyphs_ok glyphs \<longleftrightarrow> length glyphs = 1024 \<and> distinct glyphs \<and> (\<forall>g \<in> set glyphs. one_char g)"

lemma utf8_chars_glyphs: "\<forall>g \<in> set gs. one_char g \<Longrightarrow> utf8_chars (concat gs) = gs"
proof (induction gs)
  case (Cons g gs)
  then obtain c cs where g: "g = c # cs" "list_all continues cs" by (auto simp: one_char_def)
  have "takeWhile continues (concat gs) = [] \<and> dropWhile continues (concat gs) = concat gs"
    using Cons.prems by (cases gs) (auto simp: one_char_def)
  then show ?case using Cons g by (simp add: list_all_iff takeWhile_append dropWhile_append)
qed simp

lemma glyph_position_nth: "distinct m \<Longrightarrow> i < length m \<Longrightarrow> glyph_position m (m ! i) = Inr i"
proof -
  assume m: "distinct m" "i < length m"
  have "find (\<lambda>j. m ! j = m ! i) [0..<length m] = Some i"
    unfolding find_Some_iff using m by (intro exI[of _ i]) (auto simp: nth_eq_iff_index_eq)
  then show ?thesis by (simp add: glyph_position_def or_err_def)
qed

lemma translate2emoji_glyphs:
  "length m = 1024 \<Longrightarrow> \<forall>v \<in> set vs. unat v < 1024 \<Longrightarrow>
    translate2emoji m vs = Inr (concat (map (\<lambda>v. m ! unat v) vs))"
  by (induction vs) simp_all

lemma glyph_bits_glyphs:
  "length m = 1024 \<Longrightarrow> distinct m \<Longrightarrow> \<forall>v \<in> set vs. unat v < 1024 \<Longrightarrow>
    glyph_bits m (map (\<lambda>v. m ! unat v) vs) = Inr (concat (map index_bits vs))"
  by (induction vs) (simp_all add: glyph_position_nth)

lemma read_chars_bytes: "read_chars (concat (map byte2bitvec bs)) = Inr (concat (map push_byte_as_char bs))"
proof (induction bs)
  case (Cons b bs)
  then show ?case
    by (subst read_chars.simps) (auto simp: bitvec2byte_inverse dest: arg_cong[where f = length])
qed (simp add: read_chars.simps)

lemma ascii_char: "of_char c < (0x80 :: u8) \<Longrightarrow> push_byte_as_char (of_char c) = [c]"
  using byte_of_char[of c] by (simp add: push_byte_as_char_def)

section \<open>Round trip\<close>

text \<open>What the other side reads: each byte of the text as a character.\<close>

definition bytes_as_chars :: "string \<Rightarrow> string" where
  "bytes_as_chars s = concat (map (\<lambda>c. push_byte_as_char (of_char c)) s)"

lemma header_is_number:
  "\<forall>e \<in> set [0..<11]. unat (load_u16 (rev (replicate 6 False @ replicate 6 False @ drop 4 (byte2bitvec (of_nat e))))) = e"
  by code_simp

lemma set_extra_bits_head:
  assumes "8 * n < 2 ^ 64"
  shows "\<exists>hd. length hd = 10 \<and> set_extra_bits n = hd @ replicate (10 - 8 * n mod 10) False \<and>
    unat (load_u16 (rev (replicate 6 False @ hd))) = 10 - 8 * n mod 10"
proof -
  define e where "e = 10 - 8 * n mod 10"
  have e: "e \<in> set [0..<11]" by (simp add: e_def)
  have "set_extra_bits n = (replicate 6 False @ drop 4 (byte2bitvec (of_nat e))) @ replicate (unat (of_nat e :: u8)) False"
    using assms by (simp add: set_extra_bits_def Let_def e_def mult.commute)
  moreover have "unat (of_nat e :: u8) = e" by (simp add: unat_of_nat del: of_nat_diff) (simp add: e_def)
  ultimately show ?thesis
    using bspec[OF header_is_number e]
    by (intro exI[of _ "replicate 6 False @ drop 4 (byte2bitvec (of_nat e))"]) (simp add: e_def)
qed

lemma emoji_text_read:
  assumes "glyphs_ok m" "8 * length s < 2 ^ 64"
  shows "\<exists>t. and_then (drain_tens (emoji_bits s)) (translate2emoji m) = Inr t \<and> translate2string m t = Inr (bytes_as_chars s)"
proof -
  let ?e = "10 - 8 * length s mod 10" and ?d = "concat (map (\<lambda>c. byte2bitvec (of_char c)) s)"
  obtain h where h: "length h = 10" "emoji_bits s = h @ replicate ?e False @ ?d"
    "unat (load_u16 (rev (replicate 6 False @ h))) = ?e"
    using set_extra_bits_head[OF assms(2)] by (auto simp: emoji_bits_def)
  have "length ?d = 8 * length s" by (induction s) simp_all
  then have "length (emoji_bits s) mod 10 = 0" using h(1,2) by simp presburger
  from drain_tens_groups[OF this] obtain vs where vs: "drain_tens (emoji_bits s) = Inr vs"
    "\<forall>v \<in> set vs. unat v < 1024" "concat (map index_bits vs) = emoji_bits s" by blast
  define gs where "gs = map (\<lambda>v. m ! unat v) vs"
  have m: "length m = 1024" "distinct m" "\<forall>g \<in> set gs. one_char g"
    using assms(1) vs(2) by (auto simp: glyphs_ok_def gs_def)
  have "10 \<le> length (emoji_bits s)" "take 10 (emoji_bits s) = h" using h(1) by (simp_all add: h(2))
  then obtain ws where ws: "vs = load_u16 (rev (replicate 6 False @ h)) # ws"
    using drain_tens_first[OF vs(1)] by auto
  obtain rest where first: "gs = m ! ?e # rest" using h(3) by (simp add: ws gs_def)
  have "glyph_position m (m ! ?e) = Inr ?e" using m by (intro glyph_position_nth) simp_all
  moreover have "read_chars (drop (10 + ?e) (emoji_bits s)) = Inr (bytes_as_chars s)"
    using read_chars_bytes[of "map of_char s"] h(1) by (simp add: h(2) bytes_as_chars_def comp_def)
  moreover have "glyph_bits m gs = Inr (emoji_bits s)"
    using glyph_bits_glyphs[OF m(1,2) vs(2)] vs(3) by (simp add: gs_def)
  ultimately have "translate2string m (concat gs) = Inr (bytes_as_chars s)"
    unfolding translate2string_def utf8_chars_glyphs[OF m(3)] by (simp add: first)
  then show ?thesis using vs translate2emoji_glyphs[OF m(1) vs(2)] by (simp add: gs_def)
qed

lemma bytes_as_chars_ascii: "bytes_as_chars s = s \<longleftrightarrow> (\<forall>c \<in> set s. of_char c < (0x80 :: u8))"
proof
  have len: "length s \<le> length (bytes_as_chars s)" for s
    by (induction s) (auto simp: bytes_as_chars_def push_byte_as_char_def)
  show "\<forall>c \<in> set s. of_char c < (0x80 :: u8)" if "bytes_as_chars s = s"
    using that
  proof (induction s)
    case (Cons c s)
    show ?case
    proof (cases "of_char c < (0x80 :: u8)")
      case True
      then show ?thesis using Cons by (simp add: bytes_as_chars_def ascii_char)
    next
      case False
      then have "length (bytes_as_chars (c # s)) = 2 + length (bytes_as_chars s)"
        by (simp add: bytes_as_chars_def push_byte_as_char_def)
      then show ?thesis using len[of s] Cons.prems by simp
    qed
  qed simp
  show "bytes_as_chars s = s" if "\<forall>c \<in> set s. of_char c < (0x80 :: u8)"
    using that by (induction s) (simp_all add: bytes_as_chars_def ascii_char)
qed

text \<open>C38. A slate encoded in emojis, whose JSON text is ASCII, is decoded to the slate that a file would give
  back; of any other text each byte is read as a character of its own, so it is not the text that
  was sent. Encoding never fails.\<close>

theorem emoji_round_trip:
  assumes "glyphs_ok m" "body = versioned_text J (file_version s)" "8 * length body < 2 ^ 64"
    and "json_ok J s" "vc_version (sl_version_info s) = 3"
    and "s2 = s\<lparr>sl_version_info := (sl_version_info s)\<lparr>vc_version := 2, vc_orig_version := 2\<rparr>\<rparr>" "json_ok J s2"
  shows "\<exists>t. emoji_encode J m s = Inr t \<and>
    (if \<forall>c \<in> set body. of_char c < (0x80 :: u8)
     then emoji_decode J m t = Inr (if sl_payment_proof s \<noteq> None \<or> sl_ttl_cutoff_height s \<noteq> None then s else s2)
     else \<exists>garbled. garbled \<noteq> body \<and> emoji_decode J m t = deserialize_upgrade J garbled)"
proof -
  obtain t where t: "emoji_encode J m s = Inr t" "emoji_decode J m t = deserialize_upgrade J (bytes_as_chars body)"
    using emoji_text_read[OF assms(1,3)] by (auto simp: emoji_encode_def emoji_decode_def assms(2))
  have "deserialize_upgrade J body = Inr (if sl_payment_proof s \<noteq> None \<or> sl_ttl_cutoff_height s \<noteq> None then s else s2)"
    using versioned_text_read[OF assms(4,5)] versioned_text_read_v2[OF assms(7)] assms(2,6)
    by (auto simp: file_version_def)
  then show ?thesis using t bytes_as_chars_ascii[of body] by auto
qed

text \<open>A table of glyphs of two bytes each.\<close>

definition two_byte_glyphs :: "string list" where
  "two_byte_glyphs = map (\<lambda>i. [char_of (0xC0 + i div 64), char_of (0x80 + i mod 64)]) [0..<1024]"

lemma two_byte_glyphs_ok: "glyphs_ok two_byte_glyphs"
proof -
  have code: "(of_char (char_of (0xC0 + i div 64) :: char) :: nat) = 0xC0 + i div 64"
    "(of_char (char_of (0x80 + i mod 64) :: char) :: nat) = 0x80 + i mod 64" if "i < 1024" for i :: nat
    using that by simp_all
  have "inj_on (\<lambda>i. [char_of (0xC0 + i div 64), char_of (0x80 + i mod 64)] :: string) {0..<1024 :: nat}"
  proof (rule inj_onI)
    fix i j :: nat
    assume "i \<in> {0..<1024}" "j \<in> {0..<1024}"
      and eq: "[char_of (0xC0 + i div 64), char_of (0x80 + i mod 64)] = ([char_of (0xC0 + j div 64), char_of (0x80 + j mod 64)] :: string)"
    then have "0xC0 + i div 64 = 0xC0 + j div 64" "0x80 + i mod 64 = 0x80 + j mod 64"
      using code[of i] code[of j] by (metis atLeastLessThan_iff list.inject)+
    then show "i = j" by (metis add_left_cancel div_mod_decomp)
  qed
  moreover have "one_char [char_of (0xC0 + i div 64), char_of (0x80 + i mod 64)]" if "i < 1024" for i :: nat
    using code[OF that] by (simp add: one_char_def continues_def)
  ultimately show ?thesis
    by (auto simp: glyphs_ok_def two_byte_glyphs_def distinct_map)
qed

text \<open>A codec of short texts for two slates.\<close>

definition short_codec :: "Slate \<Rightarrow> Slate \<Rightarrow> json_codec" where
  "short_codec a b = (let is_b = (\<lambda>v. v = vc_version (sl_version_info b)) in
     \<lparr>de_probe = (\<lambda>t. Some \<lparr>sv_version = None, sv_version_info = Some (sl_version_info (if hd t = CHR ''b'' then b else a))\<rparr>),
      de_v3 = (\<lambda>t. if t ! 1 = CHR ''2'' then None else Some (slate_v3_of (if hd t = CHR ''b'' then b else a))),
      de_v2 = (\<lambda>t. Some (slate_v2_of_v3 (slate_v3_of (if hd t = CHR ''b'' then b else a)))),
      ser_v3 = (\<lambda>x. if is_b (vc_version (version_info_of_v3 (sl3_version_info x))) then ''b3'' else ''a3''),
      ser_v2 = (\<lambda>x. if is_b (vc_version (version_info_of_v3 (version_info_v3_of_v2 (sl2_version_info x)))) then ''b2'' else ''a2'')\<rparr>)"

lemma short_codec_ok:
  "json_ok (short_codec a b) b"
  "vc_version (sl_version_info a) \<noteq> vc_version (sl_version_info b) \<Longrightarrow> json_ok (short_codec a b) a"
  by (simp_all add: json_ok_def short_codec_def Let_def vi3.dec_enc vi23.enc_dec)

theorem emoji_round_trip_witness:
  "\<exists>t. emoji_encode (short_codec the_slate (with_version 2 the_slate)) two_byte_glyphs the_slate = Inr t \<and>
     emoji_decode (short_codec the_slate (with_version 2 the_slate)) two_byte_glyphs t = Inr (with_version 2 the_slate)"
proof -
  let ?J = "short_codec the_slate (with_version 2 the_slate)"
  have ok: "json_ok ?J the_slate" "json_ok ?J (with_version 2 the_slate)"
    using short_codec_ok by (simp_all add: with_version_def the_slate_version)
  have "set (versioned_text ?J (file_version the_slate)) \<subseteq> {CHR ''a'', CHR ''b'', CHR ''2'', CHR ''3''}"
    "length (versioned_text ?J (file_version the_slate)) = 2"
    by (auto simp: versioned_text_def short_codec_def Let_def split: VersionedSlate.split)
  then have "8 * length (versioned_text ?J (file_version the_slate)) < 2 ^ 64"
    "\<forall>c \<in> set (versioned_text ?J (file_version the_slate)). of_char c < (0x80 :: u8)" by auto
  with emoji_round_trip[OF two_byte_glyphs_ok refl _ ok(1) the_slate_version(1) with_version_def ok(2)]
  show ?thesis by (auto simp: the_slate_version)
qed

end
