(* ===== verification/ConfigFiles.thy ===== *)
theory ConfigFiles
  imports Config Lifecycle Tor
begin

text \<open>
  The configuration file, \<open>config/src/config.rs\<close> and \<open>comments.rs\<close>, and \<open>create_config\<close> of
  \<open>lifecycle/default.rs\<close> and of the owner's interface: where the file lies, its defaults, reading and
  writing it with a comment before each setting, and the files of the API secrets. TOML, the
  logging configuration and the home and current directories are fields of \<open>config_ext\<close>.
\<close>

section \<open>Comments\<close>

definition lines_text :: "string list \<Rightarrow> string" where
  "lines_text ls = concat (map (\<lambda>l. l @ [CHR 0x0A]) ls)"

definition wallet_comments :: "(string \<times> string) list" where
  "wallet_comments =
     [(''[wallet]'', lines_text
         [[],
          ''#########################################'',
          ''### WALLET CONFIGURATION              ###'',
          ''#########################################'']),
      (''api_listen_interface'', lines_text
         [[],
          ''### host IP for wallet listener, change to \"0.0.0.0\" to receive epics'']),
      (''api_listen_port'', lines_text
         [[],
          ''### path of TLS certificate file, self-signed certificates are not supported'',
          ''#tls_certificate_file = \"\"'',
          ''### private key for the TLS certificate'',
          ''#tls_certificate_key = \"\"'',
          [],
          ''### port for wallet listener'']),
      (''owner_api_listen_port'', lines_text [[], ''### port for wallet owner api'']),
      (''api_secret_path'', lines_text
         [[],
          [],
          ''#owner_api_interface = 127.0.0.1'',
          [],
          ''### path of the secret token used by the API to authenticate the calls'',
          ''### comment it to disable basic auth'']),
      (''check_node_api_http_addr'', lines_text [[], ''### where the wallet should find a running node'']),
      (''node_api_secret_path'', lines_text
         [[],
          ''### location of the node api secret for basic auth on the Epic API'']),
      (''owner_api_include_foreign'', lines_text
         [[],
          ''### include the foreign API endpoints on the same port as the owner'',
          ''### API. Useful for networking environments like AWS ECS that make'',
          ''### it difficult to access multiple ports on a single service.'']),
      (''data_file_dir'', lines_text [[], ''### where to find wallet files (seed, data, etc)'']),
      (''no_commit_cache'', lines_text
         [[],
          ''### If true, don't store calculated commits in the database'',
          ''### better privacy, but at a performance cost of having to'',
          ''### re-calculate commits every time they're used'']),
      (''dark_background_color_scheme'', lines_text
         [[],
          ''### Whether to use the black background color scheme for command line'']),
      (''keybase_notify_ttl'', lines_text
         [[],
          ''### The exploding lifetime for keybase notification on coins received.'',
          ''### Unit: Minute. Default value 1440 minutes for one day.'',
          ''### Refer to https://keybase.io/blog/keybase-exploding-messages for detail.'',
          ''### To disable this notification, set it as 0.''])]"

definition logging_comments :: "(string \<times> string) list" where
  "logging_comments =
     [(''[logging]'', lines_text
         [[],
          ''#########################################'',
          ''### LOGGING CONFIGURATION             ###'',
          ''#########################################'']),
      (''log_to_stdout'', lines_text [[], ''### whether to log to stdout'']),
      (''stdout_log_level'', lines_text
         [[],
          ''### log level for stdout: Error, Warning, Info, Debug, Trace'']),
      (''log_to_file'', lines_text [[], ''### whether to log to a file'']),
      (''file_log_level'', lines_text [[], ''### log level for file: Error, Warning, Info, Debug, Trace'']),
      (''log_file_path'', lines_text [[], ''### log file path'']),
      (''log_file_append'', lines_text
         [[],
          ''### whether to append to the log file (true), or replace it on every run (false)'']),
      (''log_max_size'', lines_text
         [[],
          ''### maximum log file size in bytes before performing log rotation'',
          ''### comment it to disable log rotation''])]"

definition tor_comments :: "(string \<times> string) list" where
  "tor_comments =
     [(''[tor]'', lines_text
         [[],
          ''#########################################'',
          ''### TOR CONFIGURATION (Experimental)  ###'',
          ''#########################################'']),
      (''use_tor_listener'', lines_text
         [[],
          ''### Whether to start tor listener on listener startup (default true)'']),
      (''socks_proxy_addr'', lines_text [[], ''### Address of the running TOR (SOCKS) server'']),
      (''socks_proxy_addr'', lines_text [[], ''### TOR (SOCKS) proxy server address'']),
      (''send_config_dir'', lines_text [[], ''### Directory to output TOR configuration to when sending''])]"

definition epicbox_comments :: "(string \<times> string) list" where
  "epicbox_comments =
     [(''[epicbox]'', lines_text
         [[],
          ''#########################################'',
          ''###  EPICBOX CONFIGURATION            ###'',
          ''#########################################'']),
      (''epicbox_domain'', lines_text [[], ''### Domain of the epicbox server to connect'']),
      (''epicbox_port'', lines_text [[], ''### Port of the domain of the epicbox server to connect'']),
      (''epicbox_protocol_unsecure'', lines_text
         [[],
          ''### Whether to allow unsecure connections without SSL (default false)'']),
      (''epicbox_address_index'', lines_text [[], ''### Index of the epicbox address (default 0)''])]"

text \<open>A later entry for a key replaces an earlier one.\<close>

definition comments :: "string \<Rightarrow> string option" where
  "comments = map_of (rev (wallet_comments @ logging_comments @ tor_comments @ epicbox_comments))"

definition get_key :: "string \<Rightarrow> string" where
  "get_key line =
     (if contains line ''['' \<and> contains line '']'' then line
      else if contains line ''='' then trim (hd (split_on (CHR ''='') line))
      else ''NOT_FOUND'')"

definition commented_line :: "string \<Rightarrow> string" where
  "commented_line l = (case comments (get_key l) of Some v \<Rightarrow> v | None \<Rightarrow> []) @ l @ [CHR 0x0A]"

definition insert_comments :: "string \<Rightarrow> string" where
  "insert_comments orig = concat (map commented_line (split_on (CHR 0x0A) orig))"

section \<open>Levels of the log\<close>

text \<open>\<open>str::replace\<close> of a pattern that is not empty.\<close>

function str_replace :: "string \<Rightarrow> string \<Rightarrow> string \<Rightarrow> string" where
  "str_replace p r [] = []"
| "str_replace p r (c # s) =
     (if p \<noteq> [] \<and> starts_with p (c # s) then r @ str_replace p r (drop (length p - 1) s) else c # str_replace p r s)"
  by pat_completeness auto
termination by (relation "measure (\<lambda>(p, r, s). length s)") auto

definition fix_warning_level :: "string \<Rightarrow> string" where
  "fix_warning_level conf = str_replace ''Warning'' ''WARN'' conf"

definition fix_log_level :: "string \<Rightarrow> string" where
  "fix_log_level conf =
     str_replace ''ERROR'' ''Error'' (str_replace ''WARN'' ''Warning'' (str_replace ''INFO'' ''Info''
       (str_replace ''DEBUG'' ''Debug'' (str_replace ''TRACE'' ''Trace'' conf))))"

section \<open>Paths and defaults\<close>

definition WALLET_CONFIG_FILE_NAME :: string where "WALLET_CONFIG_FILE_NAME = ''epic-wallet.toml''"

definition WALLET_LOG_FILE_NAME :: string where "WALLET_LOG_FILE_NAME = ''epic-wallet.log''"

definition EPIC_HOME :: string where "EPIC_HOME = ''.epic''"

definition API_SECRET_FILE_NAME :: string where "API_SECRET_FILE_NAME = ''.api_secret''"

definition OWNER_API_SECRET_FILE_NAME :: string where "OWNER_API_SECRET_FILE_NAME = ''.owner_api_secret''"

text \<open>
  \<open>cf_first_line\<close> is the error of reading the first line of a file, \<open>cf_secret\<close> the twenty random
  characters of a new secret.
\<close>

record 'l config_ext =
  cf_home_dir :: "string option"
  cf_current_dir :: "string + string"
  cf_shortname :: "ChainTypes \<Rightarrow> string"
  cf_first_line :: "string \<Rightarrow> string option"
  cf_secret :: string
  cf_logging :: 'l
  cf_log_path :: "string \<Rightarrow> 'l \<Rightarrow> 'l"
  cf_to_toml :: "'l GlobalWalletConfigMembers \<Rightarrow> string + string"
  cf_from_toml :: "string \<Rightarrow> string + 'l GlobalWalletConfigMembers"

datatype config_failure = ConfigFailed ConfigError | ConfigPanic string

type_synonym 'a config_op = "(disk, config_failure, 'a) proc"

definition config_io :: "'a disk_op \<Rightarrow> 'a config_op" where
  "config_io m d = (case m d of
      (Inl (ImplsIO e), d') \<Rightarrow> (Inl (ConfigFailed (config_error_of_io e)), d')
    | (Inl _, d') \<Rightarrow> (Inl (ConfigPanic []), d')
    | (Inr x, d') \<Rightarrow> (Inr x, d'))"

definition config_members_default :: "'l config_ext \<Rightarrow> 'l GlobalWalletConfigMembers" where
  "config_members_default F =
     \<lparr>gm_wallet = wallet_config_default, gm_tor = Some tor_config_default, gm_epicbox = Some epicbox_config_default,
      gm_logging = Some (cf_logging F)\<rparr>"

definition global_config_default :: "'l config_ext \<Rightarrow> 'l GlobalWalletConfig" where
  "global_config_default F = \<lparr>gc_config_file_path = None, gc_members = Some (config_members_default F)\<rparr>"

definition for_chain :: "'l config_ext \<Rightarrow> ChainTypes \<Rightarrow> 'l GlobalWalletConfig" where
  "for_chain F chain_type =
     (let defaults = wallet_config_default\<lparr>wc_chain_type := Some chain_type\<rparr>;
          defaults = (case chain_type of
              Floonet \<Rightarrow> defaults\<lparr>wc_api_listen_port := 13415, wc_check_node_api_http_addr := ''http://127.0.0.1:13413''\<rparr>
            | UserTesting \<Rightarrow> defaults\<lparr>wc_api_listen_port := 23415, wc_check_node_api_http_addr := ''http://127.0.0.1:23413''\<rparr>
            | _ \<Rightarrow> defaults)
      in (global_config_default F)\<lparr>gc_members := Some ((config_members_default F)\<lparr>gm_wallet := defaults\<rparr>)\<rparr>)"

text \<open>Without members, or without the sections it writes to, it panics.\<close>

definition update_paths :: "'l config_ext \<Rightarrow> string \<Rightarrow> 'l GlobalWalletConfig \<Rightarrow> config_failure + 'l GlobalWalletConfig" where
  "update_paths F wallet_home c = (case gc_members c of
      Some m \<Rightarrow> (case (gm_logging m, gm_tor m) of
        (Some l, Some t) \<Rightarrow> Inr (c\<lparr>gc_members := Some (m\<lparr>
           gm_wallet := (gm_wallet m)\<lparr>wc_data_file_dir := path_push wallet_home EPIC_WALLET_DIR,
              wc_api_secret_path := Some (path_push wallet_home OWNER_API_SECRET_FILE_NAME),
              wc_node_api_secret_path := Some (path_push wallet_home API_SECRET_FILE_NAME)\<rparr>,
           gm_logging := Some (cf_log_path F (path_push wallet_home WALLET_LOG_FILE_NAME) l),
           gm_tor := Some (t\<lparr>tc_send_config_dir := wallet_home\<rparr>)\<rparr>)\<rparr>)
      | _ \<Rightarrow> Inl (ConfigPanic ''Option::unwrap''))
    | None \<Rightarrow> Inl (ConfigPanic ''Option::unwrap''))"

section \<open>Reading and writing\<close>

definition ser_config :: "'l config_ext \<Rightarrow> 'l GlobalWalletConfig \<Rightarrow> config_failure + string" where
  "ser_config F c = (case gc_members c of
      None \<Rightarrow> Inl (ConfigPanic ''Option::unwrap'')
    | Some m \<Rightarrow> (case cf_to_toml F m of
        Inl e \<Rightarrow> Inl (ConfigFailed (SerializationError e)) | Inr s \<Rightarrow> Inr s))"

definition write_config :: "'l config_ext \<Rightarrow> seed_ext \<Rightarrow> 'l GlobalWalletConfig \<Rightarrow> string \<Rightarrow> unit config_op" where
  "write_config F S c name =
     bindE (liftE (ser_config F c)) (\<lambda>conf_out.
     bindE (config_io (create_file S name)) (\<lambda>_.
     config_io (write_all S name (insert_comments (fix_log_level conf_out)))))"

definition read_config :: "'l config_ext \<Rightarrow> seed_ext \<Rightarrow> string \<Rightarrow> 'l GlobalWalletConfig \<Rightarrow> 'l GlobalWalletConfig config_op" where
  "read_config F S p c =
     bindE (config_io (io (os_open S p) id)) (\<lambda>_.
     bindE (config_io (io (os_read_text S p) id)) (\<lambda>_.
     bindE (gets (\<lambda>d. file_at d p)) (\<lambda>contents. case contents of
       None \<Rightarrow> throw (ConfigFailed (config_error_of_io ''No such file or directory''))
     | Some contents \<Rightarrow> (case cf_from_toml F (fix_warning_level contents) of
           Inr gc \<Rightarrow> ret (c\<lparr>gc_members := Some gc\<rparr>)
         | Inl e \<Rightarrow> throw (ConfigFailed (ParseError p e))))))"

definition global_config_new :: "'l config_ext \<Rightarrow> seed_ext \<Rightarrow> string \<Rightarrow> 'l GlobalWalletConfig config_op" where
  "global_config_new F S p =
     bindE (gets (path_exists p)) (\<lambda>exists.
     if \<not> exists then throw (ConfigFailed (FileNotFoundError p))
     else read_config F S p ((global_config_default F)\<lparr>gc_config_file_path := Some p\<rparr>))"

section \<open>Secrets of the APIs\<close>

definition init_api_secret :: "'l config_ext \<Rightarrow> seed_ext \<Rightarrow> string \<Rightarrow> unit config_op" where
  "init_api_secret F S p =
     bindE (config_io (create_file S p)) (\<lambda>_. config_io (write_all S p (cf_secret F)))"

definition check_api_secret :: "'l config_ext \<Rightarrow> seed_ext \<Rightarrow> string \<Rightarrow> unit config_op" where
  "check_api_secret F S p =
     bindE (config_io (io (os_open S p) id)) (\<lambda>_.
     bindE (gets (\<lambda>d. file_at d p)) (\<lambda>c.
     if c = None \<or> c = Some [] \<or> cf_first_line F p \<noteq> None
     then bindE (config_io (remove_file S p)) (\<lambda>_. init_api_secret F S p)
     else ret ()))"

definition get_epic_path :: "'l config_ext \<Rightarrow> seed_ext \<Rightarrow> ChainTypes \<Rightarrow> string config_op" where
  "get_epic_path F S chain_type =
     (let epic_path = path_push (path_push (case cf_home_dir F of Some p \<Rightarrow> p | None \<Rightarrow> []) EPIC_HOME) (cf_shortname F chain_type) in
      bindE (gets (path_exists epic_path)) (\<lambda>exists.
      bindE (if \<not> exists then config_io (create_dir_all S epic_path) else ret ()) (\<lambda>_. ret epic_path)))"

definition secret_or_new :: "'l config_ext \<Rightarrow> seed_ext \<Rightarrow> string \<Rightarrow> unit config_op" where
  "secret_or_new F S p =
     bindE (gets (path_exists p)) (\<lambda>exists. if \<not> exists then init_api_secret F S p else check_api_secret F S p)"

definition epic_path_or :: "'l config_ext \<Rightarrow> seed_ext \<Rightarrow> ChainTypes \<Rightarrow> string option \<Rightarrow> string config_op" where
  "epic_path_or F S chain_type data_path = (case data_path of Some p \<Rightarrow> ret p | None \<Rightarrow> get_epic_path F S chain_type)"

definition check_api_secret_file :: "'l config_ext \<Rightarrow> seed_ext \<Rightarrow> ChainTypes \<Rightarrow> string option \<Rightarrow> string \<Rightarrow> unit config_op" where
  "check_api_secret_file F S chain_type data_path file_name =
     bindE (epic_path_or F S chain_type data_path) (\<lambda>epic_path. secret_or_new F S (path_push epic_path file_name))"

section \<open>Setting up\<close>

definition check_config_current_dir :: "'l config_ext \<Rightarrow> string \<Rightarrow> disk \<Rightarrow> string option" where
  "check_config_current_dir F file_name d = (case cf_current_dir F of
      Inl _ \<Rightarrow> None
    | Inr c \<Rightarrow> if path_exists (path_push c file_name) d then Some (path_push c file_name) else None)"

definition initial_setup_wallet :: "'l config_ext \<Rightarrow> seed_ext \<Rightarrow> ChainTypes \<Rightarrow> string option \<Rightarrow> 'l GlobalWalletConfig config_op" where
  "initial_setup_wallet F S chain_type data_path =
     bindE (check_api_secret_file F S chain_type data_path OWNER_API_SECRET_FILE_NAME) (\<lambda>_.
     bindE (check_api_secret_file F S chain_type data_path API_SECRET_FILE_NAME) (\<lambda>_.
     bindE (gets (check_config_current_dir F WALLET_CONFIG_FILE_NAME)) (\<lambda>here. case here of
       Some p \<Rightarrow> global_config_new F S p
     | None \<Rightarrow>
         bindE (epic_path_or F S chain_type data_path) (\<lambda>epic_path.
         (let config_path = path_push epic_path WALLET_CONFIG_FILE_NAME in
          bindE (gets (path_exists config_path)) (\<lambda>exists.
          if exists then global_config_new F S config_path
          else liftE (update_paths F epic_path ((for_chain F chain_type)\<lparr>gc_config_file_path := Some config_path\<rparr>))))))))"

text \<open>\<open>PathBuf::push\<close> of any path: an absolute one replaces what was there.\<close>

definition path_join :: "string \<Rightarrow> string \<Rightarrow> string" where
  "path_join a b = (if starts_with ''/'' b then b else path_push a b)"

definition or_default :: "'a option \<Rightarrow> 'a option \<Rightarrow> 'a option" where
  "or_default given d = (case given of Some x \<Rightarrow> Some x | None \<Rightarrow> d)"

text \<open>The members given, and the chain's defaults for those that are not.\<close>

definition merged_config ::
    "'l config_ext \<Rightarrow> ChainTypes \<Rightarrow> WalletConfig option \<Rightarrow> 'l option \<Rightarrow> TorConfig option \<Rightarrow> EpicboxConfig option \<Rightarrow> 'l GlobalWalletConfig" where
  "merged_config F chain_type wallet_config logging_config tor_config epicbox_config =
     (let default_config = for_chain F chain_type;
          m = (case gc_members default_config of Some m \<Rightarrow> m | None \<Rightarrow> config_members_default F)
      in default_config\<lparr>gc_members := Some \<lparr>
           gm_wallet = (case wallet_config of Some w \<Rightarrow> w | None \<Rightarrow> gm_wallet m),
           gm_tor = or_default tor_config (gm_tor m), gm_epicbox = or_default epicbox_config (gm_epicbox m),
           gm_logging = or_default logging_config (gm_logging m)\<rparr>\<rparr>)"

definition as_panic :: "'a config_op \<Rightarrow> (disk, error, 'a) proc" where
  "as_panic m d = (case m d of
      (Inl (ConfigPanic p), d') \<Rightarrow> (Inl (Panic p), d')
    | (Inl _, d') \<Rightarrow> (Inl (Panic ''Result::unwrap''), d')
    | (Inr x, d') \<Rightarrow> (Inr x, d'))"

definition config_written :: "string \<Rightarrow> unit config_op \<Rightarrow> (disk, error, unit) proc" where
  "config_written name m d = (case m d of
      (Inl (ConfigFailed e), d') \<Rightarrow> (Inl (Lifecycle (''Error creating config file as ('' @ name @ ''): '' @ config_error_fmt e)), d')
    | (Inl (ConfigPanic p), d') \<Rightarrow> (Inl (Panic p), d')
    | (Inr x, d') \<Rightarrow> (Inr x, d'))"

definition disk_io :: "'a disk_op \<Rightarrow> (disk, error, 'a) proc" where
  "disk_io m d = (case m d of
      (Inl (ImplsIO e), d') \<Rightarrow> (Inl (StdIO e), d') | (Inl _, d') \<Rightarrow> (Inl Diverges, d') | (Inr x, d') \<Rightarrow> (Inr x, d'))"

definition create_config_in ::
    "'l config_ext \<Rightarrow> seed_ext \<Rightarrow> string \<Rightarrow> ChainTypes \<Rightarrow> string \<Rightarrow> WalletConfig option \<Rightarrow> 'l option \<Rightarrow> TorConfig option \<Rightarrow>
     EpicboxConfig option \<Rightarrow> (disk, error, unit) proc" where
  "create_config_in F S data_dir chain_type file_name wallet_config logging_config tor_config epicbox_config =
     (let default_config = merged_config F chain_type wallet_config logging_config tor_config epicbox_config;
          config_file_name = path_push data_dir file_name; api_secret_path = path_push data_dir API_SECRET_FILE_NAME
      in
      bindE (gets (path_exists data_dir)) (\<lambda>exists.
      bindE (if \<not> exists then disk_io (create_dir_all S data_dir) else ret ()) (\<lambda>_.
      bindE (gets (path_exists config_file_name)) (\<lambda>config_exists.
      bindE (gets (path_exists (path_push data_dir EPIC_WALLET_DIR))) (\<lambda>data_exists.
      if config_exists \<and> data_exists
      then throw (Lifecycle (file_name @ '' already exists in the target directory ('' @ config_file_name @ ''). Please remove it first''))
      else if config_exists then ret ()
      else
        bindE (liftE (case cf_current_dir F of Inl e \<Rightarrow> Inl (StdIO e) | Inr c \<Rightarrow> Inr c)) (\<lambda>current_dir.
        bindE (as_panic (liftE (update_paths F (path_join current_dir data_dir) default_config))) (\<lambda>default_config.
        bindE (config_written config_file_name (write_config F S default_config config_file_name)) (\<lambda>_.
        as_panic (secret_or_new F S api_secret_path)))))))))"

definition create_config ::
    "'l config_ext \<Rightarrow> seed_ext \<Rightarrow> ChainTypes \<Rightarrow> string \<Rightarrow> WalletConfig option \<Rightarrow> 'l option \<Rightarrow> TorConfig option \<Rightarrow>
     EpicboxConfig option \<Rightarrow> unit lc_op" where
  "create_config F S chain_type file_name wallet_config logging_config tor_config epicbox_config s =
     (case create_config_in F S (lc_data_dir s) chain_type file_name wallet_config logging_config tor_config epicbox_config (lc_disk s) of
        (r, d) \<Rightarrow> (r, s\<lparr>lc_disk := d\<rparr>))"

end
