(* ===== verification/ConfigProps.thy ===== *)
theory ConfigProps
  imports ConfigFiles TorProps LifecycleProps
begin

text \<open>
  The comments put into a configuration file change no setting, a written configuration is read
  back, and creating one never overwrites a file that has content.
\<close>

section \<open>Comments\<close>

text \<open>The lines of a file that are neither empty nor a comment.\<close>

definition ignored :: "string \<Rightarrow> bool" where
  "ignored l \<longleftrightarrow> l = [] \<or> hd l = CHR ''#''"

definition settings :: "string \<Rightarrow> string list" where
  "settings s = filter (\<lambda>l. \<not> ignored l) (split_on (CHR 0x0A) s)"

lemma split_on_not_Nil: "split_on c s \<noteq> []"
  by (induction s) (auto split: list.split)

lemma split_on_append: "split_on c (xs @ c # ys) = split_on c xs @ split_on c ys"
proof (induction xs)
  case (Cons x xs)
  then show ?case using split_on_not_Nil[of c xs] by (cases "split_on c xs") auto
qed simp

lemma settings_append: "settings (xs @ CHR 0x0A # ys) = settings xs @ settings ys"
  by (simp add: settings_def split_on_append)

lemma split_on_no_sep: "\<forall>l \<in> set (split_on c s). c \<notin> set l"
proof (induction s)
  case (Cons x s)
  then show ?case using split_on_not_Nil[of c s] by (cases "split_on c s") auto
qed simp

lemma split_on_line: "c \<notin> set l \<Longrightarrow> split_on c l = [l]"
  by (induction l) auto

lemma all_comments_ignored:
  "list_all (\<lambda>(k, v). v \<noteq> [] \<and> last v = CHR 0x0A \<and> settings (butlast v) = [])
     (wallet_comments @ logging_comments @ tor_comments @ epicbox_comments)"
  by code_simp

lemma comments_ignored:
  assumes "comments k = Some v"
  shows "settings (v @ s) = settings s"
proof -
  have "(k, v) \<in> set (wallet_comments @ logging_comments @ tor_comments @ epicbox_comments)"
    using map_of_SomeD[OF assms[unfolded comments_def]] by auto
  then have v: "v \<noteq> []" "last v = CHR 0x0A" "settings (butlast v) = []"
    using all_comments_ignored unfolding list_all_iff by blast+
  then have eq: "v @ s = butlast v @ CHR 0x0A # s"
    by (metis append.assoc append_Cons append_Nil append_butlast_last_id)
  show ?thesis using v(3) unfolding eq settings_append by simp
qed

lemma settings_commented: "settings (commented_line l @ s) = settings l @ settings s"
  using settings_append[of l s] comments_ignored
  by (auto simp: commented_line_def split: option.split)

lemma insert_comments_settings: "settings (insert_comments s) = settings s"
proof -
  have "settings (concat (map commented_line ls)) = concat (map settings ls)" for ls
    by (induction ls) (simp_all add: settings_commented, simp add: settings_def ignored_def)
  moreover have "concat (map settings ls) = filter (\<lambda>l. \<not> ignored l) ls" if "\<forall>l \<in> set ls. CHR 0x0A \<notin> set l" for ls
    using that by (induction ls) (simp_all add: settings_def split_on_line)
  ultimately show ?thesis
    using split_on_no_sep[of "CHR 0x0A" s] by (simp add: insert_comments_def settings_def)
qed

section \<open>Levels\<close>

lemma starts_with_line:
  assumes "c \<notin> set p"
  shows "starts_with p (xs @ c # ys) = starts_with p xs"
  using assms
proof (induction p arbitrary: xs)
  case (Cons a p)
  then show ?case by (cases xs) (auto simp: starts_with_def)
qed (simp add: starts_with_def)

lemma str_replace_line:
  assumes "c \<notin> set p"
  shows "str_replace p r (xs @ c # ys) = str_replace p r xs @ c # str_replace p r ys"
proof (induction "length xs" arbitrary: xs rule: less_induct)
  case less
  show ?case
  proof (cases xs)
    case Nil
    then show ?thesis using assms starts_with_line[OF assms, of "[]" ys] by (auto simp: starts_with_def)
  next
    case (Cons x zs)
    have sw: "starts_with p (x # zs @ c # ys) = starts_with p (x # zs)"
      using starts_with_line[OF assms, of "x # zs" ys] by simp
    show ?thesis
    proof (cases "p \<noteq> [] \<and> starts_with p (x # zs)")
      case True
      then have "length p - 1 \<le> length zs" by (auto simp: starts_with_def dest!: arg_cong[where f = length])
      moreover have "length (drop (length p - 1) zs) < length xs" using Cons by simp
      ultimately show ?thesis using less[of "drop (length p - 1) zs"] True sw Cons by simp
    next
      case False
      moreover have "length zs < length xs" using Cons by simp
      ultimately show ?thesis using less[of zs] sw Cons by auto
    qed
  qed
qed

lemma split_on_Cons_sep: "split_on c s = l # ls \<Longrightarrow> ls \<noteq> [] \<Longrightarrow> \<exists>s'. s = l @ c # s' \<and> split_on c s' = ls"
proof (induction s arbitrary: l)
  case (Cons x s)
  show ?case
  proof (cases "x = c")
    case False
    then obtain l' where "split_on c s = l' # ls" "l = x # l'"
      using Cons.prems by (auto split: list.splits)
    then show ?thesis using Cons by fastforce
  qed (use Cons.prems in auto)
qed simp

lemma str_replace_no_sep:
  assumes "c \<notin> set r" "c \<notin> set s"
  shows "c \<notin> set (str_replace p r s)"
  using assms by (induction p r s rule: str_replace.induct) (auto dest: in_set_dropD)

lemma split_on_replace:
  assumes "c \<notin> set p" "c \<notin> set r"
  shows "split_on c (str_replace p r s) = map (str_replace p r) (split_on c s)"
proof (induction "split_on c s" arbitrary: s)
  case (Cons l ls)
  have l: "c \<notin> set l" using split_on_no_sep[of c s] Cons.hyps(2) by (metis list.set_intros(1))
  show ?case
  proof (cases "ls = []")
    case True
    moreover have "s = l" if "split_on c s = [l]" for s
      using that by (induction s arbitrary: l) (auto split: if_splits list.splits simp: split_on_not_Nil)
    ultimately show ?thesis using Cons.hyps(2) l assms by (metis list.simps(8,9) split_on_line str_replace_no_sep)
  next
    case False
    then obtain s' where "s = l @ c # s'" "split_on c s' = ls" using split_on_Cons_sep Cons.hyps(2) by metis
    then show ?thesis
      using Cons.hyps(1)[of s'] Cons.hyps(2) l assms
      by (simp add: str_replace_line split_on_append split_on_line str_replace_no_sep)
  qed
qed (use split_on_not_Nil in metis)

lemma settings_warning: "settings (fix_warning_level s) = map fix_warning_level (settings s)"
proof -
  have "ignored (fix_warning_level l) = ignored l" for l
    by (cases l) (auto simp: ignored_def fix_warning_level_def starts_with_def)
  moreover have "settings (fix_warning_level s) = filter (\<lambda>l. \<not> ignored l) (map fix_warning_level (split_on (CHR 0x0A) s))"
    unfolding settings_def fix_warning_level_def by (subst split_on_replace) auto
  ultimately show ?thesis by (simp add: filter_map comp_def settings_def)
qed

section \<open>Round trip\<close>

text \<open>
  A reader of TOML that does not look at comments and empty lines, and reads the text of some
  members, whose log levels are spelled as the file has them, as those members.
\<close>

definition toml_ok :: "'l config_ext \<Rightarrow> 'l GlobalWalletConfigMembers \<Rightarrow> bool" where
  "toml_ok F m \<longleftrightarrow> (\<exists>conf. cf_to_toml F m = Inr conf \<and> cf_from_toml F (fix_warning_level (fix_log_level conf)) = Inr m) \<and>
     (\<forall>s t. settings s = settings t \<longrightarrow> cf_from_toml F s = cf_from_toml F t)"

lemma create_and_write_all:
  "disk_works S \<Longrightarrow> bindE (config_io (create_file S p)) (\<lambda>_. config_io (write_all S p s)) d = (Inr (), put_file p s d)"
  by (simp add: create_file_works write_all_works config_io_def bindE_app)


section \<open>Creating a configuration\<close>

definition holds :: "string \<Rightarrow> string \<Rightarrow> disk \<Rightarrow> bool" where
  "holds p c d \<longleftrightarrow> file_at d p = Some c"

lemma keeps_config_io [keeps_intros]: "keeps I m \<Longrightarrow> keeps I (config_io m)"
  by (auto simp: keeps_def config_io_def split: prod.splits sum.splits impls_error.splits)

lemma keeps_disk_io [keeps_intros]: "keeps I m \<Longrightarrow> keeps I (disk_io m)"
  by (auto simp: keeps_def disk_io_def split: prod.splits sum.splits impls_error.splits)

lemma keeps_as_panic [keeps_intros]: "keeps I m \<Longrightarrow> keeps I (as_panic m)"
  by (auto simp: keeps_def as_panic_def split: prod.splits sum.splits config_failure.splits)

lemma keeps_config_written [keeps_intros]: "keeps I m \<Longrightarrow> keeps I (config_written n m)"
  by (auto simp: keeps_def config_written_def split: prod.splits sum.splits config_failure.splits)

lemma keeps_io: "(\<And>s. I s \<Longrightarrow> I (f s)) \<Longrightarrow> keeps I (io x f)"
  by (auto simp: io_def intro!: keeps_intros split: option.split)

lemma holds_put: "q \<noteq> p \<Longrightarrow> holds p c d \<Longrightarrow> holds p c (put_file q s d)"
  by (simp add: holds_def)

lemma keeps_gets_bind: "(\<And>x. \<exists>s. I s \<and> f s = x \<Longrightarrow> keeps I (g x)) \<Longrightarrow> keeps I (bindE (gets f) g)"
  by (auto simp: keeps_def bindE_app)

lemma holds_create_dir: "keeps (holds p c) (create_dir_all S dir)"
  by (auto simp: create_dir_all_def holds_def file_at_def intro!: keeps_io)

lemma holds_write:
  assumes "q \<noteq> p"
  shows "keeps (holds p c) (create_file S q)" "keeps (holds p c) (write_all S q s)" "keeps (holds p c) (remove_file S q)"
proof -
  have "holds p c d \<Longrightarrow> holds p c (del_file q d)" for d using assms by (simp add: holds_def)
  then show "keeps (holds p c) (create_file S q)" "keeps (holds p c) (write_all S q s)" "keeps (holds p c) (remove_file S q)"
    using holds_put[OF assms]
    by (auto simp: create_file_def write_all_def remove_file_def append_file_def intro!: keeps_intros keeps_io split: prod.split)
qed

lemma holds_secret:
  assumes "c \<noteq> []" "cf_first_line F p = None"
  shows "keeps (holds p c) (secret_or_new F S q)"
proof (cases "q = p")
  case False
  then show ?thesis
    unfolding secret_or_new_def init_api_secret_def check_api_secret_def
    by (intro keeps_intros holds_write keeps_io) auto
next
  case True
  show ?thesis
  proof (rule keepsI)
    fix d assume d: "holds p c d"
    then show "holds p c (snd (secret_or_new F S q d))"
      using assms True
      by (cases "os_open S p") (simp_all add: secret_or_new_def check_api_secret_def holds_def path_exists_def bindE_app
          config_io_def io_def)
  qed
qed

text \<open>C40. Creating a configuration, whether it succeeds or fails, leaves every file that is readable and not
  empty as it was: an existing configuration is never overwritten, and a secret that is in use
  stays.\<close>

theorem create_config_keeps_files:
  assumes "file_at (lc_disk s) p = Some c" "c \<noteq> []" "cf_first_line F p = None"
  shows "file_at (lc_disk (snd (create_config F S chain_type file_name wc lg tor ebx s))) p = Some c"
proof -
  have "keeps (holds p c) (create_config_in F S dir chain_type file_name wc lg tor ebx)" for dir
    unfolding create_config_in_def Let_def write_config_def
    by (rule keeps_bindE[OF keeps_gets], rule keeps_bindE, (intro keeps_intros holds_create_dir)[1],
        rule keeps_gets_bind, cases "path_push dir file_name = p")
      (auto intro!: keeps_intros holds_secret holds_write assms(2,3) simp: holds_def path_exists_def)
  then have "holds p c (snd (create_config_in F S (lc_data_dir s) chain_type file_name wc lg tor ebx (lc_disk s)))"
    using assms(1) by (simp add: keeps_def holds_def)
  then show ?thesis
    by (auto simp: create_config_def holds_def split: prod.split)
qed

section \<open>Witnesses\<close>

text \<open>A configuration whose text is its API port.\<close>

definition port_config :: "unit config_ext" where
  "port_config =
     \<lparr>cf_home_dir = None, cf_current_dir = Inr ''/home'', cf_shortname = (\<lambda>_. ''main''), cf_first_line = (\<lambda>_. None),
      cf_secret = ''secret'', cf_logging = (), cf_log_path = (\<lambda>_ l. l), cf_to_toml = (\<lambda>m. Inr ''[wallet]''),
      cf_from_toml = (\<lambda>s. if settings s = [''[wallet]''] then Inr \<lparr>gm_wallet = wallet_config_default,
        gm_tor = None, gm_epicbox = None, gm_logging = None\<rparr> else Inl ''no settings'')\<rparr>"


theorem create_config_keeps_files_witness:
  "file_at (lc_disk (snd (create_config port_config sample_seed Mainnet WALLET_CONFIG_FILE_NAME None None None None
     (provider_new \<lparr>dk_files = [(''default/epic-wallet.toml'', ''mine'')], dk_dirs = [''default'']\<rparr> (\<lambda>_. []) (\<lambda>_ _. None)))))
     ''default/epic-wallet.toml'' = Some ''mine''"
  by (rule create_config_keeps_files) (simp_all add: provider_new_def file_at_def port_config_def)

end
