(* ===== verification/Commands.thy ===== *)
theory Commands
  imports OwnerApi ForeignApi ConfigFiles Emoji
begin

text \<open>
  The commands of the wallet program, \<open>controller/src/command.rs\<close>, on the interfaces of the owner
  and of other wallets, each opened for a single use (\<open>controller.rs\<close>). What a command shows on the
  terminal is the value it hands to the functions of \<open>display.rs\<close>, in order. The JSON and CSV texts
  of the files it reads and writes are parameters. A listener runs over the sessions it gets.
\<close>

section \<open>The program's state\<close>

datatype shown =
    ShownPhrase string
  | ShownAccounts "AcctPathMapping list"
  | ShownEstimate u64 "(string \<times> u64 \<times> u64) list" bool
  | ShownInfo string WalletInfo bool bool
  | ShownOutputs string u64 bool "OutputCommitMapping list" bool Pager
  | ShownTxs string u64 bool "TxLogEntry list" bool Pager
  | ShownMessages TxLogEntry bool
  | ShownPaymentProof TxLogEntry
  | ShownText string

record cmd_state =
  cs_owner :: owner_state
  cs_shown :: "shown list"

type_synonym 'a cmd_op = "(cmd_state, error, 'a) proc"

record 'l cmd_env =
  cm_V :: owner_env
  cm_T :: tor_ext
  cm_F :: "'l config_ext"
  cm_glyphs :: "string list"
  cm_node_version :: "NodeVersionInfo option"
  cm_txs_of_json :: "string \<Rightarrow> string + TxLogEntry list"
  cm_txs_of_csv :: "string \<Rightarrow> (string + TxLogEntry) list"
  cm_txs_to_json :: "TxLogEntry list \<Rightarrow> string option"
  cm_txs_to_csv :: "TxLogEntry list \<Rightarrow> string \<times> string option"
  cm_tx_to_json :: "Transaction option \<Rightarrow> string option"
  cm_proof_to_json :: "PaymentProof \<Rightarrow> string option"
  cm_proof_of_json :: "string \<Rightarrow> string + PaymentProof"

text \<open>The slates' JSON text is the one of the senders.\<close>

definition cm_E :: "'l cmd_env \<Rightarrow> ext" where "cm_E M = oe_E (cm_V M)"

definition cm_S :: "'l cmd_env \<Rightarrow> seed_ext" where "cm_S M = oe_S (cm_V M)"

definition cm_J :: "'l cmd_env \<Rightarrow> json_codec" where "cm_J M = sx_codec (oe_K (cm_V M))"

definition on_owner :: "'a owner_op \<Rightarrow> 'a cmd_op" where
  "on_owner m s = (case m (cs_owner s) of (r, t) \<Rightarrow> (r, s\<lparr>cs_owner := t\<rparr>))"

definition on_lc :: "'a lc_op \<Rightarrow> 'a cmd_op" where
  "on_lc m = on_owner (on_provider m)"

definition on_path :: "(disk, error, 'a) proc \<Rightarrow> 'a cmd_op" where
  "on_path m = on_lc (\<lambda>p. case m (lc_disk p) of (r, d) \<Rightarrow> (r, p\<lparr>lc_disk := d\<rparr>))"

definition printed :: "shown \<Rightarrow> unit cmd_op" where
  "printed x = modify (\<lambda>s. s\<lparr>cs_shown := cs_shown s @ [x]\<rparr>)"

section \<open>Interfaces for a single use\<close>

text \<open>A new \<open>Owner\<close> on the wallet: no updater and no configuration of its own.\<close>

definition owner_single_use :: "bool \<Rightarrow> 'a cmd_op \<Rightarrow> 'a cmd_op" where
  "owner_single_use is_node_synced f =
     bindE (modify (\<lambda>s. s\<lparr>cs_owner := (owner_new (ow_provider (cs_owner s)) is_node_synced)
       \<lparr>ow_done := ow_done (cs_owner s), ow_kb_calls := ow_kb_calls (cs_owner s)\<rparr>\<rparr>)) (\<lambda>_. f)"

definition foreign_single_use :: "'l cmd_env \<Rightarrow> SecretKey option \<Rightarrow> (foreign_api \<Rightarrow> 'a lc_op) \<Rightarrow> 'a cmd_op" where
  "foreign_single_use M keychain_mask f = on_lc (f (foreign_new keychain_mask (Some check_middleware) (cm_node_version M)))"

text \<open>\<open>map_err(|e| Error::LibWallet(format!("{}", e)))\<close>.\<close>

definition as_lib_wallet :: "'l cmd_env \<Rightarrow> 'a cmd_op \<Rightarrow> 'a cmd_op" where
  "as_lib_wallet M m s = (case m s of
      (Inl (Panic p), t) \<Rightarrow> (Inl (Panic p), t)
    | (Inl Diverges, t) \<Rightarrow> (Inl Diverges, t)
    | (Inl e, t) \<Rightarrow> (Inl (LibWallet (error_fmt (cm_E M) e)), t)
    | (Inr x, t) \<Rightarrow> (Inr x, t))"

section \<open>Creating, recovering and accounts\<close>

record 'c GlobalArgs =
  ga_account :: string
  ga_api_secret :: "string option"
  ga_node_api_secret :: "string option"
  ga_show_spent :: bool
  ga_chain_type :: ChainTypes
  ga_password :: "string option"
  ga_tls_conf :: "'c option"
  ga_offline_mode :: bool

record InitArgs =
  ai_list_length :: nat
  ai_password :: string
  ai_config :: WalletConfig
  ai_recovery_phrase :: "string option"
  ai_restore :: bool

definition show_recovery_phrase :: "string \<Rightarrow> unit cmd_op" where
  "show_recovery_phrase phrase = printed (ShownPhrase phrase)"

definition cmd_init :: "'l cmd_env \<Rightarrow> 'c GlobalArgs \<Rightarrow> InitArgs \<Rightarrow> unit cmd_op" where
  "cmd_init M g args =
     bindE (on_lc (create_config (cm_F M) (cm_S M) (ga_chain_type g) WALLET_CONFIG_FILE_NAME None None None None)) (\<lambda>_.
     bindE (on_lc (create_wallet (cm_E M) (oe_C (cm_V M)) (cm_S M) (ai_recovery_phrase args) (ai_list_length args)
              (ai_password args) False)) (\<lambda>_.
     bindE (on_lc (get_mnemonic (oe_C (cm_V M)) (cm_S M) (ai_password args))) (\<lambda>m. show_recovery_phrase m)))"

definition cmd_recover :: "'l cmd_env \<Rightarrow> string \<Rightarrow> unit cmd_op" where
  "cmd_recover M passphrase =
     bindE (on_lc (get_mnemonic (oe_C (cm_V M)) (cm_S M) passphrase)) (\<lambda>m. show_recovery_phrase m)"

definition cmd_account :: "'l cmd_env \<Rightarrow> SecretKey option \<Rightarrow> string option \<Rightarrow> bool \<Rightarrow> unit cmd_op" where
  "cmd_account M km create is_node_synced = as_lib_wallet M (owner_single_use is_node_synced (case create of
      None \<Rightarrow> bindE (on_owner (api_accounts (cm_V M) km)) (\<lambda>acct_mappings. printed (ShownAccounts acct_mappings))
    | Some label \<Rightarrow> bindE (on_owner (api_create_account_path (cm_V M) km label)) (\<lambda>_. ret ())))"

section \<open>Listening\<close>

text \<open>
  The connections to the relay one after the other, each with the events it brings: the count of
  reconnections goes from one to the next, and the error of a connection is only logged. A
  connection that is still open after its events leaves the listener running, as does the end of
  the list.
\<close>

fun epicbox_connections ::
    "owner_env \<Rightarrow> SecretKey option \<Rightarrow> EpicboxConfig \<Rightarrow> TorConfig \<Rightarrow> u32 \<Rightarrow> ws_event list list \<Rightarrow> unit owner_op" where
  "epicbox_connections V km epicbox_config tor_config reconnections [] = ret ()"
| "epicbox_connections V km epicbox_config tor_config reconnections (events # connections) =
     bindE (looked_at (on_epicbox V
       (bindE (modify (\<lambda>b. b\<lparr>bx_reconnections := reconnections\<rparr>)) (\<lambda>_.
        bindE (attempt (epicbox_listen (oe_E V) (oe_C V) (oe_X V) km epicbox_config tor_config events)) (\<lambda>r.
        bindE (gets bx_reconnections) (\<lambda>n. case r of
          Inl (ImplsPanic p) \<Rightarrow> throw (ImplsPanic p)
        | Inl ImplsDiverges \<Rightarrow> throw ImplsDiverges
        | Inl _ \<Rightarrow> ret (False, n)
        | Inr open \<Rightarrow> ret (open, n))))))) (\<lambda>r. case r of
       Inl e \<Rightarrow> throw e
     | Inr (open, n) \<Rightarrow>
         if open then ret ()
         else if n \<ge> 5 then throw EpicboxReconnectLimit
         else epicbox_connections V km epicbox_config tor_config n connections)"

text \<open>What comes in: requests over HTTP, rounds of keybase, connections to the relay.\<close>

record arrivals =
  ar_server :: "string option"
  ar_requests :: "(bool \<times> string) list"
  ar_rounds :: "bool list"
  ar_connections :: "ws_event list list"

text \<open>Each request is answered on its own; the server runs as long as there are any.\<close>

fun foreign_listener ::
    "'l cmd_env \<Rightarrow> 'x foreign_ext_scheme \<Rightarrow> SecretKey option \<Rightarrow> string option \<Rightarrow> (bool \<times> string) list \<Rightarrow> unit lc_op" where
  "foreign_listener M X km (Some e) requests = throw (GenericError ''API thread failed to start'')"
| "foreign_listener M X km None [] = ret ()"
| "foreign_listener M X km None ((synced, body) # requests) =
     bindE (attempt (foreign_post (cm_E M) X synced km (cm_node_version M) body)) (\<lambda>_.
     foreign_listener M X km None requests)"

definition cmd_listen ::
    "'l cmd_env \<Rightarrow> 'x foreign_ext_scheme \<Rightarrow> SecretKey option \<Rightarrow> WalletConfig \<Rightarrow> TorConfig \<Rightarrow> EpicboxConfig \<Rightarrow> string \<Rightarrow>
     arrivals \<Rightarrow> unit cmd_op" where
  "cmd_listen M X km config tor_config epicbox_config method A =
     (if method = ''http'' then as_lib_wallet M (on_lc (foreign_listener M X km (ar_server A) (ar_requests A)))
      else if method = ''keybase''
      then (case keybase_all_channels_new (oe_K (cm_V M)) of
          Inl _ \<Rightarrow> throw (Panic ''Result::unwrap'')
        | Inr _ \<Rightarrow> as_lib_wallet M (bindE (on_owner (on_keybase
            (keybase_listen (cm_E M) (oe_K (cm_V M)) km config (ar_rounds A)))) (\<lambda>_. ret ())))
      else if method = ''epicbox''
      then on_owner (epicbox_connections (cm_V M) km epicbox_config tor_config 0 (ar_connections A))
      else throw (ArgumentError (''No listener for method '' @ method)))"

section \<open>Sending\<close>

record SendArgs =
  sa_amount :: u64
  sa_message :: "string option"
  sa_minimum_confirmations :: u64
  sa_selection_strategy :: string
  sa_estimate_selection_strategies :: bool
  sa_method :: string
  sa_dest :: string
  sa_change_outputs :: nat
  sa_fluff :: bool
  sa_max_outputs :: nat
  sa_target_slate_version :: "u16 option"
  sa_payment_proof_address :: "string option"
  sa_ttl_blocks :: "u64 option"

fun estimates :: "'l cmd_env \<Rightarrow> SecretKey option \<Rightarrow> InitTxArgs \<Rightarrow> bool \<Rightarrow> string list \<Rightarrow> (string \<times> u64 \<times> u64) list cmd_op" where
  "estimates M km init_args is_node_synced [] = ret []"
| "estimates M km init_args is_node_synced (strategy # strategies) =
     bindE (looked_at (on_owner (api_init_send_tx (cm_V M) km
        (init_args\<lparr>ia_selection_strategy_is_use_all := (strategy = ''all'')\<rparr>) is_node_synced))) (\<lambda>r. case r of
       Inl _ \<Rightarrow> throw (Panic ''Result::unwrap'')
     | Inr slate \<Rightarrow>
         bindE (estimates M km init_args is_node_synced strategies) (\<lambda>es. ret ((strategy, sl_amount slate, sl_fee slate) # es)))"

definition put_slate :: "'l cmd_env \<Rightarrow> string \<Rightarrow> Slate \<Rightarrow> unit cmd_op" where
  "put_slate M p slate = on_path (file_put_tx (cm_S M) (cm_T M) (cm_J M) p slate)"

definition get_slate :: "'l cmd_env \<Rightarrow> string \<Rightarrow> Slate cmd_op" where
  "get_slate M p = on_path (file_get_tx (cm_S M) (cm_J M) p)"

definition lock_outputs :: "'l cmd_env \<Rightarrow> SecretKey option \<Rightarrow> Slate \<Rightarrow> string \<Rightarrow> unit cmd_op" where
  "lock_outputs M km slate dest = on_owner (api_tx_lock_outputs (cm_V M) km slate 0 (Some dest))"

text \<open>Posting, and waiting up to four minutes for the mempool to have it.\<close>

definition post_and_wait :: "'l cmd_env \<Rightarrow> SecretKey option \<Rightarrow> Slate \<Rightarrow> bool \<Rightarrow> unit cmd_op" where
  "post_and_wait M km slate fluff =
     bindE (on_owner (api_post_tx (cm_V M) km (sl_tx slate) fluff)) (\<lambda>_.
     bindE (looked_at (on_owner (api_wait_for_tx_in_mempool (cm_V M) km (sl_id slate) 240))) (\<lambda>found.
     if found = Inr True
     then bindE (looked_at (on_owner (api_update_mempool_status (cm_V M) km slate))) (\<lambda>_. ret ())
     else ret ()))"

text \<open>A slate that came back is checked, finished and posted.\<close>

definition finish_send :: "'l cmd_env \<Rightarrow> SecretKey option \<Rightarrow> bool \<Rightarrow> Slate \<Rightarrow> unit cmd_op" where
  "finish_send M km fluff slate =
     bindE (on_owner (api_verify_slate_messages (cm_V M) km slate)) (\<lambda>_.
     bindE (on_owner (api_finalize_tx (cm_V M) km slate)) (\<lambda>slate. post_and_wait M km slate fluff))"

definition sent_by_sender :: "'l cmd_env \<Rightarrow> SecretKey option \<Rightarrow> string \<Rightarrow> string \<Rightarrow> bool \<Rightarrow> Slate \<Rightarrow> Slate cmd_op" where
  "sent_by_sender M km method dest is_node_synced slate =
     bindE (liftE (create_sender (cm_E M) (oe_K (cm_V M)) method dest)) (\<lambda>sender.
     bindE (on_owner (sender_send_tx (cm_V M) is_node_synced sender slate)) (\<lambda>slate.
     bindE (lock_outputs M km slate dest) (\<lambda>_. ret slate)))"

definition send_slate ::
    "'l cmd_env \<Rightarrow> SecretKey option \<Rightarrow> TorConfig option \<Rightarrow> EpicboxConfig option \<Rightarrow> SendArgs \<Rightarrow> bool \<Rightarrow> 'c GlobalArgs \<Rightarrow> Slate \<Rightarrow>
     unit cmd_op" where
  "send_slate M km tor_config epicbox_config args is_node_synced g slate =
     (let method = sa_method args; dest = sa_dest args in
      if method = ''emoji''
      then bindE (liftE (emoji_encode (cm_J M) (cm_glyphs M) slate)) (\<lambda>t.
           bindE (printed (ShownText t)) (\<lambda>_. lock_outputs M km slate dest))
      else if method = ''file'' then bindE (put_slate M dest slate) (\<lambda>_. lock_outputs M km slate dest)
      else if method = ''self''
      then bindE (lock_outputs M km slate dest) (\<lambda>_.
           bindE (foreign_single_use M km (\<lambda>A. foreign_receive_tx (cm_E M) A slate (Some dest) None (Some (ga_account g)))) (\<lambda>slate.
           finish_send M km (sa_fluff args) slate))
      else if method = ''epicbox''
      then bindE (case tor_config of None \<Rightarrow> throw (Panic ''TorConfig is required for epicbox send'') | Some _ \<Rightarrow> ret ()) (\<lambda>_.
           bindE (on_owner (on_epicbox (cm_V M)
              (channel_send (cm_E M) (oe_C (cm_V M)) (oe_X (cm_V M)) dest epicbox_config km slate))) (\<lambda>slate.
           lock_outputs M km slate dest))
      else bindE (sent_by_sender M km method dest is_node_synced slate) (\<lambda>slate. finish_send M km (sa_fluff args) slate))"

definition cmd_send ::
    "'l cmd_env \<Rightarrow> SecretKey option \<Rightarrow> TorConfig option \<Rightarrow> EpicboxConfig option \<Rightarrow> SendArgs \<Rightarrow> bool \<Rightarrow> bool \<Rightarrow> 'c GlobalArgs \<Rightarrow> unit cmd_op" where
  "cmd_send M km tor_config epicbox_config args dark_scheme is_node_synced g = owner_single_use is_node_synced
     (if sa_estimate_selection_strategies args
      then bindE (estimates M km (init_tx_args_default\<lparr>ia_amount := sa_amount args,
               ia_minimum_confirmations := sa_minimum_confirmations args, ia_max_outputs := of_nat (sa_max_outputs args),
               ia_num_change_outputs := of_nat (sa_change_outputs args), ia_estimate_only := Some True\<rparr>)
               is_node_synced [''smallest'', ''all'']) (\<lambda>strategies.
           printed (ShownEstimate (sa_amount args) strategies dark_scheme))
      else
        bindE (liftE (case sa_payment_proof_address args of
            Some p \<Rightarrow> and_then (ed25519_parse_pubkey (cm_E M) p) (\<lambda>k. Inr (Some k))
          | None \<Rightarrow> Inr None)) (\<lambda>payment_proof_recipient_address.
        bindE (on_owner (api_init_send_tx (cm_V M) km (init_tx_args_default\<lparr>ia_amount := sa_amount args,
               ia_minimum_confirmations := sa_minimum_confirmations args, ia_max_outputs := of_nat (sa_max_outputs args),
               ia_num_change_outputs := of_nat (sa_change_outputs args),
               ia_selection_strategy_is_use_all := (sa_selection_strategy args = ''all''),
               ia_message := sa_message args, ia_target_slate_version := sa_target_slate_version args,
               ia_payment_proof_recipient_address := payment_proof_recipient_address,
               ia_ttl_blocks := sa_ttl_blocks args, ia_send_args := None\<rparr>) is_node_synced)) (\<lambda>slate.
        send_slate M km tor_config epicbox_config args is_node_synced g slate)))"

end
