(* ===== verification/CommandSteps.thy ===== *)
theory CommandSteps
  imports Commands
begin

text \<open>
  The remaining commands of \<open>command.rs\<close>: what the recipient does, finishing and posting, invoices,
  listings, cancelling, scanning, addresses, payment proofs, and the log as a file.
\<close>

section \<open>Receiving and finishing\<close>

record ReceiveArgs =
  ra_input :: string
  ra_message :: "string option"
  ra_method :: string

text \<open>The slate that is handed in: emojis, or the path of a file.\<close>

definition handed_in :: "'l cmd_env \<Rightarrow> string \<Rightarrow> string \<Rightarrow> Slate cmd_op" where
  "handed_in M method input =
     (if method = ''emoji'' then liftE (emoji_decode (cm_J M) (cm_glyphs M) input) else get_slate M input)"

definition cmd_receive :: "'l cmd_env \<Rightarrow> SecretKey option \<Rightarrow> 'c GlobalArgs \<Rightarrow> ReceiveArgs \<Rightarrow> unit cmd_op" where
  "cmd_receive M km g args =
     bindE (handed_in M (ra_method args) (ra_input args)) (\<lambda>slate.
     bindE (foreign_single_use M km (\<lambda>A.
        bindE (foreign_verify_slate_messages (cm_E M) A slate) (\<lambda>_.
        foreign_receive_tx (cm_E M) A slate (Some (ga_account g)) (ra_message args) None))) (\<lambda>slate.
     if ra_method args = ''emoji''
     then bindE (liftE (emoji_encode (cm_J M) (cm_glyphs M) slate)) (\<lambda>t. printed (ShownText t))
     else put_slate M (ra_input args @ ''.response'') slate))"

record FinalizeArgs =
  fi_method :: string
  fi_input :: string
  fi_fluff :: bool
  fi_nopost :: bool
  fi_dest :: "string option"

definition cmd_finalize :: "'l cmd_env \<Rightarrow> SecretKey option \<Rightarrow> FinalizeArgs \<Rightarrow> bool \<Rightarrow> unit cmd_op" where
  "cmd_finalize M km args is_node_synced =
     bindE (handed_in M (fi_method args) (fi_input args)) (\<lambda>slate.
     bindE (case participant_with_id 1 slate of
         None \<Rightarrow> throw (ArgumentError ''Expected Slate participant data missing'')
       | Some p \<Rightarrow> ret (\<not> is_complete p)) (\<lambda>is_invoice.
     bindE (if is_invoice
        then foreign_single_use M km (\<lambda>A.
           bindE (foreign_verify_slate_messages (cm_E M) A slate) (\<lambda>_. foreign_finalize_invoice_tx (cm_E M) A slate))
        else owner_single_use is_node_synced
          (bindE (on_owner (api_verify_slate_messages (cm_V M) km slate)) (\<lambda>_.
           on_owner (api_finalize_tx (cm_V M) km slate)))) (\<lambda>slate.
     bindE (if \<not> fi_nopost args
            then owner_single_use is_node_synced (post_and_wait M km slate (fi_fluff args)) else ret ()) (\<lambda>_.
     case fi_dest args of Some dest \<Rightarrow> put_slate M dest slate | None \<Rightarrow> ret ()))))"

section \<open>Invoices\<close>

definition cmd_issue_invoice_tx :: "'l cmd_env \<Rightarrow> SecretKey option \<Rightarrow> string \<Rightarrow> IssueInvoiceTxArgs \<Rightarrow> bool \<Rightarrow> unit cmd_op" where
  "cmd_issue_invoice_tx M km dest issue_args is_node_synced = owner_single_use is_node_synced
     (bindE (on_owner (api_issue_invoice_tx (cm_V M) km issue_args)) (\<lambda>slate. put_slate M dest slate))"

record ProcessInvoiceArgs =
  pi_message :: "string option"
  pi_minimum_confirmations :: u64
  pi_selection_strategy :: string
  pi_method :: string
  pi_dest :: string
  pi_max_outputs :: nat
  pi_input :: string
  pi_estimate_selection_strategies :: bool
  pi_ttl_blocks :: "u64 option"

definition hand_over_invoice ::
    "'l cmd_env \<Rightarrow> SecretKey option \<Rightarrow> string \<Rightarrow> string \<Rightarrow> bool \<Rightarrow> Slate \<Rightarrow> unit cmd_op" where
  "hand_over_invoice M km method dest is_node_synced slate =
     (if method = ''file'' then bindE (put_slate M dest slate) (\<lambda>_. lock_outputs M km slate dest)
      else if method = ''self''
      then bindE (lock_outputs M km slate dest) (\<lambda>_.
           bindE (foreign_single_use M km (\<lambda>A. foreign_finalize_invoice_tx (cm_E M) A slate)) (\<lambda>_. ret ()))
      else bindE (sent_by_sender M km method dest is_node_synced slate) (\<lambda>_. ret ()))"

definition cmd_process_invoice :: "'l cmd_env \<Rightarrow> SecretKey option \<Rightarrow> ProcessInvoiceArgs \<Rightarrow> bool \<Rightarrow> bool \<Rightarrow> unit cmd_op" where
  "cmd_process_invoice M km args dark_scheme is_node_synced =
     bindE (get_slate M (pi_input args)) (\<lambda>slate. owner_single_use is_node_synced
     (if pi_estimate_selection_strategies args
      then bindE (estimates M km (init_tx_args_default\<lparr>ia_amount := sl_amount slate,
               ia_minimum_confirmations := pi_minimum_confirmations args, ia_max_outputs := of_nat (pi_max_outputs args),
               ia_num_change_outputs := 1, ia_estimate_only := Some True\<rparr>) is_node_synced [''smallest'', ''all'']) (\<lambda>strategies.
           printed (ShownEstimate (sl_amount slate) strategies dark_scheme))
      else
        bindE (on_owner (api_verify_slate_messages (cm_V M) km slate)) (\<lambda>_.
        bindE (on_owner (api_process_invoice_tx (cm_V M) km slate (init_tx_args_default\<lparr>ia_amount := 0,
               ia_minimum_confirmations := pi_minimum_confirmations args, ia_max_outputs := of_nat (pi_max_outputs args),
               ia_num_change_outputs := 1, ia_selection_strategy_is_use_all := (pi_selection_strategy args = ''all''),
               ia_message := pi_message args, ia_ttl_blocks := pi_ttl_blocks args, ia_send_args := None\<rparr>))) (\<lambda>slate.
        hand_over_invoice M km (pi_method args) (pi_dest args) is_node_synced slate))))"

section \<open>Listings\<close>

definition cmd_info :: "'l cmd_env \<Rightarrow> SecretKey option \<Rightarrow> 'c GlobalArgs \<Rightarrow> u64 \<Rightarrow> bool \<Rightarrow> bool \<Rightarrow> unit cmd_op" where
  "cmd_info M km g minimum_confirmations dark_scheme is_node_synced = owner_single_use is_node_synced
     (bindE (on_owner (api_retrieve_summary_info (cm_V M) km True minimum_confirmations)) (\<lambda>(validated, wallet_info).
      printed (ShownInfo (ga_account g) wallet_info validated dark_scheme)))"

record OutputsArgs =
  ou_show_full_history :: bool
  ou_limit :: "nat option"
  ou_offset :: "nat option"
  ou_sort_order :: "string option"

definition show_outputs :: "string \<Rightarrow> u64 \<Rightarrow> bool \<Rightarrow> RetrieveOutputsResult \<Rightarrow> unit cmd_op" where
  "show_outputs account height dark_scheme r =
     printed (ShownOutputs account height (ro_refresh_from_node r) (ro_outputs r) dark_scheme (ro_pager r))"

definition cmd_outputs :: "'l cmd_env \<Rightarrow> SecretKey option \<Rightarrow> 'c GlobalArgs \<Rightarrow> OutputsArgs \<Rightarrow> bool \<Rightarrow> bool \<Rightarrow> unit cmd_op" where
  "cmd_outputs M km g args dark_scheme is_node_synced = owner_single_use is_node_synced
     (bindE (on_owner (api_node_height (cm_V M) km)) (\<lambda>res.
      bindE (on_owner (api_retrieve_outputs (cm_V M) km (ga_show_spent g) True (ou_show_full_history args) None
               (ou_limit args) (ou_offset args) (ou_sort_order args))) (\<lambda>outputs_result.
      show_outputs (ga_account g) (nh_height res) dark_scheme outputs_result)))"

record TxsArgs =
  ta_id :: "u32 option"
  ta_tx_slate_id :: "Uuid option"
  ta_limit :: "nat option"
  ta_offset :: "nat option"
  ta_sort_order :: "string option"

text \<open>The entry whose outputs are shown too.\<close>

definition shown_id :: "TxsArgs \<Rightarrow> TxLogEntry list \<Rightarrow> u32 option" where
  "shown_id args txs =
     (if ta_id args \<noteq> None then ta_id args
      else if ta_tx_slate_id args \<noteq> None
      then map_option tl_id (find (\<lambda>t. tl_tx_slate_id t = ta_tx_slate_id args) txs)
      else None)"

definition cmd_txs :: "'l cmd_env \<Rightarrow> SecretKey option \<Rightarrow> 'c GlobalArgs \<Rightarrow> TxsArgs \<Rightarrow> bool \<Rightarrow> bool \<Rightarrow> unit cmd_op" where
  "cmd_txs M km g args dark_scheme is_node_synced = owner_single_use is_node_synced
     (bindE (on_owner (api_node_height (cm_V M) km)) (\<lambda>res.
      bindE (on_owner (api_retrieve_txs (cm_V M) km True (ta_id args) (ta_tx_slate_id args) (ta_limit args)
               (ta_offset args) (ta_sort_order args))) (\<lambda>txs_result.
      (let display_details = (ta_id args \<noteq> None \<or> ta_tx_slate_id args \<noteq> None);
           tx_id = shown_id args (rt_txs txs_result);
           show_txs = printed (ShownTxs (ga_account g) (nh_height res) (rt_refresh_from_node txs_result) (rt_txs txs_result)
             display_details (rt_pager txs_result))
       in
       bindE (if ta_id args = None \<and> ta_tx_slate_id args \<noteq> None \<and> tx_id = None
              then printed (ShownText ''Could not find a transaction matching given txid.'') else ret ()) (\<lambda>_.
       if tx_id \<noteq> None \<and> display_details
       then
         bindE (on_owner (api_retrieve_outputs (cm_V M) km True True False tx_id None None None)) (\<lambda>outputs_result.
         bindE show_txs (\<lambda>_.
         bindE (show_outputs (ga_account g) (nh_height res) dark_scheme outputs_result) (\<lambda>_.
         for_each (\<lambda>tx. bindE (printed (ShownMessages tx dark_scheme)) (\<lambda>_. printed (ShownPaymentProof tx)))
           (rt_txs txs_result))))
       else show_txs)))))"

section \<open>Posting, cancelling, scanning\<close>

definition cmd_post :: "'l cmd_env \<Rightarrow> SecretKey option \<Rightarrow> string \<Rightarrow> bool \<Rightarrow> bool \<Rightarrow> unit cmd_op" where
  "cmd_post M km input fluff is_node_synced =
     bindE (get_slate M input) (\<lambda>slate. owner_single_use is_node_synced
       (on_owner (api_post_tx (cm_V M) km (sl_tx slate) fluff)))"

record RepostArgs =
  re_id :: u32
  re_dump_file :: "string option"
  re_fluff :: bool

text \<open>\<open>File::create\<close>, \<open>write_all\<close> and \<open>sync_all\<close>.\<close>

definition write_text :: "'l cmd_env \<Rightarrow> string \<Rightarrow> string option \<Rightarrow> unit cmd_op" where
  "write_text M p t =
     bindE (on_path (on_files (create_file (cm_S M) p))) (\<lambda>_.
     bindE (liftE (or_err (Panic ''Result::unwrap'') t)) (\<lambda>t.
     bindE (on_path (on_files (write_all (cm_S M) p t))) (\<lambda>_.
     on_path (on_files (io (os_sync (cm_T M) p) id)))))"

definition cmd_repost :: "'l cmd_env \<Rightarrow> SecretKey option \<Rightarrow> RepostArgs \<Rightarrow> bool \<Rightarrow> unit cmd_op" where
  "cmd_repost M km args is_node_synced = owner_single_use is_node_synced
     (bindE (on_owner (api_retrieve_txs (cm_V M) km True (Some (re_id args)) None None None None)) (\<lambda>txs.
      case rt_txs txs of
        [] \<Rightarrow> throw (Panic ''index out of bounds'')
      | tx # _ \<Rightarrow>
          bindE (on_owner (api_get_stored_tx (cm_V M) km tx)) (\<lambda>stored_tx. case stored_tx of
            None \<Rightarrow> ret ()
          | Some t \<Rightarrow> (case re_dump_file args of
              None \<Rightarrow> if tl_confirmed tx then ret () else on_owner (api_post_tx (cm_V M) km t (re_fluff args))
            | Some f \<Rightarrow> write_text M f (cm_tx_to_json M stored_tx)))))"

definition cmd_cancel :: "'l cmd_env \<Rightarrow> SecretKey option \<Rightarrow> u32 option \<Rightarrow> Uuid option \<Rightarrow> bool \<Rightarrow> unit cmd_op" where
  "cmd_cancel M km tx_id tx_slate_id is_node_synced =
     owner_single_use is_node_synced (on_owner (api_cancel_tx (cm_V M) km tx_id tx_slate_id))"

definition cmd_scan :: "'l cmd_env \<Rightarrow> SecretKey option \<Rightarrow> bool \<Rightarrow> u64 option \<Rightarrow> bool \<Rightarrow> unit cmd_op" where
  "cmd_scan M km delete_unconfirmed start_height is_node_synced =
     owner_single_use is_node_synced (on_owner (api_scan (cm_V M) km start_height delete_unconfirmed))"

section \<open>Addresses and payment proofs\<close>

definition cmd_address :: "'l cmd_env \<Rightarrow> 'c GlobalArgs \<Rightarrow> SecretKey option \<Rightarrow> EpicboxConfig \<Rightarrow> bool \<Rightarrow> unit cmd_op" where
  "cmd_address M g km epicbox_config is_node_synced = owner_single_use is_node_synced
     (bindE (on_owner (api_get_public_proof_address (cm_V M) km 0)) (\<lambda>pub_key.
      bindE (on_owner (api_get_public_address (cm_V M) km 0)) (\<lambda>address.
      case onion_v3_from_pubkey (cm_E M) pub_key of
        Inl e \<Rightarrow> throw e
      | Inr a \<Rightarrow> (case ec_domain epicbox_config of
          None \<Rightarrow> throw (Panic ''Option::unwrap'')
        | Some domain \<Rightarrow>
            bindE (printed (ShownText (ea_public_key address @ ''@'' @ domain))) (\<lambda>_.
            bindE (printed (ShownText (util_to_hex (cm_S M) pub_key))) (\<lambda>_.
            printed (ShownText a)))))))"

definition cmd_proof_export :: "'l cmd_env \<Rightarrow> SecretKey option \<Rightarrow> string \<Rightarrow> u32 option \<Rightarrow> Uuid option \<Rightarrow> bool \<Rightarrow> unit cmd_op" where
  "cmd_proof_export M km output_file tx_id tx_slate_id is_node_synced = owner_single_use is_node_synced
     (bindE (on_owner (api_retrieve_payment_proof (cm_V M) km True tx_id tx_slate_id)) (\<lambda>p.
      write_text M output_file (cm_proof_to_json M p)))"

text \<open>The text of a file, the error of opening it being the given one.\<close>

definition read_text :: "'l cmd_env \<Rightarrow> (string \<Rightarrow> error) \<Rightarrow> string \<Rightarrow> string cmd_op" where
  "read_text M f p =
     bindE (liftE (case os_open (cm_S M) p of Some e \<Rightarrow> Inl (f e) | None \<Rightarrow> Inr ())) (\<lambda>_.
     bindE (on_path (gets (\<lambda>d. file_at d p))) (\<lambda>c. case c of
       None \<Rightarrow> throw (f ''No such file or directory'')
     | Some t \<Rightarrow> bindE (on_path (on_files (io (os_read_text (cm_S M) p) id))) (\<lambda>_. ret t)))"

definition proof_verdict :: "bool \<Rightarrow> bool \<Rightarrow> string list" where
  "proof_verdict iam_sender iam_recipient =
     ''Payment proof's signatures are valid.'' #
     (if iam_sender then [''The proof's sender address belongs to this wallet.''] else []) @
     (if iam_recipient then [''The proof's recipient address belongs to this wallet.''] else []) @
     (if \<not> iam_recipient \<and> \<not> iam_sender
      then [''Neither the proof's sender nor recipient address belongs to this wallet.''] else [])"

definition cmd_proof_verify :: "'l cmd_env \<Rightarrow> SecretKey option \<Rightarrow> string \<Rightarrow> bool \<Rightarrow> unit cmd_op" where
  "cmd_proof_verify M km input_file is_node_synced = owner_single_use is_node_synced
     (bindE (read_text M PaymentProofParsing input_file) (\<lambda>t.
      bindE (liftE (case cm_proof_of_json M t of Inl e \<Rightarrow> Inl (PaymentProofParsing e) | Inr p \<Rightarrow> Inr p)) (\<lambda>p.
      bindE (on_owner (api_verify_payment_proof (cm_V M) km p)) (\<lambda>(iam_sender, iam_recipient).
      for_each (\<lambda>l. printed (ShownText l)) (proof_verdict iam_sender iam_recipient)))))"

section \<open>The log as a file\<close>

record ExportTxArgs =
  et_id :: "u32 option"
  et_all :: bool
  et_output :: string
  et_format :: string

definition cmd_export_tx :: "'l cmd_env \<Rightarrow> SecretKey option \<Rightarrow> ExportTxArgs \<Rightarrow> bool \<Rightarrow> unit cmd_op" where
  "cmd_export_tx M km args is_node_synced = owner_single_use is_node_synced
     (bindE (on_owner (api_retrieve_txs (cm_V M) km True (et_id args) None None None None)) (\<lambda>txs_result.
      bindE (liftE (if et_all args then Inr (rt_txs txs_result)
         else (case et_id args of
             Some i \<Rightarrow> Inr (filter (\<lambda>t. tl_id t = i) (rt_txs txs_result))
           | None \<Rightarrow> Inl (ArgumentError ''Must specify --id or --all'')))) (\<lambda>txs.
      if txs = [] then throw (ArgumentError ''No transactions found to export'')
      else
        bindE (on_path (on_files (create_file (cm_S M) (et_output args)))) (\<lambda>_.
        if et_format args = ''json''
        then bindE (liftE (or_err (Panic ''Result::unwrap'') (cm_txs_to_json M txs))) (\<lambda>t.
             on_path (on_files (write_all (cm_S M) (et_output args) t)))
        else if et_format args = ''csv''
        then (case cm_txs_to_csv M txs of (t, failure) \<Rightarrow>
             bindE (on_path (on_files (write_all (cm_S M) (et_output args) t))) (\<lambda>_. case failure of
               Some e \<Rightarrow> throw (ArgumentError (''CSV serialization error: '' @ e)) | None \<Rightarrow> ret ()))
        else throw (ArgumentError (''Invalid format, must be 'json' or 'csv'' @ [CHR 0x27]))))))"

record ImportTxArgs =
  it_input :: string
  it_format :: string

fun csv_entries :: "(string + TxLogEntry) list \<Rightarrow> error + TxLogEntry list" where
  "csv_entries [] = Inr []"
| "csv_entries (Inl e # rs) = Inl (ArgumentError (''CSV parse error: '' @ e))"
| "csv_entries (Inr tx # rs) = and_then (csv_entries rs) (\<lambda>txs. Inr (tx # txs))"

definition read_entries :: "'l cmd_env \<Rightarrow> string \<Rightarrow> string \<Rightarrow> error + TxLogEntry list" where
  "read_entries M format t =
     (if format = ''json''
      then (case cm_txs_of_json M t of Inl e \<Rightarrow> Inl (ArgumentError (''JSON parse error: '' @ e)) | Inr txs \<Rightarrow> Inr txs)
      else if format = ''csv'' then csv_entries (cm_txs_of_csv M t)
      else Inl (ArgumentError (''Invalid format, must be 'json' or 'csv'' @ [CHR 0x27])))"

text \<open>Entries whose number or slate the log had before are left out.\<close>

definition already_there :: "TxLogEntry list \<Rightarrow> TxLogEntry \<Rightarrow> bool" where
  "already_there existing tx \<longleftrightarrow>
     tl_id tx \<in> set (map tl_id existing) \<or>
     (tl_tx_slate_id tx \<noteq> None \<and> tl_tx_slate_id tx \<in> set (map tl_tx_slate_id existing))"

definition import_entries :: "ext \<Rightarrow> SecretKey option \<Rightarrow> TxLogEntry list \<Rightarrow> unit op" where
  "import_entries E km imported_txs =
     bindE (gets tx_log_iter) (\<lambda>existing.
     bindE (batch E km) (\<lambda>_.
     bindE (for_each (\<lambda>tx.
        if already_there existing tx then ret () else save_tx_log_entry E tx (tl_parent_key_id tx)) imported_txs) (\<lambda>_.
     commit)))"

definition cmd_import_tx :: "'l cmd_env \<Rightarrow> SecretKey option \<Rightarrow> ImportTxArgs \<Rightarrow> bool \<Rightarrow> unit cmd_op" where
  "cmd_import_tx M km args is_node_synced = owner_single_use is_node_synced
     (bindE (read_text M StdIO (it_input args)) (\<lambda>t.
      bindE (liftE (read_entries M (it_format args) t)) (\<lambda>imported_txs.
      on_owner (use_wallet (import_entries (cm_E M) km imported_txs)))))"

end
