(* ===== verification/CommandProps.thy ===== *)
theory CommandProps
  imports CommandSteps OwnerProps LockProps ConfigProps
begin

text \<open>
  What the commands do to the wallet: whatever is called, the open wallet stays well formed and
  keeps its log; only validated transactions are posted when sending; an import adds the entries
  that are new, and only those.
\<close>

section \<open>The open wallet\<close>

definition at_cmd :: "(provider \<Rightarrow> bool) \<Rightarrow> cmd_state \<Rightarrow> bool" where
  "at_cmd J s \<longleftrightarrow> J (ow_provider (cs_owner s))"

lemma keeps_on_owner: "keeps (at_owner J) m \<Longrightarrow> keeps (at_cmd J) (on_owner m)"
  by (auto simp: keeps_def at_cmd_def at_owner_def on_owner_def split: prod.split)

lemma keeps_on_lc: "keeps J m \<Longrightarrow> keeps (at_cmd J) (on_lc m)"
  unfolding on_lc_def by (intro keeps_on_owner keeps_on_provider)

lemma keeps_printed [keeps_intros]: "keeps (at_cmd J) (printed x)"
  unfolding printed_def by (intro keeps_intros) (simp add: at_cmd_def)

lemma keeps_single_use: "keeps (at_cmd J) m \<Longrightarrow> keeps (at_cmd J) (owner_single_use b m)"
  unfolding owner_single_use_def by (intro keeps_intros) (simp_all add: at_cmd_def owner_new_def)

lemma keeps_foreign_single_use: "(\<And>A. keeps J (f A)) \<Longrightarrow> keeps (at_cmd J) (foreign_single_use M km f)"
  unfolding foreign_single_use_def by (intro keeps_on_lc)

lemma as_lib_wallet_state: "snd (as_lib_wallet M m s) = snd (m s)"
proof (cases "m s")
  case (Pair r t)
  show ?thesis
  proof (cases r)
    case (Inl e)
    then show ?thesis using Pair by (cases e) (simp_all add: as_lib_wallet_def)
  qed (simp add: Pair as_lib_wallet_def)
qed

lemma keeps_as_lib_wallet: "keeps I m \<Longrightarrow> keeps I (as_lib_wallet M m)"
  by (simp add: keeps_def as_lib_wallet_state)

lemma serving_path: "keeps (at_cmd (serving I dbs b)) (on_path m)"
  unfolding on_path_def by (intro keeps_on_lc) (auto simp: keeps_def serving_def split: prod.split)

lemma serving_slates:
  "keeps (at_cmd (serving I dbs b)) (put_slate M p sl)" "keeps (at_cmd (serving I dbs b)) (get_slate M p)"
  "keeps (at_cmd (serving I dbs b)) (handed_in M method p)" "keeps (at_cmd (serving I dbs b)) (write_text M p t)"
  "keeps (at_cmd (serving I dbs b)) (read_text M f p)"
  unfolding put_slate_def get_slate_def handed_in_def write_text_def read_text_def
  by (intro keeps_intros serving_path)+

text \<open>Any command but those that create, delete or change a wallet, on the wallet that is open.\<close>

inductive wallet_command :: "'l cmd_env \<Rightarrow> cmd_state \<Rightarrow> cmd_state \<Rightarrow> bool" for M where
  recover: "wallet_command M s (snd (cmd_recover M passphrase s))"
| account: "wallet_command M s (snd (cmd_account M km create synced s))"
| listen: "wallet_command M s (snd (cmd_listen M (X :: foreign_ext) km config tc ec method A s))"
| send: "wallet_command M s (snd (cmd_send M km tor_config epicbox_config args dark synced (g :: unit GlobalArgs) s))"
| receive: "wallet_command M s (snd (cmd_receive M km (g :: unit GlobalArgs) rargs s))"
| finalize: "wallet_command M s (snd (cmd_finalize M km fargs synced s))"
| issue_invoice: "wallet_command M s (snd (cmd_issue_invoice_tx M km dest iargs synced s))"
| process_invoice: "wallet_command M s (snd (cmd_process_invoice M km pargs dark synced s))"
| info: "wallet_command M s (snd (cmd_info M km (g :: unit GlobalArgs) n dark synced s))"
| outputs: "wallet_command M s (snd (cmd_outputs M km (g :: unit GlobalArgs) oargs dark synced s))"
| txs: "wallet_command M s (snd (cmd_txs M km (g :: unit GlobalArgs) targs dark synced s))"
| post: "wallet_command M s (snd (cmd_post M km input fluff synced s))"
| repost: "wallet_command M s (snd (cmd_repost M km reargs synced s))"
| cancel: "wallet_command M s (snd (cmd_cancel M km tx_id u synced s))"
| scan: "wallet_command M s (snd (cmd_scan M km del start synced s))"
| address: "wallet_command M s (snd (cmd_address M (g :: unit GlobalArgs) km ec synced s))"
| proof_export: "wallet_command M s (snd (cmd_proof_export M km p tx_id u synced s))"
| proof_verify: "wallet_command M s (snd (cmd_proof_verify M km p synced s))"
| export_tx: "wallet_command M s (snd (cmd_export_tx M km eargs synced s))"
| import_tx: "wallet_command M s (snd (cmd_import_tx M km margs synced s))"

context batch_invariant
begin

lemma inv_import: "keeps I (import_entries E km txs)"
  unfolding import_entries_def by (intro keeps_intros inv_writes)

lemma serving_owner_calls:
  assumes "oe_E (cm_V M) = E"
  shows "keeps (at_cmd (serving I dbs b)) (lock_outputs M km sl d)"
    "keeps (at_cmd (serving I dbs b)) (post_and_wait M km sl f)"
    "keeps (at_cmd (serving I dbs b)) (finish_send M km f sl)"
  unfolding lock_outputs_def finish_send_def post_and_wait_def
  by (intro keeps_intros keeps_on_owner serving_api_queries serving_api_steps assms)+

lemma serving_estimates:
  assumes "oe_E (cm_V M) = E"
  shows "keeps (at_cmd (serving I dbs b)) (estimates M km args synced strategies)"
proof (induction strategies)
  case Nil
  show ?case unfolding estimates.simps by (intro keeps_intros)
next
  case (Cons st strategies)
  show ?case unfolding estimates.simps by (intro keeps_intros keeps_on_owner serving_api_send assms Cons)
qed

lemma serving_send_slate:
  assumes "oe_E (cm_V M) = E"
  shows "keeps (at_cmd (serving I dbs b)) (sent_by_sender M km method d synced sl)"
    "keeps (at_cmd (serving I dbs b)) (send_slate M km tc ec args synced g sl)"
    "keeps (at_cmd (serving I dbs b)) (hand_over_invoice M km method d synced sl)"
proof -
  have "keeps (at_owner (serving I dbs b)) (sender_send_tx V synced sender s)" for V sender s
    by (cases sender) (auto simp: sender_send_tx_def intro!: keeps_intros keeps_on_keybase keeps_keybase_send)
  then show sent: "keeps (at_cmd (serving I dbs b)) (sent_by_sender M km way d synced sl)" for way d sl
    unfolding sent_by_sender_def by (intro keeps_intros keeps_on_owner serving_owner_calls assms)
  show "keeps (at_cmd (serving I dbs b)) (send_slate M km tc ec args synced g sl)"
    unfolding send_slate_def Let_def cm_E_def assms
    by (intro keeps_intros serving_owner_calls serving_slates keeps_foreign_single_use serving_foreign keeps_on_owner
        keeps_on_epicbox serving_channel_send sent assms)
  show "keeps (at_cmd (serving I dbs b)) (hand_over_invoice M km method d synced sl)"
    unfolding hand_over_invoice_def cm_E_def assms
    by (intro keeps_intros serving_owner_calls serving_slates keeps_foreign_single_use serving_foreign sent assms)
qed

lemma serving_listeners:
  assumes "oe_E (cm_V M) = E"
  shows "keeps (serving I dbs b) (foreign_listener M X km e requests)"
    "keeps (at_owner (serving I dbs b)) (epicbox_connections (cm_V M) km ec tc n connections)"
    "keeps (at_cmd (serving I dbs b)) (cmd_listen M X km config tc ec method A)"
proof -
  have "keeps (serving I dbs b) (foreign_listener M X km None requests)" for requests
  proof (induction requests)
    case (Cons r requests)
    then show ?case
      by (cases r) (auto simp: cm_E_def assms intro!: keeps_intros serving_foreign_post)
  qed (unfold foreign_listener.simps, intro keeps_intros)
  then have http: "keeps (serving I dbs b) (foreign_listener M X km e requests)" for e requests
    by (cases e) (simp_all add: keeps_throw)
  then show "keeps (serving I dbs b) (foreign_listener M X km e requests)" .
  have relay: "keeps (at_owner (serving I dbs b)) (epicbox_connections (cm_V M) km ec tc n connections)" for n connections
  proof (induction connections arbitrary: n)
    case (Cons events connections)
    show ?case unfolding epicbox_connections.simps assms
      by (intro keeps_intros keeps_on_epicbox serving_listen Cons) (simp_all add: at_defs keeps_intros split: impls_error.split)
  qed (unfold epicbox_connections.simps, intro keeps_intros)
  then show "keeps (at_owner (serving I dbs b)) (epicbox_connections (cm_V M) km ec tc n connections)" .
  show "keeps (at_cmd (serving I dbs b)) (cmd_listen M X km config tc ec method A)"
    unfolding cmd_listen_def cm_E_def assms
    by (intro keeps_intros keeps_as_lib_wallet keeps_on_lc keeps_on_owner keeps_on_keybase serving_kb_listen http relay)
qed

lemma serving_reports:
  assumes "oe_E (cm_V M) = E"
  shows "keeps (at_cmd (serving I dbs b)) (cmd_recover M passphrase)"
    "keeps (at_cmd (serving I dbs b)) (cmd_account M km create synced)"
    "keeps (at_cmd (serving I dbs b)) (cmd_info M km g n dark synced)"
    "keeps (at_cmd (serving I dbs b)) (cmd_outputs M km g oargs dark synced)"
    "keeps (at_cmd (serving I dbs b)) (cmd_txs M km g targs dark synced)"
    "keeps (at_cmd (serving I dbs b)) (cmd_address M g km ec synced)"
    "keeps (at_cmd (serving I dbs b)) (cmd_proof_export M km p tx_id u synced)"
    "keeps (at_cmd (serving I dbs b)) (cmd_proof_verify M km p synced)"
    "keeps (at_cmd (serving I dbs b)) (cmd_export_tx M km eargs synced)"
    "keeps (at_cmd (serving I dbs b)) (cmd_import_tx M km margs synced)"
proof -
  have disk: "keeps (serving I dbs b) (on_disk f m)" for f m
    by (auto simp: keeps_def serving_def on_disk_def split: prod.split)
  show "keeps (at_cmd (serving I dbs b)) (cmd_recover M passphrase)"
    unfolding cmd_recover_def get_mnemonic_def show_recovery_phrase_def by (intro keeps_intros keeps_on_lc disk)
  show "keeps (at_cmd (serving I dbs b)) (cmd_account M km create synced)"
    unfolding cmd_account_def
    by (intro keeps_intros keeps_as_lib_wallet keeps_single_use keeps_on_owner serving_api_queries assms)
  show "keeps (at_cmd (serving I dbs b)) (cmd_import_tx M km margs synced)"
    unfolding cmd_import_tx_def cm_E_def assms
    by (intro keeps_intros keeps_single_use serving_slates keeps_on_owner serving_wallet inv_import)
qed (unfold cmd_info_def cmd_outputs_def cmd_txs_def cmd_address_def cmd_proof_export_def cmd_proof_verify_def
      cmd_export_tx_def show_outputs_def Let_def,
    (intro keeps_intros keeps_single_use serving_slates serving_path keeps_on_owner serving_api_queries assms)+)

lemma serving_commands:
  assumes "oe_E (cm_V M) = E"
  shows "keeps (at_cmd (serving I dbs b)) (cmd_send M km tor_config epicbox_config args dark synced g)"
    "keeps (at_cmd (serving I dbs b)) (cmd_receive M km g rargs)"
    "keeps (at_cmd (serving I dbs b)) (cmd_finalize M km fargs synced)"
    "keeps (at_cmd (serving I dbs b)) (cmd_issue_invoice_tx M km dest iargs synced)"
    "keeps (at_cmd (serving I dbs b)) (cmd_process_invoice M km pargs dark synced)"
    "keeps (at_cmd (serving I dbs b)) (cmd_post M km input fluff synced)"
    "keeps (at_cmd (serving I dbs b)) (cmd_repost M km reargs synced)"
    "keeps (at_cmd (serving I dbs b)) (cmd_cancel M km tx_id u synced)"
    "keeps (at_cmd (serving I dbs b)) (cmd_scan M km del start synced)"
  unfolding cmd_send_def cmd_receive_def cmd_finalize_def cmd_issue_invoice_tx_def cmd_process_invoice_def cmd_post_def
    cmd_repost_def cmd_cancel_def cmd_scan_def cm_E_def assms
  by (intro keeps_intros keeps_single_use keeps_foreign_single_use serving_slates serving_owner_calls serving_estimates
      serving_send_slate serving_foreign keeps_on_owner serving_api_queries serving_api_steps serving_api_send assms)+

lemma commands_keep_serving:
  assumes "(wallet_command M)\<^sup>*\<^sup>* s t" "oe_E (cm_V M) = E" "at_cmd (serving I dbs b) s"
  shows "at_cmd (serving I dbs b) t"
  using assms(1,3)
proof (induction rule: rtranclp_induct)
  case (step t u)
  then have t: "at_cmd (serving I dbs b) t" by blast
  note K = serving_reports[OF assms(2)] serving_commands[OF assms(2)] serving_listeners(3)[OF assms(2)]
  note K' = K[unfolded keeps_def, rule_format, OF t]
  from step.hyps(2) show ?case by (cases rule: wallet_command.cases) (simp_all only: K')
qed

end

section \<open>The commands on the open wallet\<close>

lemma command_on_open:
  assumes "batch_invariant (oe_E (cm_V M)) I" "(wallet_command M)\<^sup>*\<^sup>* s t"
    and "lc_backend (ow_provider (cs_owner s)) = Some (dir, w)" "I w"
  shows "\<exists>w'. lc_backend (ow_provider (cs_owner t)) = Some (dir, w') \<and> I w'"
  using batch_invariant.commands_keep_serving[OF assms(1,2) refl, of "lc_dbs (ow_provider (cs_owner s))" "Some dir"] assms(3,4)
  by (auto simp: at_cmd_def serving_def)


definition sample_commands :: "unit cmd_env" where
  "sample_commands = \<lparr>cm_V = sample_env, cm_T = sample_tor, cm_F = port_config, cm_glyphs = [], cm_node_version = None,
     cm_txs_of_json = (\<lambda>_. Inl []), cm_txs_of_csv = (\<lambda>_. []), cm_txs_to_json = (\<lambda>_. None), cm_txs_to_csv = (\<lambda>_. ([], None)),
     cm_tx_to_json = (\<lambda>_. None), cm_proof_to_json = (\<lambda>_. None), cm_proof_of_json = (\<lambda>_. Inl [])\<rparr>"

abbreviation commands_start :: cmd_state where
  "commands_start \<equiv> \<lparr>cs_owner = owner_new serving_provider True, cs_shown = []\<rparr>"


section \<open>Importing a log\<close>

lemma tx_at_listed:
  assumes "keys_ok E" "wallet_ok E w" "tx_at E w (i, n) = Some t"
  shows "t \<in> set (tx_log_iter w)"
proof -
  obtain v where v: "store_get (tx_log_key E i n) (w_db w) = Some v" "as_txlogentry v = Some t"
    using assms(3) by (auto simp: tx_at_def get_ser_def bind_eq_Some_conv)
  then obtain r where "r \<in> set (w_db w)" "r_key r = tx_log_key E i n" "r_data r = v"
    using store_get_Some assms(2) unfolding wallet_ok_def by (metis db_ok_unique)
  moreover have "r_prefix r = TX_LOG_ENTRY_PREFIX"
    using db_okD[OF assms(2)[unfolded wallet_ok_def] calculation(1)] calculation(2) hd_keys(4)[OF assms(1)]
    by (simp add: row_ok_def)
  ultimately show ?thesis using v(2)
    by (force simp: tx_log_iter_def store_iter_def set_map_filter)
qed

text \<open>The log with entries added in turn.\<close>

definition log_with :: "TxLogEntry list \<Rightarrow> (Identifier \<times> u32 \<Rightarrow> TxLogEntry option) \<Rightarrow> Identifier \<times> u32 \<Rightarrow> TxLogEntry option" where
  "log_with txs f = fold (\<lambda>t f. f((tl_parent_key_id t, tl_id t) \<mapsto> t)) txs f"

lemma save_new_entries:
  assumes "ready E w"
  obtains w' where "for_each (\<lambda>tx. if already_there existing tx then ret () else save_tx_log_entry E tx (tl_parent_key_id tx)) txs w
      = (Inr (), w')"
    "frame E {TX_LOG_ENTRY_PREFIX} w w'" "tx_at E w' = log_with (filter (\<lambda>t. \<not> already_there existing t) txs) (tx_at E w)"
proof -
  have "\<exists>w'. for_each (\<lambda>tx. if already_there existing tx then ret () else save_tx_log_entry E tx (tl_parent_key_id tx)) txs w
      = (Inr (), w') \<and> frame E {TX_LOG_ENTRY_PREFIX} w w' \<and>
      tx_at E w' = log_with (filter (\<lambda>t. \<not> already_there existing t) txs) (tx_at E w)"
    using assms
  proof (induction txs arbitrary: w)
    case Nil
    then show ?case by (simp add: log_with_def frame_refl readyD)
  next
    case (Cons tx txs)
    show ?case
    proof (cases "already_there existing tx")
      case True
      then show ?thesis using Cons by (simp add: bindE_app)
    next
      case False
      obtain w1 where w1: "save_tx_log_entry E tx (tl_parent_key_id tx) w = (Inr (), w1)" "frame E {TX_LOG_ENTRY_PREFIX} w w1"
        "tx_at E w1 = (tx_at E w)((tl_parent_key_id tx, tl_id tx) \<mapsto> tx)"
        using save_tx_log_entry_ok[OF Cons.prems] by blast
      from Cons.IH[OF ready_frame[OF Cons.prems w1(2)]] show ?thesis
        using False w1 frame_trans[OF w1(2)] by (fastforce simp: bindE_app log_with_def)
    qed
  qed
  then show ?thesis using that by blast
qed

lemma log_with_other: "\<forall>t \<in> set txs. (tl_parent_key_id t, tl_id t) \<noteq> key \<Longrightarrow> log_with txs f key = f key"
  by (induction txs arbitrary: f) (auto simp: log_with_def)

text \<open>C37. Importing a log into an open wallet adds, under their accounts and numbers, exactly the entries
  whose number and slate the wallet does not have, the later of two with one number; entries that
  are there stay, outputs are untouched. The counters stay as well: the next number an account
  draws is the one it would have drawn before, even when an imported entry has it.\<close>

theorem import_adds:
  assumes "ready E w" "fst (keychain E km w) = Inr k"
  shows "\<exists>w'. import_entries E km txs w = (Inr (), w') \<and>
    tx_at E w' = log_with (filter (\<lambda>t. \<not> already_there (tx_log_iter w) t) txs) (tx_at E w) \<and>
    (\<forall>i n t. tx_at E w (i, n) = Some t \<and> tl_id t = n \<longrightarrow> tx_at E w' (i, n) = Some t) \<and>
    out_at E w' = out_at E w \<and> fst (next_tx_log_id E i w') = fst (next_tx_log_id E i w)"
proof -
  let ?new = "filter (\<lambda>t. \<not> already_there (tx_log_iter w) t) txs"
  obtain w' where w': "for_each (\<lambda>tx. if already_there (tx_log_iter w) tx then ret () else save_tx_log_entry E tx (tl_parent_key_id tx)) txs w
      = (Inr (), w')" "frame E {TX_LOG_ENTRY_PREFIX} w w'" "tx_at E w' = log_with ?new (tx_at E w)"
    by (rule save_new_entries[OF assms(1)])
  have run: "import_entries E km txs w = (Inr (), w')"
    using assms(2) w'(1) by (simp add: import_entries_def bindE_app keychain_def batch_def commit_def split: prod.split)
  have "tx_at E w' (i, n) = Some t" if "tx_at E w (i, n) = Some t" "tl_id t = n" for i n t
    using tx_at_listed[OF readyD(1,3)[OF assms(1)] that(1)] that w'(3) log_with_other[of ?new "(i, n)" "tx_at E w"]
    by (force simp: already_there_def)
  moreover have "out_at E w' = out_at E w"
    using frame_out_at[OF readyD(1)[OF assms(1)] w'(2)] by (simp add: prefix_defs)
  moreover have "fst (next_tx_log_id E i w') = fst (next_tx_log_id E i w)"
    using next_tx_log_id_run[OF assms(1)] next_tx_log_id_run[OF ready_frame[OF assms(1) w'(2)]]
      frameD(2)[OF w'(2), of "tx_id_key E i"] hd_keys[OF readyD(1)[OF assms(1)]]
    by (simp add: tx_log_counter_def get_ser_def prefix_defs)
  ultimately show ?thesis using run w'(3) by blast
qed

theorem import_adds_witness:
  "\<exists>w'. import_entries the_ext None [tx_log_entry_new 0 (Identifier 0) TxSent 4] saved_wallet = (Inr (), w') \<and>
    out_at the_ext w' = out_at the_ext saved_wallet"
  using import_adds[OF saved_wallet_facts(1) keychain_saved_wallet, of "[tx_log_entry_new 0 (Identifier 0) TxSent 4]"] by blast

section \<open>What a send posts\<close>

definition posted_txs :: "cmd_state \<Rightarrow> (Transaction \<times> bool) set" where
  "posted_txs s = {(tx, fluff). PostedTx tx fluff \<in> set (ow_done (cs_owner s))}"

abbreviation posted_in :: "(Transaction \<times> bool) set \<Rightarrow> action list \<Rightarrow> bool" where
  "posted_in Q acts \<equiv> \<forall>tx fluff. PostedTx tx fluff \<in> set acts \<longrightarrow> (tx, fluff) \<in> Q"

abbreviation owner_posted :: "(Transaction \<times> bool) set \<Rightarrow> owner_state \<Rightarrow> bool" where
  "owner_posted Q o' \<equiv> posted_in Q (ow_done o')"

abbreviation only_posted :: "(Transaction \<times> bool) set \<Rightarrow> cmd_state \<Rightarrow> bool" where
  "only_posted Q s \<equiv> owner_posted Q (cs_owner s)"

lemma only_posted_iff: "only_posted Q s \<longleftrightarrow> posted_txs s \<subseteq> Q"
  by (auto simp: posted_txs_def)

lemma keeps_bind_result:
  assumes "keeps I m" "\<And>s x t. m s = (Inr x, t) \<Longrightarrow> keeps I (f x)"
  shows "keeps I (bindE m f)"
proof (rule keepsI)
  fix s assume s: "I s"
  obtain r t where m: "m s = (r, t)" by fastforce
  have "I t" using assms(1) s m by (metis keepsD snd_conv)
  then show "I (snd (bindE m f s))"
    using assms(2)[of s _ t] m by (cases r) (simp_all add: bindE_app keepsD)
qed

lemma posted_owner: "keeps (owner_posted Q) m \<Longrightarrow> keeps (only_posted Q) (on_owner m)"
  by (auto simp: keeps_def on_owner_def split: prod.split)

lemma posted_provider: "keeps (owner_posted Q) (on_provider m)" "keeps (owner_posted Q) (use_wallet m')"
    "keeps (owner_posted Q) (on_keybase m'')"
  by (auto simp: keeps_def on_provider_def use_wallet_def on_keybase_def split: prod.split)

lemma posted_lc: "keeps (only_posted Q) (on_lc m)"
  unfolding on_lc_def by (intro posted_owner posted_provider)

lemma posted_path: "keeps (only_posted Q) (on_path m)" "keeps (only_posted Q) (put_slate M p sl)"
  unfolding put_slate_def on_path_def by (intro posted_lc)+

lemma posted_printed: "keeps (only_posted Q) (printed x)"
  unfolding printed_def by (intro keeps_intros) simp

lemma posted_init: "ia_send_args args = None \<Longrightarrow> keeps (owner_posted Q) (api_init_send_tx V km args synced)"
  by (auto simp: api_init_send_tx_def intro!: keeps_intros posted_provider)

lemma posted_estimates: "ia_send_args args = None \<Longrightarrow> keeps (only_posted Q) (estimates M km args synced strategies)"
  by (induction strategies) (auto intro!: keeps_intros posted_owner posted_init simp: keeps_ret)

lemma posted_channel_send: "keeps (owner_posted Q) (on_epicbox V (channel_send E C X d c km s))"
proof -
  have "keeps (\<lambda>b. posted_in Q (bx_done b)) (on_wallet m)" for m :: "'a op"
    by (auto simp: keeps_def on_wallet_def split: prod.split)
  moreover have "keeps (\<lambda>b. posted_in Q (bx_done b)) (publish C X p v t)" for p v t
    unfolding publish_def publisher_post_slate_def broker_post_slate_def ws_write_def broker_stop_def act_def Let_def
    by (intro keeps_intros) auto
  ultimately have "keeps (\<lambda>b. posted_in Q (bx_done b)) (channel_send E C X d c km s)"
    unfolding channel_send_def start_epicbox_def Let_def by (intro keeps_intros)
  then show ?thesis
    by (auto simp: keeps_def on_epicbox_def split: prod.split) (metis epicbox_state.select_convs(5) snd_conv)
qed

lemma finalized_validates:
  assumes "on_owner (api_finalize_tx V km slate) s = (Inr slate', t)"
  shows "tx_validate (oe_E V) (sl_tx slate') = Inr ()"
proof -
  have complete: "tx_validate E (sl_tx s') = Inr ()" if "complete_tx E km sl i cx w = (Inr s', w')" for E sl i cx w s' w'
    using that by (auto simp: complete_tx_def bindE_app Selection.on_slate_def finalize_def finalize_transaction_def
        and_then_eq_Inr split: prod.splits sum.splits)
  from assms obtain p p' where "with_wallet (finalize_tx (oe_E V) km slate) p = (Inr slate', p')"
    by (auto simp: on_owner_def api_finalize_tx_def use_wallet_def on_provider_def split: prod.splits)
  then obtain w w' where "finalize_tx (oe_E V) km slate w = (Inr slate', w')"
    by (auto simp: with_wallet_def split: prod.splits option.splits)
  then show ?thesis
    by (auto simp: finalize_tx_def bindE_app dest!: complete split: prod.splits sum.splits)
qed

lemma posted_finish:
  assumes "\<And>tx. tx_validate (cm_E M) tx = Inr () \<Longrightarrow> (tx, fluff) \<in> Q"
  shows "keeps (only_posted Q) (finish_send M km fluff sl)"
proof -
  have "keeps (only_posted Q) (post_and_wait M km slate fluff)" if "tx_validate (cm_E M) (sl_tx slate) = Inr ()" for slate
    using assms[OF that] unfolding post_and_wait_def api_post_tx_def network_def api_wait_for_tx_in_mempool_def
      api_update_mempool_status_def
    by (intro keeps_intros posted_owner posted_provider) auto
  moreover have "keeps (owner_posted Q) (api_verify_slate_messages V km sl)" for V
    unfolding api_verify_slate_messages_def by (intro keeps_intros posted_provider)
  moreover have "keeps (owner_posted Q) (api_finalize_tx V km sl)" for V
    unfolding api_finalize_tx_def by (intro posted_provider)
  ultimately show ?thesis
    unfolding finish_send_def by (auto intro!: keeps_bind_result posted_owner dest: finalized_validates simp: cm_E_def)
qed

lemma posted_sender: "keeps (only_posted Q) (sent_by_sender M km method d synced sl)"
proof -
  have "keeps (owner_posted Q) (sender_send_tx V synced sender s)" for V sender s
    by (cases sender) (auto simp: sender_send_tx_def intro!: keeps_intros posted_provider)
  then show ?thesis
    unfolding sent_by_sender_def lock_outputs_def api_tx_lock_outputs_def
    by (intro keeps_intros posted_owner posted_provider)
qed

lemma posted_send_slate:
  assumes "\<And>tx. tx_validate (cm_E M) tx = Inr () \<Longrightarrow> sa_method args \<notin> {''emoji'', ''file'', ''epicbox''} \<Longrightarrow> (tx, sa_fluff args) \<in> Q"
  shows "keeps (only_posted Q) (send_slate M km tc ec args synced g sl)"
proof (cases "sa_method args \<in> {''emoji'', ''file'', ''epicbox''}")
  case True
  then show ?thesis
    unfolding send_slate_def Let_def lock_outputs_def api_tx_lock_outputs_def
    by (auto intro!: keeps_intros posted_printed posted_path posted_owner posted_provider posted_channel_send)
next
  case False
  then have "keeps (only_posted Q) (finish_send M km (sa_fluff args) slate)" for slate
    using assms posted_finish by blast
  then show ?thesis using False
    unfolding send_slate_def Let_def lock_outputs_def api_tx_lock_outputs_def foreign_single_use_def
    by (auto intro!: keeps_intros posted_sender posted_owner posted_provider posted_lc)
qed

lemma posted_cmd_send:
  assumes "\<And>tx. tx_validate (cm_E M) tx = Inr () \<Longrightarrow> \<not> sa_estimate_selection_strategies args \<Longrightarrow>
    sa_method args \<notin> {''emoji'', ''file'', ''epicbox''} \<Longrightarrow> (tx, sa_fluff args) \<in> Q"
  shows "keeps (only_posted Q) (cmd_send M km tc ec args dark synced g)" (is ?keeps)
    "posted_txs s \<subseteq> Q \<Longrightarrow> posted_txs (snd (cmd_send M km tc ec args dark synced g s)) \<subseteq> Q"
proof -
  show ?keeps
  proof (cases "sa_estimate_selection_strategies args")
    case True
    then show ?thesis
      unfolding cmd_send_def owner_single_use_def if_P[OF True]
      by (intro keeps_intros posted_estimates posted_printed) (simp_all add: init_tx_args_default_def)
  next
    case False
    have "keeps (only_posted Q) (send_slate M km tc ec args synced g sl)" for sl
      using assms False by (blast intro: posted_send_slate)
    then show ?thesis
      unfolding cmd_send_def owner_single_use_def if_not_P[OF False]
      by (intro keeps_intros posted_owner posted_init) simp_all
  qed
  then show "posted_txs s \<subseteq> Q \<Longrightarrow> posted_txs (snd (cmd_send M km tc ec args dark synced g s)) \<subseteq> Q"
    unfolding keeps_def only_posted_iff by blast
qed


end
