(* ===== verification/OwnerRpc.thy ===== *)
theory OwnerRpc
  imports OwnerApi UpdaterThread ConfigFiles SecureApi
begin

text \<open>
  The methods of the owner's JSON-RPC interface, in its versions 2 (\<open>api/src/owner_rpc.rs\<close>) and 3
  (\<open>api/src/owner_rpc_s.rs\<close>). The reading of a request into a call and the writing of a reply are
  generated from the traits and are parameters.
\<close>

section \<open>Calls and replies\<close>

record Token =
  tk_keychain_mask :: "SecretKey option"

datatype owner_call =
    CallAccounts
  | CallCreateAccountPath string
  | CallSetActiveAccount string
  | CallRetrieveOutputs bool bool "u32 option" "nat option" "nat option" "string option"
  | CallRetrieveTxs bool "u32 option" "Uuid option" "nat option" "nat option" "string option"
  | CallRetrieveSummaryInfo bool u64
  | CallInitSendTx InitTxArgs
  | CallIssueInvoiceTx IssueInvoiceTxArgs
  | CallProcessInvoiceTx VersionedSlate InitTxArgs
  | CallFinalizeTx VersionedSlate
  | CallTxLockOutputs VersionedSlate nat "string option"
  | CallCancelTx "u32 option" "Uuid option"
  | CallGetStoredTx TxLogEntry
  | CallPostTx TransactionV3 bool
  | CallVerifySlateMessages VersionedSlate
  | CallScan "u64 option" bool
  | CallNodeHeight

datatype 'l secure_call =
    WithToken Token owner_call
  | CallInitSecureApi PublicKey
  | CallGetTopLevelDirectory
  | CallSetTopLevelDirectory string
  | CallCreateConfig ChainTypes "WalletConfig option" "'l option" "TorConfig option" "EpicboxConfig option"
  | CallCreateWallet "string option" "string option" u32 string
  | CallOpenWallet "string option" string
  | CallCloseWallet "string option"
  | CallGetMnemonic "string option" string
  | CallChangePassword "string option" string string bool
  | CallDeleteWallet "string option"
  | CallStartUpdater Token u32
  | CallStopUpdater
  | CallGetUpdaterMessages u32
  | CallGetPublicAddress Token u32
  | CallGetPublicProofAddress Token u32
  | CallProofAddressFromOnionV3 string
  | CallRetrievePaymentProof Token bool "u32 option" "Uuid option"
  | CallVerifyPaymentProof Token PaymentProof
  | CallSetTorConfig "TorConfig option"
  | CallSetEpicboxConfig "EpicboxConfig option"

datatype owner_reply =
    ReplyUnit
  | ReplyAccounts "AcctPathMapping list"
  | ReplyIdentifier Identifier
  | ReplyOutputs RetrieveOutputsResult
  | ReplyTxs RetrieveTxsResult
  | ReplySummary bool WalletInfo
  | ReplySlate VersionedSlate
  | ReplyStoredTx "TransactionV3 option"
  | ReplyHeight NodeHeightResult
  | ReplyKey PublicKey
  | ReplyText string
  | ReplyToken Token
  | ReplyMessages "StatusMessage list"
  | ReplyProofAddress DalekPublicKey
  | ReplyAddress EpicboxAddress
  | ReplyProof PaymentProof
  | ReplyParties bool bool

text \<open>The \<open>Owner\<close> behind the interface: its updater, its queue of messages, and the shared key.\<close>

record rpc_state =
  rp_updater :: updater_state
  rp_queue :: "StatusMessage list"

type_synonym 'a rpc_op = "(rpc_state \<times> SecretKey option, error, 'a) proc"

definition rpc_owner :: "rpc_state \<Rightarrow> owner_state" where
  "rpc_owner s = us_owner (rp_updater s)"

definition set_rpc_owner :: "owner_state \<Rightarrow> rpc_state \<Rightarrow> rpc_state" where
  "set_rpc_owner ow s = s\<lparr>rp_updater := (rp_updater s)\<lparr>us_owner := ow\<rparr>\<rparr>"

definition on_rpc :: "'a owner_op \<Rightarrow> 'a rpc_op" where
  "on_rpc m = (\<lambda>(s, key). case m (rpc_owner s) of (r, ow) \<Rightarrow> (r, set_rpc_owner ow s, key))"

definition replied :: "('a \<Rightarrow> owner_reply) \<Rightarrow> 'a owner_op \<Rightarrow> owner_reply rpc_op" where
  "replied f m = bindE (on_rpc m) (\<lambda>x. ret (f x))"

section \<open>Version 2\<close>

definition v2_retrieve_outputs ::
    "owner_env \<Rightarrow> bool \<Rightarrow> bool \<Rightarrow> u32 option \<Rightarrow> nat option \<Rightarrow> nat option \<Rightarrow> string option \<Rightarrow> owner_reply rpc_op" where
  "v2_retrieve_outputs V include_spent refresh_from_node tx_id limit offset sort_order =
     replied ReplyOutputs (api_retrieve_outputs V None include_spent refresh_from_node False tx_id limit offset sort_order)"

definition v2_init_send_tx :: "owner_env \<Rightarrow> InitTxArgs \<Rightarrow> owner_reply rpc_op" where
  "v2_init_send_tx V args =
     bindE (on_rpc (bindE (gets ow_is_node_synced) (api_init_send_tx V None args))) (\<lambda>slate.
     ret (ReplySlate (into_version slate V3)))"

definition v2_issue_invoice_tx :: "owner_env \<Rightarrow> IssueInvoiceTxArgs \<Rightarrow> owner_reply rpc_op" where
  "v2_issue_invoice_tx V args =
     bindE (on_rpc (api_issue_invoice_tx V None args)) (\<lambda>slate. ret (ReplySlate (into_version slate V3)))"

definition v2_process_invoice_tx :: "owner_env \<Rightarrow> VersionedSlate \<Rightarrow> InitTxArgs \<Rightarrow> owner_reply rpc_op" where
  "v2_process_invoice_tx V in_slate args =
     bindE (on_rpc (api_process_invoice_tx V None (slate_of_versioned in_slate) args)) (\<lambda>out_slate.
     ret (ReplySlate (into_version out_slate V3)))"

definition v2_finalize_tx :: "owner_env \<Rightarrow> VersionedSlate \<Rightarrow> owner_reply rpc_op" where
  "v2_finalize_tx V in_slate =
     bindE (on_rpc (api_finalize_tx V None (slate_of_versioned in_slate))) (\<lambda>out_slate.
     ret (ReplySlate (into_version out_slate V3)))"

fun owner_rpc :: "owner_env \<Rightarrow> owner_call \<Rightarrow> owner_reply rpc_op" where
  "owner_rpc V CallAccounts = replied ReplyAccounts (api_accounts V None)"
| "owner_rpc V (CallCreateAccountPath label) = replied ReplyIdentifier (api_create_account_path V None label)"
| "owner_rpc V (CallSetActiveAccount label) = replied (\<lambda>_. ReplyUnit) (api_set_active_account V None label)"
| "owner_rpc V (CallRetrieveOutputs include_spent refresh tx_id limit offset sort_order) =
     v2_retrieve_outputs V include_spent refresh tx_id limit offset sort_order"
| "owner_rpc V (CallRetrieveTxs refresh tx_id tx_slate_id limit offset sort_order) =
     replied ReplyTxs (api_retrieve_txs V None refresh tx_id tx_slate_id limit offset sort_order)"
| "owner_rpc V (CallRetrieveSummaryInfo refresh minimum_confirmations) =
     replied (\<lambda>(b, i). ReplySummary b i) (api_retrieve_summary_info V None refresh minimum_confirmations)"
| "owner_rpc V (CallInitSendTx args) = v2_init_send_tx V args"
| "owner_rpc V (CallIssueInvoiceTx args) = v2_issue_invoice_tx V args"
| "owner_rpc V (CallProcessInvoiceTx slate args) = v2_process_invoice_tx V slate args"
| "owner_rpc V (CallFinalizeTx slate) = v2_finalize_tx V slate"
| "owner_rpc V (CallTxLockOutputs slate participant_id addr_to) =
     replied (\<lambda>_. ReplyUnit) (api_tx_lock_outputs V None (slate_of_versioned slate) participant_id addr_to)"
| "owner_rpc V (CallCancelTx tx_id tx_slate_id) = replied (\<lambda>_. ReplyUnit) (api_cancel_tx V None tx_id tx_slate_id)"
| "owner_rpc V (CallGetStoredTx tx) = replied (\<lambda>x. ReplyStoredTx (map_option tx_v3_of x)) (api_get_stored_tx V None tx)"
| "owner_rpc V (CallPostTx tx fluff) = replied (\<lambda>_. ReplyUnit) (api_post_tx V None (tx_of_v3 tx) fluff)"
| "owner_rpc V (CallVerifySlateMessages slate) =
     replied (\<lambda>_. ReplyUnit) (api_verify_slate_messages V None (slate_of_versioned slate))"
| "owner_rpc V (CallScan start_height delete_unconfirmed) =
     replied (\<lambda>_. ReplyUnit) (api_scan V None start_height delete_unconfirmed)"
| "owner_rpc V CallNodeHeight = replied ReplyHeight (api_node_height V None)"

section \<open>Version 3\<close>

definition v3_retrieve_outputs ::
    "owner_env \<Rightarrow> Token \<Rightarrow> bool \<Rightarrow> bool \<Rightarrow> u32 option \<Rightarrow> nat option \<Rightarrow> nat option \<Rightarrow> string option \<Rightarrow> owner_reply rpc_op" where
  "v3_retrieve_outputs V token include_spent refresh_from_node tx_id limit offset sort_order =
     replied ReplyOutputs (api_retrieve_outputs V (tk_keychain_mask token) include_spent refresh_from_node False tx_id
       limit offset sort_order)"

definition v3_retrieve_txs ::
    "owner_env \<Rightarrow> Token \<Rightarrow> bool \<Rightarrow> u32 option \<Rightarrow> Uuid option \<Rightarrow> nat option \<Rightarrow> nat option \<Rightarrow> string option \<Rightarrow>
     owner_reply rpc_op" where
  "v3_retrieve_txs V token refresh_from_node tx_id tx_slate_id limit offset sort_order =
     replied ReplyTxs (api_retrieve_txs V (tk_keychain_mask token) refresh_from_node tx_id tx_slate_id limit offset sort_order)"

definition v3_init_send_tx :: "owner_env \<Rightarrow> Token \<Rightarrow> InitTxArgs \<Rightarrow> owner_reply rpc_op" where
  "v3_init_send_tx V token args =
     bindE (on_rpc (bindE (gets ow_is_node_synced) (api_init_send_tx V (tk_keychain_mask token) args))) (\<lambda>slate.
     ret (ReplySlate (into_version slate V3)))"

definition v3_issue_invoice_tx :: "owner_env \<Rightarrow> Token \<Rightarrow> IssueInvoiceTxArgs \<Rightarrow> owner_reply rpc_op" where
  "v3_issue_invoice_tx V token args =
     bindE (on_rpc (api_issue_invoice_tx V (tk_keychain_mask token) args)) (\<lambda>slate.
     ret (ReplySlate (into_version slate V3)))"

definition v3_process_invoice_tx :: "owner_env \<Rightarrow> Token \<Rightarrow> VersionedSlate \<Rightarrow> InitTxArgs \<Rightarrow> owner_reply rpc_op" where
  "v3_process_invoice_tx V token in_slate args =
     bindE (on_rpc (api_process_invoice_tx V (tk_keychain_mask token) (slate_of_versioned in_slate) args)) (\<lambda>out_slate.
     ret (ReplySlate (into_version out_slate V3)))"

definition v3_finalize_tx :: "owner_env \<Rightarrow> Token \<Rightarrow> VersionedSlate \<Rightarrow> owner_reply rpc_op" where
  "v3_finalize_tx V token in_slate =
     bindE (on_rpc (api_finalize_tx V (tk_keychain_mask token) (slate_of_versioned in_slate))) (\<lambda>out_slate.
     ret (ReplySlate (into_version out_slate V3)))"

fun owner_rpc_token :: "owner_env \<Rightarrow> Token \<Rightarrow> owner_call \<Rightarrow> owner_reply rpc_op" where
  "owner_rpc_token V token CallAccounts = replied ReplyAccounts (api_accounts V (tk_keychain_mask token))"
| "owner_rpc_token V token (CallCreateAccountPath label) =
     replied ReplyIdentifier (api_create_account_path V (tk_keychain_mask token) label)"
| "owner_rpc_token V token (CallSetActiveAccount label) =
     replied (\<lambda>_. ReplyUnit) (api_set_active_account V (tk_keychain_mask token) label)"
| "owner_rpc_token V token (CallRetrieveOutputs include_spent refresh tx_id limit offset sort_order) =
     v3_retrieve_outputs V token include_spent refresh tx_id limit offset sort_order"
| "owner_rpc_token V token (CallRetrieveTxs refresh tx_id tx_slate_id limit offset sort_order) =
     v3_retrieve_txs V token refresh tx_id tx_slate_id limit offset sort_order"
| "owner_rpc_token V token (CallRetrieveSummaryInfo refresh minimum_confirmations) =
     replied (\<lambda>(b, i). ReplySummary b i)
       (api_retrieve_summary_info V (tk_keychain_mask token) refresh minimum_confirmations)"
| "owner_rpc_token V token (CallInitSendTx args) = v3_init_send_tx V token args"
| "owner_rpc_token V token (CallIssueInvoiceTx args) = v3_issue_invoice_tx V token args"
| "owner_rpc_token V token (CallProcessInvoiceTx slate args) = v3_process_invoice_tx V token slate args"
| "owner_rpc_token V token (CallFinalizeTx slate) = v3_finalize_tx V token slate"
| "owner_rpc_token V token (CallTxLockOutputs slate participant_id addr_to) = replied (\<lambda>_. ReplyUnit)
     (api_tx_lock_outputs V (tk_keychain_mask token) (slate_of_versioned slate) participant_id addr_to)"
| "owner_rpc_token V token (CallCancelTx tx_id tx_slate_id) =
     replied (\<lambda>_. ReplyUnit) (api_cancel_tx V (tk_keychain_mask token) tx_id tx_slate_id)"
| "owner_rpc_token V token (CallGetStoredTx tx) =
     replied (\<lambda>x. ReplyStoredTx (map_option tx_v3_of x)) (api_get_stored_tx V (tk_keychain_mask token) tx)"
| "owner_rpc_token V token (CallPostTx tx fluff) =
     replied (\<lambda>_. ReplyUnit) (api_post_tx V (tk_keychain_mask token) (tx_of_v3 tx) fluff)"
| "owner_rpc_token V token (CallVerifySlateMessages slate) =
     replied (\<lambda>_. ReplyUnit) (api_verify_slate_messages V (tk_keychain_mask token) (slate_of_versioned slate))"
| "owner_rpc_token V token (CallScan start_height delete_unconfirmed) =
     replied (\<lambda>_. ReplyUnit) (api_scan V (tk_keychain_mask token) start_height delete_unconfirmed)"
| "owner_rpc_token V token CallNodeHeight = replied ReplyHeight (api_node_height V (tk_keychain_mask token))"

text \<open>The lifecycle of the wallet; a wallet opened here hands out its mask.\<close>

definition v3_init_secure_api :: "owner_env \<Rightarrow> api_ext \<Rightarrow> SecretKey \<Rightarrow> PublicKey \<Rightarrow> owner_reply rpc_op" where
  "v3_init_secure_api V A sec_key ecdh_pubkey = (\<lambda>(s, key).
     case init_secure_api (oe_C V) A sec_key ecdh_pubkey key of
       (Inl e, key) \<Rightarrow> (Inl e, s, key) | (Inr p, key) \<Rightarrow> (Inr (ReplyKey p), s, key))"

definition v3_create_config ::
    "owner_env \<Rightarrow> 'l config_ext \<Rightarrow> ChainTypes \<Rightarrow> WalletConfig option \<Rightarrow> 'l option \<Rightarrow> TorConfig option \<Rightarrow>
     EpicboxConfig option \<Rightarrow> owner_reply rpc_op" where
  "v3_create_config V F chain_type wallet_config logging_config tor_config epicbox_config =
     replied (\<lambda>_. ReplyUnit) (on_provider (create_config F (oe_S V) chain_type WALLET_CONFIG_FILE_NAME wallet_config
       logging_config tor_config epicbox_config))"

definition v3_create_wallet ::
    "owner_env \<Rightarrow> string option \<Rightarrow> string option \<Rightarrow> u32 \<Rightarrow> string \<Rightarrow> owner_reply rpc_op" where
  "v3_create_wallet V name mnemonic mnemonic_length password =
     replied (\<lambda>_. ReplyUnit) (api_create_wallet V name mnemonic mnemonic_length password)"

definition v3_open_wallet :: "owner_env \<Rightarrow> string option \<Rightarrow> string \<Rightarrow> owner_reply rpc_op" where
  "v3_open_wallet V name password =
     bindE (on_rpc (api_open_wallet V name password True)) (\<lambda>sec_key.
     ret (ReplyToken \<lparr>tk_keychain_mask = sec_key\<rparr>))"

definition v3_change_password :: "owner_env \<Rightarrow> string option \<Rightarrow> string \<Rightarrow> string \<Rightarrow> bool \<Rightarrow> owner_reply rpc_op" where
  "v3_change_password V name old new remove_backup =
     replied (\<lambda>_. ReplyUnit) (api_change_password V name old new remove_backup)"

definition v3_start_updater :: "Token \<Rightarrow> u32 \<Rightarrow> owner_reply rpc_op" where
  "v3_start_updater token frequency =
     bindE (modify (\<lambda>(s, key). (s\<lparr>rp_updater := start_updater (tk_keychain_mask token) (rp_updater s)\<rparr>, key))) (\<lambda>_.
     ret ReplyUnit)"

definition v3_stop_updater :: "owner_reply rpc_op" where
  "v3_stop_updater =
     bindE (modify (\<lambda>(s, key). (s\<lparr>rp_updater := stop_updater (rp_updater s)\<rparr>, key))) (\<lambda>_. ret ReplyUnit)"

definition v3_get_updater_messages :: "u32 \<Rightarrow> owner_reply rpc_op" where
  "v3_get_updater_messages n = (\<lambda>(s, key).
     case get_updater_messages (unat n) (rp_queue s) of (ms, q) \<Rightarrow> (Inr (ReplyMessages ms), s\<lparr>rp_queue := q\<rparr>, key))"

definition v3_get_public_proof_address :: "owner_env \<Rightarrow> Token \<Rightarrow> u32 \<Rightarrow> owner_reply rpc_op" where
  "v3_get_public_proof_address V token derivation_index =
     replied ReplyProofAddress (api_get_public_proof_address V (tk_keychain_mask token) derivation_index)"

definition v3_get_public_address :: "owner_env \<Rightarrow> Token \<Rightarrow> u32 \<Rightarrow> owner_reply rpc_op" where
  "v3_get_public_address V token derivation_index =
     replied ReplyAddress (api_get_public_address V (tk_keychain_mask token) derivation_index)"

definition v3_retrieve_payment_proof ::
    "owner_env \<Rightarrow> Token \<Rightarrow> bool \<Rightarrow> u32 option \<Rightarrow> Uuid option \<Rightarrow> owner_reply rpc_op" where
  "v3_retrieve_payment_proof V token refresh_from_node tx_id tx_slate_id =
     replied ReplyProof (api_retrieve_payment_proof V (tk_keychain_mask token) refresh_from_node tx_id tx_slate_id)"

definition v3_verify_payment_proof :: "owner_env \<Rightarrow> Token \<Rightarrow> PaymentProof \<Rightarrow> owner_reply rpc_op" where
  "v3_verify_payment_proof V token p =
     replied (\<lambda>(sender, recipient). ReplyParties sender recipient) (api_verify_payment_proof V (tk_keychain_mask token) p)"

text \<open>What the code is given besides the owner's environment: the secret drawn and the configuration's text.\<close>

fun owner_rpc_s ::
    "owner_env \<Rightarrow> 'l config_ext \<Rightarrow> api_ext \<Rightarrow> SecretKey \<Rightarrow> 'l secure_call \<Rightarrow> owner_reply rpc_op" where
  "owner_rpc_s V F A sec_key (WithToken token c) = owner_rpc_token V token c"
| "owner_rpc_s V F A sec_key (CallInitSecureApi ecdh_pubkey) = v3_init_secure_api V A sec_key ecdh_pubkey"
| "owner_rpc_s V F A sec_key CallGetTopLevelDirectory = replied ReplyText api_get_top_level_directory"
| "owner_rpc_s V F A sec_key (CallSetTopLevelDirectory dir) =
     replied (\<lambda>_. ReplyUnit) (api_set_top_level_directory dir)"
| "owner_rpc_s V F A sec_key (CallCreateConfig chain_type wc lc tc ec) = v3_create_config V F chain_type wc lc tc ec"
| "owner_rpc_s V F A sec_key (CallCreateWallet name mnemonic mnemonic_length password) =
     v3_create_wallet V name mnemonic mnemonic_length password"
| "owner_rpc_s V F A sec_key (CallOpenWallet name password) = v3_open_wallet V name password"
| "owner_rpc_s V F A sec_key (CallCloseWallet name) = replied (\<lambda>_. ReplyUnit) (api_close_wallet name)"
| "owner_rpc_s V F A sec_key (CallGetMnemonic name password) = replied ReplyText (api_get_mnemonic V name password)"
| "owner_rpc_s V F A sec_key (CallChangePassword name old new remove_backup) =
     v3_change_password V name old new remove_backup"
| "owner_rpc_s V F A sec_key (CallDeleteWallet name) = replied (\<lambda>_. ReplyUnit) (api_delete_wallet V name)"
| "owner_rpc_s V F A sec_key (CallStartUpdater token frequency) = v3_start_updater token frequency"
| "owner_rpc_s V F A sec_key CallStopUpdater = v3_stop_updater"
| "owner_rpc_s V F A sec_key (CallGetUpdaterMessages n) = v3_get_updater_messages n"
| "owner_rpc_s V F A sec_key (CallGetPublicAddress token index) = v3_get_public_address V token index"
| "owner_rpc_s V F A sec_key (CallGetPublicProofAddress token index) = v3_get_public_proof_address V token index"
| "owner_rpc_s V F A sec_key (CallProofAddressFromOnionV3 address) =
     replied ReplyProofAddress (proof_address_from_onion_v3 V address)"
| "owner_rpc_s V F A sec_key (CallRetrievePaymentProof token refresh tx_id tx_slate_id) =
     v3_retrieve_payment_proof V token refresh tx_id tx_slate_id"
| "owner_rpc_s V F A sec_key (CallVerifyPaymentProof token p) = v3_verify_payment_proof V token p"
| "owner_rpc_s V F A sec_key (CallSetTorConfig tor_config) = replied (\<lambda>_. ReplyUnit) (set_tor_config tor_config)"
| "owner_rpc_s V F A sec_key (CallSetEpicboxConfig epicbox_config) =
     replied (\<lambda>_. ReplyUnit) (set_epicbox_config epicbox_config)"

end
