(* ===== verification/OwnerServer.thy ===== *)
theory OwnerServer
  imports OwnerRpc Commands
begin

text \<open>
  The owner's HTTP server: the handlers of versions 2 and 3 in \<open>controller/src/controller.rs\<close>, each with
  an \<open>Owner\<close> of its own on the one wallet, the listener that routes requests to them, and the
  command that runs it. The router, its check of credentials and the socket are parameters; requests
  are served one after the other, and the updating thread moves between them.
\<close>

section \<open>Requests\<close>

datatype http_method = Post | Options

record http_request =
  hr_path :: string
  hr_method :: http_method
  hr_authorization :: "string option"
  hr_body :: string
  hr_synced :: bool

text \<open>
  How requests are read and replies written, what the middleware answers to a request it refuses,
  given the credentials it wants and the path it lets through, and what the router answers to a
  path without route.
\<close>

record 'l owner_codec =
  oc_call :: "json \<Rightarrow> json option + owner_call \<times> json"
  oc_secure_call :: "json \<Rightarrow> json option + 'l secure_call \<times> json"
  oc_reply :: "owner_reply \<Rightarrow> json"
  oc_basic_auth :: "string \<Rightarrow> string \<Rightarrow> http_request \<Rightarrow> http_reply option"
  oc_no_route :: "http_request \<Rightarrow> http_reply"
  oc_base64 :: "string \<Rightarrow> string"
  oc_addr_ok :: "string \<Rightarrow> bool"
  oc_start :: "string \<Rightarrow> bool"

definition create_ok_response :: "string \<Rightarrow> http_reply" where
  "create_ok_response t = HttpReply 200 t"

section \<open>The handlers\<close>

definition owner_handle_request ::
    "'x foreign_ext_scheme \<Rightarrow> (json \<Rightarrow> json option + 'c \<times> json) \<Rightarrow> (owner_reply \<Rightarrow> json) \<Rightarrow> ('c \<Rightarrow> owner_reply rpc_op) \<Rightarrow>
     json \<Rightarrow> MaybeReply rpc_op" where
  "owner_handle_request X read write run val = (case read val of
      Inl None \<Rightarrow> ret DontReply
    | Inl (Some r) \<Rightarrow> ret (Reply r)
    | Inr (c, i) \<Rightarrow> bindE (rpc_answer X i write (run c)) (\<lambda>r. ret (Reply r)))"

definition owner_v2_call_api :: "owner_env \<Rightarrow> 'x foreign_ext_scheme \<Rightarrow> 'l owner_codec \<Rightarrow> json \<Rightarrow> json rpc_op" where
  "owner_v2_call_api V X C val =
     bindE (owner_handle_request X (oc_call C) (oc_reply C) (owner_rpc V) val) (\<lambda>reply. case reply of
       Reply r \<Rightarrow> ret r
     | DontReply \<Rightarrow> ret (JArr []))"

definition owner_v2_post :: "owner_env \<Rightarrow> 'x foreign_ext_scheme \<Rightarrow> 'l owner_codec \<Rightarrow> string \<Rightarrow> http_reply rpc_op" where
  "owner_v2_post V X C body = (case json_of_string X body of
      None \<Rightarrow> ret (create_error_response (fx_request_error X body))
    | Some val \<Rightarrow> bindE (owner_v2_call_api V X C val) (\<lambda>res. ret (json_response_pretty X res)))"

text \<open>The dispatch of version 3, for the handler of \<open>SecureApi\<close>.\<close>

definition secure_rpc ::
    "owner_env \<Rightarrow> 'l config_ext \<Rightarrow> api_ext \<Rightarrow> SecretKey \<Rightarrow> 'x foreign_ext_scheme \<Rightarrow> 'l owner_codec \<Rightarrow> rpc_state rpc" where
  "secure_rpc V F A sec_key X C val s =
     (case owner_handle_request X (oc_secure_call C) (oc_reply C) (owner_rpc_s V F A sec_key) val s of
        (Inr r, t) \<Rightarrow> (Some r, t) | (Inl _, t) \<Rightarrow> (None, t))"

definition owner_v3_post ::
    "owner_env \<Rightarrow> 'l config_ext \<Rightarrow> api_ext \<Rightarrow> SecretKey \<Rightarrow> 'x foreign_ext_scheme \<Rightarrow> 'l owner_codec \<Rightarrow> bool \<Rightarrow> string \<Rightarrow>
     rpc_state owner_handler \<Rightarrow> http_reply option \<times> rpc_state owner_handler" where
  "owner_v3_post V F A sec_key X C running_foreign body h = (case json_of_string X body of
      None \<Rightarrow> (Some (create_error_response (fx_request_error X body)), h)
    | Some val \<Rightarrow> (case call_api (oe_E V) A running_foreign (secure_rpc V F A sec_key X C) val h of
          (r, h) \<Rightarrow> (map_option (json_response_pretty X) r, h)))"

text \<open>
  An \<open>Owner\<close> of a handler is new when the server starts; those of the two versions share the
  wallet, and what was sent.
\<close>

definition handler_owner :: "TorConfig option \<Rightarrow> EpicboxConfig option \<Rightarrow> bool \<Rightarrow> owner_state \<Rightarrow> owner_state" where
  "handler_owner tor_config epicbox_config is_node_synced s =
     (owner_new (ow_provider s) is_node_synced)\<lparr>ow_tor_config := tor_config, ow_epicbox_config := epicbox_config,
       ow_done := ow_done s, ow_kb_calls := ow_kb_calls s\<rparr>"

definition share :: "owner_state \<Rightarrow> owner_state \<Rightarrow> owner_state" where
  "share s t = t\<lparr>ow_provider := ow_provider s, ow_done := ow_done s, ow_kb_calls := ow_kb_calls s\<rparr>"

definition handler_v2 ::
    "owner_env \<Rightarrow> 'x foreign_ext_scheme \<Rightarrow> 'l owner_codec \<Rightarrow> TorConfig option \<Rightarrow> EpicboxConfig option \<Rightarrow> bool \<Rightarrow> string \<Rightarrow>
     http_reply owner_op" where
  "handler_v2 V X C tor_config epicbox_config is_node_synced body s =
     (case owner_v2_post V X C body
        (\<lparr>rp_updater = updater_new (handler_owner tor_config epicbox_config is_node_synced s), rp_queue = []\<rparr>, None) of
        (r, t, _) \<Rightarrow> (r, share (rpc_owner t) s))"

section \<open>The listener\<close>

text \<open>What the listener is given.\<close>

record listener_args =
  la_addr :: string
  la_api_secret :: "string option"
  la_include_foreign :: "bool option"
  la_tor_config :: "TorConfig option"
  la_epicbox_config :: "EpicboxConfig option"

definition running_foreign :: "listener_args \<Rightarrow> bool" where
  "running_foreign L = (case la_include_foreign L of Some b \<Rightarrow> b | None \<Rightarrow> False)"

text \<open>\<open>"Basic " + to_base64("epic:" + api_secret)\<close>; what the check of credentials answers, if it refuses.\<close>

definition api_basic_auth :: "'l owner_codec \<Rightarrow> string \<Rightarrow> string" where
  "api_basic_auth C api_secret = ''Basic '' @ oc_base64 C (''epic:'' @ api_secret)"

definition refused :: "'l owner_codec \<Rightarrow> listener_args \<Rightarrow> http_request \<Rightarrow> http_reply option" where
  "refused C L req = (case la_api_secret L of
      None \<Rightarrow> None
    | Some api_secret \<Rightarrow> oc_basic_auth C (api_basic_auth C api_secret) ''/v2/foreign'' req)"

definition on_handler_owner :: "'a owner_op \<Rightarrow> rpc_state owner_handler \<Rightarrow> (error + 'a) \<times> rpc_state owner_handler" where
  "on_handler_owner m h = (case m (rpc_owner (oh_api h)) of (r, ow) \<Rightarrow> (r, h\<lparr>oh_api := set_rpc_owner ow (oh_api h)\<rparr>))"

definition reply_of :: "error + http_reply \<Rightarrow> http_reply option" where
  "reply_of r = (case r of Inl _ \<Rightarrow> None | Inr x \<Rightarrow> Some x)"

text \<open>A panic answers nothing; the server goes on.\<close>

definition owner_route ::
    "'l cmd_env \<Rightarrow> api_ext \<Rightarrow> SecretKey \<Rightarrow> 'x foreign_ext_scheme \<Rightarrow> 'l owner_codec \<Rightarrow> listener_args \<Rightarrow> http_request \<Rightarrow>
     rpc_state owner_handler \<Rightarrow> http_reply option \<times> rpc_state owner_handler" where
  "owner_route M A sec_key X C L req h =
     (if hr_path req = ''/v2/owner'' then
        (if hr_method req = Options then (Some (create_ok_response ''{}''), h)
         else case on_handler_owner (handler_v2 (cm_V M) X C (la_tor_config L) (la_epicbox_config L) (hr_synced req) (hr_body req)) h of
            (r, h) \<Rightarrow> (reply_of r, h))
      else if hr_path req = ''/v3/owner'' then
        (if hr_method req = Options then (Some (create_ok_response ''{}''), h)
         else owner_v3_post (cm_V M) (cm_F M) A sec_key X C (running_foreign L) (hr_body req) h)
      else if hr_path req = ''/v2/foreign'' \<and> running_foreign L then
        (if hr_method req = Options then (Some (create_ok_response ''{}''), h)
         else case on_handler_owner (on_provider (foreign_post (cm_E M) X (hr_synced req) (oh_keychain_mask h)
              (cm_node_version M) (hr_body req))) h of
            (r, h) \<Rightarrow> (reply_of r, h))
      else (Some (oc_no_route C req), h))"

definition set_synced :: "bool \<Rightarrow> rpc_state owner_handler \<Rightarrow> rpc_state owner_handler" where
  "set_synced b h = h\<lparr>oh_api := set_rpc_owner ((rpc_owner (oh_api h))\<lparr>ow_is_node_synced := b\<rparr>) (oh_api h)\<rparr>"

definition serve_request ::
    "'l cmd_env \<Rightarrow> api_ext \<Rightarrow> SecretKey \<Rightarrow> 'x foreign_ext_scheme \<Rightarrow> 'l owner_codec \<Rightarrow> listener_args \<Rightarrow> http_request \<Rightarrow>
     rpc_state owner_handler \<Rightarrow> http_reply option \<times> rpc_state owner_handler" where
  "serve_request M A sec_key X C L req h = (case refused C L req of
      Some r \<Rightarrow> (Some r, h)
    | None \<Rightarrow> owner_route M A sec_key X C L req (set_synced (hr_synced req) h))"

text \<open>The next step of the updating thread, if it has one.\<close>

definition updater_moves :: "owner_env \<Rightarrow> updater_state \<Rightarrow> updater_state" where
  "updater_moves V u = (case us_holder u of
      None \<Rightarrow> (case us_waiting u of
          [] \<Rightarrow> u
        | km # kms \<Rightarrow> set_running True (u\<lparr>us_waiting := kms, us_holder := Some (km, Working)\<rparr>))
    | Some (km, Working) \<Rightarrow> (case updater_round V km (us_owner u) of
          (Inr _, ow) \<Rightarrow> u\<lparr>us_owner := ow, us_holder := after_round km ow\<rparr>
        | (Inl _, ow) \<Rightarrow> u\<lparr>us_owner := ow, us_holder := None\<rparr>)
    | Some (km, Sleeping) \<Rightarrow> u\<lparr>us_holder := Some (km, Working)\<rparr>)"

datatype server_event = Arrives http_request SecretKey | ThreadMoves | StatusArrives StatusMessage

fun owner_serves ::
    "'l cmd_env \<Rightarrow> api_ext \<Rightarrow> 'x foreign_ext_scheme \<Rightarrow> 'l owner_codec \<Rightarrow> listener_args \<Rightarrow> server_event list \<Rightarrow>
     rpc_state owner_handler \<Rightarrow> http_reply option list \<times> rpc_state owner_handler" where
  "owner_serves M A X C L [] h = ([], h)"
| "owner_serves M A X C L (Arrives req sec_key # es) h =
     (case serve_request M A sec_key X C L req h of (r, h) \<Rightarrow>
      (case owner_serves M A X C L es h of (rs, h) \<Rightarrow> (r # rs, h)))"
| "owner_serves M A X C L (ThreadMoves # es) h =
     owner_serves M A X C L es (h\<lparr>oh_api := (oh_api h)\<lparr>rp_updater := updater_moves (cm_V M) (rp_updater (oh_api h))\<rparr>\<rparr>)"
| "owner_serves M A X C L (StatusArrives m # es) h =
     owner_serves M A X C L es (h\<lparr>oh_api := (oh_api h)\<lparr>rp_queue := receive_message m (rp_queue (oh_api h))\<rparr>\<rparr>)"

definition handler_v3 :: "SecretKey option \<Rightarrow> listener_args \<Rightarrow> bool \<Rightarrow> owner_state \<Rightarrow> rpc_state owner_handler" where
  "handler_v3 km L is_node_synced s =
     \<lparr>oh_shared_key = None, oh_keychain_mask = km, oh_api_key = None,
      oh_api = \<lparr>rp_updater = updater_new (handler_owner (la_tor_config L) (la_epicbox_config L) is_node_synced s), rp_queue = []\<rparr>\<rparr>"

definition owner_listener ::
    "'l cmd_env \<Rightarrow> api_ext \<Rightarrow> 'x foreign_ext_scheme \<Rightarrow> 'l owner_codec \<Rightarrow> SecretKey option \<Rightarrow> listener_args \<Rightarrow> bool \<Rightarrow>
     server_event list \<Rightarrow> unit cmd_op" where
  "owner_listener M A X C km L is_node_synced events s =
     (if \<not> oc_addr_ok C (la_addr L) then (Inl (Panic ''unable to parse socket address''), s)
      else if \<not> oc_start C (la_addr L) then (Inl (GenericError ''API thread failed to start''), s)
      else (Inr (), s\<lparr>cs_owner := share (rpc_owner (oh_api (snd
        (owner_serves M A X C L events (handler_v3 km L is_node_synced (cs_owner s)))))) (cs_owner s)\<rparr>))"

text \<open>The command; it takes addresses and the wish for the foreign interface from the configuration.\<close>

definition cmd_owner_api ::
    "'l cmd_env \<Rightarrow> api_ext \<Rightarrow> 'x foreign_ext_scheme \<Rightarrow> 'l owner_codec \<Rightarrow> SecretKey option \<Rightarrow> WalletConfig \<Rightarrow> TorConfig \<Rightarrow>
     EpicboxConfig \<Rightarrow> 'c GlobalArgs \<Rightarrow> bool \<Rightarrow> server_event list \<Rightarrow> unit cmd_op" where
  "cmd_owner_api M A X C keychain_mask config tor_config epicbox_config g is_node_synced events =
     as_lib_wallet M (owner_listener M A X C keychain_mask
       \<lparr>la_addr = owner_api_listen_addr config, la_api_secret = ga_api_secret g,
        la_include_foreign = wc_owner_api_include_foreign config,
        la_tor_config = Some tor_config, la_epicbox_config = Some epicbox_config\<rparr> is_node_synced events)"

end
