(* ===== verification/ServerProps.thy ===== *)
theory ServerProps
  imports OwnerServer CommandProps UpdaterProps
begin

text \<open>
  The owner's HTTP server: whatever requests reach it, the databases stay typed; a request without
  the credentials changes nothing; and both versions of the interface do the same.
\<close>

section \<open>Typed databases\<close>

text \<open>What every invariant of an open wallet's batches says of the whole provider.\<close>

lemma typed_if_serving:
  assumes "keys_ok E" "\<And>dbs b. keeps (serving (well_typed E) dbs b) m"
  shows "keeps (provider_typed E) m"
proof (rule keepsI)
  fix p assume p: "provider_typed E p"
  then have "serving (well_typed E) (lc_dbs p) (map_option fst (lc_backend p)) p"
    by (auto simp: serving_def provider_typed_def well_typed_def)
  from keepsD[OF assms(2) this] show "provider_typed E (snd (m p))"
    using p assms(1) by (auto simp: serving_def provider_typed_def well_typed_def)
qed

lemma typed_uses:
  assumes "keys_ok E" "\<And>dbs b. keeps (at_owner (serving (well_typed E) dbs b)) m"
  shows "keeps (at_owner (provider_typed E)) m"
proof (rule keepsI)
  fix s assume s: "at_owner (provider_typed E) s"
  then have "at_owner (serving (well_typed E) (lc_dbs (ow_provider s)) (map_option fst (lc_backend (ow_provider s)))) s"
    by (auto simp: at_defs serving_def provider_typed_def well_typed_def)
  from keepsD[OF assms(2) this] show "at_owner (provider_typed E) (snd (m s))"
    using s assms(1) by (auto simp: at_defs serving_def provider_typed_def well_typed_def)
qed

lemma typed_cmds:
  assumes "keys_ok E" "\<And>dbs b. keeps (at_cmd (serving (well_typed E) dbs b)) m"
  shows "keeps (at_cmd (provider_typed E)) m"
proof (rule keepsI)
  fix s assume s: "at_cmd (provider_typed E) s"
  then have "at_cmd (serving (well_typed E) (lc_dbs (ow_provider (cs_owner s)))
      (map_option fst (lc_backend (ow_provider (cs_owner s))))) s"
    by (auto simp: at_cmd_def serving_def provider_typed_def well_typed_def)
  from keepsD[OF assms(2) this] show "at_cmd (provider_typed E) (snd (m s))"
    using s assms(1) by (auto simp: at_cmd_def serving_def provider_typed_def well_typed_def)
qed

lemmas typed_api = typed.serving_api_queries[OF refl] typed.serving_api_steps[OF refl] typed.serving_api_send[OF refl]

lemma typed_lifecycle_calls:
  assumes "keys_ok (oe_E V)"
  shows "keeps (at_owner (provider_typed (oe_E V))) (api_create_wallet V name mn len pw)"
    "keeps (at_owner (provider_typed (oe_E V))) (api_open_wallet V name pw use_mask)"
    "keeps (at_owner (provider_typed (oe_E V))) (api_close_wallet name)"
    "keeps (at_owner (provider_typed (oe_E V))) (api_get_mnemonic V name pw)"
    "keeps (at_owner (provider_typed (oe_E V))) (api_change_password V name old new_pw rb)"
    "keeps (at_owner (provider_typed (oe_E V))) (api_delete_wallet V name)"
    "keeps (at_owner (provider_typed (oe_E V))) (api_set_top_level_directory dir)"
    "keeps (at_owner (provider_typed (oe_E V))) api_get_top_level_directory"
    "keeps (at_owner (provider_typed (oe_E V))) (set_tor_config tc)"
    "keeps (at_owner (provider_typed (oe_E V))) (set_epicbox_config ec)"
  by (rule keepsI, rule provider_call_typed[OF assms]; (rule provider_call.intros)?; assumption)+

lemma keeps_create_config: "keeps (provider_typed E) (create_config F S t f w l tc ec)"
  by (auto simp: keeps_def create_config_def provider_typed_def split: prod.split)

section \<open>Calls of the interface\<close>

definition at_rpc :: "(provider \<Rightarrow> bool) \<Rightarrow> rpc_state \<times> SecretKey option \<Rightarrow> bool" where
  "at_rpc J x \<longleftrightarrow> J (ow_provider (rpc_owner (fst x)))"

lemma rpc_owner_set [simp]: "rpc_owner (set_rpc_owner ow s) = ow"
  by (simp add: rpc_owner_def set_rpc_owner_def)

lemma keeps_on_rpc: "keeps (at_owner J) m \<Longrightarrow> keeps (at_rpc J) (on_rpc m)"
  by (auto simp: keeps_def at_rpc_def at_owner_def on_rpc_def split: prod.split)

lemma keeps_replied: "keeps (at_owner J) m \<Longrightarrow> keeps (at_rpc J) (replied f m)"
  unfolding replied_def by (intro keeps_intros keeps_on_rpc)

lemma keeps_rpc_updater:
  "keeps (at_rpc J) (v3_start_updater token frequency)" "keeps (at_rpc J) v3_stop_updater"
  "keeps (at_rpc J) (v3_get_updater_messages n)" "keeps (at_rpc J) (v3_init_secure_api V A sk pk)"
  unfolding v3_start_updater_def v3_stop_updater_def
  by ((intro keeps_intros)?; auto simp: at_rpc_def rpc_owner_def start_updater_def stop_updater_def set_running_def
      v3_get_updater_messages_def v3_init_secure_api_def keeps_def split: prod.split sum.split)+

lemma typed_owner_rpc_token:
  assumes "keys_ok (oe_E V)"
  shows "keeps (at_rpc (provider_typed (oe_E V))) (owner_rpc_token V token c)"
  by (cases c; simp only: owner_rpc_token.simps v3_retrieve_outputs_def v3_retrieve_txs_def v3_init_send_tx_def
      v3_issue_invoice_tx_def v3_process_invoice_tx_def v3_finalize_tx_def;
      intro keeps_intros keeps_replied keeps_on_rpc typed_uses[OF assms] typed_api)

lemma typed_owner_rpc_s:
  assumes "keys_ok (oe_E V)"
  shows "keeps (at_rpc (provider_typed (oe_E V))) (owner_rpc_s V F A sec_key c)"
proof (cases c)
  case (CallProofAddressFromOnionV3 x)
  have "keeps (at_owner J) (proof_address_from_onion_v3 V x)" for J
    unfolding proof_address_from_onion_v3_def by (intro keeps_intros)
  then show ?thesis by (simp add: CallProofAddressFromOnionV3 keeps_replied)
qed (simp only: owner_rpc_s.simps v3_create_config_def v3_create_wallet_def v3_open_wallet_def v3_change_password_def
      v3_get_public_address_def v3_get_public_proof_address_def v3_retrieve_payment_proof_def v3_verify_payment_proof_def;
    intro keeps_intros keeps_replied keeps_on_rpc keeps_rpc_updater typed_owner_rpc_token keeps_on_provider
      keeps_create_config typed_lifecycle_calls typed_uses[OF assms] typed_api assms)+

text \<open>Version 2 is version 3 without a token.\<close>

lemma owner_rpc_is_token: "owner_rpc V c = owner_rpc_token V \<lparr>tk_keychain_mask = None\<rparr> c"
  by (cases c; simp add: v2_retrieve_outputs_def v3_retrieve_outputs_def v3_retrieve_txs_def v2_init_send_tx_def
      v3_init_send_tx_def v2_issue_invoice_tx_def v3_issue_invoice_tx_def v2_process_invoice_tx_def
      v3_process_invoice_tx_def v2_finalize_tx_def v3_finalize_tx_def)

lemma typed_owner_rpc: "keys_ok (oe_E V) \<Longrightarrow> keeps (at_rpc (provider_typed (oe_E V))) (owner_rpc V c)"
  unfolding owner_rpc_is_token by (rule typed_owner_rpc_token)

section \<open>Requests\<close>

lemma keeps_handle_request:
  "(\<And>c. keeps J (run c)) \<Longrightarrow> keeps J (owner_handle_request X read write run val)"
  unfolding owner_handle_request_def
  by (auto intro!: keeps_intros typed.serving_rpc_answer split: sum.split option.split prod.split)

definition at_handler :: "(provider \<Rightarrow> bool) \<Rightarrow> rpc_state owner_handler \<Rightarrow> bool" where
  "at_handler J h \<longleftrightarrow> J (ow_provider (rpc_owner (oh_api h)))"

lemma on_handler_owner_keeps:
  "keeps (at_owner J) m \<Longrightarrow> at_handler J h \<Longrightarrow> at_handler J (snd (on_handler_owner m h))"
  by (auto simp: keeps_def at_handler_def at_owner_def on_handler_owner_def split: prod.split)

lemma typed_v2:
  assumes "keys_ok (oe_E V)"
  shows "keeps (at_owner (provider_typed (oe_E V))) (handler_v2 V X C tc ec synced body)"
proof (rule keepsI)
  fix s assume s: "at_owner (provider_typed (oe_E V)) s"
  have post: "keeps (at_rpc (provider_typed (oe_E V))) (owner_v2_post V X C body)"
    unfolding owner_v2_post_def owner_v2_call_api_def
    by (auto intro!: keeps_intros keeps_handle_request typed_owner_rpc assms split: option.split MaybeReply.split)
  let ?x = "(\<lparr>rp_updater = updater_new (handler_owner tc ec synced s), rp_queue = []\<rparr>, None :: SecretKey option)"
  have "at_rpc (provider_typed (oe_E V)) ?x"
    using s by (simp add: at_defs at_rpc_def rpc_owner_def updater_new_def set_running_def handler_owner_def owner_new_def)
  from keepsD[OF post this] show "at_owner (provider_typed (oe_E V)) (snd (handler_v2 V X C tc ec synced body s))"
    by (auto simp: handler_v2_def at_defs at_rpc_def share_def split: prod.split)
qed

lemma snd_of_case: "snd (case p of (r, h) \<Rightarrow> (f r, h)) = snd p"
  by (cases p) simp

lemma call_api_keeps:
  assumes "\<And>val x. at_rpc J x \<Longrightarrow> at_rpc J (snd (rpc val x))" "at_handler J h"
  shows "at_handler J (snd (call_api E A rf rpc val h))"
proof -
  have "at_handler J (snd (run_request E A rf rpc i v h))" for i v
  proof -
    obtain reply api k where r: "rpc v (oh_api h, oh_api_key h) = (reply, api, k)" by (metis surj_pair)
    have "J (ow_provider (rpc_owner api))"
      using assms(1)[of "(oh_api h, oh_api_key h)" v] assms(2) r by (simp add: at_rpc_def at_handler_def)
    then show ?thesis
      by (auto simp: run_request_def r Let_def at_handler_def split: option.split MaybeReply.split sum.split)
  qed
  then show ?thesis
    using assms(2) by (auto simp: call_api_def split: sum.split option.split prod.split)
qed

lemma typed_v3:
  assumes "keys_ok (oe_E V)" "at_handler (provider_typed (oe_E V)) h"
  shows "at_handler (provider_typed (oe_E V)) (snd (owner_v3_post V F A sec_key X C rf body h))"
proof -
  have "at_rpc (provider_typed (oe_E V)) (snd (secure_rpc V F A sec_key X C val x))"
    if "at_rpc (provider_typed (oe_E V)) x" for val x
  proof -
    have "keeps (at_rpc (provider_typed (oe_E V)))
        (owner_handle_request X (oc_secure_call C) (oc_reply C) (owner_rpc_s V F A sec_key) val)"
      by (intro keeps_handle_request typed_owner_rpc_s assms(1))
    from keepsD[OF this that] show ?thesis by (auto simp: secure_rpc_def split: prod.split sum.split)
  qed
  note K = call_api_keeps[where J = "provider_typed (oe_E V)" and rpc = "secure_rpc V F A sec_key X C", OF this assms(2)]
  show ?thesis
    using assms(2) K by (simp add: owner_v3_post_def snd_of_case split: option.split)
qed

lemma typed_serve_request:
  assumes "keys_ok (cm_E M)" "at_handler (provider_typed (cm_E M)) h"
  shows "at_handler (provider_typed (cm_E M)) (snd (serve_request M A sec_key X C L req h))"
proof -
  let ?h = "set_synced (hr_synced req) h"
  have h: "at_handler (provider_typed (oe_E (cm_V M))) ?h"
    using assms(2) by (simp add: at_handler_def set_synced_def cm_E_def)
  note V = assms(1)[unfolded cm_E_def]
  have post: "keeps (at_owner (provider_typed (oe_E (cm_V M))))
      (on_provider (foreign_post (oe_E (cm_V M)) X synced km v body))" for synced km v body
    by (intro typed_uses[OF V] keeps_on_provider typed.serving_foreign_post)
  have "at_handler (provider_typed (oe_E (cm_V M))) (snd (owner_route M A sec_key X C L req ?h))"
    by (simp add: owner_route_def cm_E_def snd_of_case h on_handler_owner_keeps[OF typed_v2[OF V] h]
        on_handler_owner_keeps[OF post h] typed_v3[OF V h])
  then show ?thesis
    using assms(2) by (auto simp: serve_request_def cm_E_def split: option.split)
qed

lemma typed_updater_moves:
  assumes "keys_ok (oe_E V)" "at_owner (provider_typed (oe_E V)) (us_owner u)"
  shows "at_owner (provider_typed (oe_E V)) (us_owner (updater_moves V u))"
proof -
  have "keeps (at_owner (provider_typed (oe_E V))) (updater_round V km)" for km
    by (intro typed_uses[OF assms(1)] typed_api)
  from keepsD[OF this assms(2)] show ?thesis
    using assms(2)
    by (auto simp: updater_moves_def set_running_def at_defs split: option.split list.split prod.split sum.split updater_phase.split)
      (metis snd_conv)+
qed

lemma typed_owner_serves:
  assumes "keys_ok (cm_E M)" "at_handler (provider_typed (cm_E M)) h"
  shows "at_handler (provider_typed (cm_E M)) (snd (owner_serves M A X C L events h))"
  using assms(2)
proof (induction events arbitrary: h)
  case (Cons e es)
  show ?case
  proof (cases e)
    case (Arrives req sec_key)
    obtain r h' where r: "serve_request M A sec_key X C L req h = (r, h')" by fastforce
    have "at_handler (provider_typed (cm_E M)) h'"
      using typed_serve_request[OF assms(1) Cons.prems, of A sec_key X C L req] r by simp
    then show ?thesis using Cons.IH by (simp add: Arrives r snd_of_case)
  next
    case ThreadMoves
    show ?thesis
      using Cons.IH Cons.prems typed_updater_moves[OF assms(1)[unfolded cm_E_def]]
      by (simp add: ThreadMoves at_handler_def at_defs rpc_owner_def cm_E_def)
  next
    case (StatusArrives m)
    show ?thesis using Cons.IH Cons.prems by (simp add: StatusArrives at_handler_def rpc_owner_def)
  qed
qed simp

lemma typed_owner_api:
  assumes "keys_ok (cm_E M)"
  shows "keeps (at_cmd (provider_typed (cm_E M))) (cmd_owner_api M A X C km config tc ec g synced events)"
  unfolding cmd_owner_api_def
proof (rule keeps_as_lib_wallet, rule keepsI)
  fix L :: listener_args and s assume s: "at_cmd (provider_typed (cm_E M)) s"
  then have "at_handler (provider_typed (cm_E M)) (handler_v3 km L synced (cs_owner s))"
    by (simp add: at_cmd_def at_handler_def handler_v3_def rpc_owner_def updater_new_def set_running_def handler_owner_def owner_new_def)
  from typed_owner_serves[OF assms this, where A = A and X = X and C = C and L = L and events = events] show "at_cmd (provider_typed (cm_E M)) (snd (owner_listener M A X C km L synced events s))"
    using s by (simp add: owner_listener_def at_cmd_def at_handler_def share_def)
qed

section \<open>Requests without credentials\<close>

definition let_in :: "'l owner_codec \<Rightarrow> listener_args \<Rightarrow> server_event \<Rightarrow> bool" where
  "let_in C L e \<longleftrightarrow> (case e of Arrives req _ \<Rightarrow> refused C L req = None | _ \<Rightarrow> True)"

lemma serves_let_in:
  "snd (owner_serves M A X C L events h) = snd (owner_serves M A X C L (filter (let_in C L) events) h)"
  by (induction M A X C L events h rule: owner_serves.induct)
     (simp_all add: let_in_def serve_request_def snd_of_case split: option.split prod.split)

lemma idle_updater:
  assumes "us_holder (rp_updater (oh_api h)) = None" "us_waiting (rp_updater (oh_api h)) = []"
    and "list_all (\<lambda>e. case e of Arrives _ _ \<Rightarrow> False | _ \<Rightarrow> True) events"
  shows "rpc_owner (oh_api (snd (owner_serves M A X C L events h))) = rpc_owner (oh_api h)"
  using assms
proof (induction events arbitrary: h)
  case (Cons e es)
  then show ?case by (cases e) (auto simp: updater_moves_def rpc_owner_def)
qed simp


section \<open>Both versions\<close>

text \<open>A call of version 2 is the call of version 3 with an empty token: the same answer, and the same
  effect on the wallet.\<close>

theorem v2_is_v3_without_token:
  "owner_rpc V c s = owner_rpc_s V F A sec_key (WithToken \<lparr>tk_keychain_mask = None\<rparr> c) s"
  by (simp add: owner_rpc_is_token)

section \<open>The updating thread\<close>

definition running :: "bool \<Rightarrow> owner_state \<Rightarrow> bool" where
  "running b s \<longleftrightarrow> ow_updater_running s = b"

lemma keeps_running [keeps_intros]:
  "keeps (running b) (on_provider m)" "keeps (running b) (use_wallet m')" "keeps (running b) (network a r)"
  "keeps (running b) (on_epicbox V me)" "keeps (running b) (on_keybase mk)"
  by (auto simp: keeps_def running_def on_provider_def use_wallet_def network_def bindE_app on_epicbox_def on_keybase_def
      split: prod.split)

lemma keeps_running_sender [keeps_intros]: "keeps (running b) (sender_send_tx V synced sender s)"
  by (cases sender) (auto simp: sender_send_tx_def intro!: keeps_intros)

lemma running_calls [keeps_intros]:
  "keeps (running b) (api_accounts V km)" "keeps (running b) (api_create_account_path V km l)"
  "keeps (running b) (api_set_active_account V km l)" "keeps (running b) (api_retrieve_outputs V km u rf h t li off so)"
  "keeps (running b) (api_retrieve_txs V km rf t us li off so)" "keeps (running b) (api_retrieve_summary_info V km rf n)"
  "keeps (running b) (api_get_stored_tx V km e)" "keeps (running b) (api_verify_slate_messages V km sl)"
  "keeps (running b) (api_node_height V km)" "keeps (running b) (api_get_public_address V km ix)"
  "keeps (running b) (api_get_public_proof_address V km ix)" "keeps (running b) (api_retrieve_payment_proof V km rf t us)"
  "keeps (running b) (api_verify_payment_proof V km p)" "keeps (running b) (api_tx_lock_outputs V km sl pa ad)"
  "keeps (running b) (api_finalize_tx V km sl)" "keeps (running b) (api_post_tx V km tx f)"
  "keeps (running b) (api_issue_invoice_tx V km iargs)" "keeps (running b) (api_process_invoice_tx V km sl args)"
  "keeps (running b) (api_cancel_tx V km t us)" "keeps (running b) (api_scan V km ht d)"
  "keeps (running b) (api_init_send_tx V km args synced)" "keeps (running b) (proof_address_from_onion_v3 V x)"
  "keeps (running b) (api_create_wallet V name mn len pw)" "keeps (running b) (api_open_wallet V name pw use_mask)"
  "keeps (running b) (api_close_wallet name)" "keeps (running b) (api_get_mnemonic V name pw)"
  "keeps (running b) (api_change_password V name old new_pw rb)" "keeps (running b) (api_delete_wallet V name)"
  "keeps (running b) (api_set_top_level_directory dir)" "keeps (running b) api_get_top_level_directory"
  "keeps (running b) (set_tor_config tc)" "keeps (running b) (set_epicbox_config ec)"
  unfolding api_accounts_def api_create_account_path_def api_set_active_account_def api_retrieve_outputs_def
    api_retrieve_txs_def api_retrieve_summary_info_def api_get_stored_tx_def api_verify_slate_messages_def
    api_node_height_def api_get_public_address_def api_get_public_proof_address_def api_retrieve_payment_proof_def
    api_verify_payment_proof_def refresh_wanted_def api_tx_lock_outputs_def api_finalize_tx_def api_post_tx_def
    api_issue_invoice_tx_def api_process_invoice_tx_def api_cancel_tx_def api_scan_def api_init_send_tx_def
    send_over_epicbox_def send_over_sender_def proof_address_from_onion_v3_def api_create_wallet_def api_open_wallet_def
    api_close_wallet_def api_get_mnemonic_def api_change_password_def api_delete_wallet_def
    api_set_top_level_directory_def api_get_top_level_directory_def set_tor_config_def set_epicbox_config_def
  by (intro keeps_intros; (simp add: running_def)?)+

text \<open>Steps of the thread itself, and what only its user can make it do.\<close>

definition of_thread :: "updater_label \<Rightarrow> bool" where
  "of_thread l \<longleftrightarrow> l \<in> {Enter, Round, Failed, Wake}"

definition of_user :: "updater_label \<Rightarrow> bool" where
  "of_user l \<longleftrightarrow> (case l of Start _ \<Rightarrow> True | Stop \<Rightarrow> True | _ \<Rightarrow> False)"

definition reaches :: "owner_env \<Rightarrow> nat \<Rightarrow> nat \<Rightarrow> updater_state \<Rightarrow> updater_state \<Rightarrow> bool" where
  "reaches V n a u w \<longleftrightarrow> (\<exists>ls. updater_run V ls u w \<and> length (filter of_thread ls) \<le> n \<and> length (filter of_user ls) \<le> a)"

lemma reaches_refl: "reaches V n a u u"
  unfolding reaches_def by (intro exI[of _ "[]"]) (simp add: updater_run_simps)

lemma reaches_trans: "reaches V n a u v \<Longrightarrow> reaches V m b v w \<Longrightarrow> reaches V (n + m) (a + b) u w"
proof -
  assume "reaches V n a u v" "reaches V m b v w"
  then obtain ls ks where "updater_run V ls u v" "length (filter of_thread ls) \<le> n" "length (filter of_user ls) \<le> a"
    "updater_run V ks v w" "length (filter of_thread ks) \<le> m" "length (filter of_user ks) \<le> b"
    unfolding reaches_def by blast
  then show ?thesis
    unfolding reaches_def by (intro exI[of _ "ls @ ks"]) (auto simp: updater_run_append)
qed

lemma reaches_step:
  assumes "updater_step V l u w" "of_thread l \<Longrightarrow> 0 < n" "of_user l \<Longrightarrow> 0 < a"
  shows "reaches V n a u w"
  unfolding reaches_def using assms by (intro exI[of _ "[l]"]) (auto simp: updater_run_simps Suc_le_eq)

lemma reaches_call: "running (ow_updater_running (us_owner u)) ow \<Longrightarrow> reaches V n a u (u\<lparr>us_owner := ow\<rparr>)"
  by (rule reaches_step[OF updater_step.call]) (simp_all add: running_def of_thread_def of_user_def)

lemma reaches_moves: "reaches V 1 0 u (updater_moves V u)"
  unfolding updater_moves_def
  by (auto split: option.split list.split prod.split sum.split updater_phase.split intro: reaches_refl
      intro!: reaches_step[OF updater_step.enter] reaches_step[OF updater_step.wake] reaches_step[OF updater_step.round]
        reaches_step[OF updater_step.failed] simp: of_user_def)

text \<open>Calls.\<close>

definition at_updater :: "owner_env \<Rightarrow> updater_state \<Rightarrow> rpc_state \<times> SecretKey option \<Rightarrow> bool" where
  "at_updater V u x \<longleftrightarrow> reaches V 0 0 u (rp_updater (fst x))"

lemma updater_on_rpc: "(\<And>b. keeps (running b) m) \<Longrightarrow> keeps (at_updater V u) (on_rpc m)"
proof (rule keepsI)
  fix x assume m: "\<And>b. keeps (running b) m" and x: "at_updater V u x"
  obtain s key r ow where s: "x = (s, key)" "m (rpc_owner s) = (r, ow)" by (metis surj_pair)
  have "running (ow_updater_running (rpc_owner s)) ow"
    using keepsE[OF m _ s(2)] by (simp add: running_def)
  then have "reaches V 0 0 (rp_updater s) ((rp_updater s)\<lparr>us_owner := ow\<rparr>)"
    by (intro reaches_call) (simp add: rpc_owner_def)
  then show "at_updater V u (snd (on_rpc m x))"
    using reaches_trans[of V 0 0] x s by (fastforce simp: at_updater_def on_rpc_def set_rpc_owner_def)
qed

lemma updater_replied: "(\<And>b. keeps (running b) m) \<Longrightarrow> keeps (at_updater V u) (replied f m)"
  unfolding replied_def by (intro keeps_intros updater_on_rpc)

lemma updater_other:
  "keeps (at_updater V u) (v3_get_updater_messages n)" "keeps (at_updater V u) (v3_init_secure_api W A sk pk)"
  by (auto simp: at_updater_def v3_get_updater_messages_def v3_init_secure_api_def keeps_def split: prod.split sum.split)

lemma updater_owner_rpc_token: "keeps (at_updater V u) (owner_rpc_token W token c)"
  by (cases c; simp only: owner_rpc_token.simps v3_retrieve_outputs_def v3_retrieve_txs_def v3_init_send_tx_def
      v3_issue_invoice_tx_def v3_process_invoice_tx_def v3_finalize_tx_def;
      intro keeps_intros updater_replied updater_on_rpc)

lemma updater_owner_rpc_s:
  "reaches V 0 1 (rp_updater (fst x)) (rp_updater (fst (snd (owner_rpc_s W F A sec_key c x))))"
proof (cases "(\<exists>token n. c = CallStartUpdater token n) \<or> c = CallStopUpdater")
  case True
  obtain s key where x: "x = (s, key)" by fastforce
  show ?thesis
    using True by (auto simp: x v3_start_updater_def v3_stop_updater_def bindE_app of_thread_def
        intro!: reaches_step[OF updater_step.start] reaches_step[OF updater_step.stop])
next
  case False
  have "keeps (at_updater V (rp_updater (fst x))) (owner_rpc_s W F A sec_key c)"
    using False by (cases c; simp only: owner_rpc_s.simps v3_create_config_def v3_create_wallet_def v3_open_wallet_def
        v3_change_password_def v3_get_public_address_def v3_get_public_proof_address_def v3_retrieve_payment_proof_def
        v3_verify_payment_proof_def;
      (intro keeps_intros updater_replied updater_on_rpc updater_owner_rpc_token updater_other)?; simp)
  from keepsD[OF this] have "reaches V 0 0 (rp_updater (fst x)) (rp_updater (fst (snd (owner_rpc_s W F A sec_key c x))))"
    by (simp add: at_updater_def reaches_refl)
  then show ?thesis unfolding reaches_def by auto
qed

text \<open>Requests.\<close>

lemma reaches_mono: "reaches V n a u w \<Longrightarrow> n \<le> m \<Longrightarrow> a \<le> b \<Longrightarrow> reaches V m b u w"
  unfolding reaches_def by (meson order_trans)

lemma snd_rpc_answer: "snd (rpc_answer X i f m s) = snd (m s)"
proof -
  obtain r t where m: "m s = (r, t)" by fastforce
  show ?thesis
  proof (cases r)
    case (Inl e)
    then show ?thesis using m by (cases e) (simp_all add: rpc_answer_def)
  qed (simp add: rpc_answer_def m)
qed

lemma updater_handle_request:
  assumes "\<And>c. reaches V 0 1 (rp_updater (fst x)) (rp_updater (fst (snd (run c x))))"
  shows "reaches V 0 1 (rp_updater (fst x)) (rp_updater (fst (snd (owner_handle_request X rd wr run val x))))"
proof -
  have "snd (bindE (rpc_answer X i wr (run c)) (\<lambda>r. ret (Reply r)) x) = snd (run c x)" for i c
    using snd_rpc_answer[of X i wr "run c" x] by (auto simp: bindE_app split: prod.split sum.split)
  then show ?thesis
    using assms by (auto simp: owner_handle_request_def reaches_refl split: sum.split option.split)
qed

lemma updater_call_api:
  assumes "\<And>val x. reaches V 0 1 (rp_updater (fst x)) (rp_updater (fst (snd (rpc val x))))"
  shows "reaches V 0 1 (rp_updater (oh_api h)) (rp_updater (oh_api (snd (call_api E A rf rpc val h))))"
proof -
  have "reaches V 0 1 (rp_updater (oh_api h)) (rp_updater (oh_api (snd (run_request E A rf rpc i v h))))" for i v
  proof -
    obtain reply api k where r: "rpc v (oh_api h, oh_api_key h) = (reply, api, k)" by (metis surj_pair)
    have "reaches V 0 1 (rp_updater (oh_api h)) (rp_updater api)"
      using assms[of "(oh_api h, oh_api_key h)" v] r by simp
    then show ?thesis
      by (auto simp: run_request_def r Let_def split: option.split MaybeReply.split sum.split)
  qed
  then show ?thesis
    by (auto simp: call_api_def reaches_refl split: sum.split option.split prod.split)
qed

lemma updater_v3_post:
  "reaches V 0 1 (rp_updater (oh_api h)) (rp_updater (oh_api (snd (owner_v3_post W F A sec_key X C rf body h))))"
proof -
  have "reaches V 0 1 (rp_updater (fst x)) (rp_updater (fst (snd (secure_rpc W F A sec_key X C val x))))" for val x
    using updater_handle_request[where x = x and X = X and rd = "oc_secure_call C" and wr = "oc_reply C" and val = val
        and run = "owner_rpc_s W F A sec_key", OF updater_owner_rpc_s[where x = x and V = V and W = W and F = F and A = A and sec_key = sec_key]]
    by (auto simp: secure_rpc_def split: prod.split sum.split)
  from updater_call_api[OF this] show ?thesis
    by (simp add: owner_v3_post_def snd_of_case reaches_refl split: option.split)
qed

lemma updater_on_handler:
  assumes "\<And>b. keeps (running b) m"
  shows "reaches V 0 1 (rp_updater (oh_api h)) (rp_updater (oh_api (snd (on_handler_owner m h))))"
proof -
  obtain r ow where m: "m (rpc_owner (oh_api h)) = (r, ow)" by fastforce
  have "running (ow_updater_running (rpc_owner (oh_api h))) ow"
    using keepsE[OF assms _ m] by (simp add: running_def)
  from reaches_call[OF this[unfolded rpc_owner_def]] show ?thesis
    by (simp add: on_handler_owner_def m set_rpc_owner_def)
qed

lemma running_v2: "keeps (running b) (handler_v2 V X C tc ec synced body)"
  by (auto simp: keeps_def running_def handler_v2_def share_def split: prod.split)

lemma updater_serve_request:
  "reaches V 0 (if refused C L req = None then 1 else 0) (rp_updater (oh_api h))
     (rp_updater (oh_api (snd (serve_request M A sec_key X C L req h))))"
proof (cases "refused C L req")
  case None
  let ?h = "set_synced (hr_synced req) h"
  have "reaches V 0 0 (rp_updater (oh_api h)) (rp_updater (oh_api ?h))"
    unfolding set_synced_def set_rpc_owner_def by (simp add: rpc_owner_def reaches_call running_def)
  moreover have "keeps (running b) (on_provider m)" for b and m :: "http_reply lc_op"
    by (intro keeps_running)
  then have "reaches V 0 1 (rp_updater (oh_api ?h)) (rp_updater (oh_api (snd (owner_route M A sec_key X C L req ?h))))"
    by (simp add: owner_route_def snd_of_case reaches_refl updater_v3_post updater_on_handler running_v2
        del: One_nat_def)
  ultimately show ?thesis
    using reaches_trans[of V 0 0 _ _ 0 1] None by (fastforce simp: serve_request_def)
qed (simp add: serve_request_def reaches_refl)


end
