(* ===== verification/CommandLine.thy ===== *)
theory CommandLine
  imports Types Text
begin

text \<open>
  The command line, \<open>src/cmd/wallet_args.rs\<close>: the arguments that \<open>build_cli\<close> declares, without the
  texts of the help, and the values that the argument parser clap hands to the program. The parser
  itself is not part of the repository: what it promises for declared arguments is \<open>fits\<close>.
\<close>

section \<open>Declared arguments\<close>

text \<open>
  The parser of a value, or the action of a flag; a text argument may be limited to a few values.
\<close>

datatype arg_kind = AnyText | U16Text | OneOf "string list" | SetTrue | SetFalse

record arg_spec =
  ag_name :: string
  ag_short :: "char option"
  ag_long :: "string option"
  ag_index :: "nat option"
  ag_kind :: arg_kind
  ag_default :: "string option"
  ag_required :: bool

definition cli_arg :: "string \<Rightarrow> char option \<Rightarrow> string option \<Rightarrow> arg_kind \<Rightarrow> arg_spec" where
  "cli_arg name short long k =
     \<lparr>ag_name = name, ag_short = short, ag_long = long, ag_index = None, ag_kind = k, ag_default = None,
      ag_required = False\<rparr>"

definition with_default :: "string \<Rightarrow> arg_spec \<Rightarrow> arg_spec" where
  "with_default d a = a\<lparr>ag_default := Some d\<rparr>"

definition at_index :: "nat \<Rightarrow> arg_spec \<Rightarrow> arg_spec" where
  "at_index i a = a\<lparr>ag_index := Some i\<rparr>"

definition required :: "arg_spec \<Rightarrow> arg_spec" where
  "required a = a\<lparr>ag_required := True\<rparr>"

definition long_arg :: "char \<Rightarrow> string \<Rightarrow> arg_kind \<Rightarrow> arg_spec" where
  "long_arg c name k = cli_arg name (Some c) (Some name) k"

record cli_command =
  cc_name :: string
  cc_args :: "arg_spec list"

section \<open>The commands\<close>

definition global_specs :: "arg_spec list" where
  "global_specs =
     [cli_arg ''floonet'' None (Some ''floonet'') SetTrue,
      cli_arg ''usernet'' None (Some ''usernet'') SetTrue,
      long_arg (CHR ''p'') ''pass'' AnyText,
      with_default ''default'' (long_arg (CHR ''a'') ''account'' AnyText),
      long_arg (CHR ''t'') ''top_level_dir'' AnyText,
      long_arg (CHR ''c'') ''current_dir'' AnyText,
      long_arg (CHR ''e'') ''external'' SetTrue,
      long_arg (CHR ''s'') ''show_spent'' SetTrue,
      long_arg (CHR ''r'') ''api_server_address'' AnyText,
      cli_arg ''offline_mode'' None (Some ''offline_mode'') SetTrue]"

definition account_cli :: cli_command where
  "account_cli = \<lparr>cc_name = ''account'', cc_args = [long_arg (CHR ''c'') ''create'' AnyText]\<rparr>"

definition listen_cli :: cli_command where
  "listen_cli = \<lparr>cc_name = ''listen'', cc_args =
     [long_arg (CHR ''l'') ''port'' U16Text,
      with_default ''http'' (long_arg (CHR ''m'') ''method'' (OneOf [''http'', ''keybase'', ''epicbox''])),
      long_arg (CHR ''n'') ''no_tor'' SetTrue]\<rparr>"

definition owner_api_cli :: cli_command where
  "owner_api_cli = \<lparr>cc_name = ''owner_api'', cc_args =
     [long_arg (CHR ''l'') ''port'' U16Text,
      cli_arg ''run_foreign'' None (Some ''run_foreign'') SetTrue]\<rparr>"

definition send_cli :: cli_command where
  "send_cli = \<lparr>cc_name = ''send'', cc_args =
     [at_index 1 (cli_arg ''amount'' None None AnyText),
      with_default ''10'' (cli_arg ''minimum_confirmations'' (Some (CHR ''c'')) (Some ''min_conf'') AnyText),
      with_default ''smallest'' (cli_arg ''selection_strategy'' (Some (CHR ''s'')) (Some ''selection'') (OneOf [''all'', ''smallest''])),
      cli_arg ''estimate_selection_strategies'' (Some (CHR ''e'')) (Some ''estimate-selection'') SetTrue,
      with_default ''1'' (long_arg (CHR ''o'') ''change_outputs'' AnyText),
      with_default ''http'' (long_arg (CHR ''m'') ''method''
        (OneOf [''http'', ''file'', ''self'', ''keybase'', ''emoji'', ''epicbox''])),
      long_arg (CHR ''d'') ''dest'' AnyText,
      long_arg (CHR ''y'') ''request_payment_proof'' SetTrue,
      long_arg (CHR ''z'') ''proof_address'' AnyText,
      long_arg (CHR ''f'') ''fluff'' SetTrue,
      long_arg (CHR ''g'') ''message'' AnyText,
      long_arg (CHR ''t'') ''stored_tx'' AnyText,
      long_arg (CHR ''b'') ''ttl_blocks'' AnyText,
      long_arg (CHR ''v'') ''slate_version'' U16Text]\<rparr>"

definition issue_invoice_cli :: cli_command where
  "issue_invoice_cli = \<lparr>cc_name = ''issue_invoice'', cc_args =
     [at_index 1 (cli_arg ''amount'' None None AnyText),
      long_arg (CHR ''g'') ''message'' AnyText,
      long_arg (CHR ''d'') ''dest'' AnyText,
      long_arg (CHR ''f'') ''fluff'' SetTrue,
      long_arg (CHR ''b'') ''ttl_blocks'' AnyText,
      long_arg (CHR ''v'') ''slate_version'' U16Text]\<rparr>"

definition receive_cli :: cli_command where
  "receive_cli = \<lparr>cc_name = ''receive'', cc_args =
     [long_arg (CHR ''g'') ''message'' AnyText,
      with_default ''file'' (long_arg (CHR ''m'') ''method'' (OneOf [''file'', ''emoji''])),
      long_arg (CHR ''i'') ''input'' AnyText]\<rparr>"

definition finalize_cli :: cli_command where
  "finalize_cli = \<lparr>cc_name = ''finalize'', cc_args =
     [with_default ''file'' (long_arg (CHR ''m'') ''method'' (OneOf [''file'', ''emoji''])),
      long_arg (CHR ''i'') ''input'' AnyText,
      long_arg (CHR ''f'') ''fluff'' SetTrue,
      long_arg (CHR ''n'') ''nopost'' SetTrue,
      long_arg (CHR ''d'') ''dest'' AnyText]\<rparr>"

definition invoice_cli :: cli_command where
  "invoice_cli = \<lparr>cc_name = ''invoice'', cc_args =
     [at_index 1 (cli_arg ''amount'' None None AnyText),
      long_arg (CHR ''g'') ''message'' AnyText,
      long_arg (CHR ''d'') ''dest'' AnyText,
      long_arg (CHR ''v'') ''slate_version'' U16Text]\<rparr>"

definition pay_cli :: cli_command where
  "pay_cli = \<lparr>cc_name = ''pay'', cc_args =
     [with_default ''10'' (cli_arg ''minimum_confirmations'' (Some (CHR ''c'')) (Some ''min_conf'') AnyText),
      with_default ''all'' (cli_arg ''selection_strategy'' (Some (CHR ''s'')) (Some ''selection'') (OneOf [''all'', ''smallest''])),
      cli_arg ''estimate_selection_strategies'' (Some (CHR ''e'')) (Some ''estimate-selection'') SetTrue,
      with_default ''file'' (long_arg (CHR ''m'') ''method'' (OneOf [''file'', ''http'', ''self''])),
      long_arg (CHR ''d'') ''dest'' AnyText,
      long_arg (CHR ''g'') ''message'' AnyText,
      long_arg (CHR ''i'') ''input'' AnyText,
      long_arg (CHR ''b'') ''ttl_blocks'' AnyText]\<rparr>"

definition outputs_cli :: cli_command where
  "outputs_cli = \<lparr>cc_name = ''outputs'', cc_args =
     [long_arg (CHR ''f'') ''show_full_history'' SetTrue,
      long_arg (CHR ''l'') ''limit'' AnyText,
      long_arg (CHR ''o'') ''offset'' AnyText,
      long_arg (CHR ''s'') ''sort_order'' (OneOf [''asc'', ''desc''])]\<rparr>"

definition txs_cli :: cli_command where
  "txs_cli = \<lparr>cc_name = ''txs'', cc_args =
     [long_arg (CHR ''i'') ''id'' AnyText,
      long_arg (CHR ''t'') ''txid'' AnyText,
      long_arg (CHR ''l'') ''limit'' AnyText,
      long_arg (CHR ''o'') ''offset'' AnyText,
      long_arg (CHR ''s'') ''sort_order'' (OneOf [''asc'', ''desc''])]\<rparr>"

definition post_cli :: cli_command where
  "post_cli = \<lparr>cc_name = ''post'', cc_args =
     [long_arg (CHR ''i'') ''input'' AnyText, long_arg (CHR ''f'') ''fluff'' SetTrue]\<rparr>"

definition repost_cli :: cli_command where
  "repost_cli = \<lparr>cc_name = ''repost'', cc_args =
     [long_arg (CHR ''i'') ''id'' AnyText,
      long_arg (CHR ''m'') ''dumpfile'' AnyText,
      long_arg (CHR ''f'') ''fluff'' SetTrue]\<rparr>"

definition cancel_cli :: cli_command where
  "cancel_cli = \<lparr>cc_name = ''cancel'', cc_args =
     [long_arg (CHR ''i'') ''id'' AnyText, long_arg (CHR ''t'') ''txid'' AnyText]\<rparr>"

definition info_cli :: cli_command where
  "info_cli = \<lparr>cc_name = ''info'', cc_args =
     [with_default ''10'' (cli_arg ''minimum_confirmations'' (Some (CHR ''c'')) (Some ''min_conf'') AnyText)]\<rparr>"

definition init_cli :: cli_command where
  "init_cli = \<lparr>cc_name = ''init'', cc_args =
     [long_arg (CHR ''w'') ''cwd'' SetTrue,
      long_arg (CHR ''s'') ''short_wordlist'' SetTrue,
      long_arg (CHR ''r'') ''recover'' SetTrue]\<rparr>"

definition recover_cli :: cli_command where
  "recover_cli = \<lparr>cc_name = ''recover'', cc_args = []\<rparr>"

definition address_cli :: cli_command where
  "address_cli = \<lparr>cc_name = ''address'', cc_args = []\<rparr>"

definition scan_cli :: cli_command where
  "scan_cli = \<lparr>cc_name = ''scan'', cc_args =
     [long_arg (CHR ''d'') ''delete_unconfirmed'' SetTrue,
      with_default ''1'' (long_arg (CHR ''s'') ''start_height'' AnyText)]\<rparr>"

definition export_proof_cli :: cli_command where
  "export_proof_cli = \<lparr>cc_name = ''export_proof'', cc_args =
     [at_index 1 (cli_arg ''output'' None None AnyText),
      long_arg (CHR ''i'') ''id'' AnyText,
      long_arg (CHR ''t'') ''txid'' AnyText]\<rparr>"

definition export_tx_cli :: cli_command where
  "export_tx_cli = \<lparr>cc_name = ''export_tx'', cc_args =
     [long_arg (CHR ''i'') ''id'' AnyText,
      cli_arg ''all'' None (Some ''all'') SetTrue,
      required (long_arg (CHR ''o'') ''output'' AnyText),
      with_default ''json'' (cli_arg ''format'' None (Some ''format'') (OneOf [''csv'', ''json'']))]\<rparr>"

definition import_tx_cli :: cli_command where
  "import_tx_cli = \<lparr>cc_name = ''import_tx'', cc_args =
     [required (long_arg (CHR ''i'') ''input'' AnyText),
      with_default ''json'' (cli_arg ''format'' None (Some ''format'') (OneOf [''csv'', ''json'']))]\<rparr>"

definition verify_proof_cli :: cli_command where
  "verify_proof_cli = \<lparr>cc_name = ''verify_proof'', cc_args = [at_index 1 (cli_arg ''input'' None None AnyText)]\<rparr>"

definition change_password_cli :: cli_command where
  "change_password_cli = \<lparr>cc_name = ''change_password'', cc_args =
     [cli_arg ''old_password'' None None AnyText,
      cli_arg ''new_password'' None None AnyText,
      cli_arg ''remove_backup'' None (Some ''remove-backup'') SetFalse]\<rparr>"

definition build_cli :: "arg_spec list \<times> cli_command list" where
  "build_cli = (global_specs,
     [account_cli, listen_cli, owner_api_cli, send_cli, issue_invoice_cli, receive_cli, finalize_cli, invoice_cli,
      pay_cli, outputs_cli, txs_cli, post_cli, repost_cli, cancel_cli, info_cli, init_cli, recover_cli, address_cli,
      scan_cli, export_proof_cli, export_tx_cli, import_tx_cli, verify_proof_cli, change_password_cli])"

section \<open>The values of the arguments\<close>

datatype arg_value = TextValue string | U16Value u16 | FlagValue bool

type_synonym arg_values = "string \<Rightarrow> arg_value option"

record arg_matches =
  am_values :: arg_values
  am_subcommand :: "(string \<times> arg_values) option"

text \<open>
  \<open>get_one\<close> and \<open>get_flag\<close> panic when an argument is read as something else than it was declared, and
  \<open>get_flag\<close> when it was not declared.
\<close>

definition get_text :: "arg_values \<Rightarrow> string \<Rightarrow> error + string option" where
  "get_text args name = (case args name of
      None \<Rightarrow> Inr None
    | Some (TextValue s) \<Rightarrow> Inr (Some s)
    | Some _ \<Rightarrow> Inl (Panic ''Mismatch between definition and access''))"

definition get_u16 :: "arg_values \<Rightarrow> string \<Rightarrow> error + u16 option" where
  "get_u16 args name = (case args name of
      None \<Rightarrow> Inr None
    | Some (U16Value n) \<Rightarrow> Inr (Some n)
    | Some _ \<Rightarrow> Inl (Panic ''Mismatch between definition and access''))"

definition get_flag :: "arg_values \<Rightarrow> string \<Rightarrow> error + bool" where
  "get_flag args name = (case args name of
      Some (FlagValue b) \<Rightarrow> Inr b
    | _ \<Rightarrow> Inl (Panic ''Mismatch between definition and access''))"

text \<open>
  What the values are when an argument is not given; and what clap promises of the values of
  declared arguments.
\<close>

definition absent_value :: "arg_spec \<Rightarrow> arg_value option" where
  "absent_value a = (case ag_kind a of
      SetTrue \<Rightarrow> Some (FlagValue False)
    | SetFalse \<Rightarrow> Some (FlagValue True)
    | _ \<Rightarrow> map_option TextValue (ag_default a))"

fun value_fits :: "arg_spec \<Rightarrow> arg_value option \<Rightarrow> bool" where
  "value_fits a None \<longleftrightarrow> absent_value a = None \<and> \<not> ag_required a"
| "value_fits a (Some (FlagValue b)) \<longleftrightarrow> ag_kind a = SetTrue \<or> ag_kind a = SetFalse"
| "value_fits a (Some (U16Value n)) \<longleftrightarrow> ag_kind a = U16Text"
| "value_fits a (Some (TextValue s)) \<longleftrightarrow> (case ag_kind a of AnyText \<Rightarrow> True | OneOf ss \<Rightarrow> s \<in> set ss | _ \<Rightarrow> False)"

definition fits :: "arg_spec list \<Rightarrow> arg_values \<Rightarrow> bool" where
  "fits specs args \<longleftrightarrow> list_all (\<lambda>a. value_fits a (args (ag_name a))) specs \<and>
     dom args \<subseteq> set (map ag_name specs)"

text \<open>The values of a line: the global ones, and those of a declared command.\<close>

definition fits_cli :: "arg_matches \<Rightarrow> bool" where
  "fits_cli m \<longleftrightarrow> fits (fst build_cli) (am_values m) \<and>
     (case am_subcommand m of
        None \<Rightarrow> True
      | Some (name, args) \<Rightarrow> list_ex (\<lambda>c. cc_name c = name \<and> fits (cc_args c) args) (snd build_cli))"

end
