(* ===== verification/TorManager.thy ===== *)
theory TorManager
  imports TorProcess Adapters Lifecycle
begin

text \<open>
  The service under which Tor users reach the listener, \<open>impls/src/tor/tor_manager.rs\<close>: writing its
  configuration, and starting Tor unless a proxy answers. The sockets, the directory listing and
  the debug text of errors are parameters.
\<close>

record tor_manager =
  tm_socks_proxy_addr :: string
  tm_tor_process :: "process_spec option"

text \<open>
  \<open>tn_available\<close> is whether the first connection to the proxy succeeds, \<open>tn_probes\<close> what those of the
  waiting thread do; \<open>tn_entries\<close> lists a directory, an entry that cannot be read being \<open>None\<close>.
\<close>

record tor_net =
  tn_addr_ok :: "string \<Rightarrow> bool"
  tn_available :: bool
  tn_probes :: "bool list"
  tn_entries :: "string \<Rightarrow> disk \<Rightarrow> string option list option"
  tn_debug :: "impls_error \<Rightarrow> string"
  tn_debug_lib :: "error \<Rightarrow> string"

section \<open>Starting Tor\<close>

text \<open>
  The thread's wait: a second after each failed connection, at most twenty times. Nothing when it
  still waits after the connections that are given.
\<close>

fun wait_for_tor :: "nat \<Rightarrow> bool list \<Rightarrow> (tor_error + unit) option" where
  "wait_for_tor waited [] = None"
| "wait_for_tor waited (available # probes) =
     (if available then Some (Inr ())
      else if waited \<ge> 20 then Some (Inl TorTimeout)
      else wait_for_tor (waited + 1) probes)"

text \<open>
  The thread; a panic in it stays without consequence for the listener, and leaves the manager
  without a process.
\<close>

definition manager_process :: "string \<Rightarrow> process_spec" where
  "manager_process tor_dir =
     tp_set_completion_percent 100 (tp_set_timeout 20 (tp_set_working_dir tor_dir
       (tp_set_torrc_path (tor_dir @ ''/torrc'') tor_process_new)))"

definition tor_thread :: "seed_ext \<Rightarrow> tor_os \<Rightarrow> tor_net \<Rightarrow> string \<Rightarrow> tor_manager \<Rightarrow> tor_manager tor_op" where
  "tor_thread S OS N tor_dir manager =
     bindE (attempt (launch S OS (manager_process tor_dir))) (\<lambda>r. case r of
       Inl _ \<Rightarrow> ret manager
     | Inr tor \<Rightarrow> (case wait_for_tor 0 (tn_probes N) of
         Some (Inr _) \<Rightarrow> ret (manager\<lparr>tm_tor_process := Some tor\<rparr>)
       | _ \<Rightarrow> ret manager))"

definition ensure_running :: "seed_ext \<Rightarrow> tor_os \<Rightarrow> tor_net \<Rightarrow> string \<Rightarrow> string \<Rightarrow> (disk, error, tor_manager) proc" where
  "ensure_running S OS N proxy_addr tor_dir =
     (let manager = \<lparr>tm_socks_proxy_addr = proxy_addr, tm_tor_process = None\<rparr> in
      if \<not> tn_addr_ok N proxy_addr then throw (Panic ''Invalid SOCKS proxy address'')
      else if tn_available N then ret manager
      else (\<lambda>d. case tor_thread S OS N tor_dir manager \<lparr>tw_disk = d, tw_killed = []\<rparr> of
          (r, s) \<Rightarrow> (Inr (case r of Inl _ \<Rightarrow> manager | Inr t \<Rightarrow> t), tw_disk s)))"

section \<open>The listener's service\<close>

text \<open>The first service directory with a readable host name, in the order of the listing.\<close>

fun first_hostname :: "seed_ext \<Rightarrow> disk \<Rightarrow> string option list \<Rightarrow> string option" where
  "first_hostname S d [] = None"
| "first_hostname S d (None # entries) = first_hostname S d entries"
| "first_hostname S d (Some p # entries) = (case fst (read_file S (in_dir p ''hostname'') d) of
      Inr t \<Rightarrow> Some t | Inl _ \<Rightarrow> first_hostname S d entries)"

definition tor_config_error :: "tor_net \<Rightarrow> impls_error + 'a \<Rightarrow> error + 'a" where
  "tor_config_error N r = (case r of
      Inl (ImplsPanic p) \<Rightarrow> Inl (Panic p) | Inl ImplsDiverges \<Rightarrow> Inl Diverges
    | Inl e \<Rightarrow> Inl (TorConfigError (tn_debug N e)) | Inr x \<Rightarrow> Inr x)"

definition tor_address_key :: "ext \<Rightarrow> tor_net \<Rightarrow> SecretKey option \<Rightarrow> SecretKey op" where
  "tor_address_key E N keychain_mask =
     bindE (keychain E keychain_mask) (\<lambda>k.
     bindE (gets w_parent_key_id) (\<lambda>parent_key_id.
     liftE (case address_from_derivation_path E k parent_key_id 0 of
        Inl (Panic p) \<Rightarrow> Inl (Panic p) | Inl e \<Rightarrow> Inl (TorConfigError (tn_debug_lib N e)) | Inr s \<Rightarrow> Inr s)))"

text \<open>The part of an address after its last colon.\<close>

definition addr_port :: "string \<Rightarrow> string" where
  "addr_port addr = last (split_on (CHR '':'') addr)"

definition on_provider_disk :: "(disk, error, 'a) proc \<Rightarrow> 'a lc_op" where
  "on_provider_disk m s = (case m (lc_disk s) of (r, d) \<Rightarrow> (r, s\<lparr>lc_disk := d\<rparr>))"

definition init_tor_listener ::
    "ext \<Rightarrow> seed_ext \<Rightarrow> tor_ext \<Rightarrow> tor_os \<Rightarrow> tor_net \<Rightarrow> string \<Rightarrow> SecretKey option \<Rightarrow> string \<Rightarrow>
     (tor_manager \<times> string option) lc_op" where
  "init_tor_listener E S T OS N proxy_addr keychain_mask addr =
     bindE (with_wallet (tor_address_key E N keychain_mask)) (\<lambda>sec_key.
     bindE (liftE (tor_config_error N (onion_address_from_seckey E sec_key))) (\<lambda>_.
     bindE get_top_level_directory (\<lambda>top_dir.
     (let tor_dir = top_dir @ ''/wallet_tor'' in
      bindE (on_provider_disk (\<lambda>d. case output_tor_listener_config_auto E S T tor_dir addr proxy_addr sec_key d of
         (r, d) \<Rightarrow> (tor_config_error N r, d))) (\<lambda>_.
      bindE (on_provider_disk (ensure_running S OS N proxy_addr tor_dir)) (\<lambda>manager.
      bindE (gets (\<lambda>s. Option.bind (tn_entries N (tor_dir @ ''/onion_service_addresses'') (lc_disk s))
         (first_hostname S (lc_disk s)))) (\<lambda>onion_addr.
      ret (manager, map_option (\<lambda>a. ''http://'' @ trim a @ '':'' @ addr_port addr) onion_addr))))))))"

end
