(* ===== verification/ArgParse.thy ===== *)
theory ArgParse
  imports CommandLine CommandSteps TorManager
begin

text \<open>
  From the values of the command line to the arguments of the commands, \<open>src/cmd/wallet_args.rs\<close>, and
  the questions that are put to the user. What is typed is a list of lines for each kind of question;
  its end is the end of the input.
\<close>

section \<open>What is not in the repository\<close>

text \<open>
  The first line of a file, the amounts and identifiers of the core crates, the chain of the
  process, and the opening of the terminal for the confirmation of an invoice.
\<close>

record cli_ext =
  cx_first_line :: "string option \<Rightarrow> string option"
  cx_amount :: "string \<Rightarrow> string + u64"
  cx_uuid :: "string \<Rightarrow> string + Uuid"
  cx_chain_type :: ChainTypes
  cx_interface :: "string option"

datatype typed = Typed string | Interrupted | OtherSignal

record terminal =
  tt_passwords :: "string option list"
  tt_phrases :: "string option list"
  tt_confirmations :: "typed list"

section \<open>Questions\<close>

text \<open>A password that cannot be read is empty.\<close>

definition prompt_password_stdout :: "terminal \<Rightarrow> string \<times> terminal" where
  "prompt_password_stdout t = (case tt_passwords t of
      [] \<Rightarrow> ([], t)
    | p # ps \<Rightarrow> ((case p of Some s \<Rightarrow> s | None \<Rightarrow> []), t\<lparr>tt_passwords := ps\<rparr>))"

definition prompt_password :: "string option \<Rightarrow> terminal \<Rightarrow> string \<times> terminal" where
  "prompt_password password t = (case password of None \<Rightarrow> prompt_password_stdout t | Some p \<Rightarrow> (p, t))"

function prompt_password_confirm :: "terminal \<Rightarrow> string \<times> terminal" where
  "prompt_password_confirm t =
     (case prompt_password_stdout t of (first, t1) \<Rightarrow>
      (case prompt_password_stdout t1 of (second, t2) \<Rightarrow>
       if first = second then (first, t2) else prompt_password_confirm t2))"
  by pat_completeness auto
termination
  by (relation "measure (\<lambda>t. length (tt_passwords t))")
     (auto simp: prompt_password_stdout_def split: list.splits)

declare prompt_password_confirm.simps [simp del]

fun read_phrase :: "seed_ext \<Rightarrow> string option list \<Rightarrow> provider \<Rightarrow> (error + string) \<times> string option list \<times> provider" where
  "read_phrase S [] p = (Inl CancelledError, [], p)"
| "read_phrase S (None # ls) p = (Inl CancelledError, ls, p)"
| "read_phrase S (Some line # ls) p = (case validate_mnemonic S line p of
      (Inr _, p) \<Rightarrow> (Inr line, ls, p)
    | (Inl _, p) \<Rightarrow> read_phrase S ls p)"

text \<open>Whether the invoice is to be paid, as far as the loop over what is typed gets.\<close>

fun read_confirmation :: "string \<Rightarrow> typed list \<Rightarrow> (error + bool) \<times> typed list" where
  "read_confirmation amount [] = (Inr False, [])"
| "read_confirmation amount (Interrupted # ls) = (Inl CancelledError, ls)"
| "read_confirmation amount (OtherSignal # ls) = read_confirmation amount ls"
| "read_confirmation amount (Typed line # ls) =
     (if trim line = ''Q'' \<or> trim line = ''q'' then (Inl CancelledError, ls)
      else if trim line = amount then (Inr True, ls)
      else read_confirmation amount ls)"

definition prompt_pay_invoice :: "ext \<Rightarrow> cli_ext \<Rightarrow> Slate \<Rightarrow> terminal \<Rightarrow> (error + bool) \<times> terminal" where
  "prompt_pay_invoice E X slate t = (case cx_interface X of
      Some e \<Rightarrow> (Inl (StdIO e), t)
    | None \<Rightarrow> (case read_confirmation (amount_to_hr_string E (sl_amount slate)) (tt_confirmations t) of
        (r, ls) \<Rightarrow> (r, t\<lparr>tt_confirmations := ls\<rparr>)))"

section \<open>Values\<close>

definition parse_required :: "arg_values \<Rightarrow> string \<Rightarrow> error + string" where
  "parse_required args name = and_then (get_text args name) (\<lambda>arg. case arg of
      Some ar \<Rightarrow> Inr ar
    | None \<Rightarrow> Inl (ArgumentError (''Value for argument '' @ [CHR 0x27] @ name @ '' is required in this context'')))"

text \<open>\<open>str::parse\<close> to an unsigned integer below a bound.\<close>

fun read_digits :: "nat \<Rightarrow> nat \<Rightarrow> string \<Rightarrow> string + nat" where
  "read_digits bound acc [] = Inr acc"
| "read_digits bound acc (c # cs) = (case digit_val 10 c of
      None \<Rightarrow> Inl ''invalid digit found in string''
    | Some v \<Rightarrow> if acc * 10 + v \<ge> bound then Inl ''number too large to fit in target type''
        else read_digits bound (acc * 10 + v) cs)"

definition str_parse_uint :: "nat \<Rightarrow> string \<Rightarrow> string + nat" where
  "str_parse_uint bound s =
     (if s = [] then Inl ''cannot parse integer from empty string''
      else if s = ''+'' \<or> s = ''-'' then Inl ''invalid digit found in string''
      else read_digits bound 0 (if hd s = CHR ''+'' then tl s else s))"

definition parse_u64 :: "string \<Rightarrow> string \<Rightarrow> error + u64" where
  "parse_u64 arg name = (case str_parse_uint (2 ^ 64) arg of
      Inr v \<Rightarrow> Inr (of_nat v)
    | Inl e \<Rightarrow> Inl (ArgumentError (''Could not parse '' @ name @ '' as a whole number. e='' @ e)))"

definition parse_u64_or_none :: "string option \<Rightarrow> u64 option" where
  "parse_u64_or_none arg = (case arg of
      None \<Rightarrow> None
    | Some a \<Rightarrow> (case str_parse_uint (2 ^ 64) a of Inr v \<Rightarrow> Some (of_nat v) | Inl _ \<Rightarrow> None))"

text \<open>An optional argument as a number, and cut to the width of a log number.\<close>

definition parse_u64_option :: "arg_values \<Rightarrow> string \<Rightarrow> error + u64 option" where
  "parse_u64_option args name = and_then (get_text args name) (\<lambda>a. case a of
      None \<Rightarrow> Inr None
    | Some l \<Rightarrow> and_then (parse_u64 l name) (\<lambda>n. Inr (Some n)))"

definition parse_id :: "arg_values \<Rightarrow> error + u32 option" where
  "parse_id args = and_then (parse_u64_option args ''id'') (\<lambda>n. Inr (map_option ucast n))"

definition parse_txid :: "cli_ext \<Rightarrow> arg_values \<Rightarrow> error + Uuid option" where
  "parse_txid X args = and_then (get_text args ''txid'') (\<lambda>a. case a of
      None \<Rightarrow> Inr None
    | Some tx \<Rightarrow> (case cx_uuid X tx of
          Inr t \<Rightarrow> Inr (Some t)
        | Inl e \<Rightarrow> Inl (ArgumentError (''Could not parse txid parameter. e='' @ e))))"

definition parse_amount :: "cli_ext \<Rightarrow> arg_values \<Rightarrow> error + u64" where
  "parse_amount X args = and_then (parse_required args ''amount'') (\<lambda>amount. case cx_amount X amount of
      Inr a \<Rightarrow> Inr a
    | Inl e \<Rightarrow> Inl (ArgumentError (''Could not parse amount as a number with optional decimal point. e='' @ e)))"

definition parse_sort_order :: "ext \<Rightarrow> arg_values \<Rightarrow> error + string option" where
  "parse_sort_order E args = and_then (get_text args ''sort_order'') (\<lambda>a. case a of
      None \<Rightarrow> Inr None
    | Some so \<Rightarrow>
        (let so_lower = to_lowercase E so in
         if so_lower \<noteq> ''asc'' \<and> so_lower \<noteq> ''desc''
         then Inl (ArgumentError (''Invalid value for 'sort_order'. Must be 'asc' or 'desc'.''))
         else Inr (Some so_lower)))"

text \<open>\<open>arg_parse!\<close>.\<close>

definition arg_parse :: "ext \<Rightarrow> error + 'a \<Rightarrow> error + 'a" where
  "arg_parse E r = (case r of
      Inr x \<Rightarrow> Inr x
    | Inl (Panic p) \<Rightarrow> Inl (Panic p)
    | Inl Diverges \<Rightarrow> Inl Diverges
    | Inl e \<Rightarrow> Inl (ArgumentError (error_fmt E e)))"

section \<open>The arguments of the commands\<close>

text \<open>The certificate and its key.\<close>

type_synonym TLSConfig = "string \<times> string"

definition parse_tls :: "WalletConfig \<Rightarrow> error + TLSConfig option" where
  "parse_tls config = (case wc_tls_certificate_file config of
      None \<Rightarrow> Inr None
    | Some file \<Rightarrow> (case wc_tls_certificate_key config of
          None \<Rightarrow> Inl (ArgumentError ''Private key for certificate is not set'')
        | Some k \<Rightarrow> Inr (Some (file, k))))"

definition parse_global_args :: "cli_ext \<Rightarrow> WalletConfig \<Rightarrow> arg_matches \<Rightarrow> error + TLSConfig GlobalArgs" where
  "parse_global_args X config m =
     (let args = am_values m in
      and_then (get_text args ''account'') (\<lambda>account.
      and_then (or_err (ArgumentError ''Value for argument 'account' is required in this context'') account) (\<lambda>account.
      and_then (get_flag args ''show_spent'') (\<lambda>show_spent.
      and_then (get_text args ''pass'') (\<lambda>password.
      and_then (parse_tls config) (\<lambda>tls_conf.
      and_then (get_flag args ''offline_mode'') (\<lambda>offline_mode.
      Inr \<lparr>ga_account = account, ga_api_secret = cx_first_line X (wc_api_secret_path config),
           ga_node_api_secret = cx_first_line X (wc_node_api_secret_path config), ga_show_spent = show_spent,
           ga_chain_type = (case wc_chain_type config of None \<Rightarrow> cx_chain_type X | Some c \<Rightarrow> c),
           ga_password = password, ga_tls_conf = tls_conf,
           ga_offline_mode = (if map_option fst (am_subcommand m) = Some ''init'' then True else offline_mode)\<rparr>)))))))"

text \<open>Asking for the phrase and for a new password.\<close>

type_synonym 'a ask_op = "(terminal \<times> provider, error, 'a) proc"

definition ask_phrase :: "seed_ext \<Rightarrow> string ask_op" where
  "ask_phrase S = (\<lambda>(t, p). case read_phrase S (tt_phrases t) p of
      (r, ls, p) \<Rightarrow> (r, t\<lparr>tt_phrases := ls\<rparr>, p))"

definition ask :: "(terminal \<Rightarrow> 'a \<times> terminal) \<Rightarrow> 'a ask_op" where
  "ask f = (\<lambda>(t, p). case f t of (x, t) \<Rightarrow> (Inr x, t, p))"

definition parse_init_args :: "seed_ext \<Rightarrow> WalletConfig \<Rightarrow> 'c GlobalArgs \<Rightarrow> arg_values \<Rightarrow> InitArgs ask_op" where
  "parse_init_args S config g args =
     bindE (liftE (get_flag args ''short_wordlist'')) (\<lambda>short_wordlist.
     bindE (liftE (get_flag args ''recover'')) (\<lambda>recover.
     bindE (if recover then bindE (ask_phrase S) (\<lambda>p. ret (Some p)) else ret None) (\<lambda>recovery_phrase.
     bindE (case ga_password g of Some p \<Rightarrow> ret p | None \<Rightarrow> ask prompt_password_confirm) (\<lambda>password.
     ret \<lparr>ai_list_length = (if short_wordlist then 16 else 32), ai_password = password, ai_config = config,
          ai_recovery_phrase = recovery_phrase, ai_restore = False\<rparr>))))"

definition parse_recover_args :: "'c GlobalArgs \<Rightarrow> string ask_op" where
  "parse_recover_args g = ask (prompt_password (ga_password g))"

definition parse_listen_args :: "WalletConfig \<Rightarrow> TorConfig \<Rightarrow> arg_values \<Rightarrow> error + string \<times> WalletConfig \<times> TorConfig" where
  "parse_listen_args config tor_config args =
     and_then (get_u16 args ''port'') (\<lambda>port.
     and_then (parse_required args ''method'') (\<lambda>method.
     and_then (get_flag args ''no_tor'') (\<lambda>no_tor.
     Inr (method, (case port of Some n \<Rightarrow> config\<lparr>wc_api_listen_port := n\<rparr> | None \<Rightarrow> config),
       if no_tor then tor_config\<lparr>tc_use_tor_listener := False\<rparr> else tor_config))))"

definition parse_owner_api_args :: "WalletConfig \<Rightarrow> arg_values \<Rightarrow> error + WalletConfig" where
  "parse_owner_api_args config args =
     and_then (get_u16 args ''port'') (\<lambda>port.
     and_then (get_flag args ''run_foreign'') (\<lambda>run_foreign.
     (let config = (case port of Some n \<Rightarrow> config\<lparr>wc_owner_api_listen_port := Some n\<rparr> | None \<Rightarrow> config) in
      Inr (if run_foreign then config\<lparr>wc_owner_api_include_foreign := Some True\<rparr> else config))))"

definition parse_account_args :: "arg_values \<Rightarrow> error + string option" where
  "parse_account_args args = get_text args ''create''"

text \<open>Where a transaction goes; without one for emojis and estimates.\<close>

definition send_dest :: "arg_values \<Rightarrow> string \<Rightarrow> bool \<Rightarrow> error + string" where
  "send_dest args method estimate =
     (if method = ''self''
      then and_then (get_text args ''dest'') (\<lambda>d. Inr (case d of Some d \<Rightarrow> d | None \<Rightarrow> ''default''))
      else if method = ''emoji'' then Inr []
      else if \<not> estimate then parse_required args ''dest'' else Inr [])"

definition http_dest :: "string \<Rightarrow> bool" where
  "http_dest dest \<longleftrightarrow> starts_with ''http://'' dest \<or> starts_with ''https://'' dest"

definition no_http_dest :: "string \<Rightarrow> error" where
  "no_http_dest dest = ArgumentError (''HTTP Destination should start with http://: or https://: '' @ dest)"

definition proof_address :: "ext \<Rightarrow> seed_ext \<Rightarrow> arg_values \<Rightarrow> string \<Rightarrow> error + string option" where
  "proof_address E S args dest =
     and_then (get_flag args ''request_payment_proof'') (\<lambda>wanted.
     if wanted
     then (case pubkey_from_onion_v3 E dest of
         Inr k \<Rightarrow> Inr (Some (util_to_hex S k))
       | Inl _ \<Rightarrow> and_then (parse_required args ''proof_address'') (\<lambda>p. Inr (Some p)))
     else Inr None)"

definition parse_send_args :: "ext \<Rightarrow> seed_ext \<Rightarrow> cli_ext \<Rightarrow> arg_values \<Rightarrow> error + SendArgs" where
  "parse_send_args E S X args =
     and_then (parse_amount X args) (\<lambda>amount.
     and_then (get_text args ''message'') (\<lambda>message.
     and_then (parse_required args ''minimum_confirmations'') (\<lambda>min_c.
     and_then (parse_u64 min_c ''minimum_confirmations'') (\<lambda>min_c.
     and_then (parse_required args ''selection_strategy'') (\<lambda>selection_strategy.
     and_then (get_flag args ''estimate_selection_strategies'') (\<lambda>estimate.
     and_then (parse_required args ''method'') (\<lambda>method.
     and_then (send_dest args method estimate) (\<lambda>dest.
     if \<not> estimate \<and> method = ''http'' \<and> \<not> http_dest dest \<and> isl (is_tor_address E dest)
     then Inl (no_http_dest dest)
     else
       and_then (parse_required args ''change_outputs'') (\<lambda>change_outputs.
       and_then (parse_u64 change_outputs ''change_outputs'') (\<lambda>change_outputs.
       and_then (get_flag args ''fluff'') (\<lambda>fluff.
       and_then (get_text args ''ttl_blocks'') (\<lambda>ttl_blocks.
       and_then (get_u16 args ''slate_version'') (\<lambda>target_slate_version.
       and_then (proof_address E S args dest) (\<lambda>payment_proof_address.
       Inr \<lparr>sa_amount = amount, sa_message = message, sa_minimum_confirmations = min_c,
            sa_selection_strategy = selection_strategy, sa_estimate_selection_strategies = estimate,
            sa_method = method, sa_dest = dest, sa_change_outputs = unat change_outputs, sa_fluff = fluff,
            sa_max_outputs = 500, sa_target_slate_version = target_slate_version,
            sa_payment_proof_address = payment_proof_address,
            sa_ttl_blocks = parse_u64_or_none ttl_blocks\<rparr>))))))))))))))"

text \<open>A file that is handed in must be there.\<close>

definition input_file :: "disk \<Rightarrow> string \<Rightarrow> string \<Rightarrow> error + unit" where
  "input_file d method tx_file =
     (if method = ''file'' \<and> file_at d tx_file = None
      then Inl (ArgumentError (''File '' @ tx_file @ '' not found.'')) else Inr ())"

definition parse_receive_args :: "disk \<Rightarrow> arg_values \<Rightarrow> error + ReceiveArgs" where
  "parse_receive_args d args =
     and_then (get_text args ''message'') (\<lambda>message.
     and_then (parse_required args ''method'') (\<lambda>method.
     and_then (parse_required args ''input'') (\<lambda>tx_file.
     and_then (input_file d method tx_file) (\<lambda>_.
     Inr \<lparr>ra_input = tx_file, ra_message = message, ra_method = method\<rparr>))))"

definition parse_finalize_args :: "disk \<Rightarrow> arg_values \<Rightarrow> error + FinalizeArgs" where
  "parse_finalize_args d args =
     and_then (get_flag args ''fluff'') (\<lambda>fluff.
     and_then (get_flag args ''nopost'') (\<lambda>nopost.
     and_then (parse_required args ''method'') (\<lambda>method.
     and_then (parse_required args ''input'') (\<lambda>tx_file.
     and_then (input_file d method tx_file) (\<lambda>_.
     and_then (get_text args ''dest'') (\<lambda>dest_file.
     Inr \<lparr>fi_method = method, fi_input = tx_file, fi_fluff = fluff, fi_nopost = nopost, fi_dest = dest_file\<rparr>))))))"

definition parse_issue_invoice_args :: "cli_ext \<Rightarrow> arg_values \<Rightarrow> error + string \<times> IssueInvoiceTxArgs" where
  "parse_issue_invoice_args X args =
     and_then (parse_amount X args) (\<lambda>amount.
     and_then (get_text args ''message'') (\<lambda>message.
     and_then (get_u16 args ''slate_version'') (\<lambda>target_slate_version.
     and_then (parse_required args ''dest'') (\<lambda>dest.
     Inr (dest, \<lparr>ii_dest_acct_name = None, ii_amount = amount, ii_message = message,
                ii_target_slate_version = target_slate_version\<rparr>)))))"

text \<open>
  Paying an invoice. The slate is read for the question; what the question is answered with
  counts only when it is an error.
\<close>

definition pay_dest :: "arg_values \<Rightarrow> string \<Rightarrow> bool \<Rightarrow> error + string" where
  "pay_dest args method estimate =
     (if method = ''self''
      then and_then (get_text args ''dest'') (\<lambda>d. Inr (case d of Some d \<Rightarrow> d | None \<Rightarrow> ''default''))
      else if \<not> estimate then parse_required args ''dest'' else Inr [])"

definition confirm_invoice :: "ext \<Rightarrow> seed_ext \<Rightarrow> json_codec \<Rightarrow> cli_ext \<Rightarrow> string \<Rightarrow> bool ask_op" where
  "confirm_invoice E S J X tx_file = (\<lambda>(t, p).
     case file_get_tx S J tx_file (lc_disk p) of
       (Inl (Panic e), d) \<Rightarrow> (Inl (Panic e), t, p\<lparr>lc_disk := d\<rparr>)
     | (Inl Diverges, d) \<Rightarrow> (Inl Diverges, t, p\<lparr>lc_disk := d\<rparr>)
     | (Inl e, d) \<Rightarrow> (Inl (ArgumentError (error_fmt E e)), t, p\<lparr>lc_disk := d\<rparr>)
     | (Inr slate, d) \<Rightarrow> (case prompt_pay_invoice E X slate t of (r, t) \<Rightarrow> (r, t, p\<lparr>lc_disk := d\<rparr>)))"

definition parse_process_invoice_args ::
    "ext \<Rightarrow> seed_ext \<Rightarrow> json_codec \<Rightarrow> cli_ext \<Rightarrow> arg_values \<Rightarrow> bool \<Rightarrow> ProcessInvoiceArgs ask_op" where
  "parse_process_invoice_args E S J X args prompt =
     bindE (liftE (get_text args ''message'')) (\<lambda>message.
     bindE (liftE (parse_required args ''minimum_confirmations'')) (\<lambda>min_c.
     bindE (liftE (parse_u64 min_c ''minimum_confirmations'')) (\<lambda>min_c.
     bindE (liftE (parse_required args ''selection_strategy'')) (\<lambda>selection_strategy.
     bindE (liftE (get_flag args ''estimate_selection_strategies'')) (\<lambda>estimate.
     bindE (liftE (parse_required args ''method'')) (\<lambda>method.
     bindE (liftE (pay_dest args method estimate)) (\<lambda>dest.
     if \<not> estimate \<and> method = ''http'' \<and> \<not> http_dest dest then throw (no_http_dest dest)
     else
       bindE (liftE (get_text args ''ttl_blocks'')) (\<lambda>ttl_blocks.
       bindE (liftE (parse_required args ''input'')) (\<lambda>tx_file.
       bindE (if prompt then confirm_invoice E S J X tx_file else ret True) (\<lambda>_.
       ret \<lparr>pi_message = message, pi_minimum_confirmations = min_c, pi_selection_strategy = selection_strategy,
            pi_method = method, pi_dest = dest, pi_max_outputs = 500, pi_input = tx_file,
            pi_estimate_selection_strategies = estimate, pi_ttl_blocks = parse_u64_or_none ttl_blocks\<rparr>))))))))))"

definition parse_info_args :: "arg_values \<Rightarrow> error + u64" where
  "parse_info_args args =
     and_then (parse_required args ''minimum_confirmations'') (\<lambda>mc. parse_u64 mc ''minimum_confirmations'')"

definition parse_outputs_args :: "ext \<Rightarrow> arg_values \<Rightarrow> error + OutputsArgs" where
  "parse_outputs_args E args =
     and_then (get_flag args ''show_full_history'') (\<lambda>show_full_history.
     and_then (parse_u64_option args ''limit'') (\<lambda>limit.
     and_then (parse_u64_option args ''offset'') (\<lambda>offset.
     and_then (parse_sort_order E args) (\<lambda>sort_order.
     Inr \<lparr>ou_show_full_history = show_full_history, ou_limit = map_option unat limit, ou_offset = map_option unat offset,
          ou_sort_order = sort_order\<rparr>))))"

definition parse_check_args :: "arg_values \<Rightarrow> error + bool \<times> u64 option" where
  "parse_check_args args =
     and_then (get_flag args ''delete_unconfirmed'') (\<lambda>delete_unconfirmed.
     and_then (get_text args ''start_height'') (\<lambda>start_height.
     Inr (delete_unconfirmed, parse_u64_or_none start_height)))"

definition parse_txs_args :: "ext \<Rightarrow> cli_ext \<Rightarrow> arg_values \<Rightarrow> error + TxsArgs" where
  "parse_txs_args E X args =
     and_then (parse_id args) (\<lambda>tx_id.
     and_then (parse_txid X args) (\<lambda>tx_slate_id.
     if tx_id \<noteq> None \<and> tx_slate_id \<noteq> None
     then Inl (ArgumentError ''At most one of 'id' (-i) or 'txid' (-t) may be provided.'')
     else
       and_then (parse_u64_option args ''limit'') (\<lambda>limit.
       and_then (parse_u64_option args ''offset'') (\<lambda>offset.
       and_then (parse_sort_order E args) (\<lambda>sort_order.
       Inr \<lparr>ta_id = tx_id, ta_tx_slate_id = tx_slate_id, ta_limit = map_option unat limit,
            ta_offset = map_option unat offset, ta_sort_order = sort_order\<rparr>)))))"

definition parse_post_args :: "arg_values \<Rightarrow> error + string \<times> bool" where
  "parse_post_args args =
     and_then (parse_required args ''input'') (\<lambda>tx_file.
     and_then (get_flag args ''fluff'') (\<lambda>fluff. Inr (tx_file, fluff)))"

definition parse_repost_args :: "arg_values \<Rightarrow> error + RepostArgs" where
  "parse_repost_args args =
     and_then (parse_id args) (\<lambda>tx_id.
     and_then (get_flag args ''fluff'') (\<lambda>fluff.
     and_then (get_text args ''dumpfile'') (\<lambda>dump_file.
     and_then (or_err (Panic ''Option::unwrap'') tx_id) (\<lambda>tx_id.
     Inr \<lparr>re_id = tx_id, re_dump_file = dump_file, re_fluff = fluff\<rparr>))))"

definition parse_cancel_args :: "cli_ext \<Rightarrow> arg_values \<Rightarrow> error + u32 option \<times> Uuid option" where
  "parse_cancel_args X args =
     and_then (parse_id args) (\<lambda>tx_id.
     and_then (parse_txid X args) (\<lambda>tx_slate_id.
     if (tx_id = None \<and> tx_slate_id = None) \<or> (tx_id \<noteq> None \<and> tx_slate_id \<noteq> None)
     then Inl (ArgumentError ([CHR 0x27] @ ''id' (-i) or 'txid' (-t) argument is required.''))
     else Inr (tx_id, tx_slate_id)))"

definition parse_export_proof_args :: "cli_ext \<Rightarrow> arg_values \<Rightarrow> error + string \<times> u32 option \<times> Uuid option" where
  "parse_export_proof_args X args =
     and_then (parse_required args ''output'') (\<lambda>output_file.
     and_then (parse_id args) (\<lambda>tx_id.
     and_then (parse_txid X args) (\<lambda>tx_slate_id.
     if tx_id \<noteq> None \<and> tx_slate_id \<noteq> None
     then Inl (ArgumentError ''At most one of 'id' (-i) or 'txid' (-t) may be provided.'')
     else if tx_id = None \<and> tx_slate_id = None
     then Inl (ArgumentError ''Either 'id' (-i) or 'txid' (-t) must be provided.'')
     else Inr (output_file, tx_id, tx_slate_id))))"

definition parse_verify_proof_args :: "arg_values \<Rightarrow> error + string" where
  "parse_verify_proof_args args = parse_required args ''input''"

end
