(* ===== verification/Program.thy ===== *)
theory Program
  imports ArgParse OwnerServer NodeHttp
begin

text \<open>
  The wallet program: choosing the command and running it (\<open>wallet_command\<close> of
  \<open>src/cmd/wallet_args.rs\<close>), the node's checks before it (\<open>src/cmd/wallet.rs\<close>), and what happens from
  the start of the process to there (\<open>src/bin/epic-wallet.rs\<close>). A panic of the main thread is an error
  of the model; the exit codes are those the code returns.
\<close>

section \<open>The process\<close>

text \<open>
  What the process meets: the environment of the commands, the parameters of its listeners, what
  reaches them, and whether the thread that asks for the node's state has found it synced when the
  command looks. \<open>pr_older\<close> compares two versions, if both can be read; \<open>pr_is_floonet\<close> is the test
  of the core crate on the chain that was set.
\<close>

record 'l program_env =
  pr_M :: "'l cmd_env"
  pr_cli :: cli_ext
  pr_H :: node_ext
  pr_OS :: tor_os
  pr_N :: tor_net
  pr_A :: api_ext
  pr_FX :: foreign_ext
  pr_codec :: "'l owner_codec"
  pr_synced :: bool
  pr_arrivals :: arrivals
  pr_events :: "server_event list"
  pr_older :: "string \<Rightarrow> string \<Rightarrow> bool option"
  pr_is_floonet :: "ChainTypes \<Rightarrow> bool"

definition pr_E :: "'l program_env \<Rightarrow> ext" where "pr_E P = oe_E (cm_V (pr_M P))"

definition pr_S :: "'l program_env \<Rightarrow> seed_ext" where "pr_S P = oe_S (cm_V (pr_M P))"

type_synonym 'a prog_op = "(terminal \<times> cmd_state, error, 'a) proc"

definition asked :: "'a ask_op \<Rightarrow> 'a prog_op" where
  "asked m = (\<lambda>(t, s). case m (t, ow_provider (cs_owner s)) of
     (r, t, p) \<Rightarrow> (r, t, s\<lparr>cs_owner := (cs_owner s)\<lparr>ow_provider := p\<rparr>\<rparr>))"

definition on_cmd :: "'a cmd_op \<Rightarrow> 'a prog_op" where
  "on_cmd m = (\<lambda>(t, s). case m s of (r, s) \<Rightarrow> (r, t, s))"

definition disk_now :: "disk ask_op" where
  "disk_now = gets (\<lambda>(t, p). lc_disk p)"

text \<open>Arguments: parsed without looking at anything, or with questions.\<close>

definition parsed :: "'l program_env \<Rightarrow> error + 'a \<Rightarrow> 'a prog_op" where
  "parsed P r = liftE (arg_parse (pr_E P) r)"

definition parsed_asking :: "'l program_env \<Rightarrow> 'a ask_op \<Rightarrow> 'a prog_op" where
  "parsed_asking P m = (\<lambda>s. case asked m s of (r, s) \<Rightarrow> (arg_parse (pr_E P) r, s))"

section \<open>The configuration of a command\<close>

definition config_of_line :: "arg_values \<Rightarrow> WalletConfig \<Rightarrow> error + WalletConfig" where
  "config_of_line args config =
     and_then (get_flag args ''external'') (\<lambda>external.
     and_then (get_text args ''top_level_dir'') (\<lambda>dir.
     (let config = (if external then config\<lparr>wc_api_listen_interface := ''0.0.0.0''\<rparr> else config) in
      Inr (case dir of Some dir \<Rightarrow> config\<lparr>wc_data_file_dir := dir\<rparr> | None \<Rightarrow> config))))"

text \<open>
  \<open>PathBuf::ends_with\<close> and \<open>pop\<close> look at the components of a path, so separators and dots at its end
  do not count. The functions work on the reversed path.
\<close>

fun drop_end :: "string \<Rightarrow> string" where
  "drop_end (c # d # p) =
     (if c = CHR ''/'' \<or> c = CHR ''.'' \<and> d = CHR ''/'' then drop_end (d # p) else c # d # p)"
| "drop_end p = p"

definition last_component :: "string \<Rightarrow> string" where
  "last_component p = rev (takeWhile (\<lambda>c. c \<noteq> CHR ''/'') (drop_end (rev p)))"

definition parent_path :: "string \<Rightarrow> string" where
  "parent_path p = rev (drop_end (dropWhile (\<lambda>c. c \<noteq> CHR ''/'') (drop_end (rev p))))"

definition without_wallet_data :: "WalletConfig \<Rightarrow> WalletConfig" where
  "without_wallet_data config =
     (if last_component (wc_data_file_dir config) = EPIC_WALLET_DIR
      then config\<lparr>wc_data_file_dir := parent_path (wc_data_file_dir config)\<rparr> else config)"

definition tor_or_default :: "WalletConfig \<Rightarrow> TorConfig option \<Rightarrow> TorConfig" where
  "tor_or_default config tor_config = (case tor_config of
      Some tc \<Rightarrow> tc
    | None \<Rightarrow> tor_config_default\<lparr>tc_send_config_dir := wc_data_file_dir config\<rparr>)"

definition epicbox_or_default :: "EpicboxConfig option \<Rightarrow> EpicboxConfig" where
  "epicbox_or_default epicbox_config = (case epicbox_config of Some ec \<Rightarrow> ec | None \<Rightarrow> epicbox_config_default)"

section \<open>Opening the wallet\<close>

text \<open>A new provider on the disk and the databases that are there.\<close>

definition inst_wallet :: "WalletConfig \<Rightarrow> unit cmd_op" where
  "inst_wallet config = on_lc (\<lambda>p.
     set_top_level_directory (wc_data_file_dir config) (provider_new (lc_disk p) (lc_dbs p) (lc_stored_txs p)))"

definition wallet_is_opened :: "(string \<times> arg_values) option \<Rightarrow> bool cmd_op" where
  "wallet_is_opened subcommand = (case subcommand of
      None \<Rightarrow> ret True
    | Some (name, _) \<Rightarrow>
        if name = ''init'' \<or> name = ''recover'' then ret False
        else if name = ''owner_api'' then on_lc wallet_exists
        else ret True)"

definition open_for_command ::
    "'l program_env \<Rightarrow> TLSConfig GlobalArgs \<Rightarrow> arg_matches \<Rightarrow> SecretKey option prog_op" where
  "open_for_command P g m =
     bindE (asked (ask (prompt_password (ga_password g)))) (\<lambda>password.
     bindE (on_cmd (on_lc (open_wallet (pr_E P) (oe_C (cm_V (pr_M P))) (pr_S P) password False False))) (\<lambda>mask.
     bindE (liftE (get_text (am_values m) ''account'')) (\<lambda>account.
     bindE (case account of
         Some account \<Rightarrow> on_cmd (on_lc (with_wallet (set_parent_key_id_by_name account)))
       | None \<Rightarrow> ret ()) (\<lambda>_. ret mask))))"

section \<open>The commands\<close>

text \<open>What a command is run with.\<close>

record run_args =
  rn_config :: WalletConfig
  rn_tor :: TorConfig
  rn_epicbox :: EpicboxConfig
  rn_global :: "TLSConfig GlobalArgs"
  rn_mask :: "SecretKey option"
  rn_synced :: bool
  rn_test_mode :: bool

definition dark_scheme :: "run_args \<Rightarrow> bool" where
  "dark_scheme R = (case wc_dark_background_color_scheme (rn_config R) of Some b \<Rightarrow> b | None \<Rightarrow> True)"

text \<open>\<open>args.get_one(name).cloned().unwrap()\<close>, and a format that is JSON unless given.\<close>

definition get_unwrapped :: "arg_values \<Rightarrow> string \<Rightarrow> error + string" where
  "get_unwrapped args name = and_then (get_text args name) (or_err (Panic ''Option::unwrap''))"

definition get_format :: "arg_values \<Rightarrow> error + string" where
  "get_format args = and_then (get_text args ''format'') (\<lambda>f. Inr (case f of Some f \<Rightarrow> f | None \<Rightarrow> ''json''))"

definition parse_export_tx_args :: "arg_values \<Rightarrow> error + ExportTxArgs" where
  "parse_export_tx_args args =
     and_then (get_text args ''id'') (\<lambda>s.
     and_then (get_flag args ''all'') (\<lambda>all.
     and_then (get_unwrapped args ''output'') (\<lambda>output.
     and_then (get_format args) (\<lambda>format.
     Inr \<lparr>et_id = Option.bind s (\<lambda>s. case str_parse_uint (2 ^ 32) s of Inr n \<Rightarrow> Some (of_nat n) | Inl _ \<Rightarrow> None),
          et_all = all, et_output = output, et_format = format\<rparr>))))"

definition parse_import_tx_args :: "arg_values \<Rightarrow> error + ImportTxArgs" where
  "parse_import_tx_args args =
     and_then (get_unwrapped args ''input'') (\<lambda>input.
     and_then (get_format args) (\<lambda>format. Inr \<lparr>it_input = input, it_format = format\<rparr>))"

definition run_init :: "'l program_env \<Rightarrow> run_args \<Rightarrow> arg_values \<Rightarrow> unit prog_op" where
  "run_init P R args =
     bindE (parsed_asking P (parse_init_args (pr_S P) (rn_config R) (rn_global R) args)) (\<lambda>a.
     on_cmd (cmd_init (pr_M P) (rn_global R) a))"

definition run_recover :: "'l program_env \<Rightarrow> run_args \<Rightarrow> unit prog_op" where
  "run_recover P R =
     bindE (parsed_asking P (parse_recover_args (rn_global R))) (\<lambda>a. on_cmd (cmd_recover (pr_M P) a))"

text \<open>
  Listening. The service for Tor gets the address of the configuration, without the port of the
  command line.
\<close>

definition start_tor :: "'l program_env \<Rightarrow> run_args \<Rightarrow> TorConfig \<Rightarrow> unit prog_op" where
  "start_tor P R t =
     (if tc_use_tor_listener t
      then bindE (on_cmd (on_lc (init_tor_listener (pr_E P) (pr_S P) (cm_T (pr_M P)) (pr_OS P) (pr_N P)
             (tc_socks_proxy_addr t) (rn_mask R) (api_listen_addr (rn_config R))))) (\<lambda>_. ret ())
      else ret ())"

definition run_listen :: "'l program_env \<Rightarrow> run_args \<Rightarrow> arg_values \<Rightarrow> unit prog_op" where
  "run_listen P R args =
     bindE (parsed P (parse_listen_args (rn_config R) (rn_tor R) args)) (\<lambda>(a, c, t).
     bindE (start_tor P R t) (\<lambda>_.
     on_cmd (cmd_listen (pr_M P) (pr_FX P) (rn_mask R) c t (rn_epicbox R) a (pr_arrivals P))))"

definition run_owner_server :: "'l program_env \<Rightarrow> run_args \<Rightarrow> WalletConfig \<Rightarrow> TLSConfig GlobalArgs \<Rightarrow> unit prog_op" where
  "run_owner_server P R c g = on_cmd (cmd_owner_api (pr_M P) (pr_A P) (pr_FX P) (pr_codec P) (rn_mask R) c (rn_tor R)
     (rn_epicbox R) g (rn_synced R) (pr_events P))"

definition run_owner_api :: "'l program_env \<Rightarrow> run_args \<Rightarrow> arg_values \<Rightarrow> unit prog_op" where
  "run_owner_api P R args =
     bindE (parsed P (parse_owner_api_args (rn_config R) args)) (\<lambda>c.
     run_owner_server P R c ((rn_global R)\<lparr>ga_tls_conf := None\<rparr>))"

definition run_change_password :: "'l program_env \<Rightarrow> arg_values \<Rightarrow> unit prog_op" where
  "run_change_password P args =
     bindE (liftE (get_text args ''old_password'')) (\<lambda>old.
     bindE (asked (ask (prompt_password old))) (\<lambda>old_password.
     bindE (liftE (get_text args ''new_password'')) (\<lambda>new.
     bindE (case new of Some p \<Rightarrow> ret p | None \<Rightarrow> asked (ask prompt_password_confirm)) (\<lambda>new_password.
     bindE (liftE (get_flag args ''remove_backup'')) (\<lambda>remove_backup.
     on_cmd (on_lc (change_password (oe_C (cm_V (pr_M P))) (pr_S P) old_password new_password remove_backup)))))))"

text \<open>The commands that work on the open wallet's transactions.\<close>

definition run_transfer :: "'l program_env \<Rightarrow> run_args \<Rightarrow> string \<Rightarrow> arg_values \<Rightarrow> unit prog_op option" where
  "run_transfer P R name args =
     (let M = pr_M P; E = pr_E P; S = pr_S P; km = rn_mask R; synced = rn_synced R; g = rn_global R in
      if name = ''send'' then Some (bindE (parsed P (parse_send_args E S (pr_cli P) args)) (\<lambda>a.
        on_cmd (cmd_send M km (Some (rn_tor R)) (Some (rn_epicbox R)) a (dark_scheme R) synced g)))
      else if name = ''receive'' then Some (bindE (asked disk_now) (\<lambda>d.
        bindE (parsed P (parse_receive_args d args)) (\<lambda>a. on_cmd (cmd_receive M km g a))))
      else if name = ''finalize'' then Some (bindE (asked disk_now) (\<lambda>d.
        bindE (parsed P (parse_finalize_args d args)) (\<lambda>a. on_cmd (cmd_finalize M km a synced))))
      else if name = ''invoice'' then Some (bindE (parsed P (parse_issue_invoice_args (pr_cli P) args)) (\<lambda>(dest, a).
        on_cmd (cmd_issue_invoice_tx M km dest a synced)))
      else if name = ''pay'' then Some (bindE (parsed_asking P
          (parse_process_invoice_args E S (cm_J M) (pr_cli P) args (\<not> rn_test_mode R))) (\<lambda>a.
        on_cmd (cmd_process_invoice M km a (dark_scheme R) synced)))
      else if name = ''post'' then Some (bindE (parsed P (parse_post_args args)) (\<lambda>(input, fluff).
        on_cmd (cmd_post M km input fluff synced)))
      else if name = ''repost'' then Some (bindE (parsed P (parse_repost_args args)) (\<lambda>a.
        on_cmd (cmd_repost M km a synced)))
      else if name = ''cancel'' then Some (bindE (parsed P (parse_cancel_args (pr_cli P) args)) (\<lambda>(tx_id, tx_slate_id).
        on_cmd (cmd_cancel M km tx_id tx_slate_id synced)))
      else None)"

text \<open>Those that report.\<close>

definition run_report :: "'l program_env \<Rightarrow> run_args \<Rightarrow> string \<Rightarrow> arg_values \<Rightarrow> unit prog_op option" where
  "run_report P R name args =
     (let M = pr_M P; E = pr_E P; km = rn_mask R; synced = rn_synced R; g = rn_global R in
      if name = ''export_tx'' then Some (bindE (liftE (parse_export_tx_args args)) (\<lambda>a.
        on_cmd (cmd_export_tx M km a synced)))
      else if name = ''import_tx'' then Some (bindE (liftE (parse_import_tx_args args)) (\<lambda>a.
        on_cmd (cmd_import_tx M km a synced)))
      else if name = ''account'' then Some (bindE (parsed P (parse_account_args args)) (\<lambda>a.
        on_cmd (cmd_account M km a synced)))
      else if name = ''info'' then Some (bindE (parsed P (parse_info_args args)) (\<lambda>n.
        on_cmd (cmd_info M km g n (dark_scheme R) synced)))
      else if name = ''outputs'' then Some (bindE (parsed P (parse_outputs_args E args)) (\<lambda>a.
        on_cmd (cmd_outputs M km g a (dark_scheme R) synced)))
      else if name = ''txs'' then Some (bindE (parsed P (parse_txs_args E (pr_cli P) args)) (\<lambda>a.
        on_cmd (cmd_txs M km g a (dark_scheme R) synced)))
      else if name = ''export_proof'' then Some (bindE (parsed P (parse_export_proof_args (pr_cli P) args)) (\<lambda>(f, tx_id, tx_slate_id).
        on_cmd (cmd_proof_export M km f tx_id tx_slate_id synced)))
      else if name = ''verify_proof'' then Some (bindE (parsed P (parse_verify_proof_args args)) (\<lambda>f.
        on_cmd (cmd_proof_verify M km f synced)))
      else if name = ''address'' then Some (on_cmd (cmd_address M g km (rn_epicbox R) synced))
      else if name = ''scan'' then Some (bindE (parsed P (parse_check_args args)) (\<lambda>(delete_unconfirmed, start_height).
        on_cmd (cmd_scan M km delete_unconfirmed start_height synced)))
      else None)"

definition run_command :: "'l program_env \<Rightarrow> run_args \<Rightarrow> string \<Rightarrow> arg_values \<Rightarrow> unit prog_op" where
  "run_command P R name args =
     (if name = ''init'' then run_init P R args
      else if name = ''recover'' then run_recover P R
      else if name = ''listen'' then run_listen P R args
      else if name = ''owner_api'' then run_owner_api P R args
      else if name = ''web'' then run_owner_server P R (rn_config R) (rn_global R)
      else if name = ''change_password'' then run_change_password P args
      else (case run_transfer P R name args of
          Some run \<Rightarrow> run
        | None \<Rightarrow> (case run_report P R name args of
              Some run \<Rightarrow> run
            | None \<Rightarrow> throw (ArgumentError ''Unknown wallet command, use 'epic-wallet --help' for details''))))"

text \<open>The chain is set for the whole process.\<close>

definition on_chain :: "ChainTypes \<Rightarrow> 'l program_env \<Rightarrow> 'l program_env" where
  "on_chain t P = P\<lparr>pr_cli := (pr_cli P)\<lparr>cx_chain_type := t\<rparr>,
     pr_M := (pr_M P)\<lparr>cm_V := (cm_V (pr_M P))\<lparr>oe_C := (oe_C (cm_V (pr_M P)))\<lparr>is_floonet := pr_is_floonet P t\<rparr>\<rparr>\<rparr>\<rparr>"

definition args_wallet_command ::
    "'l program_env \<Rightarrow> arg_matches \<Rightarrow> WalletConfig \<Rightarrow> TorConfig option \<Rightarrow> EpicboxConfig option \<Rightarrow> bool \<Rightarrow> string prog_op" where
  "args_wallet_command P m wallet_config tor_config epicbox_config test_mode =
     bindE (liftE (config_of_line (am_values m) wallet_config)) (\<lambda>config.
     bindE (parsed P (parse_global_args (pr_cli P) config m)) (\<lambda>g.
     (let config = without_wallet_data config;
          P = (case wc_chain_type wallet_config of Some t \<Rightarrow> on_chain t P | None \<Rightarrow> P) in
      bindE (on_cmd (inst_wallet config)) (\<lambda>_.
      bindE (on_cmd (wallet_is_opened (am_subcommand m))) (\<lambda>opened.
      bindE (if opened then open_for_command P g m else ret None) (\<lambda>keychain_mask.
      case am_subcommand m of
        None \<Rightarrow> throw (ArgumentError ''Unknown wallet command, use 'epic-wallet --help' for details'')
      | Some (name, args) \<Rightarrow>
          bindE (run_command P \<lparr>rn_config = config, rn_tor = tor_or_default config tor_config,
             rn_epicbox = epicbox_or_default epicbox_config, rn_global = g, rn_mask = keychain_mask,
             rn_synced = (test_mode \<or> pr_synced P), rn_test_mode = test_mode\<rparr> name args) (\<lambda>_. ret name)))))))"

section \<open>Checking the node\<close>

definition MIN_COMPAT_NODE_VERSION :: string where "MIN_COMPAT_NODE_VERSION = ''3.5.0''"

text \<open>The queries of a node client, in place of those of the environment.\<close>

definition with_node :: "node_ext \<Rightarrow> HTTPNodeClient \<Rightarrow> ext \<Rightarrow> ext" where
  "with_node H c E = E\<lparr>get_chain_tip := http_get_chain_tip H c, get_node_status := http_get_node_status H c,
     get_mempool := http_get_mempool H c, get_kernel := http_get_kernel H c,
     get_outputs_from_node := http_get_outputs_from_node H c,
     get_outputs_by_pmmr_index := http_get_outputs_by_pmmr_index H c,
     height_range_to_pmmr_indices := http_height_range_to_pmmr_indices H c, node_post_tx := http_post_tx H c\<rparr>"

definition on_node :: "HTTPNodeClient \<Rightarrow> 'l program_env \<Rightarrow> 'l program_env" where
  "on_node c P = P\<lparr>pr_M := (pr_M P)\<lparr>cm_V := (cm_V (pr_M P))\<lparr>oe_E := with_node (pr_H P) c (pr_E P)\<rparr>,
     cm_node_version := fst (http_get_version_info (pr_E P) (pr_H P) c)\<rparr>\<rparr>"

text \<open>The secret of the node: the file's text, if it can be read.\<close>

definition node_api_secret :: "seed_ext \<Rightarrow> WalletConfig \<Rightarrow> disk \<Rightarrow> string option" where
  "node_api_secret S config d = Option.bind (wc_node_api_secret_path config) (\<lambda>p.
     case fst (read_file S p d) of Inr t \<Rightarrow> Some (trim t) | Inl _ \<Rightarrow> None)"

text \<open>Whether the program works without a node.\<close>

definition offline_mode :: "arg_matches \<Rightarrow> error + bool" where
  "offline_mode m = (case am_subcommand m of
      Some (name, _) \<Rightarrow>
        if name = ''init'' \<or> name = ''recover'' then Inr True else get_flag (am_values m) ''offline_mode''
    | None \<Rightarrow> get_flag (am_values m) ''offline_mode'')"

definition node_client_for :: "node_ext \<Rightarrow> arg_matches \<Rightarrow> WalletConfig \<Rightarrow> string option \<Rightarrow> error + HTTPNodeClient option" where
  "node_client_for H m config secret = and_then (get_text (am_values m) ''api_server_address'') (\<lambda>url. case url of
      Some node_url \<Rightarrow> (case http_node_client_new H node_url secret of
          Inr c \<Rightarrow> Inr (Some c) | Inl _ \<Rightarrow> Inl (Panic ''Result::unwrap''))
    | None \<Rightarrow> (case http_node_client_new H (wc_check_node_api_http_addr config) secret of
          Inr c \<Rightarrow> Inr (Some c) | Inl _ \<Rightarrow> Inr None))"

definition node_is_usable :: "node_ext \<Rightarrow> HTTPNodeClient \<Rightarrow> bool \<Rightarrow> bool" where
  "node_is_usable H c offline = (case http_get_node_status H c of
      Inr status \<Rightarrow> ns_sync_status status = ''no_sync'' \<or> offline
    | Inl _ \<Rightarrow> offline)"

definition node_is_outdated :: "'l program_env \<Rightarrow> HTTPNodeClient \<Rightarrow> error + bool" where
  "node_is_outdated P c = (case fst (http_get_version_info (pr_E P) (pr_H P) c) of
      None \<Rightarrow> Inr False
    | Some v \<Rightarrow> or_err (Panic ''Result::unwrap'') (pr_older P (nv_node_version v) MIN_COMPAT_NODE_VERSION))"

text \<open>\<open>wallet_command\<close> of \<open>src/cmd/wallet.rs\<close>, with its exit code.\<close>

definition exit_code :: "string prog_op \<Rightarrow> nat prog_op" where
  "exit_code m = bindE (looked_at m) (\<lambda>r. ret (case r of Inl _ \<Rightarrow> 1 | Inr _ \<Rightarrow> 0))"

definition cmd_wallet_command :: "'l program_env \<Rightarrow> arg_matches \<Rightarrow> 'l GlobalWalletConfig \<Rightarrow> nat prog_op" where
  "cmd_wallet_command P m config =
     bindE (liftE (or_err (Panic ''Option::unwrap'') (gc_members config))) (\<lambda>members.
     (let wallet_config = gm_wallet members in
      bindE (asked disk_now) (\<lambda>d.
      bindE (liftE (offline_mode m)) (\<lambda>offline.
      bindE (liftE (node_client_for (pr_H P) m wallet_config (node_api_secret (pr_S P) wallet_config d))) (\<lambda>c. case c of
        None \<Rightarrow> ret 1
      | Some c \<Rightarrow>
          if \<not> node_is_usable (pr_H P) c offline then ret 1
          else (case parse_global_args (pr_cli P) wallet_config m of
            Inl _ \<Rightarrow> throw (Panic ''Can't read configuration file'')
          | Inr g \<Rightarrow>
              (let c = set_node_api_secret (ga_node_api_secret g) c in
               bindE (liftE (if offline then Inr False else node_is_outdated P c)) (\<lambda>outdated.
               if outdated then ret 1
               else exit_code (args_wallet_command (on_node c P) m wallet_config (gm_tor members) (gm_epicbox members) False))))))))) "

section \<open>The start of the process\<close>

definition chain_of_line :: "arg_values \<Rightarrow> error + ChainTypes" where
  "chain_of_line args =
     and_then (get_flag args ''floonet'') (\<lambda>floonet.
     if floonet then Inr Floonet
     else and_then (get_flag args ''usernet'') (\<lambda>usernet. Inr (if usernet then UserTesting else Mainnet)))"

definition on_program_disk :: "(disk, error, 'a) proc \<Rightarrow> 'a prog_op" where
  "on_program_disk m = on_cmd (on_path m)"

definition or_panic :: "string \<Rightarrow> 'a disk_op \<Rightarrow> (disk, error, 'a) proc" where
  "or_panic p m d = (case m d of (Inl _, d') \<Rightarrow> (Inl (Panic p), d') | (Inr x, d') \<Rightarrow> (Inr x, d'))"

text \<open>The directory for the configuration, made if it is not there.\<close>

definition dir_of_line :: "'l program_env \<Rightarrow> arg_matches \<Rightarrow> string option prog_op" where
  "dir_of_line P m =
     bindE (liftE (get_text (am_values m) ''current_dir'')) (\<lambda>path.
     bindE (case path of
         None \<Rightarrow> ret ()
       | Some p \<Rightarrow> on_program_disk (bindE (gets (path_exists p)) (\<lambda>exists.
           if exists then ret () else or_panic ''Error creating current_dir'' (create_dir_all (pr_S P) p)))) (\<lambda>_.
     case am_subcommand m of
       Some (name, args) \<Rightarrow>
         if name = ''init''
         then bindE (liftE (get_flag args ''cwd'')) (\<lambda>cwd.
           if cwd
           then (case cf_current_dir (cm_F (pr_M P)) of
               Inl _ \<Rightarrow> throw (Panic ''Error creating config file'') | Inr d \<Rightarrow> ret (Some d))
           else ret path)
         else ret path
     | None \<Rightarrow> ret path))"

definition data_dir :: "'l program_env \<Rightarrow> WalletConfig \<Rightarrow> error + string" where
  "data_dir P config =
     (if wc_data_file_dir config \<noteq> [] then Inr (wc_data_file_dir config)
      else (case cf_home_dir (cm_F (pr_M P)) of
          None \<Rightarrow> Inl (Panic ''Could not determine home directory'')
        | Some p \<Rightarrow> Inr (path_push (path_push p ''.epic'') ''main'')))"

text \<open>
  Without a seed only \<open>init\<close> goes on, and with one \<open>init\<close> only goes on to recover it.
\<close>

definition seed_allows :: "bool \<Rightarrow> arg_matches \<Rightarrow> error + bool" where
  "seed_allows there m = (case am_subcommand m of
      Some (name, args) \<Rightarrow>
        if name = ''init'' then and_then (get_flag args ''recover'') (\<lambda>is_recover. Inr (\<not> there \<or> is_recover))
        else Inr there
    | None \<Rightarrow> Inr there)"

definition real_main :: "'l program_env \<Rightarrow> arg_matches \<Rightarrow> nat prog_op" where
  "real_main P m =
     bindE (liftE (chain_of_line (am_values m))) (\<lambda>chain_type.
     bindE (dir_of_line P m) (\<lambda>current_dir.
     bindE (on_program_disk (as_panic (initial_setup_wallet (cm_F (pr_M P)) (pr_S P) chain_type current_dir))) (\<lambda>config.
     bindE (liftE (or_err (Panic ''Option::unwrap'') (gc_members config))) (\<lambda>members.
     bindE (liftE (data_dir P (gm_wallet members))) (\<lambda>wallet_data_dir.
     bindE (on_program_disk (bindE (gets (path_exists wallet_data_dir)) (\<lambda>exists.
        if exists then ret () else or_panic ''Error creating wallet data directory'' (create_dir_all (pr_S P) wallet_data_dir)))) (\<lambda>_.
     bindE (liftE (or_err (Panic ''Option::unwrap'') (gm_logging members))) (\<lambda>_.
     bindE (on_program_disk (gets (path_exists (path_push wallet_data_dir ''wallet.seed'')))) (\<lambda>there.
     bindE (liftE (seed_allows there m)) (\<lambda>goes_on.
     if \<not> goes_on then ret 1
     else
       bindE (liftE (or_err (Panic ''Option::unwrap'') (wc_chain_type (gm_wallet members)))) (\<lambda>t.
       cmd_wallet_command (on_chain t P) m config))))))))))"

end
