(* ===== verification/ProgramProps.thy ===== *)
theory ProgramProps
  imports Program ServerProps SecureApiProps NodeHttpProps
begin

text \<open>
  What holds of the whole program, from the command line on.
\<close>

section \<open>Typed databases\<close>

definition at_prog :: "(provider \<Rightarrow> bool) \<Rightarrow> terminal \<times> cmd_state \<Rightarrow> bool" where
  "at_prog J x \<longleftrightarrow> at_cmd J (snd x)"

definition at_ask :: "(provider \<Rightarrow> bool) \<Rightarrow> terminal \<times> provider \<Rightarrow> bool" where
  "at_ask J x \<longleftrightarrow> J (snd x)"

lemma on_cmd_ret: "on_cmd (ret x) (t, s) = (Inr x, t, s)"
  by (simp add: on_cmd_def)

lemma keeps_on_cmd: "keeps (at_cmd J) m \<Longrightarrow> keeps (at_prog J) (on_cmd m)"
  by (auto simp: keeps_def at_prog_def on_cmd_def split: prod.split)

lemma asked_state:
  "snd (asked m (t, s)) = (case snd (m (t, ow_provider (cs_owner s))) of (t, p) \<Rightarrow> (t, s\<lparr>cs_owner := (cs_owner s)\<lparr>ow_provider := p\<rparr>\<rparr>))"
  by (simp add: asked_def split: prod.split)

lemma keeps_asked:
  assumes "keeps (at_ask J) m"
  shows "keeps (at_prog J) (asked m)"
proof (rule keepsI)
  fix x assume x: "at_prog J x"
  obtain t s where ts: "x = (t, s)" by fastforce
  have "at_ask J (snd (m (t, ow_provider (cs_owner s))))"
    using keepsD[OF assms, of "(t, ow_provider (cs_owner s))"] x ts by (simp add: at_prog_def at_cmd_def at_ask_def)
  then show "at_prog J (snd (asked m x))"
    unfolding ts asked_state by (auto simp add: at_prog_def at_cmd_def at_ask_def split: prod.split)
qed

lemma parsed_asking_state: "snd (parsed_asking P m x) = snd (asked m x)"
  by (simp add: parsed_asking_def split: prod.split)

lemma keeps_parsed_asking: "keeps (at_ask J) m \<Longrightarrow> keeps (at_prog J) (parsed_asking P m)"
  using keeps_asked[of J m] by (simp add: keeps_def parsed_asking_state)

lemma keeps_ask [keeps_intros]: "keeps (at_ask J) (ask f)"
  by (auto simp: keeps_def at_ask_def ask_def split: prod.split)

lemma read_phrase_provider: "snd (snd (read_phrase S ls p)) = p"
  by (induction S ls p rule: read_phrase.induct)
     (auto simp: validate_mnemonic_def split: sum.split prod.split)

lemma keeps_ask_phrase: "keeps (at_ask J) (ask_phrase S)"
proof (rule keepsI)
  fix x assume "at_ask J x"
  then show "at_ask J (snd (ask_phrase S x))"
    using read_phrase_provider[of S "tt_phrases (fst x)" "snd x"]
    by (cases x) (auto simp: at_ask_def ask_phrase_def split: prod.split)
qed

text \<open>A step that only touches the disk.\<close>

lemma typed_disk: "provider_typed E (p\<lparr>lc_disk := d\<rparr>) = provider_typed E p"
  by (simp add: provider_typed_def)

lemma keeps_confirm: "keeps (at_ask (provider_typed E)) (confirm_invoice E' S J X f)"
proof (rule keepsI)
  fix x assume x: "at_ask (provider_typed E) x"
  obtain t p where p: "x = (t, p)" by fastforce
  obtain r d where r: "file_get_tx S J f (lc_disk p) = (r, d)" by fastforce
  show "at_ask (provider_typed E) (snd (confirm_invoice E' S J X f x))"
  proof (cases r)
    case (Inl e)
    then show ?thesis using x p r by (cases e) (simp_all add: confirm_invoice_def at_ask_def typed_disk)
  next
    case (Inr s)
    then show ?thesis using x p r by (auto simp: confirm_invoice_def at_ask_def typed_disk split: prod.split)
  qed
qed

lemma typed_questions:
  "keeps (at_ask (provider_typed E)) (parse_init_args S config g args)"
  "keeps (at_ask (provider_typed E)) (parse_recover_args g)"
  "keeps (at_ask (provider_typed E)) (parse_process_invoice_args E' S J X args b)"
  "keeps (at_ask (provider_typed E)) disk_now"
  unfolding parse_init_args_def parse_recover_args_def parse_process_invoice_args_def disk_now_def
  by (intro keeps_intros keeps_ask_phrase keeps_confirm)+

lemma keeps_parsed: "keeps J (parsed P r)"
  unfolding parsed_def by (intro keeps_intros)

lemma typed_provider_disk: "keeps (provider_typed E) (on_provider_disk m)"
  by (auto simp: keeps_def on_provider_disk_def typed_disk split: prod.split)

lemma typed_cmd_path: "keeps (at_cmd (provider_typed E)) (on_path m)"
  unfolding on_path_def by (intro keeps_on_lc) (auto simp: keeps_def typed_disk split: prod.split)

lemma typed_program_disk: "keeps (at_prog (provider_typed E)) (on_program_disk m)"
  unfolding on_program_disk_def by (intro keeps_on_cmd typed_cmd_path)

lemma typed_tor_listener:
  assumes "keys_ok E"
  shows "keeps (provider_typed E) (init_tor_listener E S T OS N socks km addr)"
proof -
  have "keeps (provider_typed E) (with_wallet (tor_address_key E N km))"
    unfolding tor_address_key_def by (intro typed_if_serving[OF assms] keeps_with_wallet keeps_intros)
  then show ?thesis
    unfolding init_tor_listener_def Let_def
    by (intro keeps_intros keeps_lifecycle typed_provider_disk)
qed

lemma typed_inst_wallet: "keeps (at_cmd (provider_typed E)) (inst_wallet config)"
  unfolding inst_wallet_def
  by (intro keeps_on_lc) (auto simp: keeps_def set_top_level_directory_def provider_new_def provider_typed_def)

lemma typed_cmd_init:
  "keys_ok (cm_E M) \<Longrightarrow> keeps (at_cmd (provider_typed (cm_E M))) (cmd_init M g a)"
  unfolding cmd_init_def show_recovery_phrase_def
  by (intro keeps_intros keeps_on_lc keeps_create_config keeps_create_wallet keeps_lifecycle)

lemmas typed_all_commands = typed.serving_reports[OF refl] typed.serving_commands[OF refl] typed.serving_listeners(3)[OF refl]

lemma typed_run_groups:
  assumes "keys_ok (pr_E P)"
  shows "run_transfer P R name args = Some m \<Longrightarrow> keeps (at_prog (provider_typed (pr_E P))) m"
    "run_report P R name args = Some m \<Longrightarrow> keeps (at_prog (provider_typed (pr_E P))) m"
  unfolding run_transfer_def run_report_def Let_def
  by (auto simp only: pr_E_def split: if_splits
      intro!: keeps_intros keeps_on_cmd keeps_parsed keeps_asked keeps_parsed_asking typed_questions
        typed_cmds[OF assms[unfolded pr_E_def]] typed_all_commands)

lemma typed_open_for_command:
  assumes "keys_ok (pr_E P)"
  shows "keeps (at_prog (provider_typed (pr_E P))) (open_for_command P g m)"
proof -
  have "keeps (provider_typed (pr_E P)) (with_wallet (set_parent_key_id_by_name a))" for a
    by (intro typed_if_serving[OF assms] keeps_with_wallet typed.inv_accounts)
  then show ?thesis
    unfolding open_for_command_def
    by (intro keeps_intros keeps_asked keeps_on_cmd keeps_on_lc keeps_open_wallet assms)
qed

lemma typed_run_command:
  assumes "keys_ok (pr_E P)"
  shows "keeps (at_prog (provider_typed (pr_E P))) (run_command P R name args)"
proof -
  note A = assms[unfolded pr_E_def]
  have E: "pr_E P = cm_E (pr_M P)" by (simp add: pr_E_def cm_E_def)
  have "keeps (at_prog (provider_typed (pr_E P))) (run_init P R args)"
    unfolding run_init_def E
    by (intro keeps_intros keeps_parsed_asking typed_questions keeps_on_cmd typed_cmd_init assms[unfolded E])
  moreover have "keeps (at_prog (provider_typed (pr_E P))) (run_recover P R)"
    unfolding run_recover_def pr_E_def
    by (intro keeps_intros keeps_parsed_asking typed_questions keeps_on_cmd typed_cmds[OF A] typed_all_commands)
  moreover have "keeps (at_prog (provider_typed (pr_E P))) (run_listen P R args)"
    unfolding run_listen_def start_tor_def pr_E_def
    by (intro keeps_intros keeps_parsed keeps_on_cmd keeps_on_lc typed_tor_listener[OF A] typed_cmds[OF A] typed_all_commands)
  moreover have server: "keeps (at_prog (provider_typed (pr_E P))) (run_owner_server P R c g)" for c g
    unfolding run_owner_server_def E by (intro keeps_on_cmd typed_owner_api assms[unfolded E])
  moreover from server have "keeps (at_prog (provider_typed (pr_E P))) (run_owner_api P R args)"
    unfolding run_owner_api_def by (intro keeps_intros keeps_parsed)
  moreover have "keeps (at_prog (provider_typed (pr_E P))) (run_change_password P args)"
    unfolding run_change_password_def
    by (intro keeps_intros keeps_asked keeps_on_cmd keeps_on_lc keeps_change_password)
  ultimately show ?thesis
    using typed_run_groups[OF assms, of R name args]
    by (simp add: run_command_def keeps_throw split: option.split)
qed

lemma on_chain_env [simp]: "pr_E (on_chain t P) = pr_E P"
  by (simp add: on_chain_def pr_E_def)

lemma typed_args_wallet_command:
  assumes "keys_ok (pr_E P)"
  shows "keeps (at_prog (provider_typed (pr_E P))) (args_wallet_command P m config tc ec b)"
proof -
  define Q where "Q = (case wc_chain_type config of Some t \<Rightarrow> on_chain t P | None \<Rightarrow> P)"
  have Q: "pr_E Q = pr_E P" by (simp add: Q_def split: option.split)
  have "keeps (at_cmd (provider_typed (pr_E Q))) (wallet_is_opened s)" for s
    unfolding wallet_is_opened_def wallet_exists_def by (intro keeps_intros keeps_on_lc)
  then have "keeps (at_prog (provider_typed (pr_E Q))) (args_wallet_command P m config tc ec b)"
    unfolding args_wallet_command_def Let_def Q_def[symmetric]
    by (intro keeps_intros keeps_parsed keeps_on_cmd typed_inst_wallet typed_open_for_command typed_run_command)
       (simp_all add: Q assms)
  then show ?thesis by (simp add: Q)
qed

text \<open>Another node changes no key and no type.\<close>

lemma with_node_keys [simp]: "keys_ok (with_node H c E) = keys_ok E"
  by (simp add: keys_ok_def with_node_def)

lemma with_node_typed [simp]: "provider_typed (with_node H c E) p = provider_typed E p"
proof -
  have "acct_key (with_node H c E) = acct_key E" "output_key (with_node H c E) = output_key E"
    by (simp_all add: fun_eq_iff acct_key_def output_key_def with_node_def split: option.split)
  then have "entry_ok (with_node H c E) k v = entry_ok E k v" for k v
    by (cases v) (simp_all add: entry_ok_def)
  then have "row_ok (with_node H c E) = row_ok E"
    by (simp add: fun_eq_iff row_ok_def)
  then show ?thesis
    by (simp add: provider_typed_def db_ok_def wallet_ok_def)
qed

lemma on_node_env: "pr_E (on_node c P) = with_node (pr_H P) c (pr_E P)"
  by (simp add: on_node_def pr_E_def)

lemma typed_cmd_wallet_command:
  assumes "keys_ok (pr_E P)"
  shows "keeps (at_prog (provider_typed (pr_E P))) (cmd_wallet_command P m config)"
proof -
  have same: "at_prog (provider_typed (pr_E (on_node c P))) = at_prog (provider_typed (pr_E P))" for c
    by (simp add: fun_eq_iff on_node_env at_prog_def at_cmd_def)
  have "keeps (at_prog (provider_typed (pr_E P))) (args_wallet_command (on_node c P) m wc tc ec b)" for c wc tc ec b
    using typed_args_wallet_command[of "on_node c P" m wc tc ec b] assms unfolding same by (simp add: on_node_env)
  then show ?thesis
    unfolding cmd_wallet_command_def exit_code_def Let_def
    by (intro keeps_intros keeps_asked typed_questions)
qed

lemma typed_dir_of_line: "keeps (at_prog (provider_typed E)) (dir_of_line P m)"
  unfolding dir_of_line_def by (intro keeps_intros typed_program_disk)


section \<open>Creating where a wallet is\<close>

text \<open>Steps that fail, and the invariant they leave.\<close>

definition fails :: "('s \<Rightarrow> bool) \<Rightarrow> ('s, 'e, 'a) proc \<Rightarrow> bool" where
  "fails I m \<longleftrightarrow> (\<forall>s. I s \<longrightarrow> (\<exists>e. fst (m s) = Inl e) \<and> I (snd (m s)))"

lemma fails_later: "keeps I m \<Longrightarrow> (\<And>x. fails I (f x)) \<Longrightarrow> fails I (bindE m f)"
  unfolding fails_def keeps_def bindE_def by (auto split: prod.split sum.split)

lemma fails_first: "fails I m \<Longrightarrow> fails I (bindE m f)"
  unfolding fails_def bindE_def by (auto split: prod.split sum.split)

lemma fails_throw: "fails I (throw e)"
  by (simp add: fails_def)

lemma fails_on_lc: "fails J m \<Longrightarrow> fails (at_cmd J) (on_lc m)"
  unfolding fails_def at_cmd_def on_lc_def on_owner_def on_provider_def by (simp split: prod.split) (metis fst_conv snd_conv)

lemma fails_on_cmd: "fails (at_cmd J) m \<Longrightarrow> fails (at_prog J) (on_cmd m)"
  unfolding fails_def at_prog_def on_cmd_def by (simp split: prod.split) (metis fst_conv snd_conv)

text \<open>A provider on a directory, with the databases and one file as they were.\<close>

definition spared :: "string \<Rightarrow> (string \<Rightarrow> rows) \<Rightarrow> string \<Rightarrow> string \<Rightarrow> provider \<Rightarrow> bool" where
  "spared dir dbs q c p \<longleftrightarrow> lc_data_dir p = dir \<and> lc_dbs p = dbs \<and> holds q c (lc_disk p)"

lemma last_path_push: "b \<noteq> [] \<Longrightarrow> last (path_push a b) = last b"
  by (simp add: path_push_def)

lemma holds_create_config_in:
  assumes "path_push dir file_name \<noteq> q" "path_push dir API_SECRET_FILE_NAME \<noteq> q"
  shows "keeps (holds q c) (create_config_in F S dir chain_type file_name wc lg tor ebx)"
  unfolding create_config_in_def Let_def write_config_def secret_or_new_def init_api_secret_def check_api_secret_def
  by (intro keeps_intros holds_create_dir holds_write keeps_io assms; simp)

lemma seed_path_apart:
  "path_push dir WALLET_CONFIG_FILE_NAME \<noteq> seed_path d" "path_push dir API_SECRET_FILE_NAME \<noteq> seed_path d"
proof -
  have "last (seed_path d) = CHR ''d''" by (simp add: seed_path_def SEED_FILE_def)
  moreover have "last (path_push dir WALLET_CONFIG_FILE_NAME) = CHR ''l''" "last (path_push dir API_SECRET_FILE_NAME) = CHR ''t''"
    by (simp_all add: last_path_push WALLET_CONFIG_FILE_NAME_def API_SECRET_FILE_NAME_def)
  ultimately show "path_push dir WALLET_CONFIG_FILE_NAME \<noteq> seed_path d" "path_push dir API_SECRET_FILE_NAME \<noteq> seed_path d"
    by fastforce+
qed

lemma spared_create_config:
  "keeps (spared dir dbs (seed_path d) c) (create_config F S chain_type WALLET_CONFIG_FILE_NAME wc lg tor ebx)"
proof (rule keepsI)
  fix p assume p: "spared dir dbs (seed_path d) c p"
  obtain r e where r: "create_config_in F S (lc_data_dir p) chain_type WALLET_CONFIG_FILE_NAME wc lg tor ebx (lc_disk p) = (r, e)"
    by fastforce
  have "holds (seed_path d) c e"
    using keepsE[OF holds_create_config_in[OF seed_path_apart] _ r] p by (simp add: spared_def)
  then show "spared dir dbs (seed_path d) c (snd (create_config F S chain_type WALLET_CONFIG_FILE_NAME wc lg tor ebx p))"
    using p r by (simp add: create_config_def spared_def)
qed

lemma create_over_seed_fails:
  "fails (spared dir dbs (seed_path (path_push dir EPIC_WALLET_DIR)) c) (create_wallet E C S mn len pw False)"
  by (simp add: fails_def spared_def create_wallet_def bindE_app wallet_dir_def seed_file_exists_def path_exists_def holds_def)

lemma init_over_seed_fails:
  "fails (at_prog (spared dir dbs (seed_path (path_push dir EPIC_WALLET_DIR)) c)) (run_init P R args)"
proof -
  have "keeps (at_ask J) (parse_init_args S config g as)" for J S config as and g :: "TLSConfig GlobalArgs"
    unfolding parse_init_args_def by (intro keeps_intros keeps_ask_phrase)
  then show ?thesis
    unfolding run_init_def cmd_init_def
    by (intro fails_later[OF keeps_parsed_asking] fails_on_cmd fails_later[OF keeps_on_lc[OF spared_create_config]]
        fails_first[OF fails_on_lc[OF create_over_seed_fails]])
qed

text \<open>C4. Where a wallet's seed is, \<open>init\<close> fails, with every combination of its arguments, recovering
  included, and whatever is typed: the seed file and the databases stay as they were.\<close>

theorem init_spares_wallet:
  fixes P :: "'l program_env"
  assumes "config_of_line (am_values m) config = Inr config'" "am_subcommand m = Some (''init'', args)"
    and "file_at (lc_disk (ow_provider (cs_owner s)))
      (seed_path (path_push (wc_data_file_dir (without_wallet_data config')) EPIC_WALLET_DIR)) = Some c"
    and "args_wallet_command P m config tor_config epicbox_config test_mode (t, s) = (r, t', s')"
  shows "(\<exists>e. r = Inl e) \<and> lc_dbs (ow_provider (cs_owner s')) = lc_dbs (ow_provider (cs_owner s)) \<and>
    file_at (lc_disk (ow_provider (cs_owner s')))
      (seed_path (path_push (wc_data_file_dir (without_wallet_data config')) EPIC_WALLET_DIR)) = Some c"
proof (cases "arg_parse (pr_E P) (parse_global_args (pr_cli P) config' m)")
  case (Inl e)
  then show ?thesis
    using assms by (auto simp: args_wallet_command_def bindE_app parsed_def)
next
  case (Inr g)
  let ?dir = "wc_data_file_dir (without_wallet_data config')"
  let ?J = "spared ?dir (lc_dbs (ow_provider (cs_owner s))) (seed_path (path_push ?dir EPIC_WALLET_DIR)) c"
  obtain s1 where s1: "on_cmd (inst_wallet (without_wallet_data config')) (t, s) = (Inr (), t, s1)"
    and J: "at_prog ?J (t, s1)"
    using assms(3)
    by (simp add: on_cmd_def inst_wallet_def on_lc_def on_owner_def on_provider_def set_top_level_directory_def
        provider_new_def at_prog_def at_cmd_def spared_def holds_def)
  have "fails (at_prog ?J) (bindE (run_command Q R ''init'' args) f)" for Q R f
    using fails_first[OF init_over_seed_fails] by (simp add: run_command_def)
  note F = this[unfolded fails_def, rule_format, OF J]
  have "\<exists>(Q :: 'l program_env) R f. args_wallet_command P m config tor_config epicbox_config test_mode (t, s) =
      bindE (run_command Q R ''init'' args) f (t, s1)"
    by (simp add: args_wallet_command_def bindE_app[of "liftE x" for x] bindE_app[of "parsed P r" for P r] parsed_def
        assms(1,2) Inr Let_def bindE_app[of "on_cmd x" for x] s1 wallet_is_opened_def on_cmd_ret bindE_app[of "ret None"]) (intro exI, rule refl)
  then obtain Q :: "'l program_env" and R f where "bindE (run_command Q R ''init'' args) f (t, s1) = (r, t', s')"
    using assms(4) by metis
  then show ?thesis
    using F[of Q R f] by (auto simp: at_prog_def at_cmd_def spared_def holds_def)
qed

section \<open>Witnesses\<close>

text \<open>A process without a network, whose node does not answer; it starts with nothing on the disk.\<close>

definition silent_foreign :: foreign_ext where
  "silent_foreign = \<lparr>json_to_string = (\<lambda>_. None), json_of_string = (\<lambda>_. None), json_display = (\<lambda>_. []),
     fx_pretty = (\<lambda>_. None), fx_request_error = id, fx_call = (\<lambda>_. Inl None), fx_version_info = (\<lambda>_. JNull),
     fx_coinbase = (\<lambda>_. JNull), fx_slate = (\<lambda>_. JNull), fx_error = (\<lambda>_. JNull)\<rparr>"

definition silent_codec :: "unit owner_codec" where
  "silent_codec = \<lparr>oc_call = (\<lambda>_. Inl None), oc_secure_call = (\<lambda>_. Inl None), oc_reply = (\<lambda>_. JNull),
     oc_basic_auth = (\<lambda>auth open req. if hr_path req = open \<or> hr_authorization req = Some auth then None else Some (HttpReply 401 [])),
     oc_no_route = (\<lambda>_. HttpReply 404 []), oc_base64 = id, oc_addr_ok = (\<lambda>_. True), oc_start = (\<lambda>_. True)\<rparr>"

definition sample_cli :: cli_ext where
  "sample_cli = \<lparr>cx_first_line = (\<lambda>_. None), cx_amount = (\<lambda>_. Inr 5), cx_uuid = (\<lambda>_. Inl []), cx_chain_type = Mainnet,
     cx_interface = None\<rparr>"

definition sample_program :: "unit program_env" where
  "sample_program = \<lparr>pr_M = sample_commands, pr_cli = sample_cli, pr_H = sample_node,
     pr_OS = \<lparr>os_process = (\<lambda>_. False), os_spawn = (\<lambda>_ _. Inl []), os_stdout = ([], None), os_too_late = False\<rparr>,
     pr_N = \<lparr>tn_addr_ok = (\<lambda>_. True), tn_available = True, tn_probes = [], tn_entries = (\<lambda>_ _. None), tn_debug = (\<lambda>_. []),
        tn_debug_lib = (\<lambda>_. [])\<rparr>,
     pr_A = sample_api, pr_FX = silent_foreign, pr_codec = silent_codec, pr_synced = False,
     pr_arrivals = \<lparr>ar_server = None, ar_requests = [], ar_rounds = [], ar_connections = []\<rparr>, pr_events = [],
     pr_older = (\<lambda>_ _. Some False), pr_is_floonet = (\<lambda>t. t = Floonet)\<rparr>"

definition a_terminal :: terminal where
  "a_terminal = \<lparr>tt_passwords = [Some ''pw'', Some ''pw''], tt_phrases = [], tt_confirmations = []\<rparr>"

definition program_start :: "disk \<Rightarrow> cmd_state" where
  "program_start d = \<lparr>cs_owner = owner_new (provider_new d (\<lambda>_. []) (\<lambda>_ _. None)) False, cs_shown = []\<rparr>"

text \<open>A line without options.\<close>

definition plain_line :: "string \<Rightarrow> arg_values \<Rightarrow> arg_matches" where
  "plain_line name args = \<lparr>am_values = [''floonet'' \<mapsto> FlagValue False, ''usernet'' \<mapsto> FlagValue False,
     ''account'' \<mapsto> TextValue ''default'', ''external'' \<mapsto> FlagValue False, ''show_spent'' \<mapsto> FlagValue False,
     ''offline_mode'' \<mapsto> FlagValue False], am_subcommand = Some (name, args)\<rparr>"

lemma sample_program_env: "pr_E sample_program = the_ext"
  by (simp add: pr_E_def sample_program_def sample_commands_def serving_is)


theorem init_spares_wallet_witness:
  "\<exists>e t s. args_wallet_command sample_program (plain_line ''init'' [''short_wordlist'' \<mapsto> FlagValue False, ''recover'' \<mapsto> FlagValue False])
      wallet_config_default None None False (a_terminal, program_start \<lparr>dk_files = [(''./wallet_data/wallet.seed'', ''mine'')], dk_dirs = []\<rparr>)
      = (Inl e, t, s) \<and>
    file_at (lc_disk (ow_provider (cs_owner s))) ''./wallet_data/wallet.seed'' = Some ''mine''"
proof -
  let ?x = "(a_terminal, program_start \<lparr>dk_files = [(''./wallet_data/wallet.seed'', ''mine'')], dk_dirs = []\<rparr>)"
  let ?m = "plain_line ''init'' [''short_wordlist'' \<mapsto> FlagValue False, ''recover'' \<mapsto> FlagValue False]"
  obtain r t s where run: "args_wallet_command sample_program ?m wallet_config_default None None False ?x = (r, t, s)"
    by (metis prod.exhaust)
  have line: "config_of_line (am_values ?m) wallet_config_default = Inr wallet_config_default"
    by (simp add: config_of_line_def plain_line_def get_flag_def get_text_def)
  have "last_component ''.'' = ''.''" by code_simp
  then have dir: "seed_path (path_push (wc_data_file_dir (without_wallet_data wallet_config_default)) EPIC_WALLET_DIR)
      = ''./wallet_data/wallet.seed''"
    by (simp add: without_wallet_data_def wallet_config_default_def EPIC_WALLET_DIR_def seed_path_def SEED_FILE_def path_push_def)
  from init_spares_wallet[OF line _ _ run, of "[''short_wordlist'' \<mapsto> FlagValue False, ''recover'' \<mapsto> FlagValue False]" "''mine''"]
  show ?thesis
    using run unfolding dir
    by (auto simp: plain_line_def program_start_def owner_new_def provider_new_def file_at_def)
qed


end
