(* ===== verification/ArgProps.thy ===== *)
theory ArgProps
  imports ProgramProps AdapterProps
begin

text \<open>
  The arguments of the command line: which lines make the program panic, and what the question
  before an invoice is paid is good for.
\<close>

section \<open>Values that fit their declarations\<close>

definition no_panic :: "error + 'a \<Rightarrow> bool" where
  "no_panic r \<longleftrightarrow> (\<forall>p. r \<noteq> Inl (Panic p))"

lemma no_panic_Inr: "no_panic (Inr x)"
  by (simp add: no_panic_def)

lemma no_panic_argument: "no_panic (Inl (ArgumentError t))"
  by (simp add: no_panic_def)

lemma no_panic_and_then: "no_panic r \<Longrightarrow> (\<And>x. no_panic (f x)) \<Longrightarrow> no_panic (and_then r f)"
  by (cases r) (simp_all add: no_panic_def)

lemma no_panic_if: "no_panic r \<Longrightarrow> no_panic q \<Longrightarrow> no_panic (if b then r else q)"
  by simp

lemma no_panic_case_option: "no_panic r \<Longrightarrow> (\<And>x. no_panic (f x)) \<Longrightarrow> no_panic (case x of None \<Rightarrow> r | Some y \<Rightarrow> f y)"
  by (cases x) simp_all

lemma no_panic_case_sum: "(\<And>e. no_panic (f e)) \<Longrightarrow> (\<And>x. no_panic (g x)) \<Longrightarrow> no_panic (case x of Inl e \<Rightarrow> f e | Inr y \<Rightarrow> g y)"
  by (cases x) simp_all

lemmas no_panic_rules = no_panic_Inr no_panic_argument no_panic_and_then no_panic_if no_panic_case_option no_panic_case_sum

text \<open>The kind of a declared argument, and whether it is required.\<close>

definition spec_of :: "arg_spec list \<Rightarrow> string \<Rightarrow> (arg_kind \<times> bool) option" where
  "spec_of specs n = map_option (\<lambda>a. (ag_kind a, ag_required a)) (find (\<lambda>a. ag_name a = n) specs)"

definition is_text :: "(arg_kind \<times> bool) option \<Rightarrow> bool" where
  "is_text k \<longleftrightarrow> (case k of Some (AnyText, _) \<Rightarrow> True | Some (OneOf _, _) \<Rightarrow> True | _ \<Rightarrow> False)"

definition is_flag :: "(arg_kind \<times> bool) option \<Rightarrow> bool" where
  "is_flag k \<longleftrightarrow> (case k of Some (SetTrue, _) \<Rightarrow> True | Some (SetFalse, _) \<Rightarrow> True | _ \<Rightarrow> False)"

definition is_u16 :: "(arg_kind \<times> bool) option \<Rightarrow> bool" where
  "is_u16 k \<longleftrightarrow> (case k of Some (U16Text, _) \<Rightarrow> True | _ \<Rightarrow> False)"

definition is_required :: "(arg_kind \<times> bool) option \<Rightarrow> bool" where
  "is_required k \<longleftrightarrow> (case k of Some (_, b) \<Rightarrow> b | None \<Rightarrow> False)"

lemmas is_defs = is_text_def is_flag_def is_u16_def is_required_def

lemma fits_spec:
  assumes "fits specs args" "spec_of specs n = Some k"
  obtains a where "value_fits a (args n)" "ag_kind a = fst k" "ag_required a = snd k"
  using assms by (auto simp: fits_def spec_of_def find_Some_iff list_all_length)

lemma is_declared: "is_text k \<Longrightarrow> k \<noteq> None" "is_u16 k \<Longrightarrow> k \<noteq> None" "is_flag k \<Longrightarrow> k \<noteq> None"
  by (cases k; simp add: is_defs)+

lemma value_kinds:
  assumes "fits specs args"
  shows "is_text (spec_of specs n) \<Longrightarrow> no_panic (get_text args n)"
    "is_text (spec_of specs n) \<Longrightarrow> is_required (spec_of specs n) \<Longrightarrow> \<exists>s. get_text args n = Inr (Some s)"
    "is_u16 (spec_of specs n) \<Longrightarrow> no_panic (get_u16 args n)"
    "is_flag (spec_of specs n) \<Longrightarrow> \<exists>v. get_flag args n = Inr v"
proof -
  have declared: "\<exists>a. value_fits a (args n) \<and> spec_of specs n = Some (ag_kind a, ag_required a)" if d: "spec_of specs n \<noteq> None"
  proof -
    obtain k where k: "spec_of specs n = Some k" using d by blast
    then obtain a where "value_fits a (args n)" "ag_kind a = fst k" "ag_required a = snd k" by (rule fits_spec[OF assms])
    then show ?thesis using k by (intro exI[of _ a]) simp
  qed
  show "no_panic (get_text args n)" if t: "is_text (spec_of specs n)"
  proof -
    obtain a where a: "value_fits a (args n)" "spec_of specs n = Some (ag_kind a, ag_required a)"
      using declared is_declared t by blast
    show ?thesis
      using a t by (cases "(a, args n)" rule: value_fits.cases) (auto simp: get_text_def no_panic_def is_defs split: arg_kind.splits)
  qed
  show "\<exists>s. get_text args n = Inr (Some s)" if t: "is_text (spec_of specs n)" "is_required (spec_of specs n)"
  proof -
    obtain a where a: "value_fits a (args n)" "spec_of specs n = Some (ag_kind a, ag_required a)"
      using declared is_declared t by blast
    show ?thesis
      using a t by (cases "(a, args n)" rule: value_fits.cases) (auto simp: get_text_def is_defs split: arg_kind.splits)
  qed
  show "no_panic (get_u16 args n)" if t: "is_u16 (spec_of specs n)"
  proof -
    obtain a where a: "value_fits a (args n)" "spec_of specs n = Some (ag_kind a, ag_required a)"
      using declared is_declared t by blast
    show ?thesis
      using a t by (cases "(a, args n)" rule: value_fits.cases) (auto simp: get_u16_def no_panic_def is_defs split: arg_kind.splits)
  qed
  show "\<exists>v. get_flag args n = Inr v" if t: "is_flag (spec_of specs n)"
  proof -
    obtain a where a: "value_fits a (args n)" "spec_of specs n = Some (ag_kind a, ag_required a)"
      using declared is_declared t by blast
    show ?thesis
      using a t by (cases "(a, args n)" rule: value_fits.cases)
        (auto simp: get_flag_def absent_value_def is_defs split: arg_kind.splits)
  qed
qed

lemma no_panic_flag: "fits specs args \<Longrightarrow> is_flag (spec_of specs n) \<Longrightarrow> no_panic (get_flag args n)"
  using value_kinds(4) by (fastforce simp: no_panic_def)

lemma no_panic_unwrapped:
  "fits specs args \<Longrightarrow> is_text (spec_of specs n) \<Longrightarrow> is_required (spec_of specs n) \<Longrightarrow> no_panic (get_unwrapped args n)"
  using value_kinds(2) by (fastforce simp: get_unwrapped_def no_panic_def or_err_def)

lemmas no_panic_reads = value_kinds(1,3) no_panic_flag no_panic_unwrapped

section \<open>Arguments\<close>

lemma no_panic_values:
  "no_panic (get_text args n) \<Longrightarrow> no_panic (parse_required args n)" "no_panic (parse_u64 t n)"
  "no_panic (get_text args n) \<Longrightarrow> no_panic (parse_u64_option args n)"
  "no_panic (get_text args ''id'') \<Longrightarrow> no_panic (parse_id args)"
  "no_panic (get_text args ''txid'') \<Longrightarrow> no_panic (parse_txid X args)"
  "no_panic (get_text args ''amount'') \<Longrightarrow> no_panic (parse_amount X args)"
  "no_panic (get_text args ''sort_order'') \<Longrightarrow> no_panic (parse_sort_order E args)"
  "no_panic (input_file d way f)" "no_panic (Inl (no_http_dest t))"
  "no_panic (get_text args ''format'') \<Longrightarrow> no_panic (get_format args)"
  unfolding parse_required_def parse_u64_def parse_u64_option_def parse_id_def parse_txid_def parse_amount_def
    parse_sort_order_def input_file_def no_http_dest_def get_format_def Let_def
  by (intro no_panic_rules; (assumption | simp))+

lemmas cli_simps = cli_arg_def long_arg_def with_default_def at_index_def required_def spec_of_def is_defs

text \<open>The error of a command's arguments, for the commands that ask no questions about them.\<close>

definition err_of :: "error + 'a \<Rightarrow> error option" where
  "err_of r = (case r of Inl e \<Rightarrow> Some e | Inr _ \<Rightarrow> None)"

definition argument_error ::
    "'l program_env \<Rightarrow> WalletConfig \<Rightarrow> TorConfig \<Rightarrow> disk \<Rightarrow> string \<Rightarrow> arg_values \<Rightarrow> error option" where
  "argument_error P config tor_config d name args =
     (let E = pr_E P; X = pr_cli P in
      if name = ''listen'' then err_of (parse_listen_args config tor_config args)
      else if name = ''owner_api'' then err_of (parse_owner_api_args config args)
      else if name = ''account'' then err_of (parse_account_args args)
      else if name = ''send'' then err_of (parse_send_args E (pr_S P) X args)
      else if name = ''receive'' then err_of (parse_receive_args d args)
      else if name = ''finalize'' then err_of (parse_finalize_args d args)
      else if name = ''invoice'' then err_of (parse_issue_invoice_args X args)
      else if name = ''info'' then err_of (parse_info_args args)
      else if name = ''outputs'' then err_of (parse_outputs_args E args)
      else if name = ''txs'' then err_of (parse_txs_args E X args)
      else if name = ''post'' then err_of (parse_post_args args)
      else if name = ''repost'' then err_of (parse_repost_args args)
      else if name = ''cancel'' then err_of (parse_cancel_args X args)
      else if name = ''scan'' then err_of (parse_check_args args)
      else if name = ''export_proof'' then err_of (parse_export_proof_args X args)
      else if name = ''verify_proof'' then err_of (parse_verify_proof_args args)
      else if name = ''export_tx'' then err_of (parse_export_tx_args args)
      else if name = ''import_tx'' then err_of (parse_import_tx_args args)
      else None)"

lemma err_of_panic: "(\<exists>p. err_of r = Some (Panic p)) \<longleftrightarrow> \<not> no_panic r"
  by (cases r) (auto simp: err_of_def no_panic_def)

lemma no_panic_simple_args:
  "fits (cc_args listen_cli) args \<Longrightarrow> no_panic (parse_listen_args config tc args)"
  "fits (cc_args owner_api_cli) args \<Longrightarrow> no_panic (parse_owner_api_args config args)"
  "fits (cc_args account_cli) args \<Longrightarrow> no_panic (parse_account_args args)"
  "fits (cc_args info_cli) args \<Longrightarrow> no_panic (parse_info_args args)"
  "fits (cc_args outputs_cli) args \<Longrightarrow> no_panic (parse_outputs_args E args)"
  "fits (cc_args post_cli) args \<Longrightarrow> no_panic (parse_post_args args)"
  "fits (cc_args scan_cli) args \<Longrightarrow> no_panic (parse_check_args args)"
  "fits (cc_args verify_proof_cli) args \<Longrightarrow> no_panic (parse_verify_proof_args args)"
  "fits (cc_args cancel_cli) args \<Longrightarrow> no_panic (parse_cancel_args X args)"
  "fits (cc_args txs_cli) args \<Longrightarrow> no_panic (parse_txs_args E X args)"
  "fits (cc_args export_proof_cli) args \<Longrightarrow> no_panic (parse_export_proof_args X args)"
  "fits (cc_args invoice_cli) args \<Longrightarrow> no_panic (parse_issue_invoice_args X args)"
  "fits (cc_args receive_cli) args \<Longrightarrow> no_panic (parse_receive_args d args)"
  "fits (cc_args finalize_cli) args \<Longrightarrow> no_panic (parse_finalize_args d args)"
  unfolding parse_listen_args_def parse_owner_api_args_def parse_account_args_def parse_info_args_def parse_outputs_args_def
    parse_post_args_def parse_check_args_def parse_verify_proof_args_def parse_cancel_args_def parse_txs_args_def
    parse_export_proof_args_def parse_issue_invoice_args_def parse_receive_args_def parse_finalize_args_def Let_def
  by (((intro no_panic_rules no_panic_values)?; (rule no_panic_reads, assumption)?;
      simp add: cli_simps listen_cli_def owner_api_cli_def account_cli_def info_cli_def outputs_cli_def post_cli_def
        scan_cli_def verify_proof_cli_def cancel_cli_def txs_cli_def export_proof_cli_def invoice_cli_def receive_cli_def
        finalize_cli_def)+)

lemma no_panic_send_args:
  assumes "fits (cc_args send_cli) args"
  shows "no_panic (parse_send_args E S X args)"
  unfolding parse_send_args_def send_dest_def proof_address_def
  by (intro no_panic_rules no_panic_values; (rule no_panic_reads[OF assms])?; simp add: cli_simps send_cli_def)

lemma no_panic_file_args:
  "fits (cc_args export_tx_cli) args \<Longrightarrow> no_panic (parse_export_tx_args args)"
  "fits (cc_args import_tx_cli) args \<Longrightarrow> no_panic (parse_import_tx_args args)"
  unfolding parse_export_tx_args_def parse_import_tx_args_def
  by (intro no_panic_rules no_panic_values; (rule no_panic_reads, assumption)?;
      simp add: cli_simps export_tx_cli_def import_tx_cli_def)+

lemma repost_args_panic:
  assumes "fits (cc_args repost_cli) args"
  shows "no_panic (parse_repost_args args) \<longleftrightarrow> args ''id'' \<noteq> None"
proof (cases "args ''id''")
  case None
  obtain b where "get_flag args ''fluff'' = Inr b"
    using value_kinds(4)[OF assms, of "''fluff''"] by (auto simp: cli_simps repost_cli_def)
  moreover have "no_panic (get_text args ''dumpfile'')"
    by (rule value_kinds(1)[OF assms]) (simp add: cli_simps repost_cli_def)
  ultimately show ?thesis
    using None by (cases "get_text args ''dumpfile''")
      (auto simp: parse_repost_args_def parse_id_def parse_u64_option_def get_text_def or_err_def no_panic_def split: option.splits arg_value.splits)
next
  case (Some v)
  have t: "no_panic (get_text args ''id'')" by (rule value_kinds(1)[OF assms]) (simp add: cli_simps repost_cli_def)
  have "no_panic (parse_id args)" using t by (rule no_panic_values(4))
  moreover have "no_panic (parse_repost_args args)" if r: "parse_id args = Inr r" for r
  proof -
    obtain n where "r = Some n"
      using r Some by (auto simp: parse_id_def parse_u64_option_def get_text_def and_then_eq_Inr split: arg_value.splits)
    then have "parse_repost_args args = and_then (get_flag args ''fluff'') (\<lambda>fluff.
        and_then (get_text args ''dumpfile'') (\<lambda>f. Inr \<lparr>re_id = n, re_dump_file = f, re_fluff = fluff\<rparr>))"
      using r by (simp add: parse_repost_args_def or_err_def)
    then show ?thesis
      by (simp only:) (intro no_panic_rules; rule no_panic_reads[OF assms]; simp add: cli_simps repost_cli_def)
  qed
  ultimately show ?thesis
    using Some by (cases "parse_id args") (auto simp: parse_repost_args_def no_panic_def)
qed

lemma cc_names:
  "cc_name account_cli = ''account''" "cc_name listen_cli = ''listen''" "cc_name owner_api_cli = ''owner_api''"
  "cc_name send_cli = ''send''" "cc_name issue_invoice_cli = ''issue_invoice''" "cc_name receive_cli = ''receive''"
  "cc_name finalize_cli = ''finalize''" "cc_name invoice_cli = ''invoice''" "cc_name pay_cli = ''pay''"
  "cc_name outputs_cli = ''outputs''" "cc_name txs_cli = ''txs''" "cc_name post_cli = ''post''"
  "cc_name repost_cli = ''repost''" "cc_name cancel_cli = ''cancel''" "cc_name info_cli = ''info''"
  "cc_name init_cli = ''init''" "cc_name recover_cli = ''recover''" "cc_name address_cli = ''address''"
  "cc_name scan_cli = ''scan''" "cc_name export_proof_cli = ''export_proof''" "cc_name export_tx_cli = ''export_tx''"
  "cc_name import_tx_cli = ''import_tx''" "cc_name verify_proof_cli = ''verify_proof''"
  "cc_name change_password_cli = ''change_password''"
  by (simp_all add: account_cli_def listen_cli_def owner_api_cli_def send_cli_def issue_invoice_cli_def receive_cli_def
      finalize_cli_def invoice_cli_def pay_cli_def outputs_cli_def txs_cli_def post_cli_def repost_cli_def cancel_cli_def
      info_cli_def init_cli_def recover_cli_def address_cli_def scan_cli_def export_proof_cli_def export_tx_cli_def
      import_tx_cli_def verify_proof_cli_def change_password_cli_def)

lemma build_cli_cases:
  assumes "c \<in> set (snd build_cli)"
  obtains "c \<in> {account_cli, listen_cli, owner_api_cli, send_cli, receive_cli, finalize_cli, invoice_cli}"
    | "c \<in> {outputs_cli, txs_cli, post_cli, cancel_cli, info_cli, scan_cli, export_proof_cli, export_tx_cli, import_tx_cli, verify_proof_cli}"
    | "c = repost_cli"
    | "c \<in> {issue_invoice_cli, pay_cli, init_cli, recover_cli, address_cli, change_password_cli}"
  using assms unfolding build_cli_def snd_conv by auto



section \<open>Paying an invoice\<close>

text \<open>The answer to the question is no, as the code takes it.\<close>

definition says_no :: "typed \<Rightarrow> bool" where
  "says_no l \<longleftrightarrow> (case l of Typed s \<Rightarrow> trim s = ''Q'' \<or> trim s = ''q'' | Interrupted \<Rightarrow> True | OtherSignal \<Rightarrow> False)"

definition says_yes :: "string \<Rightarrow> typed \<Rightarrow> bool" where
  "says_yes amount l \<longleftrightarrow> (case l of Typed s \<Rightarrow> trim s = amount | _ \<Rightarrow> False)"

definition declined :: "string \<Rightarrow> typed list \<Rightarrow> bool" where
  "declined amount ls \<longleftrightarrow> (case dropWhile (\<lambda>l. \<not> says_no l \<and> \<not> says_yes amount l) ls of [] \<Rightarrow> False | l # _ \<Rightarrow> says_no l)"

lemma read_confirmation_outcome:
  "\<exists>b. fst (read_confirmation amount ls) = (if declined amount ls then Inl CancelledError else Inr b)"
  by (induction amount ls rule: read_confirmation.induct) (auto simp: declined_def says_no_def says_yes_def)

text \<open>C16. The user is asked before an invoice is paid, but only \<open>q\<close> or an interrupt before the amount is
  typed stops the payment: an input that ends, wherever it does, is a payment with the same
  arguments as one that was confirmed.\<close>

theorem invoice_paid_unless_declined:
  assumes "cx_interface X = None" "args ''input'' = Some (TextValue f)" "fst (file_get_tx S J f (lc_disk p)) = Inr slate"
    and "fst (parse_process_invoice_args E S J X args False (t, p)) = Inr a"
  shows "fst (parse_process_invoice_args E S J X args True (t, p)) =
    (if declined (amount_to_hr_string E (sl_amount slate)) (tt_confirmations t) then Inl CancelledError else Inr a)"
proof -
  obtain d where slate: "file_get_tx S J f (lc_disk p) = (Inr slate, d)" using assms(3) by (cases "file_get_tx S J f (lc_disk p)") simp
  obtain b where b: "fst (read_confirmation (amount_to_hr_string E (sl_amount slate)) (tt_confirmations t)) =
      (if declined (amount_to_hr_string E (sl_amount slate)) (tt_confirmations t) then Inl CancelledError else Inr b)"
    using read_confirmation_outcome by blast
  have "\<exists>u. confirm_invoice E S J X f (t, p) =
      (if declined (amount_to_hr_string E (sl_amount slate)) (tt_confirmations t) then Inl CancelledError else Inr b, u)"
    using b assms(1) slate by (auto simp: confirm_invoice_def prompt_pay_invoice_def split: prod.split)
  then obtain u where u: "confirm_invoice E S J X f (t, p) =
      (if declined (amount_to_hr_string E (sl_amount slate)) (tt_confirmations t) then Inl CancelledError else Inr b, u)"
    by blast
  have input: "parse_required args ''input'' = Inr f" using assms(2) by (simp add: parse_required_def get_text_def)
  show ?thesis
    using assms(4) u unfolding parse_process_invoice_args_def
    by (auto simp: bindE_app input split: sum.splits if_splits)
qed

definition pay_values :: arg_values where
  "pay_values = [''minimum_confirmations'' \<mapsto> TextValue ''10'', ''selection_strategy'' \<mapsto> TextValue ''all'',
     ''estimate_selection_strategies'' \<mapsto> FlagValue False, ''method'' \<mapsto> TextValue ''file'', ''dest'' \<mapsto> TextValue ''out'',
     ''input'' \<mapsto> TextValue ''invoice'']"

text \<open>An invoice in a file, and a user who closes the input.\<close>

theorem invoice_paid_unless_declined_witness:
  "\<exists>J d a. fst (parse_process_invoice_args the_ext sample_seed J sample_cli pay_values True
     (a_terminal, provider_new d (\<lambda>_. []) (\<lambda>_ _. None))) = Inr a"
proof -
  let ?J = "two_codec the_slate (with_version 2 the_slate)"
  let ?s = "with_version 2 the_slate"
  let ?p = "provider_new \<lparr>dk_files = [(''invoice'', versioned_text ?J (into_version ?s V2))], dk_dirs = []\<rparr> (\<lambda>_. []) (\<lambda>_ _. None)"
  obtain slate where "deserialize_upgrade ?J (versioned_text ?J (into_version ?s V2)) = Inr slate"
    using versioned_text_read_v2[of ?J ?s] two_codec_ok(1) by (simp add: with_version_def)
  then have slate: "fst (file_get_tx sample_seed ?J ''invoice'' (lc_disk ?p)) = Inr slate"
    by (simp add: file_get_tx_def on_files_def io_def sample_seed_def bindE_app provider_new_def file_at_def)
  have "str_parse_uint (2 ^ 64) ''10'' = Inr 10" by (simp add: str_parse_uint_def digit_val_def Let_def)
  then have "\<exists>a. fst (parse_process_invoice_args the_ext sample_seed ?J sample_cli pay_values False (a_terminal, ?p)) = Inr a"
    by (simp add: parse_process_invoice_args_def bindE_app get_text_def get_flag_def parse_required_def pay_values_def
        parse_u64_def pay_dest_def)
  then obtain a where a: "fst (parse_process_invoice_args the_ext sample_seed ?J sample_cli pay_values False (a_terminal, ?p)) = Inr a" ..
  have "fst (parse_process_invoice_args the_ext sample_seed ?J sample_cli pay_values True (a_terminal, ?p)) = Inr a"
    using invoice_paid_unless_declined[OF _ _ slate a] by (simp add: sample_cli_def pay_values_def declined_def a_terminal_def)
  then show ?thesis by blast
qed

end
