(* ===== verification/Spec2Isabelle.thy ===== *)
theory Spec2Isabelle
  imports BackendProps SlateVersionProps SlateProps SelectionProps LockProps ListingProps CancelProps LockCancel Owner
    ScanProps EpicboxProps PaymentProofProps LifecycleProps SecureApiProps EpicboxClientProps AdapterProps OwnerProps UpdaterProps EmojiProps ConfigProps CommandProps
    ServerProps ProgramProps ArgProps
begin

text \<open>
  A model of \<open>epic-wallet\<close>: the wallet library \<open>src/libwallet\<close>, the SQLite backend, the seed and
  the transports of \<open>src/impls\<close>, and the operations that other programs reach over HTTP
  (\<open>src/api\<close>, \<open>src/controller\<close>) and the program that its user starts at the terminal (\<open>src/src\<close>), with the theorems that make them correct.

  \<^bold>\<open>The program.\<close> A wallet keeps its outputs, its transaction log, its accounts and the
  signing contexts of open transactions in one SQLite table of JSON values (\<open>Store\<close> in
  \<open>backends/db.rs\<close>), seen through \<open>LMDBBackend\<close> and its batches (\<open>backends/lmdb.rs\<close>). The
  owner's operations (\<open>api_impl/owner.rs\<close>) build a slate, select coins for it, lock them, pass
  the slate to the recipient (\<open>api_impl/foreign.rs\<close>), complete it in two signing rounds
  (\<open>slate.rs\<close>), post it, and later learn from the node what became of it
  (\<open>internal/updater.rs\<close>, \<open>internal/scan.rs\<close>). Slates travel as text in one of two versions
  (\<open>slate_versions\<close>), over epicbox inside encrypted messages (\<open>message.rs\<close>) between addresses
  (\<open>epicbox_address.rs\<close>), and a sent payment can be proved (\<open>address.rs\<close>, \<open>internal/tx.rs\<close>).
  Around the library, a provider keeps the encrypted seed and opens the wallet with it
  (\<open>lifecycle\<close>), a client asks the node over JSON-RPC (\<open>client_utils\<close>, \<open>node_clients/http.rs\<close>), a
  listener answers the relay (\<open>adapters/epicbox.rs\<close>), another wallet (\<open>api/src/foreign.rs\<close>) or the
  owner's own client over an encrypted channel (\<open>api/src/types.rs\<close>, \<open>controller.rs\<close>), and Tor is
  configured and started (\<open>tor\<close>). The \<open>Owner\<close> structure (\<open>api/src/owner.rs\<close>) puts all of this behind
  one interface, with a thread that refreshes the wallet in the background
  (\<open>api_impl/owner_updater.rs\<close>). The commands (\<open>controller/src/command.rs\<close>) open
  such an interface for a single use each; the owner's server (\<open>controller/src/controller.rs\<close>) keeps two,
  one for each version of its JSON-RPC methods (\<open>owner_rpc.rs\<close>, \<open>owner_rpc_s.rs\<close>). The program
  (\<open>bin/epic-wallet.rs\<close>, \<open>cmd/wallet.rs\<close>) reads its line and its configuration, looks whether there is
  a seed and whether the node can be used, reads the arguments of the command, asks what it
  needs at the terminal, opens the wallet and runs the command (\<open>cmd/wallet_args.rs\<close>).

  \<^bold>\<open>Values.\<close> A fixed-width integer is a word and wraps, as the release build does; \<open>usize\<close> is a
  \<open>nat\<close> whose additions and subtractions are reduced modulo \<open>2 ^ 64\<close> where they can leave the range. A
  Rust \<open>String\<close> is the list of its UTF-8 bytes. A fallible function returns a sum with the
  error on the left; a panic (an \<open>unwrap\<close>, an index out of range, a division by zero) is the
  error \<open>Panic\<close>, which no handler of the code catches. An operation on the wallet is a function
  from the wallet to a result and a wallet (\<open>op\<close> of \<open>Backend\<close>, \<open>proc\<close> of \<open>Prelude\<close>): an error
  keeps what was written before it. A batch writes through, because \<open>commit\<close> of the code does
  nothing.

  \<^bold>\<open>What is not under src/\<close> is a field of the record \<open>ext\<close> of \<open>Env\<close> (curve arithmetic, the
  keychain, hashes, the SQLite engine, files, the clock, random draws, the order of a
  \<open>HashMap\<close>, the node's answers) or of \<open>crypto_ext\<close> of \<open>Crypto\<close>. What the code relies on is a
  named predicate (\<open>keys_ok\<close>, \<open>sqlite_ok\<close>, \<open>files_ok\<close>, \<open>hash_ok\<close>, \<open>commits_ok\<close>, \<open>paths_ok\<close>,
  \<open>case_ok\<close>, \<open>base32_ok\<close>, \<open>aead_ok\<close>, \<dots>) and a hypothesis of the theorems that need it.
  \<open>WitnessEnv\<close> holds an instance of \<open>ext\<close> for which the predicates are proved, and each
  theorem with hypotheses has a witness on such an instance.

  \<^bold>\<open>The theories.\<close>

  \<^item> \<open>Prelude\<close>: words, results, operations and loops over lists; the collections the proofs share.
  \<^item> \<open>Types\<close>, \<open>SlateTypes\<close>: the records and enums of \<open>types.rs\<close>, \<open>slate.rs\<close>, \<open>error.rs\<close>; \<open>Env\<close>: \<open>ext\<close>.
  \<^item> \<open>Store\<close>: \<open>db.rs\<close>, the table as a list of rows, every statement and the retry loop of
    \<open>execute\<close>; the locale \<open>kv_store\<close> is the contract of a keyed store and the table its
    interpretation. \<open>Backend\<close>: \<open>lmdb.rs\<close>, every operation of the backend and of a batch.
    \<open>BackendInv\<close> has the invariant \<open>wallet_ok\<close> (typed values, unique keys), which every operation
    keeps; \<open>BackendSpec\<close> the abstract view, an output map \<open>out_at\<close> and a log map \<open>tx_at\<close>, and the
    locale \<open>id_counter\<close> with the two counters as its interpretations; \<open>BackendProps\<close> the properties: reachable tables
    are typed, each batch operation is one update of the abstract maps, ids are fresh, contexts
    and transactions read back, a keychain needs its mask.
  \<^item> \<open>SlateVersions\<close>, \<open>SlateVersionProps\<close>: the version 2 and 3 layouts and every conversion; the locales
    \<open>lossless\<close> and \<open>two_way\<close> state what a pair of conversions promises, and each pair interprets
    one of them. Properties: the round trips and what version 2 loses.
  \<^item> \<open>SlateModel\<close>, \<open>SlateProps\<close>: the signing rounds of \<open>slate.rs\<close>; what each round changes, what
    \<open>finalize\<close> has checked, which messages verify.
  \<^item> \<open>Keys\<close>: \<open>keys.rs\<close> and the derivation in \<open>address.rs\<close>.
  \<^item> \<open>Selection\<close>, \<open>SelectionProps\<close>, \<open>LockProps\<close>: \<open>selection.rs\<close>. The loop of
    \<open>select_coins_and_fee\<close> has fuel \<open>length (iter w) + 2\<close>; each round but the last selects more
    coins than the one before, so it is never used up, which
    \<open>select_coins_and_fee_sound\<close> includes. Change is conserved exactly when the remainder is
    smaller than the share. Locking a context is an update of the abstract maps.
  \<^item> \<open>Updater\<close>, \<open>ListingProps\<close>: \<open>updater.rs\<close>; listings, paging, the balance and what selection
    can draw on.
  \<^item> \<open>Tx\<close>, \<open>Steps\<close>, \<open>CancelProps\<close>, \<open>LockCancel\<close>: \<open>tx.rs\<close>; the locale \<open>refined_loop\<close> for loops over
    outputs whose steps refine an abstract one; what cancelling changes and refuses, and that it
    undoes a lock.
  \<^item> \<open>Scan\<close>, \<open>ScanProps\<close>: \<open>scan.rs\<close>. The collection loop has fuel \<open>2 ^ 64\<close>; the start of a page is larger than
    the one before or the loop ends, and it is a \<open>u64\<close>
    (\<open>collect_chain_outputs_complete\<close>).
  \<^item> \<open>Owner\<close>: \<open>owner.rs\<close> and \<open>foreign.rs\<close>.
  \<^item> \<open>Digits\<close>, \<open>Text\<close>: numbers in a base, and the operations of \<open>str\<close> the codecs use.
    \<open>Base58\<close>, \<open>Base58Props\<close>: \<open>base58.rs\<close>; the inner loop is a \<open>partial_function\<close>, and
    \<open>base58_encodes\<close> shows that it stops on every input.
  \<^item> \<open>Crypto\<close>, \<open>Epicbox\<close>, \<open>EpicboxProps\<close>: \<open>crypto.rs\<close>, \<open>epicbox_address.rs\<close>, \<open>message.rs\<close>,
    \<open>tx_proof.rs\<close>; round trips of hexadecimal, addresses and messages, and the inputs on which
    the parsers panic.
  \<^item> \<open>Address\<close>, \<open>PaymentProofs\<close>, \<open>PaymentProofProps\<close>: onion addresses and payment proofs.
  \<^item> \<open>Json\<close>, \<open>NodeHttp\<close>, \<open>NodeHttpProps\<close>: JSON values and requests; the node client, whose queries
    in chunks give what the node holds for each commitment.
  \<^item> \<open>Config\<close>: the sections of the configuration and their defaults.
  \<^item> \<open>Seed\<close>, \<open>Lifecycle\<close>, \<open>LifecycleProps\<close>: a \<open>disk\<close> of files and directories, the encrypted seed
    and every operation of the provider; creating opens, a change of password keeps the seed, and
    an invalid phrase leaves none. The search for a backup name has one unit of fuel more
    than there are paths on the disk, which \<open>backup_name_found\<close> shows to be enough.
  \<^item> \<open>SecureApi\<close>, \<open>SecureApiProps\<close>: the key agreement and encrypted calls of the owner's API.
  \<^item> \<open>EpicboxClient\<close>, \<open>EpicboxClientProps\<close>: the relay's protocol and what the listener does, as a list of
    actions; the listener runs over the list of events it reads, so it needs no fuel.
  \<^item> \<open>ForeignApi\<close>, \<open>Adapters\<close>, \<open>AdapterProps\<close>: what another wallet can call, the senders and slate
    files; sending over HTTP to a listener is that listener's \<open>receive_tx\<close>.
  \<^item> \<open>Tor\<close>, \<open>TorProcess\<close>, \<open>TorProps\<close>: the files written for Tor and its start.
  \<^item> \<open>Keybase\<close>, \<open>KeybaseProps\<close>: sending, polling and listening over keybase. A round of the poll sleeps a
    second, so one unit of fuel more than the seconds it may last is enough (\<open>keybase_poll_ends\<close>); the
    listener runs over the list of what it finds at its rounds.
  \<^item> \<open>OwnerApi\<close>: the \<open>Owner\<close> structure. \<open>WalletInv\<close> has the locale \<open>batch_invariant\<close>: what every write of a
    batch keeps, every operation on the wallet keeps; its interpretations are the types of the
    rows, the growth of the log and the identity of the keychain. \<open>OwnerInv\<close> carries it to the
    listeners and to the interface, and \<open>OwnerProps\<close> states it for any sequence of calls.
  \<^item> \<open>UpdaterThread\<close>, \<open>UpdaterProps\<close>: the queue of status messages, and the thread as a step relation
    whose labels are its steps and the calls of its owner.
  \<^item> \<open>ConfigFiles\<close>, \<open>ConfigProps\<close>: the files of the configuration (\<open>config.rs\<close>, \<open>comments.rs\<close>); one that was written
    is read back, and creating one never changes one that is there.
  \<^item> \<open>Emoji\<close>, \<open>EmojiProps\<close>: slates as emojis (\<open>emoji.rs\<close>), in groups of ten bits.
  \<^item> \<open>Commands\<close>, \<open>CommandSteps\<close>, \<open>CommandProps\<close>: the commands of the program (\<open>command.rs\<close>) on the two
    interfaces; what they keep of the wallet, what sending posts, and what an import adds.
  \<^item> \<open>OwnerRpc\<close>, \<open>OwnerServer\<close>, \<open>ServerProps\<close>: the methods of both versions of the owner's interface, and its
    server as a function of the events it meets: requests, steps of the updating thread, status
    messages. Requests without credentials leave no trace, and the server refines the step
    relation of \<open>UpdaterThread\<close>, whose properties so hold of it.
  \<^item> \<open>TorManager\<close>: the thread that waits for Tor and the address that is announced; waiting is
    recursion over the outcomes of its probes.
  \<^item> \<open>CommandLine\<close>, \<open>ArgParse\<close>, \<open>ArgProps\<close>: the declarations of the commands and arguments, the values a
    line can have (\<open>fits_cli\<close>), the reading of each command's arguments and the questions at the
    terminal; which lines make it panic, and when an invoice is paid.
  \<^item> \<open>Program\<close>, \<open>ProgramProps\<close>: \<open>real_main\<close> with everything it calls: any run keeps the databases typed, and
    \<open>init\<close> spares a wallet that is there.

  \<^bold>\<open>Not modelled.\<close> The JSON text of the stored values (the table holds the values themselves, so
  the quoting of \<open>put\<close> is not seen) and of requests (the derived readers and writers are parameters), log
  lines and the texts of status messages, the wallet lock (operations run one after the other),
  sockets, threads, TLS and the router, the tables on the terminal, \<open>clap\<close> and the terminal (a line is
  its values, what is typed a list), the build script, and the SOCKS handshake, which nothing
  calls. The table of glyphs of the emojis is a parameter.
\<close>

end
